(* ===== verification/OO_Prelude.thy ===== *)
theory OO_Prelude
  imports Main "HOL-Library.Word"
begin

text \<open>
  The prelude of the development: names for the fixed-width integer types of the C sources,
  unsigned 32-bit arithmetic on array indices, and the arithmetic of circular buffers. The
  contracts that several components share are in \<open>Contracts\<close>.
\<close>

unbundle bit_operations_syntax

section \<open>Machine integers\<close>

type_synonym u8 = "8 word"
type_synonym u16 = "16 word"
type_synonym u32 = "32 word"
type_synonym u64 = "64 word"

named_theorems oo_defs "definitions that proofs about concrete states unfold"
named_theorems oo_inv "preservation lemmas of the components' invariants"
named_theorems oo_flow "what the operations of the organs do to the bus they share"

text \<open>
  Array indices and counters that only serve as indices are natural numbers; where the C code
  computes with them in \<open>uint32_t\<close>, the reduction modulo \<open>2 ^ 32\<close> is written out.
\<close>

definition u32_add :: "nat \<Rightarrow> nat \<Rightarrow> nat" where
  "u32_add a b = (a + b) mod 4294967296"

definition u32_sub :: "nat \<Rightarrow> nat \<Rightarrow> nat" where
  "u32_sub a b = (a + (4294967296 - b mod 4294967296)) mod 4294967296"

definition u32_mul :: "nat \<Rightarrow> nat \<Rightarrow> nat" where
  "u32_mul a b = (a * b) mod 4294967296"

lemma u32_add_small [simp]: "a + b < 4294967296 \<Longrightarrow> u32_add a b = a + b"
  by (simp add: u32_add_def)

lemma u32_sub_small [simp]: "b \<le> a \<Longrightarrow> a < 4294967296 \<Longrightarrow> u32_sub a b = a - b"
  by (auto simp: u32_sub_def le_mod_geq)

lemma u32_mul_small [simp]: "a * b < 4294967296 \<Longrightarrow> u32_mul a b = a * b"
  by (simp add: u32_mul_def)

lemma u32_sub_add: "b < 4294967296 \<Longrightarrow> a < 4294967296 \<Longrightarrow> b \<le> a + c \<Longrightarrow> a + c - b < 4294967296
    \<Longrightarrow> u32_add (u32_sub a b) c = a + c - b"
proof -
  assume b: "b < 4294967296" and a: "a < 4294967296" and le: "b \<le> a + c"
    and lt: "a + c - b < 4294967296"
  have "u32_add (u32_sub a b) c = (a + (4294967296 - b) + c) mod 4294967296"
    using b by (simp add: u32_add_def u32_sub_def mod_add_left_eq)
  also have "a + (4294967296 - b) + c = (a + c - b) + 4294967296"
    using b le by simp
  also have "\<dots> mod 4294967296 = a + c - b" using lt by simp
  finally show ?thesis .
qed

lemma bit_word_high [simp]:
  "8 \<le> n \<Longrightarrow> \<not> bit (w8 :: u8) n" "16 \<le> n \<Longrightarrow> \<not> bit (w16 :: u16) n"
  "32 \<le> n \<Longrightarrow> \<not> bit (w32 :: u32) n" "64 \<le> n \<Longrightarrow> \<not> bit (w64 :: u64) n"
  by (auto dest: bit_imp_le_length)

lemma ucast_u8_u32_0 [simp]: "(ucast w :: u32) = 0 \<longleftrightarrow> w = 0" for w :: u8
  by (auto simp: bit_eq_iff bit_simps) (meson bit_word_high(1) not_le)

lemma unat_less_limit:
  "unat (w8 :: u8) < 256" "unat (w16 :: u16) < 65536" "unat (w32 :: u32) < 4294967296"
  "unat (w64 :: u64) < 18446744073709551616"
  by (rule less_le_trans [OF unsigned_less], simp)+

section \<open>Circular buffers\<close>

text \<open>The number of slots from index \<open>h\<close> forward to index \<open>s\<close> in a ring of \<open>c\<close> slots.\<close>

definition ring_dist :: "nat \<Rightarrow> nat \<Rightarrow> nat \<Rightarrow> nat" where
  "ring_dist c h s = (s + c - h) mod c"

lemma ring_dist_same [simp]: "h < c \<Longrightarrow> ring_dist c h h = 0"
  by (simp add: ring_dist_def)

lemma ring_dist_less: "0 < c \<Longrightarrow> ring_dist c h s < c"
  by (simp add: ring_dist_def)

lemma ring_dist_eq: "h < c \<Longrightarrow> s < c \<Longrightarrow> ring_dist c h s = (if h \<le> s then s - h else s + c - h)"
  by (auto simp: ring_dist_def le_mod_geq)

lemma mod_lt_double: "a < 2 * c \<Longrightarrow> a mod c = (if a < c then a else a - c)" for a c :: nat
  by (auto simp: le_mod_geq)

lemma ring_dist_zero: "h < c \<Longrightarrow> s < c \<Longrightarrow> ring_dist c h s = 0 \<longleftrightarrow> h = s"
  by (auto simp: ring_dist_eq)

lemma ring_dist_add: "h < c \<Longrightarrow> s < c \<Longrightarrow> (h + ring_dist c h s) mod c = s"
  by (auto simp: ring_dist_eq)

lemma ring_dist_mod_add: "h < c \<Longrightarrow> k < c \<Longrightarrow> ring_dist c h ((h + k) mod c) = k"
  by (auto simp: ring_dist_eq mod_lt_double)

lemma ring_dist_pop:
  "h < c \<Longrightarrow> s < c \<Longrightarrow> h \<noteq> s \<Longrightarrow> ring_dist c h s = Suc (ring_dist c (Suc h mod c) s)"
  by (auto simp: ring_dist_eq mod_lt_double)

lemma ring_dist_push:
  "h < c \<Longrightarrow> s < c \<Longrightarrow> Suc s mod c \<noteq> h \<Longrightarrow> ring_dist c h (Suc s mod c) = Suc (ring_dist c h s)"
  by (auto simp: ring_dist_eq mod_lt_double)

lemma ring_dist_push_full:
  "h < c \<Longrightarrow> s < c \<Longrightarrow> ring_dist c h s < c - 1 \<longleftrightarrow> Suc s mod c \<noteq> h"
  by (auto simp: ring_dist_eq mod_lt_double)

end
