(* ===== verification/United_Bus.thy ===== *)
theory United_Bus
  imports OO_Prelude
begin

text \<open>
  The united bus (\<open>united-baremetal/src/united_bus.c\<close> and its header): the ring buffer of
  globules that all organs publish to and pull from. The state is the file's static variables;
  every function of the file is a definition. \<open>blood_stream\<close> is a map from slot numbers to
  globules (the C array has 2048 slots; that no operation leaves the array is proved), ring
  indices are natural numbers with their \<open>uint32_t\<close> arithmetic written out, counters are
  32-bit words.
\<close>

section \<open>Globules and organs\<close>

datatype globule_type =
  GLOBULE_RED | GLOBULE_WHITE | GLOBULE_YELLOW | GLOBULE_GOLD | GLOBULE_SILVER | GLOBULE_PURPLE

definition ORGAN_CORTEX :: u8 where [oo_defs]: "ORGAN_CORTEX = 0"
definition ORGAN_SENSORY :: u8 where [oo_defs]: "ORGAN_SENSORY = 4"
definition ORGAN_BROADCAST :: u8 where [oo_defs]: "ORGAN_BROADCAST = 0xFF"

record globule =
  globule_id :: u32
  gtype :: globule_type
  source_organ :: u8
  target_organ :: u8
  payload_addr :: u64
  payload_size :: u32

section \<open>The state of the bus\<close>

definition BLOOD_VOLUME :: nat where [oo_defs]: "BLOOD_VOLUME = 2048"
definition BASE_CAPACITY :: nat where [oo_defs]: "BASE_CAPACITY = 1024"
definition MAX_ORGANS :: nat where [oo_defs]: "MAX_ORGANS = 16"

record united_bus =
  blood_stream :: "nat \<Rightarrow> globule"
  current_capacity :: nat
  heart_systole :: nat
  heart_diastole :: nat
  drops :: u32
  total_pumps :: u32
  organ_read_heads :: "nat \<Rightarrow> nat"
  next_globule_id :: u32

text \<open>The static initialisers of the file; \<open>mem\<close> is the zeroed array.\<close>

definition bus_boot :: "(nat \<Rightarrow> globule) \<Rightarrow> united_bus" where
  "bus_boot mem = \<lparr> blood_stream = mem, current_capacity = BASE_CAPACITY, heart_systole = 0,
     heart_diastole = 0, drops = 0, total_pumps = 0, organ_read_heads = (\<lambda>_. 0),
     next_globule_id = 1 \<rparr>"

definition united_bus_init :: "united_bus \<Rightarrow> united_bus" where
  "united_bus_init b = b\<lparr> heart_systole := 0, heart_diastole := 0,
     organ_read_heads := (\<lambda>i. if i < MAX_ORGANS then 0 else organ_read_heads b i) \<rparr>"

section \<open>Publishing\<close>

definition is_priority :: "globule_type \<Rightarrow> bool" where
  "is_priority t \<longleftrightarrow> t = GLOBULE_WHITE \<or> t = GLOBULE_YELLOW"

definition next_systole :: "united_bus \<Rightarrow> nat" where
  "next_systole b = u32_add (heart_systole b) 1 mod current_capacity b"

definition congested :: "united_bus \<Rightarrow> bool" where
  "congested b \<longleftrightarrow> next_systole b = heart_diastole b"

text \<open>
  The branch for a priority globule on a full ring: the diastole advances by one slot, and the
  loop over the organs compares every read head with the systole.
\<close>

definition evict_oldest :: "united_bus \<Rightarrow> united_bus" where
  "evict_oldest b =
     (let dia = u32_add (heart_diastole b) 1 mod current_capacity b
      in b\<lparr> heart_diastole := dia,
            organ_read_heads := (\<lambda>i. if i < MAX_ORGANS \<and> organ_read_heads b i = heart_systole b
                                     then dia else organ_read_heads b i) \<rparr>)"

definition blocked_by_barrier :: "globule \<Rightarrow> bool" where
  "blocked_by_barrier g \<longleftrightarrow> target_organ g = ORGAN_CORTEX \<and> gtype g = GLOBULE_RED
     \<and> source_organ g \<noteq> ORGAN_SENSORY"

definition dilate :: "globule_type \<Rightarrow> nat \<Rightarrow> nat" where
  "dilate t c = (if t = GLOBULE_WHITE then BLOOD_VOLUME
                 else if c > 1024 then c - 1 else c)"

text \<open>
  \<open>united_bus_pump\<close>: the next systole is computed first, from the capacity before the
  dilation; the globule is written at the old systole.
\<close>

definition united_bus_pump :: "globule \<Rightarrow> united_bus \<Rightarrow> int \<times> united_bus" where
  "united_bus_pump g b0 =
     (let b1 = b0\<lparr> total_pumps := total_pumps b0 + 1 \<rparr>;
          next = next_systole b1
      in if next = heart_diastole b1 \<and> \<not> is_priority (gtype g)
         then (-1, b1\<lparr> drops := drops b1 + 1 \<rparr>)
         else
           let b2 = (if next = heart_diastole b1 then evict_oldest b1 else b1)
           in if blocked_by_barrier g then (-2, b2\<lparr> drops := drops b2 + 1 \<rparr>)
              else (0, b2\<lparr> current_capacity := dilate (gtype g) (current_capacity b2),
                          next_globule_id := next_globule_id b2 + 1,
                          blood_stream := (blood_stream b2)
                            (heart_systole b2 := g\<lparr> globule_id := next_globule_id b2 \<rparr>),
                          heart_systole := next \<rparr>))"

section \<open>Pulling\<close>

definition addressed_to :: "u8 \<Rightarrow> globule \<Rightarrow> bool" where
  "addressed_to organ g \<longleftrightarrow> target_organ g = 0xFF \<or> target_organ g = organ"

text \<open>The loop of \<open>united_bus_absorb\<close>; it may not end, and then the result is \<open>None\<close>.\<close>

partial_function (option) absorb_loop ::
  "united_bus \<Rightarrow> u8 \<Rightarrow> int \<Rightarrow> nat \<Rightarrow> globule list \<Rightarrow> (nat \<times> globule list) option" where
  "absorb_loop b organ max_globules head out =
     (if head \<noteq> heart_systole b \<and> int (length out) < max_globules
      then absorb_loop b organ max_globules (u32_add head 1 mod current_capacity b)
             (if addressed_to organ (blood_stream b head) then out @ [blood_stream b head] else out)
      else Some (head, out))"

text \<open>The result: the globules written to the caller's buffer (their number is the C result).\<close>

definition united_bus_absorb ::
  "u8 \<Rightarrow> int \<Rightarrow> united_bus \<Rightarrow> (globule list \<times> united_bus) option" where
  "united_bus_absorb organ max_globules b =
     (if unat organ \<ge> MAX_ORGANS then Some ([], b)
      else case absorb_loop b organ max_globules (organ_read_heads b (unat organ)) [] of
             None \<Rightarrow> None
           | Some (head, out) \<Rightarrow>
               Some (out, b\<lparr> organ_read_heads := (organ_read_heads b)(unat organ := head) \<rparr>))"

section \<open>Collection, health and broadcasts\<close>

definition gc_dist :: "united_bus \<Rightarrow> nat \<Rightarrow> nat" where
  "gc_dist b h = u32_add (u32_sub (heart_systole b) h) (current_capacity b) mod current_capacity b"

definition gc_pick :: "united_bus \<Rightarrow> nat \<Rightarrow> nat \<Rightarrow> nat" where
  "gc_pick b i min_head =
     (if gc_dist b (organ_read_heads b i) > gc_dist b min_head then organ_read_heads b i
      else min_head)"

definition united_bus_gc :: "united_bus \<Rightarrow> united_bus" where
  "united_bus_gc b = b\<lparr> heart_diastole := fold (gc_pick b) [0..<MAX_ORGANS] (heart_systole b) \<rparr>"

record united_bus_health =
  h_drops :: u32
  h_total_pumps :: u32
  h_overflow_count :: u32
  h_immune_triggers :: u32
  h_pending_globules :: nat
  h_capacity :: nat

definition united_bus_get_health :: "united_bus \<Rightarrow> united_bus_health" where
  "united_bus_get_health b = \<lparr> h_drops = drops b, h_total_pumps = total_pumps b,
     h_overflow_count = drops b, h_immune_triggers = 0,
     h_pending_globules = gc_dist b (heart_diastole b), h_capacity = current_capacity b \<rparr>"

text \<open>The local \<open>globule_t\<close> has no initial id; \<open>pump\<close> overwrites it, so any value serves.\<close>

definition broadcast_globule :: "globule_type \<Rightarrow> u8 \<Rightarrow> u32 \<Rightarrow> globule" where
  "broadcast_globule t source code = \<lparr> globule_id = 0, gtype = t, source_organ = source,
     target_organ = ORGAN_BROADCAST, payload_addr = 0, payload_size = code \<rparr>"

definition united_bus_broadcast_yellow :: "u8 \<Rightarrow> u32 \<Rightarrow> united_bus \<Rightarrow> int \<times> united_bus" where
  "united_bus_broadcast_yellow source signal_code =
     united_bus_pump (broadcast_globule GLOBULE_YELLOW source signal_code)"

definition united_bus_broadcast_white :: "u8 \<Rightarrow> u32 \<Rightarrow> united_bus \<Rightarrow> int \<times> united_bus" where
  "united_bus_broadcast_white source threat_id =
     united_bus_pump (broadcast_globule GLOBULE_WHITE source threat_id)"

section \<open>Memory safety\<close>

text \<open>
  What every operation keeps: the capacity stays between the base and the volume, the systole
  never passes the capacity (it can reach it), and all indices stay inside the 2048-slot array.
\<close>

definition bus_safe :: "united_bus \<Rightarrow> bool" where
  "bus_safe b \<longleftrightarrow> 1024 \<le> current_capacity b \<and> current_capacity b \<le> 2048
     \<and> heart_systole b \<le> current_capacity b \<and> heart_systole b < 2048
     \<and> heart_diastole b < 2048 \<and> (\<forall>i<16. organ_read_heads b i < 2048)"

lemma bus_safe_boot [oo_inv]: "bus_safe (bus_boot mem)"
  by (simp add: bus_safe_def bus_boot_def oo_defs)

lemma bus_safe_init [oo_inv]: "bus_safe b \<Longrightarrow> bus_safe (united_bus_init b)"
  by (auto simp: bus_safe_def united_bus_init_def oo_defs)

lemma bus_safe_mod: "bus_safe b \<Longrightarrow> x mod current_capacity b < 2048"
  by (rule less_le_trans [OF mod_less_divisor]) (auto simp: bus_safe_def)

lemma next_systole_less: "bus_safe b \<Longrightarrow> next_systole b < current_capacity b"
  by (simp add: next_systole_def bus_safe_def)

lemma bus_safe_evict: "bus_safe b \<Longrightarrow> bus_safe (evict_oldest b)"
proof -
  assume s: "bus_safe b"
  then have "u32_add (heart_diastole b) 1 mod current_capacity b < 2048"
    by (rule bus_safe_mod)
  with s show ?thesis
    by (auto simp: bus_safe_def evict_oldest_def Let_def simp del: u32_add_small)
qed

lemma evict_oldest_frame [simp]:
  "heart_systole (evict_oldest b) = heart_systole b"
  "current_capacity (evict_oldest b) = current_capacity b"
  "blood_stream (evict_oldest b) = blood_stream b"
  "drops (evict_oldest b) = drops b"
  "total_pumps (evict_oldest b) = total_pumps b"
  "next_globule_id (evict_oldest b) = next_globule_id b"
  "next_systole (evict_oldest b) = next_systole b"
  by (simp_all add: evict_oldest_def Let_def next_systole_def)

lemma next_systole_frame [simp]:
  "next_systole (b\<lparr>total_pumps := n\<rparr>) = next_systole b"
  "next_systole (b\<lparr>drops := n\<rparr>) = next_systole b"
  by (simp_all add: next_systole_def)

lemma bus_safe_frame [simp]:
  "bus_safe (b\<lparr>total_pumps := n\<rparr>) = bus_safe b"
  "bus_safe (b\<lparr>drops := n\<rparr>) = bus_safe b"
  by (simp_all add: bus_safe_def)

lemma bus_safe_write:
  assumes "bus_safe b"
  shows "bus_safe (b\<lparr> current_capacity := dilate t (current_capacity b), next_globule_id := n,
           blood_stream := f, heart_systole := next_systole b \<rparr>)"
  using assms next_systole_less [OF assms]
  by (auto simp: bus_safe_def dilate_def BLOOD_VOLUME_def)

lemma bus_safe_pump [oo_inv]: "bus_safe b \<Longrightarrow> bus_safe (snd (united_bus_pump g b))"
proof -
  assume "bus_safe b"
  then have s1: "bus_safe (b\<lparr>total_pumps := total_pumps b + 1\<rparr>)" by simp
  note w = bus_safe_write [OF s1] bus_safe_write [OF bus_safe_evict [OF s1]]
  show ?thesis
    using s1 bus_safe_evict [OF s1] w
    by (auto simp: united_bus_pump_def Let_def simp del: bus_safe_frame(1))
qed

lemma absorb_loop_head_bound:
  assumes "absorb_loop b organ m head out = Some (h, out')" "bus_safe b" "head < 2048"
  shows "h < 2048"
proof -
  have "bus_safe b \<longrightarrow> head < 2048 \<longrightarrow> fst (h, out') < 2048"
  proof (rule absorb_loop.raw_induct [where
        P = "\<lambda>b organ m head out r. bus_safe b \<longrightarrow> head < 2048 \<longrightarrow> fst r < 2048", OF _ assms(1)],
        goal_cases)
    case (1 f b organ m head out r)
    then show ?case
      by (auto simp: bus_safe_mod simp del: u32_add_small split: if_splits)
  qed
  with assms(2,3) show ?thesis by simp
qed

lemma bus_safe_absorb [oo_inv]:
  assumes "bus_safe b" "united_bus_absorb organ m b = Some (gs, b')"
  shows "bus_safe b'"
proof (cases "unat organ < MAX_ORGANS")
  case True
  with assms(2) obtain h where
    h: "absorb_loop b organ m (organ_read_heads b (unat organ)) [] = Some (h, gs)"
    and b': "b' = b\<lparr>organ_read_heads := (organ_read_heads b)(unat organ := h)\<rparr>"
    by (auto simp: united_bus_absorb_def split: option.splits)
  have "h < 2048"
    using assms(1) True
    by (intro absorb_loop_head_bound [OF h assms(1)]) (simp add: bus_safe_def MAX_ORGANS_def)
  with assms(1) b' show ?thesis by (simp add: bus_safe_def)
next
  case False
  with assms show ?thesis by (simp add: united_bus_absorb_def)
qed

lemma fold_gc_pick_in:
  "P h0 \<Longrightarrow> (\<And>i. i \<in> set ks \<Longrightarrow> P (organ_read_heads b i)) \<Longrightarrow> P (fold (gc_pick b) ks h0)"
  by (induction ks arbitrary: h0) (simp_all add: gc_pick_def)

lemma bus_safe_gc [oo_inv]: "bus_safe b \<Longrightarrow> bus_safe (united_bus_gc b)"
  by (auto simp: bus_safe_def united_bus_gc_def MAX_ORGANS_def
      intro!: fold_gc_pick_in [where P = "\<lambda>h. h < 2048"])

section \<open>Reachable states\<close>

text \<open>One step of the bus: any call of any of its operations, by any organ.\<close>

inductive bus_step :: "united_bus \<Rightarrow> united_bus \<Rightarrow> bool" where
  step_init: "bus_step b (united_bus_init b)"
| step_pump: "bus_step b (snd (united_bus_pump g b))"
| step_absorb: "united_bus_absorb organ m b = Some (gs, b') \<Longrightarrow> bus_step b b'"
| step_gc: "bus_step b (united_bus_gc b)"

inductive bus_reachable :: "(nat \<Rightarrow> globule) \<Rightarrow> united_bus \<Rightarrow> bool" for mem where
  reach_boot: "bus_reachable mem (bus_boot mem)"
| reach_step: "bus_reachable mem b \<Longrightarrow> bus_step b b' \<Longrightarrow> bus_reachable mem b'"

lemma bus_step_safe [oo_inv]: "bus_step b b' \<Longrightarrow> bus_safe b \<Longrightarrow> bus_safe b'"
  by (induction rule: bus_step.induct) (auto intro: oo_inv)

lemma reachable_safe: "bus_reachable mem b \<Longrightarrow> bus_safe b"
  by (induction rule: bus_reachable.induct) (auto intro: oo_inv)

lemma bus_reachable_pump: "bus_reachable mem b \<Longrightarrow> bus_reachable mem (snd (united_bus_pump g b))"
  by (rule reach_step [OF _ step_pump])

end
