(* ===== verification/Bus_Delivery.thy ===== *)
theory Bus_Delivery
  imports United_Bus
begin

text \<open>
  What the bus delivers. The loop of \<open>united_bus_absorb\<close> is related to a recursion over the
  list of globules between a read head and the systole; with the base capacity and no
  congestion the ring refines one first-in-first-out mailbox per organ, stated as the locale
  \<open>mailbox\<close> and interpreted on the model of the bus. The blood-brain barrier and the
  collector of the diastole are treated here too.
\<close>

section \<open>What lies between a read head and the systole\<close>

definition ring_read :: "united_bus \<Rightarrow> nat \<Rightarrow> nat \<Rightarrow> globule list" where
  "ring_read b h k = map (\<lambda>j. blood_stream b ((h + j) mod current_capacity b)) [0..<k]"

lemma ring_read_0 [simp]: "ring_read b h 0 = []"
  by (simp add: ring_read_def)

lemma length_ring_read [simp]: "length (ring_read b h k) = k"
  by (simp add: ring_read_def)

lemma ring_read_Suc:
  assumes "h < current_capacity b"
  shows "ring_read b h (Suc k) = blood_stream b h # ring_read b (Suc h mod current_capacity b) k"
proof -
  have "[0..<Suc k] = 0 # map Suc [0..<k]" by (simp add: map_Suc_upt upt_conv_Cons)
  then show ?thesis using assms
    by (simp add: ring_read_def mod_simps)
qed

lemma ring_read_append:
  "ring_read b h (Suc k) = ring_read b h k @ [blood_stream b ((h + k) mod current_capacity b)]"
  by (simp add: ring_read_def)

definition pending_from :: "united_bus \<Rightarrow> nat \<Rightarrow> globule list" where
  "pending_from b h = ring_read b h (ring_dist (current_capacity b) h (heart_systole b))"

definition pending :: "u8 \<Rightarrow> united_bus \<Rightarrow> globule list" where
  "pending organ b = pending_from b (organ_read_heads b (unat organ))"

lemma pending_from_same [simp]:
  "heart_systole b < current_capacity b \<Longrightarrow> pending_from b (heart_systole b) = []"
  by (simp add: pending_from_def)

lemma pending_from_Cons:
  assumes "h < current_capacity b" "heart_systole b < current_capacity b" "h \<noteq> heart_systole b"
  shows "pending_from b h = blood_stream b h # pending_from b (Suc h mod current_capacity b)"
  using assms by (simp add: pending_from_def ring_dist_pop ring_read_Suc)

section \<open>The absorb loop as a recursion over that list\<close>

fun absorb_list :: "u8 \<Rightarrow> int \<Rightarrow> globule list \<Rightarrow> globule list \<Rightarrow> globule list \<times> globule list" where
  "absorb_list organ m [] out = (out, [])"
| "absorb_list organ m (g # gs) out =
     (if int (length out) < m
      then absorb_list organ m gs (if addressed_to organ g then out @ [g] else out)
      else (out, g # gs))"

lemma absorb_list_stop: "\<not> int (length out) < m \<Longrightarrow> absorb_list organ m gs out = (out, gs)"
  by (cases gs) simp_all

lemma absorb_list_all:
  "int (length out + length gs) \<le> m \<Longrightarrow>
     absorb_list organ m gs out = (out @ filter (addressed_to organ) gs, [])"
  by (induction organ m gs out rule: absorb_list.induct) auto

lemma absorb_list_split:
  "absorb_list organ m gs out = (out', rest) \<Longrightarrow>
     \<exists>k\<le>length gs. rest = drop k gs \<and> out' = out @ filter (addressed_to organ) (take k gs)
        \<and> (k < length gs \<longrightarrow> m \<le> int (length out'))"
proof (induction organ m gs out rule: absorb_list.induct)
  case (1 organ m out)
  then show ?case by simp
next
  case (2 organ m g gs out)
  show ?case
  proof (cases "int (length out) < m")
    case True
    with 2 obtain k where k: "k \<le> length gs" "rest = drop k gs"
      "out' = (if addressed_to organ g then out @ [g] else out)
        @ filter (addressed_to organ) (take k gs)"
      "k < length gs \<longrightarrow> m \<le> int (length out')"
      by auto
    then show ?thesis by (intro exI [of _ "Suc k"]) auto
  next
    case False
    with 2 show ?thesis by (intro exI [of _ 0]) auto
  qed
qed

lemma absorb_list_length:
  "absorb_list organ m gs out = (out', rest) \<Longrightarrow> int (length out) \<le> m \<Longrightarrow> int (length out') \<le> m"
  by (induction organ m gs out rule: absorb_list.induct) (auto split: if_splits)

lemma absorb_loop_list:
  assumes "heart_systole b < current_capacity b" "current_capacity b \<le> 2048"
    and "h < current_capacity b"
  shows "\<exists>h'<current_capacity b. absorb_loop b organ m h out
           = Some (h', fst (absorb_list organ m (pending_from b h) out))
         \<and> pending_from b h' = snd (absorb_list organ m (pending_from b h) out)"
  using assms(3)
proof (induction "ring_dist (current_capacity b) h (heart_systole b)" arbitrary: h out)
  case 0
  with assms(1) have "h = heart_systole b" by (simp add: ring_dist_zero [symmetric])
  with assms(1) show ?case by (auto simp: absorb_loop.simps)
next
  case (Suc d)
  let ?c = "current_capacity b"
  from Suc(2,3) assms(1) have ne: "h \<noteq> heart_systole b" by auto
  have small: "u32_add h 1 = Suc h" using Suc.prems assms(2) by simp
  have lt: "Suc h mod ?c < ?c" using Suc.prems by simp
  have d: "d = ring_dist ?c (Suc h mod ?c) (heart_systole b)"
    using Suc(2) ring_dist_pop [OF Suc.prems assms(1) ne] by simp
  show ?case
  proof (cases "int (length out) < m")
    case True
    note IH = Suc(1) [OF d lt, of "if addressed_to organ (blood_stream b h)
       then out @ [blood_stream b h] else out"]
    have "absorb_loop b organ m h out = absorb_loop b organ m (Suc h mod ?c)
       (if addressed_to organ (blood_stream b h) then out @ [blood_stream b h] else out)"
      using True ne small by (subst absorb_loop.simps) simp
    with IH True show ?thesis
      by (simp add: pending_from_Cons [OF Suc.prems assms(1) ne])
  next
    case False
    then show ?thesis
      using Suc.prems by (auto simp: absorb_loop.simps [of b organ m h] absorb_list_stop)
  qed
qed

text \<open>From any head, also one left behind by a shrinking capacity, the loop ends.\<close>

lemma absorb_loop_terminates:
  assumes "heart_systole b < current_capacity b" "current_capacity b \<le> 2048" "h < 2048"
  shows "\<exists>r. absorb_loop b organ m h out = Some r"
proof (cases "h < current_capacity b")
  case True
  with absorb_loop_list [OF assms(1,2) True] show ?thesis by blast
next
  case False
  have "u32_add h 1 mod current_capacity b < current_capacity b"
    using assms(1) by (intro mod_less_divisor) simp
  from absorb_loop_list [OF assms(1,2) this]
  have *: "\<exists>r. absorb_loop b organ m (u32_add h 1 mod current_capacity b) out = Some r" for out
    by blast
  show ?thesis
    by (subst absorb_loop.simps) (simp only: * split: if_split, simp)
qed

section \<open>The base regime\<close>

text \<open>
  With the capacity at its base, every head is at most as far behind the systole as the
  diastole: the collector establishes this, publishing without congestion and pulling keep it.
\<close>

definition steady :: "united_bus \<Rightarrow> bool" where
  "steady b \<longleftrightarrow> current_capacity b = 1024 \<and> heart_systole b < 1024 \<and> heart_diastole b < 1024
     \<and> (\<forall>i<16. organ_read_heads b i < 1024 \<and> ring_dist 1024 (organ_read_heads b i) (heart_systole b)
                 \<le> ring_dist 1024 (heart_diastole b) (heart_systole b))"

definition bus_accepts :: "globule \<Rightarrow> united_bus \<Rightarrow> bool" where
  "bus_accepts g b \<longleftrightarrow> \<not> congested b \<and> \<not> blocked_by_barrier g \<and> gtype g \<noteq> GLOBULE_WHITE"

definition stamp :: "united_bus \<Rightarrow> globule \<Rightarrow> globule" where
  "stamp b g = g\<lparr>globule_id := next_globule_id b\<rparr>"

abbreviation bus_put :: "globule \<Rightarrow> united_bus \<Rightarrow> united_bus" where
  "bus_put g b \<equiv> snd (united_bus_pump g b)"

lemma steady_boot: "steady (bus_boot mem)"
  by (simp add: steady_def bus_boot_def BASE_CAPACITY_def)

lemma steady_safe: "steady b \<Longrightarrow> bus_safe b"
  by (force simp: steady_def bus_safe_def)

lemma pump_accepted_eq:
  assumes "bus_accepts g b"
  shows "united_bus_pump g b = (0, b\<lparr> total_pumps := total_pumps b + 1,
           current_capacity := dilate (gtype g) (current_capacity b),
           next_globule_id := next_globule_id b + 1,
           blood_stream := (blood_stream b)(heart_systole b := stamp b g),
           heart_systole := next_systole b \<rparr>)"
  using assms
  by (simp add: united_bus_pump_def Let_def bus_accepts_def congested_def stamp_def)

lemma ring_read_upd_outside:
  assumes "h < current_capacity b" "k \<le> ring_dist (current_capacity b) h i" "i < current_capacity b"
  shows "map (\<lambda>j. ((blood_stream b)(i := g)) ((h + j) mod current_capacity b)) [0..<k]
       = ring_read b h k"
proof -
  have "(h + j) mod current_capacity b \<noteq> i" if "j < k" for j
  proof
    assume e: "(h + j) mod current_capacity b = i"
    have "j < current_capacity b"
      using that assms(2) ring_dist_less [of "current_capacity b" h i] assms(1) by linarith
    from ring_dist_mod_add [OF assms(1) this] e have "ring_dist (current_capacity b) h i = j"
      by simp
    with that assms(2) show False by simp
  qed
  then show ?thesis by (simp add: ring_read_def)
qed

lemma pump_accepted_steady:
  assumes "steady b" "bus_accepts g b"
  shows "steady (bus_put g b)"
    and "unat organ < 16 \<Longrightarrow> pending organ (bus_put g b) = pending organ b @ [stamp b g]"
proof -
  let ?s = "heart_systole b" and ?n = "Suc (heart_systole b) mod 1024"
  from assms(1) have c: "current_capacity b = 1024" and s: "?s < 1024"
    and d: "heart_diastole b < 1024" by (auto simp: steady_def)
  have n: "next_systole b = ?n" using s c by (simp add: next_systole_def)
  with assms(2) have nd: "?n \<noteq> heart_diastole b" by (simp add: bus_accepts_def congested_def)
  have dil: "dilate (gtype g) 1024 = 1024" using assms(2) by (simp add: dilate_def bus_accepts_def)
  have far: "?n \<noteq> organ_read_heads b i" and hl: "organ_read_heads b i < 1024" if "i < 16" for i
  proof -
    from assms(1) that show hl: "organ_read_heads b i < 1024" by (simp add: steady_def)
    from assms(1) that have "ring_dist 1024 (organ_read_heads b i) ?s \<le> ring_dist 1024 (heart_diastole b) ?s"
      by (simp add: steady_def)
    also have "\<dots> < 1024 - 1" using nd ring_dist_push_full [OF d s] by simp
    finally show "?n \<noteq> organ_read_heads b i" using ring_dist_push_full [OF hl s] by simp
  qed
  note eq = pump_accepted_eq [OF assms(2)]
  show "steady (bus_put g b)"
    using assms(1) s d nd far c
    by (auto simp: steady_def eq n dil ring_dist_push)
  assume o: "unat organ < 16"
  let ?h = "organ_read_heads b (unat organ)"
  have h: "?h < 1024" and f: "?n \<noteq> ?h" using hl far o by blast+
  have "pending organ (bus_put g b)
      = map (\<lambda>j. ((blood_stream b)(?s := stamp b g)) ((?h + j) mod 1024)) [0..<Suc (ring_dist 1024 ?h ?s)]"
    by (simp add: pending_def pending_from_def ring_read_def eq n dil c ring_dist_push [OF h s f]
        del: upt_Suc)
  also have "\<dots> = ring_read b ?h (ring_dist 1024 ?h ?s) @ [stamp b g]"
    using ring_read_upd_outside [of ?h b "ring_dist 1024 ?h ?s" ?s "stamp b g"] c h s
    by (simp add: ring_dist_add)
  finally show "pending organ (bus_put g b) = pending organ b @ [stamp b g]"
    by (simp add: pending_def pending_from_def c)
qed

lemma absorb_steady:
  assumes "steady b" "unat organ < 16"
  shows "\<exists>b'. united_bus_absorb organ m b
           = Some (fst (absorb_list organ m (pending organ b) []), b') \<and> steady b'
       \<and> pending organ b' = snd (absorb_list organ m (pending organ b) [])
       \<and> (\<forall>p. unat p < 16 \<longrightarrow> p \<noteq> organ \<longrightarrow> pending p b' = pending p b)"
proof -
  let ?h = "organ_read_heads b (unat organ)" and ?s = "heart_systole b"
  from assms have c: "current_capacity b = 1024" and s: "?s < 1024" and h: "?h < 1024"
    by (auto simp: steady_def)
  obtain h' where h': "h' < 1024"
    and loop: "absorb_loop b organ m ?h [] = Some (h', fst (absorb_list organ m (pending organ b) []))"
    and rest: "pending_from b h' = snd (absorb_list organ m (pending organ b) [])"
    using absorb_loop_list [of b ?h organ m "[]"] c s h by (auto simp: pending_def)
  obtain k where "snd (absorb_list organ m (pending organ b) []) = drop k (pending organ b)"
    using absorb_list_split [of organ m "pending organ b" "[]"] by (metis prod.collapse)
  with rest have "length (pending_from b h') \<le> length (pending organ b)" by simp
  then have le: "ring_dist 1024 h' ?s \<le> ring_dist 1024 ?h ?s"
    by (simp add: pending_from_def pending_def c)
  let ?b = "b\<lparr>organ_read_heads := (organ_read_heads b)(unat organ := h')\<rparr>"
  have "steady ?b"
    using assms h' le by (auto simp: steady_def intro: order_trans)
  moreover have "pending organ ?b = snd (absorb_list organ m (pending organ b) [])"
    using rest by (simp add: pending_def pending_from_def ring_read_def)
  moreover have "pending p ?b = pending p b" if "p \<noteq> organ" for p
    using that by (simp add: pending_def pending_from_def ring_read_def word_unat_eq_iff)
  ultimately show ?thesis
    using loop assms(2) by (auto simp: united_bus_absorb_def MAX_ORGANS_def)
qed

lemma length_pending_steady: "steady b \<Longrightarrow> unat organ < 16 \<Longrightarrow> length (pending organ b) < 1024"
  by (simp add: pending_def pending_from_def steady_def ring_dist_less)

section \<open>The mailbox contract\<close>

text \<open>
  What a client of a publish/pull channel relies on: publishing an accepted message appends it
  to every reader's queue, pulling hands over the messages addressed to the reader, in order,
  and leaves the other readers' queues alone.
\<close>

locale mailbox =
  fixes inv :: "'s \<Rightarrow> bool" and accepts :: "'m \<Rightarrow> 's \<Rightarrow> bool" and put :: "'m \<Rightarrow> 's \<Rightarrow> 's"
    and mark :: "'s \<Rightarrow> 'm \<Rightarrow> 'm" and get :: "'r \<Rightarrow> 's \<Rightarrow> ('m list \<times> 's) option"
    and queue :: "'r \<Rightarrow> 's \<Rightarrow> 'm list" and mine :: "'r \<Rightarrow> 'm \<Rightarrow> bool" and reader :: "'r \<Rightarrow> bool"
  assumes put_inv: "inv s \<Longrightarrow> accepts m s \<Longrightarrow> inv (put m s)"
    and put_queue: "inv s \<Longrightarrow> accepts m s \<Longrightarrow> reader r \<Longrightarrow> queue r (put m s) = queue r s @ [mark s m]"
    and mine_mark: "mine r (mark s m) = mine r m"
    and get_all: "inv s \<Longrightarrow> reader r \<Longrightarrow> \<exists>s'. get r s = Some (filter (mine r) (queue r s), s')
      \<and> inv s' \<and> queue r s' = [] \<and> (\<forall>p. reader p \<longrightarrow> p \<noteq> r \<longrightarrow> queue p s' = queue p s)"
begin

primrec accepted_run :: "'s \<Rightarrow> 'm list \<Rightarrow> bool" where
  "accepted_run s [] = True"
| "accepted_run s (m # ms) = (accepts m s \<and> accepted_run (put m s) ms)"

primrec marked :: "'s \<Rightarrow> 'm list \<Rightarrow> 'm list" where
  "marked s [] = []"
| "marked s (m # ms) = mark s m # marked (put m s) ms"

lemma run_inv: "inv s \<Longrightarrow> accepted_run s ms \<Longrightarrow> inv (fold put ms s)"
  by (induction ms arbitrary: s) (auto intro: put_inv)

lemma run_queue:
  "inv s \<Longrightarrow> accepted_run s ms \<Longrightarrow> reader r \<Longrightarrow> queue r (fold put ms s) = queue r s @ marked s ms"
  by (induction ms arbitrary: s) (auto simp: put_queue put_inv)

lemma length_filter_marked: "length (filter (mine r) (marked s ms)) = length (filter (mine r) ms)"
  by (induction ms arbitrary: s) (auto simp: mine_mark)

lemma deliver:
  assumes "inv s" "accepted_run s ms" "reader r"
  shows "\<exists>s'. get r (fold put ms s) = Some (filter (mine r) (queue r s @ marked s ms), s')
    \<and> queue r s' = [] \<and> inv s'"
  using get_all [OF run_inv [OF assms(1,2)] assms(3)] run_queue [OF assms] by auto

text \<open>A reader that has pulled gets nothing a second time.\<close>

lemma get_once:
  assumes "inv s" "reader r" "get r s = Some (ms, s')"
  shows "\<exists>s''. get r s' = Some ([], s'')"
  using get_all [OF assms(1,2)] get_all [OF _ assms(2)] assms(3) by fastforce

end

definition bus_reader :: "u8 \<Rightarrow> bool" where
  "bus_reader organ \<longleftrightarrow> unat organ < MAX_ORGANS"

interpretation bus_mail: mailbox steady bus_accepts bus_put stamp
  "\<lambda>organ. united_bus_absorb organ 1024" pending addressed_to bus_reader
proof (unfold_locales, goal_cases)
  case (1 s m)
  then show ?case by (rule pump_accepted_steady(1))
next
  case (2 s m r)
  then show ?case by (simp add: pump_accepted_steady(2) bus_reader_def MAX_ORGANS_def)
next
  case (3 r s m)
  show ?case by (simp add: addressed_to_def stamp_def)
next
  case (4 s r)
  then have r: "unat r < 16" by (simp add: bus_reader_def MAX_ORGANS_def)
  from length_pending_steady [OF 4(1) r] have "absorb_list r 1024 (pending r s) []
      = (filter (addressed_to r) (pending r s), [])"
    by (subst absorb_list_all) simp_all
  with absorb_steady [OF 4(1) r, of 1024] show ?case
    by (auto simp: bus_reader_def MAX_ORGANS_def)
qed

text \<open>The ids the bus gives to a run of accepted globules.\<close>

fun number_from :: "u32 \<Rightarrow> globule list \<Rightarrow> globule list" where
  "number_from n [] = []"
| "number_from n (g # gs) = g\<lparr>globule_id := n\<rparr> # number_from (n + 1) gs"

lemma marked_number_from:
  "bus_mail.accepted_run b gs \<Longrightarrow> bus_mail.marked b gs = number_from (next_globule_id b) gs"
  by (induction gs arbitrary: b) (auto simp: stamp_def pump_accepted_eq)

section \<open>The collector\<close>

lemma fold_gc_pick_max:
  "gc_dist b h0 \<le> gc_dist b (fold (gc_pick b) ks h0)
   \<and> (\<forall>i\<in>set ks. gc_dist b (organ_read_heads b i) \<le> gc_dist b (fold (gc_pick b) ks h0))"
proof (induction ks arbitrary: h0)
  case Nil
  then show ?case by simp
next
  case (Cons i ks)
  have "gc_dist b h0 \<le> gc_dist b (gc_pick b i h0)"
    "gc_dist b (organ_read_heads b i) \<le> gc_dist b (gc_pick b i h0)"
    by (simp_all add: gc_pick_def)
  with Cons [of "gc_pick b i h0"] show ?case by (auto intro: order_trans)
qed

lemma gc_dist_ring:
  assumes "current_capacity b = 1024" "heart_systole b < 1024" "h < 1024"
  shows "gc_dist b h = ring_dist 1024 h (heart_systole b)"
  using assms by (simp add: gc_dist_def ring_dist_def u32_sub_add)

definition base_regime :: "united_bus \<Rightarrow> bool" where
  "base_regime b \<longleftrightarrow> current_capacity b = 1024 \<and> heart_systole b < 1024
     \<and> (\<forall>i<16. organ_read_heads b i < 1024)"

lemma steady_base: "steady b \<Longrightarrow> base_regime b"
  by (simp add: steady_def base_regime_def)

lemma gc_diastole_in:
  assumes "base_regime b"
  shows "heart_diastole (united_bus_gc b) < 1024"
  using assms by (auto simp: united_bus_gc_def MAX_ORGANS_def base_regime_def
      intro!: fold_gc_pick_in [where P = "\<lambda>h. h < 1024"])

lemma gc_steady:
  assumes "base_regime b"
  shows "steady (united_bus_gc b)"
proof -
  let ?d = "heart_diastole (united_bus_gc b)"
  have d: "?d < 1024" by (rule gc_diastole_in [OF assms])
  have "gc_dist b (organ_read_heads b i) \<le> gc_dist b ?d" if "i < 16" for i
    using fold_gc_pick_max [of b "heart_systole b" "[0..<16]"] that
    by (simp add: united_bus_gc_def MAX_ORGANS_def)
  then show ?thesis
    using assms d by (auto simp: steady_def base_regime_def gc_dist_ring united_bus_gc_def)
qed

lemma gc_pending [simp]: "pending organ (united_bus_gc b) = pending organ b"
  by (simp add: pending_def pending_from_def ring_read_def united_bus_gc_def)

lemma gc_diastole_head:
  "heart_diastole (united_bus_gc b) = heart_systole b
    \<or> (\<exists>i<16. heart_diastole (united_bus_gc b) = organ_read_heads b i)"
proof -
  let ?P = "\<lambda>h. h = heart_systole b \<or> (\<exists>i<16. h = organ_read_heads b i)"
  have "?P (fold (gc_pick b) [0..<16] (heart_systole b))"
    by (rule fold_gc_pick_in [where P = ?P]) auto
  then show ?thesis by (simp add: united_bus_gc_def MAX_ORGANS_def)
qed

section \<open>The blood-brain barrier\<close>

definition barrier_ok :: "united_bus \<Rightarrow> bool" where
  "barrier_ok b \<longleftrightarrow> (\<forall>i. \<not> blocked_by_barrier (blood_stream b i))"

lemma blocked_stamp [simp]: "blocked_by_barrier (g\<lparr>globule_id := n\<rparr>) = blocked_by_barrier g"
  by (simp add: blocked_by_barrier_def)

lemma barrier_step [oo_inv]: "bus_step b b' \<Longrightarrow> barrier_ok b \<Longrightarrow> barrier_ok b'"
proof (induction rule: bus_step.induct)
  case (step_absorb organ m b gs b')
  then show ?case
    by (auto simp: united_bus_absorb_def barrier_ok_def split: if_splits option.splits)
qed (auto simp: barrier_ok_def united_bus_init_def united_bus_gc_def united_bus_pump_def Let_def)

lemma reachable_barrier:
  "bus_reachable mem b \<Longrightarrow> (\<And>i. \<not> blocked_by_barrier (mem i)) \<Longrightarrow> barrier_ok b"
proof (induction rule: bus_reachable.induct)
  case reach_boot
  then show ?case by (simp add: barrier_ok_def bus_boot_def)
next
  case (reach_step b b')
  then show ?case by (auto intro: barrier_step)
qed

lemma absorb_loop_from_ring:
  assumes "absorb_loop b organ m h out = Some (h', out')"
  shows "set out' \<subseteq> set out \<union> (range (blood_stream b) \<inter> Collect (addressed_to organ))"
proof -
  have "set (snd (h', out')) \<subseteq> set out \<union> (range (blood_stream b) \<inter> Collect (addressed_to organ))"
    by (rule absorb_loop.raw_induct [where P = "\<lambda>b organ m h out r. set (snd r) \<subseteq> set out
        \<union> (range (blood_stream b) \<inter> Collect (addressed_to organ))", OF _ assms])
      (force split: if_splits)
  then show ?thesis by simp
qed

lemma absorb_from_ring:
  assumes "united_bus_absorb organ m b = Some (gs, b')" "g \<in> set gs"
  shows "g \<in> range (blood_stream b) \<and> addressed_to organ g"
  using assms absorb_loop_from_ring [of b organ m "organ_read_heads b (unat organ)" "[]"]
  by (fastforce simp: united_bus_absorb_def split: if_splits option.splits)

end
