(* ===== verification/Bus_Faults.thy ===== *)
theory Bus_Faults
  imports Bus_Delivery
begin

text \<open>
  The two situations in which the ring of \<open>united_bus.c\<close> leaves its contract: a dilation
  followed by the slow retraction of the capacity lets the systole meet the capacity, where
  \<open>united_bus_absorb\<close> runs round the ring for ever; and a priority globule pumped into a full
  ring swaps the readers that are up to date with those that are behind. The properties of the
  bus close the theory.
\<close>

section \<open>A systole equal to the capacity\<close>

lemma absorb_loop_stuck:
  assumes "heart_systole b = current_capacity b" "current_capacity b \<le> 2048"
    and "head < current_capacity b" "int (length out) < m"
    and "\<And>i. i < current_capacity b \<Longrightarrow> \<not> addressed_to organ (blood_stream b i)"
  shows "absorb_loop b organ m head out = None"
proof (rule ccontr)
  let ?bad = "\<lambda>b organ m head out. heart_systole b = current_capacity b \<and> head < current_capacity b
    \<and> int (length out) < m \<and> (\<forall>i<current_capacity b. \<not> addressed_to organ (blood_stream b i))"
  assume "absorb_loop b organ m head out \<noteq> None"
  then obtain r where r: "absorb_loop b organ m head out = Some r" by auto
  have "\<not> ?bad b organ m head out"
    by (rule absorb_loop.raw_induct [where P = "\<lambda>b organ m head out r. \<not> ?bad b organ m head out", OF _ r])
      (auto split: if_splits simp del: u32_add_small)
  with assms show False by simp
qed

definition stray :: "globule_type \<Rightarrow> globule" where
  "stray t = \<lparr> globule_id = 0, gtype = t, source_organ = 1, target_organ = 7,
     payload_addr = 0, payload_size = 0 \<rparr>"

text \<open>One yellow and one white globule, then red ones; all of them for organ 7.\<close>

primrec stray_traffic :: "nat \<Rightarrow> united_bus \<Rightarrow> united_bus" where
  "stray_traffic 0 b = bus_put (stray GLOBULE_WHITE) (bus_put (stray GLOBULE_YELLOW) b)"
| "stray_traffic (Suc k) b = bus_put (stray GLOBULE_RED) (stray_traffic k b)"

lemma stray_traffic_reachable: "bus_reachable mem b \<Longrightarrow> bus_reachable mem (stray_traffic k b)"
  by (induction k) (auto intro: bus_reachable_pump)

lemma stray_pump:
  assumes "next_systole b \<noteq> heart_diastole b"
  shows "bus_put (stray t) b = b\<lparr> total_pumps := total_pumps b + 1,
           current_capacity := dilate t (current_capacity b),
           next_globule_id := next_globule_id b + 1,
           blood_stream := (blood_stream b)
             (heart_systole b := (stray t)\<lparr>globule_id := next_globule_id b\<rparr>),
           heart_systole := next_systole b \<rparr>"
  using assms by (simp add: united_bus_pump_def Let_def stray_def blocked_by_barrier_def oo_defs)

lemma target_stray [simp]: "target_organ (stray t) = 7"
  by (simp add: stray_def)

lemma stray_traffic_state:
  "k \<le> 1023 \<Longrightarrow> let b = stray_traffic k (bus_boot mem) in
     current_capacity b = 2048 - k \<and> heart_systole b = k + 2 \<and> heart_diastole b = 0
     \<and> organ_read_heads b = (\<lambda>_. 0) \<and> (\<forall>i<k + 2. target_organ (blood_stream b i) = 7)"
proof (induction k)
  case 0
  have y: "bus_put (stray GLOBULE_YELLOW) (bus_boot mem) = (bus_boot mem)
     \<lparr> total_pumps := 1, next_globule_id := 2, heart_systole := 1,
       blood_stream := mem (0 := (stray GLOBULE_YELLOW)\<lparr>globule_id := 1\<rparr>) \<rparr>" (is "_ = ?b1")
    by (subst stray_pump) (simp_all add: next_systole_def bus_boot_def dilate_def BASE_CAPACITY_def)
  have "bus_put (stray GLOBULE_WHITE) ?b1 = ?b1
     \<lparr> total_pumps := 2, current_capacity := 2048, next_globule_id := 3, heart_systole := 2,
       blood_stream := (blood_stream ?b1) (1 := (stray GLOBULE_WHITE)\<lparr>globule_id := 2\<rparr>) \<rparr>"
    by (subst stray_pump) (simp_all add: next_systole_def bus_boot_def dilate_def BASE_CAPACITY_def BLOOD_VOLUME_def)
  then show ?case
    unfolding stray_traffic.simps y
    by (simp add: bus_boot_def Let_def less_2_cases_iff all_conj_distrib)
next
  case (Suc k)
  let ?b = "stray_traffic k (bus_boot mem)"
  from Suc have b: "current_capacity ?b = 2048 - k" "heart_systole ?b = k + 2"
    "heart_diastole ?b = 0" "organ_read_heads ?b = (\<lambda>_. 0)"
    "\<forall>i<k + 2. target_organ (blood_stream ?b i) = 7" by (auto simp: Let_def)
  have n: "next_systole ?b = k + 3" using b Suc.prems by (simp add: next_systole_def)
  show ?case
    using b Suc.prems
    by (simp add: stray_pump n dilate_def Let_def less_Suc_eq all_conj_distrib)
qed

section \<open>A priority globule on a full ring\<close>

lemma congested_steady:
  assumes "steady b" "congested b"
  shows "heart_diastole b = Suc (heart_systole b) mod 1024"
  using assms by (simp add: congested_def next_systole_def steady_def)

lemma pump_yellow_congested:
  assumes "steady b" "congested b" "gtype g = GLOBULE_YELLOW"
  defines "d \<equiv> heart_diastole b"
  shows "fst (united_bus_pump g b) = 0"
    and "current_capacity (bus_put g b) = 1024"
    and "heart_systole (bus_put g b) = d"
    and "heart_diastole (bus_put g b) = Suc d mod 1024"
    and "organ_read_heads (bus_put g b) =
      (\<lambda>i. if i < 16 \<and> organ_read_heads b i = heart_systole b then Suc d mod 1024
           else organ_read_heads b i)"
  using assms
  by (simp_all add: united_bus_pump_def Let_def congested_def blocked_by_barrier_def is_priority_def
      evict_oldest_def dilate_def steady_def MAX_ORGANS_def fun_eq_iff)

lemma length_pending:
  "length (pending organ b)
     = ring_dist (current_capacity b) (organ_read_heads b (unat organ)) (heart_systole b)"
  by (simp add: pending_def pending_from_def)

lemma ring_dist_around: "h < 1024 \<Longrightarrow> ring_dist 1024 (Suc h mod 1024) h = 1023"
  by (auto simp: ring_dist_eq mod_lt_double)

section \<open>Slots that nobody has written\<close>

text \<open>The loop passes over slots that are not for the organ.\<close>

lemma absorb_loop_skip:
  assumes "k \<le> current_capacity b" "current_capacity b \<le> 2048" "int (length out) < m"
    and "\<And>i. h \<le> i \<Longrightarrow> i < k \<Longrightarrow> i \<noteq> heart_systole b \<and> \<not> addressed_to organ (blood_stream b i)"
    and "h \<le> k" "k < current_capacity b"
  shows "absorb_loop b organ m h out = absorb_loop b organ m k out"
  using assms(4,5)
proof (induction "k - h" arbitrary: h)
  case (Suc d)
  have h: "h < k" "Suc h \<le> k" "d = k - Suc h" using Suc.hyps(2) by auto
  have "absorb_loop b organ m h out = absorb_loop b organ m (Suc h) out"
    using Suc.prems(1) [of h] h(1) assms by (subst absorb_loop.simps) simp
  also have "\<dots> = absorb_loop b organ m k out"
    using h Suc.prems by (intro Suc.hyps(1)) auto
  finally show ?case .
qed simp

definition red_run :: "nat \<Rightarrow> united_bus \<Rightarrow> united_bus" where
  "red_run k b = fold bus_put (replicate k (stray GLOBULE_RED)) b"

lemma red_run_state:
  "k \<le> 1023 \<Longrightarrow> let b = red_run k (bus_boot mem) in
     current_capacity b = 1024 \<and> heart_systole b = k \<and> heart_diastole b = 0
     \<and> organ_read_heads b = (\<lambda>_. 0) \<and> (\<forall>i<k. target_organ (blood_stream b i) = 7)
     \<and> (\<forall>i\<ge>k. blood_stream b i = mem i)"
proof (induction k)
  case 0
  then show ?case by (simp add: red_run_def bus_boot_def BASE_CAPACITY_def)
next
  case (Suc k)
  let ?b = "red_run k (bus_boot mem)"
  have s: "red_run (Suc k) (bus_boot mem) = bus_put (stray GLOBULE_RED) ?b"
    by (simp add: red_run_def replicate_append_same [symmetric] del: replicate.simps)
  from Suc have b: "current_capacity ?b = 1024" "heart_systole ?b = k" "heart_diastole ?b = 0"
    "organ_read_heads ?b = (\<lambda>_. 0)" "\<forall>i<k. target_organ (blood_stream ?b i) = 7"
    "\<forall>i\<ge>k. blood_stream ?b i = mem i" by (auto simp: Let_def)
  have n: "next_systole ?b = Suc k" using b Suc.prems by (simp add: next_systole_def)
  show ?case
    using b Suc.prems unfolding s
    by (simp add: stray_pump n dilate_def Let_def less_Suc_eq all_conj_distrib)
qed

lemma white_on_full:
  assumes "heart_systole b < current_capacity b" "current_capacity b \<le> 2048" "congested b"
  shows "bus_put (stray GLOBULE_WHITE) b = (evict_oldest b)\<lparr> total_pumps := total_pumps b + 1,
     current_capacity := 2048, next_globule_id := next_globule_id b + 1,
     blood_stream := (blood_stream b)(heart_systole b := (stray GLOBULE_WHITE)\<lparr> globule_id := next_globule_id b \<rparr>),
     heart_systole := heart_diastole b \<rparr>"
  using assms
  by (simp add: united_bus_pump_def Let_def congested_def is_priority_def evict_oldest_def next_systole_def
      blocked_by_barrier_def stray_def dilate_def BLOOD_VOLUME_def cong: if_cong)

text \<open>A full ring of globules for organ 7, then two alerts for organ 7.\<close>

definition two_alerts :: "united_bus \<Rightarrow> united_bus" where
  "two_alerts b = bus_put (stray GLOBULE_WHITE) (bus_put (stray GLOBULE_WHITE) (red_run 1023 b))"

lemma two_alerts_state:
  "let b = two_alerts (bus_boot mem) in
     current_capacity b = 2048 \<and> heart_systole b = 1 \<and> organ_read_heads b 0 = 2
     \<and> (\<forall>i\<in>{2..<1024}. target_organ (blood_stream b i) = 7) \<and> blood_stream b 1024 = mem 1024"
proof -
  define b0 where "b0 = red_run 1023 (bus_boot mem)"
  have b0: "current_capacity b0 = 1024" "heart_systole b0 = 1023" "heart_diastole b0 = 0"
    "organ_read_heads b0 = (\<lambda>_. 0)" "\<forall>i<1023. target_organ (blood_stream b0 i) = 7"
    "blood_stream b0 1024 = mem 1024"
    using red_run_state [of 1023 mem] by (simp_all add: Let_def b0_def)
  define b1 where "b1 = bus_put (stray GLOBULE_WHITE) b0"
  have "congested b0" using b0 by (simp add: congested_def next_systole_def)
  then have b1: "current_capacity b1 = 2048" "heart_systole b1 = 0" "heart_diastole b1 = 1"
    "organ_read_heads b1 = (\<lambda>_. 0)" "\<forall>i<1024. target_organ (blood_stream b1 i) = 7"
    "blood_stream b1 1024 = mem 1024"
    using b0 by (simp_all add: b1_def white_on_full evict_oldest_def MAX_ORGANS_def less_Suc_eq)
  then have "congested b1" by (simp add: congested_def next_systole_def)
  with b1 have "let b = bus_put (stray GLOBULE_WHITE) b1 in
     current_capacity b = 2048 \<and> heart_systole b = 1 \<and> organ_read_heads b 0 = 2
     \<and> (\<forall>i\<in>{2..<1024}. target_organ (blood_stream b i) = 7) \<and> blood_stream b 1024 = mem 1024"
    by (simp add: white_on_full evict_oldest_def MAX_ORGANS_def Let_def)
  then show ?thesis by (simp add: two_alerts_def b1_def b0_def)
qed

section \<open>Runs of accepted globules\<close>

primrec all_accepted :: "united_bus \<Rightarrow> globule list \<Rightarrow> bool" where
  "all_accepted b [] = True"
| "all_accepted b (g # gs) = (bus_accepts g b \<and> all_accepted (bus_put g b) gs)"

lemma all_accepted_run: "all_accepted b gs = bus_mail.accepted_run b gs"
  by (induction gs arbitrary: b) simp_all

lemma bus_accepted_red:
  assumes "target_organ g \<noteq> ORGAN_CORTEX" "gtype g \<noteq> GLOBULE_WHITE"
    and "Suc (heart_systole b) mod 1024 \<noteq> heart_diastole b" "steady b"
  shows "bus_accepts g b"
  using assms by (simp add: bus_accepts_def congested_def next_systole_def steady_def
      blocked_by_barrier_def)

definition empty_ring :: "nat \<Rightarrow> globule" where
  "empty_ring = (\<lambda>_. stray GLOBULE_YELLOW)"

lemma barrier_empty_ring: "\<not> blocked_by_barrier (empty_ring i)"
  by (simp add: empty_ring_def stray_def blocked_by_barrier_def)

section \<open>Properties of the bus\<close>

text \<open>
  C5: delivery in the base regime: the capacity is 1024, all indices are below it, and no reader is
  further behind than the diastole. There, once globules have been pumped one after another of which
  none is white, none is refused by the blood-brain barrier and none meets a full ring, an organ's next
  \<open>united_bus_absorb\<close> with room for 1024 returns exactly what was pending for it followed by the new
  globules, restricted to those addressed to the organ or broadcast, in the order of publication and
  with consecutive ids; its queue is then empty and the regime holds again. Nothing is claimed for a
  ring that a white globule has dilated or that priority globules have overfilled.
\<close>

theorem bus_fifo_delivery:
  assumes "steady b" "all_accepted b gs" "unat organ < 16"
  shows "\<exists>b'. united_bus_absorb organ 1024 (fold bus_put gs b)
      = Some (filter (addressed_to organ) (pending organ b @ number_from (next_globule_id b) gs), b')
    \<and> pending organ b' = [] \<and> steady b'"
proof -
  have run: "bus_mail.accepted_run b gs" using assms(2) by (simp add: all_accepted_run)
  have r: "bus_reader organ" using assms(3) by (simp add: bus_reader_def MAX_ORGANS_def)
  from bus_mail.deliver [OF assms(1) run r] show ?thesis
    by (auto simp: marked_number_from [OF run])
qed

lemma bus_fifo_delivery_witness:
  "\<exists>b'. united_bus_absorb 7 1024 (fold bus_put [stray GLOBULE_RED] (bus_boot empty_ring))
      = Some ([(stray GLOBULE_RED)\<lparr>globule_id := 1\<rparr>], b') \<and> pending 7 b' = [] \<and> steady b'"
proof -
  have acc: "all_accepted (bus_boot empty_ring) [stray GLOBULE_RED]"
    using steady_boot by (simp add: bus_accepted_red stray_def bus_boot_def oo_defs)
  have "pending 7 (bus_boot empty_ring) = []"
    by (simp add: pending_def pending_from_def bus_boot_def oo_defs)
  moreover have "next_globule_id (bus_boot empty_ring) = 1" by (simp add: bus_boot_def)
  ultimately show ?thesis
    using bus_fifo_delivery [OF steady_boot acc, of 7] by (simp add: addressed_to_def)
qed

text \<open>
  C6: whatever sequence of pumps, absorbs, collections and re-initialisations has run since
  boot, every index of the bus stays inside the 2048-slot array and the capacity stays between
  1024 and 2048, so no call reads or writes outside \<open>blood_stream\<close> and no reduction divides
  by zero.
\<close>

theorem bus_memory_safety:
  assumes "bus_reachable mem b"
  shows "1024 \<le> current_capacity b \<and> current_capacity b \<le> 2048 \<and> heart_systole b < 2048
    \<and> heart_diastole b < 2048 \<and> (\<forall>i<16. organ_read_heads b i < 2048)"
  using reachable_safe [OF assms] by (simp add: bus_safe_def)

lemma bus_memory_safety_witness:
  "current_capacity (united_bus_gc (stray_traffic 2 (bus_boot empty_ring))) \<le> 2048"
  by (rule bus_memory_safety [THEN conjunct2, THEN conjunct1])
    (blast intro: reach_step [OF _ step_gc] stray_traffic_reachable reach_boot)

text \<open>
  an organ that pulls with a limit gets a prefix of its queue, never more than the limit,
  and keeps the rest; the queues of all other organs are untouched.
\<close>

theorem bus_absorb_prefix:
  assumes "steady b" "unat organ < 16" "0 \<le> m"
  shows "\<exists>b' k. united_bus_absorb organ m b
        = Some (filter (addressed_to organ) (take k (pending organ b)), b')
    \<and> pending organ b' = drop k (pending organ b)
    \<and> int (length (filter (addressed_to organ) (take k (pending organ b)))) \<le> m
    \<and> (\<forall>p. unat p < 16 \<longrightarrow> p \<noteq> organ \<longrightarrow> pending p b' = pending p b) \<and> steady b'"
proof -
  obtain out rest where o: "absorb_list organ m (pending organ b) [] = (out, rest)"
    by (meson surj_pair)
  from absorb_list_split [OF o] obtain k where
    k: "rest = drop k (pending organ b)" "out = filter (addressed_to organ) (take k (pending organ b))"
    by auto
  have "int (length out) \<le> m" using absorb_list_length [OF o] assms(3) by simp
  with k absorb_steady [OF assms(1,2), of m] o show ?thesis by auto
qed

lemma bus_absorb_prefix_witness:
  "\<exists>b' k. united_bus_absorb 3 0 (bus_boot empty_ring)
        = Some (filter (addressed_to 3) (take k (pending 3 (bus_boot empty_ring))), b')
    \<and> int (length (filter (addressed_to 3) (take k (pending 3 (bus_boot empty_ring))))) \<le> 0"
  using bus_absorb_prefix [OF steady_boot [of empty_ring], of 3 0] by auto

text \<open>
  the collector moves the diastole to the read head that is farthest behind, which
  establishes the base regime from any state with the base capacity, and it changes no queue.
\<close>

theorem bus_gc_establishes_steady:
  assumes "base_regime b"
  shows "steady (united_bus_gc b) \<and> pending organ (united_bus_gc b) = pending organ b
    \<and> (heart_diastole (united_bus_gc b) = heart_systole b
       \<or> (\<exists>i<16. heart_diastole (united_bus_gc b) = organ_read_heads b i))"
  using gc_steady [OF assms] gc_pending gc_diastole_head by blast

lemma bus_gc_establishes_steady_witness: "steady (united_bus_gc (bus_boot empty_ring))"
  using bus_gc_establishes_steady [OF steady_base [OF steady_boot]] by blast

text \<open>
  the result of every pump. A non-priority globule on a full ring is refused with -1, red
  data for the cortex that does not come from the sensory organ with -2, everything else is
  accepted with 0; each call counts as a pump and exactly the refused ones count as drops.
\<close>

theorem bus_pump_result:
  "fst (united_bus_pump g b) =
     (if congested b \<and> gtype g \<noteq> GLOBULE_WHITE \<and> gtype g \<noteq> GLOBULE_YELLOW then -1
      else if target_organ g = 0 \<and> gtype g = GLOBULE_RED \<and> source_organ g \<noteq> 4 then -2 else 0)
   \<and> total_pumps (bus_put g b) = total_pumps b + 1
   \<and> drops (bus_put g b) = drops b + (if fst (united_bus_pump g b) = 0 then 0 else 1)"
  by (auto simp: united_bus_pump_def Let_def congested_def is_priority_def blocked_by_barrier_def
      oo_defs)

text \<open>
  C9: the blood-brain barrier. In no reachable state does the cortex pull a red globule that is
  addressed to it by an organ other than the sensory one; red globules from other organs reach
  it only as broadcasts.
\<close>

theorem bus_cortex_barrier:
  assumes "bus_reachable mem b" "\<And>i. \<not> blocked_by_barrier (mem i)"
    and "united_bus_absorb ORGAN_CORTEX m b = Some (gs, b')" "g \<in> set gs" "gtype g = GLOBULE_RED"
  shows "source_organ g = ORGAN_SENSORY \<or> target_organ g = ORGAN_BROADCAST"
proof -
  from absorb_from_ring [OF assms(3,4)] have "g \<in> range (blood_stream b)"
    and a: "addressed_to ORGAN_CORTEX g" by auto
  then have "\<not> blocked_by_barrier g"
    using reachable_barrier [OF assms(1,2)] by (auto simp: barrier_ok_def)
  with a assms(5) show ?thesis by (auto simp: blocked_by_barrier_def addressed_to_def oo_defs)
qed

lemma bus_cortex_barrier_witness:
  "\<exists>gs b'. united_bus_absorb ORGAN_CORTEX 1024
       (bus_put (broadcast_globule GLOBULE_RED 5 0) (bus_boot empty_ring)) = Some (gs, b')
     \<and> list_all (\<lambda>g. source_organ g = ORGAN_SENSORY \<or> target_organ g = ORGAN_BROADCAST) gs"
proof -
  let ?g = "broadcast_globule GLOBULE_RED 5 0"
  let ?b = "bus_put ?g (bus_boot empty_ring)"
  have s: "steady ?b"
    using steady_boot by (intro pump_accepted_steady bus_accepted_red)
      (simp_all add: broadcast_globule_def bus_boot_def oo_defs)
  have "bus_accepts ?g (bus_boot empty_ring)"
    using steady_boot by (intro bus_accepted_red)
      (simp_all add: broadcast_globule_def bus_boot_def oo_defs)
  from pump_accepted_steady(2) [OF steady_boot this, of ORGAN_CORTEX]
  have p: "pending ORGAN_CORTEX ?b = [stamp (bus_boot empty_ring) ?g]"
    by (simp add: pending_def pending_from_def bus_boot_def oo_defs)
  obtain b' where b': "united_bus_absorb ORGAN_CORTEX 1024 ?b
      = Some ([stamp (bus_boot empty_ring) ?g], b')"
    using bus_mail.get_all [OF s, of ORGAN_CORTEX] p
    by (auto simp: bus_reader_def oo_defs addressed_to_def stamp_def broadcast_globule_def)
  have "source_organ g = ORGAN_SENSORY \<or> target_organ g = ORGAN_BROADCAST"
    if "g \<in> set [stamp (bus_boot empty_ring) ?g]" for g
    by (rule bus_cortex_barrier [OF bus_reachable_pump [OF reach_boot] barrier_empty_ring b' that])
      (use that in \<open>simp add: stamp_def broadcast_globule_def\<close>)
  with b' show ?thesis by (auto simp: list_all_iff)
qed

text \<open>
  the ring can hang its readers. From boot, one yellow, one white and 1023 red globules for
  organ 7 bring the bus to a state in which organ 5's \<open>united_bus_absorb\<close> never returns: the
  retracting capacity has become equal to the systole, which no read head can then reach.
\<close>

theorem bus_absorb_may_diverge:
  "\<exists>b. bus_reachable mem b \<and> united_bus_absorb 5 64 b = None"
proof -
  let ?b = "stray_traffic 1023 (bus_boot mem)"
  have b: "current_capacity ?b = 1025" "heart_systole ?b = 1025" "organ_read_heads ?b = (\<lambda>_. 0)"
    "\<forall>i<1025. target_organ (blood_stream ?b i) = 7"
    using stray_traffic_state [of 1023 mem] by (auto simp: Let_def)
  have "absorb_loop ?b 5 64 0 [] = None"
    using b by (intro absorb_loop_stuck) (simp_all add: addressed_to_def)
  then have "united_bus_absorb 5 64 ?b = None"
    using b by (simp add: united_bus_absorb_def MAX_ORGANS_def)
  with stray_traffic_reachable [OF reach_boot] show ?thesis by blast
qed

text \<open>
  a priority globule pumped into a full ring is accepted, but the organ that is farthest
  behind loses its whole queue of 1023 globules, the new one included, and an organ that had
  read everything is set back to 1023 unread slots.
\<close>

theorem bus_priority_overflow:
  assumes "steady b" "congested b" "gtype g = GLOBULE_YELLOW"
    and "unat lag < 16" "organ_read_heads b (unat lag) = heart_diastole b"
    and "unat cur < 16" "organ_read_heads b (unat cur) = heart_systole b"
  shows "fst (united_bus_pump g b) = 0
    \<and> length (pending lag b) = 1023 \<and> pending lag (bus_put g b) = []
    \<and> pending cur b = [] \<and> length (pending cur (bus_put g b)) = 1023"
proof -
  note p = pump_yellow_congested [OF assms(1-3)]
  from assms(1) have s: "heart_systole b < 1024" "heart_diastole b < 1024" "current_capacity b = 1024"
    by (auto simp: steady_def)
  have d: "heart_diastole b = Suc (heart_systole b) mod 1024"
    by (rule congested_steady [OF assms(1,2)])
  with s have ne: "heart_diastole b \<noteq> heart_systole b" by (auto simp: mod_lt_double)
  have "length (pending lag (bus_put g b)) = 0" "length (pending cur b) = 0"
    "length (pending lag b) = 1023" "length (pending cur (bus_put g b)) = 1023"
    using s d ne assms(4-7) by (simp_all add: length_pending p ring_dist_around)
  with p(1) show ?thesis by simp
qed

lemma bus_priority_overflow_witness:
  "\<exists>b. pending 3 b = [] \<and> length (pending 3 (bus_put (stray GLOBULE_YELLOW) b)) = 1023"
proof -
  let ?b = "(bus_boot empty_ring)\<lparr> heart_systole := 1023,
    organ_read_heads := (\<lambda>i. if i = 3 then 1023 else 0) \<rparr>"
  have "steady ?b" by (simp add: steady_def bus_boot_def BASE_CAPACITY_def ring_dist_eq)
  moreover have "congested ?b"
    by (simp add: congested_def next_systole_def bus_boot_def BASE_CAPACITY_def)
  ultimately have "pending 3 ?b = [] \<and> length (pending 3 (bus_put (stray GLOBULE_YELLOW) ?b)) = 1023"
    using bus_priority_overflow [of ?b "stray GLOBULE_YELLOW" 2 3]
    by (simp add: stray_def bus_boot_def)
  then show ?thesis by blast
qed

text \<open>
  the ring delivers what nobody sent. After 1023 data globules and two alerts, all of them for
  organ 7, the first globule the cortex pulls is the content of slot 1024, which no pump has
  written: the dilation uncovers that part of the array while the cortex is behind, and the zeroed
  slots there carry organ 0 as their target.
\<close>

theorem dilation_uncovers_slots:
  assumes "target_organ (mem 1024) = ORGAN_CORTEX"
  shows "\<exists>b'. united_bus_absorb ORGAN_CORTEX 1 (two_alerts (bus_boot mem)) = Some ([mem 1024], b')"
proof -
  let ?b = "two_alerts (bus_boot mem)"
  have b: "current_capacity ?b = 2048" "heart_systole ?b = 1" "organ_read_heads ?b 0 = 2"
    "\<forall>i\<in>{2..<1024}. target_organ (blood_stream ?b i) = 7" "blood_stream ?b 1024 = mem 1024"
    using two_alerts_state [of mem] by (simp_all add: Let_def)
  have "absorb_loop ?b 0 1 2 [] = absorb_loop ?b 0 1 1024 []"
    using b by (intro absorb_loop_skip) (auto simp: addressed_to_def)
  also have "\<dots> = Some (1025, [mem 1024])"
    using b assms by (subst absorb_loop.simps, subst absorb_loop.simps) (simp add: addressed_to_def oo_defs)
  finally show ?thesis
    using b by (simp add: united_bus_absorb_def ORGAN_CORTEX_def MAX_ORGANS_def)
qed

lemma dilation_uncovers_slots_witness:
  "\<exists>b'. united_bus_absorb ORGAN_CORTEX 1 (two_alerts (bus_boot (\<lambda>_. (stray GLOBULE_PURPLE)\<lparr> target_organ := 0 \<rparr>)))
     = Some ([(stray GLOBULE_PURPLE)\<lparr> target_organ := 0 \<rparr>], b')"
  using dilation_uncovers_slots [of "\<lambda>_. (stray GLOBULE_PURPLE)\<lparr> target_organ := 0 \<rparr>"]
  by (simp add: ORGAN_CORTEX_def)

end
