(* ===== verification/Organ_Registry.thy ===== *)
theory Organ_Registry
  imports Bus_Faults
begin

text \<open>
  The registry of organ snapshots (\<open>control-planes/src/oo_organ_state.c\<close> and its header). An
  organ id is an integer, as in the guards of the C functions, which cast \<open>oo_organ_t\<close> to
  \<open>int\<close>; the static array \<open>g_registry\<close> is a list of 17 snapshots. Sums over the registry are
  natural numbers with the 32-bit additions written out.
\<close>

section \<open>Organs and snapshots\<close>

definition OO_ORGAN_UNITED :: int where [oo_defs]: "OO_ORGAN_UNITED = 0"
definition OO_ORGAN_KERNEL :: int where [oo_defs]: "OO_ORGAN_KERNEL = 1"
definition OO_ORGAN_MEMORY :: int where [oo_defs]: "OO_ORGAN_MEMORY = 2"
definition OO_ORGAN_REFLEX :: int where [oo_defs]: "OO_ORGAN_REFLEX = 7"
definition OO_ORGAN_VITAL :: int where [oo_defs]: "OO_ORGAN_VITAL = 14"
definition OO_ORGAN_CORTEX :: int where [oo_defs]: "OO_ORGAN_CORTEX = 16"
definition OO_ORGAN_COUNT :: int where [oo_defs]: "OO_ORGAN_COUNT = 17"

record organ_snapshot =
  present :: u8
  health :: u8
  omode :: u8
  opad :: u8
  heartbeat :: u32

definition blank_snapshot :: organ_snapshot where
  "blank_snapshot = \<lparr> present = 0, health = 0, omode = 0, opad = 0, heartbeat = 0 \<rparr>"

record organ_registry =
  g_registry :: "organ_snapshot list"
  g_inited :: bool

definition registry_boot :: organ_registry where
  "registry_boot = \<lparr> g_registry = replicate 17 blank_snapshot, g_inited = False \<rparr>"

definition organ_state_init :: "organ_registry \<Rightarrow> organ_registry" where
  "organ_state_init r =
     (if g_inited r then r
      else \<lparr> g_registry = replicate (nat OO_ORGAN_COUNT) blank_snapshot, g_inited = True \<rparr>)"

section \<open>Publishing and reading\<close>

definition valid_organ :: "int \<Rightarrow> bool" where
  "valid_organ organ \<longleftrightarrow> \<not> (organ < 0 \<or> organ \<ge> OO_ORGAN_COUNT)"

definition organ_signal :: "int \<Rightarrow> u8 \<Rightarrow> u8 \<Rightarrow> u32" where
  "organ_signal organ mode h =
     push_bit 16 (word_of_int organ) OR push_bit 8 (ucast mode) OR ucast h"

definition clamp_health :: "u8 \<Rightarrow> u8" where
  "clamp_health h = (if h > 100 then 100 else h)"

definition organ_state_publish ::
  "int \<Rightarrow> u8 \<Rightarrow> u8 \<Rightarrow> organ_registry \<times> united_bus \<Rightarrow> organ_registry \<times> united_bus" where
  "organ_state_publish organ h0 mode = (\<lambda>(r0, bus).
     let r = (if g_inited r0 then r0 else organ_state_init r0)
     in if \<not> valid_organ organ then (r, bus)
        else let h = clamp_health h0;
                 s = g_registry r ! nat organ;
                 s' = s\<lparr> present := 1, health := h, omode := mode, heartbeat := heartbeat s + 1 \<rparr>
             in (r\<lparr> g_registry := (g_registry r)[nat organ := s'] \<rparr>,
                 snd (united_bus_broadcast_yellow (word_of_int organ) (organ_signal organ mode h) bus)))"

definition organ_state_get :: "int \<Rightarrow> organ_registry \<Rightarrow> organ_snapshot option" where
  "organ_state_get organ r = (if \<not> valid_organ organ then None else Some (g_registry r ! nat organ))"

section \<open>Aggregation\<close>

definition agg_add :: "organ_snapshot \<Rightarrow> nat \<times> nat \<Rightarrow> nat \<times> nat" where
  "agg_add s = (\<lambda>(sum, n).
     if present s \<noteq> 0 then (u32_add sum (unat (health s)), u32_add n 1) else (sum, n))"

definition organ_state_aggregate_health :: "organ_registry \<Rightarrow> u8 \<times> organ_registry" where
  "organ_state_aggregate_health r0 =
     (let r = (if g_inited r0 then r0 else organ_state_init r0);
          (sum, n) = fold agg_add (g_registry r) (0, 0)
      in (if n = 0 then 100 else of_nat (sum div n), r))"

definition in_vital_chain :: "int \<Rightarrow> bool" where
  "in_vital_chain i \<longleftrightarrow> i = OO_ORGAN_UNITED \<or> i = OO_ORGAN_KERNEL \<or> i = OO_ORGAN_MEMORY
     \<or> i = OO_ORGAN_REFLEX \<or> i = OO_ORGAN_VITAL"

definition worst_step :: "organ_registry \<Rightarrow> int \<Rightarrow> u8 \<Rightarrow> u8" where
  "worst_step r i worst =
     (if in_vital_chain i then worst
      else let s = g_registry r ! nat i
           in if present s \<noteq> 0 \<and> health s < worst then health s else worst)"

definition organ_state_worst_nonvital_health :: "organ_registry \<Rightarrow> u8 \<times> organ_registry" where
  "organ_state_worst_nonvital_health r0 =
     (let r = (if g_inited r0 then r0 else organ_state_init r0)
      in (fold (worst_step r) [0..OO_ORGAN_COUNT - 1] 100, r))"

definition vital_chain :: "int list" where
  "vital_chain = [OO_ORGAN_UNITED, OO_ORGAN_KERNEL, OO_ORGAN_MEMORY, OO_ORGAN_REFLEX, OO_ORGAN_VITAL]"

definition broken_link :: "organ_registry \<Rightarrow> int \<Rightarrow> bool" where
  "broken_link r i \<longleftrightarrow> present (g_registry r ! nat i) \<noteq> 0 \<and> health (g_registry r ! nat i) = 0"

definition organ_state_vital_chain_alive :: "organ_registry \<Rightarrow> bool \<times> organ_registry" where
  "organ_state_vital_chain_alive r0 =
     (let r = (if g_inited r0 then r0 else organ_state_init r0)
      in (\<not> list_ex (broken_link r) vital_chain, r))"

section \<open>The invariant\<close>

definition registry_ok :: "organ_registry \<Rightarrow> bool" where
  "registry_ok r \<longleftrightarrow> length (g_registry r) = 17 \<and> (\<forall>s\<in>set (g_registry r). health s \<le> 100)"

abbreviation ready :: "organ_registry \<Rightarrow> organ_registry" where
  "ready r \<equiv> (if g_inited r then r else organ_state_init r)"

lemma registry_ok_boot [oo_inv]: "registry_ok registry_boot"
  by (simp add: registry_ok_def registry_boot_def blank_snapshot_def)

lemma registry_ok_init [oo_inv]: "registry_ok r \<Longrightarrow> registry_ok (organ_state_init r)"
  by (simp add: registry_ok_def organ_state_init_def blank_snapshot_def OO_ORGAN_COUNT_def)

lemma registry_ok_ready [oo_inv]: "registry_ok r \<Longrightarrow> registry_ok (ready r)"
  by (simp add: registry_ok_init)

lemma clamp_health_le [simp]: "clamp_health h \<le> 100"
  by (simp add: clamp_health_def not_less)

lemma registry_ok_upd:
  "registry_ok r \<Longrightarrow> health s \<le> 100 \<Longrightarrow> registry_ok (r\<lparr>g_registry := (g_registry r)[i := s]\<rparr>)"
  by (auto simp: registry_ok_def dest: set_update_subset_insert [THEN subsetD])

lemma registry_ok_publish [oo_inv]:
  "registry_ok r \<Longrightarrow> registry_ok (fst (organ_state_publish organ h mode (r, bus)))"
  using registry_ok_ready [of r]
  by (auto simp: organ_state_publish_def Let_def intro: registry_ok_upd)

lemma ready_ready [simp]: "g_inited (organ_state_init r)"
  by (simp add: organ_state_init_def)

lemma valid_organ_bounds: "valid_organ organ \<longleftrightarrow> 0 \<le> organ \<and> organ < 17"
  by (auto simp: valid_organ_def OO_ORGAN_COUNT_def)

lemma organ_state_get_publish:
  assumes "registry_ok r" "valid_organ organ" "valid_organ q"
  shows "organ_state_get q (fst (organ_state_publish organ h mode (r, bus)))
    = (let s = g_registry (ready r) ! nat q in
       if q = organ then Some (s\<lparr> present := 1, health := clamp_health h, omode := mode,
                                  heartbeat := heartbeat s + 1 \<rparr>)
       else Some s)"
proof -
  have "length (g_registry (ready r)) = 17"
    using registry_ok_ready [OF assms(1)] by (simp add: registry_ok_def)
  with assms(2,3) show ?thesis
    by (auto simp: organ_state_get_def organ_state_publish_def Let_def valid_organ_bounds nth_list_update)
qed

section \<open>The aggregates\<close>

definition present_healths :: "organ_registry \<Rightarrow> nat list" where
  "present_healths r = map (\<lambda>s. unat (health s)) (filter (\<lambda>s. present s \<noteq> 0) (g_registry (ready r)))"

lemma fold_agg_add:
  "(\<forall>s\<in>set ss. health s \<le> 100) \<Longrightarrow> a + 100 * length ss < 4294967296 \<Longrightarrow> n + length ss < 4294967296 \<Longrightarrow>
     fold agg_add ss (a, n) =
       (a + sum_list (map (\<lambda>s. unat (health s)) (filter (\<lambda>s. present s \<noteq> 0) ss)),
        n + length (filter (\<lambda>s. present s \<noteq> 0) ss))"
proof (induction ss arbitrary: a n)
  case Nil
  then show ?case by simp
next
  case (Cons s ss)
  from Cons.prems have "unat (health s) \<le> 100" by (simp add: word_le_nat_alt)
  with Cons show ?case by (simp add: agg_add_def)
qed

lemma aggregate_eq:
  assumes "registry_ok r"
  shows "fst (organ_state_aggregate_health r) =
    (if present_healths r = [] then 100
     else of_nat (sum_list (present_healths r) div length (present_healths r)))"
proof -
  have "fold agg_add (g_registry (ready r)) (0, 0)
      = (sum_list (present_healths r), length (present_healths r))"
    using registry_ok_ready [OF assms]
    by (subst fold_agg_add) (simp_all add: registry_ok_def present_healths_def)
  then show ?thesis by (simp add: organ_state_aggregate_health_def)
qed

lemma present_healths_le: "registry_ok r \<Longrightarrow> k \<in> set (present_healths r) \<Longrightarrow> k \<le> 100"
  using registry_ok_ready [of r]
  by (auto simp: present_healths_def registry_ok_def word_le_nat_alt)

lemma sum_list_le_bound: "(\<And>k. k \<in> set ks \<Longrightarrow> k \<le> b) \<Longrightarrow> sum_list ks \<le> length ks * b" for b :: nat
  by (induction ks) (auto simp: add_le_mono)

lemma sum_list_ge_bound: "(\<And>k. k \<in> set ks \<Longrightarrow> b \<le> k) \<Longrightarrow> length ks * b \<le> sum_list ks" for b :: nat
  by (induction ks) (auto simp: add_le_mono)

lemma mean_le_bound: "ks \<noteq> [] \<Longrightarrow> (\<And>k. k \<in> set ks \<Longrightarrow> k \<le> b) \<Longrightarrow> sum_list ks div length ks \<le> b" for b :: nat
  using div_le_mono [OF sum_list_le_bound [of ks b], of "length ks"] by simp

lemma mean_ge_bound: "ks \<noteq> [] \<Longrightarrow> (\<And>k. k \<in> set ks \<Longrightarrow> b \<le> k) \<Longrightarrow> b \<le> sum_list ks div length ks" for b :: nat
  using div_le_mono [OF sum_list_ge_bound [of ks b], of "length ks"] by simp

lemma unat_aggregate:
  assumes "registry_ok r"
  shows "unat (fst (organ_state_aggregate_health r)) =
    (if present_healths r = [] then 100
     else sum_list (present_healths r) div length (present_healths r))"
proof (cases "present_healths r = []")
  case True
  then show ?thesis by (simp add: aggregate_eq [OF assms])
next
  case False
  then have "sum_list (present_healths r) div length (present_healths r) \<le> 100"
    using present_healths_le [OF assms] by (rule mean_le_bound)
  with False show ?thesis by (simp add: aggregate_eq [OF assms] unat_of_nat)
qed

lemma aggregate_le_100: "registry_ok r \<Longrightarrow> fst (organ_state_aggregate_health r) \<le> 100"
  using mean_le_bound [of "present_healths r" 100] present_healths_le [of r]
  by (auto simp: word_le_nat_alt unat_aggregate)

lemma worst_step_le: "worst_step r i w \<le> w"
  by (simp add: worst_step_def Let_def less_imp_le)

lemma worst_le: "fold (worst_step r) ks w \<le> w"
proof (induction ks arbitrary: w)
  case (Cons k ks)
  from Cons [of "worst_step r k w"] worst_step_le show ?case by (simp add: order_trans)
qed simp

lemma worst_bound:
  "i \<in> set ks \<Longrightarrow> \<not> in_vital_chain i \<Longrightarrow> present (g_registry r ! nat i) \<noteq> 0 \<Longrightarrow>
     fold (worst_step r) ks w \<le> health (g_registry r ! nat i)"
proof (induction ks arbitrary: w)
  case (Cons k ks)
  show ?case
  proof (cases "i = k")
    case True
    have "worst_step r i w \<le> health (g_registry r ! nat i)"
      using Cons.prems by (simp add: worst_step_def Let_def not_less)
    from order_trans [OF worst_le this] True show ?thesis by simp
  next
    case False
    with Cons show ?thesis by simp
  qed
qed simp

lemma worst_attained:
  "fold (worst_step r) ks w = w \<or> (\<exists>i\<in>set ks. \<not> in_vital_chain i
     \<and> present (g_registry r ! nat i) \<noteq> 0 \<and> fold (worst_step r) ks w = health (g_registry r ! nat i))"
proof (induction ks arbitrary: w)
  case Nil
  then show ?case by simp
next
  case (Cons k ks)
  show ?case
    using Cons [of "worst_step r k w"] by (auto simp: worst_step_def Let_def split: if_splits)
qed

end
