(* ===== verification/Contracts.thy ===== *)
theory Contracts
  imports OO_Prelude
begin

text \<open>
  Contracts that several components of the organism share, as locales: state machines whose
  level only changes along a relation of legal transitions, logs that keep the most recent
  entries in a fixed array, and pools that are filled up to a fixed capacity. Each is
  interpreted on the model of every component that provides it.
\<close>

section \<open>State machines with legal transitions\<close>

locale guarded_fsm =
  fixes level :: "'s \<Rightarrow> 'm" and step :: "'i \<Rightarrow> 's \<Rightarrow> 's" and legal :: "'m \<Rightarrow> 'm \<Rightarrow> bool"
    and inv :: "'s \<Rightarrow> bool"
  assumes step_legal: "inv s \<Longrightarrow> level (step i s) \<noteq> level s \<Longrightarrow> legal (level s) (level (step i s))"
    and step_inv: "inv s \<Longrightarrow> inv (step i s)"
begin

lemma run_inv: "inv s \<Longrightarrow> inv (fold step is s)"
  by (induction "is" arbitrary: s) (simp_all add: step_inv)

text \<open>A run that leaves the set \<open>A\<close> whose legal exits all lead into \<open>B\<close> passes through \<open>B\<close>.\<close>

lemma exit_through:
  assumes exits: "\<And>m m'. m \<in> A \<Longrightarrow> m' \<notin> A \<Longrightarrow> legal m m' \<Longrightarrow> m' \<in> B"
  shows "inv s \<Longrightarrow> level s \<in> A \<Longrightarrow> level (fold step is s) \<notin> A \<Longrightarrow>
     \<exists>k\<le>length is. level (fold step (take k is) s) \<in> B"
proof (induction "is" arbitrary: s)
  case Nil
  then show ?case by simp
next
  case (Cons i "is")
  show ?case
  proof (cases "level (step i s) \<in> A")
    case True
    with Cons obtain k where "k \<le> length is" "level (fold step (take k is) (step i s)) \<in> B"
      by (metis fold_simps(2) step_inv)
    then show ?thesis by (intro exI [of _ "Suc k"]) simp
  next
    case False
    with Cons.prems have "legal (level s) (level (step i s))"
      by (metis step_legal)
    with exits False Cons.prems have "level (step i s) \<in> B" by blast
    then show ?thesis by (intro exI [of _ 1]) simp
  qed
qed

text \<open>A level without legal exits is never left.\<close>

lemma sink_stays:
  assumes "\<And>m'. \<not> legal m m'" "inv s" "level s = m"
  shows "level (fold step is s) = m"
  using exit_through [of "{m}" "{}" s "is"] assms by auto

end

section \<open>Circular logs\<close>

text \<open>
  A log of \<open>cap\<close> slots that is written at \<open>count mod cap\<close>: slot \<open>i\<close> holds the most recent entry
  whose number is congruent to \<open>i\<close>. The contract is over the array and the count of entries
  written since the log was empty.
\<close>

locale ring_log =
  fixes cap :: nat and put :: "'e \<Rightarrow> 's \<Rightarrow> 's" and slot :: "'s \<Rightarrow> nat \<Rightarrow> 'e"
    and written :: "'s \<Rightarrow> nat" and inv :: "'s \<Rightarrow> bool"
  assumes cap_pos: "0 < cap"
    and put_inv: "inv s \<Longrightarrow> inv (put e s)"
    and put_slot: "inv s \<Longrightarrow> i < cap \<Longrightarrow> slot (put e s) i
      = (if i = written s mod cap then e else slot s i)"
    and put_written: "inv s \<Longrightarrow> written (put e s) mod cap = Suc (written s) mod cap"
begin

lemma log_inv: "inv s \<Longrightarrow> inv (fold put es s)"
  by (induction es arbitrary: s) (simp_all add: put_inv)

lemma log_written: "inv s \<Longrightarrow> written (fold put es s) mod cap = (written s + length es) mod cap"
proof (induction es arbitrary: s)
  case (Cons e es)
  from Cons.IH [of "put e s"] Cons.prems have "written (fold put (e # es) s) mod cap
      = (written (put e s) + length es) mod cap" by (simp add: put_inv)
  also have "\<dots> = (written (put e s) mod cap + length es) mod cap" by (simp add: mod_add_left_eq)
  also have "\<dots> = (Suc (written s) mod cap + length es) mod cap"
    using Cons.prems by (simp add: put_written)
  finally show ?case by (simp add: mod_simps)
qed simp

text \<open>Of the last \<open>cap\<close> entries each is still there, the \<open>j\<close>-th from the end at its slot.\<close>

lemma log_recent:
  assumes "inv s" "j < cap" "j < length es"
  shows "slot (fold put es s) ((written s + (length es - 1 - j)) mod cap) = es ! (length es - 1 - j)"
  using assms(2,3)
proof (induction es arbitrary: j rule: rev_induct)
  case Nil
  then show ?case by simp
next
  case (snoc e es)
  have lt: "x mod cap < cap" for x using cap_pos by simp
  have w: "written (fold put es s) mod cap = (written s + length es) mod cap"
    by (rule log_written [OF assms(1)])
  show ?case
  proof (cases j)
    case 0
    then show ?thesis
      using put_slot [OF log_inv [OF assms(1)] lt] w by simp
  next
    case (Suc j')
    with snoc have j': "j' < cap" "j' < length es" by auto
    let ?i = "written s + (length es - 1 - j')"
    have "?i mod cap \<noteq> (written s + length es) mod cap"
    proof
      assume "?i mod cap = (written s + length es) mod cap"
      moreover have "?i \<le> written s + length es" by simp
      ultimately have "cap dvd written s + length es - ?i"
        by (metis mod_eq_dvd_iff_nat)
      with j' Suc snoc.prems show False by (auto dest!: dvd_imp_le)
    qed
    then have "slot (fold put (es @ [e]) s) (?i mod cap) = slot (fold put es s) (?i mod cap)"
      using put_slot [OF log_inv [OF assms(1)] lt] w by simp
    also have "\<dots> = es ! (length es - 1 - j')" by (rule snoc.IH [OF j'])
    moreover have "length es - Suc j' < length es" using j' by linarith
    ultimately show ?thesis using Suc by (simp add: nth_append)
  qed
qed

end

section \<open>Pools of fixed capacity\<close>

text \<open>
  A pool that is filled from the front: an addition is refused once the pool is full and
  otherwise appends its entry. The contract holds for entries that satisfy \<open>ok\<close>.
\<close>

locale bounded_pool =
  fixes cap :: nat and add :: "'e \<Rightarrow> 's \<Rightarrow> 's" and entries :: "'s \<Rightarrow> 'e list"
    and inv :: "'s \<Rightarrow> bool" and ok :: "'e \<Rightarrow> bool"
  assumes add_inv: "inv s \<Longrightarrow> ok e \<Longrightarrow> inv (add e s)"
    and add_entries: "inv s \<Longrightarrow> ok e \<Longrightarrow> entries (add e s)
      = (if length (entries s) < cap then entries s @ [e] else entries s)"
    and within: "inv s \<Longrightarrow> length (entries s) \<le> cap"
begin

lemma pool_inv: "inv s \<Longrightarrow> \<forall>e\<in>set es. ok e \<Longrightarrow> inv (fold add es s)"
  by (induction es arbitrary: s) (simp_all add: add_inv)

lemma pool_entries:
  "inv s \<Longrightarrow> \<forall>e\<in>set es. ok e \<Longrightarrow>
     entries (fold add es s) = entries s @ take (cap - length (entries s)) es"
proof (induction es arbitrary: s)
  case (Cons e es)
  show ?case
  proof (cases "length (entries s) < cap")
    case True
    then have "cap - length (entries s) = Suc (cap - Suc (length (entries s)))" by simp
    with True Cons show ?thesis by (simp add: add_inv add_entries)
  next
    case False
    with Cons show ?thesis by (simp add: add_inv add_entries)
  qed
qed simp

lemma pool_never_overflows: "inv s \<Longrightarrow> \<forall>e\<in>set es. ok e \<Longrightarrow> length (entries (fold add es s)) \<le> cap"
  using within pool_inv by blast

end

section \<open>Polling loops\<close>

text \<open>
  A wait that reads a status word until it is not busy. The invariant of \<open>wait_rank\<close> is indexed by
  a number that goes down with every read that finds the device busy.
\<close>

primrec polled :: "('h \<Rightarrow> 'w \<times> 'h) \<Rightarrow> nat \<Rightarrow> 'h \<Rightarrow> 'h" where
  "polled rd 0 h = h"
| "polled rd (Suc n) h = polled rd n (snd (rd h))"

lemma polled_last: "polled rd (Suc n) h = snd (rd (polled rd n h))"
  by (induction n arbitrary: h) simp_all

locale polling =
  fixes wait :: "'h \<Rightarrow> 'h option" and rd :: "'h \<Rightarrow> 'w \<times> 'h" and busy :: "'w \<Rightarrow> bool"
  assumes wait_unfold: "wait h = (if busy (fst (rd h)) then wait (snd (rd h)) else Some (snd (rd h)))"
begin

lemma wait_ready: "\<not> busy (fst (rd h)) \<Longrightarrow> wait h = Some (snd (rd h))"
  by (subst wait_unfold) simp

lemma wait_busy: "busy (fst (rd h)) \<Longrightarrow> wait h = wait (snd (rd h))"
  by (subst wait_unfold) simp

lemma wait_polls:
  "\<not> busy (fst (rd (polled rd n h))) \<Longrightarrow>
     \<exists>k\<le>n. \<not> busy (fst (rd (polled rd k h))) \<and> wait h = Some (polled rd (Suc k) h)"
proof (induction n arbitrary: h)
  case 0
  then show ?case by (auto simp: wait_ready)
next
  case (Suc n)
  show ?case
  proof (cases "busy (fst (rd h))")
    case True
    with Suc obtain k where "k \<le> n" "\<not> busy (fst (rd (polled rd (Suc k) h)))"
      "wait h = Some (polled rd (Suc (Suc k)) h)" by (auto simp: wait_busy)
    then show ?thesis by (intro exI [of _ "Suc k"]) (simp only: Suc_le_mono simp_thms)
  next
    case False
    then show ?thesis by (intro exI [of _ 0]) (simp add: wait_ready)
  qed
qed

lemma wait_rank:
  assumes step: "\<And>n h. P (Suc n) h \<Longrightarrow> busy (fst (rd h)) \<Longrightarrow> P n (snd (rd h))"
    and last: "\<And>h. P 0 h \<Longrightarrow> \<not> busy (fst (rd h))"
  shows "P n h \<Longrightarrow> \<exists>h'. wait h = Some h'"
proof (induction n arbitrary: h)
  case 0
  then show ?case by (simp add: last wait_ready)
next
  case (Suc n)
  then show ?case by (cases "busy (fst (rd h))") (auto simp: wait_busy wait_ready dest: step)
qed

end

end
