(* ===== verification/Homeostasis_Mode.thy ===== *)
theory Homeostasis_Mode
  imports Organ_Registry Contracts
begin

text \<open>
  The homeostasis mode machine (\<open>control-planes/src/oo_homeostasis_mode.c\<close> and its header) on
  top of the organ registry. The state \<open>organism\<close> joins the static variables of the registry,
  of the bus and of this file; it is extended by the control planes. The \<open>default\<close> case of the
  C switch is for values outside the enumeration, which the type \<open>homeostasis_mode\<close> excludes.
\<close>

section \<open>State and operations\<close>

datatype homeostasis_mode = OO_MODE_NORMAL | OO_MODE_DEGRADED | OO_MODE_SAFE | OO_MODE_RECOVERY

primrec mode_code :: "homeostasis_mode \<Rightarrow> u8" where
  "mode_code OO_MODE_NORMAL = 0"
| "mode_code OO_MODE_DEGRADED = 1"
| "mode_code OO_MODE_SAFE = 2"
| "mode_code OO_MODE_RECOVERY = 3"

definition OO_HEALTH_DEGRADED_BELOW :: u8 where [oo_defs]: "OO_HEALTH_DEGRADED_BELOW = 75"
definition OO_HEALTH_SAFE_BELOW :: u8 where [oo_defs]: "OO_HEALTH_SAFE_BELOW = 40"
definition OO_HEALTH_RECOVER_ABOVE :: u8 where [oo_defs]: "OO_HEALTH_RECOVER_ABOVE = 85"
definition OO_HEALTH_NORMAL_ABOVE :: u8 where [oo_defs]: "OO_HEALTH_NORMAL_ABOVE = 90"

record organism =
  o_registry :: organ_registry
  o_bus :: united_bus
  g_mode :: homeostasis_mode

definition homeostasis_mode_init :: "'a organism_scheme \<Rightarrow> 'a organism_scheme" where
  "homeostasis_mode_init s = s\<lparr> g_mode := OO_MODE_NORMAL \<rparr>"

primrec homeostasis_mode_name :: "homeostasis_mode \<Rightarrow> string" where
  "homeostasis_mode_name OO_MODE_NORMAL = ''NORMAL''"
| "homeostasis_mode_name OO_MODE_DEGRADED = ''DEGRADED''"
| "homeostasis_mode_name OO_MODE_SAFE = ''SAFE''"
| "homeostasis_mode_name OO_MODE_RECOVERY = ''RECOVERY''"

definition homeostasis_mode_current :: "'a organism_scheme \<Rightarrow> homeostasis_mode" where
  "homeostasis_mode_current s = g_mode s"

primrec mode_switch :: "u8 \<Rightarrow> homeostasis_mode \<Rightarrow> homeostasis_mode" where
  "mode_switch h OO_MODE_NORMAL =
     (if h < OO_HEALTH_SAFE_BELOW then OO_MODE_SAFE
      else if h < OO_HEALTH_DEGRADED_BELOW then OO_MODE_DEGRADED else OO_MODE_NORMAL)"
| "mode_switch h OO_MODE_DEGRADED =
     (if h < OO_HEALTH_SAFE_BELOW then OO_MODE_SAFE
      else if h \<ge> OO_HEALTH_NORMAL_ABOVE then OO_MODE_NORMAL else OO_MODE_DEGRADED)"
| "mode_switch h OO_MODE_SAFE =
     (if h \<ge> OO_HEALTH_RECOVER_ABOVE then OO_MODE_RECOVERY else OO_MODE_SAFE)"
| "mode_switch h OO_MODE_RECOVERY =
     (if h < OO_HEALTH_SAFE_BELOW then OO_MODE_SAFE
      else if h \<ge> OO_HEALTH_NORMAL_ABOVE then OO_MODE_NORMAL else OO_MODE_RECOVERY)"

definition mode_signal :: "homeostasis_mode \<Rightarrow> u32" where
  "mode_signal m = 0x4D000000 OR ucast (mode_code m)"

definition homeostasis_mode_evaluate ::
  "'a organism_scheme \<Rightarrow> homeostasis_mode \<times> 'a organism_scheme" where
  "homeostasis_mode_evaluate s =
     (let (agg, r1) = organ_state_aggregate_health (o_registry s);
          (worst, r2) = organ_state_worst_nonvital_health r1;
          (vital, r3) = organ_state_vital_chain_alive r2;
          h = (if worst < agg then worst else agg);
          next = (if \<not> vital then OO_MODE_SAFE else mode_switch h (g_mode s));
          s1 = s\<lparr> o_registry := r3 \<rparr>
      in if next \<noteq> g_mode s1
         then (next, s1\<lparr> o_bus := snd (united_bus_broadcast_yellow (word_of_int OO_ORGAN_VITAL)
                                          (mode_signal next) (o_bus s1)),
                         g_mode := next \<rparr>)
         else (g_mode s1, s1))"

section \<open>The evaluation, in terms of the registry before it\<close>

lemma ready_idem [simp]: "ready (ready r) = ready r"
  by simp

lemma aggregate_fst [simp]: "fst (organ_state_aggregate_health (ready r)) = fst (organ_state_aggregate_health r)"
  by (simp add: organ_state_aggregate_health_def split: prod.splits)

lemma worst_fst [simp]:
  "fst (organ_state_worst_nonvital_health (ready r)) = fst (organ_state_worst_nonvital_health r)"
  by (simp add: organ_state_worst_nonvital_health_def)

lemma chain_fst [simp]:
  "fst (organ_state_vital_chain_alive (ready r)) = fst (organ_state_vital_chain_alive r)"
  by (simp add: organ_state_vital_chain_alive_def)

lemma registry_snd [simp]:
  "snd (organ_state_aggregate_health r) = ready r"
  "snd (organ_state_worst_nonvital_health r) = ready r"
  "snd (organ_state_vital_chain_alive r) = ready r"
  by (simp_all add: organ_state_aggregate_health_def organ_state_worst_nonvital_health_def
      organ_state_vital_chain_alive_def Let_def split: prod.splits)

definition agg_health :: "organ_registry \<Rightarrow> u8" where
  "agg_health r = fst (organ_state_aggregate_health r)"

definition worst_health :: "organ_registry \<Rightarrow> u8" where
  "worst_health r = fst (organ_state_worst_nonvital_health r)"

definition chain_alive :: "organ_registry \<Rightarrow> bool" where
  "chain_alive r = fst (organ_state_vital_chain_alive r)"

definition effective_health :: "organ_registry \<Rightarrow> u8" where
  "effective_health r = (if worst_health r < agg_health r then worst_health r else agg_health r)"

definition next_mode :: "'a organism_scheme \<Rightarrow> homeostasis_mode" where
  "next_mode s = (if chain_alive (o_registry s)
     then mode_switch (effective_health (o_registry s)) (g_mode s) else OO_MODE_SAFE)"

lemma registry_prod:
  "organ_state_aggregate_health r = (agg_health r, ready r)"
  "organ_state_worst_nonvital_health r = (worst_health r, ready r)"
  "organ_state_vital_chain_alive r = (chain_alive r, ready r)"
  by (simp_all add: prod_eq_iff agg_health_def worst_health_def chain_alive_def)

lemma views_ready [simp]:
  "agg_health (ready r) = agg_health r" "worst_health (ready r) = worst_health r"
  "chain_alive (ready r) = chain_alive r" "effective_health (ready r) = effective_health r"
  by (simp_all only: agg_health_def worst_health_def chain_alive_def effective_health_def
      aggregate_fst worst_fst chain_fst)

lemma evaluate_eq:
  "homeostasis_mode_evaluate s =
     (next_mode s,
      s\<lparr> o_registry := ready (o_registry s), g_mode := next_mode s,
         o_bus := (if next_mode s \<noteq> g_mode s
                   then snd (united_bus_broadcast_yellow 14 (mode_signal (next_mode s)) (o_bus s))
                   else o_bus s) \<rparr>)"
  by (simp only: homeostasis_mode_evaluate_def Let_def registry_prod prod.case views_ready
      effective_health_def [symmetric] ready_idem)
    (simp add: next_mode_def OO_ORGAN_VITAL_def)

text \<open>What the two aggregates say about single organs.\<close>

lemma effective_le_organ:
  assumes "\<not> in_vital_chain i" "valid_organ i" "present (g_registry (ready r) ! nat i) \<noteq> 0"
  shows "effective_health r \<le> health (g_registry (ready r) ! nat i)"
proof -
  have "worst_health r \<le> health (g_registry (ready r) ! nat i)"
    using assms by (auto simp: worst_health_def organ_state_worst_nonvital_health_def Let_def
        valid_organ_bounds OO_ORGAN_COUNT_def simp del: fold_simps intro!: worst_bound)
  then show ?thesis by (auto simp: effective_health_def)
qed

lemma chain_alive_iff:
  "chain_alive r \<longleftrightarrow> (\<forall>i\<in>set vital_chain. \<not> broken_link (ready r) i)"
  by (auto simp: chain_alive_def organ_state_vital_chain_alive_def Let_def list_ex_iff)

section \<open>Runs of the organism\<close>

text \<open>Between two evaluations any organ may publish any snapshot.\<close>

datatype organ_event = Publish int u8 u8 | Evaluate

primrec organ_step :: "organ_event \<Rightarrow> organism \<Rightarrow> organism" where
  "organ_step (Publish organ h mode) s =
     (let (r, b) = organ_state_publish organ h mode (o_registry s, o_bus s)
      in s\<lparr> o_registry := r, o_bus := b \<rparr>)"
| "organ_step Evaluate s = snd (homeostasis_mode_evaluate s)"

fun mode_edge :: "homeostasis_mode \<Rightarrow> homeostasis_mode \<Rightarrow> bool" where
  "mode_edge OO_MODE_NORMAL m = (m = OO_MODE_DEGRADED \<or> m = OO_MODE_SAFE)"
| "mode_edge OO_MODE_DEGRADED m = (m = OO_MODE_NORMAL \<or> m = OO_MODE_SAFE)"
| "mode_edge OO_MODE_SAFE m = (m = OO_MODE_RECOVERY)"
| "mode_edge OO_MODE_RECOVERY m = (m = OO_MODE_NORMAL \<or> m = OO_MODE_SAFE)"

lemma mode_switch_edge: "mode_switch h m \<noteq> m \<Longrightarrow> mode_edge m (mode_switch h m)"
  by (cases m) (auto split: if_splits)

lemma mode_edge_safe: "m \<noteq> OO_MODE_SAFE \<Longrightarrow> mode_edge m OO_MODE_SAFE"
  by (cases m) simp_all

lemma next_mode_edge: "next_mode s \<noteq> g_mode s \<Longrightarrow> mode_edge (g_mode s) (next_mode s)"
  by (auto simp: next_mode_def mode_switch_edge mode_edge_safe split: if_splits)

lemma organ_step_mode:
  "g_mode (organ_step e s) = (case e of Publish organ h mode \<Rightarrow> g_mode s | Evaluate \<Rightarrow> next_mode s)"
  by (cases e) (simp_all add: evaluate_eq split: prod.splits)

lemma registry_ok_step [oo_inv]: "registry_ok (o_registry s) \<Longrightarrow> registry_ok (o_registry (organ_step e s))"
  using registry_ok_ready [of "o_registry s"] registry_ok_publish [of "o_registry s" _ _ _ "o_bus s"]
  by (cases e) (simp_all add: evaluate_eq case_prod_beta)

interpretation mode_fsm: guarded_fsm g_mode organ_step mode_edge "\<lambda>s. registry_ok (o_registry s)"
  by unfold_locales (auto simp: organ_step_mode next_mode_edge registry_ok_step split: organ_event.splits)

definition organism_boot :: "(nat \<Rightarrow> globule) \<Rightarrow> organism" where
  "organism_boot mem = \<lparr> o_registry = registry_boot, o_bus = bus_boot mem, g_mode = OO_MODE_NORMAL \<rparr>"

lemma boot_registry [simp]: "registry_ok (o_registry (organism_boot mem))"
  by (simp add: organism_boot_def registry_ok_boot)

section \<open>Announcements on the bus\<close>

lemma organ_signal_decode:
  assumes "valid_organ organ"
  shows "drop_bit 16 (organ_signal organ mode h) = word_of_int organ"
    and "ucast (drop_bit 8 (organ_signal organ mode h)) = mode"
    and "ucast (organ_signal organ mode h) = h"
proof -
  have "take_bit 16 organ = organ"
    using assms by (intro take_bit_int_eq_self) (auto simp: valid_organ_bounds)
  then have "k < 16" if "bit organ k" for k
    using that by (metis bit_take_bit_iff)
  then show "drop_bit 16 (organ_signal organ mode h) = word_of_int organ"
    by (intro bit_word_eqI) (force simp: organ_signal_def bit_simps dest: bit_imp_le_length)
  show "ucast (drop_bit 8 (organ_signal organ mode h)) = mode"
    "ucast (organ_signal organ mode h) = h"
    by (auto intro!: bit_word_eqI simp: organ_signal_def bit_simps dest: bit_imp_le_length)
qed

lemma yellow_broadcast_accepted:
  "\<not> congested b \<Longrightarrow> bus_accepts (broadcast_globule GLOBULE_YELLOW source code) b"
  by (simp add: bus_accepts_def broadcast_globule_def blocked_by_barrier_def oo_defs)

lemma publish_eq:
  assumes "valid_organ organ"
  shows "organ_state_publish organ h mode (r, bus) =
    ((ready r)\<lparr> g_registry := (g_registry (ready r))
        [nat organ := (g_registry (ready r) ! nat organ)\<lparr> present := 1, health := clamp_health h,
           omode := mode, heartbeat := heartbeat (g_registry (ready r) ! nat organ) + 1 \<rparr>] \<rparr>,
     bus_put (broadcast_globule GLOBULE_YELLOW (word_of_int organ)
                (organ_signal organ mode (clamp_health h))) bus)"
  using assms by (simp add: organ_state_publish_def Let_def united_bus_broadcast_yellow_def)

section \<open>What a mode says about the organs\<close>

lemma next_mode_health:
  "next_mode s \<noteq> OO_MODE_SAFE \<Longrightarrow> 40 \<le> effective_health (o_registry s)"
  "next_mode s = OO_MODE_NORMAL \<Longrightarrow> 75 \<le> effective_health (o_registry s)"
  "next_mode s = OO_MODE_RECOVERY \<Longrightarrow> g_mode s = OO_MODE_SAFE \<Longrightarrow> 85 \<le> effective_health (o_registry s)"
proof -
  have le: "40 \<le> h" if "85 \<le> h \<or> 90 \<le> h \<or> 75 \<le> h" for h :: u8
    using that by (auto simp: word_le_nat_alt)
  have le': "75 \<le> h" if "90 \<le> h" for h :: u8
    using that by (simp add: word_le_nat_alt)
  show "next_mode s \<noteq> OO_MODE_SAFE \<Longrightarrow> 40 \<le> effective_health (o_registry s)"
    by (cases "g_mode s")
      (auto simp: next_mode_def oo_defs not_less le split: if_splits)
  show "next_mode s = OO_MODE_NORMAL \<Longrightarrow> 75 \<le> effective_health (o_registry s)"
    by (cases "g_mode s") (auto simp: next_mode_def oo_defs not_less le' split: if_splits)
  show "next_mode s = OO_MODE_RECOVERY \<Longrightarrow> g_mode s = OO_MODE_SAFE \<Longrightarrow> 85 \<le> effective_health (o_registry s)"
    by (auto simp: next_mode_def oo_defs split: if_splits)
qed

lemma next_mode_chain: "next_mode s \<noteq> OO_MODE_SAFE \<Longrightarrow> chain_alive (o_registry s)"
  by (auto simp: next_mode_def split: if_splits)

lemma next_mode_upd [simp]:
  "next_mode (s\<lparr> o_bus := b \<rparr>) = next_mode s"
  "next_mode (s\<lparr> g_mode := m, o_bus := b \<rparr>) = next_mode (s\<lparr> g_mode := m \<rparr>)"
  by (simp_all add: next_mode_def)

text \<open>The registry in which every organ has reported the same health, for the examples.\<close>

definition uniform_registry :: "u8 \<Rightarrow> organ_registry" where
  "uniform_registry h = \<lparr> g_registry = replicate 17 (blank_snapshot\<lparr>present := 1, health := h\<rparr>),
     g_inited = True \<rparr>"

lemma uniform_nth [simp]:
  "k < 17 \<Longrightarrow> g_registry (uniform_registry h) ! k = blank_snapshot\<lparr>present := 1, health := h\<rparr>"
  by (simp add: uniform_registry_def)

lemma uniform_inited [simp]: "g_inited (uniform_registry h)"
  by (simp add: uniform_registry_def)

lemma uniform_ok: "h \<le> 100 \<Longrightarrow> registry_ok (uniform_registry h)"
  by (simp add: registry_ok_def uniform_registry_def)

lemma uniform_healths: "present_healths (uniform_registry h) = replicate 17 (unat h)"
  by (simp add: present_healths_def uniform_registry_def)

lemma uniform_agg: "h \<le> 100 \<Longrightarrow> agg_health (uniform_registry h) = h"
  by (simp add: agg_health_def word_unat_eq_iff unat_aggregate uniform_ok uniform_healths
      sum_list_replicate)

lemma uniform_worst: "h \<le> 100 \<Longrightarrow> worst_health (uniform_registry h) = h"
proof -
  assume h: "h \<le> 100"
  let ?r = "uniform_registry h"
  have w: "worst_health ?r = fold (worst_step ?r) [0..16] 100"
    by (simp add: worst_health_def organ_state_worst_nonvital_health_def OO_ORGAN_COUNT_def Let_def)
  have "fold (worst_step ?r) [0..16] 100 \<le> health (g_registry ?r ! nat 3)"
    by (rule worst_bound) (simp_all add: in_vital_chain_def oo_defs valid_organ_bounds blank_snapshot_def)
  then have "worst_health ?r \<le> h" by (simp add: w valid_organ_bounds)
  with worst_attained [of ?r "[0..16]" 100] h w show ?thesis
    by (auto simp: valid_organ_bounds)
qed

lemma uniform_chain: "h \<noteq> 0 \<Longrightarrow> chain_alive (uniform_registry h)"
  by (simp add: chain_alive_iff vital_chain_def broken_link_def valid_organ_bounds oo_defs)

lemma uniform_effective: "h \<le> 100 \<Longrightarrow> effective_health (uniform_registry h) = h"
  by (simp add: effective_health_def uniform_agg uniform_worst)

section \<open>Properties\<close>

text \<open>
  publishing stores the clamped health, the mode and the next heartbeat under the organ,
  changes no other snapshot, and announces it on the bus: every organ's queue grows by one
  yellow globule from which the organ, the mode and the health can be read back.
\<close>

theorem publish_announces:
  assumes "registry_ok r" "valid_organ organ" "steady bus" "\<not> congested bus"
    and "organ_state_publish organ h mode (r, bus) = (r', bus')"
  shows "(\<forall>q. valid_organ q \<longrightarrow> organ_state_get q r' =
      (let s = g_registry (ready r) ! nat q in
       if q = organ then Some (s\<lparr> present := 1, health := (if h > 100 then 100 else h), omode := mode,
                                  heartbeat := heartbeat s + 1 \<rparr>)
       else Some s))
    \<and> (\<exists>sig. (\<forall>reader. unat reader < 16 \<longrightarrow> pending reader bus' = pending reader bus
          @ [stamp bus (broadcast_globule GLOBULE_YELLOW (word_of_int organ) sig)])
        \<and> drop_bit 16 sig = word_of_int organ \<and> ucast (drop_bit 8 sig) = mode
        \<and> ucast sig = (if h > 100 then 100 else h))"
proof -
  from assms(5) publish_eq [OF assms(2), of h mode r bus] have
    bus': "bus' = bus_put (broadcast_globule GLOBULE_YELLOW (word_of_int organ)
      (organ_signal organ mode (clamp_health h))) bus" by simp
  have get: "organ_state_get q r' = (let s = g_registry (ready r) ! nat q in
      if q = organ then Some (s\<lparr> present := 1, health := clamp_health h, omode := mode,
        heartbeat := heartbeat s + 1 \<rparr>) else Some s)" if "valid_organ q" for q
    using organ_state_get_publish [OF assms(1,2) that, of h mode bus] assms(5) by simp
  have "pending reader bus' = pending reader bus @ [stamp bus (broadcast_globule GLOBULE_YELLOW
      (word_of_int organ) (organ_signal organ mode (clamp_health h)))]" if "unat reader < 16" for reader
    unfolding bus'
    by (rule pump_accepted_steady(2) [OF assms(3) yellow_broadcast_accepted [OF assms(4)] that])
  with get organ_signal_decode [OF assms(2), of mode "clamp_health h"]
  show ?thesis unfolding clamp_health_def by blast
qed

lemma steady_not_congested_boot: "\<not> congested (bus_boot mem)"
  by (simp add: congested_def next_systole_def bus_boot_def BASE_CAPACITY_def)

lemma publish_announces_witness:
  "organ_state_get OO_ORGAN_KERNEL (fst (organ_state_publish OO_ORGAN_KERNEL 250 2
      (registry_boot, bus_boot empty_ring)))
    = Some \<lparr> present = 1, health = 100, omode = 2, opad = 0, heartbeat = 1 \<rparr>"
proof -
  obtain r' bus' where e: "organ_state_publish OO_ORGAN_KERNEL 250 2 (registry_boot, bus_boot empty_ring)
      = (r', bus')" by (meson surj_pair)
  have v: "valid_organ OO_ORGAN_KERNEL" by (simp add: valid_organ_bounds OO_ORGAN_KERNEL_def)
  from publish_announces [OF registry_ok_boot v steady_boot steady_not_congested_boot e] v e
  show ?thesis
    by (simp add: registry_boot_def organ_state_init_def oo_defs blank_snapshot_def)
qed

text \<open>
  the aggregate health is the mean of the healths of the organs that have reported, rounded
  down, and lies between the smallest and the largest of them; the 32-bit sum does not wrap and
  the narrowing to eight bits loses nothing.
\<close>

theorem aggregate_health_mean:
  assumes "registry_ok r" "present_healths r \<noteq> []"
  shows "unat (fst (organ_state_aggregate_health r))
      = sum_list (present_healths r) div length (present_healths r)
    \<and> Min (set (present_healths r)) \<le> unat (fst (organ_state_aggregate_health r))
    \<and> unat (fst (organ_state_aggregate_health r)) \<le> Max (set (present_healths r))"
  using assms(2)
  by (simp add: unat_aggregate [OF assms(1)] mean_le_bound mean_ge_bound)

lemma aggregate_health_mean_witness:
  "unat (fst (organ_state_aggregate_health (uniform_registry 60))) = 60"
  by (subst aggregate_health_mean [THEN conjunct1])
    (simp_all add: uniform_ok uniform_healths sum_list_replicate)

text \<open>
  C10: survival first. When an evaluation of the mode returns a mode other than \<open>SAFE\<close>, then at its
  return no organ of the vital chain that has reported is at health zero and every other organ that
  has reported is at 40 or more; when it returns \<open>NORMAL\<close>, these are at 75 or more. The mode it returns
  is the current one. Organs that have never reported are not looked at, and between a report and the
  next evaluation the mode may be behind the healths.
\<close>

theorem mode_guarantees_health:
  assumes "homeostasis_mode_evaluate s = (m, s')" "m \<noteq> OO_MODE_SAFE"
    and "valid_organ i" "organ_state_get i (o_registry s') = Some snap" "present snap \<noteq> 0"
  shows "homeostasis_mode_current s' = m
    \<and> (if in_vital_chain i then health snap \<noteq> 0
       else 40 \<le> health snap \<and> (m = OO_MODE_NORMAL \<longrightarrow> 75 \<le> health snap))"
proof -
  from assms(1) have m: "m = next_mode s" and r: "o_registry s' = ready (o_registry s)"
    and c: "homeostasis_mode_current s' = m" by (auto simp: evaluate_eq homeostasis_mode_current_def)
  with assms(3,4) have snap: "snap = g_registry (ready (o_registry s)) ! nat i"
    by (simp add: organ_state_get_def valid_organ_def)
  show ?thesis
  proof (cases "in_vital_chain i")
    case True
    then have "i \<in> set vital_chain" by (auto simp: in_vital_chain_def vital_chain_def)
    with next_mode_chain [of s] assms(2,5) m have "\<not> broken_link (ready (o_registry s)) i"
      by (simp add: chain_alive_iff)
    with True assms(5) snap c show ?thesis by (simp add: broken_link_def)
  next
    case False
    have "effective_health (o_registry s) \<le> health snap"
      using effective_le_organ [OF False assms(3)] assms(5) snap by simp
    with False next_mode_health(1,2) [of s] assms(2) m c show ?thesis by (auto intro: order_trans)
  qed
qed

lemma mode_guarantees_health_witness:
  "\<exists>s'. homeostasis_mode_evaluate (organism_boot empty_ring\<lparr> o_registry := uniform_registry 50 \<rparr>)
      = (OO_MODE_DEGRADED, s') \<and> organ_state_get 3 (o_registry s') \<noteq> None
      \<and> 40 \<le> health (the (organ_state_get 3 (o_registry s')))"
proof -
  let ?s = "organism_boot empty_ring\<lparr> o_registry := uniform_registry 50 \<rparr>"
  have m: "next_mode ?s = OO_MODE_DEGRADED"
    by (simp add: next_mode_def uniform_effective uniform_chain organism_boot_def oo_defs)
  obtain s' where e: "homeostasis_mode_evaluate ?s = (OO_MODE_DEGRADED, s')"
    by (simp add: evaluate_eq m)
  then have "o_registry s' = uniform_registry 50" by (auto simp: evaluate_eq)
  then have g: "organ_state_get 3 (o_registry s') = Some (blank_snapshot\<lparr>present := 1, health := 50\<rparr>)"
    by (simp add: organ_state_get_def valid_organ_bounds)
  have "40 \<le> health (blank_snapshot\<lparr>present := 1, health := 50\<rparr>)"
    using mode_guarantees_health [OF e _ _ g]
    by (simp add: valid_organ_bounds in_vital_chain_def oo_defs)
  with e g show ?thesis by (intro exI [of _ s']) simp
qed

text \<open>
  C11: however publications and evaluations are interleaved, an organism that was in \<open>SAFE\<close> and
  is later in \<open>NORMAL\<close> or \<open>DEGRADED\<close> has been in \<open>RECOVERY\<close> in between.
\<close>

theorem safe_left_through_recovery:
  assumes "registry_ok (o_registry s)" "g_mode s = OO_MODE_SAFE"
    and "g_mode (fold organ_step es s) \<noteq> OO_MODE_SAFE"
  shows "\<exists>k\<le>length es. g_mode (fold organ_step (take k es) s) = OO_MODE_RECOVERY"
  using mode_fsm.exit_through [of "{OO_MODE_SAFE}" "{OO_MODE_RECOVERY}" s es] assms by auto

lemma safe_left_through_recovery_witness:
  "\<exists>k\<le>length [Evaluate, Evaluate]. g_mode (fold organ_step (take k [Evaluate, Evaluate])
      (organism_boot empty_ring\<lparr> o_registry := uniform_registry 95, g_mode := OO_MODE_SAFE \<rparr>))
    = OO_MODE_RECOVERY"
  by (rule safe_left_through_recovery)
    (simp_all add: uniform_ok evaluate_eq next_mode_def uniform_effective uniform_chain oo_defs)

text \<open>
  recovery is prompt. From any mode, two evaluations of a registry whose vital chain is
  alive and whose aggregate and worst health are both at least 90 bring the organism back to
  \<open>NORMAL\<close>.
\<close>

theorem healthy_returns_to_normal:
  assumes "chain_alive (o_registry s)" "90 \<le> agg_health (o_registry s)"
    and "90 \<le> worst_health (o_registry s)"
  shows "fst (homeostasis_mode_evaluate (snd (homeostasis_mode_evaluate s))) = OO_MODE_NORMAL"
proof -
  let ?h = "effective_health (o_registry s)"
  from assms(2,3) have h: "90 \<le> ?h" by (simp add: effective_health_def)
  then have n: "\<not> ?h < 40" "\<not> ?h < 75" "85 \<le> ?h"
    by (simp_all add: word_less_nat_alt word_le_nat_alt)
  let ?s1 = "snd (homeostasis_mode_evaluate s)"
  have "o_registry ?s1 = ready (o_registry s)" "g_mode ?s1 = next_mode s"
    by (simp_all add: evaluate_eq)
  then have "next_mode ?s1 = mode_switch ?h (mode_switch ?h (g_mode s))"
    using assms(1) unfolding next_mode_def by (simp only: views_ready if_True)
  also have "\<dots> = OO_MODE_NORMAL" using h n by (cases "g_mode s") (simp_all add: oo_defs)
  finally show ?thesis by (simp add: evaluate_eq)
qed

lemma healthy_returns_to_normal_witness:
  "fst (homeostasis_mode_evaluate (snd (homeostasis_mode_evaluate
     (organism_boot empty_ring\<lparr> o_registry := uniform_registry 95, g_mode := OO_MODE_SAFE \<rparr>))))
   = OO_MODE_NORMAL"
  by (rule healthy_returns_to_normal) (simp_all add: uniform_chain uniform_agg uniform_worst)

end
