(* ===== verification/Network_Lungs.thy ===== *)
theory Network_Lungs
  imports Bus_Faults
begin

text \<open>
  The respiration of the organism (\<open>network-baremetal/src/respiration.c\<close>, \<open>lungs.h\<close>): incoming
  frames become globules on the united bus. Pointers are 64-bit words, \<open>NULL\<close> is 0. Console
  messages are left out; \<open>network_exhale\<close> does nothing else and is the identity.
\<close>

record respiration =
  link_up :: u8
  breath_rate :: u32

definition lungs_boot :: respiration where
  "lungs_boot = \<lparr> link_up = 0, breath_rate = 0 \<rparr>"

definition network_init :: "respiration \<Rightarrow> respiration" where
  "network_init l = l\<lparr> link_up := 1 \<rparr>"

definition inhaled_globule :: "u64 \<Rightarrow> u64 \<Rightarrow> globule" where
  "inhaled_globule frame len =
     (let t = (if len < 64 then GLOBULE_YELLOW else GLOBULE_RED)
      in \<lparr> globule_id = 0, gtype = t, source_organ = 5,
           target_organ = (if t = GLOBULE_YELLOW then 3 else 0),
           payload_addr = frame, payload_size = ucast len \<rparr>)"

definition network_inhale ::
  "u64 \<Rightarrow> u64 \<Rightarrow> respiration \<times> united_bus \<Rightarrow> respiration \<times> united_bus" where
  "network_inhale frame len = (\<lambda>(l, bus).
     if frame = 0 \<or> len = 0 then (l, bus)
     else let (r, bus') = united_bus_pump (inhaled_globule frame len) bus
          in (if r = 0 then l\<lparr> breath_rate := breath_rate l + 1 \<rparr> else l, bus'))"

definition network_exhale :: "u8 list \<Rightarrow> respiration \<Rightarrow> respiration" where
  "network_exhale data l = l"

definition network_get_stats :: "respiration \<Rightarrow> respiration" where
  "network_get_stats l = l"

lemma inhaled_large [simp]:
  "\<not> len < 64 \<Longrightarrow> blocked_by_barrier (inhaled_globule frame len)"
  "\<not> len < 64 \<Longrightarrow> gtype (inhaled_globule frame len) = GLOBULE_RED"
  by (simp_all add: inhaled_globule_def blocked_by_barrier_def oo_defs)

lemma inhaled_small [simp]:
  "len < 64 \<Longrightarrow> \<not> blocked_by_barrier (inhaled_globule frame len)"
  "len < 64 \<Longrightarrow> gtype (inhaled_globule frame len) = GLOBULE_YELLOW"
  by (simp_all add: inhaled_globule_def blocked_by_barrier_def oo_defs)

lemma pump_blocked:
  "blocked_by_barrier g \<Longrightarrow> gtype g = GLOBULE_RED \<Longrightarrow>
     fst (united_bus_pump g b) \<noteq> 0 \<and> blood_stream (bus_put g b) = blood_stream b
     \<and> heart_systole (bus_put g b) = heart_systole b \<and> drops (bus_put g b) = drops b + 1"
  by (simp add: united_bus_pump_def Let_def is_priority_def)

lemma pump_priority:
  "is_priority (gtype g) \<Longrightarrow> fst (united_bus_pump g b) = 0"
  by (auto simp: united_bus_pump_def Let_def is_priority_def blocked_by_barrier_def)

text \<open>
  the result of an inhalation. A frame of fewer than 64 bytes is always taken up and
  counted; a frame of 64 bytes or more never is: it goes out as red data for the cortex from
  organ 5, which the blood-brain barrier refuses, so nothing is written to the bus, the frame
  is counted as a drop and the breath rate does not move.
\<close>

theorem network_inhale_result:
  assumes "frame \<noteq> 0" "len \<noteq> 0" "network_inhale frame len (l, bus) = (l', bus')"
  shows "if len < 64 then breath_rate l' = breath_rate l + 1 \<and> drops bus' = drops bus
         else l' = l \<and> blood_stream bus' = blood_stream bus
              \<and> heart_systole bus' = heart_systole bus \<and> drops bus' = drops bus + 1"
proof (cases "len < 64")
  case True
  let ?g = "inhaled_globule frame len"
  from True have p: "is_priority (gtype ?g)" by (simp add: is_priority_def)
  have "drops (bus_put ?g bus) = drops bus"
    using True p by (auto simp: united_bus_pump_def Let_def)
  with True assms pump_priority [OF p, of bus] show ?thesis
    by (auto simp: network_inhale_def split: prod.splits)
next
  case False
  then have "blocked_by_barrier (inhaled_globule frame len)"
    "gtype (inhaled_globule frame len) = GLOBULE_RED" by simp_all
  from pump_blocked [OF this, of bus] False assms show ?thesis
    by (auto simp: network_inhale_def split: prod.splits)
qed

lemma network_inhale_result_witness:
  "fst (network_inhale 4096 1500 (lungs_boot, bus_boot empty_ring)) = lungs_boot"
proof -
  obtain l bus where "network_inhale 4096 1500 (lungs_boot, bus_boot empty_ring) = (l, bus)"
    by (meson surj_pair)
  with network_inhale_result [OF _ _ this] show ?thesis by simp
qed

end
