(* ===== verification/C_Bytes.thy ===== *)
theory C_Bytes
  imports OO_Prelude
begin

text \<open>
  Little-endian words in byte buffers. A buffer is a list of bytes; \<open>put_le32\<close> and \<open>put_le16\<close> are
  the two store functions of \<open>control-planes/src/oo_telemetry.c\<close> and also model the stores to
  32-bit fields of structures that are hashed or copied as bytes.
\<close>

definition put_le32 :: "nat \<Rightarrow> u32 \<Rightarrow> u8 list \<Rightarrow> u8 list" where
  "put_le32 p v out = out[p := ucast (v AND 0xFF), p + 1 := ucast (drop_bit 8 v AND 0xFF),
     p + 2 := ucast (drop_bit 16 v AND 0xFF), p + 3 := ucast (drop_bit 24 v AND 0xFF)]"

definition put_le16 :: "nat \<Rightarrow> u16 \<Rightarrow> u8 list \<Rightarrow> u8 list" where
  "put_le16 p v out = out[p := ucast (v AND 0xFF), p + 1 := ucast (drop_bit 8 v AND 0xFF)]"

definition get_le32 :: "u8 list \<Rightarrow> nat \<Rightarrow> u32" where
  "get_le32 bs p = ucast (bs ! p) OR push_bit 8 (ucast (bs ! (p + 1)))
     OR push_bit 16 (ucast (bs ! (p + 2))) OR push_bit 24 (ucast (bs ! (p + 3)))"

definition get_le16 :: "u8 list \<Rightarrow> nat \<Rightarrow> u16" where
  "get_le16 bs p = ucast (bs ! p) OR push_bit 8 (ucast (bs ! (p + 1)))"

lemma low_byte:
  "ucast (v AND 0xFF) = (ucast v :: u8)" "ucast (w AND 0xFF) = (ucast w :: u8)"
  for v :: u32 and w :: u16
proof -
  have "v AND 0xFF = take_bit 8 v" by (subst take_bit_eq_mask) (simp add: mask_eq_exp_minus_1)
  moreover have "w AND 0xFF = take_bit 8 w" by (subst take_bit_eq_mask) (simp add: mask_eq_exp_minus_1)
  ultimately show "ucast (v AND 0xFF) = (ucast v :: u8)" "ucast (w AND 0xFF) = (ucast w :: u8)"
    by (auto intro!: bit_word_eqI simp: bit_simps)
qed

lemma le32_bytes:
  "ucast (ucast v :: u8) OR push_bit 8 (ucast (ucast (drop_bit 8 v) :: u8))
     OR push_bit 16 (ucast (ucast (drop_bit 16 v) :: u8))
     OR push_bit 24 (ucast (ucast (drop_bit 24 v) :: u8)) = (v :: u32)"
proof (rule bit_word_eqI)
  fix n assume "n < LENGTH(32)"
  then consider "n < 8" | "8 \<le> n" "n < 16" | "16 \<le> n" "n < 24" | "24 \<le> n" "n < 32" by force
  then show "bit (ucast (ucast v :: u8) OR push_bit 8 (ucast (ucast (drop_bit 8 v) :: u8))
     OR push_bit 16 (ucast (ucast (drop_bit 16 v) :: u8))
     OR push_bit 24 (ucast (ucast (drop_bit 24 v) :: u8)) :: u32) n = bit v n"
    by cases (auto simp: bit_simps)
qed

lemma le16_bytes:
  "ucast (ucast v :: u8) OR push_bit 8 (ucast (ucast (drop_bit 8 v) :: u8)) = (v :: u16)"
proof (rule bit_word_eqI)
  fix n assume "n < LENGTH(16)"
  then consider "n < 8" | "8 \<le> n" "n < 16" by force
  then show "bit (ucast (ucast v :: u8) OR push_bit 8 (ucast (ucast (drop_bit 8 v) :: u8)) :: u16) n
      = bit v n"
    by cases (auto simp: bit_simps)
qed

lemma length_put_le [simp]:
  "length (put_le32 p v out) = length out" "length (put_le16 p w out) = length out"
  by (simp_all add: put_le32_def put_le16_def)

lemma get_put_le32 [simp]: "p + 3 < length out \<Longrightarrow> get_le32 (put_le32 p v out) p = v"
  by (simp add: get_le32_def put_le32_def low_byte le32_bytes)

lemma get_put_le16 [simp]: "p + 1 < length out \<Longrightarrow> get_le16 (put_le16 p v out) p = v"
  by (simp add: get_le16_def put_le16_def low_byte le16_bytes)

lemma nth_put_le:
  "i < p \<or> p + 3 < i \<Longrightarrow> put_le32 p v out ! i = out ! i"
  "i < p \<or> p + 1 < i \<Longrightarrow> put_le16 p w out ! i = out ! i"
  by (auto simp: put_le32_def put_le16_def)

lemma get_le_frame:
  "q + 3 < p \<or> p + 3 < q \<Longrightarrow> get_le32 (put_le32 p v out) q = get_le32 out q"
  "q + 3 < p \<or> p + 1 < q \<Longrightarrow> get_le32 (put_le16 p w out) q = get_le32 out q"
  "q + 1 < p \<or> p + 3 < q \<Longrightarrow> get_le16 (put_le32 p v out) q = get_le16 out q"
  "q + 3 < p \<or> p < q \<Longrightarrow> get_le32 (out[p := b]) q = get_le32 out q"
  "q + 1 < p \<or> p < q \<Longrightarrow> get_le16 (out[p := b]) q = get_le16 out q"
  by (auto simp: get_le32_def get_le16_def nth_put_le)

lemma get_le_take:
  "p + 3 < n \<Longrightarrow> get_le32 (take n bs) p = get_le32 bs p"
  "p + 1 < n \<Longrightarrow> get_le16 (take n bs) p = get_le16 bs p"
  by (simp_all add: get_le32_def get_le16_def)

end
