(* ===== verification/Control_Planes.thy ===== *)
theory Control_Planes
  imports Homeostasis_Mode Network_Lungs C_Bytes
begin

text \<open>
  The three control planes and the control tick (\<open>control-planes/src/reflex_engine.c\<close>,
  \<open>strategic_brain.c\<close>, \<open>organ_autonomy.c\<close>, \<open>control_tick.c\<close>) and the telemetry frame
  (\<open>oo_telemetry.c\<close>). The status structures the engines fill are results; all callers pass
  them. The state extends \<open>organism\<close> by the lungs and the static variables of \<open>control_tick.c\<close>.
\<close>

section \<open>Decisions and their priority\<close>

datatype oo_decision = OO_DECISION_NONE | OO_DECISION_HOLD | OO_DECISION_THROTTLE
  | OO_DECISION_ISOLATE | OO_DECISION_RECOVER | OO_DECISION_OPTIMIZE

fun decision_rank :: "oo_decision \<Rightarrow> nat" where
  "decision_rank OO_DECISION_THROTTLE = 0"
| "decision_rank OO_DECISION_ISOLATE = 1"
| "decision_rank OO_DECISION_RECOVER = 2"
| "decision_rank OO_DECISION_HOLD = 3"
| "decision_rank OO_DECISION_OPTIMIZE = 4"
| "decision_rank OO_DECISION_NONE = 5"

lemma decision_rank_inj [simp]: "decision_rank d = decision_rank e \<longleftrightarrow> d = e"
  by (cases d; cases e) simp_all

text \<open>The priority rule of the organism as the order of the type: smaller wins.\<close>

instantiation oo_decision :: linorder
begin

definition less_eq_oo_decision :: "oo_decision \<Rightarrow> oo_decision \<Rightarrow> bool" where
  "d \<le> e \<longleftrightarrow> decision_rank d \<le> decision_rank e"

definition less_oo_decision :: "oo_decision \<Rightarrow> oo_decision \<Rightarrow> bool" where
  "d < e \<longleftrightarrow> decision_rank d < decision_rank e"

instance
  by standard (auto simp: less_eq_oo_decision_def less_oo_decision_def simp flip: decision_rank_inj)

end

lemmas decision_order = less_eq_oo_decision_def less_oo_decision_def

record plane_status =
  active :: u8
  last_decision :: oo_decision
  reason_code :: u16
  risk_score :: u8

section \<open>The engines\<close>

definition reflex_engine_run ::
  "homeostasis_mode \<Rightarrow> u8 \<Rightarrow> organ_registry \<Rightarrow> oo_decision \<times> plane_status \<times> organ_registry" where
  "reflex_engine_run mode agg r0 =
     (let (alive, r) = organ_state_vital_chain_alive r0;
          (decision, reason, risk) =
            (if \<not> alive then (OO_DECISION_THROTTLE, 1, 100)
             else if agg < OO_HEALTH_SAFE_BELOW then (OO_DECISION_THROTTLE, 2, 90)
             else if agg < OO_HEALTH_DEGRADED_BELOW then (OO_DECISION_ISOLATE, 3, 60)
             else (OO_DECISION_HOLD, 0, 0))
      in (decision, \<lparr> active = 1, last_decision = decision, reason_code = reason,
                      risk_score = risk \<rparr>, r))"

definition strategic_brain_run :: "homeostasis_mode \<Rightarrow> u8 \<Rightarrow> oo_decision \<times> plane_status" where
  "strategic_brain_run mode agg =
     (let (decision, reason, risk) =
        (case mode of
           OO_MODE_NORMAL \<Rightarrow>
             (if agg \<ge> OO_HEALTH_NORMAL_ABOVE then (OO_DECISION_OPTIMIZE, 1, 10)
              else (OO_DECISION_HOLD, 0, 10))
         | OO_MODE_RECOVERY \<Rightarrow> (OO_DECISION_RECOVER, 2, 30)
         | _ \<Rightarrow> (OO_DECISION_HOLD, 3, 50))
      in (decision, \<lparr> active = 1, last_decision = decision, reason_code = reason,
                      risk_score = risk \<rparr>))"

definition autonomy_step :: "organ_registry \<Rightarrow> int \<Rightarrow> u8 \<Rightarrow> u8" where
  "autonomy_step r i worst =
     (if in_vital_chain i then worst
      else case organ_state_get i r of
             None \<Rightarrow> worst
           | Some s \<Rightarrow> if present s \<noteq> 0 then (if health s < worst then health s else worst)
                       else worst)"

definition organ_autonomy_run ::
  "homeostasis_mode \<Rightarrow> u8 \<Rightarrow> organ_registry \<Rightarrow> oo_decision \<times> plane_status" where
  "organ_autonomy_run mode agg r =
     (let worst = fold (autonomy_step r) [0..OO_ORGAN_COUNT - 1] 100;
          (decision, reason, risk) =
            (if worst < OO_HEALTH_SAFE_BELOW then (OO_DECISION_RECOVER, 1, 40)
             else if worst < OO_HEALTH_DEGRADED_BELOW then (OO_DECISION_THROTTLE, 2, 25)
             else (OO_DECISION_HOLD, 0, 0))
      in (decision, \<lparr> active = 1, last_decision = decision, reason_code = reason,
                      risk_score = risk \<rparr>))"

section \<open>Telemetry\<close>

record telemetry_pkt =
  t_magic :: u32
  t_organ_id :: u16
  t_mode :: u8
  t_health :: u8
  t_cpu_neural :: u32
  t_mem_used_mb :: u32
  t_breath_rate :: u32
  t_tick :: u32

definition OO_TELEMETRY_MAGIC :: u32 where "OO_TELEMETRY_MAGIC = 0x4F4F5431"

text \<open>The output buffer is the list \<open>out\<close>, at least \<open>out_len\<close> bytes long.\<close>

definition oo_telemetry_serialize :: "telemetry_pkt \<Rightarrow> u8 list \<Rightarrow> nat \<Rightarrow> nat \<times> u8 list" where
  "oo_telemetry_serialize pkt out out_len =
     (if out_len < 24 then (0, out)
      else let out = put_le32 0 (t_magic pkt) out;
               out = put_le16 4 (t_organ_id pkt) out;
               out = out[6 := t_mode pkt];
               out = out[7 := t_health pkt];
               out = put_le32 8 (t_cpu_neural pkt) out;
               out = put_le32 12 (t_mem_used_mb pkt) out;
               out = put_le32 16 (t_breath_rate pkt) out;
               out = put_le32 20 (t_tick pkt) out
           in (24, out))"

text \<open>The state of the planes.\<close>

record control_state = organism +
  o_lungs :: respiration
  g_reflex :: plane_status
  g_strategic :: plane_status
  g_autonomy :: plane_status
  g_ticks :: u32

definition cortex_load :: "organ_registry \<Rightarrow> u32" where
  "cortex_load r = (case organ_state_get OO_ORGAN_CORTEX r of
       None \<Rightarrow> 0
     | Some c \<Rightarrow> if present c \<noteq> 0 then (if health c \<le> 100 then 100 - ucast (health c) else 0) else 0)"

definition oo_telemetry_fill :: "control_state \<Rightarrow> telemetry_pkt \<times> control_state" where
  "oo_telemetry_fill s =
     (let rs = network_get_stats (o_lungs s);
          cpu = cortex_load (o_registry s);
          mode = mode_code (homeostasis_mode_current s);
          (agg, r) = organ_state_aggregate_health (o_registry s)
      in (\<lparr> t_magic = OO_TELEMETRY_MAGIC, t_organ_id = 0xFFFF, t_mode = mode, t_health = agg,
            t_cpu_neural = cpu, t_mem_used_mb = 0, t_breath_rate = breath_rate rs,
            t_tick = g_ticks s \<rparr>, s\<lparr> o_registry := r \<rparr>))"

section \<open>The control tick\<close>

text \<open>
  One tick; \<open>buf\<close> is the uninitialised local buffer. The second component is what is handed to
  \<open>network_exhale\<close>, if anything.
\<close>

definition control_tick ::
  "u8 list \<Rightarrow> control_state \<Rightarrow> oo_decision \<times> u8 list option \<times> control_state" where
  "control_tick buf s0 =
     (let s = s0\<lparr> g_ticks := g_ticks s0 + 1 \<rparr>;
          (mode, s) = homeostasis_mode_evaluate s;
          (h, r) = organ_state_aggregate_health (o_registry s);
          s = s\<lparr> o_registry := r \<rparr>;
          (reflex, st, r) = reflex_engine_run mode h (o_registry s);
          s = s\<lparr> o_registry := r, g_reflex := st \<rparr>;
          (strat, st) = strategic_brain_run mode h;
          s = s\<lparr> g_strategic := st \<rparr>;
          (auton, st) = organ_autonomy_run mode h (o_registry s);
          s = s\<lparr> g_autonomy := st \<rparr>;
          resolved = reflex;
          resolved = (if decision_rank auton < decision_rank resolved then auton else resolved);
          resolved = (if decision_rank strat < decision_rank resolved then strat else resolved);
          (pkt, s) = oo_telemetry_fill s;
          (n, out) = oo_telemetry_serialize pkt buf 24
      in (resolved, if n > 0 then Some (take n out) else None,
          if n > 0 then s\<lparr> o_lungs := network_exhale (take n out) (o_lungs s) \<rparr> else s))"

text \<open>The static initialisers of the planes and of what they use.\<close>

definition planes_boot :: "(nat \<Rightarrow> globule) \<Rightarrow> control_state" where
  "planes_boot mem =
     (let st = \<lparr> active = 0, last_decision = OO_DECISION_NONE, reason_code = 0, risk_score = 0 \<rparr>
      in \<lparr> o_registry = registry_boot, o_bus = bus_boot mem, g_mode = OO_MODE_NORMAL, o_lungs = lungs_boot,
           g_reflex = st, g_strategic = st, g_autonomy = st, g_ticks = 0 \<rparr>)"

section \<open>The tick in closed form\<close>

definition reflex_choice :: "bool \<Rightarrow> u8 \<Rightarrow> oo_decision" where
  "reflex_choice alive agg = (if \<not> alive \<or> agg < 40 then OO_DECISION_THROTTLE
     else if agg < 75 then OO_DECISION_ISOLATE else OO_DECISION_HOLD)"

definition strategy_choice :: "homeostasis_mode \<Rightarrow> u8 \<Rightarrow> oo_decision" where
  "strategy_choice m agg = (if m = OO_MODE_NORMAL \<and> 90 \<le> agg then OO_DECISION_OPTIMIZE
     else if m = OO_MODE_RECOVERY then OO_DECISION_RECOVER else OO_DECISION_HOLD)"

definition autonomy_choice :: "u8 \<Rightarrow> oo_decision" where
  "autonomy_choice worst = (if worst < 40 then OO_DECISION_RECOVER
     else if worst < 75 then OO_DECISION_THROTTLE else OO_DECISION_HOLD)"

lemma reflex_eq: "fst (reflex_engine_run mode agg r) = reflex_choice (chain_alive r) agg"
  "snd (snd (reflex_engine_run mode agg r)) = ready r"
  by (simp_all only: reflex_engine_run_def registry_prod Let_def prod.case)
    (simp_all add: reflex_choice_def oo_defs)

lemma strategy_eq: "fst (strategic_brain_run mode agg) = strategy_choice mode agg"
  by (cases mode) (simp_all add: strategic_brain_run_def strategy_choice_def oo_defs)

lemma autonomy_fold:
  "(\<forall>i\<in>set ks. valid_organ i) \<Longrightarrow> fold (autonomy_step r) ks w = fold (worst_step r) ks w"
  by (induction ks arbitrary: w)
    (auto simp: autonomy_step_def worst_step_def Let_def organ_state_get_def)

lemma autonomy_eq: "g_inited r \<Longrightarrow> fst (organ_autonomy_run mode agg r) = autonomy_choice (worst_health r)"
proof -
  assume i: "g_inited r"
  have "fold (autonomy_step r) [0..16] 100 = worst_health r"
    using i by (subst autonomy_fold)
      (auto simp: valid_organ_bounds worst_health_def organ_state_worst_nonvital_health_def
        OO_ORGAN_COUNT_def Let_def)
  then show ?thesis
    by (simp add: organ_autonomy_run_def autonomy_choice_def oo_defs Let_def)
qed

lemma min_decision: "(if decision_rank d < decision_rank e then d else e) = min e d"
  by (cases d; cases e) (simp_all add: min_def decision_order)

lemma next_mode_ticks [simp]: "next_mode (s\<lparr> g_ticks := n \<rparr>) = next_mode s"
  by (simp add: next_mode_def)

text \<open>What is decided from a registry and the mode the evaluation has just chosen.\<close>

definition resolved_decision :: "organ_registry \<Rightarrow> homeostasis_mode \<Rightarrow> oo_decision" where
  "resolved_decision r m = min (min (reflex_choice (chain_alive r) (agg_health r))
     (autonomy_choice (worst_health r))) (strategy_choice m (agg_health r))"

definition tick_packet :: "control_state \<Rightarrow> telemetry_pkt" where
  "tick_packet s = \<lparr> t_magic = OO_TELEMETRY_MAGIC, t_organ_id = 0xFFFF,
     t_mode = mode_code (next_mode s), t_health = agg_health (o_registry s),
     t_cpu_neural = cortex_load (ready (o_registry s)), t_mem_used_mb = 0,
     t_breath_rate = breath_rate (o_lungs s), t_tick = g_ticks s + 1 \<rparr>"

lemma control_tick_eq:
  fixes buf :: "u8 list"
  defines "ser \<equiv> \<lambda>s. oo_telemetry_serialize (tick_packet s) buf 24"
  shows "fst (control_tick buf s) = resolved_decision (o_registry s) (next_mode s)"
    and "fst (snd (control_tick buf s)) = Some (take 24 (snd (ser s)))"
    and "g_mode (snd (snd (control_tick buf s))) = next_mode s"
    and "g_ticks (snd (snd (control_tick buf s))) = g_ticks s + 1"
    and "o_registry (snd (snd (control_tick buf s))) = ready (o_registry s)"
    and "o_lungs (snd (snd (control_tick buf s))) = o_lungs s"
proof -
  let ?t = "s\<lparr> g_ticks := g_ticks s + 1 \<rparr>"
  define q where "q = ready (o_registry s)"
  obtain s1 where e: "homeostasis_mode_evaluate ?t = (next_mode s, s1)"
    and s1: "g_mode s1 = next_mode s" "o_registry s1 = q" "o_lungs s1 = o_lungs s"
      "g_ticks s1 = g_ticks s + 1"
    by (simp add: evaluate_eq q_def del: if_split)
  have i: "g_inited q" by (simp add: q_def)
  have views: "agg_health q = agg_health (o_registry s)" "worst_health q = worst_health (o_registry s)"
    "chain_alive q = chain_alive (o_registry s)"
    by (simp_all only: q_def views_ready)
  have a: "organ_state_aggregate_health q = (agg_health q, q)"
    using registry_prod(1) [of q] i by simp
  define rs where "rs m h = fst (snd (reflex_engine_run m h q))" for m h
  have r: "reflex_engine_run m h q = (reflex_choice (chain_alive q) h, rs m h, q)" for m h
    using i by (simp add: rs_def prod_eq_iff reflex_eq)
  define ss where "ss m h = snd (strategic_brain_run m h)" for m h
  have st: "strategic_brain_run m h = (strategy_choice m h, ss m h)" for m h
    by (simp add: ss_def prod_eq_iff strategy_eq)
  define aut where "aut m h = snd (organ_autonomy_run m h q)" for m h
  have au: "organ_autonomy_run m h q = (autonomy_choice (worst_health q), aut m h)" for m h
    by (simp add: aut_def prod_eq_iff autonomy_eq [OF i])
  obtain out where ser: "oo_telemetry_serialize (tick_packet s) buf 24 = (24, out)"
    by (simp add: oo_telemetry_serialize_def Let_def)
  note unfold = control_tick_def Let_def e a r st au s1 oo_telemetry_fill_def
    homeostasis_mode_current_def network_exhale_def network_get_stats_def
  have pkt: "oo_telemetry_serialize \<lparr> t_magic = OO_TELEMETRY_MAGIC, t_organ_id = 0xFFFF,
     t_mode = mode_code (next_mode s), t_health = agg_health (o_registry s),
     t_cpu_neural = cortex_load q, t_mem_used_mb = 0,
     t_breath_rate = breath_rate (o_lungs s), t_tick = g_ticks s + 1 \<rparr> buf 24 = (24, out)"
    using ser by (simp add: tick_packet_def views q_def del: if_split)
  show "fst (control_tick buf s) = resolved_decision (o_registry s) (next_mode s)"
    by (simp add: unfold pkt resolved_decision_def min_decision views del: if_split)
  show "fst (snd (control_tick buf s)) = Some (take 24 (snd (ser s)))"
    by (simp add: unfold pkt ser_def ser views del: if_split)
  show "g_mode (snd (snd (control_tick buf s))) = next_mode s"
    "g_ticks (snd (snd (control_tick buf s))) = g_ticks s + 1"
    "o_registry (snd (snd (control_tick buf s))) = ready (o_registry s)"
    "o_lungs (snd (snd (control_tick buf s))) = o_lungs s"
    unfolding q_def [symmetric] by (simp_all add: unfold pkt views del: if_split)
qed

section \<open>Reading a frame back\<close>

text \<open>The reader of the wire layout given in the header.\<close>

definition telemetry_decode :: "u8 list \<Rightarrow> telemetry_pkt" where
  "telemetry_decode bs = \<lparr> t_magic = get_le32 bs 0, t_organ_id = get_le16 bs 4,
     t_mode = bs ! 6, t_health = bs ! 7, t_cpu_neural = get_le32 bs 8,
     t_mem_used_mb = get_le32 bs 12, t_breath_rate = get_le32 bs 16, t_tick = get_le32 bs 20 \<rparr>"

lemma serialize_decode:
  assumes "24 \<le> length out" "24 \<le> n"
  shows "fst (oo_telemetry_serialize pkt out n) = 24"
    and "telemetry_decode (snd (oo_telemetry_serialize pkt out n)) = pkt"
    and "length (snd (oo_telemetry_serialize pkt out n)) = length out"
    and "24 \<le> i \<Longrightarrow> snd (oo_telemetry_serialize pkt out n) ! i = out ! i"
  using assms
  by (simp_all add: oo_telemetry_serialize_def telemetry_decode_def Let_def get_le_frame nth_put_le)

lemma telemetry_decode_take: "telemetry_decode (take 24 bs) = telemetry_decode bs"
  by (simp add: telemetry_decode_def get_le_take)

section \<open>Properties\<close>

text \<open>
  C13: the telemetry frame. Serialising a packet into a buffer of at least 24 bytes writes
  exactly the first 24 bytes, from which a little-endian reader recovers every field; the rest
  of the buffer is untouched.
\<close>

theorem telemetry_roundtrip:
  assumes "24 \<le> length out" "24 \<le> n" "oo_telemetry_serialize pkt out n = (k, out')"
  shows "k = 24 \<and> telemetry_decode out' = pkt \<and> length out' = length out \<and> drop 24 out' = drop 24 out"
proof -
  from assms(3) have o: "out' = snd (oo_telemetry_serialize pkt out n)"
    and k: "k = fst (oo_telemetry_serialize pkt out n)" by simp_all
  note f = serialize_decode [OF assms(1,2), where pkt = pkt, folded o k]
  have "drop 24 out' = drop 24 out"
    using f(3,4) assms(1) by (intro nth_equalityI) simp_all
  with f show ?thesis by simp
qed

lemma telemetry_roundtrip_witness:
  "telemetry_decode (snd (oo_telemetry_serialize (telemetry_decode (replicate 24 7)) (replicate 30 0) 24))
     = telemetry_decode (replicate 24 7)"
proof -
  obtain k out' where e: "oo_telemetry_serialize (telemetry_decode (replicate 24 7)) (replicate 30 0) 24
    = (k, out')" by (meson surj_pair)
  with telemetry_roundtrip [OF _ _ e] show ?thesis by simp
qed

text \<open>
  C12: a control tick resolves to the most protective of the three planes' decisions, in the
  order of \<open>decision_rank\<close>, all three taken on the same registry and on the mode evaluated in
  this tick; the tick counter advances by one and the mode is the evaluated one.
\<close>

theorem tick_resolves_minimum:
  "fst (control_tick buf s) =
     min (reflex_choice (chain_alive (o_registry s)) (agg_health (o_registry s)))
       (min (autonomy_choice (worst_health (o_registry s)))
            (strategy_choice (fst (homeostasis_mode_evaluate s)) (agg_health (o_registry s))))
   \<and> g_mode (snd (snd (control_tick buf s))) = fst (homeostasis_mode_evaluate s)
   \<and> g_ticks (snd (snd (control_tick buf s))) = g_ticks s + 1"
  by (simp add: control_tick_eq resolved_decision_def evaluate_eq min.assoc)

text \<open>
  survival dominates. When an organ of the vital chain has reported health zero, or the
  aggregate health is below 40, the tick throttles. It never resolves to \<open>OPTIMIZE\<close>: the reflex
  plane always contributes at least \<open>HOLD\<close>, which outranks it, whatever the strategic plane says.
\<close>

theorem tick_survival_first:
  "((\<not> chain_alive (o_registry s) \<or> agg_health (o_registry s) < 40)
      \<longrightarrow> fst (control_tick buf s) = OO_DECISION_THROTTLE)
   \<and> fst (control_tick buf s) \<le> OO_DECISION_HOLD
   \<and> fst (control_tick buf s) \<noteq> OO_DECISION_OPTIMIZE"
proof -
  have t: "min OO_DECISION_THROTTLE d = OO_DECISION_THROTTLE" for d
    by (cases d) (simp_all add: min_def decision_order)
  have "reflex_choice a h \<le> OO_DECISION_HOLD" for a h
    by (simp add: reflex_choice_def decision_order)
  then have le: "resolved_decision (o_registry s) m \<le> OO_DECISION_HOLD" for m
    by (simp add: resolved_decision_def min_le_iff_disj)
  have ne: "\<not> OO_DECISION_OPTIMIZE \<le> OO_DECISION_HOLD" by (simp add: decision_order)
  have "\<not> chain_alive (o_registry s) \<or> agg_health (o_registry s) < 40 \<Longrightarrow>
      reflex_choice (chain_alive (o_registry s)) (agg_health (o_registry s)) = OO_DECISION_THROTTLE"
    by (auto simp: reflex_choice_def)
  moreover have "resolved_decision (o_registry s) m \<noteq> OO_DECISION_OPTIMIZE" for m
    using le ne by metis
  ultimately show ?thesis using le by (auto simp: control_tick_eq) (auto simp: resolved_decision_def t)
qed

lemma tick_survival_first_witness:
  "\<exists>s. fst (control_tick (replicate 24 0) s) = OO_DECISION_THROTTLE"
proof -
  let ?st = "\<lparr> active = 0, last_decision = OO_DECISION_NONE, reason_code = 0, risk_score = 0 \<rparr>"
  let ?s = "\<lparr> o_registry = uniform_registry 20, o_bus = bus_boot empty_ring, g_mode = OO_MODE_NORMAL,
    o_lungs = lungs_boot, g_reflex = ?st, g_strategic = ?st, g_autonomy = ?st, g_ticks = 0 \<rparr>"
  have "agg_health (o_registry ?s) < 40" by (simp add: uniform_agg)
  then have "fst (control_tick (replicate 24 0) ?s) = OO_DECISION_THROTTLE"
    using tick_survival_first [of ?s "replicate 24 0"] by blast
  then show ?thesis by blast
qed

end
