(* ===== verification/Kernel_Scheduler.thy ===== *)
theory Kernel_Scheduler
  imports Bus_Faults
begin

text \<open>
  The scheduler of the kernel (\<open>kernel-baremetal/src/oo_scheduler.c\<close> and its header). The static
  pool is a list of 16 tasks, a pointer into it is the index of the slot (\<open>None\<close> for \<open>NULL\<close>), an
  entry point is a 64-bit address. The loops follow the \<open>next\<close> pointers and may not end, so
  they are partial; a heartbeat returns the slots whose entry point it calls, in order. An entry
  point is code of another organ and does not touch the scheduler here.
\<close>

section \<open>State\<close>

datatype homeostasis_state = OO_STATE_RELAXED | OO_STATE_VIGILANT | OO_STATE_COMBAT | OO_STATE_SURVIVAL

datatype organ_type = ORGAN_TYPE_CORTEX | ORGAN_TYPE_IMMUNE | ORGAN_TYPE_SENSORY | ORGAN_TYPE_VITAL

record hormones =
  adrenaline :: u8
  melatonin :: u8
  endorphin :: u8

record organ_task =
  task_id :: u32
  ttype :: organ_type
  entry_point :: u64
  current_cpu_share :: u8
  is_sleeping :: u8
  next_task :: "nat option"

definition MAX_TASKS :: nat where [oo_defs]: "MAX_TASKS = 16"
definition CYCLE_DURATION :: u64 where [oo_defs]: "CYCLE_DURATION = 10000"

record scheduler =
  organ_pool :: "organ_task list"
  next_task_id :: u8
  head_organ :: "nat option"
  current_state :: homeostasis_state
  circadian_clock :: u64
  body_hormones :: hormones

definition blank_task :: organ_task where
  "blank_task = \<lparr> task_id = 0, ttype = ORGAN_TYPE_CORTEX, entry_point = 0, current_cpu_share = 0,
     is_sleeping = 0, next_task = None \<rparr>"

definition scheduler_boot :: scheduler where
  "scheduler_boot = \<lparr> organ_pool = replicate 16 blank_task, next_task_id = 1, head_organ = None,
     current_state = OO_STATE_RELAXED, circadian_clock = 0,
     body_hormones = \<lparr> adrenaline = 0, melatonin = 0, endorphin = 0 \<rparr> \<rparr>"

section \<open>Operations\<close>

definition oo_scheduler_init :: "scheduler \<Rightarrow> scheduler" where
  "oo_scheduler_init s = s\<lparr> head_organ := None, current_state := OO_STATE_RELAXED,
     organ_pool := map (\<lambda>t. t\<lparr> task_id := 0 \<rparr>) (organ_pool s) \<rparr>"

text \<open>The first slot whose task id is 0, from index \<open>i\<close>.\<close>

fun free_slot :: "nat \<Rightarrow> organ_task list \<Rightarrow> nat option" where
  "free_slot i [] = None"
| "free_slot i (t # ts) = (if task_id t = 0 then Some i else free_slot (Suc i) ts)"

definition new_task :: "organ_type \<Rightarrow> u64 \<Rightarrow> scheduler \<Rightarrow> organ_task" where
  "new_task t entry s = \<lparr> task_id = ucast (next_task_id s), ttype = t, entry_point = entry,
     current_cpu_share = (if t = ORGAN_TYPE_VITAL then 100 else 10), is_sleeping = 0,
     next_task = head_organ s \<rparr>"

definition oo_scheduler_register_organ :: "organ_type \<Rightarrow> u64 \<Rightarrow> scheduler \<Rightarrow> scheduler" where
  "oo_scheduler_register_organ t entry s =
     (case free_slot 0 (organ_pool s) of
        None \<Rightarrow> s
      | Some i \<Rightarrow> s\<lparr> organ_pool := (organ_pool s)[i := new_task t entry s],
                     next_task_id := next_task_id s + 1, head_organ := Some i \<rparr>)"

text \<open>The body of the loop of \<open>oo_scheduler_set_state\<close>.\<close>

definition reallocate :: "homeostasis_state \<Rightarrow> organ_task \<Rightarrow> organ_task" where
  "reallocate st t = (case st of
       OO_STATE_RELAXED \<Rightarrow>
         (let t = (if ttype t = ORGAN_TYPE_CORTEX then t\<lparr> current_cpu_share := 80 \<rparr> else t);
              t = (if ttype t = ORGAN_TYPE_IMMUNE then t\<lparr> current_cpu_share := 10 \<rparr> else t)
          in t\<lparr> is_sleeping := 0 \<rparr>)
     | OO_STATE_VIGILANT \<Rightarrow>
         (let t = (if ttype t = ORGAN_TYPE_CORTEX then t\<lparr> current_cpu_share := 50 \<rparr> else t)
          in (if ttype t = ORGAN_TYPE_IMMUNE then t\<lparr> current_cpu_share := 40 \<rparr> else t))
     | OO_STATE_COMBAT \<Rightarrow>
         (let t = (if ttype t = ORGAN_TYPE_CORTEX then t\<lparr> current_cpu_share := 5 \<rparr> else t)
          in (if ttype t = ORGAN_TYPE_IMMUNE then t\<lparr> current_cpu_share := 90 \<rparr> else t))
     | OO_STATE_SURVIVAL \<Rightarrow>
         (let t = (if ttype t = ORGAN_TYPE_CORTEX then t\<lparr> is_sleeping := 1 \<rparr> else t)
          in (if ttype t = ORGAN_TYPE_IMMUNE then t\<lparr> current_cpu_share := 95 \<rparr> else t)))"

text \<open>The loops over the linked list: an update of every task, and the execution of tasks.\<close>

partial_function (option) walk_tasks ::
  "(organ_task \<Rightarrow> organ_task) \<Rightarrow> nat option \<Rightarrow> organ_task list \<Rightarrow> organ_task list option" where
  "walk_tasks f cur pool = (case cur of
       None \<Rightarrow> Some pool
     | Some i \<Rightarrow> let pool' = pool[i := f (pool ! i)] in walk_tasks f (next_task (pool' ! i)) pool')"

definition runnable :: "organ_task \<Rightarrow> bool" where
  "runnable t \<longleftrightarrow> is_sleeping t = 0 \<and> current_cpu_share t > 0 \<and> entry_point t \<noteq> 0"

partial_function (option) run_tasks ::
  "organ_task list \<Rightarrow> nat option \<Rightarrow> nat list \<Rightarrow> nat list option" where
  "run_tasks pool cur called = (case cur of
       None \<Rightarrow> Some called
     | Some i \<Rightarrow> run_tasks pool (next_task (pool ! i))
                   (if runnable (pool ! i) then called @ [i] else called))"

definition oo_scheduler_set_state :: "homeostasis_state \<Rightarrow> scheduler \<Rightarrow> scheduler option" where
  "oo_scheduler_set_state st s =
     (if current_state s = st then Some s
      else map_option (\<lambda>pool. s\<lparr> current_state := st, organ_pool := pool \<rparr>)
             (walk_tasks (reallocate st) (head_organ s) (organ_pool s)))"

definition circadian_shift :: "scheduler \<Rightarrow> scheduler option" where
  "circadian_shift s =
     (if circadian_clock s mod CYCLE_DURATION = 0
      then (if current_state s = OO_STATE_RELAXED
            then map_option (\<lambda>s. s\<lparr> body_hormones := (body_hormones s)
                               \<lparr> melatonin := 0, adrenaline := 50 \<rparr> \<rparr>)
                   (oo_scheduler_set_state OO_STATE_VIGILANT s)
            else if current_state s = OO_STATE_VIGILANT
            then map_option (\<lambda>s. s\<lparr> body_hormones := (body_hormones s)
                               \<lparr> melatonin := 200, adrenaline := 0 \<rparr> \<rparr>)
                   (oo_scheduler_set_state OO_STATE_RELAXED s)
            else Some s)
      else Some s)"

definition hormonal :: "hormones \<Rightarrow> organ_task \<Rightarrow> organ_task" where
  "hormonal h t =
     (let t = (if ttype t = ORGAN_TYPE_IMMUNE \<and> adrenaline h > 150
               then t\<lparr> current_cpu_share := 90 \<rparr> else t)
      in (if ttype t = ORGAN_TYPE_CORTEX \<and> melatonin h > 150 then t\<lparr> is_sleeping := 1 \<rparr> else t))"

text \<open>
  The heartbeat: up to four globules for organ 3 are taken off the bus (and dropped), then the
  clock, the hormones and the tasks follow. The first component is the slots called.
\<close>

definition oo_scheduler_heartbeat ::
  "scheduler \<times> united_bus \<Rightarrow> (nat list \<times> scheduler \<times> united_bus) option" where
  "oo_scheduler_heartbeat = (\<lambda>(s, bus).
     case united_bus_absorb 3 4 bus of
       None \<Rightarrow> None
     | Some (inbox, bus') \<Rightarrow>
         (case circadian_shift (s\<lparr> circadian_clock := circadian_clock s + 1 \<rparr>) of
            None \<Rightarrow> None
          | Some s1 \<Rightarrow>
              (case walk_tasks (hormonal (body_hormones s1)) (head_organ s1) (organ_pool s1) of
                 None \<Rightarrow> None
               | Some pool \<Rightarrow>
                   (case run_tasks pool (head_organ s1) [] of
                      None \<Rightarrow> None
                    | Some called \<Rightarrow> Some (called, s1\<lparr> organ_pool := pool \<rparr>, bus')))))"

definition oo_scheduler_get_state :: "scheduler \<Rightarrow> homeostasis_state" where
  "oo_scheduler_get_state s = current_state s"

section \<open>The list of registered tasks\<close>

primrec linked :: "organ_task list \<Rightarrow> nat option \<Rightarrow> nat list \<Rightarrow> bool" where
  "linked pool h [] = (h = None)"
| "linked pool h (i # is) = (h = Some i \<and> linked pool (next_task (pool ! i)) is)"

text \<open>
  \<open>task_chain s is\<close>: following the pointers from the head visits the slots \<open>is\<close>, each once, and
  these are the slots in use.
\<close>

definition task_chain :: "scheduler \<Rightarrow> nat list \<Rightarrow> bool" where
  "task_chain s is \<longleftrightarrow> length (organ_pool s) = 16 \<and> linked (organ_pool s) (head_organ s) is
     \<and> distinct is \<and> set is = {i. i < 16 \<and> task_id (organ_pool s ! i) \<noteq> 0}"

lemma linked_cong:
  "(\<And>i. i \<in> set is \<Longrightarrow> next_task (p ! i) = next_task (q ! i)) \<Longrightarrow> linked p h is = linked q h is"
  by (induction "is" arbitrary: h) auto

definition map_slots :: "(organ_task \<Rightarrow> organ_task) \<Rightarrow> nat list \<Rightarrow> organ_task list \<Rightarrow> organ_task list" where
  "map_slots f is pool = fold (\<lambda>i p. p[i := f (p ! i)]) is pool"

lemma length_map_slots [simp]: "length (map_slots f is pool) = length pool"
proof -
  have "length (fold (\<lambda>i p. p[i := f (p ! i)]) is p) = length p" for p
    by (induction "is" arbitrary: p) simp_all
  then show ?thesis by (simp add: map_slots_def)
qed

lemma nth_map_slots:
  "distinct is \<Longrightarrow> set is \<subseteq> {..<length pool} \<Longrightarrow> j < length pool \<Longrightarrow>
     map_slots f is pool ! j = (if j \<in> set is then f (pool ! j) else pool ! j)"
proof (induction "is" arbitrary: pool)
  case (Cons i "is")
  from Cons.IH [of "pool[i := f (pool ! i)]"] Cons.prems show ?case
    by (auto simp: map_slots_def nth_list_update)
qed (simp add: map_slots_def)

lemma walk_tasks_linked:
  assumes "\<And>t. next_task (f t) = next_task t"
  shows "linked pool h is \<Longrightarrow> distinct is \<Longrightarrow> set is \<subseteq> {..<length pool} \<Longrightarrow>
     walk_tasks f h pool = Some (map_slots f is pool)"
proof (induction "is" arbitrary: h pool)
  case Nil
  then show ?case by (simp add: walk_tasks.simps map_slots_def)
next
  case (Cons i "is")
  let ?p = "pool[i := f (pool ! i)]"
  from Cons.prems have i: "i < length pool" "h = Some i" "i \<notin> set is" by auto
  have n: "next_task (?p ! i) = next_task (pool ! i)" using i assms by simp
  have "linked ?p (next_task (pool ! i)) is"
    using Cons.prems i by (subst linked_cong [where q = pool]) (auto simp: nth_list_update)
  with Cons n have "walk_tasks f (next_task (?p ! i)) ?p = Some (map_slots f is ?p)" by simp
  then show ?case
    using i by (subst walk_tasks.simps) (simp add: map_slots_def Let_def)
qed

lemma run_tasks_linked:
  "linked pool h is \<Longrightarrow> run_tasks pool h called = Some (called @ filter (\<lambda>i. runnable (pool ! i)) is)"
  by (induction "is" arbitrary: h called) (simp_all add: run_tasks.simps)

lemma reallocate_frame [simp]:
  "next_task (reallocate st t) = next_task t" "task_id (reallocate st t) = task_id t"
  "ttype (reallocate st t) = ttype t"
  by (cases st; simp add: reallocate_def Let_def)+

lemma hormonal_frame [simp]:
  "next_task (hormonal h t) = next_task t" "task_id (hormonal h t) = task_id t"
  "ttype (hormonal h t) = ttype t"
  by (simp_all add: hormonal_def Let_def)

lemma task_chain_map_slots:
  assumes "task_chain s is" "\<And>t. next_task (f t) = next_task t" "\<And>t. task_id (f t) = task_id t"
  shows "task_chain (s\<lparr> organ_pool := map_slots f is (organ_pool s) \<rparr>) is"
proof -
  have sub: "set is \<subseteq> {..<length (organ_pool s)}" and d: "distinct is"
    using assms(1) by (auto simp: task_chain_def)
  have "task_id (map_slots f is (organ_pool s) ! i) = task_id (organ_pool s ! i)
      \<and> next_task (map_slots f is (organ_pool s) ! i) = next_task (organ_pool s ! i)" if "i < 16" for i
    using nth_map_slots [OF d sub] that assms by (simp add: task_chain_def)
  with assms(1) show ?thesis
    by (auto simp: task_chain_def cong: conj_cong intro: linked_cong [THEN iffD2])
qed

lemma walk_tasks_chain:
  assumes "task_chain s is" "\<And>t. next_task (f t) = next_task t"
  shows "walk_tasks f (head_organ s) (organ_pool s) = Some (map_slots f is (organ_pool s))"
  using assms by (intro walk_tasks_linked) (auto simp: task_chain_def)

lemma set_state_chain:
  assumes "task_chain s is"
  shows "oo_scheduler_set_state st s = Some (if current_state s = st then s
    else s\<lparr> current_state := st, organ_pool := map_slots (reallocate st) is (organ_pool s) \<rparr>)"
  by (simp add: oo_scheduler_set_state_def walk_tasks_chain [OF assms])

lemma task_chain_frame [simp]:
  "task_chain (s\<lparr> current_state := st \<rparr>) is = task_chain s is"
  "task_chain (s\<lparr> circadian_clock := c \<rparr>) is = task_chain s is"
  "task_chain (s\<lparr> body_hormones := h \<rparr>) is = task_chain s is"
  "task_chain (s\<lparr> current_state := st, organ_pool := p \<rparr>) is = task_chain (s\<lparr> organ_pool := p \<rparr>) is"
  by (simp_all add: task_chain_def)

lemma task_chain_set_state:
  "task_chain s is \<Longrightarrow> oo_scheduler_set_state st s = Some s' \<Longrightarrow> task_chain s' is"
  using task_chain_map_slots [of s "is" "reallocate st"]
  by (auto simp: set_state_chain split: if_splits)

section \<open>Registration\<close>

lemma free_slot_Some:
  "free_slot k ts = Some i \<Longrightarrow> k \<le> i \<and> i - k < length ts \<and> task_id (ts ! (i - k)) = 0"
proof (induction k ts rule: free_slot.induct)
  case (2 k t ts)
  then show ?case by (fastforce split: if_splits simp: nth_Cons')
qed simp

lemma free_slot_None: "free_slot k ts = None \<longleftrightarrow> (\<forall>t\<in>set ts. task_id t \<noteq> 0)"
  by (induction k ts rule: free_slot.induct) auto

lemma register_chain:
  assumes "task_chain s is" "next_task_id s \<noteq> 0"
  shows "case free_slot 0 (organ_pool s) of
      None \<Rightarrow> oo_scheduler_register_organ t e s = s \<and> length is = 16
    | Some i \<Rightarrow> task_chain (oo_scheduler_register_organ t e s) (i # is) \<and> length is < 16
        \<and> i < 16 \<and> i \<notin> set is
        \<and> organ_pool (oo_scheduler_register_organ t e s) = (organ_pool s)[i := new_task t e s]"
proof (cases "free_slot 0 (organ_pool s)")
  case None
  from assms(1) have l: "length (organ_pool s) = 16" and d: "distinct is"
    and s: "set is = {i. i < 16 \<and> task_id (organ_pool s ! i) \<noteq> 0}" by (auto simp: task_chain_def)
  from None have "\<forall>t\<in>set (organ_pool s). task_id t \<noteq> 0" by (simp add: free_slot_None)
  with l s have "set is = {..<16}" by (auto simp: all_set_conv_all_nth)
  with d have "length is = 16" using distinct_card by fastforce
  with None show ?thesis by (simp add: oo_scheduler_register_organ_def)
next
  case (Some i)
  from assms(1) have l: "length (organ_pool s) = 16" and d: "distinct is"
    and s: "set is = {i. i < 16 \<and> task_id (organ_pool s ! i) \<noteq> 0}"
    and k: "linked (organ_pool s) (head_organ s) is" by (auto simp: task_chain_def)
  from free_slot_Some [OF Some] l have i: "i < 16" "task_id (organ_pool s ! i) = 0" by auto
  with s have ni: "i \<notin> set is" by simp
  let ?p = "(organ_pool s)[i := new_task t e s]"
  have ids: "ucast (next_task_id s) \<noteq> (0 :: u32)"
    using assms(2) by simp
  have "linked ?p (head_organ s) is"
    using k ni by (subst linked_cong [where q = "organ_pool s"]) (auto, metis nth_list_update_neq)
  then have "task_chain (oo_scheduler_register_organ t e s) (i # is)"
    using Some i ni l d s ids
    by (auto simp: task_chain_def oo_scheduler_register_organ_def new_task_def nth_list_update)
  moreover have "length is < 16"
  proof -
    have "set is \<subset> {..<16}" using s i ni by auto
    then have "card (set is) < card {..<16::nat}" by (intro psubset_card_mono) auto
    with d show ?thesis by (simp add: distinct_card)
  qed
  ultimately show ?thesis using Some i ni by (simp add: oo_scheduler_register_organ_def)
qed

end
