(* ===== verification/Kernel_Runs.thy ===== *)
theory Kernel_Runs
  imports Kernel_Scheduler
begin

text \<open>
  What the kernel's scheduler does over time: the effect of a change of state and of a
  heartbeat on a well-formed task list, the fate of the cortex once the first night has come,
  and the wrap-around of the task ids, after which the list can become cyclic.
\<close>

section \<open>Heartbeats\<close>

lemma circadian_shift_chain:
  assumes "task_chain s is"
  shows "\<exists>s'. circadian_shift s = Some s' \<and> task_chain s' is \<and> circadian_clock s' = circadian_clock s
    \<and> head_organ s' = head_organ s
    \<and> current_state s' = (if circadian_clock s mod 10000 = 0 then
         (case current_state s of OO_STATE_RELAXED \<Rightarrow> OO_STATE_VIGILANT
          | OO_STATE_VIGILANT \<Rightarrow> OO_STATE_RELAXED | st \<Rightarrow> st) else current_state s)
    \<and> (circadian_clock s mod 10000 = 0 \<longrightarrow> current_state s = OO_STATE_VIGILANT \<longrightarrow> melatonin (body_hormones s') = 200)
    \<and> (circadian_clock s mod 10000 = 0 \<and> current_state s = OO_STATE_VIGILANT
       \<or> (\<forall>i<16. ttype (organ_pool s' ! i) = ttype (organ_pool s ! i)
             \<and> is_sleeping (organ_pool s' ! i) = is_sleeping (organ_pool s ! i)))"
proof -
  have pool: "ttype (map_slots (reallocate OO_STATE_VIGILANT) is (organ_pool s) ! i) = ttype (organ_pool s ! i)
      \<and> is_sleeping (map_slots (reallocate OO_STATE_VIGILANT) is (organ_pool s) ! i)
          = is_sleeping (organ_pool s ! i)" if "i < 16" for i
  proof -
    have d: "distinct is" and sub: "set is \<subseteq> {..<length (organ_pool s)}"
      and i: "i < length (organ_pool s)"
      using that assms by (auto simp: task_chain_def)
    show ?thesis by (simp add: nth_map_slots [OF d sub i] reallocate_def Let_def)
  qed
  have chain: "task_chain (s\<lparr> organ_pool := map_slots (reallocate st) is (organ_pool s) \<rparr>) is" for st
    by (rule task_chain_map_slots [OF assms]) simp_all
  show ?thesis
  proof (cases "circadian_clock s mod 10000 = 0")
    case False
    then show ?thesis using assms by (simp add: circadian_shift_def CYCLE_DURATION_def)
  next
    case True
    note u = circadian_shift_def CYCLE_DURATION_def set_state_chain [OF assms]
    show ?thesis
    proof (cases "current_state s")
      case OO_STATE_RELAXED
      with True pool chain [of OO_STATE_VIGILANT] show ?thesis by (simp add: u)
    next
      case OO_STATE_VIGILANT
      with True chain [of OO_STATE_RELAXED] show ?thesis by (simp add: u)
    qed (use True assms in \<open>simp_all add: u\<close>)
  qed
qed

text \<open>One heartbeat on a well-formed list.\<close>

lemma heartbeat_chain:
  assumes "task_chain s is" "united_bus_absorb 3 4 bus = Some (inbox, bus')"
  defines "c \<equiv> circadian_clock s + 1"
  shows "\<exists>s1 s'. circadian_shift (s\<lparr> circadian_clock := c \<rparr>) = Some s1 \<and> task_chain s1 is
    \<and> s' = s1\<lparr> organ_pool := map_slots (hormonal (body_hormones s1)) is (organ_pool s1) \<rparr>
    \<and> task_chain s' is
    \<and> oo_scheduler_heartbeat (s, bus)
       = Some (filter (\<lambda>i. runnable (organ_pool s' ! i)) is, s', bus')"
proof -
  have c: "task_chain (s\<lparr> circadian_clock := c \<rparr>) is" using assms(1) by simp
  from circadian_shift_chain [OF c] obtain s1 where
    s1: "circadian_shift (s\<lparr> circadian_clock := c \<rparr>) = Some s1" "task_chain s1 is" by blast
  let ?p = "map_slots (hormonal (body_hormones s1)) is (organ_pool s1)"
  have p: "task_chain (s1\<lparr> organ_pool := ?p \<rparr>) is"
    by (rule task_chain_map_slots [OF s1(2)]) simp_all
  then have "run_tasks ?p (head_organ s1) [] = Some (filter (\<lambda>i. runnable (?p ! i)) is)"
    by (subst run_tasks_linked) (simp_all add: task_chain_def)
  with s1 p assms(2) show ?thesis
    by (simp add: oo_scheduler_heartbeat_def c_def walk_tasks_chain [OF s1(2)])
qed

section \<open>The sleep of the cortex\<close>

definition cortex_asleep :: "scheduler \<Rightarrow> nat list \<Rightarrow> bool" where
  "cortex_asleep s is \<longleftrightarrow>
     (\<forall>i\<in>set is. ttype (organ_pool s ! i) = ORGAN_TYPE_CORTEX \<longrightarrow> is_sleeping (organ_pool s ! i) \<noteq> 0)"

lemma chain_slots: "task_chain s is \<Longrightarrow> distinct is \<and> set is \<subseteq> {..<length (organ_pool s)}"
  by (auto simp: task_chain_def)

lemma hormonal_sleep:
  "is_sleeping (hormonal h t) =
     (if ttype t = ORGAN_TYPE_CORTEX \<and> melatonin h > 150 then 1 else is_sleeping t)"
  by (simp add: hormonal_def Let_def)

lemma heartbeat_asleep:
  assumes "task_chain s is" "oo_scheduler_heartbeat (s, bus) = Some (called, s', bus')"
    and "cortex_asleep s is
      \<or> current_state s = OO_STATE_VIGILANT \<and> (circadian_clock s + 1) mod 10000 = 0"
  shows "cortex_asleep s' is" "task_chain s' is"
    and "\<forall>i\<in>set called. ttype (organ_pool s' ! i) \<noteq> ORGAN_TYPE_CORTEX"
    and "\<forall>i\<in>set is. ttype (organ_pool s' ! i) = ttype (organ_pool s ! i)"
proof -
  from assms(2) obtain inbox where a: "united_bus_absorb 3 4 bus = Some (inbox, bus')"
    by (auto simp: oo_scheduler_heartbeat_def split: option.splits)
  let ?c = "s\<lparr> circadian_clock := circadian_clock s + 1 \<rparr>"
  from heartbeat_chain [OF assms(1) a] assms(2) obtain s1 where
    s1: "circadian_shift ?c = Some s1" "task_chain s1 is"
    and s': "s' = s1\<lparr> organ_pool := map_slots (hormonal (body_hormones s1)) is (organ_pool s1) \<rparr>"
    and ch: "task_chain s' is" and called: "called = filter (\<lambda>i. runnable (organ_pool s' ! i)) is"
    by auto
  have "task_chain ?c is" using assms(1) by simp
  note cs = circadian_shift_chain [OF this, unfolded s1(1)]
  have lt: "i < 16" if "i \<in> set is" for i using that assms(1) by (auto simp: task_chain_def)
  have nth: "organ_pool s' ! i = hormonal (body_hormones s1) (organ_pool s1 ! i)" if "i \<in> set is" for i
    using that chain_slots [OF s1(2)] by (auto simp: s' nth_map_slots subset_iff)
  have night: "circadian_clock ?c mod 10000 = 0 \<Longrightarrow> current_state s = OO_STATE_VIGILANT \<Longrightarrow>
      melatonin (body_hormones s1) = 200" using cs by simp
  have day: "is_sleeping (organ_pool s1 ! i) = is_sleeping (organ_pool s ! i)"
    "ttype (organ_pool s1 ! i) = ttype (organ_pool s ! i)"
    if "i \<in> set is" "\<not> (circadian_clock ?c mod 10000 = 0 \<and> current_state s = OO_STATE_VIGILANT)" for i
    using cs lt [OF that(1)] that(2) by auto
  show asleep: "cortex_asleep s' is"
  proof (cases "circadian_clock ?c mod 10000 = 0 \<and> current_state s = OO_STATE_VIGILANT")
    case True
    with night show ?thesis by (simp add: cortex_asleep_def nth hormonal_sleep)
  next
    case False
    with assms(3) have "cortex_asleep s is" by auto
    with False day show ?thesis by (simp add: cortex_asleep_def nth hormonal_sleep)
  qed
  show "task_chain s' is" by (rule ch)
  from asleep show "\<forall>i\<in>set called. ttype (organ_pool s' ! i) \<noteq> ORGAN_TYPE_CORTEX"
    by (auto simp: called cortex_asleep_def runnable_def)
  show "\<forall>i\<in>set is. ttype (organ_pool s' ! i) = ttype (organ_pool s ! i)"
  proof
    fix i assume i: "i \<in> set is"
    have "ttype (organ_pool s1 ! i) = ttype (organ_pool s ! i)"
    proof (cases "circadian_clock ?c mod 10000 = 0 \<and> current_state s = OO_STATE_VIGILANT")
      case True
      then have "organ_pool s1 = map_slots (reallocate OO_STATE_RELAXED) is (organ_pool s)"
        using s1(1) \<open>task_chain ?c is\<close>
        by (auto simp: circadian_shift_def CYCLE_DURATION_def set_state_chain)
      then show ?thesis using i chain_slots [OF assms(1)] by (auto simp: nth_map_slots subset_iff)
    qed (rule day(2) [OF i])
    with nth [OF i] show "ttype (organ_pool s' ! i) = ttype (organ_pool s ! i)" by simp
  qed
qed

text \<open>A number of heartbeats; the slots called in each of them.\<close>

primrec beats :: "nat \<Rightarrow> scheduler \<times> united_bus \<Rightarrow> (nat list \<times> scheduler \<times> united_bus) option" where
  "beats 0 sb = Some ([], sb)"
| "beats (Suc n) sb = (case oo_scheduler_heartbeat sb of
       None \<Rightarrow> None
     | Some (called, sb') \<Rightarrow>
         (case beats n sb' of None \<Rightarrow> None | Some (later, sb'') \<Rightarrow> Some (called @ later, sb'')))"

lemma beats_asleep:
  "task_chain s is \<Longrightarrow> cortex_asleep s is \<Longrightarrow> beats n (s, bus) = Some (called, s', bus') \<Longrightarrow>
     (\<forall>i\<in>set called. i \<in> set is \<and> ttype (organ_pool s ! i) \<noteq> ORGAN_TYPE_CORTEX) \<and> cortex_asleep s' is"
proof (induction n arbitrary: s bus called)
  case 0
  then show ?case by auto
next
  case (Suc n)
  then obtain c1 s1 bus1 c2 where h: "oo_scheduler_heartbeat (s, bus) = Some (c1, s1, bus1)"
    and b: "beats n (s1, bus1) = Some (c2, s', bus')" and c: "called = c1 @ c2"
    by (auto split: option.splits)
  note a = heartbeat_asleep [OF Suc.prems(1) h, OF disjI1, OF Suc.prems(2)]
  from h Suc.prems(1) have "set c1 \<subseteq> set is"
    using heartbeat_chain [OF Suc.prems(1)]
    by (fastforce simp: oo_scheduler_heartbeat_def split: option.splits)
  then have "\<forall>i\<in>set c1. i \<in> set is \<and> ttype (organ_pool s ! i) \<noteq> ORGAN_TYPE_CORTEX"
    using a(3,4) by (metis subsetD)
  with Suc.IH [OF a(2,1) b] a(4) c show ?case by auto
qed

section \<open>Reachable schedulers\<close>

inductive sched_reachable :: "scheduler \<Rightarrow> bool" where
  sched_boot: "sched_reachable scheduler_boot"
| sched_init: "sched_reachable s \<Longrightarrow> sched_reachable (oo_scheduler_init s)"
| sched_register: "sched_reachable s \<Longrightarrow> sched_reachable (oo_scheduler_register_organ t e s)"
| sched_state: "sched_reachable s \<Longrightarrow> oo_scheduler_set_state st s = Some s' \<Longrightarrow> sched_reachable s'"

lemma walk_self_loop:
  assumes "\<And>t. next_task (f t) = next_task t" "0 < length pool" "next_task (pool ! 0) = Some 0"
  shows "walk_tasks f (Some 0) pool = None"
proof (rule ccontr)
  let ?bad = "\<lambda>f cur pool. (\<forall>t::organ_task. next_task (f t :: organ_task) = next_task t) \<and> cur = Some (0::nat) \<and> 0 < length pool
    \<and> next_task (pool ! 0) = Some (0::nat)"
  assume "walk_tasks f (Some 0) pool \<noteq> None"
  then obtain r where r: "walk_tasks f (Some 0) pool = Some r" by auto
  have "\<not> ?bad f (Some 0) pool"
  proof (rule walk_tasks.raw_induct [where P = "\<lambda>f cur pool r. \<not> ?bad f cur pool", OF _ r], goal_cases)
    case (1 w f cur pool r)
    show ?case
    proof
      assume b: "?bad f cur pool"
      with 1(2) have "w f (Some 0) (pool[0 := f (pool ! 0)]) = Some r" by (simp add: Let_def)
      from 1(1) [OF this] b show False by simp
    qed
  qed
  with assms show False by simp
qed

text \<open>Registering the same organ after every re-initialisation, \<open>n\<close> times.\<close>

primrec reinit_register :: "nat \<Rightarrow> scheduler \<Rightarrow> scheduler" where
  "reinit_register 0 s = s"
| "reinit_register (Suc n) s =
     oo_scheduler_register_organ ORGAN_TYPE_VITAL 4096 (oo_scheduler_init (reinit_register n s))"

lemma free_slot_init [simp]: "0 < length (organ_pool s) \<Longrightarrow> free_slot 0 (organ_pool (oo_scheduler_init s)) = Some 0"
  by (cases "organ_pool s") (simp_all add: oo_scheduler_init_def)

lemma init_frame [simp]:
  "next_task_id (oo_scheduler_init s) = next_task_id s" "head_organ (oo_scheduler_init s) = None"
  "length (organ_pool (oo_scheduler_init s)) = length (organ_pool s)"
  "current_state (oo_scheduler_init s) = OO_STATE_RELAXED"
  by (simp_all add: oo_scheduler_init_def)

lemma register_free:
  assumes "free_slot 0 (organ_pool s) = Some i"
  shows "oo_scheduler_register_organ t e s = s\<lparr> organ_pool := (organ_pool s)[i := new_task t e s],
    next_task_id := next_task_id s + 1, head_organ := Some i \<rparr>"
  using assms by (simp add: oo_scheduler_register_organ_def)

lemma reinit_register_state:
  "next_task_id (reinit_register n scheduler_boot) = of_nat (Suc n)
   \<and> length (organ_pool (reinit_register n scheduler_boot)) = 16
   \<and> sched_reachable (reinit_register n scheduler_boot)"
proof (induction n)
  case 0
  show ?case by (simp add: scheduler_boot_def sched_boot [unfolded scheduler_boot_def])
next
  case (Suc n)
  let ?s = "oo_scheduler_init (reinit_register n scheduler_boot)"
  have "free_slot 0 (organ_pool ?s) = Some 0" using Suc by simp
  note r = register_free [OF this]
  have "sched_reachable (oo_scheduler_register_organ ORGAN_TYPE_VITAL 4096 ?s)"
    using Suc by (blast intro: sched_register sched_init)
  then show ?case using Suc by (simp add: r)
qed

section \<open>Properties\<close>

text \<open>The shares the change of state is meant to give.\<close>

primrec immune_share :: "homeostasis_state \<Rightarrow> u8" where
  "immune_share OO_STATE_RELAXED = 10"
| "immune_share OO_STATE_VIGILANT = 40"
| "immune_share OO_STATE_COMBAT = 90"
| "immune_share OO_STATE_SURVIVAL = 95"

primrec cortex_share :: "homeostasis_state \<Rightarrow> u8 option" where
  "cortex_share OO_STATE_RELAXED = Some 80"
| "cortex_share OO_STATE_VIGILANT = Some 50"
| "cortex_share OO_STATE_COMBAT = Some 5"
| "cortex_share OO_STATE_SURVIVAL = None"

text \<open>
  a change of state terminates on every well-formed task list, keeps it, and gives every
  registered organ its share: the immune organs 10, 40, 90 or 95 percent, the cortex 80, 50 or 5
  and, in \<open>SURVIVAL\<close>, sleep at an unchanged share; the other organs keep theirs, \<open>RELAXED\<close> wakes
  all, and slots not in use are untouched.
\<close>

theorem set_state_reallocates:
  assumes "task_chain s is" "current_state s \<noteq> st" "i < 16"
  shows "\<exists>s'. oo_scheduler_set_state st s = Some s' \<and> current_state s' = st \<and> task_chain s' is
    \<and> (if i \<in> set is then
         (let t = organ_pool s ! i; t' = organ_pool s' ! i in
            current_cpu_share t' =
              (case ttype t of ORGAN_TYPE_IMMUNE \<Rightarrow> immune_share st
               | ORGAN_TYPE_CORTEX \<Rightarrow> (case cortex_share st of None \<Rightarrow> current_cpu_share t | Some c \<Rightarrow> c)
               | _ \<Rightarrow> current_cpu_share t)
          \<and> is_sleeping t' = (if st = OO_STATE_RELAXED then 0
              else if st = OO_STATE_SURVIVAL \<and> ttype t = ORGAN_TYPE_CORTEX then 1 else is_sleeping t)
          \<and> ttype t' = ttype t \<and> entry_point t' = entry_point t \<and> task_id t' = task_id t)
       else organ_pool s' ! i = organ_pool s ! i)"
proof -
  let ?p = "map_slots (reallocate st) is (organ_pool s)"
  have e: "oo_scheduler_set_state st s = Some (s\<lparr> current_state := st, organ_pool := ?p \<rparr>)"
    using assms(2) by (simp add: set_state_chain [OF assms(1)])
  have d: "distinct is" and sub: "set is \<subseteq> {..<length (organ_pool s)}" and i: "i < length (organ_pool s)"
    using assms by (auto simp: task_chain_def)
  have c: "task_chain (s\<lparr> current_state := st, organ_pool := ?p \<rparr>) is"
    by (rule task_chain_set_state [OF assms(1) e])
  have r: "current_cpu_share (reallocate st t) =
              (case ttype t of ORGAN_TYPE_IMMUNE \<Rightarrow> immune_share st
               | ORGAN_TYPE_CORTEX \<Rightarrow> (case cortex_share st of None \<Rightarrow> current_cpu_share t | Some c \<Rightarrow> c)
               | _ \<Rightarrow> current_cpu_share t)
          \<and> is_sleeping (reallocate st t) = (if st = OO_STATE_RELAXED then 0
              else if st = OO_STATE_SURVIVAL \<and> ttype t = ORGAN_TYPE_CORTEX then 1 else is_sleeping t)
          \<and> entry_point (reallocate st t) = entry_point t" for t
    by (cases st; cases "ttype t"; simp add: reallocate_def)
  show ?thesis
    using e c nth_map_slots [OF d sub i, of "reallocate st"] r by (simp add: Let_def)
qed

lemma task_chain_boot: "task_chain scheduler_boot []"
  by (simp add: task_chain_def scheduler_boot_def blank_task_def)

text \<open>One cortex registered in slot 0, for the examples.\<close>

definition cortex_only :: scheduler where
  "cortex_only = oo_scheduler_register_organ ORGAN_TYPE_CORTEX 4096 scheduler_boot"

lemma free_slot_boot: "free_slot 0 (organ_pool scheduler_boot) = Some 0"
  by (simp add: scheduler_boot_def blank_task_def numeral_eq_Suc)

lemma task_chain_cortex: "task_chain cortex_only [0]"
  using register_chain [OF task_chain_boot, of ORGAN_TYPE_CORTEX 4096] free_slot_boot
  by (simp add: cortex_only_def scheduler_boot_def)

lemma cortex_only_simps:
  "organ_pool cortex_only ! 0 = new_task ORGAN_TYPE_CORTEX 4096 scheduler_boot"
  "current_state cortex_only = OO_STATE_RELAXED"
  by (simp_all add: cortex_only_def register_free [OF free_slot_boot])
    (simp_all add: scheduler_boot_def)

lemma set_state_reallocates_witness:
  "\<exists>s'. oo_scheduler_set_state OO_STATE_COMBAT cortex_only = Some s'
    \<and> current_cpu_share (organ_pool s' ! 0) = 5"
  using set_state_reallocates [OF task_chain_cortex, of OO_STATE_COMBAT 0]
  by (auto simp: cortex_only_simps new_task_def Let_def)

text \<open>
  registering an organ takes the first free slot and puts it at the front of the list as
  long as a slot is free and the 8-bit id counter has not wrapped to 0, and changes nothing when
  all 16 slots are in use; the list stays well formed.
\<close>

theorem register_prepends:
  assumes "task_chain s is" "next_task_id s \<noteq> 0"
  shows "if length is < 16
    then (\<exists>i<16. i \<notin> set is \<and> (\<forall>j<i. j \<in> set is)
          \<and> task_chain (oo_scheduler_register_organ t e s) (i # is)
          \<and> entry_point (organ_pool (oo_scheduler_register_organ t e s) ! i) = e
          \<and> current_cpu_share (organ_pool (oo_scheduler_register_organ t e s) ! i)
              = (if t = ORGAN_TYPE_VITAL then 100 else 10))
    else oo_scheduler_register_organ t e s = s"
proof -
  have first: "j < i \<Longrightarrow> k \<le> j \<Longrightarrow> task_id (ts ! (j - k)) \<noteq> 0" if "free_slot k ts = Some i" for k ts i j
    using that
  proof (induction k ts arbitrary: j rule: free_slot.induct)
    case (2 k t ts)
    then show ?case by (cases "j = k") (auto split: if_splits simp: nth_Cons')
  qed simp
  from assms(1) have l: "length (organ_pool s) = 16"
    and set: "set is = {i. i < 16 \<and> task_id (organ_pool s ! i) \<noteq> 0}" by (auto simp: task_chain_def)
  show ?thesis
  proof (cases "free_slot 0 (organ_pool s)")
    case None
    with register_chain [OF assms, of t e] show ?thesis by simp
  next
    case (Some i)
    with register_chain [OF assms, of t e] have r: "task_chain (oo_scheduler_register_organ t e s) (i # is)"
      "length is < 16" "i < 16" "i \<notin> set is"
      "organ_pool (oo_scheduler_register_organ t e s) = (organ_pool s)[i := new_task t e s]" by auto
    moreover have "\<forall>j<i. j \<in> set is" using first [OF Some] r(3) set by auto
    ultimately show ?thesis using l by (auto simp: new_task_def intro!: exI [of _ i])
  qed
qed

lemma register_prepends_witness:
  "\<exists>i<16. task_chain (oo_scheduler_register_organ ORGAN_TYPE_IMMUNE 8192 cortex_only) [i, 0]"
  using register_prepends [OF task_chain_cortex, of ORGAN_TYPE_IMMUNE 8192]
  by (auto simp: cortex_only_def register_free [OF free_slot_boot]) (auto simp: scheduler_boot_def)

lemma absorb_below_capacity:
  assumes "bus_safe b" "heart_systole b < current_capacity b"
  shows "\<exists>gs b'. united_bus_absorb organ m b = Some (gs, b')"
proof (cases "unat organ < 16")
  case True
  with assms absorb_loop_terminates [of b "organ_read_heads b (unat organ)" organ m "[]"] show ?thesis
    by (auto simp: united_bus_absorb_def bus_safe_def MAX_ORGANS_def)
qed (simp add: united_bus_absorb_def MAX_ORGANS_def)

text \<open>
  C15: a heartbeat terminates on every well-formed list of tasks and every bus within its array whose
  systole is below its capacity, which only the fault of the shrinking ring violates. Its read of the
  bus returns; it advances the clock, switches between \<open>RELAXED\<close> and \<open>VIGILANT\<close> exactly every 10000
  beats, never leaves \<open>COMBAT\<close> or \<open>SURVIVAL\<close>, and calls every organ that is awake with a positive share
  and an entry point once, in the order of the list, the most recently registered first. When the
  systole has reached the capacity, the heartbeat returns exactly if its read of the bus does.
\<close>

theorem heartbeat_runs_awake:
  assumes "task_chain s is" "bus_safe bus"
  shows "(heart_systole bus < current_capacity bus \<longrightarrow> (\<exists>inbox bus' called s'.
      united_bus_absorb 3 4 bus = Some (inbox, bus')
    \<and> oo_scheduler_heartbeat (s, bus) = Some (called, s', bus') \<and> task_chain s' is
    \<and> called = filter (\<lambda>i. is_sleeping (organ_pool s' ! i) = 0 \<and> current_cpu_share (organ_pool s' ! i) > 0
        \<and> entry_point (organ_pool s' ! i) \<noteq> 0) is \<and> distinct called
    \<and> circadian_clock s' = circadian_clock s + 1
    \<and> current_state s' = (if (circadian_clock s + 1) mod 10000 = 0 then
         (case current_state s of OO_STATE_RELAXED \<Rightarrow> OO_STATE_VIGILANT
          | OO_STATE_VIGILANT \<Rightarrow> OO_STATE_RELAXED | st \<Rightarrow> st) else current_state s)))
    \<and> (oo_scheduler_heartbeat (s, bus) = None \<longleftrightarrow> united_bus_absorb 3 4 bus = None)"
proof -
  let ?c = "s\<lparr> circadian_clock := circadian_clock s + 1 \<rparr>"
  have "task_chain ?c is" using assms(1) by simp
  note cs = circadian_shift_chain [OF this]
  have d: "distinct is" using assms(1) by (simp add: task_chain_def)
  have run: "\<exists>called s'. oo_scheduler_heartbeat (s, bus) = Some (called, s', bus') \<and> task_chain s' is
    \<and> called = filter (\<lambda>i. is_sleeping (organ_pool s' ! i) = 0 \<and> current_cpu_share (organ_pool s' ! i) > 0
        \<and> entry_point (organ_pool s' ! i) \<noteq> 0) is \<and> distinct called
    \<and> circadian_clock s' = circadian_clock s + 1
    \<and> current_state s' = (if (circadian_clock s + 1) mod 10000 = 0 then
         (case current_state s of OO_STATE_RELAXED \<Rightarrow> OO_STATE_VIGILANT
          | OO_STATE_VIGILANT \<Rightarrow> OO_STATE_RELAXED | st \<Rightarrow> st) else current_state s)"
    (is "\<exists>called s'. ?P bus' called s'") if "united_bus_absorb 3 4 bus = Some (inbox, bus')" for inbox bus'
  proof -
    from heartbeat_chain [OF assms(1) that] obtain s1 s' where
      "circadian_shift ?c = Some s1" "task_chain s' is"
      "s' = s1\<lparr> organ_pool := map_slots (hormonal (body_hormones s1)) is (organ_pool s1) \<rparr>"
      "oo_scheduler_heartbeat (s, bus) = Some (filter (\<lambda>i. runnable (organ_pool s' ! i)) is, s', bus')"
      by blast
    with cs d show ?thesis by (auto simp: runnable_def)
  qed
  show ?thesis
  proof (rule conjI, rule impI)
    assume "heart_systole bus < current_capacity bus"
    from absorb_below_capacity [OF assms(2) this] obtain inbox bus' where
      a: "united_bus_absorb 3 4 bus = Some (inbox, bus')" by blast
    from run [OF a] obtain called s' where r: "?P bus' called s'" by (elim exE)
    show "\<exists>inbox bus' called s'. united_bus_absorb 3 4 bus = Some (inbox, bus') \<and> ?P bus' called s'"
      by (rule exI, rule exI, rule exI, rule exI, rule conjI, rule a, rule r)
  next
    have "oo_scheduler_heartbeat (s, bus) = None" if "united_bus_absorb 3 4 bus = None"
      using that by (simp add: oo_scheduler_heartbeat_def)
    moreover have "oo_scheduler_heartbeat (s, bus) \<noteq> None" if "united_bus_absorb 3 4 bus \<noteq> None"
      using that run by (cases "united_bus_absorb 3 4 bus") auto
    ultimately show "oo_scheduler_heartbeat (s, bus) = None \<longleftrightarrow> united_bus_absorb 3 4 bus = None" by blast
  qed
qed

lemma absorb_boot: "\<exists>bus'. united_bus_absorb 3 4 (bus_boot mem) = Some ([], bus')"
  by (simp add: united_bus_absorb_def bus_boot_def absorb_loop.simps oo_defs)

lemma heartbeat_runs_awake_witness:
  "\<exists>s' bus'. oo_scheduler_heartbeat (cortex_only, bus_boot empty_ring) = Some ([0], s', bus')"
proof -
  obtain bus' where a: "united_bus_absorb 3 4 (bus_boot empty_ring) = Some ([], bus')"
    using absorb_boot by blast
  have s: "circadian_clock cortex_only = 0" "melatonin (body_hormones cortex_only) = 0"
    "head_organ cortex_only = Some 0"
    by (simp_all add: cortex_only_def register_free [OF free_slot_boot]) (simp_all add: scheduler_boot_def)
  obtain called s' where h: "oo_scheduler_heartbeat (cortex_only, bus_boot empty_ring) = Some (called, s', bus')"
    and c: "called = filter (\<lambda>i. is_sleeping (organ_pool s' ! i) = 0 \<and> current_cpu_share (organ_pool s' ! i) > 0
        \<and> entry_point (organ_pool s' ! i) \<noteq> 0) [0]"
    using heartbeat_runs_awake [OF task_chain_cortex bus_safe_boot, of empty_ring] a
    by (auto simp: bus_boot_def BASE_CAPACITY_def)
  from heartbeat_chain [OF task_chain_cortex a] obtain s1 where
    s1: "circadian_shift (cortex_only\<lparr> circadian_clock := circadian_clock cortex_only + 1 \<rparr>) = Some s1"
    and s': "s' = s1\<lparr> organ_pool := map_slots (hormonal (body_hormones s1)) [0] (organ_pool s1) \<rparr>"
    using h by auto
  from s1 s have "s1 = cortex_only\<lparr> circadian_clock := 1 \<rparr>"
    by (simp add: circadian_shift_def CYCLE_DURATION_def)
  moreover have "0 < length (organ_pool cortex_only)" using task_chain_cortex by (simp add: task_chain_def)
  ultimately have "organ_pool s' ! 0 = hormonal (body_hormones cortex_only) (organ_pool cortex_only ! 0)"
    by (simp add: s' map_slots_def)
  then have "called = [0]" using c s by (simp add: cortex_only_simps hormonal_def new_task_def)
  with h show ?thesis by blast
qed

text \<open>
  C16: the cortex does not wake up again. From the beat in which a \<open>VIGILANT\<close> organism falls asleep,
  no later sequence of heartbeats calls an entry point of the cortex: melatonin puts it to sleep,
  and neither the morning's change to \<open>VIGILANT\<close> nor the next evening, whose melatonin strikes
  after the wake-up of \<open>RELAXED\<close>, leaves it awake for a beat.
\<close>

theorem cortex_never_wakes:
  assumes "task_chain s is" "current_state s = OO_STATE_VIGILANT" "(circadian_clock s + 1) mod 10000 = 0"
    and "beats (Suc n) (s, bus) = Some (called, s', bus')"
  shows "\<forall>i\<in>set called. ttype (organ_pool s ! i) \<noteq> ORGAN_TYPE_CORTEX"
proof -
  from assms(4) obtain c1 s1 bus1 c2 where h: "oo_scheduler_heartbeat (s, bus) = Some (c1, s1, bus1)"
    and b: "beats n (s1, bus1) = Some (c2, s', bus')" and c: "called = c1 @ c2"
    by (auto split: option.splits)
  note a = heartbeat_asleep [OF assms(1) h, OF disjI2, OF conjI, OF assms(2,3)]
  from h have "set c1 \<subseteq> set is"
    using heartbeat_chain [OF assms(1)]
    by (fastforce simp: oo_scheduler_heartbeat_def split: option.splits)
  with a(3,4) have "\<forall>i\<in>set c1. ttype (organ_pool s ! i) \<noteq> ORGAN_TYPE_CORTEX" by (metis subsetD)
  moreover have "\<forall>i\<in>set c2. ttype (organ_pool s ! i) \<noteq> ORGAN_TYPE_CORTEX"
    using beats_asleep [OF a(2,1) b] a(4) by auto
  ultimately show ?thesis using c by auto
qed

text \<open>The cortex at dusk, for the example.\<close>

definition dusk :: scheduler where
  "dusk = cortex_only\<lparr> current_state := OO_STATE_VIGILANT, circadian_clock := 9999 \<rparr>"

lemma task_chain_dusk: "task_chain dusk [0]"
  using task_chain_cortex by (simp add: dusk_def)

lemma cortex_never_wakes_witness:
  "\<exists>called s' bus'. beats (Suc 0) (dusk, bus_boot empty_ring) = Some (called, s', bus')
    \<and> ttype (organ_pool dusk ! 0) = ORGAN_TYPE_CORTEX \<and> 0 \<notin> set called"
proof -
  obtain bus' where a: "united_bus_absorb 3 4 (bus_boot empty_ring) = Some ([], bus')"
    using absorb_boot by blast
  from heartbeat_chain [OF task_chain_dusk a] obtain called s' where
    b: "beats (Suc 0) (dusk, bus_boot empty_ring) = Some (called, s', bus')" by auto
  have v: "current_state dusk = OO_STATE_VIGILANT" "(circadian_clock dusk + 1) mod 10000 = 0"
    "ttype (organ_pool dusk ! 0) = ORGAN_TYPE_CORTEX"
    by (simp_all add: dusk_def cortex_only_simps new_task_def)
  have "0 \<notin> set called" using cortex_never_wakes [OF task_chain_dusk v(1,2) b] v(3) by auto
  with b v(3) show ?thesis by (intro exI conjI)
qed

text \<open>
  the task list can become cyclic. The 8-bit id counter is not reset by
  \<open>oo_scheduler_init\<close>, so after 255 registrations the next organ gets id 0, the mark of a free
  slot; one more registration reuses its slot, whose \<open>next\<close> then points to itself, and
  \<open>oo_scheduler_set_state\<close> never returns.
\<close>

theorem scheduler_id_wrap_diverges:
  "\<exists>s. sched_reachable s \<and> oo_scheduler_set_state OO_STATE_COMBAT s = None"
proof -
  let ?a = "oo_scheduler_init (reinit_register 255 scheduler_boot)"
  let ?b = "oo_scheduler_register_organ ORGAN_TYPE_IMMUNE 4096 ?a"
  let ?c = "oo_scheduler_register_organ ORGAN_TYPE_IMMUNE 4096 ?b"
  have id: "next_task_id ?a = 0" and l: "length (organ_pool ?a) = 16" and "sched_reachable ?a"
    using reinit_register_state [of 255] by (auto intro: sched_init)
  then have r: "sched_reachable ?c" by (blast intro: sched_register)
  have fa: "free_slot 0 (organ_pool ?a) = Some 0" using l by simp
  have b: "?b = ?a\<lparr> organ_pool := (organ_pool ?a)[0 := new_task ORGAN_TYPE_IMMUNE 4096 ?a],
      next_task_id := 1, head_organ := Some 0 \<rparr>"
    using id by (simp add: register_free [OF fa])
  have t: "organ_pool ?b ! 0 = new_task ORGAN_TYPE_IMMUNE 4096 ?a" "length (organ_pool ?b) = 16"
    "head_organ ?b = Some 0" "current_state ?b = OO_STATE_RELAXED"
    using l by (simp_all add: b)
  have "task_id (organ_pool ?b ! 0) = 0" using id by (simp add: t(1) new_task_def)
  then have fb: "free_slot 0 (organ_pool ?b) = Some 0"
    using t(2) by (cases "organ_pool ?b") simp_all
  have c: "length (organ_pool ?c) = 16" "next_task (organ_pool ?c ! 0) = Some 0"
    "head_organ ?c = Some 0" "current_state ?c = OO_STATE_RELAXED"
    using t by (simp_all add: register_free [OF fb] new_task_def)
  then have "oo_scheduler_set_state OO_STATE_COMBAT ?c = None"
    by (simp add: oo_scheduler_set_state_def walk_self_loop)
  with r show ?thesis by blast
qed

end
