(* ===== verification/Bio_Memory.thy ===== *)
theory Bio_Memory
  imports Bus_Faults
begin

text \<open>
  The memory of the organism (\<open>memory-baremetal/src/bio_alloc.c\<close>, \<open>bio_mem.h\<close>): a bitmap of 102400
  cells of 4096 bytes. Cell indices are natural numbers with their 32-bit arithmetic written
  out, addresses and sizes are 64-bit words; \<open>phys\<close> is the content of the machine's memory, which
  the purge overwrites. \<open>bio_paging_init\<close> only prints and reads a control register.
\<close>

section \<open>State and bitmap\<close>

definition CELL_SIZE :: u64 where [oo_defs]: "CELL_SIZE = 4096"
definition BITMAP_MAX_CELLS :: nat where [oo_defs]: "BITMAP_MAX_CELLS = 102400"

record bio_mem =
  mem_base :: u64
  mem_total :: u64
  cell_bitmap :: "nat \<Rightarrow> u8"
  phys :: "u64 \<Rightarrow> u8"

definition set_cell_bit :: "nat \<Rightarrow> (nat \<Rightarrow> u8) \<Rightarrow> nat \<Rightarrow> u8" where
  "set_cell_bit i b = b(i div 8 := b (i div 8) OR push_bit (i mod 8) 1)"

definition clear_cell_bit :: "nat \<Rightarrow> (nat \<Rightarrow> u8) \<Rightarrow> nat \<Rightarrow> u8" where
  "clear_cell_bit i b = b(i div 8 := b (i div 8) AND NOT (push_bit (i mod 8) 1))"

definition test_cell_bit :: "(nat \<Rightarrow> u8) \<Rightarrow> nat \<Rightarrow> bool" where
  "test_cell_bit b i \<longleftrightarrow> b (i div 8) AND push_bit (i mod 8) 1 \<noteq> 0"

definition bio_mem_init :: "u64 \<Rightarrow> u64 \<Rightarrow> bio_mem \<Rightarrow> bio_mem" where
  "bio_mem_init base total_bytes m = m\<lparr> mem_base := base, mem_total := total_bytes,
     cell_bitmap := (\<lambda>i. if i < BITMAP_MAX_CELLS div 8 then 0 else cell_bitmap m i) \<rparr>"

definition cell_addr :: "bio_mem \<Rightarrow> nat \<Rightarrow> u64" where
  "cell_addr m i = mem_base m + of_nat (u32_mul i 4096)"

section \<open>Single cells\<close>

text \<open>The loop body of \<open>bio_allocate_cell\<close>: free count, allocated address, bitmap.\<close>

definition alloc_step ::
  "bio_mem \<Rightarrow> nat \<Rightarrow> nat \<times> u64 \<times> (nat \<Rightarrow> u8) \<Rightarrow> nat \<times> u64 \<times> (nat \<Rightarrow> u8)" where
  "alloc_step m i = (\<lambda>(free_count, allocated, b).
     if \<not> test_cell_bit b i
     then (if allocated = 0 then (free_count, cell_addr m i, set_cell_bit i b)
           else (u32_add free_count 1, allocated, b))
     else (free_count, allocated, b))"

text \<open>Only the type and the target of the pressure globule are set; the rest is whatever is on the stack.\<close>

definition pressure_globule :: "globule \<Rightarrow> globule" where
  "pressure_globule junk = junk\<lparr> gtype := GLOBULE_YELLOW, target_organ := 3 \<rparr>"

definition bio_allocate_cell :: "globule \<Rightarrow> bio_mem \<times> united_bus \<Rightarrow> u64 \<times> bio_mem \<times> united_bus" where
  "bio_allocate_cell junk = (\<lambda>(m, bus).
     let (free_count, allocated, b) =
           fold (alloc_step m) [0..<BITMAP_MAX_CELLS] (0, 0, cell_bitmap m);
         bus = (if free_count < BITMAP_MAX_CELLS div 20
                then snd (united_bus_pump (pressure_globule junk) bus) else bus)
     in (allocated, m\<lparr> cell_bitmap := b \<rparr>, bus))"

definition cell_index :: "bio_mem \<Rightarrow> u64 \<Rightarrow> nat" where
  "cell_index m addr = unat (ucast ((addr - mem_base m) div CELL_SIZE) :: u32)"

definition bio_free_cell :: "u64 \<Rightarrow> bio_mem \<Rightarrow> bio_mem" where
  "bio_free_cell addr m =
     (if addr \<ge> mem_base m
      then let index = cell_index m addr
           in if index < BITMAP_MAX_CELLS
              then m\<lparr> cell_bitmap := clear_cell_bit index (cell_bitmap m) \<rparr> else m
      else m)"

section \<open>Contiguous tissue\<close>

definition cells_for :: "u64 \<Rightarrow> nat" where
  "cells_for len = unat (ucast ((len + CELL_SIZE - 1) div CELL_SIZE) :: u32)"

text \<open>The first-fit scan: the indices still to visit, the length of the current run, its start.\<close>

fun tissue_scan :: "(nat \<Rightarrow> u8) \<Rightarrow> nat \<Rightarrow> nat list \<Rightarrow> nat \<Rightarrow> nat \<Rightarrow> nat option" where
  "tissue_scan b needed [] count start = None"
| "tissue_scan b needed (i # is) count start =
     (if \<not> test_cell_bit b i
      then let start = (if count = 0 then i else start); count = u32_add count 1
           in if count = needed then Some start else tissue_scan b needed is count start
      else tissue_scan b needed is 0 start)"

definition bio_allocate_neural_tissue :: "u64 \<Rightarrow> bio_mem \<Rightarrow> u64 \<times> bio_mem" where
  "bio_allocate_neural_tissue len m =
     (case tissue_scan (cell_bitmap m) (cells_for len) [0..<BITMAP_MAX_CELLS] 0 0 of
        None \<Rightarrow> (0, m)
      | Some start \<Rightarrow> (cell_addr m start, m\<lparr> cell_bitmap :=
          fold set_cell_bit [start..<u32_add start (cells_for len)] (cell_bitmap m) \<rparr>))"

definition zero_cell :: "u64 \<Rightarrow> (u64 \<Rightarrow> u8) \<Rightarrow> u64 \<Rightarrow> u8" where
  "zero_cell addr p = (\<lambda>a. if unat (a - addr) < unat CELL_SIZE then 0 else p a)"

definition purge_step :: "nat \<Rightarrow> bio_mem \<Rightarrow> bio_mem" where
  "purge_step i m =
     (if i < BITMAP_MAX_CELLS
      then m\<lparr> phys := zero_cell (cell_addr m i) (phys m),
              cell_bitmap := clear_cell_bit i (cell_bitmap m) \<rparr>
      else m)"

definition bio_purge_infected_tissue :: "u64 \<Rightarrow> u64 \<Rightarrow> bio_mem \<Rightarrow> bio_mem" where
  "bio_purge_infected_tissue addr len m =
     (if addr < mem_base m then m
      else let start = cell_index m addr
           in fold purge_step [start..<u32_add start (cells_for len)] m)"

definition bio_apoptosis :: "u64 \<Rightarrow> u64 \<Rightarrow> bio_mem \<Rightarrow> bio_mem" where
  "bio_apoptosis addr len m = bio_purge_infected_tissue addr len m"

definition bio_consolidate_memory :: "u64 \<Rightarrow> u64 \<Rightarrow> bio_mem \<Rightarrow> bio_mem" where
  "bio_consolidate_memory addr len m = bio_free_cell addr m"

definition map_globule :: globule where
  "map_globule = \<lparr> globule_id = 0, gtype = GLOBULE_YELLOW, source_organ = 4, target_organ = 0xFF,
     payload_addr = 0, payload_size = 0 \<rparr>"

definition bio_map_cell ::
  "u64 \<Rightarrow> u64 \<Rightarrow> u32 \<Rightarrow> bio_mem \<times> united_bus \<Rightarrow> int \<times> bio_mem \<times> united_bus" where
  "bio_map_cell virtual_addr physical_addr flags = (\<lambda>(m, bus).
     if physical_addr < mem_base m \<or> physical_addr \<ge> mem_base m + mem_total m then (-1, m, bus)
     else if flags = 0 then (-1, m, bus)
     else (0, m, snd (united_bus_pump map_globule bus)))"

section \<open>The set of used cells\<close>

lemma bit_u8_shift: "bit (2 ^ k :: u8) n \<longleftrightarrow> n = k \<and> k < 8"
  by (auto simp: bit_exp_iff)

lemma test_cell_bit_iff: "test_cell_bit b i \<longleftrightarrow> bit (b (i div 8)) (i mod 8)"
proof -
  have "b (i div 8) AND push_bit (i mod 8) 1 = 0 \<longleftrightarrow> \<not> bit (b (i div 8)) (i mod 8)"
  proof
    assume "b (i div 8) AND push_bit (i mod 8) 1 = 0"
    then have "\<not> bit (b (i div 8) AND push_bit (i mod 8) 1) (i mod 8)" by simp
    then show "\<not> bit (b (i div 8)) (i mod 8)" by (simp add: bit_and_iff bit_u8_shift)
  next
    assume n: "\<not> bit (b (i div 8)) (i mod 8)"
    show "b (i div 8) AND push_bit (i mod 8) 1 = 0"
      by (rule bit_word_eqI) (use n in \<open>auto simp: bit_and_iff bit_u8_shift\<close>)
  qed
  then show ?thesis by (simp add: test_cell_bit_def)
qed

lemma div_mod_eq: "i div 8 = j div 8 \<Longrightarrow> i mod 8 = j mod 8 \<longleftrightarrow> i = j" for i j :: nat
  by (metis div_mult_mod_eq)

lemma test_set_cell [simp]: "test_cell_bit (set_cell_bit i b) j \<longleftrightarrow> j = i \<or> test_cell_bit b j"
  by (auto simp: test_cell_bit_iff set_cell_bit_def bit_or_iff bit_u8_shift div_mod_eq)

lemma test_clear_cell [simp]: "test_cell_bit (clear_cell_bit i b) j \<longleftrightarrow> j \<noteq> i \<and> test_cell_bit b j"
  by (auto simp: test_cell_bit_iff clear_cell_bit_def bit_and_iff bit_not_iff bit_u8_shift div_mod_eq
      dest: bit_imp_le_length)

lemma test_fold_set: "test_cell_bit (fold set_cell_bit is b) j \<longleftrightarrow> j \<in> set is \<or> test_cell_bit b j"
  by (induction "is" arbitrary: b) auto

definition used_cells :: "bio_mem \<Rightarrow> nat set" where
  "used_cells m = {i. i < 102400 \<and> test_cell_bit (cell_bitmap m) i}"

lemma used_init [simp]: "used_cells (bio_mem_init base total_bytes m) = {}"
  by (auto simp: used_cells_def bio_mem_init_def test_cell_bit_def BITMAP_MAX_CELLS_def)

section \<open>Addresses of cells\<close>

text \<open>The managed region does not wrap around the address space.\<close>

definition region_ok :: "bio_mem \<Rightarrow> bool" where
  "region_ok m \<longleftrightarrow> mem_base m \<noteq> 0 \<and> unat (mem_base m) + 419430400 < 18446744073709551616"

lemma cell_addr_unat:
  assumes "region_ok m" "i < 102400"
  shows "unat (cell_addr m i) = unat (mem_base m) + i * 4096"
proof -
  have "unat (of_nat (i * 4096) :: u64) = i * 4096"
    using assms(2) by (simp add: unat_of_nat del: of_nat_mult)
  with assms show ?thesis
    by (simp add: cell_addr_def unat_word_ariths region_ok_def del: of_nat_mult)
qed

lemma cell_addr_nonzero: "region_ok m \<Longrightarrow> i < 102400 \<Longrightarrow> cell_addr m i \<noteq> 0"
  using cell_addr_unat [of m i] by (auto simp: region_ok_def unat_eq_0)

lemma cell_addr_ge: "region_ok m \<Longrightarrow> i < 102400 \<Longrightarrow> mem_base m \<le> cell_addr m i"
  by (simp add: word_le_nat_alt cell_addr_unat)

lemma cell_index_addr:
  assumes "region_ok m" "i < 102400"
  shows "cell_index m (cell_addr m i) = i"
proof -
  have d: "cell_addr m i - mem_base m = of_nat (i * 4096)"
    using assms(2) by (simp add: cell_addr_def)
  have u: "unat (of_nat (i * 4096) :: u64) = i * 4096"
    using assms(2) by (simp add: unat_of_nat del: of_nat_mult)
  have "of_nat (i * 4096) div CELL_SIZE = (of_nat i :: u64)"
    using assms(2) u by (simp add: word_unat_eq_iff unat_div CELL_SIZE_def unat_of_nat del: of_nat_mult)
  then show ?thesis
    using assms(2) by (simp add: cell_index_def d unsigned_ucast_eq unat_of_nat take_bit_nat_eq_self del: of_nat_mult)
qed

section \<open>Allocation of a cell\<close>

lemma alloc_after:
  "a \<noteq> 0 \<Longrightarrow> fc + length is < 4294967296 \<Longrightarrow>
     fold (alloc_step m) is (fc, a, b) = (fc + length (filter (\<lambda>i. \<not> test_cell_bit b i) is), a, b)"
  by (induction "is" arbitrary: fc) (simp_all add: alloc_step_def)

lemma alloc_fold:
  assumes "region_ok m"
  shows "distinct is \<Longrightarrow> set is \<subseteq> {..<102400} \<Longrightarrow> fc + length is < 4294967296 \<Longrightarrow>
     fold (alloc_step m) is (fc, 0, b) = (case filter (\<lambda>i. \<not> test_cell_bit b i) is of
         [] \<Rightarrow> (fc, 0, b)
       | i # rest \<Rightarrow> (fc + length rest, cell_addr m i, set_cell_bit i b))"
proof (induction "is" arbitrary: fc)
  case (Cons i "is")
  show ?case
  proof (cases "test_cell_bit b i")
    case True
    with Cons show ?thesis by (simp add: alloc_step_def)
  next
    case False
    have "cell_addr m i \<noteq> 0" using Cons.prems assms by (intro cell_addr_nonzero) auto
    moreover have "filter (\<lambda>j. \<not> test_cell_bit (set_cell_bit i b) j) is
        = filter (\<lambda>j. \<not> test_cell_bit b j) is"
      using Cons.prems by (intro filter_cong) auto
    moreover have "alloc_step m i (fc, 0, b) = (fc, cell_addr m i, set_cell_bit i b)"
      using False by (simp add: alloc_step_def)
    ultimately show ?thesis
      using False Cons.prems by (simp add: alloc_after)
  qed
qed simp

lemma filter_upt_first:
  "filter P [0..<n] = i # rest \<Longrightarrow> i < n \<and> P i \<and> (\<forall>j<i. \<not> P j) \<and> set rest = {j. j < n \<and> P j} - {i}"
proof -
  assume f: "filter P [0..<n] = i # rest"
  have "sorted (filter P [0..<n])" "distinct (filter P [0..<n])" by (simp_all add: sorted_wrt_filter)
  with f have s: "\<forall>j\<in>set rest. i \<le> j" "i \<notin> set rest" by auto
  have e: "set (i # rest) = {j. j < n \<and> P j}" by (subst f [symmetric]) auto
  then have i: "i < n" "P i" by auto
  have "\<not> P j" if "j < i" for j
  proof
    assume "P j"
    with that i have "j \<in> set (i # rest)" unfolding e by simp
    with that s show False by auto
  qed
  with i s e show ?thesis by auto
qed

lemma allocate_cell_eq:
  assumes "region_ok m" "bio_allocate_cell junk (m, bus) = (p, m', bus')"
  shows "if used_cells m = {..<102400} then p = 0 \<and> used_cells m' = used_cells m
    else (\<exists>i<102400. p = cell_addr m i \<and> i \<notin> used_cells m \<and> (\<forall>j<i. j \<in> used_cells m)
            \<and> used_cells m' = insert i (used_cells m))"
    and "bus' = (if 102400 - card (used_cells m') < 5120
                 then bus_put (pressure_globule junk) bus else bus)"
    and "mem_base m' = mem_base m" "mem_total m' = mem_total m" "phys m' = phys m"
proof -
  let ?free = "filter (\<lambda>i. \<not> test_cell_bit (cell_bitmap m) i) [0..<102400]"
  let ?f = "\<lambda>m. card {i. i < 102400 \<and> \<not> test_cell_bit (cell_bitmap m) i}"
  have compl: "102400 - card (used_cells m) = ?f m" for m
  proof -
    have u: "{i. i < 102400 \<and> \<not> test_cell_bit (cell_bitmap m) i} = {..<102400} - used_cells m"
      by (auto simp: used_cells_def)
    have "used_cells m \<subseteq> {..<102400}" by (auto simp: used_cells_def)
    then show ?thesis by (simp add: u card_Diff_subset finite_subset [OF _ finite_lessThan])
  qed
  have fold_eq: "fold (alloc_step m) [0..<102400] (0, 0, cell_bitmap m) = (case ?free of
         [] \<Rightarrow> (0, 0, cell_bitmap m)
       | i # rest \<Rightarrow> (length rest, cell_addr m i, set_cell_bit i (cell_bitmap m)))"
    using alloc_fold [OF assms(1), of "[0..<102400]" 0 "cell_bitmap m"] by (simp add: lessThan_atLeast0 split: list.splits)
  note unfold = bio_allocate_cell_def BITMAP_MAX_CELLS_def Let_def fold_eq
  show "mem_base m' = mem_base m" "mem_total m' = mem_total m" "phys m' = phys m"
    using assms(2) by (auto simp: bio_allocate_cell_def Let_def split: prod.splits)
  have "(if used_cells m = {..<102400} then p = 0 \<and> used_cells m' = used_cells m
    else (\<exists>i<102400. p = cell_addr m i \<and> i \<notin> used_cells m \<and> (\<forall>j<i. j \<in> used_cells m)
            \<and> used_cells m' = insert i (used_cells m)))
    \<and> bus' = (if 102400 - card (used_cells m') < 5120
                 then bus_put (pressure_globule junk) bus else bus)"
  proof (cases ?free)
    case Nil
    then have all: "used_cells m = {..<102400}"
      by (auto simp: used_cells_def filter_empty_conv)
    have "p = 0" "m' = m" "bus' = bus_put (pressure_globule junk) bus"
      using assms(2) Nil by (simp_all add: unfold)
    with all show ?thesis by simp
  next
    case (Cons i rest)
    note ff = filter_upt_first [OF Cons]
    have "distinct ?free" by simp
    then have d: "distinct rest" by (simp add: Cons)
    have p: "p = cell_addr m i" and m': "m' = m\<lparr> cell_bitmap := set_cell_bit i (cell_bitmap m) \<rparr>"
      and b: "bus' = (if length rest < 5120 then bus_put (pressure_globule junk) bus else bus)"
      using assms(2) Cons by (simp_all add: unfold split: if_splits)
    have used: "used_cells m' = insert i (used_cells m)" using ff by (auto simp: used_cells_def m')
    have "length rest = card (set rest)" using d by (simp add: distinct_card)
    also have "set rest = {j. j < 102400 \<and> \<not> test_cell_bit (cell_bitmap m') j}"
      using ff by (auto simp: m')
    finally have "length rest = 102400 - card (used_cells m')" by (simp add: compl)
    moreover have "used_cells m \<noteq> {..<102400}" using ff by (auto simp: used_cells_def)
    ultimately show ?thesis using ff p used b by (auto simp: used_cells_def)
  qed
  then show "if used_cells m = {..<102400} then p = 0 \<and> used_cells m' = used_cells m
    else (\<exists>i<102400. p = cell_addr m i \<and> i \<notin> used_cells m \<and> (\<forall>j<i. j \<in> used_cells m)
            \<and> used_cells m' = insert i (used_cells m))"
    and "bus' = (if 102400 - card (used_cells m') < 5120
                 then bus_put (pressure_globule junk) bus else bus)" by simp_all
qed

lemma free_cell_addr:
  "region_ok m \<Longrightarrow> i < 102400 \<Longrightarrow> used_cells (bio_free_cell (cell_addr m i) m) = used_cells m - {i}"
  by (auto simp: bio_free_cell_def cell_addr_ge cell_index_addr BITMAP_MAX_CELLS_def used_cells_def Let_def)

section \<open>The first-fit scan\<close>

definition fits :: "(nat \<Rightarrow> u8) \<Rightarrow> nat \<Rightarrow> nat \<Rightarrow> bool" where
  "fits b n s \<longleftrightarrow> (\<forall>k. s \<le> k \<longrightarrow> k < s + n \<longrightarrow> \<not> test_cell_bit b k)"

lemma tissue_scan_spec:
  assumes "N < 4294967295" "i \<le> N" "count \<le> i" "count < n"
    and "\<And>k. i - count \<le> k \<Longrightarrow> k < i \<Longrightarrow> \<not> test_cell_bit b k"
    and "0 < count \<Longrightarrow> start = i - count" "\<And>s. s < i - count \<Longrightarrow> \<not> fits b n s"
  shows "case tissue_scan b n [i..<N] count start of
      None \<Rightarrow> \<forall>s. s + n \<le> N \<longrightarrow> \<not> fits b n s
    | Some s \<Rightarrow> fits b n s \<and> s + n \<le> N \<and> (\<forall>s' < s. \<not> fits b n s')"
  using assms(2-)
proof (induction "N - i" arbitrary: i count start)
  case 0
  then have "i = N" by simp
  with 0 show ?case by auto
next
  case (Suc d)
  then have lt: "i < N" by simp
  have up: "[i..<N] = i # [Suc i..<N]" using lt by (simp add: upt_conv_Cons)
  have add: "u32_add count 1 = Suc count" using Suc.prems lt assms(1) by simp
  show ?case
  proof (cases "test_cell_bit b i")
    case True
    have no: "\<not> fits b n s" if "s < Suc i" for s
    proof (cases "s < i - count")
      case True
      with Suc.prems(6) show ?thesis by blast
    next
      case False
      with that Suc.prems(3) have "s \<le> i" "i < s + n" by linarith+
      with \<open>test_cell_bit b i\<close> show ?thesis by (auto simp: fits_def)
    qed
    have "case tissue_scan b n [Suc i..<N] 0 start of
        None \<Rightarrow> \<forall>s. s + n \<le> N \<longrightarrow> \<not> fits b n s
      | Some s \<Rightarrow> fits b n s \<and> s + n \<le> N \<and> (\<forall>s' < s. \<not> fits b n s')"
      by (rule Suc.hyps(1)) (use Suc.hyps(2) Suc.prems lt no in auto)
    with True show ?thesis by (simp add: up)
  next
    case False
    let ?st = "if count = 0 then i else start"
    have st: "?st = i - count" using Suc.prems(5) by auto
    have run: "\<not> test_cell_bit b k" if "i - count \<le> k" "k < Suc i" for k
      using that False Suc.prems(4) by (cases "k = i") auto
    show ?thesis
    proof (cases "Suc count = n")
      case True
      have sc: "tissue_scan b n [i..<N] count start = Some (i - count)"
        using False True st add by (simp add: up Let_def split del: if_split)
      have "fits b n (i - count)" "i - count + n \<le> N"
        using run True lt Suc.prems(2) by (auto simp: fits_def)
      with Suc.prems(6) show ?thesis by (simp add: sc)
    next
      case ne: False
      have sc: "tissue_scan b n [i..<N] count start = tissue_scan b n [Suc i..<N] (Suc count) (i - count)"
        using False ne st add by (simp add: up Let_def split del: if_split)
      show ?thesis unfolding sc
        by (rule Suc.hyps(1)) (use Suc.hyps(2) Suc.prems lt run ne in auto)
    qed
  qed
qed

lemma tissue_scan_zero:
  "count + length is < 4294967295 \<Longrightarrow> tissue_scan b 0 is count start = None"
proof (induction "is" arbitrary: count start)
  case (Cons i "is")
  have "u32_add count 1 = Suc count" using Cons.prems by simp
  with Cons show ?case by (simp add: Let_def)
qed simp

lemma scan_all:
  "case tissue_scan b n [0..<102400] 0 0 of
      None \<Rightarrow> n = 0 \<or> (\<forall>s. s + n \<le> 102400 \<longrightarrow> \<not> fits b n s)
    | Some s \<Rightarrow> 0 < n \<and> fits b n s \<and> s + n \<le> 102400 \<and> (\<forall>s' < s. \<not> fits b n s')"
proof (cases "n = 0")
  case True
  then show ?thesis using tissue_scan_zero [of 0 "[0..<102400]" b 0] by simp
next
  case False
  have "case tissue_scan b n [0..<102400] 0 0 of
      None \<Rightarrow> \<forall>s. s + n \<le> 102400 \<longrightarrow> \<not> fits b n s
    | Some s \<Rightarrow> fits b n s \<and> s + n \<le> 102400 \<and> (\<forall>s' < s. \<not> fits b n s')"
    by (rule tissue_scan_spec) (use False in auto)
  with False show ?thesis by (auto split: option.splits)
qed

lemma fits_used: "s + n \<le> 102400 \<Longrightarrow> fits (cell_bitmap m) n s \<longleftrightarrow> {s..<s + n} \<inter> used_cells m = {}"
  by (auto simp: fits_def used_cells_def)

lemma neural_tissue_eq:
  assumes "region_ok m" "bio_allocate_neural_tissue len m = (p, m')"
  defines "n \<equiv> cells_for len"
  shows "if p = 0 then m' = m \<and> (n = 0 \<or> (\<forall>s. s + n \<le> 102400 \<longrightarrow> {s..<s + n} \<inter> used_cells m \<noteq> {}))
    else (\<exists>s. p = cell_addr m s \<and> 0 < n \<and> s + n \<le> 102400 \<and> {s..<s + n} \<inter> used_cells m = {}
           \<and> (\<forall>s' < s. {s'..<s' + n} \<inter> used_cells m \<noteq> {})
           \<and> used_cells m' = used_cells m \<union> {s..<s + n})"
    and "mem_base m' = mem_base m" "mem_total m' = mem_total m" "phys m' = phys m"
proof -
  show "mem_base m' = mem_base m" "mem_total m' = mem_total m" "phys m' = phys m"
    using assms(2) by (auto simp: bio_allocate_neural_tissue_def split: option.splits)
  show "if p = 0 then m' = m \<and> (n = 0 \<or> (\<forall>s. s + n \<le> 102400 \<longrightarrow> {s..<s + n} \<inter> used_cells m \<noteq> {}))
    else (\<exists>s. p = cell_addr m s \<and> 0 < n \<and> s + n \<le> 102400 \<and> {s..<s + n} \<inter> used_cells m = {}
           \<and> (\<forall>s' < s. {s'..<s' + n} \<inter> used_cells m \<noteq> {})
           \<and> used_cells m' = used_cells m \<union> {s..<s + n})"
  proof (cases "tissue_scan (cell_bitmap m) n [0..<102400] 0 0")
    case None
    with assms(2) have "p = 0" "m' = m"
      by (simp_all add: bio_allocate_neural_tissue_def BITMAP_MAX_CELLS_def n_def)
    with None scan_all [where b = "cell_bitmap m" and n = n] show ?thesis by (auto simp: fits_used)
  next
    case (Some s)
    with scan_all [where b = "cell_bitmap m" and n = n] have s: "0 < n" "fits (cell_bitmap m) n s" "s + n \<le> 102400"
      "\<forall>s' < s. \<not> fits (cell_bitmap m) n s'" by auto
    have add: "u32_add s n = s + n" using s(3) by simp
    from Some assms(2) add have p: "p = cell_addr m s"
      and m': "m' = m\<lparr>cell_bitmap := fold set_cell_bit [s..<s + n] (cell_bitmap m)\<rparr>"
      by (simp_all add: bio_allocate_neural_tissue_def BITMAP_MAX_CELLS_def n_def)
    have "used_cells m' = used_cells m \<union> {s..<s + n}"
      using s(3) by (auto simp: used_cells_def m' test_fold_set)
    moreover have "\<forall>s' < s. {s'..<s' + n} \<inter> used_cells m \<noteq> {}"
      using s(3,4) by (auto simp flip: fits_used)
    moreover have "p \<noteq> 0" using p s cell_addr_nonzero [OF assms(1), of s] by simp
    ultimately show ?thesis using p s fits_used by auto
  qed
qed

section \<open>The purge\<close>

lemma purge_frame [simp]:
  "mem_base (purge_step i m) = mem_base m" "mem_total (purge_step i m) = mem_total m"
  "mem_base (fold purge_step is m) = mem_base m" "mem_total (fold purge_step is m) = mem_total m"
proof -
  show *: "mem_base (purge_step i m) = mem_base m" "mem_total (purge_step i m) = mem_total m" for i m
    by (simp_all add: purge_step_def)
  show "mem_base (fold purge_step is m) = mem_base m" "mem_total (fold purge_step is m) = mem_total m"
    by (induction "is" arbitrary: m) (simp_all add: *)
qed

lemma purge_used: "used_cells (fold purge_step is m) = used_cells m - set is"
proof (induction "is" arbitrary: m)
  case (Cons i "is")
  have "used_cells (purge_step i m) = used_cells m - {i}"
    by (auto simp: purge_step_def used_cells_def BITMAP_MAX_CELLS_def)
  with Cons show ?case by auto
qed simp

lemma zero_cell_range:
  assumes "unat addr + 4096 \<le> 18446744073709551616"
  shows "zero_cell addr p a = (if unat addr \<le> unat a \<and> unat a < unat addr + 4096 then 0 else p a)"
proof -
  have "unat a < 18446744073709551616" using unsigned_less [of a] by simp
  then have "unat (a - addr) < 4096 \<longleftrightarrow> unat addr \<le> unat a \<and> unat a < unat addr + 4096"
    using assms by (auto simp: unat_sub_if' word_le_nat_alt)
  then show ?thesis by (simp add: zero_cell_def CELL_SIZE_def)
qed

lemma purge_phys:
  assumes "region_ok m"
  shows "s \<le> e \<Longrightarrow> e \<le> 102400 \<Longrightarrow> phys (fold purge_step [s..<e] m) a =
     (if unat (mem_base m) + s * 4096 \<le> unat a \<and> unat a < unat (mem_base m) + e * 4096 then 0
      else phys m a)"
proof (induction e)
  case (Suc e)
  show ?case
  proof (cases "s = Suc e")
    case False
    let ?m = "fold purge_step [s..<e] m"
    have r: "region_ok ?m" using assms by (simp add: region_ok_def)
    have u: "unat (cell_addr ?m e) = unat (mem_base m) + e * 4096"
      using cell_addr_unat [OF r, of e] Suc.prems by simp
    have "phys (fold purge_step [s..<Suc e] m) a = zero_cell (cell_addr ?m e) (phys ?m) a"
      using False Suc.prems by (simp add: purge_step_def BITMAP_MAX_CELLS_def)
    also have "\<dots> = (if unat (mem_base m) + e * 4096 \<le> unat a
        \<and> unat a < unat (mem_base m) + e * 4096 + 4096 then 0 else phys ?m a)"
      using assms Suc.prems by (subst zero_cell_range) (simp_all add: u region_ok_def)
    finally show ?thesis using Suc False by auto
  qed auto
qed auto

lemma purge_eq:
  assumes "region_ok m" "s + n \<le> 102400" "cells_for len = n" "0 < n"
  shows "used_cells (bio_purge_infected_tissue (cell_addr m s) len m) = used_cells m - {s..<s + n}"
    and "phys (bio_purge_infected_tissue (cell_addr m s) len m) a =
      (if unat (mem_base m) + s * 4096 \<le> unat a \<and> unat a < unat (mem_base m) + (s + n) * 4096 then 0
       else phys m a)"
    and "mem_base (bio_purge_infected_tissue (cell_addr m s) len m) = mem_base m"
    and "mem_total (bio_purge_infected_tissue (cell_addr m s) len m) = mem_total m"
proof -
  have s: "s < 102400" using assms by simp
  have "bio_purge_infected_tissue (cell_addr m s) len m = fold purge_step [s..<s + n] m"
    using cell_addr_ge [OF assms(1) s] cell_index_addr [OF assms(1) s] assms(2,3)
    by (simp add: bio_purge_infected_tissue_def not_less [symmetric])
  then show "used_cells (bio_purge_infected_tissue (cell_addr m s) len m) = used_cells m - {s..<s + n}"
    and "phys (bio_purge_infected_tissue (cell_addr m s) len m) a =
      (if unat (mem_base m) + s * 4096 \<le> unat a \<and> unat a < unat (mem_base m) + (s + n) * 4096 then 0
       else phys m a)"
    and "mem_base (bio_purge_infected_tissue (cell_addr m s) len m) = mem_base m"
    and "mem_total (bio_purge_infected_tissue (cell_addr m s) len m) = mem_total m"
    using purge_phys [OF assms(1), of s "s + n" a] assms(2) by (simp_all add: purge_used)
qed

section \<open>Properties\<close>

text \<open>A freshly initialised memory at 1 MiB, for the examples.\<close>

definition fresh_memory :: "u64 \<Rightarrow> bio_mem" where
  "fresh_memory bytes = bio_mem_init 0x100000 bytes
     \<lparr> mem_base = 0, mem_total = 0, cell_bitmap = (\<lambda>_. 0), phys = (\<lambda>_. 0) \<rparr>"

lemma fresh_memory_simps [simp]:
  "region_ok (fresh_memory bytes)" "used_cells (fresh_memory bytes) = {}"
  "mem_base (fresh_memory bytes) = 0x100000" "mem_total (fresh_memory bytes) = bytes"
  by (simp_all add: fresh_memory_def) (simp_all add: region_ok_def bio_mem_init_def)

text \<open>
  a cell allocation returns the address of the lowest free cell and marks exactly that one
  as used, or \<open>NULL\<close> when all 102400 are in use; it emits the pressure globule exactly when fewer
  than 5120 cells remain free; and freeing the returned address restores the set of used cells.
\<close>

theorem allocate_cell_lowest:
  assumes "region_ok m" "bio_allocate_cell junk (m, bus) = (p, m', bus')"
  shows "(if used_cells m = {..<102400} then p = 0 \<and> used_cells m' = used_cells m
    else (\<exists>i<102400. unat p = unat (mem_base m) + i * 4096 \<and> i \<notin> used_cells m
            \<and> (\<forall>j<i. j \<in> used_cells m) \<and> used_cells m' = insert i (used_cells m)
            \<and> used_cells (bio_free_cell p m') = used_cells m))
    \<and> bus' = (if 102400 - card (used_cells m') < 5120
              then snd (united_bus_pump (pressure_globule junk) bus) else bus)"
proof -
  note a = allocate_cell_eq [OF assms]
  have r': "region_ok m'" using assms(1) a(3) by (simp add: region_ok_def)
  show ?thesis
  proof (cases "used_cells m = {..<102400}")
    case True
    with a show ?thesis by simp
  next
    case False
    with a(1) obtain i where i: "i < 102400" "p = cell_addr m i" "i \<notin> used_cells m"
      "\<forall>j<i. j \<in> used_cells m" "used_cells m' = insert i (used_cells m)" by auto
    have "p = cell_addr m' i" using i(2) a(3) by (simp add: cell_addr_def)
    then have "used_cells (bio_free_cell p m') = used_cells m"
      using free_cell_addr [OF r' i(1)] i(3,5) by simp
    then show ?thesis using False i a(2) cell_addr_unat [OF assms(1) i(1)] by auto
  qed
qed

lemma allocate_cell_lowest_witness:
  "\<exists>m' bus'. bio_allocate_cell (stray GLOBULE_RED) (fresh_memory 419430400, bus_boot empty_ring)
     = (0x100000, m', bus') \<and> used_cells m' = {0}"
proof -
  obtain p m' bus' where e: "bio_allocate_cell (stray GLOBULE_RED)
      (fresh_memory 419430400, bus_boot empty_ring) = (p, m', bus')" by (metis prod.collapse)
  have "({} :: nat set) \<noteq> {..<102400}" by (metis empty_iff lessThan_iff zero_less_numeral)
  then obtain i where i: "unat p = 1048576 + i * 4096" "\<forall>j<i. j \<in> ({} :: nat set)" "used_cells m' = {i}"
    using allocate_cell_lowest [OF _ e] by auto
  then have "i = 0" by auto
  moreover from this i(1) have "p = 0x100000" by (simp add: word_unat_eq_iff)
  ultimately show ?thesis using e i(3) by auto
qed

text \<open>
  C17: the tissue allocator is a complete first-fit search. A non-null result is the start of the
  lowest run of as many free cells as the size needs, and exactly these become used; a null
  result means that no such run exists, or that the (32-bit) number of cells is zero.
\<close>

theorem neural_tissue_first_fit:
  assumes "region_ok m" "bio_allocate_neural_tissue len m = (p, m')"
  shows "if p = 0 then m' = m \<and> (cells_for len = 0 \<or>
        (\<forall>s. s + cells_for len \<le> 102400 \<longrightarrow> {s..<s + cells_for len} \<inter> used_cells m \<noteq> {}))
    else (\<exists>s. unat p = unat (mem_base m) + s * 4096 \<and> s + cells_for len \<le> 102400
        \<and> {s..<s + cells_for len} \<inter> used_cells m = {}
        \<and> (\<forall>s' < s. {s'..<s' + cells_for len} \<inter> used_cells m \<noteq> {})
        \<and> used_cells m' = used_cells m \<union> {s..<s + cells_for len})"
proof (cases "p = 0")
  case True
  with neural_tissue_eq(1) [OF assms] show ?thesis by simp
next
  case False
  with neural_tissue_eq(1) [OF assms] obtain s where s: "p = cell_addr m s" "0 < cells_for len"
    "s + cells_for len \<le> 102400" "{s..<s + cells_for len} \<inter> used_cells m = {}"
    "\<forall>s' < s. {s'..<s' + cells_for len} \<inter> used_cells m \<noteq> {}"
    "used_cells m' = used_cells m \<union> {s..<s + cells_for len}" by auto
  then have "unat p = unat (mem_base m) + s * 4096" by (simp add: cell_addr_unat [OF assms(1)])
  with False s show ?thesis by auto
qed

lemma neural_tissue_first_fit_witness:
  "\<exists>m'. bio_allocate_neural_tissue 10000 (fresh_memory 419430400) = (0x100000, m')
     \<and> used_cells m' = {0..<3}"
proof -
  obtain p m' where e: "bio_allocate_neural_tissue 10000 (fresh_memory 419430400) = (p, m')"
    by (meson surj_pair)
  have n: "cells_for 10000 = 3" by (simp add: cells_for_def CELL_SIZE_def)
  note f = neural_tissue_first_fit [OF _ e, unfolded n]
  have "p \<noteq> 0" using f by (auto dest: spec [of _ 0])
  with f obtain s where s: "unat p = 1048576 + s * 4096" "\<forall>s' < s. {s'..<s' + 3} \<inter> ({} :: nat set) \<noteq> {}"
    "used_cells m' = {s..<s + 3}" by auto
  then have "s = 0" by auto
  moreover from this s(1) have "p = 0x100000" by (simp add: word_unat_eq_iff)
  ultimately show ?thesis using e s(3) by auto
qed

text \<open>
  C18: apoptosis undoes a tissue allocation. Purging what was allocated, with the same size, gives
  back exactly its cells, zeroes exactly their bytes and changes no other byte.
\<close>

theorem apoptosis_undoes_tissue:
  assumes "region_ok m" "bio_allocate_neural_tissue len m = (p, m')" "p \<noteq> 0"
  shows "used_cells (bio_apoptosis p len m') = used_cells m
    \<and> (\<forall>a. phys (bio_apoptosis p len m') a =
        (if unat p \<le> unat a \<and> unat a < unat p + cells_for len * 4096 then 0 else phys m a))"
proof -
  note n = neural_tissue_eq [OF assms(1,2)]
  from n(1) assms(3) obtain s where s: "p = cell_addr m s" "0 < cells_for len"
    "s + cells_for len \<le> 102400" "{s..<s + cells_for len} \<inter> used_cells m = {}"
    "used_cells m' = used_cells m \<union> {s..<s + cells_for len}" by auto
  have r': "region_ok m'" using assms(1) n(2) by (simp add: region_ok_def)
  have p': "p = cell_addr m' s" using s(1) n(2) by (simp add: cell_addr_def)
  have u: "unat p = unat (mem_base m) + s * 4096"
    using s by (simp add: cell_addr_unat [OF assms(1)])
  note q = purge_eq [OF r' s(3) refl s(2)]
  show ?thesis
    using q(1,2) s(4,5) n(2,4) u by (auto simp: bio_apoptosis_def p' algebra_simps)
qed

lemma apoptosis_undoes_tissue_witness:
  "used_cells (bio_apoptosis (fst (bio_allocate_neural_tissue 10000 (fresh_memory 419430400))) 10000
     (snd (bio_allocate_neural_tissue 10000 (fresh_memory 419430400)))) = {}"
proof -
  obtain p m' where e: "bio_allocate_neural_tissue 10000 (fresh_memory 419430400) = (p, m')"
    by (meson surj_pair)
  have n: "cells_for 10000 = 3" by (simp add: cells_for_def CELL_SIZE_def)
  have "p \<noteq> 0" using neural_tissue_eq(1) [OF _ e] by (auto simp: n dest: spec [of _ 0])
  with apoptosis_undoes_tissue [OF _ e] e show ?thesis by simp
qed

text \<open>
  the allocator does not know how much memory there is. With one cell of memory reported at
  initialisation the second allocation still succeeds, at an address that \<open>bio_map_cell\<close> refuses
  as lying outside the memory.
\<close>

theorem allocation_ignores_total:
  "\<exists>p1 m1 p2 m2 bus1 bus2.
     bio_allocate_cell junk (fresh_memory 4096, bus) = (p1, m1, bus1)
   \<and> bio_allocate_cell junk (m1, bus1) = (p2, m2, bus2) \<and> p2 \<noteq> 0
   \<and> fst (bio_map_cell v p2 3 (m2, bus2)) = -1"
proof -
  obtain p1 m1 bus1 where e1: "bio_allocate_cell junk (fresh_memory 4096, bus) = (p1, m1, bus1)"
    by (metis prod.collapse)
  obtain p2 m2 bus2 where e2: "bio_allocate_cell junk (m1, bus1) = (p2, m2, bus2)"
    by (metis prod.collapse)
  note a1 = allocate_cell_eq [OF _ e1]
  have ne: "({} :: nat set) \<noteq> {..<102400}" by (metis empty_iff lessThan_iff zero_less_numeral)
  from a1(1) ne have "\<exists>i. used_cells m1 = {i} \<and> (\<forall>j<i. j \<in> ({} :: nat set))" by auto
  then have u1: "used_cells m1 = {0}" by auto
  have r1: "region_ok m1" and b1: "mem_base m1 = 0x100000" "mem_total m1 = 4096"
    using a1(3,4) by (simp_all add: region_ok_def)
  note a2 = allocate_cell_eq [OF r1 e2]
  have "1 \<in> {..<102400::nat}" by simp
  then have "used_cells m1 \<noteq> {..<102400}" using u1 by (metis singletonD zero_neq_one)
  with a2(1) obtain i where i: "i < 102400" "p2 = cell_addr m1 i" "i \<notin> used_cells m1"
    "\<forall>j<i. j \<in> used_cells m1"
    by (simp split: if_splits) blast
  then have "i \<noteq> 0" "\<not> 1 < i" using u1 by auto
  then have "i = 1" by simp
  with i have p2: "p2 = 0x101000" by (simp add: cell_addr_def b1)
  have "mem_base m2 = 0x100000" "mem_total m2 = 4096" using a2(3,4) b1 by simp_all
  then have "fst (bio_map_cell v p2 3 (m2, bus2)) = -1" by (simp add: bio_map_cell_def p2)
  with e1 e2 p2 show ?thesis by fastforce
qed

end
