(* ===== verification/Hedged_Memory.thy ===== *)
theory Hedged_Memory
  imports Bio_Memory
begin

text \<open>
  Hedged reads: replicated words (\<open>memory-baremetal/src/hedged_read.c\<close>) and replicated heap blocks
  (\<open>hedged_malloc.c\<close>) on top of the tissue allocator. The static arrays are functions from indices,
  an allocation is found by the address of its block, and \<open>memcpy\<close> reads and writes \<open>phys\<close>. Output
  pointers are results; the callers pass them.
\<close>

section \<open>Choosing the fastest replica\<close>

definition best_step :: "(nat \<Rightarrow> u32) \<Rightarrow> nat \<Rightarrow> nat \<times> u32 \<Rightarrow> nat \<times> u32" where
  "best_step lat i = (\<lambda>(best, latency). if lat i < latency then (i, lat i) else (best, latency))"

definition best_replica :: "(nat \<Rightarrow> u32) \<Rightarrow> nat \<Rightarrow> nat \<times> u32" where
  "best_replica lat n = fold (best_step lat) [0..<n] (0, 0xFFFFFFFF)"

lemma best_replica_min:
  assumes "0 < n" "\<And>i. i < n \<Longrightarrow> lat i < 0xFFFFFFFF"
  shows "fst (best_replica lat n) < n \<and> snd (best_replica lat n) = lat (fst (best_replica lat n))
    \<and> (\<forall>i<n. lat (fst (best_replica lat n)) \<le> lat i)
    \<and> (\<forall>i<fst (best_replica lat n). lat (fst (best_replica lat n)) < lat i)"
  using assms
proof (induction n rule: nat_induct_non_zero)
  case 1
  then show ?case by (simp add: best_replica_def best_step_def)
next
  case (Suc n)
  let ?b = "best_replica lat n"
  from Suc have IH: "fst ?b < n" "snd ?b = lat (fst ?b)" "\<forall>i<n. lat (fst ?b) \<le> lat i"
    "\<forall>i<fst ?b. lat (fst ?b) < lat i" by auto
  have step: "best_replica lat (Suc n) = (if lat n < lat (fst ?b) then (n, lat n) else ?b)"
    using IH(2) by (cases ?b) (simp add: best_replica_def best_step_def)
  show ?case
  proof (cases "lat n < lat (fst ?b)")
    case True
    with IH(3) show ?thesis by (auto simp: step less_Suc_eq intro: less_le_trans less_imp_le)
  next
    case False
    with IH show ?thesis by (auto simp: step less_Suc_eq not_less)
  qed
qed

section \<open>Replicated words\<close>

definition HEDGED_MAX_REPLICAS :: u32 where [oo_defs]: "HEDGED_MAX_REPLICAS = 8"
definition HEDGED_MAX_WORDS :: u32 where [oo_defs]: "HEDGED_MAX_WORDS = 4096"

record hedged_store =
  g_replica_count :: u32
  g_channel_stride :: u64
  g_replica_store :: "nat \<Rightarrow> nat \<Rightarrow> u64"

definition hedged_boot :: hedged_store where
  "hedged_boot = \<lparr> g_replica_count = 0, g_channel_stride = 0, g_replica_store = (\<lambda>_ _. 0) \<rparr>"

record hedged_result =
  replica_addr :: u64
  logical_index :: u32
  replica_index :: u32
  simulated_latency_ns :: u32

definition pseudo_latency_ns :: "u32 \<Rightarrow> u32 \<Rightarrow> u32" where
  "pseudo_latency_ns logical replica =
     (let seed = (logical * 1103515245) XOR (replica * 2654435761);
          seed = seed XOR drop_bit 16 seed
      in 80 + seed mod 220)"

definition bio_hedged_configure :: "u32 \<Rightarrow> u64 \<Rightarrow> hedged_store \<Rightarrow> int \<times> hedged_store" where
  "bio_hedged_configure replicas stride h =
     (if replicas = 0 \<or> replicas > HEDGED_MAX_REPLICAS then (-1, h)
      else if stride = 0 then (-1, h)
      else (0, h\<lparr> g_replica_count := replicas, g_channel_stride := stride \<rparr>))"

definition bio_hedged_replicate_word :: "u32 \<Rightarrow> u64 \<Rightarrow> hedged_store \<Rightarrow> int \<times> hedged_store" where
  "bio_hedged_replicate_word logical v h =
     (if g_replica_count h = 0 \<or> logical \<ge> HEDGED_MAX_WORDS then (-1, h)
      else (0, h\<lparr> g_replica_store :=
        fold (\<lambda>i st. st(i := (st i)(unat logical := v))) [0..<unat (g_replica_count h)]
          (g_replica_store h) \<rparr>))"

text \<open>\<open>store_at\<close> is the address of the static array, rows of 4096 words of 8 bytes.\<close>

definition bio_hedged_read_word :: "u64 \<Rightarrow> u32 \<Rightarrow> hedged_store \<Rightarrow> hedged_result option" where
  "bio_hedged_read_word store_at logical h =
     (if g_replica_count h = 0 \<or> logical \<ge> HEDGED_MAX_WORDS then None
      else let (best, latency) = best_replica (\<lambda>i. pseudo_latency_ns logical (of_nat i))
                                   (unat (g_replica_count h))
           in Some \<lparr> replica_addr = store_at + of_nat ((best * 4096 + unat logical) * 8)
                        + of_nat best * g_channel_stride h,
                     logical_index = logical, replica_index = of_nat best,
                     simulated_latency_ns = latency \<rparr>)"

definition bio_hedged_read_value :: "u64 \<Rightarrow> u32 \<Rightarrow> hedged_store \<Rightarrow> u64 option" where
  "bio_hedged_read_value store_at logical h =
     (case bio_hedged_read_word store_at logical h of
        None \<Rightarrow> None
      | Some winner \<Rightarrow> Some (g_replica_store h (unat (replica_index winner)) (unat logical)))"

lemma pseudo_latency_bounds: "80 \<le> unat (pseudo_latency_ns l r)" "unat (pseudo_latency_ns l r) < 300"
proof -
  obtain s where p: "pseudo_latency_ns l r = 80 + s mod 220"
    by (simp add: pseudo_latency_ns_def Let_def)
  have "unat (s mod 220) < 220" by (simp add: unat_mod)
  then have "unat (80 + s mod 220) = 80 + unat (s mod 220)"
    by (subst unat_add_lem [THEN iffD1]) simp_all
  with \<open>unat (s mod 220) < 220\<close> p show "80 \<le> unat (pseudo_latency_ns l r)"
    "unat (pseudo_latency_ns l r) < 300" by simp_all
qed

lemma replicate_store:
  "fold (\<lambda>i st. st(i := (st i)(l := v))) [0..<n] st r = (if r < n then (st r)(l := v) else st r)"
  by (induction n) auto

section \<open>Replicated blocks\<close>

record hedged_allocation =
  base_address :: u64
  allocation_size :: u64
  replica_count :: u32
  read_latency_total_ns :: u64
  read_count :: u32

definition HEDGED_MALLOC_MAX_ALLOCATIONS :: nat where [oo_defs]: "HEDGED_MALLOC_MAX_ALLOCATIONS = 256"
definition HEDGED_MALLOC_REPLICA_COUNT :: u32 where [oo_defs]: "HEDGED_MALLOC_REPLICA_COUNT = 4"

record hedged_heap =
  allocations :: "nat \<Rightarrow> hedged_allocation"
  allocation_count :: nat
  heap_mem :: bio_mem

definition hedged_malloc :: "u64 \<Rightarrow> u32 \<Rightarrow> hedged_heap \<Rightarrow> u64 \<times> hedged_heap" where
  "hedged_malloc len replicas h =
     (if allocation_count h \<ge> HEDGED_MALLOC_MAX_ALLOCATIONS then (0, h)
      else if replicas = 0 \<or> replicas > HEDGED_MALLOC_REPLICA_COUNT then (0, h)
      else let (block, m) = bio_allocate_neural_tissue (len * ucast replicas) (heap_mem h);
               h = h\<lparr> heap_mem := m \<rparr>
           in if block = 0 then (0, h)
              else (block, h\<lparr> allocations := (allocations h)(allocation_count h :=
                        \<lparr> base_address = block, allocation_size = len, replica_count = replicas,
                          read_latency_total_ns = 0, read_count = 0 \<rparr>),
                      allocation_count := allocation_count h + 1 \<rparr>))"

text \<open>The search of all operations: the first entry below \<open>n\<close>, from \<open>i\<close> on, with this address.\<close>

fun find_allocation :: "(nat \<Rightarrow> hedged_allocation) \<Rightarrow> u64 \<Rightarrow> nat list \<Rightarrow> nat option" where
  "find_allocation tab ptr [] = None"
| "find_allocation tab ptr (i # is) =
     (if base_address (tab i) = ptr then Some i else find_allocation tab ptr is)"

definition lookup_allocation :: "u64 \<Rightarrow> hedged_heap \<Rightarrow> nat option" where
  "lookup_allocation ptr h = find_allocation (allocations h) ptr [0..<allocation_count h]"

definition mem_write :: "u64 \<Rightarrow> u8 list \<Rightarrow> (u64 \<Rightarrow> u8) \<Rightarrow> u64 \<Rightarrow> u8" where
  "mem_write addr data p = (\<lambda>a. if unat (a - addr) < length data then data ! unat (a - addr) else p a)"

definition mem_read :: "u64 \<Rightarrow> nat \<Rightarrow> (u64 \<Rightarrow> u8) \<Rightarrow> u8 list" where
  "mem_read addr n p = map (\<lambda>k. p (addr + of_nat k)) [0..<n]"

definition replica_at :: "hedged_allocation \<Rightarrow> nat \<Rightarrow> u64" where
  "replica_at a r = base_address a + of_nat r * allocation_size a"

text \<open>\<open>data\<close> are the \<open>size_in_bytes\<close> bytes to copy.\<close>

definition hedged_replicate_data :: "u64 \<Rightarrow> u8 list \<Rightarrow> hedged_heap \<Rightarrow> int \<times> hedged_heap" where
  "hedged_replicate_data ptr data h =
     (if ptr = 0 then (-1, h)
      else case lookup_allocation ptr h of
        None \<Rightarrow> (-1, h)
      | Some i \<Rightarrow>
          let a = allocations h i
          in if length data > unat (allocation_size a) then (-1, h)
             else (0, h\<lparr> heap_mem := (heap_mem h)\<lparr> phys :=
                    fold (\<lambda>r. mem_write (replica_at a r) data) [0..<unat (replica_count a)]
                      (phys (heap_mem h)) \<rparr> \<rparr>))"

definition simulate_replica_latency :: "u32 \<Rightarrow> u32" where
  "simulate_replica_latency replica = 80 + (replica * 13579) mod 120"

definition hedged_read :: "u64 \<Rightarrow> u64 \<Rightarrow> hedged_heap \<Rightarrow> u8 list option \<times> hedged_heap" where
  "hedged_read ptr len h =
     (if ptr = 0 then (None, h)
      else case lookup_allocation ptr h of
        None \<Rightarrow> (None, h)
      | Some i \<Rightarrow>
          let a = allocations h i
          in if len > allocation_size a then (None, h)
             else let (best, latency) = best_replica (\<lambda>r. simulate_replica_latency (of_nat r))
                                          (unat (replica_count a));
                      out = mem_read (replica_at a best) (unat len) (phys (heap_mem h));
                      a' = a\<lparr> read_latency_total_ns := read_latency_total_ns a + ucast latency,
                              read_count := read_count a + 1 \<rparr>
                  in (Some out, h\<lparr> allocations := (allocations h)(i := a') \<rparr>))"

definition hedged_get_stats :: "u64 \<Rightarrow> hedged_heap \<Rightarrow> (u64 \<times> u32) option" where
  "hedged_get_stats ptr h =
     (if ptr = 0 then None
      else case lookup_allocation ptr h of
        None \<Rightarrow> None
      | Some i \<Rightarrow>
          let a = allocations h i
          in Some (if read_count a > 0 then read_latency_total_ns a div ucast (read_count a) else 0,
                   read_count a))"

definition hedged_free :: "u64 \<Rightarrow> hedged_heap \<Rightarrow> hedged_heap" where
  "hedged_free ptr h =
     (if ptr = 0 then h
      else case lookup_allocation ptr h of
        None \<Rightarrow> h
      | Some i \<Rightarrow>
          let a = allocations h i;
              m = bio_apoptosis ptr (allocation_size a * ucast (replica_count a)) (heap_mem h);
              tab = (if i < allocation_count h - 1
                     then (allocations h)(i := allocations h (allocation_count h - 1))
                     else allocations h)
          in h\<lparr> heap_mem := m, allocations := tab, allocation_count := allocation_count h - 1 \<rparr>)"

section \<open>The heap invariant\<close>

text \<open>The cells of an allocation, and what every operation keeps: live allocations own disjoint used cells.\<close>

definition cells_needed :: "hedged_allocation \<Rightarrow> nat" where
  "cells_needed a = cells_for (allocation_size a * ucast (replica_count a))"

definition first_cell :: "bio_mem \<Rightarrow> hedged_allocation \<Rightarrow> nat" where
  "first_cell m a = cell_index m (base_address a)"

definition alloc_cells :: "bio_mem \<Rightarrow> hedged_allocation \<Rightarrow> nat set" where
  "alloc_cells m a = {first_cell m a..<first_cell m a + cells_needed a}"

definition alloc_ok :: "bio_mem \<Rightarrow> hedged_allocation \<Rightarrow> bool" where
  "alloc_ok m a \<longleftrightarrow> base_address a = cell_addr m (first_cell m a) \<and> 0 < cells_needed a
     \<and> first_cell m a + cells_needed a \<le> 102400 \<and> alloc_cells m a \<subseteq> used_cells m"

definition heap_ok :: "hedged_heap \<Rightarrow> bool" where
  "heap_ok h \<longleftrightarrow> region_ok (heap_mem h) \<and> allocation_count h \<le> 256
     \<and> (\<forall>i<allocation_count h. alloc_ok (heap_mem h) (allocations h i))
     \<and> (\<forall>i<allocation_count h. \<forall>j<allocation_count h. i \<noteq> j \<longrightarrow>
          alloc_cells (heap_mem h) (allocations h i) \<inter> alloc_cells (heap_mem h) (allocations h j) = {})"

lemma find_allocation_Some:
  "find_allocation tab ptr is = Some i \<Longrightarrow> i \<in> set is \<and> base_address (tab i) = ptr"
  by (induction "is") (auto split: if_splits)

lemma find_allocation_None:
  "find_allocation tab ptr is = None \<longleftrightarrow> (\<forall>i\<in>set is. base_address (tab i) \<noteq> ptr)"
  by (induction "is") auto

lemma lookup_Some: "lookup_allocation ptr h = Some i \<Longrightarrow> i < allocation_count h \<and> base_address (allocations h i) = ptr"
  by (auto simp: lookup_allocation_def dest: find_allocation_Some)

lemma alloc_views:
  assumes "mem_base m' = mem_base m"
  shows "first_cell m' a = first_cell m a" "alloc_cells m' a = alloc_cells m a"
    "cell_addr m' i = cell_addr m i" "region_ok m' = region_ok m"
  using assms by (simp_all add: first_cell_def cell_index_def alloc_cells_def cell_addr_def region_ok_def)

lemma alloc_ok_mono:
  assumes "alloc_ok m a" "mem_base m' = mem_base m" "alloc_cells m a \<subseteq> used_cells m'"
  shows "alloc_ok m' a"
  using assms alloc_views [OF assms(2)] by (simp add: alloc_ok_def)

lemma alloc_cells_nonempty: "alloc_ok m a \<Longrightarrow> alloc_cells m a \<noteq> {}"
  by (simp add: alloc_ok_def alloc_cells_def)

lemma alloc_frame [simp]:
  "cells_needed (a\<lparr> read_latency_total_ns := x, read_count := y \<rparr>) = cells_needed a"
  "first_cell m (a\<lparr> read_latency_total_ns := x, read_count := y \<rparr>) = first_cell m a"
  "alloc_cells m (a\<lparr> read_latency_total_ns := x, read_count := y \<rparr>) = alloc_cells m a"
  "alloc_ok m (a\<lparr> read_latency_total_ns := x, read_count := y \<rparr>) = alloc_ok m a"
  by (simp_all add: cells_needed_def first_cell_def alloc_cells_def alloc_ok_def)

lemma malloc_cases:
  assumes "heap_ok h" "hedged_malloc len replicas h = (p, h')"
  obtains (failed) "p = 0" "h' = h"
  | (success) s m a where "p = cell_addr (heap_mem h) s" "p \<noteq> 0" "allocation_count h < 256"
      "a = \<lparr> base_address = p, allocation_size = len, replica_count = replicas,
             read_latency_total_ns = 0, read_count = 0 \<rparr>"
      "h' = h\<lparr> heap_mem := m, allocations := (allocations h)(allocation_count h := a),
               allocation_count := allocation_count h + 1 \<rparr>"
      "mem_base m = mem_base (heap_mem h)" "first_cell m a = s" "alloc_ok m a"
      "alloc_cells m a \<inter> used_cells (heap_mem h) = {}"
      "used_cells m = used_cells (heap_mem h) \<union> alloc_cells m a"
proof (cases "p = 0")
  case True
  obtain block m where b: "bio_allocate_neural_tissue (len * ucast replicas) (heap_mem h) = (block, m)"
    by (meson surj_pair)
  from assms(1) have "region_ok (heap_mem h)" by (simp add: heap_ok_def)
  from neural_tissue_eq(1) [OF this b] have "block = 0 \<Longrightarrow> m = heap_mem h" by simp
  with True assms(2) b have "h' = h"
    by (auto simp: hedged_malloc_def Let_def split: if_splits)
  with True failed show thesis by blast
next
  case False
  obtain block m where b: "bio_allocate_neural_tissue (len * ucast replicas) (heap_mem h) = (block, m)"
    by (meson surj_pair)
  from assms(1) have r: "region_ok (heap_mem h)" by (simp add: heap_ok_def)
  define a where "a = \<lparr> base_address = p, allocation_size = len, replica_count = replicas,
             read_latency_total_ns = 0, read_count = 0 \<rparr>"
  from False assms(2) b have p: "block = p" "allocation_count h < 256"
    "h' = h\<lparr> heap_mem := m, allocations := (allocations h)(allocation_count h := a),
               allocation_count := allocation_count h + 1 \<rparr>"
    by (auto simp: hedged_malloc_def a_def HEDGED_MALLOC_MAX_ALLOCATIONS_def Let_def split: if_splits)
  note n = neural_tissue_eq [OF r b]
  have need: "cells_needed a = cells_for (len * ucast replicas)" by (simp add: cells_needed_def a_def)
  from n(1) False p(1) obtain s where s: "p = cell_addr (heap_mem h) s" "0 < cells_needed a"
    "s + cells_needed a \<le> 102400" "{s..<s + cells_needed a} \<inter> used_cells (heap_mem h) = {}"
    "used_cells m = used_cells (heap_mem h) \<union> {s..<s + cells_needed a}"
    unfolding need by auto
  have fc: "first_cell m a = s"
    using s cell_index_addr [OF r, of s] n(2) by (simp add: first_cell_def a_def cell_index_def)
  have ac: "alloc_cells m a = {s..<s + cells_needed a}" by (simp add: alloc_cells_def fc)
  have "alloc_ok m a" using s n(2) fc ac by (simp add: alloc_ok_def a_def cell_addr_def)
  with s p n(2) fc ac False a_def show thesis by (intro success) auto
qed

lemma heap_ok_malloc [oo_inv]:
  assumes "heap_ok h" "hedged_malloc len replicas h = (p, h')"
  shows "heap_ok h'"
  using assms
proof (cases rule: malloc_cases)
  case failed
  with assms(1) show ?thesis by simp
next
  case (success s m a)
  note v = alloc_views [OF success(6)]
  have old: "alloc_ok m (allocations h i)"
    and disj: "alloc_cells m (allocations h i) \<inter> alloc_cells m a = {}" if "i < allocation_count h" for i
  proof -
    from assms(1) that have o: "alloc_ok (heap_mem h) (allocations h i)" by (simp add: heap_ok_def)
    then have "alloc_cells m (allocations h i) \<subseteq> used_cells (heap_mem h)"
      by (simp add: alloc_ok_def v)
    with success(9) show "alloc_cells m (allocations h i) \<inter> alloc_cells m a = {}" by blast
    show "alloc_ok m (allocations h i)"
      using o success(6,10) by (intro alloc_ok_mono [OF o]) (auto simp: alloc_ok_def)
  qed
  show ?thesis
    using assms(1) success(3,5,8) old disj
    by (auto simp: heap_ok_def v less_Suc_eq Int_commute)
qed

lemma heap_lookup_unique:
  assumes "heap_ok h" "i < allocation_count h"
  shows "lookup_allocation (base_address (allocations h i)) h = Some i"
proof -
  from assms have ok: "alloc_ok (heap_mem h) (allocations h i)" by (simp add: heap_ok_def)
  have eq: "j = i" if "j < allocation_count h" "base_address (allocations h j) = base_address (allocations h i)" for j
  proof (rule ccontr)
    assume "j \<noteq> i"
    with assms that have d: "alloc_cells (heap_mem h) (allocations h j)
        \<inter> alloc_cells (heap_mem h) (allocations h i) = {}" by (simp add: heap_ok_def)
    from assms(1) that(1) have "alloc_ok (heap_mem h) (allocations h j)" by (simp add: heap_ok_def)
    then have "first_cell (heap_mem h) (allocations h j) \<in> alloc_cells (heap_mem h) (allocations h j)"
      "first_cell (heap_mem h) (allocations h i) \<in> alloc_cells (heap_mem h) (allocations h i)"
      using ok by (simp_all add: alloc_ok_def alloc_cells_def)
    moreover have "first_cell (heap_mem h) (allocations h j) = first_cell (heap_mem h) (allocations h i)"
      using that(2) by (simp add: first_cell_def)
    ultimately show False using d by auto
  qed
  show ?thesis
  proof (cases "lookup_allocation (base_address (allocations h i)) h")
    case None
    with assms(2) show ?thesis by (auto simp: lookup_allocation_def find_allocation_None)
  next
    case (Some j)
    with lookup_Some [OF Some] eq show ?thesis by auto
  qed
qed

lemma base_nonzero: "heap_ok h \<Longrightarrow> i < allocation_count h \<Longrightarrow> base_address (allocations h i) \<noteq> 0"
proof -
  assume "heap_ok h" "i < allocation_count h"
  then have "region_ok (heap_mem h)" "alloc_ok (heap_mem h) (allocations h i)" by (simp_all add: heap_ok_def)
  then show ?thesis by (simp add: alloc_ok_def cell_addr_nonzero)
qed

lemma free_eq:
  assumes "heap_ok h" "i < allocation_count h"
  defines "a \<equiv> allocations h i" and "h' \<equiv> hedged_free (base_address (allocations h i)) h"
  shows "allocation_count h' = allocation_count h - 1"
    and "mem_base (heap_mem h') = mem_base (heap_mem h)"
    and "used_cells (heap_mem h') = used_cells (heap_mem h) - alloc_cells (heap_mem h) a"
    and "j < allocation_count h' \<Longrightarrow> allocations h' j = (if j = i then allocations h (allocation_count h - 1)
           else allocations h j)"
proof -
  let ?m = "bio_apoptosis (base_address a) (allocation_size a * ucast (replica_count a)) (heap_mem h)"
  from assms(1,2) have ok: "alloc_ok (heap_mem h) a" and r: "region_ok (heap_mem h)"
    by (simp_all add: heap_ok_def a_def)
  let ?s = "first_cell (heap_mem h) a"
  from ok have b: "base_address a = cell_addr (heap_mem h) ?s" and n: "0 < cells_needed a"
    "?s + cells_needed a \<le> 102400" by (simp_all add: alloc_ok_def)
  have q: "used_cells ?m = used_cells (heap_mem h) - alloc_cells (heap_mem h) a"
    "mem_base ?m = mem_base (heap_mem h)"
    using purge_eq(1,3) [OF r n(2) cells_needed_def [symmetric] n(1)]
    by (simp_all add: bio_apoptosis_def b [symmetric] alloc_cells_def)
  have h': "h' = h\<lparr> heap_mem := ?m, allocations :=
      (if i < allocation_count h - 1 then (allocations h)(i := allocations h (allocation_count h - 1))
       else allocations h), allocation_count := allocation_count h - 1 \<rparr>"
    using heap_lookup_unique [OF assms(1,2)] base_nonzero [OF assms(1,2)]
    by (simp add: h'_def hedged_free_def a_def Let_def)
  show "allocation_count h' = allocation_count h - 1"
    "mem_base (heap_mem h') = mem_base (heap_mem h)"
    "used_cells (heap_mem h') = used_cells (heap_mem h) - alloc_cells (heap_mem h) a"
    using q by (simp_all add: h')
  show "allocations h' j = (if j = i then allocations h (allocation_count h - 1) else allocations h j)"
    if "j < allocation_count h'" using that by (auto simp: h')
qed

lemma heap_ok_free [oo_inv]:
  assumes "heap_ok h" "i < allocation_count h"
  shows "heap_ok (hedged_free (base_address (allocations h i)) h)"
proof -
  let ?h = "hedged_free (base_address (allocations h i)) h"
  let ?old = "\<lambda>j. if j = i then allocation_count h - 1 else j"
  note f = free_eq [OF assms]
  note v = alloc_views [OF f(2)]
  have old: "?old j < allocation_count h \<and> ?old j \<noteq> i" and tab: "allocations ?h j = allocations h (?old j)"
    if "j < allocation_count ?h" for j
    using that assms(2) f(1) f(4) [OF that] by auto
  have ok: "alloc_ok (heap_mem ?h) (allocations ?h j)" if j: "j < allocation_count ?h" for j
  proof -
    from old [OF j] assms have o: "alloc_ok (heap_mem h) (allocations h (?old j))"
      and d: "alloc_cells (heap_mem h) (allocations h (?old j)) \<inter> alloc_cells (heap_mem h) (allocations h i) = {}"
      by (auto simp: heap_ok_def)
    have "alloc_cells (heap_mem h) (allocations h (?old j)) \<subseteq> used_cells (heap_mem ?h)"
      using o d unfolding f(3) by (auto simp: alloc_ok_def)
    with o f(2) show ?thesis unfolding tab [OF j] by (rule alloc_ok_mono)
  qed
  have disj: "alloc_cells (heap_mem ?h) (allocations ?h j) \<inter> alloc_cells (heap_mem ?h) (allocations ?h k) = {}"
    if "j < allocation_count ?h" "k < allocation_count ?h" "j \<noteq> k" for j k
  proof -
    have "?old j \<noteq> ?old k" using that f(1) by auto
    then show ?thesis
      unfolding tab [OF that(1)] tab [OF that(2)] v
      using old [OF that(1)] old [OF that(2)] assms(1) by (simp add: heap_ok_def)
  qed
  show ?thesis using ok disj assms(1) f(1) v by (auto simp: heap_ok_def)
qed

section \<open>Replicas do not disturb each other\<close>

lemma unat_of_nat_u64: "n < 18446744073709551616 \<Longrightarrow> unat (of_nat n :: u64) = n"
  by (simp add: unat_of_nat)

lemma mem_write_other_replica:
  assumes "k < length data" "length data \<le> unat S" "0 < r" "(r + 1) * unat S < 18446744073709551616"
  shows "mem_write (b + of_nat r * S) data p (b + of_nat k) = p (b + of_nat k)"
proof -
  let ?x = "of_nat k :: u64" and ?y = "of_nat r * S"
  have S: "0 < unat S" using assms(1,2) by linarith
  have rS: "r * unat S < 18446744073709551616" using assms(4) by simp
  then have "r < 18446744073709551616" using S by (metis le_less_trans mult.right_neutral mult_le_mono2 Suc_leI One_nat_def)
  then have r: "unat (of_nat r :: u64) = r" by (rule unat_of_nat_u64)
  have y: "unat ?y = r * unat S" using rS r by (simp add: unat_word_ariths)
  have k: "k < unat S" using assms(1,2) by simp
  also have "\<dots> \<le> r * unat S" using assms(3) by simp
  finally have kr: "k < r * unat S" .
  have x: "unat ?x = k" using kr rS by (intro unat_of_nat_u64) simp
  have "unat (?x - ?y) = k + 18446744073709551616 - r * unat S"
    using kr x y by (simp add: unat_sub_if' word_le_nat_alt)
  moreover have "r * unat S + unat S < 18446744073709551616" using assms(4) by simp
  ultimately have "\<not> unat (?x - ?y) < length data" using assms(2) by linarith
  then show ?thesis by (simp add: mem_write_def algebra_simps)
qed

lemma replicas_read_back:
  assumes "length data \<le> unat S" "0 < n" "n * unat S < 18446744073709551616" "k < length data"
  shows "fold (\<lambda>r. mem_write (b + of_nat r * S) data) [0..<n] p (b + of_nat k) = data ! k"
  using assms(2,3)
proof (induction n rule: nat_induct_non_zero)
  case 1
  have "k < 18446744073709551616" using assms(1,4) unat_less_limit(4) [of S] by linarith
  then have "unat (of_nat k :: u64) = k" by (rule unat_of_nat_u64)
  with assms(4) show ?case by (simp add: mem_write_def)
next
  case (Suc n)
  then have "mem_write (b + of_nat n * S) data (fold (\<lambda>r. mem_write (b + of_nat r * S) data) [0..<n] p)
       (b + of_nat k) = fold (\<lambda>r. mem_write (b + of_nat r * S) data) [0..<n] p (b + of_nat k)"
    using assms by (intro mem_write_other_replica) simp_all
  with Suc show ?case by simp
qed

lemma simulate_latency_ge: "80 \<le> simulate_replica_latency r" "simulate_replica_latency r < 200"
  "simulate_replica_latency 0 = 80"
proof -
  obtain x where p: "simulate_replica_latency r = 80 + x mod 120"
    by (simp add: simulate_replica_latency_def)
  have u: "unat (x mod 120) < 120" by (simp add: unat_mod)
  then have "unat (80 + x mod 120) = 80 + unat (x mod 120)"
    by (subst unat_add_lem [THEN iffD1]) simp_all
  with u p show "80 \<le> simulate_replica_latency r" "simulate_replica_latency r < 200"
    by (simp_all add: word_le_nat_alt word_less_nat_alt)
  show "simulate_replica_latency 0 = 80" by (simp add: simulate_replica_latency_def)
qed

lemma best_is_first:
  assumes "0 < n"
  shows "best_replica (\<lambda>r. simulate_replica_latency (of_nat r)) n = (0, 80)"
proof -
  let ?lat = "\<lambda>r. simulate_replica_latency (of_nat r)"
  have "?lat i < 0xFFFFFFFF" for i
    using simulate_latency_ge(2) [of "of_nat i"] by (simp add: word_less_nat_alt)
  note b = best_replica_min [OF assms, of ?lat, OF this]
  have "fst (best_replica ?lat n) = 0"
  proof (rule ccontr)
    assume ne: "fst (best_replica ?lat n) \<noteq> 0"
    from b have "\<forall>i<fst (best_replica ?lat n). ?lat (fst (best_replica ?lat n)) < ?lat i" by blast
    with ne have "?lat (fst (best_replica ?lat n)) < ?lat 0" by blast
    with simulate_latency_ge(1) [of "of_nat (fst (best_replica ?lat n))"] show False
      by (simp add: simulate_latency_ge(3) not_less [symmetric])
  qed
  with b show ?thesis by (simp add: prod_eq_iff simulate_latency_ge(3))
qed

lemma alloc_ok_replicas: "alloc_ok m a \<Longrightarrow> replica_count a \<noteq> 0"
  by (auto simp: alloc_ok_def cells_needed_def cells_for_def CELL_SIZE_def)

section \<open>Properties\<close>

text \<open>
  C19: live allocations never share a cell. Every allocation and every release keeps the heap
  invariant: the live blocks own pairwise disjoint runs of used cells inside the bitmap.
\<close>

theorem hedged_heap_invariant:
  assumes "heap_ok h"
  shows "heap_ok (snd (hedged_malloc len replicas h)) \<and> heap_ok (hedged_free ptr h)"
proof
  show "heap_ok (snd (hedged_malloc len replicas h))"
    using heap_ok_malloc [OF assms] by (metis prod.collapse)
  show "heap_ok (hedged_free ptr h)"
  proof (cases "lookup_allocation ptr h")
    case None
    with assms show ?thesis by (simp add: hedged_free_def)
  next
    case (Some i)
    with lookup_Some [OF Some] heap_ok_free [OF assms, of i] show ?thesis by auto
  qed
qed

definition empty_heap :: hedged_heap where
  "empty_heap = \<lparr> allocations = (\<lambda>_. \<lparr> base_address = 0, allocation_size = 0, replica_count = 0,
     read_latency_total_ns = 0, read_count = 0 \<rparr>), allocation_count = 0,
     heap_mem = fresh_memory 419430400 \<rparr>"

lemma heap_ok_empty: "heap_ok empty_heap"
  by (simp add: heap_ok_def empty_heap_def)

lemma hedged_heap_invariant_witness:
  "heap_ok (hedged_free 0x100000 (snd (hedged_malloc 256 4 empty_heap)))"
  using hedged_heap_invariant [OF hedged_heap_invariant [OF heap_ok_empty, THEN conjunct1]] by blast

text \<open>
  releasing a block gives back exactly its cells and keeps all other blocks: they stay
  findable by their address with the same size, replicas and statistics.
\<close>

theorem hedged_free_exact:
  assumes "heap_ok h" "i < allocation_count h" "j < allocation_count h" "j \<noteq> i"
  defines "h' \<equiv> hedged_free (base_address (allocations h i)) h"
  shows "used_cells (heap_mem h') = used_cells (heap_mem h) - alloc_cells (heap_mem h) (allocations h i)
    \<and> (\<exists>k. lookup_allocation (base_address (allocations h j)) h' = Some k
          \<and> allocations h' k = allocations h j)"
proof -
  note f = free_eq [OF assms(1,2), folded h'_def]
  have ok: "heap_ok h'" unfolding h'_def by (rule heap_ok_free [OF assms(1,2)])
  let ?k = "if j = allocation_count h - 1 then i else j"
  have k: "?k < allocation_count h'" using assms(2-4) f(1) by auto
  then have "allocations h' ?k = allocations h j" using f(4) [OF k] assms(4) by auto
  with heap_lookup_unique [OF ok k] f(3) show ?thesis by auto
qed

lemma malloc_empty:
  "\<exists>a m. hedged_malloc 256 4 empty_heap = (0x100000, empty_heap\<lparr> heap_mem := m,
     allocations := (allocations empty_heap)(0 := a), allocation_count := 1 \<rparr>)
     \<and> base_address a = 0x100000 \<and> allocation_size a = 256 \<and> replica_count a = 4
     \<and> alloc_ok m a \<and> region_ok m"
proof -
  obtain p h' where e: "hedged_malloc 256 4 empty_heap = (p, h')" by (meson surj_pair)
  have n: "cells_for 1024 = 1" by (simp add: cells_for_def CELL_SIZE_def)
  obtain q m where b: "bio_allocate_neural_tissue 1024 (fresh_memory 419430400) = (q, m)"
    by (meson surj_pair)
  have "q \<noteq> 0" using neural_tissue_eq(1) [OF _ b] by (auto simp: n dest: spec [of _ 0])
  then obtain s where s: "q = cell_addr (fresh_memory 419430400) s" "\<forall>s' < s. {s'..<s' + 1} \<inter> ({} :: nat set) \<noteq> {}"
    using neural_tissue_eq(1) [OF _ b] by (auto simp: n)
  then have "s = 0" by auto
  with s have q: "q = 0x100000" by (simp add: cell_addr_def u32_mul_def)
  from e b q have p: "p = 0x100000"
    by (auto simp: hedged_malloc_def empty_heap_def oo_defs)
  from heap_ok_empty e show ?thesis
  proof (cases rule: malloc_cases)
    case failed
    with p show ?thesis by simp
  next
    case (success s m a)
    have "region_ok m" using alloc_views(4) [OF success(6)] heap_ok_empty by (simp add: heap_ok_def)
    with success e p show ?thesis by (auto simp: empty_heap_def)
  qed
qed

lemma hedged_free_exact_witness:
  "\<exists>h k. heap_ok h \<and> allocation_count h = 2
     \<and> allocations (hedged_free (base_address (allocations h 0)) h) k = allocations h 1"
proof -
  obtain h1 where h1: "hedged_malloc 256 4 empty_heap = (0x100000, h1)" "allocation_count h1 = 1"
    "used_cells (heap_mem h1) = {0}"
  proof -
    obtain a m where e: "hedged_malloc 256 4 empty_heap = (0x100000, empty_heap\<lparr> heap_mem := m,
     allocations := (allocations empty_heap)(0 := a), allocation_count := 1 \<rparr>)" using malloc_empty by blast
    from heap_ok_empty e show thesis
    proof (cases rule: malloc_cases)
      case (success s m' a')
      have n: "cells_needed a' = 1" by (simp add: success(4) cells_needed_def cells_for_def CELL_SIZE_def)
      have "unat (cell_addr (fresh_memory 419430400) s) = 1048576 + s * 4096"
        using success(8) by (subst cell_addr_unat) (simp_all add: alloc_ok_def success(7) n)
      moreover have "cell_addr (fresh_memory 419430400) s = 0x100000"
        using success(1) by (simp add: empty_heap_def)
      ultimately have "s = 0" by simp
      then have "alloc_cells m' a' = {0}" by (auto simp: alloc_cells_def success(7) n)
      with success(5,10) that e show thesis by (auto simp: empty_heap_def)
    qed simp
  qed
  have ok1: "heap_ok h1" using heap_ok_malloc [OF heap_ok_empty h1(1)] .
  obtain p h2 where e2: "hedged_malloc 64 2 h1 = (p, h2)" by (meson surj_pair)
  have "p \<noteq> 0"
  proof
    assume "p = 0"
    obtain q m where b: "bio_allocate_neural_tissue 128 (heap_mem h1) = (q, m)"
      by (meson surj_pair)
    have n: "cells_for 128 = 1" by (simp add: cells_for_def CELL_SIZE_def)
    from e2 b \<open>p = 0\<close> have "q = 0" by (auto simp: hedged_malloc_def h1(2) oo_defs Let_def split: if_splits)
    moreover have "region_ok (heap_mem h1)" using ok1 by (simp add: heap_ok_def)
    ultimately show False using neural_tissue_eq(1) [OF _ b] h1(3) by (auto simp: n dest: spec [of _ 1])
  qed
  from ok1 e2 have c2: "allocation_count h2 = 2"
    by (cases rule: malloc_cases) (use \<open>p \<noteq> 0\<close> h1(2) in auto)
  have ok2: "heap_ok h2" using heap_ok_malloc [OF ok1 e2] .
  show ?thesis using hedged_free_exact [OF ok2, of 0 1] c2 ok2 by auto
qed

text \<open>
  C20: data written to all replicas is read back. A hedged read after a replication returns the
  bytes written, charges the latency of the fastest replica (always replica 0, 80 ns) and counts
  the read, provided the replicas of the block do not wrap around the address space.
\<close>

theorem hedged_data_roundtrip:
  assumes "heap_ok h" "i < allocation_count h" "data \<noteq> []"
    and "unat (allocation_size (allocations h i)) * unat (replica_count (allocations h i)) < 2 ^ 64"
    and "hedged_replicate_data (base_address (allocations h i)) data h = (0, h1)"
  shows "\<exists>h2. hedged_read (base_address (allocations h i)) (of_nat (length data)) h1 = (Some data, h2)
    \<and> read_count (allocations h2 i) = read_count (allocations h i) + 1
    \<and> read_latency_total_ns (allocations h2 i) = read_latency_total_ns (allocations h i) + 80"
proof -
  let ?a = "allocations h i"
  have ptr: "base_address ?a \<noteq> 0" by (rule base_nonzero [OF assms(1,2)])
  have l: "lookup_allocation (base_address ?a) h = Some i" by (rule heap_lookup_unique [OF assms(1,2)])
  from assms(1,2) have "alloc_ok (heap_mem h) ?a" by (simp add: heap_ok_def)
  then have r: "0 < unat (replica_count ?a)" using alloc_ok_replicas by (simp add: unat_gt_0)
  let ?p = "fold (\<lambda>r. mem_write (replica_at ?a r) data) [0..<unat (replica_count ?a)] (phys (heap_mem h))"
  from assms(5) l ptr have le: "length data \<le> unat (allocation_size ?a)"
    and h1: "h1 = h\<lparr> heap_mem := (heap_mem h)\<lparr> phys := ?p \<rparr> \<rparr>"
    by (auto simp: hedged_replicate_data_def Let_def split: if_splits)
  have len: "unat (of_nat (length data) :: u64) = length data"
    using le unat_less_limit(4) [of "allocation_size ?a"] by (intro unat_of_nat_u64) linarith
  have fits: "\<not> allocation_size ?a < of_nat (length data)"
    using le len by (simp add: word_less_nat_alt)
  have l1: "lookup_allocation (base_address ?a) h1 = Some i" using l by (simp add: h1 lookup_allocation_def)
  have "?p (base_address ?a + of_nat k) = data ! k" if "k < length data" for k
    unfolding replica_at_def
    by (rule replicas_read_back [OF le r _ that]) (use assms(4) in \<open>simp add: mult.commute\<close>)
  then have "mem_read (replica_at ?a 0) (length data) ?p = data"
    by (intro nth_equalityI) (simp_all add: mem_read_def replica_at_def)
  then show ?thesis
    using ptr l1 fits len by (simp add: hedged_read_def h1 best_is_first [OF r] Let_def)
qed

lemma hedged_data_roundtrip_witness:
  "\<exists>h h2. hedged_read 0x100000 3 h = (Some [1, 2, 3], h2)"
proof -
  obtain a m where e: "hedged_malloc 256 4 empty_heap = (0x100000, empty_heap\<lparr> heap_mem := m,
     allocations := (allocations empty_heap)(0 := a), allocation_count := 1 \<rparr>)"
    and a: "base_address a = 0x100000" "allocation_size a = 256" "replica_count a = 4"
    using malloc_empty by blast
  let ?h = "empty_heap\<lparr> heap_mem := m, allocations := (allocations empty_heap)(0 := a), allocation_count := 1 \<rparr>"
  have ok: "heap_ok ?h" using heap_ok_malloc [OF heap_ok_empty e] .
  have al: "allocations ?h 0 = a" "allocation_count ?h = 1" by simp_all
  have "lookup_allocation 0x100000 ?h = Some 0" using a by (simp add: lookup_allocation_def)
  then obtain h1 where "hedged_replicate_data 0x100000 [1, 2, 3] ?h = (0, h1)"
    using a by (simp add: hedged_replicate_data_def)
  then obtain h2 where "hedged_read 0x100000 3 h1 = (Some [1, 2, 3], h2)"
    using hedged_data_roundtrip [OF ok, of 0 "[1, 2, 3]" h1] al a by auto
  then show ?thesis by blast
qed

text \<open>
  a replicated word is read back, from the replica with the least latency among those
  configured, the first of them on a tie; before configuration, and for indices of 4096 or more,
  both operations fail.
\<close>

theorem hedged_word_roundtrip:
  assumes "bio_hedged_replicate_word l v h = (r, h')" "g_replica_count h \<le> HEDGED_MAX_REPLICAS"
  shows "if g_replica_count h \<noteq> 0 \<and> l < 4096
    then r = 0 \<and> bio_hedged_read_value store_at l h' = Some v
      \<and> (\<exists>w. bio_hedged_read_word store_at l h' = Some w \<and> replica_index w < g_replica_count h
          \<and> simulated_latency_ns w = pseudo_latency_ns l (replica_index w)
          \<and> (\<forall>q<g_replica_count h. simulated_latency_ns w \<le> pseudo_latency_ns l q))
    else r = -1 \<and> h' = h \<and> bio_hedged_read_value store_at l h' = None"
proof (cases "g_replica_count h \<noteq> 0 \<and> l < 4096")
  case True
  let ?n = "unat (g_replica_count h)"
  let ?lat = "\<lambda>i. pseudo_latency_ns l (of_nat i)"
  have n: "0 < ?n" using True by (simp add: unat_gt_0)
  have b0: "?lat i < 0xFFFFFFFF" for i
    using pseudo_latency_bounds(2) [of l "of_nat i"] by (simp add: word_less_nat_alt)
  note b = best_replica_min [OF n, of ?lat, OF b0]
  obtain best latency where bl: "best_replica ?lat ?n = (best, latency)" by (meson surj_pair)
  with b have best: "best < ?n" "latency = ?lat best" "\<forall>i<?n. ?lat best \<le> ?lat i" by auto
  have small: "best < 4294967296" using best(1) unat_less_limit(3) [of "g_replica_count h"] by linarith
  then have ub: "unat (of_nat best :: u32) = best" by (simp add: unat_of_nat)
  have nl: "\<not> HEDGED_MAX_WORDS \<le> l" using True by (simp add: HEDGED_MAX_WORDS_def not_le)
  have h': "r = 0" "g_replica_count h' = g_replica_count h"
    "g_replica_store h' best (unat l) = v"
    using assms(1) True nl best(1)
    by (auto simp: bio_hedged_replicate_word_def replicate_store)
  have q: "?lat best \<le> pseudo_latency_ns l q" if "q < g_replica_count h" for q
  proof -
    have "unat q < ?n" using that by (simp add: word_less_nat_alt)
    with best(3) have "?lat best \<le> ?lat (unat q)" by blast
    then show ?thesis by simp
  qed
  have "(of_nat best :: u32) < g_replica_count h" using best(1) ub by (simp add: word_less_nat_alt)
  then show ?thesis
    using True nl h' bl ub best(2) q
    by (simp add: bio_hedged_read_value_def bio_hedged_read_word_def)
next
  case False
  then have "g_replica_count h = 0 \<or> HEDGED_MAX_WORDS \<le> l" by (auto simp: HEDGED_MAX_WORDS_def not_less)
  then show ?thesis
    using False assms(1)
    by (auto simp: bio_hedged_replicate_word_def bio_hedged_read_value_def bio_hedged_read_word_def)
qed

lemma hedged_word_roundtrip_witness:
  "bio_hedged_read_value 0 7 (snd (bio_hedged_replicate_word 7 42
     (snd (bio_hedged_configure 4 64 hedged_boot)))) = Some 42"
proof -
  let ?h = "snd (bio_hedged_configure 4 64 hedged_boot)"
  have c: "g_replica_count ?h = 4" by (simp add: bio_hedged_configure_def HEDGED_MAX_REPLICAS_def)
  obtain r h' where e: "bio_hedged_replicate_word 7 42 ?h = (r, h')" by (meson surj_pair)
  from hedged_word_roundtrip [OF e, of 0] c show ?thesis by (simp add: e HEDGED_MAX_REPLICAS_def)
qed

text \<open>
  raising the number of replicas makes written words stale. A word written with one replica
  and read after a reconfiguration to two comes from the second replica, which was never written.
\<close>

theorem hedged_reconfigure_stale:
  "bio_hedged_read_value store_at 1 (snd (bio_hedged_configure 2 64
      (snd (bio_hedged_replicate_word 1 v (snd (bio_hedged_configure 1 64 hedged_boot)))))) = Some 0"
proof -
  have "[0..<2] = [0, 1::nat]" by (simp add: upt_rec)
  moreover have "\<not> (4096 :: u32) \<le> 1" by (simp add: word_le_nat_alt)
  ultimately show ?thesis
    by (simp add: bio_hedged_read_value_def bio_hedged_read_word_def bio_hedged_configure_def
        bio_hedged_replicate_word_def hedged_boot_def oo_defs best_replica_def best_step_def
        pseudo_latency_ns_def Let_def)
qed

end
