(* ===== verification/Threat_State.thy ===== *)
theory Threat_State
  imports Contracts
begin

text \<open>
  The threat levels of the bot (\<open>bot-baremetal/instinct/threat_levels.h\<close>, \<open>threat_state.c\<close>): six
  levels and the matrix of allowed transitions. Levels are natural numbers (\<open>uint8_t\<close> in C), a
  \<open>char*\<close> that may be \<open>NULL\<close> is an optional string; printing is left out.
\<close>

definition THREAT_DORMANT :: nat where [oo_defs]: "THREAT_DORMANT = 0"
definition THREAT_VIGILANCE :: nat where [oo_defs]: "THREAT_VIGILANCE = 1"
definition THREAT_ALERT :: nat where [oo_defs]: "THREAT_ALERT = 2"
definition THREAT_COMBAT :: nat where [oo_defs]: "THREAT_COMBAT = 3"
definition THREAT_SURVIVAL :: nat where [oo_defs]: "THREAT_SURVIVAL = 4"
definition THREAT_CONFINEMENT :: nat where [oo_defs]: "THREAT_CONFINEMENT = 5"

record threat_state =
  current_level :: nat
  previous_level :: nat
  level_entered_at :: u64
  transition_count :: u64
  reason :: string
  time_in_level :: "nat \<Rightarrow> u64"
  entries_per_level :: "nat \<Rightarrow> u32"

definition threat_state_init :: threat_state where
  "threat_state_init = \<lparr> current_level = THREAT_DORMANT, previous_level = THREAT_DORMANT,
     level_entered_at = 0, transition_count = 0, reason = ''boot'', time_in_level = (\<lambda>_. 0),
     entries_per_level = (\<lambda>_. 0) \<rparr>"

definition TRANSITION_MATRIX :: "nat list list" where
  "TRANSITION_MATRIX =
    [[0, 1, 0, 0, 0, 0],
     [1, 0, 1, 0, 0, 0],
     [0, 1, 0, 1, 0, 0],
     [1, 0, 1, 0, 1, 1],
     [0, 0, 0, 1, 0, 1],
     [0, 0, 0, 0, 1, 0]]"

definition threat_transition_is_valid :: "nat \<Rightarrow> nat \<Rightarrow> bool" where
  "threat_transition_is_valid from_l to_l =
     (if from_l > 5 \<or> to_l > 5 then False else TRANSITION_MATRIX ! from_l ! to_l \<noteq> 0)"

text \<open>\<open>strncpy\<close> into a buffer of 128 characters that is then terminated.\<close>

definition threat_transition :: "nat \<Rightarrow> string option \<Rightarrow> threat_state \<Rightarrow> bool \<times> threat_state" where
  "threat_transition new_level why s =
     (if new_level > 5 then (False, s)
      else if new_level = current_level s then (True, s)
      else if \<not> threat_transition_is_valid (current_level s) new_level then (False, s)
      else (True, s\<lparr> previous_level := current_level s, current_level := new_level,
              transition_count := transition_count s + 1,
              entries_per_level := (entries_per_level s)(new_level := entries_per_level s new_level + 1),
              reason := (case why of None \<Rightarrow> reason s | Some t \<Rightarrow> take 127 t) \<rparr>))"

section \<open>The matrix\<close>

text \<open>The rules stated in prose above the matrix.\<close>

definition threat_edge :: "nat \<Rightarrow> nat \<Rightarrow> bool" where
  "threat_edge a b \<longleftrightarrow> (a, b) \<in> {(0, 1), (1, 0), (1, 2), (2, 1), (2, 3), (3, 0), (3, 2), (3, 4), (3, 5),
     (4, 3), (4, 5), (5, 4)}"

lemma valid_edge_table:
  "list_all (\<lambda>a. list_all (\<lambda>b. threat_transition_is_valid a b = threat_edge a b) [0..<6]) [0..<6]"
  by code_simp

lemma threat_edge_bound: "threat_edge a b \<Longrightarrow> a < 6 \<and> b < 6"
  unfolding threat_edge_def by auto

lemma valid_edge: "threat_transition_is_valid a b = threat_edge a b"
proof (cases "a < 6 \<and> b < 6")
  case True
  then have "a \<in> set [0..<6]" "b \<in> set [0..<6]" by simp_all
  with valid_edge_table show ?thesis unfolding list_all_iff by blast
next
  case False
  then have "\<not> threat_transition_is_valid a b" by (simp add: threat_transition_is_valid_def, linarith)
  with False threat_edge_bound show ?thesis by blast
qed

definition try_level :: "nat \<times> string option \<Rightarrow> threat_state \<Rightarrow> threat_state" where
  "try_level = (\<lambda>(l, why) s. snd (threat_transition l why s))"

lemma transition_level:
  "current_level (snd (threat_transition l why s))
     = (if threat_edge (current_level s) l then l else current_level s)"
  using threat_edge_bound [of "current_level s" l] by (auto simp: threat_transition_def valid_edge)

interpretation threat_fsm: guarded_fsm current_level try_level threat_edge "\<lambda>s. current_level s \<le> 5"
proof (unfold_locales, goal_cases)
  case (1 s i)
  then show ?case by (auto simp: try_level_def transition_level split: prod.splits if_splits)
next
  case (2 s i)
  then show ?case
    using threat_edge_bound [of "current_level s" "fst i"]
    by (auto simp: try_level_def transition_level split: prod.splits if_splits)
qed

section \<open>Properties\<close>

text \<open>
  a transition succeeds exactly when the target is the current level or the rules allow the
  step; a successful step records the old level, counts the transition and the entry, and keeps at
  most 127 characters of the reason; a refused one, and one to the current level, change nothing.
\<close>

theorem threat_transition_spec:
  "threat_transition l why s =
    (if l = current_level s \<and> l \<le> 5 then (True, s)
     else if threat_edge (current_level s) l
     then (True, s\<lparr> previous_level := current_level s, current_level := l,
            transition_count := transition_count s + 1,
            entries_per_level := (entries_per_level s)(l := entries_per_level s l + 1),
            reason := (case why of None \<Rightarrow> reason s | Some t \<Rightarrow> take 127 t) \<rparr>)
     else (False, s))"
  using threat_edge_bound [of "current_level s" l] by (auto simp: threat_transition_def valid_edge)

text \<open>
  no run of transition attempts jumps over \<open>ALERT\<close>: from \<open>DORMANT\<close> or \<open>VIGILANCE\<close> to \<open>COMBAT\<close> or
  above the state passes through \<open>ALERT\<close>, and it never leaves the six levels.
\<close>

theorem threat_passes_alert:
  assumes "current_level s \<le> 1" "current_level (fold try_level ls s) \<ge> 3"
  shows "(\<exists>k\<le>length ls. current_level (fold try_level (take k ls) s) = THREAT_ALERT)
    \<and> current_level (fold try_level ls s) \<le> 5"
proof -
  have i: "current_level s \<le> 5" using assms(1) by simp
  have "\<exists>k\<le>length ls. current_level (fold try_level (take k ls) s) \<in> {2}"
    by (rule threat_fsm.exit_through [of "{0, 1}"]) (use assms i in \<open>auto simp: threat_edge_def\<close>)
  with threat_fsm.run_inv [OF i] show ?thesis by (simp add: THREAT_ALERT_def)
qed

lemma threat_passes_alert_witness:
  "\<exists>k\<le>length [(3 :: nat, None :: string option), (1, None), (2, None), (3, None)].
     current_level (fold try_level (take k [(3, None), (1, None), (2, None), (3, None)])
       threat_state_init) = THREAT_ALERT"
  by (rule threat_passes_alert [THEN conjunct1])
    (simp_all add: try_level_def transition_level threat_state_init_def oo_defs threat_edge_def)

end
