(* ===== verification/C_Strings.thy ===== *)
theory C_Strings
  imports OO_Prelude
begin

text \<open>
  The number formats of \<open>printf\<close> that the sources use to build strings: unsigned decimals and
  zero-padded lower-case hexadecimals, with the lemma that a printed number can be read back.
\<close>

definition digit_char :: "nat \<Rightarrow> char" where
  "digit_char d = char_of (if d < 10 then 48 + d else 87 + d)"

fun digits :: "nat \<Rightarrow> nat \<Rightarrow> string" where
  "digits b n = (if b < 2 \<or> n < b then [digit_char n] else digits b (n div b) @ [digit_char (n mod b)])"

declare digits.simps [simp del]

definition fmt_u :: "nat \<Rightarrow> string" where
  "fmt_u n = digits 10 n"

definition fmt_02x :: "nat \<Rightarrow> string" where
  "fmt_02x n = (let s = digits 16 n in replicate (2 - length s) (CHR ''0'') @ s)"

definition digit_value :: "char \<Rightarrow> nat" where
  "digit_value c = (let k = of_char c in if k < 58 then k - 48 else k - 87)"

definition number_value :: "nat \<Rightarrow> string \<Rightarrow> nat" where
  "number_value b s = foldl (\<lambda>n c. n * b + digit_value c) 0 s"

lemma digit_value_char: "d < 16 \<Longrightarrow> digit_value (digit_char d) = d"
  by (simp add: digit_value_def digit_char_def)

lemma number_value_digits: "2 \<le> b \<Longrightarrow> b \<le> 16 \<Longrightarrow> number_value b (digits b n) = n"
proof (induction b n rule: digits.induct)
  case (1 b n)
  show ?case
  proof (cases "n < b")
    case True
    with 1 show ?thesis by (subst digits.simps) (simp add: number_value_def digit_value_char)
  next
    case False
    with 1 have IH: "number_value b (digits b (n div b)) = n div b" by simp
    have "n mod b < 16" using 1 mod_less_divisor [of b n] by linarith
    with IH False 1 show ?thesis
      by (subst digits.simps) (simp add: number_value_def digit_value_char)
  qed
qed

end
