(* ===== verification/Instinct_Layer.thy ===== *)
theory Instinct_Layer
  imports Threat_State C_Strings
begin

text \<open>
  The instinct layer of the bot (\<open>bot-baremetal/instinct/instinct_layer.h\<close> and \<open>.c\<close>,
  \<open>bot_baremetal_entry.c\<close>): the table of rules, the reaction to a trigger, the circular history of
  256 events and the transitions of the threat state it asks for. A callback is a flag telling
  whether it is installed; the calls made are part of the result. Confidences and levels are
  natural numbers, they are only compared and printed.
\<close>

section \<open>Triggers, reactions, rules\<close>

datatype trigger_type =
    TRIGGER_MEM_WRITE_EXEC | TRIGGER_MEM_SPRAY | TRIGGER_MEM_SHELLCODE_SIG | TRIGGER_MEM_ROP_CHAIN
  | TRIGGER_PROC_HOLLOW | TRIGGER_PROC_INJECT | TRIGGER_PROC_PRIV_ESC | TRIGGER_PROC_ABNORMAL_CHILD
  | TRIGGER_PROC_DEBUGGER
  | TRIGGER_NET_C2_BEACON | TRIGGER_NET_EXFIL_VOLUME | TRIGGER_NET_UNUSUAL_PORT | TRIGGER_NET_DNS_TUNNEL
  | TRIGGER_FS_MASS_ENCRYPT | TRIGGER_FS_CRITICAL_MODIF | TRIGGER_FS_BOOT_MODIF | TRIGGER_FS_RAPID_DELETE
  | TRIGGER_KERN_SYSCALL_HOOK | TRIGGER_KERN_ROOTKIT_SIG | TRIGGER_KERN_DKOM
  | TRIGGER_BOT_SELF_SCAN | TRIGGER_BOT_KILL_ATTEMPT | TRIGGER_BOT_CORRUPT_DETECT

primrec trigger_code :: "trigger_type \<Rightarrow> nat" where
  "trigger_code TRIGGER_MEM_WRITE_EXEC = 0x01"
| "trigger_code TRIGGER_MEM_SPRAY = 0x02"
| "trigger_code TRIGGER_MEM_SHELLCODE_SIG = 0x03"
| "trigger_code TRIGGER_MEM_ROP_CHAIN = 0x04"
| "trigger_code TRIGGER_PROC_HOLLOW = 0x10"
| "trigger_code TRIGGER_PROC_INJECT = 0x11"
| "trigger_code TRIGGER_PROC_PRIV_ESC = 0x12"
| "trigger_code TRIGGER_PROC_ABNORMAL_CHILD = 0x13"
| "trigger_code TRIGGER_PROC_DEBUGGER = 0x14"
| "trigger_code TRIGGER_NET_C2_BEACON = 0x20"
| "trigger_code TRIGGER_NET_EXFIL_VOLUME = 0x21"
| "trigger_code TRIGGER_NET_UNUSUAL_PORT = 0x22"
| "trigger_code TRIGGER_NET_DNS_TUNNEL = 0x23"
| "trigger_code TRIGGER_FS_MASS_ENCRYPT = 0x30"
| "trigger_code TRIGGER_FS_CRITICAL_MODIF = 0x31"
| "trigger_code TRIGGER_FS_BOOT_MODIF = 0x32"
| "trigger_code TRIGGER_FS_RAPID_DELETE = 0x33"
| "trigger_code TRIGGER_KERN_SYSCALL_HOOK = 0x40"
| "trigger_code TRIGGER_KERN_ROOTKIT_SIG = 0x41"
| "trigger_code TRIGGER_KERN_DKOM = 0x42"
| "trigger_code TRIGGER_BOT_SELF_SCAN = 0x50"
| "trigger_code TRIGGER_BOT_KILL_ATTEMPT = 0x51"
| "trigger_code TRIGGER_BOT_CORRUPT_DETECT = 0x52"

datatype reaction_type =
    REACTION_NONE
  | REACTION_QUARANTINE_PROC | REACTION_QUARANTINE_FILE | REACTION_CUT_NETWORK | REACTION_CUT_NETWORK_ALL
  | REACTION_DEPLOY_HONEYTRAP | REACTION_FAKE_RESOURCES
  | REACTION_INTENSIFY_WATCH | REACTION_CAPTURE_MEMORY | REACTION_LOG_FULL
  | REACTION_REGEN_AGENT | REACTION_CAMOUFLAGE_SELF | REACTION_BACKUP_DNA
  | REACTION_ESCALATE_THREAT | REACTION_ALERT_SWARM_MIND | REACTION_ALERT_OO_BRIDGE

record instinct_rule =
  r_trigger :: trigger_type
  r_min_threat_level :: nat
  r_min_confidence :: nat
  r_reaction :: reaction_type
  r_new_threat_level :: nat

definition rule :: "trigger_type \<Rightarrow> nat \<Rightarrow> nat \<Rightarrow> reaction_type \<Rightarrow> nat \<Rightarrow> instinct_rule" where
  "rule t l c r n = \<lparr> r_trigger = t, r_min_threat_level = l, r_min_confidence = c, r_reaction = r,
     r_new_threat_level = n \<rparr>"

definition INSTINCT_RULES :: "instinct_rule list" where
  "INSTINCT_RULES = [
     rule TRIGGER_MEM_WRITE_EXEC 0 60 REACTION_INTENSIFY_WATCH THREAT_VIGILANCE,
     rule TRIGGER_MEM_WRITE_EXEC 1 75 REACTION_CAPTURE_MEMORY THREAT_ALERT,
     rule TRIGGER_MEM_SHELLCODE_SIG 0 70 REACTION_QUARANTINE_PROC THREAT_ALERT,
     rule TRIGGER_MEM_SHELLCODE_SIG 2 85 REACTION_LOG_FULL THREAT_COMBAT,
     rule TRIGGER_MEM_SPRAY 0 65 REACTION_INTENSIFY_WATCH THREAT_VIGILANCE,
     rule TRIGGER_MEM_ROP_CHAIN 1 70 REACTION_CAPTURE_MEMORY THREAT_ALERT,
     rule TRIGGER_PROC_HOLLOW 0 75 REACTION_QUARANTINE_PROC THREAT_ALERT,
     rule TRIGGER_PROC_HOLLOW 2 85 REACTION_LOG_FULL THREAT_COMBAT,
     rule TRIGGER_PROC_INJECT 0 70 REACTION_QUARANTINE_PROC THREAT_ALERT,
     rule TRIGGER_PROC_PRIV_ESC 0 65 REACTION_INTENSIFY_WATCH THREAT_ALERT,
     rule TRIGGER_PROC_PRIV_ESC 2 80 REACTION_QUARANTINE_PROC THREAT_COMBAT,
     rule TRIGGER_PROC_ABNORMAL_CHILD 0 60 REACTION_INTENSIFY_WATCH THREAT_VIGILANCE,
     rule TRIGGER_PROC_DEBUGGER 0 75 REACTION_CAMOUFLAGE_SELF THREAT_ALERT,
     rule TRIGGER_PROC_DEBUGGER 2 85 REACTION_ALERT_SWARM_MIND THREAT_COMBAT,
     rule TRIGGER_NET_C2_BEACON 0 70 REACTION_DEPLOY_HONEYTRAP THREAT_ALERT,
     rule TRIGGER_NET_C2_BEACON 2 85 REACTION_CUT_NETWORK THREAT_COMBAT,
     rule TRIGGER_NET_EXFIL_VOLUME 0 65 REACTION_LOG_FULL THREAT_ALERT,
     rule TRIGGER_NET_EXFIL_VOLUME 2 80 REACTION_CUT_NETWORK THREAT_COMBAT,
     rule TRIGGER_NET_UNUSUAL_PORT 0 55 REACTION_INTENSIFY_WATCH THREAT_VIGILANCE,
     rule TRIGGER_NET_DNS_TUNNEL 0 70 REACTION_DEPLOY_HONEYTRAP THREAT_ALERT,
     rule TRIGGER_FS_MASS_ENCRYPT 0 80 REACTION_QUARANTINE_PROC THREAT_COMBAT,
     rule TRIGGER_FS_MASS_ENCRYPT 3 90 REACTION_CUT_NETWORK_ALL THREAT_COMBAT,
     rule TRIGGER_FS_CRITICAL_MODIF 0 75 REACTION_ALERT_SWARM_MIND THREAT_ALERT,
     rule TRIGGER_FS_BOOT_MODIF 0 80 REACTION_ALERT_SWARM_MIND THREAT_COMBAT,
     rule TRIGGER_FS_RAPID_DELETE 0 70 REACTION_QUARANTINE_PROC THREAT_ALERT,
     rule TRIGGER_KERN_SYSCALL_HOOK 0 80 REACTION_ALERT_SWARM_MIND THREAT_COMBAT,
     rule TRIGGER_KERN_ROOTKIT_SIG 0 75 REACTION_ALERT_SWARM_MIND THREAT_COMBAT,
     rule TRIGGER_KERN_DKOM 0 85 REACTION_CUT_NETWORK_ALL THREAT_COMBAT,
     rule TRIGGER_BOT_SELF_SCAN 0 60 REACTION_CAMOUFLAGE_SELF THREAT_VIGILANCE,
     rule TRIGGER_BOT_KILL_ATTEMPT 0 70 REACTION_BACKUP_DNA THREAT_SURVIVAL,
     rule TRIGGER_BOT_KILL_ATTEMPT 4 85 REACTION_REGEN_AGENT THREAT_SURVIVAL,
     rule TRIGGER_BOT_CORRUPT_DETECT 0 80 REACTION_REGEN_AGENT THREAT_SURVIVAL]"

text \<open>The three \<open>continue\<close> guards of the loops.\<close>

definition rule_matches :: "trigger_type \<Rightarrow> nat \<Rightarrow> nat \<Rightarrow> instinct_rule \<Rightarrow> bool" where
  "rule_matches t level conf r \<longleftrightarrow> r_trigger r = t \<and> \<not> level < r_min_threat_level r
     \<and> \<not> conf < r_min_confidence r"

definition reaction_step ::
  "trigger_type \<Rightarrow> nat \<Rightarrow> nat \<Rightarrow> instinct_rule \<Rightarrow> reaction_type \<times> nat \<Rightarrow> reaction_type \<times> nat" where
  "reaction_step t level conf r = (\<lambda>(best, best_level).
     if rule_matches t level conf r \<and> r_min_threat_level r \<le> best_level
     then (r_reaction r, r_min_threat_level r) else (best, best_level))"

definition instinct_get_reaction :: "trigger_type \<Rightarrow> nat \<Rightarrow> nat \<Rightarrow> reaction_type" where
  "instinct_get_reaction t level conf =
     fst (fold (reaction_step t level conf) INSTINCT_RULES (REACTION_INTENSIFY_WATCH, 255))"

definition level_step :: "trigger_type \<Rightarrow> nat \<Rightarrow> nat \<Rightarrow> instinct_rule \<Rightarrow> nat \<Rightarrow> nat" where
  "level_step t level conf r new_level =
     (if rule_matches t level conf r \<and> r_new_threat_level r > new_level then r_new_threat_level r
      else new_level)"

definition recommended_level :: "trigger_type \<Rightarrow> nat \<Rightarrow> nat \<Rightarrow> nat" where
  "recommended_level t level conf = fold (level_step t level conf) INSTINCT_RULES level"

section \<open>The layer\<close>

record instinct_event =
  ev_trigger :: trigger_type
  ev_timestamp :: u64
  ev_target_addr :: u64
  ev_target_pid :: u32
  ev_confidence :: nat
  ev_reaction_taken :: reaction_type
  ev_level_before :: nat
  ev_level_after :: nat

definition INSTINCT_HISTORY_SIZE :: nat where [oo_defs]: "INSTINCT_HISTORY_SIZE = 256"

record instinct_layer =
  i_threat :: threat_state
  history :: "nat \<Rightarrow> instinct_event"
  history_head :: u32
  history_count :: nat
  on_quarantine :: bool
  on_network_cut :: bool
  on_honeytrap_deploy :: bool
  on_regen_request :: bool
  on_swarm_alert :: bool
  on_oo_bridge_alert :: bool
  total_triggers :: u64
  total_reactions :: u64
  false_positive_count :: u64

text \<open>The event of all zero bytes has no trigger code; \<open>zero_ev\<close> stands for it.\<close>

definition instinct_init :: "instinct_event \<Rightarrow> instinct_layer" where
  "instinct_init zero_ev = \<lparr> i_threat = threat_state_init, history = (\<lambda>_. zero_ev), history_head = 0,
     history_count = 0, on_quarantine = False, on_network_cut = False, on_honeytrap_deploy = False,
     on_regen_request = False, on_swarm_alert = False, on_oo_bridge_alert = False,
     total_triggers = 0, total_reactions = 0, false_positive_count = 0 \<rparr>"

datatype instinct_call =
    Quarantine u32 u64 | Network_cut bool | Honeytrap_deploy u64 | Regen_request u8
  | Swarm_alert nat trigger_type | Bridge_alert nat string

definition record_event :: "instinct_event \<Rightarrow> instinct_layer \<Rightarrow> instinct_layer" where
  "record_event ev s = s\<lparr>
     history := (history s)(unat (history_head s) mod INSTINCT_HISTORY_SIZE := ev),
     history_head := history_head s + 1,
     history_count := (if history_count s < INSTINCT_HISTORY_SIZE then history_count s + 1
                       else history_count s) \<rparr>"

definition trigger_reason :: "trigger_type \<Rightarrow> u32 \<Rightarrow> nat \<Rightarrow> string" where
  "trigger_reason t pid conf = take 63 (''trigger=0x'' @ fmt_02x (trigger_code t) @ '' pid=''
     @ fmt_u (unat pid) @ '' conf='' @ fmt_u conf)"

text \<open>The switch over the reaction.\<close>

definition reaction_calls ::
  "instinct_layer \<Rightarrow> reaction_type \<Rightarrow> trigger_type \<Rightarrow> u32 \<Rightarrow> u64 \<Rightarrow> nat \<Rightarrow> instinct_call list" where
  "reaction_calls s reaction t pid addr new_level =
     (case reaction of
        REACTION_QUARANTINE_PROC \<Rightarrow> if on_quarantine s then [Quarantine pid addr] else []
      | REACTION_CUT_NETWORK \<Rightarrow> if on_network_cut s then [Network_cut False] else []
      | REACTION_CUT_NETWORK_ALL \<Rightarrow> if on_network_cut s then [Network_cut True] else []
      | REACTION_DEPLOY_HONEYTRAP \<Rightarrow> if on_honeytrap_deploy s then [Honeytrap_deploy addr] else []
      | REACTION_REGEN_AGENT \<Rightarrow> if on_regen_request s then [Regen_request (ucast addr)] else []
      | REACTION_ALERT_SWARM_MIND \<Rightarrow> if on_swarm_alert s then [Swarm_alert new_level t] else []
      | REACTION_ALERT_OO_BRIDGE \<Rightarrow>
          if on_oo_bridge_alert s then [Bridge_alert new_level ''instinct trigger''] else []
      | REACTION_BACKUP_DNA \<Rightarrow> if on_swarm_alert s then [Swarm_alert new_level t] else []
      | _ \<Rightarrow> if new_level \<ge> THREAT_COMBAT \<and> on_swarm_alert s then [Swarm_alert new_level t] else [])"

definition trigger_event :: "trigger_type \<Rightarrow> u32 \<Rightarrow> u64 \<Rightarrow> nat \<Rightarrow> instinct_layer \<Rightarrow> instinct_event" where
  "trigger_event t pid addr conf s =
     \<lparr> ev_trigger = t, ev_timestamp = total_triggers s, ev_target_addr = addr, ev_target_pid = pid,
       ev_confidence = conf,
       ev_reaction_taken = instinct_get_reaction t (current_level (i_threat s)) conf,
       ev_level_before = current_level (i_threat s),
       ev_level_after = recommended_level t (current_level (i_threat s)) conf \<rparr>"

definition instinct_trigger ::
  "trigger_type \<Rightarrow> u32 \<Rightarrow> u64 \<Rightarrow> nat \<Rightarrow> instinct_layer \<Rightarrow> instinct_call list \<times> instinct_layer" where
  "instinct_trigger t pid addr conf s0 =
     (let cur = current_level (i_threat s0);
          reaction = instinct_get_reaction t cur conf;
          new_level = recommended_level t cur conf;
          s = record_event (trigger_event t pid addr conf s0) s0;
          s = s\<lparr> total_triggers := total_triggers s + 1 \<rparr>;
          s = (if new_level \<noteq> cur
               then s\<lparr> i_threat := snd (threat_transition new_level (Some (trigger_reason t pid conf))
                                          (i_threat s)) \<rparr>
               else s);
          s = s\<lparr> total_reactions := total_reactions s + 1 \<rparr>
      in (reaction_calls s reaction t pid addr new_level, s))"

definition instinct_last_event :: "instinct_layer \<Rightarrow> instinct_event option" where
  "instinct_last_event s =
     (if history_count s = 0 then None
      else Some (history s (unat (history_head s - 1 + 256) mod INSTINCT_HISTORY_SIZE)))"

text \<open>The events \<open>instinct_dump_history\<close> prints, the most recent first.\<close>

definition instinct_dump_history :: "instinct_layer \<Rightarrow> nat \<Rightarrow> instinct_event list" where
  "instinct_dump_history s n =
     (let n = (if n > history_count s then history_count s else n)
      in map (\<lambda>i. history s (unat (history_head s - 1 - of_nat i + 256) mod INSTINCT_HISTORY_SIZE)) [0..<n])"

definition instinct_current_level :: "instinct_layer \<Rightarrow> nat" where
  "instinct_current_level s = current_level (i_threat s)"

definition instinct_reset_to_dormant :: "string option \<Rightarrow> instinct_layer \<Rightarrow> int \<times> instinct_layer" where
  "instinct_reset_to_dormant why s =
     (if current_level (i_threat s) = THREAT_DORMANT then (0, s)
      else let (ok, ts) = threat_transition THREAT_DORMANT why (i_threat s)
           in (if ok then 1 else 0, s\<lparr> i_threat := ts \<rparr>))"

text \<open>The global layer of \<open>bot_baremetal_entry.c\<close>.\<close>

record bot_entry =
  bot_instinct :: instinct_layer
  bot_initialized :: bool

definition bot_baremetal_init :: "instinct_event \<Rightarrow> bot_entry \<Rightarrow> bot_entry" where
  "bot_baremetal_init zero_ev b = b\<lparr> bot_instinct := instinct_init zero_ev, bot_initialized := True \<rparr>"

definition bot_get_threat_level :: "bot_entry \<Rightarrow> nat" where
  "bot_get_threat_level b = (if \<not> bot_initialized b then 0 else instinct_current_level (bot_instinct b))"

end
