(* ===== verification/Instinct_Runs.thy ===== *)
theory Instinct_Runs
  imports Instinct_Layer
begin

text \<open>
  Runs of the instinct layer: which levels its triggers and resets can reach, what the history
  holds after any number of triggers, and which rules of the table can ever be chosen.
\<close>

section \<open>Levels\<close>

lemma level_fold_ge: "l \<le> fold (level_step t cur conf) rs l"
proof (induction rs arbitrary: l)
  case (Cons r rs)
  have "l \<le> level_step t cur conf r l" by (simp add: level_step_def)
  with Cons show ?case by (simp add: order_trans)
qed simp

lemma level_fold_le:
  "\<forall>r\<in>set rs. r_new_threat_level r \<le> 4 \<Longrightarrow> fold (level_step t cur conf) rs l \<le> max l 4"
proof (induction rs arbitrary: l)
  case (Cons r rs)
  then have "fold (level_step t cur conf) rs (level_step t cur conf r l)
      \<le> max (level_step t cur conf r l) 4" by simp
  also have "\<dots> \<le> max l 4" using Cons.prems by (auto simp: level_step_def)
  finally show ?case by simp
qed simp

lemma rules_at_most_survival: "\<forall>r\<in>set INSTINCT_RULES. r_new_threat_level r \<le> 4"
  by (simp add: INSTINCT_RULES_def rule_def oo_defs)

lemma recommended_bounds: "l \<le> recommended_level t l conf" "recommended_level t l conf \<le> max l 4"
  unfolding recommended_level_def
  by (rule level_fold_ge, rule level_fold_le [OF rules_at_most_survival])

lemma record_event_threat [simp]: "i_threat (record_event ev s) = i_threat s"
  by (simp add: record_event_def)

lemma trigger_level:
  "instinct_current_level (snd (instinct_trigger t pid addr conf s)) =
     (let l = instinct_current_level s; r = recommended_level t l conf
      in if threat_edge l r then r else l)"
  by (auto simp: instinct_current_level_def instinct_trigger_def transition_level Let_def)

lemma reset_level:
  "instinct_current_level (snd (instinct_reset_to_dormant why s)) =
     (if threat_edge (instinct_current_level s) 0 then 0 else instinct_current_level s)"
  using transition_level [of THREAT_DORMANT why "i_threat s"] threat_edge_def [of 0 0]
  by (auto simp: instinct_reset_to_dormant_def instinct_current_level_def Let_def THREAT_DORMANT_def
      case_prod_beta)

datatype instinct_op = Trigger trigger_type u32 u64 nat | Reset "string option"

primrec instinct_step :: "instinct_op \<Rightarrow> instinct_layer \<Rightarrow> instinct_layer" where
  "instinct_step (Trigger t pid addr conf) s = snd (instinct_trigger t pid addr conf s)"
| "instinct_step (Reset why) s = snd (instinct_reset_to_dormant why s)"

text \<open>The edges of the matrix the layer can take: one step up, at most to \<open>SURVIVAL\<close>, or to \<open>DORMANT\<close>.\<close>

definition instinct_edge :: "nat \<Rightarrow> nat \<Rightarrow> bool" where
  "instinct_edge a b \<longleftrightarrow> (a, b) \<in> {(0, 1), (1, 2), (2, 3), (3, 4), (1, 0), (3, 0)}"

lemma up_edges: "threat_edge a b \<Longrightarrow> a \<le> b \<Longrightarrow> b \<le> max a 4 \<Longrightarrow> instinct_edge a b"
  by (auto simp: threat_edge_def instinct_edge_def)

lemma down_edges: "threat_edge a 0 \<Longrightarrow> instinct_edge a 0"
  by (auto simp: threat_edge_def instinct_edge_def)

interpretation instinct_fsm: guarded_fsm instinct_current_level instinct_step instinct_edge "\<lambda>_. True"
proof (unfold_locales, goal_cases)
  case (1 s i)
  then show ?case
    using recommended_bounds
    by (cases i) (auto simp: trigger_level reset_level Let_def intro: up_edges down_edges split: if_splits)
qed simp

section \<open>History\<close>

interpretation instinct_log: ring_log 256 record_event "\<lambda>s i. history s i"
  "\<lambda>s. unat (history_head s)" "\<lambda>_. True"
proof (unfold_locales, goal_cases)
  case (4 s e)
  have "unat (history_head s + 1) mod 256 = (unat (history_head s) + 1) mod 4294967296 mod 256"
    by (simp add: unat_word_ariths)
  also have "\<dots> = (unat (history_head s) + 1) mod 256" by (simp add: mod_mod_cancel)
  finally show ?case by (simp add: record_event_def)
qed (auto simp: record_event_def INSTINCT_HISTORY_SIZE_def)

definition log_part :: "instinct_layer \<Rightarrow> (nat \<Rightarrow> instinct_event) \<times> u32 \<times> nat" where
  "log_part s = (history s, history_head s, history_count s)"

lemma log_part_record: "log_part a = log_part b \<Longrightarrow> log_part (record_event e a) = log_part (record_event e b)"
  by (simp add: log_part_def record_event_def)

lemma log_part_fold:
  "log_part a = log_part b \<Longrightarrow> log_part (fold record_event es a) = log_part (fold record_event es b)"
proof (induction es arbitrary: a b)
  case (Cons e es)
  from Cons.IH [OF log_part_record [OF Cons.prems]] show ?case by simp
qed simp

lemma log_part_step:
  "log_part (instinct_step op s) = (case op of
     Trigger t pid addr conf \<Rightarrow> log_part (record_event (trigger_event t pid addr conf s) s)
   | Reset why \<Rightarrow> log_part s)"
  by (cases op) (simp_all add: log_part_def instinct_trigger_def instinct_reset_to_dormant_def Let_def
      case_prod_beta)

text \<open>The events a sequence of operations produces.\<close>

fun instinct_trace :: "instinct_op list \<Rightarrow> instinct_layer \<Rightarrow> instinct_event list" where
  "instinct_trace [] s = []"
| "instinct_trace (Trigger t pid addr conf # ops) s =
     trigger_event t pid addr conf s # instinct_trace ops (instinct_step (Trigger t pid addr conf) s)"
| "instinct_trace (Reset why # ops) s = instinct_trace ops (instinct_step (Reset why) s)"

lemma log_of_run:
  "log_part (fold instinct_step ops s) = log_part (fold record_event (instinct_trace ops s) s)"
proof (induction ops s rule: instinct_trace.induct)
  case (2 t pid addr conf ops s)
  let ?s = "instinct_step (Trigger t pid addr conf) s"
  have "log_part (fold record_event (instinct_trace ops ?s) ?s)
      = log_part (fold record_event (instinct_trace ops ?s) (record_event (trigger_event t pid addr conf s) s))"
    by (rule log_part_fold) (simp add: log_part_step del: instinct_step.simps)
  with 2 show ?case by (simp del: instinct_step.simps)
next
  case (3 why ops s)
  let ?s = "instinct_step (Reset why) s"
  have "log_part (fold record_event (instinct_trace ops ?s) ?s)
      = log_part (fold record_event (instinct_trace ops ?s) s)"
    by (rule log_part_fold) (simp add: log_part_step del: instinct_step.simps)
  with 3 show ?case by (simp del: instinct_step.simps)
qed simp

lemma log_counters:
  "history_head (fold record_event es s) = history_head s + of_nat (length es)
   \<and> (history_count s \<le> 256 \<longrightarrow> history_count (fold record_event es s) = min 256 (history_count s + length es))"
  by (induction es arbitrary: s) (auto simp: record_event_def INSTINCT_HISTORY_SIZE_def)

lemma slot_index:
  assumes "i < n" "i < 256"
  shows "unat ((of_nat n :: u32) - 1 - of_nat i + 256) mod 256 = (n - 1 - i) mod 256"
proof -
  have e: "(of_nat n :: u32) - 1 - of_nat i + 256 = of_nat (n - 1 - i + 256)"
    using assms by (simp add: of_nat_diff)
  have "unat (of_nat (n - 1 - i + 256) :: u32) mod 256 = (n - 1 - i + 256) mod 4294967296 mod 256"
    by (simp add: unat_of_nat take_bit_eq_mod del: of_nat_add)
  also have "\<dots> = (n - 1 - i + 256) mod 256" by (simp add: mod_mod_cancel)
  finally show ?thesis unfolding e by simp
qed

lemma dump_of_log:
  assumes "history_head s = 0" "history_count s = 0"
  shows "instinct_dump_history (fold record_event es s) n = take (min n 256) (rev es)"
proof -
  let ?s = "fold record_event es s"
  let ?n = "min n (min 256 (length es))"
  have c: "history_head ?s = of_nat (length es)" "history_count ?s = min 256 (length es)"
    using log_counters [of es s] assms by simp_all
  have "history ?s (unat (history_head ?s - 1 - of_nat i + 256) mod 256) = rev es ! i" if "i < ?n" for i
  proof -
    have "history ?s ((0 + (length es - 1 - i)) mod 256) = es ! (length es - 1 - i)"
      using instinct_log.log_recent [where s = s and j = i and es = es] that assms(1) by simp
    with that show ?thesis using slot_index [of i "length es"] by (simp add: c rev_nth)
  qed
  moreover have "(if n > history_count ?s then history_count ?s else n) = ?n"
    using c by (auto simp: min_def)
  ultimately show ?thesis
    by (intro nth_equalityI) (auto simp: instinct_dump_history_def Let_def INSTINCT_HISTORY_SIZE_def c)
qed

lemma dump_log_part:
  "log_part a = log_part b \<Longrightarrow> instinct_dump_history a n = instinct_dump_history b n"
  by (simp add: log_part_def instinct_dump_history_def)

section \<open>Properties\<close>

text \<open>
  C30: the history holds the most recent events. After any sequence of triggers and resets since
  initialisation, a dump of \<open>n\<close> events lists the last \<open>n\<close> triggers, 256 at most, most recent first,
  with the reaction and the levels of their moment.
\<close>

theorem instinct_history_recent:
  "instinct_dump_history (fold instinct_step ops (instinct_init z)) n
     = take (min n 256) (rev (instinct_trace ops (instinct_init z)))"
  using dump_log_part [OF log_of_run [of ops "instinct_init z"], of n]
    dump_of_log [of "instinct_init z" "instinct_trace ops (instinct_init z)" n]
  by (simp add: instinct_init_def)

text \<open>
  C31: the layer has no way down from \<open>SURVIVAL\<close>. Whatever triggers and resets follow, an organism in
  \<open>SURVIVAL\<close> stays there; and \<open>CONFINEMENT\<close> is never reached from below.
\<close>

theorem instinct_survival_absorbing:
  assumes "instinct_current_level s \<le> THREAT_SURVIVAL"
  shows "instinct_current_level (fold instinct_step ops s) \<le> THREAT_SURVIVAL
    \<and> (instinct_current_level s = THREAT_SURVIVAL
        \<longrightarrow> instinct_current_level (fold instinct_step ops s) = THREAT_SURVIVAL)"
proof -
  have "instinct_current_level (fold instinct_step ops s) \<le> 4"
  proof (rule ccontr)
    assume "\<not> instinct_current_level (fold instinct_step ops s) \<le> 4"
    then have "\<exists>k\<le>length ops. instinct_current_level (fold instinct_step (take k ops) s) \<in> {}"
      by (intro instinct_fsm.exit_through [of "{..4}"])
        (use assms in \<open>auto simp: instinct_edge_def THREAT_SURVIVAL_def\<close>)
    then show False by simp
  qed
  moreover have "instinct_current_level (fold instinct_step ops s) = 4"
    if "instinct_current_level s = 4"
    by (rule instinct_fsm.sink_stays [OF _ _ that]) (simp_all add: instinct_edge_def)
  ultimately show ?thesis by (simp add: THREAT_SURVIVAL_def)
qed

definition sample_event :: instinct_event where
  "sample_event = \<lparr> ev_trigger = TRIGGER_BOT_SELF_SCAN, ev_timestamp = 0, ev_target_addr = 0,
     ev_target_pid = 0, ev_confidence = 0, ev_reaction_taken = REACTION_NONE, ev_level_before = 0,
     ev_level_after = 0 \<rparr>"

definition besieged :: instinct_layer where
  "besieged = (instinct_init sample_event)\<lparr> i_threat := threat_state_init\<lparr> current_level := 4 \<rparr> \<rparr>"

lemma instinct_survival_absorbing_witness:
  "instinct_current_level (fold instinct_step [Reset None, Trigger TRIGGER_BOT_SELF_SCAN 1 2 90] besieged)
     = THREAT_SURVIVAL"
proof -
  have "instinct_current_level besieged = THREAT_SURVIVAL"
    by (simp add: besieged_def instinct_current_level_def THREAT_SURVIVAL_def)
  then show ?thesis
    using instinct_survival_absorbing [of besieged "[Reset None, Trigger TRIGGER_BOT_SELF_SCAN 1 2 90]"]
    by (metis order_refl)
qed

text \<open>
  a dormant organism does not wake for a severe trigger. A trigger whose rules recommend \<open>ALERT\<close>
  or more is refused by the matrix from \<open>DORMANT\<close>: the level stays \<open>DORMANT\<close>, while the event in the
  history claims the recommended level as the level after.
\<close>

theorem dormant_ignores_severe:
  assumes "instinct_current_level s = THREAT_DORMANT" "recommended_level t 0 conf \<ge> THREAT_ALERT"
    and "instinct_trigger t pid addr conf s = (calls, s')"
  shows "instinct_current_level s' = THREAT_DORMANT
    \<and> ev_level_after (history s' (unat (history_head s) mod 256)) = recommended_level t 0 conf"
proof -
  let ?r = "recommended_level t 0 conf"
  have e: "\<not> threat_edge 0 ?r" using assms(2) by (auto simp: threat_edge_def THREAT_ALERT_def)
  have l: "instinct_current_level s = 0" using assms(1) by (simp add: THREAT_DORMANT_def)
  have "instinct_current_level s' = 0"
    using trigger_level [of t pid addr conf s] assms(3) e l by (simp add: Let_def)
  moreover have "history s' = history (record_event (trigger_event t pid addr conf s) s)"
    using log_part_step [of "Trigger t pid addr conf" s] assms(3) by (simp add: log_part_def)
  ultimately show ?thesis
    using l by (simp add: record_event_def trigger_event_def INSTINCT_HISTORY_SIZE_def
        instinct_current_level_def THREAT_DORMANT_def)
qed

lemma dormant_ignores_severe_witness:
  "instinct_current_level (snd (instinct_trigger TRIGGER_KERN_ROOTKIT_SIG 1 2 100
     (instinct_init sample_event))) = THREAT_DORMANT"
proof -
  obtain calls s' where e: "instinct_trigger TRIGGER_KERN_ROOTKIT_SIG 1 2 100 (instinct_init sample_event)
      = (calls, s')" by (meson surj_pair)
  have "recommended_level TRIGGER_KERN_ROOTKIT_SIG 0 100 \<ge> THREAT_ALERT" by code_simp
  moreover have "instinct_current_level (instinct_init sample_event) = THREAT_DORMANT"
    by (simp add: instinct_init_def instinct_current_level_def threat_state_init_def)
  ultimately show ?thesis using dormant_ignores_severe [OF _ _ e] by (simp add: e)
qed

text \<open>
  the reaction does not depend on the threat level. Because the lowest matching level wins, the
  rules for raised levels are never chosen: every trigger but \<open>ROP_CHAIN\<close> gets the reaction it gets
  in \<open>DORMANT\<close>, at every level.
\<close>

theorem reaction_ignores_level:
  assumes "t \<noteq> TRIGGER_MEM_ROP_CHAIN"
  shows "instinct_get_reaction t level conf = instinct_get_reaction t THREAT_DORMANT conf"
  using assms
  by (cases t) (simp_all add: instinct_get_reaction_def INSTINCT_RULES_def reaction_step_def
      rule_matches_def rule_def THREAT_DORMANT_def)

lemma reaction_ignores_level_witness:
  "instinct_get_reaction TRIGGER_BOT_KILL_ATTEMPT 4 90 = REACTION_BACKUP_DNA"
proof -
  have "instinct_get_reaction TRIGGER_BOT_KILL_ATTEMPT THREAT_DORMANT 90 = REACTION_BACKUP_DNA"
    by code_simp
  with reaction_ignores_level [of TRIGGER_BOT_KILL_ATTEMPT 4 90] show ?thesis by simp
qed

end
