(* ===== verification/Sha256.thy ===== *)
theory Sha256
  imports C_Bytes
begin

text \<open>
  The SHA-256 routines inside \<open>bot-baremetal/core/bot_dna.c\<close>: the streaming context with its
  64-byte buffer, the block transform, and the finalisation that appends the padding. The end of
  the theory compares them with the hash as the standard defines it, block by block over the
  padded message.

  \<open>sha256_final\<close> builds the padding in a local array of 64 bytes. When 56 or more bytes are waiting
  in the buffer the padding is 65 to 72 bytes long and the code writes past the array; the model
  returns \<open>None\<close> there.
\<close>

section \<open>Code\<close>

record sha256_ctx =
  sha_state :: "u32 list"
  sha_count :: u64
  sha_buf :: "u8 list"

text \<open>The constants are written by halves.\<close>

definition word32 :: "u32 \<Rightarrow> u32 \<Rightarrow> u32" where
  "word32 hi lo = push_bit 16 hi OR lo"

definition K256 :: "u32 list" where
  "K256 = [
     word32 0x428a 0x2f98, word32 0x7137 0x4491, word32 0xb5c0 0xfbcf, word32 0xe9b5 0xdba5,
     word32 0x3956 0xc25b, word32 0x59f1 0x11f1, word32 0x923f 0x82a4, word32 0xab1c 0x5ed5,
     word32 0xd807 0xaa98, word32 0x1283 0x5b01, word32 0x2431 0x85be, word32 0x550c 0x7dc3,
     word32 0x72be 0x5d74, word32 0x80de 0xb1fe, word32 0x9bdc 0x06a7, word32 0xc19b 0xf174,
     word32 0xe49b 0x69c1, word32 0xefbe 0x4786, word32 0x0fc1 0x9dc6, word32 0x240c 0xa1cc,
     word32 0x2de9 0x2c6f, word32 0x4a74 0x84aa, word32 0x5cb0 0xa9dc, word32 0x76f9 0x88da,
     word32 0x983e 0x5152, word32 0xa831 0xc66d, word32 0xb003 0x27c8, word32 0xbf59 0x7fc7,
     word32 0xc6e0 0x0bf3, word32 0xd5a7 0x9147, word32 0x06ca 0x6351, word32 0x1429 0x2967,
     word32 0x27b7 0x0a85, word32 0x2e1b 0x2138, word32 0x4d2c 0x6dfc, word32 0x5338 0x0d13,
     word32 0x650a 0x7354, word32 0x766a 0x0abb, word32 0x81c2 0xc92e, word32 0x9272 0x2c85,
     word32 0xa2bf 0xe8a1, word32 0xa81a 0x664b, word32 0xc24b 0x8b70, word32 0xc76c 0x51a3,
     word32 0xd192 0xe819, word32 0xd699 0x0624, word32 0xf40e 0x3585, word32 0x106a 0xa070,
     word32 0x19a4 0xc116, word32 0x1e37 0x6c08, word32 0x2748 0x774c, word32 0x34b0 0xbcb5,
     word32 0x391c 0x0cb3, word32 0x4ed8 0xaa4a, word32 0x5b9c 0xca4f, word32 0x682e 0x6ff3,
     word32 0x748f 0x82ee, word32 0x78a5 0x636f, word32 0x84c8 0x7814, word32 0x8cc7 0x0208,
     word32 0x90be 0xfffa, word32 0xa450 0x6ceb, word32 0xbef9 0xa3f7, word32 0xc671 0x78f2]"

definition ROR32 :: "u32 \<Rightarrow> nat \<Rightarrow> u32" where
  "ROR32 x n = drop_bit n x OR push_bit (32 - n) x"

definition S0 :: "u32 \<Rightarrow> u32" where "S0 x = (ROR32 x 2 XOR ROR32 x 13) XOR ROR32 x 22"
definition S1 :: "u32 \<Rightarrow> u32" where "S1 x = (ROR32 x 6 XOR ROR32 x 11) XOR ROR32 x 25"
definition R0 :: "u32 \<Rightarrow> u32" where "R0 x = (ROR32 x 7 XOR ROR32 x 18) XOR drop_bit 3 x"
definition R1 :: "u32 \<Rightarrow> u32" where "R1 x = (ROR32 x 17 XOR ROR32 x 19) XOR drop_bit 10 x"
definition Ch :: "u32 \<Rightarrow> u32 \<Rightarrow> u32 \<Rightarrow> u32" where "Ch x y z = (x AND y) XOR (NOT x AND z)"
definition Maj :: "u32 \<Rightarrow> u32 \<Rightarrow> u32 \<Rightarrow> u32" where
  "Maj x y z = ((x AND y) XOR (x AND z)) XOR (y AND z)"

text \<open>The first loop of the transform loads 16 big-endian words, the second extends them to 64.\<close>

definition load_be32 :: "u8 list \<Rightarrow> nat \<Rightarrow> u32" where
  "load_be32 d i = push_bit 24 (ucast (d ! (i * 4))) OR push_bit 16 (ucast (d ! (i * 4 + 1)))
     OR push_bit 8 (ucast (d ! (i * 4 + 2))) OR ucast (d ! (i * 4 + 3))"

definition extend_w :: "nat \<Rightarrow> u32 list \<Rightarrow> u32 list" where
  "extend_w i w = w @ [R1 (w ! (i - 2)) + w ! (i - 7) + R0 (w ! (i - 15)) + w ! (i - 16)]"

definition schedule :: "u8 list \<Rightarrow> u32 list" where
  "schedule d = fold extend_w [16..<64] (map (load_be32 d) [0..<16])"

type_synonym vars = "u32 \<times> u32 \<times> u32 \<times> u32 \<times> u32 \<times> u32 \<times> u32 \<times> u32"

definition sha_round :: "u32 list \<Rightarrow> nat \<Rightarrow> vars \<Rightarrow> vars" where
  "sha_round w i v = (case v of (a, b, c, d, e, f, g, h) \<Rightarrow>
     let t1 = h + S1 e + Ch e f g + K256 ! i + w ! i; t2 = S0 a + Maj a b c
     in (t1 + t2, a, b, c, d + t1, e, f, g))"

definition compress :: "u8 list \<Rightarrow> u32 list \<Rightarrow> u32 list" where
  "compress d st = (case fold (sha_round (schedule d)) [0..<64]
       (st ! 0, st ! 1, st ! 2, st ! 3, st ! 4, st ! 5, st ! 6, st ! 7) of
     (a, b, c, d, e, f, g, h) \<Rightarrow> [st ! 0 + a, st ! 1 + b, st ! 2 + c, st ! 3 + d,
       st ! 4 + e, st ! 5 + f, st ! 6 + g, st ! 7 + h])"

definition sha256_transform :: "u8 list \<Rightarrow> sha256_ctx \<Rightarrow> sha256_ctx" where
  "sha256_transform d ctx = ctx\<lparr> sha_state := compress d (sha_state ctx) \<rparr>"

definition SHA_IV :: "u32 list" where
  "SHA_IV = [
     word32 0x6a09 0xe667, word32 0xbb67 0xae85, word32 0x3c6e 0xf372, word32 0xa54f 0xf53a,
     word32 0x510e 0x527f, word32 0x9b05 0x688c, word32 0x1f83 0xd9ab, word32 0x5be0 0xcd19]"

text \<open>Initialisation leaves the buffer as it is.\<close>

definition sha256_init :: "sha256_ctx \<Rightarrow> sha256_ctx" where
  "sha256_init ctx = ctx\<lparr> sha_state := SHA_IV, sha_count := 0 \<rparr>"

definition update_byte :: "u8 \<Rightarrow> sha256_ctx \<times> nat \<Rightarrow> sha256_ctx \<times> nat" where
  "update_byte x cj = (case cj of (ctx, j) \<Rightarrow>
     let ctx1 = ctx\<lparr> sha_buf := (sha_buf ctx)[j := x] \<rparr>; j1 = j + 1
     in if j1 = 64 then (sha256_transform (sha_buf ctx1) ctx1, 0) else (ctx1, j1))"

definition sha256_update :: "u8 list \<Rightarrow> sha256_ctx \<Rightarrow> sha256_ctx" where
  "sha256_update data ctx =
     (let j = unat (sha_count ctx AND 63);
          ctx1 = ctx\<lparr> sha_count := sha_count ctx + of_nat (length data) \<rparr>
      in fst (fold update_byte data (ctx1, j)))"

definition be_bytes :: "u32 \<Rightarrow> u8 list" where
  "be_bytes s = [ucast (drop_bit 24 s), ucast (drop_bit 16 s), ucast (drop_bit 8 s), ucast s]"

definition length_bytes :: "u64 \<Rightarrow> u8 list" where
  "length_bytes bits = map (\<lambda>i. ucast (drop_bit (56 - 8 * i) bits)) [0..<8]"

definition sha256_final :: "sha256_ctx \<Rightarrow> (u8 list \<times> sha256_ctx) option" where
  "sha256_final ctx =
     (let bits = sha_count ctx * 8;
          j = unat (sha_count ctx AND 63);
          plen = (if j < 56 then 56 - j else 120 - j)
      in if 64 < plen + 8 then None
         else let ctx1 = sha256_update ([0x80] @ replicate (plen - 1) 0 @ length_bytes bits) ctx
              in Some (concat (map (\<lambda>i. be_bytes (sha_state ctx1 ! i)) [0..<8]), ctx1))"

section \<open>The buffer\<close>

text \<open>
  A context represents the bytes fed so far: the complete blocks are compressed into the state,
  the rest waits in the buffer, and the count is their number modulo \<open>2 ^ 64\<close>.
\<close>

fun blocks :: "u8 list \<Rightarrow> u8 list list" where
  "blocks m = (if length m < 64 then [] else take 64 m # blocks (drop 64 m))"

declare blocks.simps [simp del]

definition hash_blocks :: "u8 list \<Rightarrow> u32 list" where
  "hash_blocks m = fold compress (blocks m) SHA_IV"

definition represents :: "sha256_ctx \<Rightarrow> u8 list \<Rightarrow> bool" where
  "represents ctx m \<longleftrightarrow> sha_state ctx = hash_blocks m \<and> length (sha_buf ctx) = 64
     \<and> take (length m mod 64) (sha_buf ctx) = drop (length m - length m mod 64) m"

lemma blocks_short: "length m < 64 \<Longrightarrow> blocks m = []"
  by (simp add: blocks.simps)

lemma blocks_append_full: "length m mod 64 = 0 \<Longrightarrow> blocks (m @ r) = blocks m @ blocks r"
proof (induction m rule: blocks.induct)
  case (1 m)
  show ?case
  proof (cases "length m < 64")
    case True
    with 1 have "m = []" by simp
    then show ?thesis by (simp add: blocks_short)
  next
    case False
    with 1 have "blocks (drop 64 m @ r) = blocks (drop 64 m) @ blocks r" by (simp add: le_mod_geq)
    with False show ?thesis by (subst (1 2) blocks.simps) simp
  qed
qed

lemma blocks_one: "length b = 64 \<Longrightarrow> blocks b = [b]"
  by (subst blocks.simps) (simp add: blocks_short)

lemma split_full: "\<exists>f r. m = f @ r \<and> length f mod 64 = 0 \<and> length r < 64" for m :: "u8 list"
proof -
  let ?k = "64 * (length m div 64)"
  have le: "?k \<le> length m" and rest: "length m - ?k < 64"
    by (simp_all add: minus_mult_div_eq_mod)
  have "length (take ?k m) = ?k" and dr: "length (drop ?k m) < 64" using le rest by auto
  then have tk: "length (take ?k m) mod 64 = 0" by (metis mod_mult_self1_is_0)
  from append_take_drop_id [of ?k m] tk dr show ?thesis by metis
qed

lemma rest_mod: "a mod 64 = 0 \<Longrightarrow> b < 64 \<Longrightarrow> (a + b) mod 64 = b" for a b :: nat
  by (metis add_0 mod_add_left_eq mod_less)

lemma represents_split:
  assumes "m = f @ r" "length f mod 64 = 0" "length r < 64"
  shows "represents ctx m \<longleftrightarrow> sha_state ctx = fold compress (blocks f) SHA_IV
     \<and> length (sha_buf ctx) = 64 \<and> take (length r) (sha_buf ctx) = r"
proof -
  have "length m mod 64 = length r" unfolding assms(1) length_append by (rule rest_mod [OF assms(2,3)])
  then show ?thesis using assms
    by (simp add: represents_def hash_blocks_def blocks_append_full blocks_short)
qed

lemma update_byte_represents:
  assumes "represents ctx m"
  shows "represents (fst (update_byte x (ctx, length m mod 64))) (m @ [x])
     \<and> snd (update_byte x (ctx, length m mod 64)) = length (m @ [x]) mod 64
     \<and> sha_count (fst (update_byte x (ctx, length m mod 64))) = sha_count ctx"
proof -
  obtain f r where m: "m = f @ r" "length f mod 64 = 0" "length r < 64" using split_full [of m] by metis
  have j: "length m mod 64 = length r" unfolding m(1) length_append by (rule rest_mod [OF m(2,3)])
  have s: "sha_state ctx = fold compress (blocks f) SHA_IV" "length (sha_buf ctx) = 64"
    "take (length r) (sha_buf ctx) = r"
    using assms represents_split [OF m] by auto
  have buf: "take (Suc (length r)) ((sha_buf ctx)[length r := x]) = r @ [x]"
    using s m by (simp add: take_Suc_conv_app_nth)
  show ?thesis
  proof (cases "Suc (length r) = 64")
    case False
    then have l: "length (r @ [x]) < 64" using m by simp
    have j': "length (m @ [x]) mod 64 = Suc (length r)"
      using l m j by (simp add: mod_Suc)
    show ?thesis
      using False s buf represents_split [of "m @ [x]" f "r @ [x]"] m l j j'
      by (simp add: update_byte_def Let_def)
  next
    case True
    then have l: "length (r @ [x]) = 64" by simp
    have full: "(sha_buf ctx)[length r := x] = r @ [x]"
      using buf s True by simp
    have b: "blocks (f @ r @ [x]) = blocks f @ [r @ [x]]"
      using blocks_append_full [OF m(2), of "r @ [x]"] blocks_one [OF l] by simp
    have j': "length (m @ [x]) mod 64 = 0" using j True by (simp add: mod_Suc)
    have z: "length (f @ r @ [x]) mod 64 = 0" using j' m by simp
    show ?thesis
      using True s full b m j j' z represents_split [of "m @ [x]" "f @ r @ [x]" "[]"]
      by (simp add: update_byte_def Let_def sha256_transform_def)
  qed
qed

lemma update_fold_represents:
  "represents ctx m \<Longrightarrow> represents (fst (fold update_byte d (ctx, length m mod 64))) (m @ d)
     \<and> sha_count (fst (fold update_byte d (ctx, length m mod 64))) = sha_count ctx"
proof (induction d arbitrary: ctx m)
  case (Cons x d)
  define ctx' where "ctx' = fst (update_byte x (ctx, length m mod 64))"
  have u: "update_byte x (ctx, length m mod 64) = (ctx', length (m @ [x]) mod 64)"
    and r: "represents ctx' (m @ [x])" and c: "sha_count ctx' = sha_count ctx"
    using update_byte_represents [OF Cons.prems, of x] by (auto simp: ctx'_def prod_eq_iff)
  show ?case using Cons.IH [OF r] u c by (simp del: length_append)
qed simp

definition fed :: "sha256_ctx \<Rightarrow> u8 list \<Rightarrow> bool" where
  "fed ctx m \<longleftrightarrow> represents ctx m \<and> sha_count ctx = of_nat (length m)"

lemma count_index: "unat ((of_nat n :: u64) AND 63) = n mod 64"
proof -
  have "(of_nat n :: u64) AND 63 = take_bit 6 (of_nat n)"
    by (subst take_bit_eq_mask) (simp add: mask_eq_exp_minus_1)
  then have "unat ((of_nat n :: u64) AND 63) = take_bit 6 (take_bit 64 n)"
    by (simp add: unsigned_take_bit_eq unsigned_of_nat)
  moreover have "n mod 18446744073709551616 mod 64 = n mod 64" by (rule mod_mod_cancel) simp
  ultimately show ?thesis by (simp add: take_bit_eq_mod)
qed

lemma represents_count [simp]: "represents (ctx\<lparr>sha_count := c\<rparr>) m = represents ctx m"
  by (simp add: represents_def)

lemma fed_init: "length (sha_buf ctx) = 64 \<Longrightarrow> fed (sha256_init ctx) []"
  by (simp add: fed_def represents_def sha256_init_def hash_blocks_def blocks_short)

lemma fed_update: "fed ctx m \<Longrightarrow> fed (sha256_update d ctx) (m @ d)"
  using update_fold_represents [of "ctx\<lparr>sha_count := sha_count ctx + of_nat (length d)\<rparr>" m d]
  by (simp add: fed_def sha256_update_def Let_def count_index)

lemma fed_chunks: "fed ctx m \<Longrightarrow> fed (fold sha256_update ds ctx) (m @ concat ds)"
proof (induction ds arbitrary: ctx m)
  case (Cons d ds)
  from Cons.IH [OF fed_update [OF Cons.prems, of d]] show ?case by simp
qed simp

section \<open>The standard\<close>

definition pad_message :: "u8 list \<Rightarrow> u8 list" where
  "pad_message m = m @ [0x80] @ replicate ((119 - length m mod 64) mod 64) 0
     @ length_bytes (of_nat (8 * length m))"

definition sha256_spec :: "u8 list \<Rightarrow> u8 list" where
  "sha256_spec m = concat (map be_bytes (fold compress (blocks (pad_message m)) SHA_IV))"

lemma length_compress: "length (compress d st) = 8"
  by (simp add: compress_def split: prod.split)

lemma length_fold_compress: "length st = 8 \<Longrightarrow> length (fold compress bs st) = 8"
  by (induction bs arbitrary: st) (simp_all add: length_compress)

lemma length_SHA_IV: "length SHA_IV = 8"
  by (simp add: SHA_IV_def)

lemma length_sha256_spec: "length (sha256_spec m) = 32"
proof -
  have "length (concat (map be_bytes xs)) = 4 * length xs" for xs
    by (induction xs) (simp_all add: be_bytes_def)
  then show ?thesis by (simp add: sha256_spec_def length_fold_compress length_SHA_IV)
qed

lemma final_fed:
  assumes f: "fed ctx m"
  shows "map_option fst (sha256_final ctx) =
     (if length m mod 64 < 56 then Some (sha256_spec m) else None)"
proof (cases "length m mod 64 < 56")
  case False
  moreover have "length m mod 64 < 64" by simp
  ultimately show ?thesis
    using f by (simp add: sha256_final_def Let_def fed_def count_index)
next
  case True
  define pad where "pad = [0x80] @ replicate (55 - length m mod 64) 0
     @ length_bytes (of_nat (8 * length m))"
  have k: "(119 - length m mod 64) mod 64 = 55 - length m mod 64"
    using True by (simp add: le_mod_geq)
  then have mp: "m @ pad = pad_message m" by (simp add: pad_message_def pad_def)
  have bits: "sha_count ctx * 8 = of_nat (8 * length m)" using f by (simp add: fed_def)
  have st: "sha_state (sha256_update pad ctx) = fold compress (blocks (pad_message m)) SHA_IV"
    using fed_update [OF f, of pad] mp by (simp add: fed_def represents_def hash_blocks_def)
  have l: "length (fold compress (blocks (pad_message m)) SHA_IV) = 8"
    by (simp add: length_fold_compress length_SHA_IV)
  have "map_option fst (sha256_final ctx) =
      Some (concat (map (\<lambda>i. be_bytes (sha_state (sha256_update pad ctx) ! i)) [0..<8]))"
    using True bits f
    by (simp add: sha256_final_def Let_def fed_def count_index pad_def del: of_nat_mult upt_rec_numeral)
  also have "map (\<lambda>i. be_bytes (sha_state (sha256_update pad ctx) ! i)) [0..<8]
      = map be_bytes (fold compress (blocks (pad_message m)) SHA_IV)"
    unfolding st using l by (metis (no_types, lifting) map_nth map_map comp_apply map_cong)
  finally show ?thesis using True by (simp add: sha256_spec_def)
qed

text \<open>
  C32: The streaming code computes the standard hash. Fed with a message in any pieces, from a context
  whose buffer holds anything, it returns the block hash of the padded message, provided fewer than
  56 bytes wait in the last block. Otherwise its padding does not fit its local array.
\<close>

theorem sha256_streaming:
  assumes "length (sha_buf ctx) = 64"
  shows "map_option fst (sha256_final (fold sha256_update chunks (sha256_init ctx))) =
     (if length (concat chunks) mod 64 < 56 then Some (sha256_spec (concat chunks)) else None)"
  using final_fed [OF fed_chunks [OF fed_init [OF assms]], of chunks] by simp

theorem sha256_streaming_witness:
  "map_option fst (sha256_final (fold sha256_update [[1, 2], [3]]
       (sha256_init \<lparr>sha_state = [], sha_count = 7, sha_buf = replicate 64 9\<rparr>))) = Some (sha256_spec [1, 2, 3])"
  using sha256_streaming [of "\<lparr>sha_state = [], sha_count = 7, sha_buf = replicate 64 9\<rparr>" "[[1, 2], [3]]"]
  by simp

end
