(* ===== verification/Bot_DNA.thy ===== *)
theory Bot_DNA
  imports Sha256 Contracts
begin

text \<open>
  \<open>bot-baremetal/core/bot_dna.c\<close>: the record that identifies an agent, its layout in memory (4584
  bytes, little-endian, with the padding the compiler inserts as fields), the integrity hash over
  the bytes before \<open>integrity_hash\<close>, and the operations that create, check, extend, store and load it.
\<close>

section \<open>Data\<close>

definition BOT_DNA_MAGIC :: u32 where "BOT_DNA_MAGIC = 0x424F5444"
definition BOT_DNA_VERSION :: u32 where "BOT_DNA_VERSION = 1"
definition BOT_MAX_PATTERNS :: nat where "BOT_MAX_PATTERNS = 64"
definition BOT_PRIME_DIR_LEN :: nat where "BOT_PRIME_DIR_LEN = 256"
definition DNA_SIZE :: nat where "DNA_SIZE = 4584"

definition AGENT_ROLE_MEM_WATCH :: u32 where "AGENT_ROLE_MEM_WATCH = 0x01"
definition AGENT_ROLE_NET_WATCH :: u32 where "AGENT_ROLE_NET_WATCH = 0x02"
definition AGENT_ROLE_FS_WATCH :: u32 where "AGENT_ROLE_FS_WATCH = 0x03"
definition AGENT_ROLE_PROC_WATCH :: u32 where "AGENT_ROLE_PROC_WATCH = 0x04"
definition AGENT_ROLE_KERNEL_WATCH :: u32 where "AGENT_ROLE_KERNEL_WATCH = 0x05"
definition AGENT_ROLE_BOOT_WATCH :: u32 where "AGENT_ROLE_BOOT_WATCH = 0x06"
definition AGENT_ROLE_SWARM_MIND :: u32 where "AGENT_ROLE_SWARM_MIND = 0xFF"

definition THREAT_DOMAIN_ANTIVIRUS :: u32 where "THREAT_DOMAIN_ANTIVIRUS = push_bit 0 1"
definition THREAT_DOMAIN_ANTIPIRACY :: u32 where "THREAT_DOMAIN_ANTIPIRACY = push_bit 1 1"
definition THREAT_DOMAIN_ANTITHEFT :: u32 where "THREAT_DOMAIN_ANTITHEFT = push_bit 2 1"
definition THREAT_DOMAIN_ANTIROOTKIT :: u32 where "THREAT_DOMAIN_ANTIROOTKIT = push_bit 3 1"
definition THREAT_DOMAIN_ANTIRANSOM :: u32 where "THREAT_DOMAIN_ANTIRANSOM = push_bit 4 1"
definition THREAT_DOMAIN_ANTIBOT :: u32 where "THREAT_DOMAIN_ANTIBOT = push_bit 6 1"
definition THREAT_DOMAIN_SELF_PROTECT :: u32 where "THREAT_DOMAIN_SELF_PROTECT = push_bit 7 1"

record behavior_pattern =
  bp_signature :: "u8 list"
  bp_threat_domain :: u32
  bp_confidence :: u32
  bp_learned_at :: u64
  bp_hit_count :: u64
  bp_active :: u8
  bp_pad :: "u8 list"

record bot_dna =
  dna_magic :: u32
  dna_version :: u32
  agent_id :: "u8 list"
  dna_role :: u32
  generation :: u32
  dna_name :: "u8 list"
  capabilities :: u64
  threat_domains :: u32
  current_threat_level :: u32
  learned_patterns :: "behavior_pattern list"
  pattern_count :: u32
  dna_gap :: "u8 list"
  threats_detected :: u64
  threats_neutralized :: u64
  false_positives :: u64
  birth_time :: u64
  last_regen_time :: u64
  regen_count :: u32
  integrity_hash :: "u8 list"
  is_healthy :: u8
  prime_directives :: "u8 list"
  dna_reserved :: "u8 list"
  dna_tail :: "u8 list"

section \<open>Layout\<close>

definition le32 :: "u32 \<Rightarrow> u8 list" where
  "le32 v = [ucast v, ucast (drop_bit 8 v), ucast (drop_bit 16 v), ucast (drop_bit 24 v)]"

definition le64 :: "u64 \<Rightarrow> u8 list" where
  "le64 v = le32 (ucast v) @ le32 (ucast (drop_bit 32 v))"

definition get_le64 :: "u8 list \<Rightarrow> nat \<Rightarrow> u64" where
  "get_le64 b p = ucast (get_le32 b p) OR push_bit 32 (ucast (get_le32 b (p + 4)))"

definition slice :: "nat \<Rightarrow> nat \<Rightarrow> u8 list \<Rightarrow> u8 list" where
  "slice p n b = take n (drop p b)"

definition pattern_bytes :: "behavior_pattern \<Rightarrow> u8 list" where
  "pattern_bytes p = bp_signature p @ le32 (bp_threat_domain p) @ le32 (bp_confidence p)
     @ le64 (bp_learned_at p) @ le64 (bp_hit_count p) @ [bp_active p] @ bp_pad p"

definition pattern_of_bytes :: "u8 list \<Rightarrow> behavior_pattern" where
  "pattern_of_bytes b = \<lparr> bp_signature = slice 0 32 b, bp_threat_domain = get_le32 (slice 32 4 b) 0,
     bp_confidence = get_le32 (slice 36 4 b) 0, bp_learned_at = get_le64 (slice 40 8 b) 0,
     bp_hit_count = get_le64 (slice 48 8 b) 0, bp_active = hd (slice 56 1 b), bp_pad = slice 57 7 b \<rparr>"

text \<open>The part of the structure before \<open>integrity_hash\<close>, and the part after it.\<close>

definition dna_head_bytes :: "bot_dna \<Rightarrow> u8 list" where
  "dna_head_bytes d = le32 (dna_magic d) @ le32 (dna_version d) @ agent_id d @ le32 (dna_role d)
     @ le32 (generation d) @ dna_name d @ le64 (capabilities d) @ le32 (threat_domains d)
     @ le32 (current_threat_level d) @ concat (map pattern_bytes (learned_patterns d))
     @ le32 (pattern_count d) @ dna_gap d @ le64 (threats_detected d) @ le64 (threats_neutralized d)
     @ le64 (false_positives d) @ le64 (birth_time d) @ le64 (last_regen_time d)
     @ le32 (regen_count d)"

definition dna_tail_bytes :: "bot_dna \<Rightarrow> u8 list" where
  "dna_tail_bytes d = integrity_hash d @ [is_healthy d] @ prime_directives d @ dna_reserved d @ dna_tail d"

definition dna_bytes :: "bot_dna \<Rightarrow> u8 list" where
  "dna_bytes d = dna_head_bytes d @ dna_tail_bytes d"

definition dna_of_bytes :: "u8 list \<Rightarrow> bot_dna" where
  "dna_of_bytes b = \<lparr> dna_magic = get_le32 (slice 0 4 b) 0, dna_version = get_le32 (slice 4 4 b) 0,
     agent_id = slice 8 16 b, dna_role = get_le32 (slice 24 4 b) 0,
     generation = get_le32 (slice 28 4 b) 0, dna_name = slice 32 32 b,
     capabilities = get_le64 (slice 64 8 b) 0, threat_domains = get_le32 (slice 72 4 b) 0,
     current_threat_level = get_le32 (slice 76 4 b) 0,
     learned_patterns = map (\<lambda>i. pattern_of_bytes (slice (64 * i) 64 (slice 80 4096 b))) [0..<64],
     pattern_count = get_le32 (slice 4176 4 b) 0, dna_gap = slice 4180 4 b,
     threats_detected = get_le64 (slice 4184 8 b) 0,
     threats_neutralized = get_le64 (slice 4192 8 b) 0,
     false_positives = get_le64 (slice 4200 8 b) 0, birth_time = get_le64 (slice 4208 8 b) 0,
     last_regen_time = get_le64 (slice 4216 8 b) 0, regen_count = get_le32 (slice 4224 4 b) 0,
     integrity_hash = slice 4228 32 b, is_healthy = hd (slice 4260 1 b),
     prime_directives = slice 4261 256 b, dna_reserved = slice 4517 64 b, dna_tail = slice 4581 3 b \<rparr>"

definition pattern_wf :: "behavior_pattern \<Rightarrow> bool" where
  "pattern_wf p \<longleftrightarrow> length (bp_signature p) = 32 \<and> length (bp_pad p) = 7"

definition dna_wf :: "bot_dna \<Rightarrow> bool" where
  "dna_wf d \<longleftrightarrow> length (agent_id d) = 16 \<and> length (dna_name d) = 32
     \<and> length (learned_patterns d) = 64 \<and> (\<forall>p\<in>set (learned_patterns d). pattern_wf p)
     \<and> length (dna_gap d) = 4 \<and> length (integrity_hash d) = 32
     \<and> length (prime_directives d) = 256 \<and> length (dna_reserved d) = 64 \<and> length (dna_tail d) = 3"

section \<open>Operations\<close>

definition zero_pattern :: behavior_pattern where
  "zero_pattern = \<lparr> bp_signature = replicate 32 0, bp_threat_domain = 0, bp_confidence = 0,
     bp_learned_at = 0, bp_hit_count = 0, bp_active = 0, bp_pad = replicate 7 0 \<rparr>"

definition zero_dna :: bot_dna where
  "zero_dna = \<lparr> dna_magic = 0, dna_version = 0, agent_id = replicate 16 0, dna_role = 0,
     generation = 0, dna_name = replicate 32 0, capabilities = 0, threat_domains = 0,
     current_threat_level = 0, learned_patterns = replicate 64 zero_pattern, pattern_count = 0,
     dna_gap = replicate 4 0, threats_detected = 0, threats_neutralized = 0, false_positives = 0,
     birth_time = 0, last_regen_time = 0, regen_count = 0, integrity_hash = replicate 32 0,
     is_healthy = 0, prime_directives = replicate 256 0, dna_reserved = replicate 64 0,
     dna_tail = replicate 3 0 \<rparr>"

text \<open>
  The hash of the bytes before \<open>integrity_hash\<close>. The context is a local variable whose buffer
  starts undetermined; \<open>None\<close> would be the overflow of the padding, which the length excludes.
\<close>

definition bot_dna_compute_hash :: "u8 list \<Rightarrow> bot_dna \<Rightarrow> u8 list option" where
  "bot_dna_compute_hash garbage d = map_option fst (sha256_final (sha256_update (dna_head_bytes d)
     (sha256_init \<lparr> sha_state = [], sha_count = 0, sha_buf = garbage \<rparr>)))"

definition BOT_PRIME_DIRECTIVES :: string where
  "BOT_PRIME_DIRECTIVES = ''1:SURVIVE_BEFORE_ALL'' @ [CHR 0x0A]
     @ ''2:PROTECT_OPERATING_ORGANISM'' @ [CHR 0x0A] @ ''3:LEARN_FROM_EVERY_THREAT'' @ [CHR 0x0A]
     @ ''4:NEVER_CORRUPT_SOMA'' @ [CHR 0x0A] @ ''5:NEVER_ACT_WITHOUT_EVIDENCE'' @ [CHR 0x0A]
     @ ''6:JOURNAL_EVERY_ACTION'' @ [CHR 0x0A] @ ''7:RESPECT_OO_HIERARCHY'' @ [CHR 0x0A]
     @ ''8:SHARE_KNOWLEDGE_WITH_SWARM'' @ [CHR 0x0A] @ ''9:REGENERATE_FALLEN_AGENTS'' @ [CHR 0x0A]
     @ ''10:ISOLATE_BEFORE_NEUTRALIZE'' @ [CHR 0x0A]"

definition c_bytes :: "string \<Rightarrow> u8 list" where
  "c_bytes s = map (\<lambda>c. of_nat (of_char c)) s"

definition strncpy_into :: "u8 list \<Rightarrow> string \<Rightarrow> nat \<Rightarrow> u8 list" where
  "strncpy_into dst s n = take n (c_bytes s @ replicate n 0) @ drop n dst"

definition role_domains :: "u32 \<Rightarrow> u32" where
  "role_domains r =
     (if r = AGENT_ROLE_MEM_WATCH then THREAT_DOMAIN_ANTIVIRUS OR THREAT_DOMAIN_ANTIROOTKIT
      else if r = AGENT_ROLE_NET_WATCH then THREAT_DOMAIN_ANTITHEFT OR THREAT_DOMAIN_ANTIBOT
      else if r = AGENT_ROLE_FS_WATCH then THREAT_DOMAIN_ANTIRANSOM OR THREAT_DOMAIN_ANTITHEFT
      else if r = AGENT_ROLE_PROC_WATCH then THREAT_DOMAIN_ANTIVIRUS OR THREAT_DOMAIN_ANTIPIRACY
      else if r = AGENT_ROLE_KERNEL_WATCH then THREAT_DOMAIN_ANTIROOTKIT OR THREAT_DOMAIN_SELF_PROTECT
      else if r = AGENT_ROLE_BOOT_WATCH then THREAT_DOMAIN_ANTIROOTKIT OR THREAT_DOMAIN_SELF_PROTECT
      else if r = AGENT_ROLE_SWARM_MIND then 0xFF
      else 0)"

definition seal_hash :: "u8 list \<Rightarrow> bot_dna \<Rightarrow> bot_dna option" where
  "seal_hash garbage d = map_option (\<lambda>h. d\<lparr> integrity_hash := h \<rparr>) (bot_dna_compute_hash garbage d)"

definition bot_dna_init :: "u8 list \<Rightarrow> u32 \<Rightarrow> string option \<Rightarrow> bot_dna option" where
  "bot_dna_init garbage role name =
     (let d = zero_dna\<lparr> dna_magic := BOT_DNA_MAGIC, dna_version := BOT_DNA_VERSION, dna_role := role,
                generation := 1, is_healthy := 1 \<rparr>;
          d = d\<lparr> dna_name := strncpy_into (dna_name d)
                (case name of Some s \<Rightarrow> s | None \<Rightarrow> ''unnamed'') (length (dna_name d) - 1) \<rparr>;
          d = d\<lparr> threat_domains := role_domains role \<rparr>;
          len = length BOT_PRIME_DIRECTIVES;
          len = (if len \<ge> BOT_PRIME_DIR_LEN then BOT_PRIME_DIR_LEN - 1 else len);
          d = d\<lparr> prime_directives := take len (c_bytes BOT_PRIME_DIRECTIVES) @ drop len (prime_directives d) \<rparr>
      in seal_hash garbage d)"

definition bot_dna_verify :: "u8 list \<Rightarrow> bot_dna \<Rightarrow> bool option" where
  "bot_dna_verify garbage d =
     (if dna_magic d \<noteq> BOT_DNA_MAGIC then Some False
      else if dna_version d \<noteq> BOT_DNA_VERSION then Some False
      else map_option (\<lambda>h. h = integrity_hash d) (bot_dna_compute_hash garbage d))"

definition bot_dna_add_pattern :: "u8 list \<Rightarrow> behavior_pattern \<Rightarrow> bot_dna \<Rightarrow> (int \<times> bot_dna) option" where
  "bot_dna_add_pattern garbage p d =
     (if pattern_count d \<ge> of_nat BOT_MAX_PATTERNS then Some (-1, d)
      else let d1 = d\<lparr> learned_patterns := (learned_patterns d)[unat (pattern_count d) := p],
                   pattern_count := pattern_count d + 1 \<rparr>
           in map_option (Pair 0) (seal_hash garbage d1))"

definition bot_dna_serialize :: "bot_dna \<Rightarrow> u8 list \<Rightarrow> nat \<Rightarrow> int \<times> u8 list" where
  "bot_dna_serialize d buf buf_len =
     (if buf_len < DNA_SIZE then (-1, buf)
      else (int DNA_SIZE, dna_bytes d @ drop DNA_SIZE buf))"

definition bot_dna_deserialize :: "u8 list \<Rightarrow> u8 list \<Rightarrow> nat \<Rightarrow> bot_dna \<Rightarrow> (int \<times> bot_dna) option" where
  "bot_dna_deserialize garbage buf buf_len d =
     (if buf_len < DNA_SIZE then Some (-1, d)
      else let d1 = dna_of_bytes (take DNA_SIZE buf)
           in map_option (\<lambda>ok. if ok then (0, d1) else (-1, zero_dna)) (bot_dna_verify garbage d1))"

end
