(* ===== verification/Bot_DNA_Facts.thy ===== *)
theory Bot_DNA_Facts
  imports Bot_DNA
begin

text \<open>
  What the operations of \<open>Bot_DNA\<close> guarantee: the layout can be read back, the hash is always
  defined and is the standard hash, created and extended agents verify, the pool of patterns is
  bounded, stored agents load again, and the fields behind the hash are not protected by it.
\<close>

section \<open>Reading the layout back\<close>

lemma get_le32_le32 [simp]: "get_le32 (le32 v) 0 = v"
  by (simp add: get_le32_def le32_def le32_bytes)

lemma length_le [simp]: "length (le32 v) = 4" "length (le64 w) = 8"
  by (simp_all add: le32_def le64_def)

lemma get_le64_le64 [simp]: "get_le64 (le64 v) 0 = v"
proof -
  have lo: "get_le32 (le64 v) 0 = ucast v"
    using get_le32_le32 [of "ucast v"] by (simp add: le64_def le32_def get_le32_def)
  have hi: "get_le32 (le64 v) 4 = ucast (drop_bit 32 v)"
    using get_le32_le32 [of "ucast (drop_bit 32 v)"] by (simp add: le64_def le32_def get_le32_def)
  have "ucast (ucast v :: u32) OR push_bit 32 (ucast (ucast (drop_bit 32 v) :: u32)) = v"
  proof (rule bit_word_eqI)
    fix n assume "n < LENGTH(64)"
    then show "bit (ucast (ucast v :: u32) OR push_bit 32 (ucast (ucast (drop_bit 32 v) :: u32)) :: u64) n
        = bit v n"
      by (cases "n < 32") (auto simp: bit_simps)
  qed
  then show ?thesis by (simp add: get_le64_def lo hi)
qed

lemma slice_skip: "length xs \<le> p \<Longrightarrow> slice p n (xs @ ys) = slice (p - length xs) n ys"
  by (simp add: slice_def)

lemma slice_hit: "length xs = n \<Longrightarrow> slice 0 n (xs @ ys) = xs"
  by (simp add: slice_def)

lemma slice_all: "length xs = n \<Longrightarrow> slice 0 n xs = xs"
  by (simp add: slice_def)

lemma slice_one: "slice 0 (Suc 0) (x # ys) = [x]" "slice 0 1 (x # ys) = [x]"
  by (simp_all add: slice_def)

lemma slice_cons: "0 < p \<Longrightarrow> slice p n (x # ys) = slice (p - 1) n ys"
  by (cases p) (simp_all add: slice_def)

lemmas slice_simps = slice_skip slice_hit slice_all slice_one slice_cons

lemma pattern_round [simp]: "pattern_wf p \<Longrightarrow> pattern_of_bytes (pattern_bytes p) = p"
  by (simp add: pattern_of_bytes_def pattern_bytes_def pattern_wf_def slice_simps)

lemma length_pattern_bytes: "pattern_wf p \<Longrightarrow> length (pattern_bytes p) = 64"
  by (simp add: pattern_bytes_def pattern_wf_def)

lemma length_patterns: "\<forall>p\<in>set ps. pattern_wf p \<Longrightarrow> length (concat (map pattern_bytes ps)) = 64 * length ps"
  by (induction ps) (simp_all add: length_pattern_bytes)

lemma slice_patterns:
  "\<forall>p\<in>set ps. pattern_wf p \<Longrightarrow> i < length ps \<Longrightarrow>
     slice (64 * i) 64 (concat (map pattern_bytes ps)) = pattern_bytes (ps ! i)"
proof (induction ps arbitrary: i)
  case (Cons p ps)
  then show ?case
    by (cases i) (simp_all add: slice_skip slice_hit length_pattern_bytes)
qed simp

lemma patterns_round:
  "\<forall>p\<in>set ps. pattern_wf p \<Longrightarrow> length ps = 64 \<Longrightarrow>
     map (\<lambda>i. pattern_of_bytes (slice (64 * i) 64 (concat (map pattern_bytes ps)))) [0..<64] = ps"
  by (rule nth_equalityI) (simp_all add: slice_patterns del: upt_rec_numeral)

lemma length_head: "dna_wf d \<Longrightarrow> length (dna_head_bytes d) = 4228"
  using length_patterns [of "learned_patterns d"] by (simp add: dna_head_bytes_def dna_wf_def)

lemma length_dna_bytes: "dna_wf d \<Longrightarrow> length (dna_bytes d) = 4584"
  using length_head [of d] by (simp add: dna_bytes_def dna_tail_bytes_def dna_wf_def)

lemma dna_round: "dna_wf d \<Longrightarrow> dna_of_bytes (dna_bytes d) = d"
proof -
  assume wf: "dna_wf d"
  then have l: "length (concat (map pattern_bytes (learned_patterns d))) = 4096"
    using length_patterns [of "learned_patterns d"] by (simp add: dna_wf_def)
  have p: "map (\<lambda>i. pattern_of_bytes (slice (64 * i) 64 (concat (map pattern_bytes (learned_patterns d))))) [0..<64]
      = learned_patterns d"
    using wf by (intro patterns_round) (simp_all add: dna_wf_def)
  define ps where "ps = concat (map pattern_bytes (learned_patterns d))"
  show ?thesis
    using wf l p unfolding dna_of_bytes_def dna_bytes_def dna_head_bytes_def dna_tail_bytes_def
      append_assoc ps_def [symmetric]
    by (simp add: slice_simps dna_wf_def del: upt_rec_numeral)
qed

section \<open>The hash\<close>

lemma compute_hash:
  assumes "length garbage = 64" "dna_wf d"
  shows "bot_dna_compute_hash garbage d = Some (sha256_spec (dna_head_bytes d))"
proof -
  have "map_option fst (sha256_final (sha256_update (dna_head_bytes d)
        (sha256_init \<lparr> sha_state = [], sha_count = 0, sha_buf = garbage \<rparr>)))
      = (if length (dna_head_bytes d) mod 64 < 56 then Some (sha256_spec (dna_head_bytes d)) else None)"
    using assms(1) by (intro final_fed fed_update [of _ "[]", simplified]) (simp add: fed_init)
  then show ?thesis using assms(2) by (simp add: bot_dna_compute_hash_def length_head)
qed

lemma head_frame [simp]:
  "dna_head_bytes (d\<lparr>integrity_hash := h\<rparr>) = dna_head_bytes d"
  "dna_head_bytes (d\<lparr>is_healthy := hl\<rparr>) = dna_head_bytes d"
  "dna_head_bytes (d\<lparr>prime_directives := pd\<rparr>) = dna_head_bytes d"
  "dna_head_bytes (d\<lparr>dna_reserved := rs\<rparr>) = dna_head_bytes d"
  "dna_head_bytes (d\<lparr>dna_tail := tp\<rparr>) = dna_head_bytes d"
  by (simp_all add: dna_head_bytes_def)

definition sealed :: "bot_dna \<Rightarrow> bool" where
  "sealed d \<longleftrightarrow> dna_wf d \<and> dna_magic d = BOT_DNA_MAGIC \<and> dna_version d = BOT_DNA_VERSION
     \<and> integrity_hash d = sha256_spec (dna_head_bytes d)"

lemma verify_iff:
  "length garbage = 64 \<Longrightarrow> dna_wf d \<Longrightarrow> bot_dna_verify garbage d = Some (sealed d)"
  by (auto simp: bot_dna_verify_def compute_hash sealed_def)

lemma seal_sealed:
  assumes "length garbage = 64" "dna_wf d" "dna_magic d = BOT_DNA_MAGIC" "dna_version d = BOT_DNA_VERSION"
  shows "\<exists>d'. seal_hash garbage d = Some d' \<and> sealed d' \<and> d' = d\<lparr> integrity_hash := integrity_hash d' \<rparr>"
proof -
  let ?d' = "d\<lparr> integrity_hash := sha256_spec (dna_head_bytes d) \<rparr>"
  have "seal_hash garbage d = Some ?d'"
    using compute_hash [OF assms(1,2)] by (simp add: seal_hash_def)
  moreover have "sealed ?d'"
    using assms by (simp add: sealed_def dna_wf_def length_sha256_spec)
  ultimately show ?thesis by auto
qed

section \<open>Creation\<close>

lemma length_strncpy: "n \<le> length dst \<Longrightarrow> length (strncpy_into dst s n) = length dst"
  by (simp add: strncpy_into_def)

lemma length_directives: "length BOT_PRIME_DIRECTIVES = 257"
  by (simp add: BOT_PRIME_DIRECTIVES_def)

lemma strncpy_decode: "length (strncpy_into (replicate 32 0) s 31) = 32"
  by (simp add: length_strncpy)

lemma zero_dna_wf: "dna_wf zero_dna"
  by (simp add: dna_wf_def zero_dna_def zero_pattern_def pattern_wf_def)

text \<open>The directives are one byte longer than their field holds with a terminator: two bytes are cut.\<close>

lemma init_seals:
  assumes "length garbage = 64"
  shows "\<exists>d. bot_dna_init garbage role name = Some d \<and> sealed d \<and> dna_role d = role
     \<and> threat_domains d = role_domains role \<and> is_healthy d = 1 \<and> pattern_count d = 0
     \<and> dna_name d = strncpy_into (replicate 32 0) (case name of Some s \<Rightarrow> s | None \<Rightarrow> ''unnamed'') 31
     \<and> prime_directives d = take 255 (c_bytes BOT_PRIME_DIRECTIVES) @ [0]"
proof -
  define n where "n = strncpy_into (replicate 32 0) (case name of Some s \<Rightarrow> s | None \<Rightarrow> ''unnamed'') 31"
  define pd where "pd = take 255 (c_bytes BOT_PRIME_DIRECTIVES) @ [0]"
  define d0 where "d0 = zero_dna\<lparr> dna_magic := BOT_DNA_MAGIC, dna_version := BOT_DNA_VERSION,
    dna_role := role, generation := 1, is_healthy := 1, dna_name := n,
    threat_domains := role_domains role, prime_directives := pd \<rparr>"
  have "length (c_bytes BOT_PRIME_DIRECTIVES) = 257" by (simp add: c_bytes_def length_directives)
  then have "length pd = 256" by (simp add: pd_def)
  moreover have "length n = 32" by (simp add: n_def strncpy_decode)
  ultimately have wf: "dna_wf d0" using zero_dna_wf by (simp add: d0_def dna_wf_def)
  have tl: "drop 255 (replicate 256 0) = [0::u8]" by simp
  have i: "bot_dna_init garbage role name = seal_hash garbage d0"
    by (simp add: bot_dna_init_def Let_def length_directives BOT_PRIME_DIR_LEN_def d0_def n_def pd_def
        zero_dna_def tl)
  have m: "dna_magic d0 = BOT_DNA_MAGIC" "dna_version d0 = BOT_DNA_VERSION" by (simp_all add: d0_def)
  obtain d where d: "seal_hash garbage d0 = Some d" "sealed d" "d = d0\<lparr> integrity_hash := integrity_hash d \<rparr>"
    using seal_sealed [OF assms wf m] by blast
  have f: "dna_role d = role" "threat_domains d = role_domains role" "is_healthy d = 1"
    "pattern_count d = 0" "dna_name d = n" "prime_directives d = pd"
    by (subst d(3), simp add: d0_def zero_dna_def)+
  show ?thesis using i d f by (auto simp: n_def pd_def)
qed

section \<open>Learning\<close>

definition known_patterns :: "bot_dna \<Rightarrow> behavior_pattern list" where
  "known_patterns d = take (unat (pattern_count d)) (learned_patterns d)"

definition learn :: "u8 list \<Rightarrow> behavior_pattern \<Rightarrow> bot_dna \<Rightarrow> bot_dna" where
  "learn garbage p d = snd (the (bot_dna_add_pattern garbage p d))"

definition agent_ok :: "bot_dna \<Rightarrow> bool" where
  "agent_ok d \<longleftrightarrow> sealed d \<and> unat (pattern_count d) \<le> 64"

lemma count_full: "pattern_count d \<ge> of_nat BOT_MAX_PATTERNS \<longleftrightarrow> 64 \<le> unat (pattern_count d)"
  by (simp add: BOT_MAX_PATTERNS_def word_le_nat_alt)

lemma add_pattern_cases:
  assumes g: "length garbage = 64" and a: "agent_ok d" and p: "pattern_wf p"
  shows "(64 \<le> unat (pattern_count d) \<and> bot_dna_add_pattern garbage p d = Some (-1, d)) \<or>
    (unat (pattern_count d) < 64 \<and> (\<exists>d'. bot_dna_add_pattern garbage p d = Some (0, d') \<and> agent_ok d'
       \<and> known_patterns d' = known_patterns d @ [p]
       \<and> d' = d\<lparr> learned_patterns := learned_patterns d', pattern_count := pattern_count d + 1,
            integrity_hash := integrity_hash d' \<rparr>))"
proof (cases "64 \<le> unat (pattern_count d)")
  case True
  then show ?thesis by (simp add: bot_dna_add_pattern_def count_full)
next
  case False
  define d1 where "d1 = d\<lparr> learned_patterns := (learned_patterns d)[unat (pattern_count d) := p],
    pattern_count := pattern_count d + 1 \<rparr>"
  have s: "sealed d" and l: "length (learned_patterns d) = 64"
    using a by (auto simp: agent_ok_def sealed_def dna_wf_def)
  have wf: "dna_wf d1" "dna_magic d1 = BOT_DNA_MAGIC" "dna_version d1 = BOT_DNA_VERSION"
    using s p by (auto simp: d1_def sealed_def dna_wf_def dest!: set_update_subset_insert [THEN subsetD])
  obtain d' where d': "seal_hash garbage d1 = Some d'" "sealed d'"
    "d' = d1\<lparr> integrity_hash := integrity_hash d' \<rparr>"
    using seal_sealed [OF g wf] by blast
  have c: "unat (pattern_count d + 1) = Suc (unat (pattern_count d))"
    using False by (simp add: unat_word_ariths)
  have pc: "pattern_count d' = pattern_count d + 1"
    and lp: "learned_patterns d' = (learned_patterns d)[unat (pattern_count d) := p]"
    by (subst d'(3), simp add: d1_def)+
  have "known_patterns d' = known_patterns d @ [p]"
    using False l c by (simp add: known_patterns_def pc lp take_Suc_conv_app_nth)
  moreover have "d' = d\<lparr> learned_patterns := learned_patterns d', pattern_count := pattern_count d + 1,
      integrity_hash := integrity_hash d' \<rparr>"
    by (subst d'(3)) (simp add: d1_def lp)
  moreover have "bot_dna_add_pattern garbage p d = Some (0, d')"
    using False d'(1) by (simp add: bot_dna_add_pattern_def count_full d1_def)
  ultimately show ?thesis using False d'(2) c pc by (auto simp: agent_ok_def)
qed

lemma length_known: "agent_ok d \<Longrightarrow> length (known_patterns d) = unat (pattern_count d)"
  by (simp add: agent_ok_def known_patterns_def sealed_def dna_wf_def)

text \<open>The scratch buffer of the hash plays no part; the contract is proved for a zeroed one.\<close>

interpretation dna_pool: bounded_pool 64 "learn (replicate 64 0)" known_patterns agent_ok pattern_wf
proof (unfold_locales, goal_cases)
  case (1 s e)
  then show ?case using add_pattern_cases [of "replicate 64 0" s e] by (auto simp: learn_def)
next
  case (2 s e)
  then show ?case using add_pattern_cases [of "replicate 64 0" s e] by (auto simp: learn_def length_known)
next
  case (3 s)
  then show ?case using length_known [of s] by (simp add: agent_ok_def)
qed

lemma learn_any_buffer:
  assumes "length garbage = 64" "agent_ok d" "pattern_wf p"
  shows "learn garbage p d = learn (replicate 64 0) p d"
proof (cases "64 \<le> unat (pattern_count d)")
  case True
  then show ?thesis by (simp add: learn_def bot_dna_add_pattern_def count_full)
next
  case False
  have "dna_wf (d\<lparr> learned_patterns := (learned_patterns d)[unat (pattern_count d) := p],
      pattern_count := pattern_count d + 1 \<rparr>)"
    using assms by (auto simp: agent_ok_def sealed_def dna_wf_def dest!: set_update_subset_insert [THEN subsetD])
  with False assms(1) show ?thesis
    by (simp add: learn_def bot_dna_add_pattern_def count_full seal_hash_def compute_hash Let_def)
qed

lemma fold_learn_any_buffer:
  "length garbage = 64 \<Longrightarrow> agent_ok d \<Longrightarrow> \<forall>p\<in>set ps. pattern_wf p \<Longrightarrow>
     fold (learn garbage) ps d = fold (learn (replicate 64 0)) ps d"
proof (induction ps arbitrary: d)
  case (Cons p ps)
  then have "learn garbage p d = learn (replicate 64 0) p d" "agent_ok (learn (replicate 64 0) p d)"
    using learn_any_buffer [of garbage d p] dna_pool.add_inv [of d p] by auto
  with Cons show ?case by simp
qed simp

text \<open>
  C33: An agent keeps verifying as it learns. From creation, after any sequence of well-formed
  patterns (more than the pool takes included), the agent verifies, holds exactly the first 64
  of them in order, and a further addition is refused once there are 64.
\<close>

theorem agent_learns:
  assumes "length garbage = 64" and "bot_dna_init garbage role name = Some d"
    and "\<forall>p\<in>set ps. pattern_wf p"
  shows "bot_dna_verify garbage (fold (learn garbage) ps d) = Some True
     \<and> known_patterns (fold (learn garbage) ps d) = take 64 ps
     \<and> (64 \<le> length ps \<longrightarrow> bot_dna_add_pattern garbage p (fold (learn garbage) ps d)
          = Some (-1, fold (learn garbage) ps d))"
proof -
  have d: "sealed d" "pattern_count d = 0" using init_seals [OF assms(1), of role name] assms(2) by auto
  then have ok: "agent_ok d" "known_patterns d = []" by (simp_all add: agent_ok_def known_patterns_def)
  define e where "e = fold (learn garbage) ps d"
  have e: "e = fold (learn (replicate 64 0)) ps d"
    using fold_learn_any_buffer [OF assms(1) ok(1) assms(3)] by (simp add: e_def)
  have inv: "agent_ok e" unfolding e by (rule dna_pool.pool_inv [OF ok(1) assms(3)])
  have known: "known_patterns e = take 64 ps"
    unfolding e using dna_pool.pool_entries [OF ok(1) assms(3)] ok(2) by simp
  have "64 \<le> length ps \<Longrightarrow> 64 \<le> unat (pattern_count e)"
    using length_known [OF inv] known by simp
  then have "64 \<le> length ps \<longrightarrow> bot_dna_add_pattern garbage p e = Some (-1, e)"
    by (simp add: bot_dna_add_pattern_def count_full)
  moreover have "bot_dna_verify garbage e = Some True"
    using verify_iff [OF assms(1), of e] inv by (simp add: agent_ok_def sealed_def)
  ultimately show ?thesis using known unfolding e_def by blast
qed

theorem agent_learns_witness:
  "\<exists>d. bot_dna_init (replicate 64 7) AGENT_ROLE_NET_WATCH (Some ''sentry'') = Some d
     \<and> bot_dna_verify (replicate 64 7) (fold (learn (replicate 64 7)) [zero_pattern, zero_pattern] d) = Some True"
proof -
  obtain d where d: "bot_dna_init (replicate 64 7) AGENT_ROLE_NET_WATCH (Some ''sentry'') = Some d"
    using init_seals [of "replicate 64 7" AGENT_ROLE_NET_WATCH "Some ''sentry''"] by auto
  have "\<forall>p\<in>set [zero_pattern, zero_pattern]. pattern_wf p" by (simp add: pattern_wf_def zero_pattern_def)
  from agent_learns [OF _ d this] d show ?thesis by simp
qed

section \<open>Storage\<close>

text \<open>
  C34: Storing and loading. An agent written to a buffer of 4584 bytes or more and read back is the
  same agent when it verifies; when it does not, the load fails and leaves a zeroed agent. A
  buffer that is too short is refused on both sides and nothing is written.
\<close>

theorem agent_stored_and_loaded:
  assumes "length garbage = 64" and "dna_wf d"
  shows "if n < 4584 then bot_dna_serialize d buf n = (-1, buf) \<and> bot_dna_deserialize garbage buf n d0 = Some (-1, d0)
     else bot_dna_deserialize garbage (snd (bot_dna_serialize d buf n)) n d0 =
       Some (if bot_dna_verify garbage d = Some True then (0, d) else (-1, zero_dna))"
  using verify_iff [OF assms] dna_round [OF assms(2)] length_dna_bytes [OF assms(2)]
  by (simp add: bot_dna_serialize_def bot_dna_deserialize_def DNA_SIZE_def)

theorem agent_stored_and_loaded_witness:
  "bot_dna_deserialize (replicate 64 1) (snd (bot_dna_serialize zero_dna (replicate 5000 0) 5000)) 5000 zero_dna
     = Some (-1, zero_dna)"
  using agent_stored_and_loaded [of "replicate 64 1" zero_dna 5000 "replicate 5000 0" zero_dna]
    zero_dna_wf verify_iff [of "replicate 64 1" zero_dna]
  by (simp add: sealed_def BOT_DNA_MAGIC_def zero_dna_def)

text \<open>
  What the integrity check covers. It accepts exactly the agents whose magic and version are
  right and whose hash field is the standard hash of the 4228 bytes before it, whatever the health
  flag, the prime directives and the reserved bytes hold: those can be changed unnoticed.
\<close>

theorem verify_coverage:
  assumes "length garbage = 64" and "dna_wf d" and "length pd = 256" and "length rs = 64"
  shows "bot_dna_verify garbage (d\<lparr> is_healthy := hl, prime_directives := pd, dna_reserved := rs \<rparr>) =
     Some (dna_magic d = BOT_DNA_MAGIC \<and> dna_version d = BOT_DNA_VERSION
       \<and> integrity_hash d = sha256_spec (dna_head_bytes d)) \<and> length (dna_head_bytes d) = 4228"
proof -
  have "dna_wf (d\<lparr> is_healthy := hl, prime_directives := pd, dna_reserved := rs \<rparr>)"
    using assms by (simp add: dna_wf_def)
  from verify_iff [OF assms(1) this] show ?thesis
    using assms length_head [OF assms(2)] by (auto simp: sealed_def dna_wf_def)
qed

theorem verify_coverage_witness:
  "bot_dna_verify (replicate 64 1) (zero_dna\<lparr> is_healthy := 9, prime_directives := replicate 256 5,
     dna_reserved := replicate 64 2 \<rparr>) = Some False"
  using verify_coverage [of "replicate 64 1" zero_dna "replicate 256 5" "replicate 64 2" 9] zero_dna_wf
  by (simp add: BOT_DNA_MAGIC_def zero_dna_def)

end
