(* ===== verification/Territory_Map.thy ===== *)
theory Territory_Map
  imports Contracts C_Strings
begin

text \<open>
  \<open>bot-baremetal/core/territory_map.c\<close>: the map of processes, connections, watched files and memory
  regions a bot has seen, with a circular history of anomalies. A pool is the list of its first
  \<open>count\<close> entries (nothing behind them is ever read); character fields are the string up to their
  terminator, so \<open>strncpy\<close> into a cleared field of \<open>n\<close> bytes is \<open>take (n - 1)\<close>. The static counter of
  \<open>_now_placeholder\<close> is a field of the state. A pointer into a pool is its index.
\<close>

section \<open>State\<close>

definition TERRITORY_MAX_PROCESSES :: nat where "TERRITORY_MAX_PROCESSES = 512"
definition TERRITORY_MAX_CONNECTIONS :: nat where "TERRITORY_MAX_CONNECTIONS = 256"
definition TERRITORY_MAX_WATCHED_FILES :: nat where "TERRITORY_MAX_WATCHED_FILES = 64"
definition TERRITORY_MAX_MEM_REGIONS :: nat where "TERRITORY_MAX_MEM_REGIONS = 128"
definition TERRITORY_MAX_ANOMALIES :: nat where "TERRITORY_MAX_ANOMALIES = 256"

lemmas territory_sizes = TERRITORY_MAX_PROCESSES_def TERRITORY_MAX_CONNECTIONS_def
  TERRITORY_MAX_WATCHED_FILES_def TERRITORY_MAX_MEM_REGIONS_def TERRITORY_MAX_ANOMALIES_def

datatype elem_status = ELEM_UNKNOWN | ELEM_TRUSTED | ELEM_GREY | ELEM_SUSPICIOUS | ELEM_HOSTILE
  | ELEM_QUARANTINE

fun elem_code :: "elem_status \<Rightarrow> nat" where
  "elem_code ELEM_UNKNOWN = 0"
| "elem_code ELEM_TRUSTED = 1"
| "elem_code ELEM_GREY = 2"
| "elem_code ELEM_SUSPICIOUS = 3"
| "elem_code ELEM_HOSTILE = 4"
| "elem_code ELEM_QUARANTINE = 5"

record mapped_process =
  mp_pid :: u32
  mp_ppid :: u32
  mp_name :: string
  mp_path :: string
  mp_first_seen :: u64
  mp_last_seen :: u64
  mp_observation_count :: u32
  mp_status :: elem_status
  mp_has_network :: u8
  mp_has_children :: u8

record mapped_connection =
  mc_remote_ip :: "u8 list"
  mc_remote_port :: u16
  mc_local_port :: u16
  mc_protocol :: u8
  mc_status :: elem_status
  mc_owning_pid :: u32
  mc_bytes_sent :: u64
  mc_bytes_recv :: u64
  mc_connection_count :: u64
  mc_last_seen :: u64
  mc_domain :: string

record watched_file =
  wf_path :: string
  wf_expected_hash :: "u8 list"
  wf_current_hash :: "u8 list"
  wf_size_bytes :: u64
  wf_last_verified :: u64
  wf_is_intact :: u8
  wf_is_critical :: u8

record mapped_region =
  mr_base_addr :: u64
  mr_size :: u64
  mr_owning_pid :: u32
  mr_is_executable :: u8
  mr_is_writable :: u8
  mr_is_shared :: u8
  mr_status :: elem_status
  mr_label :: string

record territory_anomaly =
  an_timestamp :: u64
  an_pid :: u32
  an_type :: u8
  an_severity :: u8
  an_description :: string

definition ANOMALY_NEW_PROCESS :: u8 where "ANOMALY_NEW_PROCESS = 0x01"
definition ANOMALY_UNKNOWN_CONNECTION :: u8 where "ANOMALY_UNKNOWN_CONNECTION = 0x02"
definition ANOMALY_MEM_EXEC_WRITE :: u8 where "ANOMALY_MEM_EXEC_WRITE = 0x04"

record territory_map =
  processes :: "mapped_process list"
  connections :: "mapped_connection list"
  watched_files :: "watched_file list"
  mem_regions :: "mapped_region list"
  anomalies :: "nat \<Rightarrow> territory_anomaly"
  anomaly_head :: u32
  anomaly_count :: u32
  baseline_ready :: u8
  baseline_time :: u64
  total_observations :: u64
  total_anomalies :: u64
  clock :: u64

section \<open>Operations\<close>

definition now_placeholder :: "territory_map \<Rightarrow> u64 \<times> territory_map" where
  "now_placeholder m = (clock m + 1, m\<lparr> clock := clock m + 1 \<rparr>)"

definition zero_anomaly :: territory_anomaly where
  "zero_anomaly = \<lparr> an_timestamp = 0, an_pid = 0, an_type = 0, an_severity = 0, an_description = '''' \<rparr>"

definition territory_map_init :: "territory_map \<Rightarrow> territory_map" where
  "territory_map_init m = \<lparr> processes = [], connections = [], watched_files = [], mem_regions = [],
     anomalies = (\<lambda>_. zero_anomaly), anomaly_head = 0, anomaly_count = 0, baseline_ready = 0,
     baseline_time = 0, total_observations = 0, total_anomalies = 0, clock = clock m \<rparr>"

text \<open>The search loops stop at the first entry that matches.\<close>

fun find_index :: "('a \<Rightarrow> bool) \<Rightarrow> 'a list \<Rightarrow> nat option" where
  "find_index P [] = None"
| "find_index P (x # xs) = (if P x then Some 0 else map_option Suc (find_index P xs))"

definition territory_record_anomaly ::
  "u8 \<Rightarrow> u8 \<Rightarrow> u32 \<Rightarrow> string option \<Rightarrow> territory_map \<Rightarrow> territory_map" where
  "territory_record_anomaly type severity pid description m =
     (let idx = unat (anomaly_head m) mod TERRITORY_MAX_ANOMALIES;
          a = anomalies m idx;
          (t, m) = now_placeholder m;
          a = a\<lparr> an_timestamp := t, an_pid := pid, an_type := type, an_severity := severity \<rparr>;
          a = (case description of None \<Rightarrow> a | Some s \<Rightarrow> a\<lparr> an_description := take 127 s \<rparr>);
          m = m\<lparr> anomalies := (anomalies m)(idx := a), anomaly_head := anomaly_head m + 1 \<rparr>;
          m = (if unat (anomaly_count m) < TERRITORY_MAX_ANOMALIES
               then m\<lparr> anomaly_count := anomaly_count m + 1 \<rparr> else m)
      in m\<lparr> total_anomalies := total_anomalies m + 1 \<rparr>)"

definition territory_last_anomaly :: "territory_map \<Rightarrow> territory_anomaly option" where
  "territory_last_anomaly m = (if anomaly_count m = 0 then None
     else Some (anomalies m (unat (anomaly_head m - 1 + of_nat TERRITORY_MAX_ANOMALIES)
                               mod TERRITORY_MAX_ANOMALIES)))"

definition observe_total :: "territory_map \<Rightarrow> territory_map" where
  "observe_total m = m\<lparr> total_observations := total_observations m + 1 \<rparr>"

definition c_field :: "nat \<Rightarrow> string option \<Rightarrow> string" where
  "c_field n s = (case s of None \<Rightarrow> '''' | Some s \<Rightarrow> take (n - 1) s)"

definition territory_observe_process ::
  "u32 \<Rightarrow> u32 \<Rightarrow> string option \<Rightarrow> string option \<Rightarrow> territory_map \<Rightarrow> nat option \<times> territory_map" where
  "territory_observe_process pid ppid name path m =
     (case find_index (\<lambda>p. mp_pid p = pid) (processes m) of
        Some i \<Rightarrow>
          let (t, m) = now_placeholder m; p = processes m ! i;
              p = p\<lparr> mp_last_seen := t, mp_observation_count := mp_observation_count p + 1 \<rparr>
          in (Some i, observe_total (m\<lparr> processes := (processes m)[i := p] \<rparr>))
      | None \<Rightarrow>
          if length (processes m) \<ge> TERRITORY_MAX_PROCESSES then (None, m)
          else let (t, m) = now_placeholder m;
                   p = \<lparr> mp_pid = pid, mp_ppid = ppid, mp_name = c_field 64 name,
                         mp_path = c_field 256 path, mp_first_seen = t, mp_last_seen = t,
                         mp_observation_count = 1, mp_status = ELEM_UNKNOWN, mp_has_network = 0,
                         mp_has_children = 0 \<rparr>;
                   i = length (processes m);
                   m = observe_total (m\<lparr> processes := processes m @ [p] \<rparr>)
               in (Some i, territory_record_anomaly ANOMALY_NEW_PROCESS 3 pid
                     (Some (case name of None \<Rightarrow> ''unknown'' | Some s \<Rightarrow> s)) m))"

definition territory_mark_process :: "u32 \<Rightarrow> elem_status \<Rightarrow> territory_map \<Rightarrow> territory_map" where
  "territory_mark_process pid status m =
     (case find_index (\<lambda>p. mp_pid p = pid) (processes m) of
        Some i \<Rightarrow> m\<lparr> processes := (processes m)[i := (processes m ! i)\<lparr> mp_status := status \<rparr>] \<rparr>
      | None \<Rightarrow> m)"

definition connection_desc :: "u8 list \<Rightarrow> u16 \<Rightarrow> string" where
  "connection_desc ip port = take 63 (''New connection to '' @ fmt_u (unat (ip ! 0)) @ ''.''
     @ fmt_u (unat (ip ! 1)) @ ''.'' @ fmt_u (unat (ip ! 2)) @ ''.'' @ fmt_u (unat (ip ! 3)) @ '':''
     @ fmt_u (unat port))"

definition territory_observe_connection ::
  "u32 \<Rightarrow> u8 list \<Rightarrow> u16 \<Rightarrow> u64 \<Rightarrow> territory_map \<Rightarrow> nat option \<times> territory_map" where
  "territory_observe_connection pid remote_ip remote_port bytes_sent m =
     (case find_index (\<lambda>c. mc_remote_port c = remote_port \<and> take 4 (mc_remote_ip c) = take 4 remote_ip)
             (connections m) of
        Some i \<Rightarrow>
          let c = connections m ! i; (t, m) = now_placeholder m;
              c = c\<lparr> mc_connection_count := mc_connection_count c + 1,
                     mc_bytes_sent := mc_bytes_sent c + bytes_sent, mc_last_seen := t,
                     mc_owning_pid := pid \<rparr>
          in (Some i, observe_total (m\<lparr> connections := (connections m)[i := c] \<rparr>))
      | None \<Rightarrow>
          if length (connections m) \<ge> TERRITORY_MAX_CONNECTIONS then (None, m)
          else let (t, m) = now_placeholder m;
                   c = \<lparr> mc_remote_ip = take 4 remote_ip @ replicate 12 0, mc_remote_port = remote_port,
                         mc_local_port = 0, mc_protocol = 0, mc_status = ELEM_UNKNOWN,
                         mc_owning_pid = pid, mc_bytes_sent = bytes_sent, mc_bytes_recv = 0,
                         mc_connection_count = 1, mc_last_seen = t, mc_domain = '''' \<rparr>;
                   i = length (connections m);
                   m = observe_total (m\<lparr> connections := connections m @ [c] \<rparr>)
               in (Some i, territory_record_anomaly ANOMALY_UNKNOWN_CONNECTION 2 pid
                     (Some (connection_desc remote_ip remote_port)) m))"

definition territory_watch_file :: "string option \<Rightarrow> u8 \<Rightarrow> territory_map \<Rightarrow> int \<times> territory_map" where
  "territory_watch_file path is_critical m =
     (case path of None \<Rightarrow> (-1, m)
      | Some s \<Rightarrow>
          if length (watched_files m) \<ge> TERRITORY_MAX_WATCHED_FILES then (-1, m)
          else let (t, m) = now_placeholder m;
                   f = \<lparr> wf_path = take 255 s, wf_expected_hash = replicate 32 0,
                         wf_current_hash = replicate 32 0, wf_size_bytes = 0, wf_last_verified = t,
                         wf_is_intact = 1, wf_is_critical = is_critical \<rparr>
               in (0, m\<lparr> watched_files := watched_files m @ [f] \<rparr>))"

definition territory_verify_files :: "territory_map \<Rightarrow> nat" where
  "territory_verify_files m = fold (\<lambda>f modified. if wf_is_intact f = 0 then modified + 1 else modified)
     (watched_files m) 0"

definition territory_observe_mem ::
  "u64 \<Rightarrow> u64 \<Rightarrow> u32 \<Rightarrow> u8 \<Rightarrow> u8 \<Rightarrow> territory_map \<Rightarrow> nat option \<times> territory_map" where
  "territory_observe_mem base sz pid exec write m =
     (case find_index (\<lambda>r. mr_base_addr r = base \<and> mr_owning_pid r = pid) (mem_regions m) of
        Some i \<Rightarrow>
          let r = mem_regions m ! i;
              m = (if exec \<noteq> 0 \<and> write \<noteq> 0 \<and> (mr_is_executable r = 0 \<or> mr_is_writable r = 0)
                   then territory_record_anomaly ANOMALY_MEM_EXEC_WRITE 7 pid (Some ''Region became W+X'')
                     (m\<lparr> mem_regions := (mem_regions m)[i := r\<lparr> mr_status := ELEM_SUSPICIOUS \<rparr>] \<rparr>)
                   else m);
              r = mem_regions m ! i
          in (Some i, m\<lparr> mem_regions := (mem_regions m)[i := r\<lparr> mr_is_executable := exec,
                mr_is_writable := write \<rparr>] \<rparr>)
      | None \<Rightarrow>
          if length (mem_regions m) \<ge> TERRITORY_MAX_MEM_REGIONS then (None, m)
          else let r = \<lparr> mr_base_addr = base, mr_size = sz, mr_owning_pid = pid,
                         mr_is_executable = exec, mr_is_writable = write, mr_is_shared = 0,
                         mr_status = (if exec \<noteq> 0 \<and> write \<noteq> 0 then ELEM_SUSPICIOUS else ELEM_UNKNOWN),
                         mr_label = '''' \<rparr>;
                   i = length (mem_regions m);
                   m = m\<lparr> mem_regions := mem_regions m @ [r] \<rparr>;
                   m = (if exec \<noteq> 0 \<and> write \<noteq> 0
                        then territory_record_anomaly ANOMALY_MEM_EXEC_WRITE 8 pid
                          (Some (''New W+X region '' @ [CHR 0xE2, CHR 0x80, CHR 0x94] @ '' possible shellcode'')) m
                        else m)
               in (Some i, observe_total m))"

definition trust_unknown :: "elem_status \<Rightarrow> elem_status" where
  "trust_unknown s = (if s = ELEM_UNKNOWN then ELEM_TRUSTED else s)"

definition territory_establish_baseline :: "territory_map \<Rightarrow> territory_map" where
  "territory_establish_baseline m =
     (let m = m\<lparr> baseline_ready := 1 \<rparr>; (t, m) = now_placeholder m; m = m\<lparr> baseline_time := t \<rparr>
      in m\<lparr> processes := map (\<lambda>p. p\<lparr> mp_status := trust_unknown (mp_status p) \<rparr>) (processes m),
            connections := map (\<lambda>c. c\<lparr> mc_status := trust_unknown (mc_status c) \<rparr>) (connections m),
            mem_regions := map (\<lambda>r. r\<lparr> mr_status := trust_unknown (mr_status r) \<rparr>) (mem_regions m) \<rparr>)"

text \<open>The numbers the summary prints: the suspicious processes and the last anomaly.\<close>

definition territory_print_summary :: "territory_map \<Rightarrow> nat \<times> territory_anomaly option" where
  "territory_print_summary m =
     (fold (\<lambda>p hostile. if elem_code (mp_status p) \<ge> elem_code ELEM_SUSPICIOUS then hostile + 1 else hostile)
        (processes m) 0, territory_last_anomaly m)"

end
