(* ===== verification/Territory_Facts.thy ===== *)
theory Territory_Facts
  imports Territory_Map
begin

text \<open>
  The territory map over its whole life: the invariant that every operation keeps (pools within
  their bounds, one entry per process, destination and region, writable and executable regions
  always suspicious), what the detection of a stranger does, the counts after a run of
  observations, and the history of anomalies as a circular log.
\<close>

section \<open>Search\<close>

lemma find_index_Some: "find_index P xs = Some i \<Longrightarrow> i < length xs \<and> P (xs ! i) \<and> (\<forall>j<i. \<not> P (xs ! j))"
proof (induction xs arbitrary: i)
  case (Cons x xs)
  then show ?case by (auto simp: less_Suc_eq_0_disj split: if_splits)
qed simp

lemma find_index_None: "find_index P xs = None \<longleftrightarrow> (\<forall>x\<in>set xs. \<not> P x)"
  by (induction xs) auto

lemma map_update_same: "i < length xs \<Longrightarrow> f y = f (xs ! i) \<Longrightarrow> map f (xs[i := y]) = map f xs"
  by (simp add: map_update list_update_same_conv)

lemma distinct_snoc_key: "distinct (map f xs) \<Longrightarrow> (\<forall>x\<in>set xs. f x \<noteq> f y) \<Longrightarrow> distinct (map f (xs @ [y]))"
  by auto

lemma set_updateE: "x \<in> set (xs[i := y]) \<Longrightarrow> x = y \<or> x \<in> set xs"
  using set_update_subset_insert by fastforce

section \<open>Anomalies\<close>

lemma record_anomaly_frame [simp]:
  "processes (territory_record_anomaly ty sv pid d m) = processes m"
  "connections (territory_record_anomaly ty sv pid d m) = connections m"
  "watched_files (territory_record_anomaly ty sv pid d m) = watched_files m"
  "mem_regions (territory_record_anomaly ty sv pid d m) = mem_regions m"
  "baseline_ready (territory_record_anomaly ty sv pid d m) = baseline_ready m"
  "total_observations (territory_record_anomaly ty sv pid d m) = total_observations m"
  "total_anomalies (territory_record_anomaly ty sv pid d m) = total_anomalies m + 1"
  by (simp_all add: territory_record_anomaly_def now_placeholder_def Let_def)

lemma observe_total_frame [simp]:
  "processes (observe_total m) = processes m" "connections (observe_total m) = connections m"
  "watched_files (observe_total m) = watched_files m" "mem_regions (observe_total m) = mem_regions m"
  "baseline_ready (observe_total m) = baseline_ready m" "total_anomalies (observe_total m) = total_anomalies m"
  "total_observations (observe_total m) = total_observations m + 1"
  by (simp_all add: observe_total_def)

definition anomaly_key :: "territory_anomaly \<Rightarrow> u8 \<times> u8 \<times> u32" where
  "anomaly_key a = (an_type a, an_severity a, an_pid a)"

definition report :: "string option \<Rightarrow> u8 \<times> u8 \<times> u32 \<Rightarrow> territory_map \<Rightarrow> territory_map" where
  "report d e = (case e of (ty, sv, pid) \<Rightarrow> territory_record_anomaly ty sv pid d)"

lemma head_mod: "unat (h + 1 :: u32) mod 256 = Suc (unat h) mod 256"
proof -
  have "unat (h + 1) mod 256 = Suc (unat h) mod 4294967296 mod 256" by (simp add: unat_word_ariths)
  also have "\<dots> = Suc (unat h) mod 256" by (rule mod_mod_cancel) simp
  finally show ?thesis .
qed

interpretation anomaly_log: ring_log 256 "report d" "\<lambda>m i. anomaly_key (anomalies m i)"
  "\<lambda>m. unat (anomaly_head m)" "\<lambda>_. True" for d
proof (unfold_locales, goal_cases)
  case (3 s i e)
  then show ?case
    by (cases e) (auto simp: report_def territory_record_anomaly_def now_placeholder_def Let_def
      anomaly_key_def TERRITORY_MAX_ANOMALIES_def split: option.splits)
next
  case (4 s e)
  have "anomaly_head (report d e s) = anomaly_head s + 1"
    by (cases e) (simp add: report_def territory_record_anomaly_def now_placeholder_def Let_def)
  then show ?case by (simp add: head_mod)
qed simp_all

lemma last_slot: "(unat (h + 1 - 1 + of_nat TERRITORY_MAX_ANOMALIES :: u32)) mod TERRITORY_MAX_ANOMALIES
    = unat h mod 256"
proof -
  have "unat (h + 256) mod 256 = (unat h + 256) mod 4294967296 mod 256" by (simp add: unat_word_ariths)
  also have "\<dots> = (unat h + 256) mod 256" by (rule mod_mod_cancel) simp
  finally show ?thesis by (simp add: TERRITORY_MAX_ANOMALIES_def)
qed

lemma count_nonzero: "anomaly_count (territory_record_anomaly ty sv pid d m) \<noteq> 0"
proof (cases "unat (anomaly_count m) < 256")
  case True
  then have "unat (anomaly_count m + 1) = Suc (unat (anomaly_count m))" by (simp add: unat_word_ariths)
  then have "anomaly_count m + 1 \<noteq> 0" by (metis Zero_not_Suc unat_0)
  then show ?thesis using True
    by (simp add: territory_record_anomaly_def now_placeholder_def Let_def TERRITORY_MAX_ANOMALIES_def)
next
  case False
  then have "anomaly_count m \<noteq> 0" by auto
  with False show ?thesis
    by (simp add: territory_record_anomaly_def now_placeholder_def Let_def TERRITORY_MAX_ANOMALIES_def)
qed

lemma last_recorded:
  "\<exists>a. territory_last_anomaly (territory_record_anomaly ty sv pid (Some d) m) = Some a
     \<and> anomaly_key a = (ty, sv, pid) \<and> an_description a = take 127 d \<and> an_timestamp a = clock m + 1"
proof -
  define m' where "m' = territory_record_anomaly ty sv pid (Some d) m"
  have h: "anomaly_head m' = anomaly_head m + 1"
    by (simp add: m'_def territory_record_anomaly_def now_placeholder_def Let_def)
  have "territory_last_anomaly m' = Some (anomalies m' (unat (anomaly_head m) mod 256))"
    using count_nonzero [of ty sv pid "Some d" m, folded m'_def]
    by (simp only: territory_last_anomaly_def h last_slot if_False)
  then show ?thesis
    by (simp add: m'_def territory_record_anomaly_def now_placeholder_def Let_def anomaly_key_def
        TERRITORY_MAX_ANOMALIES_def)
qed

section \<open>The invariant\<close>

datatype territory_op =
    See_Process u32 u32 "string option" "string option"
  | Mark_Process u32 elem_status
  | See_Connection u32 "u8 list" u16 u64
  | Watch_File "string option" u8
  | See_Region u64 u64 u32 u8 u8
  | Report_Anomaly u8 u8 u32 "string option"
  | Establish_Baseline

primrec territory_step :: "territory_op \<Rightarrow> territory_map \<Rightarrow> territory_map" where
  "territory_step (See_Process pid ppid name path) m = snd (territory_observe_process pid ppid name path m)"
| "territory_step (Mark_Process pid st) m = territory_mark_process pid st m"
| "territory_step (See_Connection pid ip port sent) m = snd (territory_observe_connection pid ip port sent m)"
| "territory_step (Watch_File path crit) m = snd (territory_watch_file path crit m)"
| "territory_step (See_Region base sz pid x w) m = snd (territory_observe_mem base sz pid x w m)"
| "territory_step (Report_Anomaly ty sv pid d) m = territory_record_anomaly ty sv pid d m"
| "territory_step Establish_Baseline m = territory_establish_baseline m"

definition process_ok :: "mapped_process list \<Rightarrow> bool" where
  "process_ok ps \<longleftrightarrow> length ps \<le> 512 \<and> distinct (map mp_pid ps)"

definition dest :: "mapped_connection \<Rightarrow> u16 \<times> u8 list" where
  "dest c = (mc_remote_port c, take 4 (mc_remote_ip c))"

definition connection_ok :: "mapped_connection list \<Rightarrow> bool" where
  "connection_ok cs \<longleftrightarrow> length cs \<le> 256 \<and> distinct (map dest cs)"

definition files_ok :: "watched_file list \<Rightarrow> bool" where
  "files_ok fs \<longleftrightarrow> length fs \<le> 64 \<and> (\<forall>f\<in>set fs. wf_is_intact f = 1)"

definition region_key :: "mapped_region \<Rightarrow> u64 \<times> u32" where
  "region_key r = (mr_base_addr r, mr_owning_pid r)"

definition write_exec :: "mapped_region \<Rightarrow> bool" where
  "write_exec r \<longleftrightarrow> mr_is_executable r \<noteq> 0 \<and> mr_is_writable r \<noteq> 0"

definition region_ok :: "mapped_region list \<Rightarrow> bool" where
  "region_ok rs \<longleftrightarrow> length rs \<le> 128 \<and> distinct (map region_key rs)
     \<and> (\<forall>r\<in>set rs. write_exec r \<longrightarrow> mr_status r = ELEM_SUSPICIOUS)"

definition territory_ok :: "territory_map \<Rightarrow> bool" where
  "territory_ok m \<longleftrightarrow> process_ok (processes m) \<and> connection_ok (connections m)
     \<and> files_ok (watched_files m) \<and> region_ok (mem_regions m)"

lemma process_ok_update: "process_ok ps \<Longrightarrow> i < length ps \<Longrightarrow> mp_pid p = mp_pid (ps ! i) \<Longrightarrow> process_ok (ps[i := p])"
  by (simp add: process_ok_def map_update_same)

lemma process_ok_snoc: "process_ok ps \<Longrightarrow> length ps < 512 \<Longrightarrow> \<forall>q\<in>set ps. mp_pid q \<noteq> mp_pid p \<Longrightarrow> process_ok (ps @ [p])"
  by (auto simp: process_ok_def)

lemma observe_process_frame:
  "connections (snd (territory_observe_process pid ppid name path m)) = connections m"
  "watched_files (snd (territory_observe_process pid ppid name path m)) = watched_files m"
  "mem_regions (snd (territory_observe_process pid ppid name path m)) = mem_regions m"
  by (simp_all add: territory_observe_process_def now_placeholder_def Let_def split: option.split)

lemma observe_process_ok:
  "process_ok (processes m) \<Longrightarrow> process_ok (processes (snd (territory_observe_process pid ppid name path m)))"
  by (auto simp: territory_observe_process_def now_placeholder_def Let_def find_index_None
      TERRITORY_MAX_PROCESSES_def dest!: find_index_Some intro!: process_ok_update process_ok_snoc
      split: option.split)

lemma mark_process_ok: "process_ok (processes m) \<Longrightarrow> process_ok (processes (territory_mark_process pid st m))"
  by (auto simp: territory_mark_process_def dest!: find_index_Some intro!: process_ok_update split: option.split)

lemma mark_process_frame [simp]:
  "connections (territory_mark_process pid st m) = connections m"
  "watched_files (territory_mark_process pid st m) = watched_files m"
  "mem_regions (territory_mark_process pid st m) = mem_regions m"
  by (simp_all add: territory_mark_process_def split: option.split)

lemma observe_connection_frame:
  "processes (snd (territory_observe_connection pid ip port sent m)) = processes m"
  "watched_files (snd (territory_observe_connection pid ip port sent m)) = watched_files m"
  "mem_regions (snd (territory_observe_connection pid ip port sent m)) = mem_regions m"
  by (simp_all add: territory_observe_connection_def now_placeholder_def Let_def split: option.split)

lemma observe_connection_ok:
  assumes "connection_ok (connections m)" "length ip \<ge> 4"
  shows "connection_ok (connections (snd (territory_observe_connection pid ip port sent m)))"
proof (cases "find_index (\<lambda>c. mc_remote_port c = port \<and> take 4 (mc_remote_ip c) = take 4 ip) (connections m)")
  case None
  then have "\<forall>c\<in>set (connections m). dest c \<noteq> (port, take 4 ip)"
    by (auto simp: find_index_None dest_def)
  with assms None show ?thesis
    by (auto simp: territory_observe_connection_def now_placeholder_def Let_def connection_ok_def
        TERRITORY_MAX_CONNECTIONS_def dest_def)
next
  case (Some i)
  from find_index_Some [OF this] have "i < length (connections m)" by blast
  with assms Some show ?thesis
    by (simp add: territory_observe_connection_def now_placeholder_def Let_def connection_ok_def
        map_update_same dest_def)
qed

lemma watch_file_ok:
  "files_ok (watched_files m) \<Longrightarrow> files_ok (watched_files (snd (territory_watch_file path crit m)))"
  "processes (snd (territory_watch_file path crit m)) = processes m"
  "connections (snd (territory_watch_file path crit m)) = connections m"
  "mem_regions (snd (territory_watch_file path crit m)) = mem_regions m"
  by (auto simp: territory_watch_file_def now_placeholder_def Let_def files_ok_def
      TERRITORY_MAX_WATCHED_FILES_def split: option.split)

lemma observe_mem_frame:
  "processes (snd (territory_observe_mem base sz pid x w m)) = processes m"
  "connections (snd (territory_observe_mem base sz pid x w m)) = connections m"
  "watched_files (snd (territory_observe_mem base sz pid x w m)) = watched_files m"
  by (simp_all add: territory_observe_mem_def Let_def split: option.split)

lemma observe_mem_ok:
  assumes ok: "region_ok (mem_regions m)"
  shows "region_ok (mem_regions (snd (territory_observe_mem base sz pid x w m)))"
proof (cases "find_index (\<lambda>r. mr_base_addr r = base \<and> mr_owning_pid r = pid) (mem_regions m)")
  case None
  then have "\<forall>r\<in>set (mem_regions m). region_key r \<noteq> (base, pid)"
    by (auto simp: find_index_None region_key_def)
  with ok None show ?thesis
    by (auto simp: territory_observe_mem_def Let_def region_ok_def TERRITORY_MAX_MEM_REGIONS_def
        region_key_def write_exec_def)
next
  case (Some i)
  define r where "r = mem_regions m ! i"
  define r' where "r' = (if x \<noteq> 0 \<and> w \<noteq> 0 \<and> (mr_is_executable r = 0 \<or> mr_is_writable r = 0)
    then r\<lparr> mr_status := ELEM_SUSPICIOUS \<rparr> else r)\<lparr> mr_is_executable := x, mr_is_writable := w \<rparr>"
  have i: "i < length (mem_regions m)" using find_index_Some [OF Some] by blast
  then have e: "mem_regions (snd (territory_observe_mem base sz pid x w m)) = (mem_regions m)[i := r']"
    by (simp add: territory_observe_mem_def Some Let_def r_def r'_def)
  have "region_key r' = region_key (mem_regions m ! i)" by (simp add: region_key_def r'_def r_def)
  then have d: "distinct (map region_key ((mem_regions m)[i := r']))"
    using ok i by (simp add: region_ok_def map_update_same)
  have "write_exec r \<longrightarrow> mr_status r = ELEM_SUSPICIOUS"
    using ok i by (simp add: region_ok_def r_def)
  then have "write_exec r' \<longrightarrow> mr_status r' = ELEM_SUSPICIOUS"
    by (auto simp: write_exec_def r'_def)
  then show ?thesis using ok d unfolding e by (auto simp: region_ok_def dest!: set_updateE)
qed

lemma key_status [simp]:
  "dest (c\<lparr> mc_status := st \<rparr>) = dest c" "region_key (r\<lparr> mr_status := st \<rparr>) = region_key r"
  by (simp_all add: dest_def region_key_def)

lemma baseline_ok:
  "process_ok (processes m) \<Longrightarrow> process_ok (processes (territory_establish_baseline m))"
  "connection_ok (connections m) \<Longrightarrow> connection_ok (connections (territory_establish_baseline m))"
  "watched_files (territory_establish_baseline m) = watched_files m"
  "region_ok (mem_regions m) \<Longrightarrow> region_ok (mem_regions (territory_establish_baseline m))"
  by (auto simp: territory_establish_baseline_def now_placeholder_def Let_def process_ok_def comp_def
      connection_ok_def region_ok_def write_exec_def trust_unknown_def)

text \<open>The addresses passed to the map have at least the four bytes it reads.\<close>

primrec op_ok :: "territory_op \<Rightarrow> bool" where
  "op_ok (See_Process pid ppid name path) = True"
| "op_ok (Mark_Process pid st) = True"
| "op_ok (See_Connection pid ip port sent) = (4 \<le> length ip)"
| "op_ok (Watch_File path crit) = True"
| "op_ok (See_Region base sz pid x w) = True"
| "op_ok (Report_Anomaly ty sv pid d) = True"
| "op_ok Establish_Baseline = True"

lemma step_ok: "territory_ok m \<Longrightarrow> op_ok p \<Longrightarrow> territory_ok (territory_step p m)"
  by (cases p) (simp_all add: territory_ok_def observe_process_ok observe_process_frame mark_process_ok
      observe_connection_ok observe_connection_frame watch_file_ok observe_mem_ok observe_mem_frame
      baseline_ok)

lemma run_ok: "territory_ok m \<Longrightarrow> \<forall>p\<in>set ops. op_ok p \<Longrightarrow> territory_ok (fold territory_step ops m)"
  by (induction ops arbitrary: m) (simp_all add: step_ok)

lemma init_ok: "territory_ok (territory_map_init m)"
  by (simp add: territory_map_init_def territory_ok_def process_ok_def connection_ok_def files_ok_def
      region_ok_def)

lemma verify_none: "files_ok fs \<Longrightarrow> fold (\<lambda>f n. if wf_is_intact f = 0 then n + 1 else n) fs k = (k :: nat)"
  by (induction fs) (simp_all add: files_ok_def)

text \<open>
  C35: The map over its whole life. After any sequence of operations from a cleared map the pools are
  within their bounds, no process, destination or region is entered twice, every region that is
  writable and executable is marked suspicious, and the file check has nothing to report: no
  operation ever marks a watched file as modified.
\<close>

theorem territory_invariant:
  assumes "\<forall>p\<in>set ops. op_ok p" and "m = fold territory_step ops (territory_map_init m0)"
  shows "length (processes m) \<le> 512 \<and> length (connections m) \<le> 256
     \<and> length (watched_files m) \<le> 64 \<and> length (mem_regions m) \<le> 128
     \<and> distinct (map mp_pid (processes m)) \<and> distinct (map dest (connections m))
     \<and> distinct (map region_key (mem_regions m))
     \<and> (\<forall>r\<in>set (mem_regions m). write_exec r \<longrightarrow> mr_status r = ELEM_SUSPICIOUS)
     \<and> territory_verify_files m = 0"
  using run_ok [OF init_ok assms(1), of m0] assms(2) verify_none [of "watched_files m" 0]
  by (simp add: territory_ok_def process_ok_def connection_ok_def files_ok_def region_ok_def
      territory_verify_files_def)

theorem territory_invariant_witness:
  "\<forall>m0. territory_verify_files (fold territory_step [See_Process 1 0 None None, Establish_Baseline,
     See_Connection 1 [10, 0, 0, 1] 80 5, Watch_File (Some ''/boot'') 1, See_Region 4096 64 1 1 1]
     (territory_map_init m0)) = 0"
proof
  fix m0
  let ?ops = "[See_Process 1 0 None None, Establish_Baseline,
     See_Connection 1 [10, 0, 0, 1] 80 5, Watch_File (Some ''/boot'') 1, See_Region 4096 64 1 1 1]"
  have "\<forall>p\<in>set ?ops. op_ok p" by simp
  from territory_invariant [OF this refl, of m0]
  show "territory_verify_files (fold territory_step ?ops (territory_map_init m0)) = 0" by blast
qed

section \<open>Detection\<close>

lemma baseline_frame:
  "processes (territory_establish_baseline m) = map (\<lambda>p. p\<lparr> mp_status := trust_unknown (mp_status p) \<rparr>) (processes m)"
  "total_anomalies (territory_establish_baseline m) = total_anomalies m"
  by (simp_all add: territory_establish_baseline_def now_placeholder_def Let_def)

lemma baseline_trusts:
  "length (processes (territory_establish_baseline m)) = length (processes m)"
  "mp_pid ` set (processes (territory_establish_baseline m)) = mp_pid ` set (processes m)"
  "ELEM_UNKNOWN \<notin> mp_status ` set (processes (territory_establish_baseline m))"
  by (auto simp: baseline_frame image_image trust_unknown_def)

lemma observe_known:
  assumes "pid \<in> mp_pid ` set (processes m)"
  shows "\<exists>i. territory_observe_process pid ppid name path m =
     (Some i, observe_total (m\<lparr> clock := clock m + 1, processes := (processes m)[i := (processes m ! i)
        \<lparr> mp_last_seen := clock m + 1, mp_observation_count := mp_observation_count (processes m ! i) + 1 \<rparr>] \<rparr>))
     \<and> i < length (processes m) \<and> mp_pid (processes m ! i) = pid"
proof -
  have "find_index (\<lambda>p. mp_pid p = pid) (processes m) \<noteq> None"
    using assms by (auto simp: find_index_None)
  then obtain i where "find_index (\<lambda>p. mp_pid p = pid) (processes m) = Some i" by blast
  with find_index_Some [OF this] show ?thesis
    by (simp add: territory_observe_process_def now_placeholder_def Let_def)
qed

lemma observe_new:
  assumes "pid \<notin> mp_pid ` set (processes m)"
  shows "territory_observe_process pid ppid name path m =
     (if 512 \<le> length (processes m) then (None, m)
      else (Some (length (processes m)), territory_record_anomaly ANOMALY_NEW_PROCESS 3 pid
        (Some (case name of None \<Rightarrow> ''unknown'' | Some s \<Rightarrow> s))
        (observe_total (m\<lparr> clock := clock m + 1, processes := processes m @ [\<lparr> mp_pid = pid, mp_ppid = ppid,
           mp_name = c_field 64 name, mp_path = c_field 256 path, mp_first_seen = clock m + 1,
           mp_last_seen = clock m + 1, mp_observation_count = 1, mp_status = ELEM_UNKNOWN,
           mp_has_network = 0, mp_has_children = 0 \<rparr>] \<rparr>))))"
proof -
  have "find_index (\<lambda>p. mp_pid p = pid) (processes m) = None"
    using assms by (auto simp: find_index_None)
  then show ?thesis
    by (simp add: territory_observe_process_def now_placeholder_def Let_def TERRITORY_MAX_PROCESSES_def)
qed

text \<open>
  After the baseline only strangers stand out. A process of the baseline is observed without an
  anomaly and no entry is unknown; a new one gets the only unknown entry, and the last anomaly is a
  new-process anomaly about it. When the pool of 512 is full a stranger leaves no trace at all.
\<close>

theorem stranger_detected:
  "let b = territory_establish_baseline m; (r, m') = territory_observe_process pid ppid name path b in
     if pid \<in> mp_pid ` set (processes m)
     then r \<noteq> None \<and> total_anomalies m' = total_anomalies m \<and> ELEM_UNKNOWN \<notin> mp_status ` set (processes m')
     else if length (processes m) < 512
     then r = Some (length (processes m)) \<and> butlast (processes m') = processes b
       \<and> ELEM_UNKNOWN \<notin> mp_status ` set (butlast (processes m'))
       \<and> mp_pid (last (processes m')) = pid \<and> mp_status (last (processes m')) = ELEM_UNKNOWN
       \<and> total_anomalies m' = total_anomalies m + 1
       \<and> (\<exists>a. territory_last_anomaly m' = Some a \<and> anomaly_key a = (ANOMALY_NEW_PROCESS, 3, pid))
     else r = None \<and> m' = b"
proof -
  define b where "b = territory_establish_baseline m"
  note trusts = baseline_trusts [of m, folded b_def]
  have ta: "total_anomalies b = total_anomalies m" by (simp add: b_def baseline_frame)
  show ?thesis
  proof (cases "pid \<in> mp_pid ` set (processes m)")
    case True
    then have "pid \<in> mp_pid ` set (processes b)" using trusts by simp
    from observe_known [OF this, of ppid name path] obtain i where
      i: "territory_observe_process pid ppid name path b =
       (Some i, observe_total (b\<lparr> clock := clock b + 1, processes := (processes b)[i := (processes b ! i)
        \<lparr> mp_last_seen := clock b + 1, mp_observation_count := mp_observation_count (processes b ! i) + 1 \<rparr>] \<rparr>))"
      "i < length (processes b)" by blast
    have "mp_status (processes b ! i) \<noteq> ELEM_UNKNOWN" using trusts(3) i(2) by (metis imageI nth_mem)
    then have "ELEM_UNKNOWN \<notin> mp_status ` set ((processes b)[i := (processes b ! i)
        \<lparr> mp_last_seen := clock b + 1, mp_observation_count := mp_observation_count (processes b ! i) + 1 \<rparr>])"
      using trusts(3) by (auto dest!: set_updateE)
    with True i(1) ta show ?thesis unfolding Let_def b_def [symmetric] by simp
  next
    case False
    then have "pid \<notin> mp_pid ` set (processes b)" using trusts by simp
    note new = observe_new [OF this, of ppid name path]
    show ?thesis
    proof (cases "length (processes m) < 512")
      case True
      with new False trusts ta last_recorded show ?thesis
        unfolding Let_def b_def [symmetric] by (simp add: butlast_append) meson
    next
      case full: False
      with new False trusts show ?thesis unfolding Let_def b_def [symmetric] by simp
    qed
  qed
qed

section \<open>Counts\<close>

definition observe_all :: "(u32 \<times> u32 \<times> string option \<times> string option) list \<Rightarrow> territory_map \<Rightarrow> territory_map" where
  "observe_all = fold (\<lambda>(pid, ppid, name, path) m. snd (territory_observe_process pid ppid name path m))"

definition first_seen :: "'a list \<Rightarrow> 'a list" where
  "first_seen xs = rev (remdups (rev xs))"

lemma first_seen_simps:
  "first_seen [] = []" "first_seen (xs @ [x]) = (if x \<in> set xs then first_seen xs else first_seen xs @ [x])"
  "set (first_seen xs) = set xs" "length (first_seen xs) = card (set xs)" "distinct (first_seen xs)"
  by (simp_all add: first_seen_def length_remdups_card_conv)

lemma count_list_snoc: "count_list (xs @ [x]) y = count_list xs y + (if x = y then 1 else 0)"
  by (induction xs) auto

lemma counts_run:
  "card (set (map fst obs)) \<le> 512 \<Longrightarrow> (let m = observe_all obs (territory_map_init m0) in
     map mp_pid (processes m) = first_seen (map fst obs)
     \<and> map mp_observation_count (processes m) = map (\<lambda>p. of_nat (count_list (map fst obs) p)) (first_seen (map fst obs))
     \<and> total_observations m = of_nat (length obs) \<and> total_anomalies m = of_nat (card (set (map fst obs))))"
proof (induction obs rule: rev_induct)
  case Nil
  then show ?case by (simp add: observe_all_def territory_map_init_def first_seen_simps)
next
  case (snoc ob obs)
  obtain pid ppid name path where ob: "ob = (pid, ppid, name, path)" by (cases ob)
  define m where "m = observe_all obs (territory_map_init m0)"
  define pids where "pids = map fst obs"
  have "card (set pids) \<le> card (set (map fst (obs @ [ob])))"
    by (rule card_mono) (auto simp: pids_def)
  with snoc have IH: "map mp_pid (processes m) = first_seen pids"
    "map mp_observation_count (processes m) = map (\<lambda>p. of_nat (count_list pids p)) (first_seen pids)"
    "total_observations m = of_nat (length obs)" "total_anomalies m = of_nat (card (set pids))"
    by (simp_all add: m_def pids_def Let_def)
  have run: "observe_all (obs @ [ob]) (territory_map_init m0) = snd (territory_observe_process pid ppid name path m)"
    by (simp add: m_def observe_all_def ob)
  have keys: "mp_pid ` set (processes m) = set pids"
    using arg_cong [OF IH(1), of set] by (simp add: first_seen_simps)
  have step: "map fst (obs @ [ob]) = pids @ [pid]" by (simp add: pids_def ob)
  show ?case
  proof (cases "pid \<in> set pids")
    case True
    then have "pid \<in> mp_pid ` set (processes m)" using keys by simp
    from observe_known [OF this, of ppid name path] obtain i where
      e: "territory_observe_process pid ppid name path m =
       (Some i, observe_total (m\<lparr> clock := clock m + 1, processes := (processes m)[i := (processes m ! i)
        \<lparr> mp_last_seen := clock m + 1, mp_observation_count := mp_observation_count (processes m ! i) + 1 \<rparr>] \<rparr>))"
      and i: "i < length (processes m)" "mp_pid (processes m ! i) = pid" by blast
    have l: "length (processes m) = length (first_seen pids)" using IH(1) by (metis length_map)
    have at: "first_seen pids ! i = pid" using IH(1) i by (metis nth_map)
    have c: "mp_observation_count (processes m ! i) = of_nat (count_list pids pid)"
      using arg_cong [OF IH(2), of "\<lambda>xs. xs ! i"] i l at by simp
    have "map (\<lambda>p. of_nat (count_list (pids @ [pid]) p)) (first_seen pids)
        = (map mp_observation_count (processes m))[i := of_nat (count_list pids pid) + 1 :: u32]"
      unfolding IH(2)
    proof (rule nth_equalityI)
      fix j assume "j < length (map (\<lambda>p. of_nat (count_list (pids @ [pid]) p)) (first_seen pids))"
      then have j: "j < length (first_seen pids)" by simp
      have "first_seen pids ! j = pid \<longleftrightarrow> j = i"
        using nth_eq_iff_index_eq [OF first_seen_simps(5), of j pids i] j i l at by simp
      with j at show "map (\<lambda>p. of_nat (count_list (pids @ [pid]) p)) (first_seen pids) ! j
          = (map (\<lambda>p. of_nat (count_list pids p)) (first_seen pids))[i := of_nat (count_list pids pid) + 1 :: u32] ! j"
        by (auto simp: count_list_snoc nth_list_update)
    qed simp
    moreover have "(first_seen pids)[i := pid] = first_seen pids"
      using i l at by (simp add: list_update_same_conv)
    ultimately show ?thesis
      using True i IH c unfolding run e step Let_def
      by (simp add: map_update first_seen_simps insert_absorb)
  next
    case False
    then have new: "pid \<notin> mp_pid ` set (processes m)" using keys by simp
    have l: "length (processes m) = card (set pids)"
      using IH(1) first_seen_simps(4) [of pids] by (metis length_map)
    have lt: "length (processes m) < 512"
      using snoc.prems False l unfolding step by simp
    have z: "count_list pids pid = 0" using False by (simp add: count_list_0_iff)
    have same: "map (\<lambda>p. of_nat (count_list (pids @ [pid]) p)) (first_seen pids)
        = (map (\<lambda>p. of_nat (count_list pids p)) (first_seen pids) :: u32 list)"
      using False by (auto simp: count_list_snoc first_seen_simps)
    show ?thesis
      using lt IH False z same unfolding run observe_new [OF new] step Let_def
      by (simp add: first_seen_simps count_list_snoc)
  qed
qed

text \<open>
  Observations are counted exactly. After any sequence of sightings of at most 512 distinct
  processes from a cleared map, the pool lists the processes in the order of their first sighting,
  each with the number of its sightings, one anomaly was raised per process, and every sighting
  was counted.
\<close>

theorem sightings_counted:
  assumes "card (set (map fst obs)) \<le> 512" and "m = observe_all obs (territory_map_init m0)"
  shows "map mp_pid (processes m) = first_seen (map fst obs)
     \<and> map mp_observation_count (processes m) =
         map (\<lambda>p. of_nat (count_list (map fst obs) p)) (first_seen (map fst obs))
     \<and> total_observations m = of_nat (length obs)
     \<and> total_anomalies m = of_nat (card (set (map fst obs)))"
  using counts_run [OF assms(1), of m0] assms(2) by (simp add: Let_def)

theorem sightings_counted_witness:
  "\<forall>m0. map mp_pid (processes (observe_all [(7, 1, None, None), (9, 1, None, None), (7, 1, None, None)]
      (territory_map_init m0))) = [7, 9]"
proof
  fix m0
  let ?obs = "[(7, 1, None, None), (9, 1, None, None), (7, 1, None, None)] ::
    (u32 \<times> u32 \<times> string option \<times> string option) list"
  have "card (set (map fst ?obs)) \<le> 512" by (simp add: card_insert_if)
  from sightings_counted [OF this refl, of m0]
  show "map mp_pid (processes (observe_all ?obs (territory_map_init m0))) = [7, 9]"
    by (simp add: first_seen_def)
qed

end
