(* ===== verification/Vital_State.thy ===== *)
theory Vital_State
  imports United_Bus
begin

text \<open>
  The data of the vital organ (\<open>vital-baremetal\<close>): the static variables of its C files as records,
  collected in one record \<open>vital\<close>, and what a beat takes from outside: the hardware, the Rust
  guardian, memory contents and the addresses of the payloads it publishes.

  Bytes that the code only changes between guards that keep them in range (tension, sensitivity,
  endorphins, personality, resilience) are natural numbers, and the proofs about the heartbeat
  show that they stay below 256; counters that may wrap are words.
\<close>

section \<open>Consciousness (\<open>vital_consciousness.h\<close>)\<close>

datatype consciousness_state =
    CONSCIOUSNESS_VOID | CONSCIOUSNESS_EMBRYONIC | CONSCIOUSNESS_DORMANT | CONSCIOUSNESS_DREAMING
  | CONSCIOUSNESS_AWARE | CONSCIOUSNESS_FOCUSED | CONSCIOUSNESS_ALERT | CONSCIOUSNESS_SURVIVAL
  | CONSCIOUSNESS_TRANSCEND

fun cons_code :: "consciousness_state \<Rightarrow> nat" where
  "cons_code CONSCIOUSNESS_VOID = 0"
| "cons_code CONSCIOUSNESS_EMBRYONIC = 1"
| "cons_code CONSCIOUSNESS_DORMANT = 2"
| "cons_code CONSCIOUSNESS_DREAMING = 3"
| "cons_code CONSCIOUSNESS_AWARE = 4"
| "cons_code CONSCIOUSNESS_FOCUSED = 5"
| "cons_code CONSCIOUSNESS_ALERT = 6"
| "cons_code CONSCIOUSNESS_SURVIVAL = 7"
| "cons_code CONSCIOUSNESS_TRANSCEND = 8"

text \<open>
  The reason of an event is the text the code copies; it copies no terminator behind a short one,
  so in memory undetermined bytes follow.
\<close>

record transition_event =
  ev_from :: consciousness_state
  ev_to :: consciousness_state
  ev_timestamp :: u64
  ev_trigger_organ :: u8
  ev_reason :: string

record consciousness =
  history :: "nat \<Rightarrow> transition_event"
  history_head :: nat
  history_count :: nat
  current_state :: consciousness_state
  state_entry_cycle :: u64
  total_cycles :: u64

section \<open>Pain (\<open>vital_nociception.h\<close>)\<close>

datatype pain_level = PAIN_NONE | PAIN_DISCOMFORT | PAIN_ACUTE | PAIN_CHRONIC | PAIN_SEARING | PAIN_AGONY

fun pain_code :: "pain_level \<Rightarrow> nat" where
  "pain_code PAIN_NONE = 0"
| "pain_code PAIN_DISCOMFORT = 1"
| "pain_code PAIN_ACUTE = 2"
| "pain_code PAIN_CHRONIC = 3"
| "pain_code PAIN_SEARING = 4"
| "pain_code PAIN_AGONY = 5"

datatype pain_source = PAIN_SOURCE_CPU | PAIN_SOURCE_MEMORY | PAIN_SOURCE_DISK | PAIN_SOURCE_NETWORK
  | PAIN_SOURCE_INTEGRITY | PAIN_SOURCE_TEMPORAL

fun source_code :: "pain_source \<Rightarrow> nat" where
  "source_code PAIN_SOURCE_CPU = 0"
| "source_code PAIN_SOURCE_MEMORY = 1"
| "source_code PAIN_SOURCE_DISK = 2"
| "source_code PAIN_SOURCE_NETWORK = 3"
| "source_code PAIN_SOURCE_INTEGRITY = 4"
| "source_code PAIN_SOURCE_TEMPORAL = 5"

definition PAIN_SOURCES :: "pain_source list" where
  "PAIN_SOURCES = [PAIN_SOURCE_CPU, PAIN_SOURCE_MEMORY, PAIN_SOURCE_DISK, PAIN_SOURCE_NETWORK,
     PAIN_SOURCE_INTEGRITY, PAIN_SOURCE_TEMPORAL]"

record pain_signal =
  ps_level :: pain_level
  ps_source :: pain_source
  ps_timestamp :: u64
  ps_error_code :: u32
  ps_dampened :: nat

record nociceptor =
  nr_watches :: pain_source
  nr_sensitivity :: nat
  nr_total_signals :: u32
  nr_last_signal :: pain_signal

record nociception =
  nociceptors :: "nociceptor list"
  global_pain :: nat
  endorphin_level :: nat
  pain_tick_counter :: u64

section \<open>Epigenetic memory (\<open>epigenetics.c\<close>)\<close>

record epigenetic_event =
  ee_pulse_at :: u64
  ee_impact :: int
  ee_source_organ :: u8

record epigenetic_memory =
  trauma_level :: u32
  success_count :: u32
  total_experiences :: u32
  personality_bias :: nat
  resilience :: nat
  epi_generation :: u8
  epi_events :: "nat \<Rightarrow> epigenetic_event"
  event_head :: nat
  epi_checksum :: u32

section \<open>Energy (\<open>vital_metabolism.h\<close>)\<close>

record organ_metabolism =
  om_organ_id :: u8
  calories_consumed :: u64
  calories_allocated :: u64
  om_metabolic_rate :: u32
  is_fasting :: bool

record liver =
  total_energy_pool :: u64
  energy_generated :: u64
  energy_wasted :: u64
  basal_metabolic_rate :: u32

record metabolism =
  organ_budgets :: "organ_metabolism list"
  m_liver :: liver
  cycle_counter :: u32

section \<open>Homeostasis (\<open>vital_homeostasis.h\<close>)\<close>

record vital_param =
  pvalue :: nat
  target :: nat
  min_viable :: nat
  max_viable :: nat
  correction_rate :: nat

record homeostasis_board =
  cpu_temperature :: vital_param
  tension_yin_yang :: vital_param
  immune_load :: vital_param
  cortex_activity :: vital_param
  pulse_frequency :: vital_param
  entropy_level :: vital_param
  synaptic_weight :: vital_param
  epigenetic_bias :: vital_param

section \<open>Synapses (\<open>vital_synapse.h\<close>)\<close>

record synapse_node =
  node_id :: u8
  activation :: int
  threshold :: nat
  refractory :: nat
  fire_count :: u32

record synapse_link =
  from_node :: u8
  to_node :: u8
  weight :: int
  plasticity :: nat

text \<open>The node and link tables are the lists of their first \<open>node_count\<close> and \<open>link_count\<close> entries.\<close>

record synapses =
  nodes :: "synapse_node list"
  links :: "synapse_link list"
  recently_fired :: "nat \<Rightarrow> bool"

section \<open>Forth (\<open>metabolic_forth.c\<close>)\<close>

record forth_word =
  word_name :: char
  word_code :: string
  word_length :: nat

text \<open>The stack is the list of its pushed cells, the top first.\<close>

record forth =
  dictionary :: "forth_word list"
  forth_stack :: "u64 list"

section \<open>Aura, noise, spark, circadian phase\<close>

record aura =
  aura_r :: u8
  aura_g :: u8
  aura_b :: u8
  pulse_intensity :: u8
  sine_wave :: u8

record biotic =
  yang_weight :: u32
  yin_weight :: u32

datatype vital_force = FORCE_YANG | FORCE_YIN

record vital_spark =
  current_force :: vital_force
  tension :: nat
  pulse_count :: u64
  jitter :: u64
  birth_timestamp :: u64
  age_cycles :: u8

datatype circadian_phase = CIRCADIAN_DAWN | CIRCADIAN_ZENITH | CIRCADIAN_DUSK | CIRCADIAN_NADIR

fun circadian_code :: "circadian_phase \<Rightarrow> nat" where
  "circadian_code CIRCADIAN_DAWN = 0"
| "circadian_code CIRCADIAN_ZENITH = 1"
| "circadian_code CIRCADIAN_DUSK = 2"
| "circadian_code CIRCADIAN_NADIR = 3"

fun next_phase :: "circadian_phase \<Rightarrow> circadian_phase" where
  "next_phase CIRCADIAN_DAWN = CIRCADIAN_ZENITH"
| "next_phase CIRCADIAN_ZENITH = CIRCADIAN_DUSK"
| "next_phase CIRCADIAN_DUSK = CIRCADIAN_NADIR"
| "next_phase CIRCADIAN_NADIR = CIRCADIAN_DAWN"

datatype scenario = DREAM_THREAT_INVASION | DREAM_MEMORY_FLOOD | DREAM_CPU_THERMAL_RUN
  | DREAM_KERNEL_CORRUPTION | DREAM_UNKNOWN_SIGNAL | DREAM_REBIRTH

text \<open>
  The image written to storage. \<open>sd_synapse_data\<close> is the exported part of the link table,
  \<open>sd_epigenetic_data\<close> the content of the 512-byte buffer, \<open>None\<close> when nothing was put there.
\<close>

record soma_dna =
  sd_magic :: u32
  sd_version :: u32
  sd_spark :: vital_spark
  sd_synapse_size :: nat
  sd_synapse_data :: "synapse_link list"
  sd_epigenetic_data :: "epigenetic_memory option"

section \<open>The organ and its surroundings\<close>

record vital =
  v_cons :: consciousness
  v_noci :: nociception
  v_epi :: epigenetic_memory
  v_met :: metabolism
  v_board :: homeostasis_board
  v_syn :: synapses
  v_forth :: forth
  v_aura :: aura
  v_biotic :: biotic
  v_sim_rng :: u64
  v_spark :: vital_spark
  v_phase :: circadian_phase
  v_phase_start :: u64
  v_lattice :: "int list"
  v_storage :: bool
  v_written :: "soma_dna list"
  v_bus :: united_bus

text \<open>The variables whose addresses are published, and the uninitialised local of the immune alert.\<close>

datatype payload_slot = State_Payload | Pain_Signal | Entropy_Local | Vital_Payload

record surroundings =
  s_addr :: "payload_slot \<Rightarrow> u64"
  s_garbage :: globule
  s_memory :: "u64 \<Rightarrow> nat \<Rightarrow> char"
  s_burn :: u64
  s_rtc_status :: "nat \<Rightarrow> u8"
  s_rtc_hours :: u8
  s_rtc_reg_b :: u8
  s_guardian :: nat
  s_entropy :: u64

definition pump :: "globule \<Rightarrow> vital \<Rightarrow> vital" where
  "pump g v = v\<lparr> v_bus := snd (united_bus_pump g (v_bus v)) \<rparr>"

definition ORGAN_TYPE_VITAL :: u8 where "ORGAN_TYPE_VITAL = 15"

section \<open>Access to the spark (\<open>life_loop.c\<close>)\<close>

definition vital_shift_balance :: "vital_force \<Rightarrow> nat \<Rightarrow> vital \<Rightarrow> vital" where
  "vital_shift_balance force w v =
     (let s = v_spark v;
          t = (if force = FORCE_YANG
               then (if tension s > w then tension s - w else 0)
               else (if int (tension s) < 255 - int w then tension s + w else 255))
      in v\<lparr> v_spark := s\<lparr> tension := t \<rparr> \<rparr>)"

definition vital_get_pulse_count :: "vital \<Rightarrow> u64" where
  "vital_get_pulse_count v = pulse_count (v_spark v)"

definition vital_get_tension :: "vital \<Rightarrow> nat" where
  "vital_get_tension v = tension (v_spark v)"

definition vital_get_pain_level :: "vital \<Rightarrow> nat" where
  "vital_get_pain_level v = global_pain (v_noci v)"

definition vital_get_spark_state :: "vital \<Rightarrow> vital_spark" where
  "vital_get_spark_state v = v_spark v"

definition vital_set_spark_state :: "vital_spark \<Rightarrow> vital \<Rightarrow> vital" where
  "vital_set_spark_state s v = v\<lparr> v_spark := s \<rparr>"

lemma tension_shift [simp]:
  "tension (v_spark (vital_shift_balance force w v)) =
     (if force = FORCE_YANG then tension (v_spark v) - w
      else if tension (v_spark v) + w < 255 then tension (v_spark v) + w else 255)"
  by (auto simp: vital_shift_balance_def Let_def)

end
