(* ===== verification/Vital_Mind.thy ===== *)
theory Vital_Mind
  imports Vital_State
begin

text \<open>
  Consciousness, epigenetic memory and pain: \<open>consciousness_fsm.c\<close>, \<open>epigenetics.c\<close> and
  \<open>nociception.c\<close>. They call each other, so their operations act on the whole organ.
\<close>

section \<open>Consciousness\<close>

definition CONSCIOUSNESS_TRANSITION_MATRIX :: "nat list list" where
  "CONSCIOUSNESS_TRANSITION_MATRIX = [
     [0, 1, 0, 0, 0, 0, 0, 0, 0],
     [0, 0, 1, 0, 1, 0, 0, 0, 0],
     [0, 0, 0, 1, 1, 0, 0, 0, 0],
     [0, 0, 1, 0, 1, 0, 0, 0, 1],
     [0, 0, 1, 1, 0, 1, 1, 0, 0],
     [0, 0, 0, 0, 1, 0, 1, 0, 1],
     [0, 0, 0, 0, 1, 1, 0, 1, 0],
     [1, 0, 0, 0, 0, 0, 1, 0, 0],
     [0, 0, 1, 1, 1, 1, 1, 1, 0]]"

definition HISTORY_SIZE :: nat where "HISTORY_SIZE = 64"

definition cons_legal :: "consciousness_state \<Rightarrow> consciousness_state \<Rightarrow> bool" where
  "cons_legal a b \<longleftrightarrow> CONSCIOUSNESS_TRANSITION_MATRIX ! cons_code a ! cons_code b \<noteq> 0"

definition consciousness_transition ::
  "surroundings \<Rightarrow> consciousness_state \<Rightarrow> u8 \<Rightarrow> string \<Rightarrow> vital \<Rightarrow> int \<times> vital" where
  "consciousness_transition e tgt organ reason v =
     (let c = v_cons v in
      if \<not> cons_legal (current_state c) tgt then (0, v)
      else
        let evt = \<lparr> ev_from = current_state c, ev_to = tgt, ev_timestamp = total_cycles c,
                    ev_trigger_organ = organ, ev_reason = take 63 reason \<rparr>;
            c1 = c\<lparr> history := (history c)(history_head c := evt),
                   history_head := (history_head c + 1) mod HISTORY_SIZE,
                   history_count := (if history_count c < HISTORY_SIZE then history_count c + 1
                                     else history_count c) \<rparr>;
            v1 = pump \<lparr> globule_id = 0, gtype = GLOBULE_YELLOW, source_organ = ORGAN_TYPE_VITAL,
                        target_organ = 0xFF, payload_addr = s_addr e State_Payload,
                        payload_size = 4 \<rparr> (v\<lparr> v_cons := c1 \<rparr>)
        in (1, v1\<lparr> v_cons := c1\<lparr> current_state := tgt, state_entry_cycle := total_cycles c1 \<rparr> \<rparr>))"

definition consciousness_init :: "surroundings \<Rightarrow> vital \<Rightarrow> vital" where
  "consciousness_init e v = snd (consciousness_transition e CONSCIOUSNESS_AWARE ORGAN_TYPE_VITAL
     ''Init sequence complete''
     (v\<lparr> v_cons := (v_cons v)\<lparr> current_state := CONSCIOUSNESS_EMBRYONIC, state_entry_cycle := 0 \<rparr> \<rparr>))"

definition consciousness_get_state :: "vital \<Rightarrow> consciousness_state" where
  "consciousness_get_state v = current_state (v_cons v)"

text \<open>The events written to the caller's buffer; a negative \<open>max\<close> is converted to \<open>uint32_t\<close>.\<close>

definition consciousness_get_history :: "int \<Rightarrow> vital \<Rightarrow> transition_event list" where
  "consciousness_get_history mx v =
     (let c = v_cons v;
          count = (if history_count c < nat (mx mod 4294967296) then int (history_count c) else mx)
      in map (\<lambda>i. history c ((history_head c + HISTORY_SIZE - nat count + i) mod HISTORY_SIZE))
           [0..<nat count])"

definition consciousness_tick :: "surroundings \<Rightarrow> vital \<Rightarrow> vital" where
  "consciousness_tick e v =
     (let c = v_cons v;
          v1 = v\<lparr> v_cons := c\<lparr> total_cycles := total_cycles c + 1 \<rparr> \<rparr>;
          time_in_state = total_cycles c + 1 - state_entry_cycle c
      in if current_state c = CONSCIOUSNESS_AWARE \<and> time_in_state > 50000
         then snd (consciousness_transition e CONSCIOUSNESS_DREAMING ORGAN_TYPE_VITAL
                ''Idle timeout -> Dreaming'' v1)
         else if current_state c = CONSCIOUSNESS_DREAMING \<and> time_in_state > 10000
         then snd (consciousness_transition e CONSCIOUSNESS_AWARE ORGAN_TYPE_VITAL
                ''Dream cycle complete'' v1)
         else if current_state c = CONSCIOUSNESS_ALERT \<and> time_in_state > 5000
         then snd (consciousness_transition e CONSCIOUSNESS_FOCUSED ORGAN_TYPE_VITAL
                ''Alert resolved autonomously'' v1)
         else v1)"

section \<open>Epigenetic memory\<close>

definition MAX_EPIGENETIC_EVENTS :: nat where "MAX_EPIGENETIC_EVENTS = 256"

definition compute_epigenetic_checksum :: "epigenetic_memory \<Rightarrow> u32" where
  "compute_epigenetic_checksum m = (((((0x12345678 XOR trauma_level m) XOR success_count m)
     XOR total_experiences m) XOR of_nat (personality_bias m)) XOR of_nat (resilience m))
     XOR ucast (epi_generation m)"

definition epi_init :: "epigenetic_memory \<Rightarrow> epigenetic_memory" where
  "epi_init m =
     (if epi_checksum m = compute_epigenetic_checksum m \<and> total_experiences m > 0
      then m\<lparr> epi_generation := epi_generation m + 1 \<rparr>
      else let m1 = m\<lparr> trauma_level := 0, success_count := 0, total_experiences := 0,
                       personality_bias := 128, resilience := 50, epi_generation := 1,
                       event_head := 0 \<rparr>
           in m1\<lparr> epi_checksum := compute_epigenetic_checksum m1 \<rparr>)"

definition vital_epigenetic_init :: "vital \<Rightarrow> vital" where
  "vital_epigenetic_init v = v\<lparr> v_epi := epi_init (v_epi v) \<rparr>"

definition effective_impact :: "nat \<Rightarrow> nat" where
  "effective_impact r = (if 5 > r div 25 then 5 - r div 25 else 1)"

definition epi_mark :: "u64 \<Rightarrow> int \<Rightarrow> epigenetic_memory \<Rightarrow> epigenetic_memory" where
  "epi_mark pulse impact m =
     (let m = m\<lparr> epi_events := (epi_events m)(event_head m :=
                   \<lparr> ee_pulse_at = pulse, ee_impact = impact, ee_source_organ = 0 \<rparr>),
                 event_head := (event_head m + 1) mod MAX_EPIGENETIC_EVENTS,
                 total_experiences := total_experiences m + 1 \<rparr>;
          m = (if impact < 0 then
                 let i = effective_impact (resilience m);
                     m = m\<lparr> trauma_level := trauma_level m + 1 \<rparr>;
                     m = (if personality_bias m > i
                          then m\<lparr> personality_bias := personality_bias m - i \<rparr> else m)
                 in (if resilience m < 250 then m\<lparr> resilience := resilience m + 1 \<rparr> else m)
               else if impact > 0 then
                 let m = m\<lparr> success_count := success_count m + 1 \<rparr>
                 in (if personality_bias m < 250
                     then m\<lparr> personality_bias := personality_bias m + 3 \<rparr> else m)
               else m)
      in m\<lparr> epi_checksum := compute_epigenetic_checksum m \<rparr>)"

definition vital_mark_experience :: "int \<Rightarrow> vital \<Rightarrow> vital" where
  "vital_mark_experience impact v =
     v\<lparr> v_epi := epi_mark (vital_get_pulse_count v) impact (v_epi v) \<rparr>"

definition vital_get_personality_influence :: "vital \<Rightarrow> nat" where
  "vital_get_personality_influence v = personality_bias (v_epi v)"

definition vital_get_resilience :: "vital \<Rightarrow> nat" where
  "vital_get_resilience v = resilience (v_epi v)"

definition vital_get_generation :: "vital \<Rightarrow> u8" where
  "vital_get_generation v = epi_generation (v_epi v)"

definition vital_get_success_ratio :: "vital \<Rightarrow> u8" where
  "vital_get_success_ratio v = (if total_experiences (v_epi v) = 0 then 50
     else ucast (success_count (v_epi v) * 100 div total_experiences (v_epi v)))"

text \<open>
  \<open>sizeof (oo_epigenetic_memory_t)\<close>: three words, three bytes and one of padding, 256 events of 16
  bytes (a 64-bit pulse, the impact, the organ and padding), the head, and the checksum, in
  8-byte alignment.
\<close>

definition EPIGENETIC_SIZE :: nat where
  "EPIGENETIC_SIZE = 16 + MAX_EPIGENETIC_EVENTS * 16 + 8"

text \<open>What the export leaves in the caller's buffer, and the memory after it.\<close>

definition vital_epigenetic_export ::
  "epigenetic_memory option \<Rightarrow> nat \<Rightarrow> vital \<Rightarrow> epigenetic_memory option \<times> vital" where
  "vital_epigenetic_export dst max_size v =
     (if max_size < EPIGENETIC_SIZE then (dst, v)
      else let m = (v_epi v)\<lparr> epi_checksum := compute_epigenetic_checksum (v_epi v) \<rparr>
           in (Some m, v\<lparr> v_epi := m \<rparr>))"

definition vital_epigenetic_import :: "epigenetic_memory option \<Rightarrow> nat \<Rightarrow> vital \<Rightarrow> vital" where
  "vital_epigenetic_import src sz v =
     (case src of None \<Rightarrow> v
      | Some m \<Rightarrow>
          if sz < EPIGENETIC_SIZE then v
          else let v1 = v\<lparr> v_epi := m \<rparr>
               in if epi_checksum m \<noteq> compute_epigenetic_checksum m then vital_epigenetic_init v1 else v1)"

section \<open>Pain\<close>

definition MAX_NOCICEPTORS :: nat where "MAX_NOCICEPTORS = 6"

definition PAIN_WEIGHT :: "nat list" where
  "PAIN_WEIGHT = [0, 1, 5, 10, 30, 100]"

definition receptor_init :: "pain_source \<Rightarrow> nociceptor \<Rightarrow> nociceptor" where
  "receptor_init src r = r\<lparr> nr_watches := src, nr_sensitivity := 128, nr_total_signals := 0,
     nr_last_signal := (nr_last_signal r)\<lparr> ps_level := PAIN_NONE \<rparr> \<rparr>"

definition nociception_init :: "vital \<Rightarrow> vital" where
  "nociception_init v = v\<lparr> v_noci := (v_noci v)\<lparr>
     nociceptors := map2 receptor_init PAIN_SOURCES (nociceptors (v_noci v)),
     global_pain := 0, endorphin_level := 0 \<rparr> \<rparr>"

definition nociception_inject_endorphin :: "nat \<Rightarrow> vital \<Rightarrow> vital" where
  "nociception_inject_endorphin dose v =
     (let t = endorphin_level (v_noci v) + dose
      in v\<lparr> v_noci := (v_noci v)\<lparr> endorphin_level := (if t > 255 then 255 else t) \<rparr> \<rparr>)"

definition raw_pain :: "pain_level \<Rightarrow> nat \<Rightarrow> nat" where
  "raw_pain level sensitivity = PAIN_WEIGHT ! pain_code level * sensitivity div 128"

definition effective_pain :: "pain_level \<Rightarrow> nat \<Rightarrow> nat \<Rightarrow> nat" where
  "effective_pain level sensitivity endorphin =
     (let p = raw_pain level sensitivity in
      if endorphin > 0
      then let d = p * endorphin div 255 in (if p > d then p - d else 0)
      else p)"

definition adapt_sensitivity :: "pain_level \<Rightarrow> nociceptor \<Rightarrow> nociceptor" where
  "adapt_sensitivity level r =
     (if pain_code level \<le> pain_code PAIN_DISCOMFORT \<and> nr_total_signals r > 100
      then (if nr_sensitivity r > 30 then r\<lparr> nr_sensitivity := nr_sensitivity r - 1 \<rparr> else r)
      else if pain_code level \<ge> pain_code PAIN_ACUTE
      then (if nr_sensitivity r < 250 then r\<lparr> nr_sensitivity := nr_sensitivity r + 2 \<rparr> else r)
      else r)"

definition set_receptor :: "nat \<Rightarrow> nociceptor \<Rightarrow> vital \<Rightarrow> vital" where
  "set_receptor i r v = v\<lparr> v_noci := (v_noci v)\<lparr> nociceptors := (nociceptors (v_noci v))[i := r] \<rparr> \<rparr>"

definition nociception_fire :: "surroundings \<Rightarrow> pain_source \<Rightarrow> pain_level \<Rightarrow> u32 \<Rightarrow> vital \<Rightarrow> vital" where
  "nociception_fire e src level error_code v =
     (if source_code src \<ge> MAX_NOCICEPTORS then v
      else
        let n = v_noci v; i = source_code src; r = nociceptors n ! i;
            signal = \<lparr> ps_level = level, ps_source = src, ps_timestamp = pain_tick_counter n,
                       ps_error_code = error_code,
                       ps_dampened = (if endorphin_level n > 0 then 1 else 0) \<rparr>;
            p = effective_pain level (nr_sensitivity r) (endorphin_level n);
            v = v\<lparr> v_noci := n\<lparr> global_pain := u32_add (global_pain n) p \<rparr> \<rparr>;
            r = r\<lparr> nr_total_signals := nr_total_signals r + 1, nr_last_signal := signal \<rparr>;
            v = set_receptor i r v;
            v = (if pain_code level \<ge> pain_code PAIN_SEARING
                 then pump \<lparr> globule_id = 0, gtype = GLOBULE_WHITE, source_organ = 15, target_organ = 0xFF,
                             payload_addr = s_addr e Pain_Signal, payload_size = 24 \<rparr>
                        (snd (consciousness_transition e CONSCIOUSNESS_ALERT ORGAN_TYPE_VITAL
                           ''Acute pain detected'' v))
                 else v);
            v = (if pain_code level \<ge> pain_code PAIN_AGONY
                 then vital_mark_experience (-5) (nociception_inject_endorphin 200
                        (snd (consciousness_transition e CONSCIOUSNESS_SURVIVAL ORGAN_TYPE_VITAL
                           ''Agony threshold breached'' v)))
                 else v)
        in set_receptor i (adapt_sensitivity level r) v)"

definition nociception_get_global_pain :: "vital \<Rightarrow> nat" where
  "nociception_get_global_pain v = global_pain (v_noci v)"

definition nociception_tick :: "vital \<Rightarrow> vital" where
  "nociception_tick v =
     (let n = v_noci v;
          n = n\<lparr> pain_tick_counter := pain_tick_counter n + 1 \<rparr>;
          n = (if global_pain n > 0 then n\<lparr> global_pain := u32_mul (global_pain n) 254 div 255 \<rparr> else n);
          n = (if endorphin_level n > 0 then n\<lparr> endorphin_level := endorphin_level n - 1 \<rparr> else n);
          v = v\<lparr> v_noci := n \<rparr>
      in if global_pain n > 5000 \<and> pain_tick_counter n mod 10000 = 0
         then vital_mark_experience (-1) v else v)"

end
