(* ===== verification/Vital_Body.thy ===== *)
theory Vital_Body
  imports Vital_Mind
begin

text \<open>
  Energy, homeostasis, aura, entropy, dreams, the real-time clock and the vault:
  \<open>energy_metabolism.c\<close>, \<open>homeostasis_regulator.c\<close>, \<open>aura_visualizer.c\<close>, \<open>biotic_entropy.c\<close>,
  \<open>dream_simulator.c\<close>, \<open>pineal_gland.c\<close>, \<open>vital_core_unifier.c\<close>, and the two functions of
  \<open>quantum_vault.rs\<close> that the heartbeat calls.
\<close>

section \<open>Energy\<close>

definition MAX_METABOLIC_ORGANS :: nat where "MAX_METABOLIC_ORGANS = 16"

definition metabolism_init :: "u64 \<Rightarrow> metabolism \<Rightarrow> metabolism" where
  "metabolism_init pool m = m\<lparr> organ_budgets := [], m_liver := \<lparr> total_energy_pool = pool,
     energy_generated = pool, energy_wasted = 0, basal_metabolic_rate = 100 \<rparr> \<rparr>"

definition metabolism_register_organ :: "u8 \<Rightarrow> u64 \<Rightarrow> metabolism \<Rightarrow> metabolism" where
  "metabolism_register_organ organ budget m =
     (if length (organ_budgets m) \<ge> MAX_METABOLIC_ORGANS then m
      else m\<lparr> organ_budgets := organ_budgets m @ [\<lparr> om_organ_id = organ, calories_consumed = 0,
             calories_allocated = budget, om_metabolic_rate = 10, is_fasting = False \<rparr>] \<rparr>)"

text \<open>The search for the organ, from the front: its index.\<close>

fun find_organ :: "u8 \<Rightarrow> organ_metabolism list \<Rightarrow> nat option" where
  "find_organ organ [] = None"
| "find_organ organ (b # bs) =
     (if om_organ_id b = organ then Some 0 else map_option Suc (find_organ organ bs))"

definition metabolism_request_energy :: "u8 \<Rightarrow> u64 \<Rightarrow> metabolism \<Rightarrow> u64 \<times> metabolism" where
  "metabolism_request_energy organ amount m =
     (case find_organ organ (organ_budgets m) of None \<Rightarrow> (0, m)
      | Some i \<Rightarrow>
          let b = organ_budgets m ! i in
          if is_fasting b then (0, m)
          else let remaining = calories_allocated b - calories_consumed b;
                   granted = (if amount \<le> remaining then amount else remaining);
                   granted = (if granted > total_energy_pool (m_liver m)
                              then total_energy_pool (m_liver m) else granted);
                   b = b\<lparr> calories_consumed := calories_consumed b + granted \<rparr>;
                   l = (m_liver m)\<lparr> total_energy_pool := total_energy_pool (m_liver m) - granted \<rparr>;
                   b = (if calories_consumed b \<ge> calories_allocated b then b\<lparr> is_fasting := True \<rparr> else b)
               in (granted, m\<lparr> organ_budgets := (organ_budgets m)[i := b], m_liver := l \<rparr>))"

definition metabolism_generate_energy :: "u64 \<Rightarrow> metabolism \<Rightarrow> metabolism" where
  "metabolism_generate_energy amount m = m\<lparr> m_liver := (m_liver m)\<lparr>
     total_energy_pool := total_energy_pool (m_liver m) + amount,
     energy_generated := energy_generated (m_liver m) + amount \<rparr> \<rparr>"

text \<open>The part of the tick that burns the basal rate, and whether it met a famine.\<close>

definition burn_basal :: "metabolism \<Rightarrow> bool \<times> metabolism" where
  "burn_basal m =
     (let l = m_liver m; rate = ucast (basal_metabolic_rate l) :: u64 in
      if total_energy_pool l > rate
      then (False, m\<lparr> m_liver := l\<lparr> total_energy_pool := total_energy_pool l - rate,
                                  energy_wasted := energy_wasted l + rate \<rparr> \<rparr>)
      else (True, m\<lparr> m_liver := l\<lparr> total_energy_pool := 0 \<rparr> \<rparr>))"

definition recycle_budget :: "organ_metabolism \<Rightarrow> organ_metabolism" where
  "recycle_budget b = b\<lparr> calories_consumed := calories_consumed b div 2, is_fasting := False \<rparr>"

definition recycle_budgets :: "metabolism \<Rightarrow> metabolism" where
  "recycle_budgets m =
     (let m = m\<lparr> cycle_counter := cycle_counter m + 1 \<rparr>
      in if cycle_counter m mod 50000 = 0
         then m\<lparr> organ_budgets := map recycle_budget (organ_budgets m) \<rparr> else m)"

definition adapt_basal :: "metabolism \<Rightarrow> metabolism" where
  "adapt_basal m = m\<lparr> m_liver := (m_liver m)\<lparr> basal_metabolic_rate :=
     (if total_energy_pool (m_liver m) < 10000 then 50 else 100) \<rparr> \<rparr>"

definition metabolism_tick :: "surroundings \<Rightarrow> vital \<Rightarrow> vital" where
  "metabolism_tick e v =
     (let (famine, m) = burn_basal (v_met v);
          v = v\<lparr> v_met := m \<rparr>;
          v = (if famine then nociception_fire e PAIN_SOURCE_CPU PAIN_SEARING 0xFADE0001 v else v);
          st = consciousness_get_state v;
          m = (if st = CONSCIOUSNESS_DORMANT \<or> st = CONSCIOUSNESS_DREAMING
               then metabolism_generate_energy
                      (ucast (basal_metabolic_rate (m_liver (v_met v)) * 2)) (v_met v)
               else v_met v)
      in v\<lparr> v_met := adapt_basal (recycle_budgets m) \<rparr>)"

definition metabolism_is_starving :: "metabolism \<Rightarrow> bool" where
  "metabolism_is_starving m \<longleftrightarrow>
     total_energy_pool (m_liver m) < ucast (basal_metabolic_rate (m_liver m) * 10)"

definition metabolism_snapshot :: "metabolism \<Rightarrow> liver" where
  "metabolism_snapshot m = m_liver m"

section \<open>Homeostasis\<close>

definition param :: "nat \<Rightarrow> nat \<Rightarrow> nat \<Rightarrow> nat \<Rightarrow> nat \<Rightarrow> vital_param" where
  "param v t lo hi r = \<lparr> pvalue = v, target = t, min_viable = lo, max_viable = hi, correction_rate = r \<rparr>"

definition homeostasis_init :: homeostasis_board where
  "homeostasis_init = \<lparr> cpu_temperature = param 55 55 0 95 3,
     tension_yin_yang = param 128 128 10 245 2, immune_load = param 20 20 0 80 5,
     cortex_activity = param 50 50 0 100 1, pulse_frequency = param 60 60 1 1000 4,
     entropy_level = param 70 70 5 100 3, synaptic_weight = param 50 50 0 255 1,
     epigenetic_bias = param 128 128 0 255 1 \<rparr>"

definition s32 :: "nat \<Rightarrow> int" where
  "s32 n = (if n < 2147483648 then int n else int n - 4294967296)"

definition clamp_param :: "vital_param \<Rightarrow> vital_param" where
  "clamp_param p =
     (let p = (if pvalue p < min_viable p then p\<lparr> pvalue := min_viable p \<rparr> else p)
      in if pvalue p > max_viable p then p\<lparr> pvalue := max_viable p \<rparr> else p)"

definition regulate_param :: "vital_param \<Rightarrow> vital_param" where
  "regulate_param p =
     (if pvalue p = target p then p
      else let error = s32 (target p) - s32 (pvalue p);
               size = nat \<bar>error\<bar>;
               correction = (if error > 0 then 1 else -1) *
                 int (if correction_rate p < size then correction_rate p else size)
           in clamp_param (p\<lparr> pvalue := nat ((s32 (pvalue p) + correction) mod 4294967296) \<rparr>))"

definition regulate_board :: "homeostasis_board \<Rightarrow> homeostasis_board" where
  "regulate_board b = \<lparr> cpu_temperature = regulate_param (cpu_temperature b),
     tension_yin_yang = regulate_param (tension_yin_yang b),
     immune_load = regulate_param (immune_load b),
     cortex_activity = regulate_param (cortex_activity b),
     pulse_frequency = regulate_param (pulse_frequency b),
     entropy_level = regulate_param (entropy_level b),
     synaptic_weight = regulate_param (synaptic_weight b),
     epigenetic_bias = regulate_param (epigenetic_bias b) \<rparr>"

text \<open>The immune alert is a local globule with only two of its fields set.\<close>

definition homeostasis_regulate :: "surroundings \<Rightarrow> vital \<Rightarrow> vital" where
  "homeostasis_regulate e v =
     (let b = regulate_board (v_board v);
          force = (if pvalue (tension_yin_yang b) > 128 then FORCE_YIN else FORCE_YANG);
          v = vital_shift_balance force 1 (v\<lparr> v_board := b \<rparr>)
      in if pvalue (immune_load b) \<ge> max_viable (immune_load b)
         then pump ((s_garbage e)\<lparr> gtype := GLOBULE_WHITE, target_organ := 0xFF \<rparr>) v
         else v)"

definition homeostasis_inject :: "nat \<Rightarrow> vital_param \<Rightarrow> vital_param" where
  "homeostasis_inject new_value p = clamp_param (p\<lparr> pvalue := new_value \<rparr>)"

definition homeostasis_is_viable :: "homeostasis_board \<Rightarrow> bool" where
  "homeostasis_is_viable b \<longleftrightarrow>
     pvalue (cpu_temperature b) < max_viable (cpu_temperature b)
     \<and> pvalue (immune_load b) < max_viable (immune_load b)
     \<and> pvalue (pulse_frequency b) > min_viable (pulse_frequency b)
     \<and> pvalue (entropy_level b) > min_viable (entropy_level b)"

definition homeostasis_snapshot :: "homeostasis_board \<Rightarrow> homeostasis_board" where
  "homeostasis_snapshot b = b"

section \<open>Aura and entropy\<close>

definition vital_update_aura :: "nat \<Rightarrow> vital_force \<Rightarrow> aura \<Rightarrow> aura" where
  "vital_update_aura t force a =
     (let a = (if force = FORCE_YANG
               then a\<lparr> aura_r := of_nat t, aura_g := of_nat t, aura_b := 255 \<rparr>
               else a\<lparr> aura_r := 128 - of_nat (t div 2), aura_g := 0, aura_b := of_nat t \<rparr>);
          a = a\<lparr> sine_wave := sine_wave a + 5 \<rparr>
      in a\<lparr> pulse_intensity := sine_wave a \<rparr>)"

definition vital_emit_distress_beacon :: "vital \<Rightarrow> vital" where
  "vital_emit_distress_beacon v =
     v\<lparr> v_aura := (v_aura v)\<lparr> aura_r := 255, aura_g := 0, aura_b := 0 \<rparr> \<rparr>"

definition vital_generate_biotic_noise :: "surroundings \<Rightarrow> u64 \<Rightarrow> vital \<Rightarrow> vital" where
  "vital_generate_biotic_noise e entropy v =
     (let decision = ucast (entropy AND 0xFF) :: u8;
          v = (if decision > 200
               then pump \<lparr> globule_id = 0, gtype = GLOBULE_YELLOW, source_organ = 15, target_organ = 10,
                           payload_addr = s_addr e Entropy_Local, payload_size = 8 \<rparr> v
               else v);
          w = v_biotic v
      in if yang_weight w > yin_weight w * 2
         then v\<lparr> v_biotic := w\<lparr> yin_weight := yin_weight w + 100 \<rparr> \<rparr> else v)"

section \<open>Dreams\<close>

definition xorshift :: "u64 \<Rightarrow> u64" where
  "xorshift x =
     (let x = x XOR push_bit 13 x; x = x XOR drop_bit 7 x in x XOR push_bit 17 x)"

definition sim_rand :: "vital \<Rightarrow> u64 \<times> vital" where
  "sim_rand v = (let r = xorshift (v_sim_rng v) in (r, v\<lparr> v_sim_rng := r \<rparr>))"

fun scenario_severity :: "scenario \<Rightarrow> nat" where
  "scenario_severity DREAM_THREAT_INVASION = 85"
| "scenario_severity DREAM_MEMORY_FLOOD = 70"
| "scenario_severity DREAM_CPU_THERMAL_RUN = 60"
| "scenario_severity DREAM_KERNEL_CORRUPTION = 95"
| "scenario_severity DREAM_UNKNOWN_SIGNAL = 50"
| "scenario_severity DREAM_REBIRTH = 100"

record dream_result =
  dr_scenario :: scenario
  dr_duration_cycles :: u32
  dr_survival_rate :: u8
  dr_lessons_learned :: u8

definition dream_simulate :: "scenario \<Rightarrow> vital \<Rightarrow> dream_result \<times> vital" where
  "dream_simulate sc v =
     (let (entropy, v) = sim_rand v;
          severity = scenario_severity sc;
          base = (if vital_get_personality_influence v > 128 then 100 - severity div 2
                  else 100 - severity div 3);
          rate = ucast ((of_nat base :: u64) + entropy mod 20 - 10) :: u8;
          rate = (if rate > 100 then 100 else rate)
      in (\<lparr> dr_scenario = sc, dr_duration_cycles = ucast (entropy mod 10000) + 1000,
            dr_survival_rate = rate, dr_lessons_learned = rate div 25 \<rparr>, v))"

definition dream_select_scenario :: "nat \<Rightarrow> scenario" where
  "dream_select_scenario trauma =
     (if trauma > 200 then DREAM_REBIRTH
      else if trauma > 150 then DREAM_KERNEL_CORRUPTION
      else if trauma > 100 then DREAM_THREAT_INVASION
      else if trauma > 50 then DREAM_MEMORY_FLOOD
      else if trauma > 20 then DREAM_CPU_THERMAL_RUN
      else DREAM_UNKNOWN_SIGNAL)"

definition dream_apply_lessons :: "dream_result \<Rightarrow> vital \<Rightarrow> vital" where
  "dream_apply_lessons r v =
     ((vital_mark_experience (if dr_survival_rate r > 70 then 1 else -1))
        ^^ unat (dr_lessons_learned r)) v"

section \<open>The real-time clock\<close>

text \<open>The wait for a stable clock: the number of status reads, \<open>None\<close> when it never becomes stable.\<close>

partial_function (option) rtc_wait :: "(nat \<Rightarrow> u8) \<Rightarrow> nat \<Rightarrow> nat option" where
  "rtc_wait status n = (if status n AND 0x80 \<noteq> 0 then rtc_wait status (n + 1) else Some (n + 1))"

definition bcd_to_binary :: "u8 \<Rightarrow> u8" where
  "bcd_to_binary bcd = drop_bit 1 (bcd AND 0xF0) + drop_bit 3 (bcd AND 0xF0) + (bcd AND 0x0F)"

definition rtc_hours :: "u8 \<Rightarrow> u8 \<Rightarrow> u8" where
  "rtc_hours hours reg_b =
     (let hours = (if reg_b AND 0x04 = 0 then bcd_to_binary hours else hours)
      in if reg_b AND 0x02 = 0 \<and> hours AND 0x80 \<noteq> 0
         then ucast ((ucast (hours AND 0x7F) + 12 :: u32) mod 24) else hours)"

definition pineal_shift :: "u8 \<Rightarrow> vital_force \<times> nat" where
  "pineal_shift hours =
     (if hours \<ge> 6 \<and> hours < 12 then (FORCE_YANG, 20)
      else if hours \<ge> 12 \<and> hours < 18 then (FORCE_YANG, 5)
      else if hours \<ge> 18 \<and> hours < 22 then (FORCE_YIN, 15)
      else (FORCE_YIN, 30))"

definition vital_pineal_gland_sync :: "surroundings \<Rightarrow> vital \<Rightarrow> vital option" where
  "vital_pineal_gland_sync e v =
     (case rtc_wait (s_rtc_status e) 0 of None \<Rightarrow> None
      | Some n \<Rightarrow> let (force, w) = pineal_shift (rtc_hours (s_rtc_hours e) (s_rtc_reg_b e))
                  in Some (vital_shift_balance force w v))"

section \<open>The vault and the unifier\<close>

definition lattice :: "u64 \<Rightarrow> int list" where
  "lattice entropy = map (\<lambda>i. uint (drop_bit (i * 2) entropy AND 0x03) - 1) [0..<16]"

definition vital_quantum_sign :: "u64 \<Rightarrow> vital \<Rightarrow> vital" where
  "vital_quantum_sign entropy v = v\<lparr> v_lattice := lattice entropy \<rparr>"

definition vital_quantum_verify :: "u64 \<Rightarrow> vital \<Rightarrow> bool" where
  "vital_quantum_verify entropy v \<longleftrightarrow>
     fold (\<lambda>i d. d + \<bar>v_lattice v ! i - lattice entropy ! i\<bar>) [0..<16] 0 < 3"

definition vital_core_unifier_tick :: "u64 \<Rightarrow> vital \<Rightarrow> vital" where
  "vital_core_unifier_tick entropy v =
     (let bias = vital_get_personality_influence v;
          v = vital_quantum_sign (entropy XOR of_nat bias) v
      in if entropy mod 255 > of_nat bias then vital_shift_balance FORCE_YANG 1 v
         else vital_shift_balance FORCE_YIN 1 v)"

end
