(* ===== verification/Vital_Synapse.thy ===== *)
theory Vital_Synapse
  imports Vital_State Contracts
begin

text \<open>
  The synapse network (\<open>synapse_network.c\<close>): nodes with activation and refractory period, weighted
  links, propagation of one tick, and Hebbian learning with its normalisation. Activations and
  weights are integers in their 16- and 8-bit ranges, which the proofs show are never left.
\<close>

section \<open>Code\<close>

definition SYNAPSE_MAX_NODES :: nat where "SYNAPSE_MAX_NODES = 16"
definition SYNAPSE_MAX_LINKS :: nat where "SYNAPSE_MAX_LINKS = 64"

definition synapse_init :: "synapses \<Rightarrow> synapses" where
  "synapse_init s = \<lparr> nodes = [], links = [], recently_fired = (\<lambda>_. False) \<rparr>"

definition synapse_add_node :: "u8 \<Rightarrow> nat \<Rightarrow> synapses \<Rightarrow> int \<times> synapses" where
  "synapse_add_node nid thr s =
     (if length (nodes s) \<ge> SYNAPSE_MAX_NODES then (-1, s)
      else (0, s\<lparr> nodes := nodes s @ [\<lparr> node_id = nid, activation = 0, threshold = thr,
                                        refractory = 0, fire_count = 0 \<rparr>] \<rparr>))"

definition synapse_connect :: "u8 \<Rightarrow> u8 \<Rightarrow> int \<Rightarrow> nat \<Rightarrow> synapses \<Rightarrow> int \<times> synapses" where
  "synapse_connect from to w p s =
     (if length (links s) \<ge> SYNAPSE_MAX_LINKS then (-1, s)
      else (0, s\<lparr> links := links s @ [\<lparr> from_node = from, to_node = to, weight = w,
                                        plasticity = p \<rparr>] \<rparr>))"

text \<open>The first node with the id, as its index.\<close>

fun find_node :: "u8 \<Rightarrow> synapse_node list \<Rightarrow> nat option" where
  "find_node nid [] = None"
| "find_node nid (n # ns) = (if node_id n = nid then Some 0 else map_option Suc (find_node nid ns))"

definition clamp_activation :: "int \<Rightarrow> int" where
  "clamp_activation a = (let a = (if a > 127 then 127 else a) in if a < -128 then -128 else a)"

definition stimulate_nodes :: "u8 \<Rightarrow> int \<Rightarrow> synapse_node list \<Rightarrow> synapse_node list" where
  "stimulate_nodes nid signal ns =
     (case find_node nid ns of None \<Rightarrow> ns
      | Some i \<Rightarrow> ns[i := (ns ! i)\<lparr> activation := clamp_activation (activation (ns ! i) + signal) \<rparr>])"

definition synapse_stimulate :: "u8 \<Rightarrow> int \<Rightarrow> synapses \<Rightarrow> synapses" where
  "synapse_stimulate nid signal s = s\<lparr> nodes := stimulate_nodes nid signal (nodes s) \<rparr>"

text \<open>The loop over the links when the node with the given id fires.\<close>

definition transmit :: "synapse_link list \<Rightarrow> u8 \<Rightarrow> synapse_node list \<Rightarrow> synapse_node list" where
  "transmit ls nid = fold (\<lambda>l ns.
     if from_node l = nid
     then (case find_node (to_node l) ns of None \<Rightarrow> ns
           | Some t \<Rightarrow> stimulate_nodes (node_id (ns ! t)) (weight l) ns)
     else ns) ls"

definition decay :: "synapse_node \<Rightarrow> synapse_node" where
  "decay n =
     (let n = (if activation n > 0 then n\<lparr> activation := activation n - 1 \<rparr> else n)
      in if activation n < 0 then n\<lparr> activation := activation n + 1 \<rparr> else n)"

definition propagate_node ::
  "synapse_link list \<Rightarrow> nat \<Rightarrow> synapse_node list \<times> (nat \<Rightarrow> bool) \<Rightarrow> synapse_node list \<times> (nat \<Rightarrow> bool)" where
  "propagate_node ls i st = (case st of (ns, fired) \<Rightarrow>
     let n = ns ! i in
     if refractory n > 0 then (ns[i := n\<lparr> refractory := refractory n - 1 \<rparr>], fired)
     else
       let (ns, fired) =
             (if activation n \<ge> int (threshold n)
              then (transmit ls (node_id n)
                     (ns[i := n\<lparr> fire_count := fire_count n + 1, refractory := 3 \<rparr>]), fired(i := True))
              else (ns, fired))
       in (ns[i := decay (ns ! i)], fired))"

definition synapse_propagate :: "synapses \<Rightarrow> synapses" where
  "synapse_propagate s =
     (let (ns, fired) = fold (propagate_node (links s)) [0..<length (nodes s)] (nodes s, \<lambda>_. False)
      in s\<lparr> nodes := ns, recently_fired := fired \<rparr>)"

text \<open>The index the learning loop finds: the last node with the id.\<close>

definition last_index :: "u8 \<Rightarrow> synapse_node list \<Rightarrow> nat option" where
  "last_index nid ns = fold (\<lambda>j r. if node_id (ns ! j) = nid then Some j else r) [0..<length ns] None"

definition adapt_link :: "bool \<Rightarrow> bool \<Rightarrow> synapse_link \<Rightarrow> synapse_link" where
  "adapt_link ff tf l =
     (let l = (if ff \<and> tf
               then let r = int (plasticity l div 32 + 1)
                    in (if weight l < 127 - r then l\<lparr> weight := weight l + r \<rparr> else l\<lparr> weight := 127 \<rparr>)
               else l)
      in if ff \<and> \<not> tf then (if weight l > -120 then l\<lparr> weight := weight l - 1 \<rparr> else l) else l)"

definition learn_link :: "synapses \<Rightarrow> nat \<Rightarrow> synapse_link list \<times> int \<Rightarrow> synapse_link list \<times> int" where
  "learn_link s i st = (case st of (ls, tot) \<Rightarrow>
     (case (last_index (from_node (ls ! i)) (nodes s), last_index (to_node (ls ! i)) (nodes s)) of
        (Some f, Some t) \<Rightarrow>
          let l = adapt_link (recently_fired s f) (recently_fired s t) (ls ! i)
          in (ls[i := l], tot + (if weight l < 0 then - weight l else weight l))
      | _ \<Rightarrow> (ls, tot)))"

text \<open>Division of C integers rounds towards zero; the total is positive here.\<close>

definition scale_weight :: "int \<Rightarrow> int \<Rightarrow> int" where
  "scale_weight tot w = (if w < 0 then - (- w * 950 div tot) else w * 950 div tot)"

definition synapse_hebbian_learning :: "synapses \<Rightarrow> synapses" where
  "synapse_hebbian_learning s =
     (let (ls, tot) = fold (learn_link s) [0..<length (links s)] (links s, 0)
      in s\<lparr> links := (if tot > 1000
            then map (\<lambda>l. l\<lparr> weight := scale_weight tot (weight l) \<rparr>) ls else ls) \<rparr>)"

definition synapse_get_activation :: "u8 \<Rightarrow> synapses \<Rightarrow> int" where
  "synapse_get_activation nid s =
     (case find_node nid (nodes s) of None \<Rightarrow> 0 | Some i \<Rightarrow> activation (nodes s ! i))"

text \<open>
  Export and import copy the link table, four bytes a link. The size that is written and the
  links that are complete in the buffer; the import divides the size by four again.
\<close>

definition synapse_export_links :: "nat \<Rightarrow> synapses \<Rightarrow> nat \<times> synapse_link list" where
  "synapse_export_links max_size s =
     (let sz = length (links s) * 4; sz = (if sz > max_size then max_size else sz)
      in (sz, take (sz div 4) (links s)))"

definition synapse_import_links :: "synapse_link list \<Rightarrow> nat \<Rightarrow> synapses \<Rightarrow> synapses" where
  "synapse_import_links buf sz s =
     (let count = sz div 4; count = (if count > SYNAPSE_MAX_LINKS then SYNAPSE_MAX_LINKS else count)
      in s\<lparr> links := take count buf \<rparr>)"

section \<open>Ranges\<close>

definition node_ok :: "synapse_node \<Rightarrow> bool" where
  "node_ok n \<longleftrightarrow> -128 \<le> activation n \<and> activation n \<le> 127 \<and> threshold n < 256 \<and> refractory n \<le> 3"

definition link_ok :: "synapse_link \<Rightarrow> bool" where
  "link_ok l \<longleftrightarrow> -128 \<le> weight l \<and> weight l \<le> 127 \<and> plasticity l < 256"

definition synapses_ok :: "synapses \<Rightarrow> bool" where
  "synapses_ok s \<longleftrightarrow> length (nodes s) \<le> 16 \<and> length (links s) \<le> 64
     \<and> (\<forall>n\<in>set (nodes s). node_ok n) \<and> (\<forall>l\<in>set (links s). link_ok l)"

lemma set_update: "x \<in> set (xs[i := y]) \<Longrightarrow> x = y \<or> x \<in> set xs"
  using set_update_subset_insert by fastforce

lemma clamp_range: "-128 \<le> clamp_activation a \<and> clamp_activation a \<le> 127"
  by (simp add: clamp_activation_def Let_def)

lemma find_node_less: "find_node nid ns = Some i \<Longrightarrow> i < length ns \<and> node_id (ns ! i) = nid"
  by (induction ns arbitrary: i) (auto split: if_splits)

lemma stimulate_length [simp]: "length (stimulate_nodes nid sg ns) = length ns"
  by (simp add: stimulate_nodes_def split: option.split)

lemma stimulate_nodes_ok: "\<forall>n\<in>set ns. node_ok n \<Longrightarrow> \<forall>n\<in>set (stimulate_nodes nid sg ns). node_ok n"
proof (cases "find_node nid ns")
  case (Some i)
  assume ok: "\<forall>n\<in>set ns. node_ok n"
  have "node_ok (ns ! i)" using ok find_node_less [OF Some] by simp
  then have "node_ok ((ns ! i)\<lparr> activation := clamp_activation (activation (ns ! i) + sg) \<rparr>)"
    using clamp_range by (simp add: node_ok_def)
  with ok Some show ?thesis by (auto simp: stimulate_nodes_def dest!: set_update)
qed (simp add: stimulate_nodes_def)

lemma transmit_ok:
  "\<forall>n\<in>set ns. node_ok n \<Longrightarrow> (\<forall>n\<in>set (transmit ls nid ns). node_ok n) \<and> length (transmit ls nid ns) = length ns"
proof (induction ls arbitrary: ns)
  case (Cons l ls)
  define ns' where "ns' = (if from_node l = nid
     then (case find_node (to_node l) ns of None \<Rightarrow> ns
           | Some t \<Rightarrow> stimulate_nodes (node_id (ns ! t)) (weight l) ns) else ns)"
  have "\<forall>n\<in>set ns'. node_ok n" "length ns' = length ns"
    using Cons.prems stimulate_nodes_ok by (auto simp: ns'_def split: option.split)
  with Cons.IH [of ns'] show ?case by (simp add: transmit_def ns'_def)
qed (simp add: transmit_def)

lemma decay_ok: "node_ok n \<Longrightarrow> node_ok (decay n)"
  by (auto simp: decay_def node_ok_def Let_def)

lemma propagate_node_ok:
  assumes "\<forall>n\<in>set ns. node_ok n" "i < length ns"
  shows "(\<forall>n\<in>set (fst (propagate_node ls i (ns, fired))). node_ok n)
     \<and> length (fst (propagate_node ls i (ns, fired))) = length ns"
proof -
  let ?n = "ns ! i"
  have n: "node_ok ?n" using assms by simp
  define ms where "ms = (if activation ?n \<ge> int (threshold ?n)
     then transmit ls (node_id ?n) (ns[i := ?n\<lparr> fire_count := fire_count ?n + 1, refractory := 3 \<rparr>]) else ns)"
  have "\<forall>m\<in>set (ns[i := ?n\<lparr> fire_count := fire_count ?n + 1, refractory := 3 \<rparr>]). node_ok m"
    using assms(1) n by (auto simp: node_ok_def dest!: set_update)
  from transmit_ok [OF this] have ms: "\<forall>m\<in>set ms. node_ok m" "length ms = length ns"
    using assms(1) by (auto simp: ms_def)
  have "node_ok (decay (ms ! i))" using ms assms(2) decay_ok by simp
  then have d: "\<forall>m\<in>set (ms[i := decay (ms ! i)]). node_ok m" using ms by (auto dest!: set_update)
  have r: "\<forall>m\<in>set (ns[i := ?n\<lparr> refractory := refractory ?n - 1 \<rparr>]). node_ok m"
    using assms(1) n by (auto simp: node_ok_def dest!: set_update)
  show ?thesis
    using d r ms by (auto simp: propagate_node_def Let_def ms_def)
qed

lemma propagate_fold_ok:
  "\<forall>n\<in>set ns. node_ok n \<Longrightarrow> \<forall>i\<in>set is. i < length ns \<Longrightarrow>
     (\<forall>n\<in>set (fst (fold (propagate_node ls) is (ns, fired))). node_ok n)
     \<and> length (fst (fold (propagate_node ls) is (ns, fired))) = length ns"
proof (induction "is" arbitrary: ns fired)
  case (Cons i "is")
  obtain ns' fired' where p: "propagate_node ls i (ns, fired) = (ns', fired')" by fastforce
  with propagate_node_ok [of ns i ls fired] Cons.prems
  have "\<forall>n\<in>set ns'. node_ok n" "length ns' = length ns" by auto
  with Cons p show ?case by simp
qed simp

lemma adapt_link_ok: "link_ok l \<Longrightarrow> link_ok (adapt_link a b l)"
  by (auto simp: adapt_link_def link_ok_def Let_def)

section \<open>Learning\<close>

definition connected :: "synapses \<Rightarrow> synapse_link \<Rightarrow> bool" where
  "connected s l \<longleftrightarrow> last_index (from_node l) (nodes s) \<noteq> None \<and> last_index (to_node l) (nodes s) \<noteq> None"

definition adapted :: "synapses \<Rightarrow> synapse_link \<Rightarrow> synapse_link" where
  "adapted s l = (case (last_index (from_node l) (nodes s), last_index (to_node l) (nodes s)) of
     (Some f, Some t) \<Rightarrow> adapt_link (recently_fired s f) (recently_fired s t) l | _ \<Rightarrow> l)"

definition load :: "synapses \<Rightarrow> synapse_link list \<Rightarrow> int" where
  "load s ls = (\<Sum>l\<leftarrow>filter (connected s) ls. \<bar>weight l\<bar>)"

lemma adapt_link_nodes [simp]: "from_node (adapt_link a b l) = from_node l" "to_node (adapt_link a b l) = to_node l"
  by (simp_all add: adapt_link_def Let_def)

lemma adapted_nodes [simp]: "from_node (adapted s l) = from_node l" "to_node (adapted s l) = to_node l"
  by (simp_all add: adapted_def split: option.split)

lemma connected_adapted [simp]: "connected s (adapted s l) = connected s l"
  by (simp add: connected_def)

lemma learn_link_eq:
  "learn_link s i (ls, tot) = (if connected s (ls ! i)
     then (ls[i := adapted s (ls ! i)], tot + \<bar>weight (adapted s (ls ! i))\<bar>) else (ls, tot))"
  by (auto simp: learn_link_def connected_def adapted_def Let_def abs_if split: option.split)

lemma not_connected_adapted: "\<not> connected s l \<Longrightarrow> adapted s l = l"
  by (auto simp: connected_def adapted_def split: option.split)

lemma learn_fold:
  "k \<le> length ls \<Longrightarrow> fold (learn_link s) [0..<k] (ls, 0) =
     (map (adapted s) (take k ls) @ drop k ls, load s (map (adapted s) (take k ls)))"
proof (induction k)
  case (Suc k)
  let ?m = "map (adapted s) (take k ls) @ drop k ls"
  have at: "?m ! k = ls ! k" using Suc.prems by (simp add: nth_append)
  have upd: "?m[k := adapted s (ls ! k)] = map (adapted s) (take (Suc k) ls) @ drop (Suc k) ls"
    using Suc.prems by (simp add: list_update_append take_Suc_conv_app_nth Cons_nth_drop_Suc [symmetric])
  have same: "\<not> connected s (ls ! k) \<Longrightarrow> ?m = map (adapted s) (take (Suc k) ls) @ drop (Suc k) ls"
    using Suc.prems by (simp add: take_Suc_conv_app_nth not_connected_adapted Cons_nth_drop_Suc)
  have "fold (learn_link s) [0..<Suc k] (ls, 0)
      = learn_link s k (?m, load s (map (adapted s) (take k ls)))"
    using Suc by simp
  also have "\<dots> = (map (adapted s) (take (Suc k) ls) @ drop (Suc k) ls,
      load s (map (adapted s) (take (Suc k) ls)))"
    using Suc.prems upd same unfolding learn_link_eq at
    by (simp add: load_def take_Suc_conv_app_nth)
  finally show ?case .
qed (simp add: load_def)

lemma hebbian_eq:
  "synapse_hebbian_learning s = (let ls = map (adapted s) (links s) in
     s\<lparr> links := (if load s ls > 1000 then map (\<lambda>l. l\<lparr> weight := scale_weight (load s ls) (weight l) \<rparr>) ls else ls) \<rparr>)"
  using learn_fold [of "length (links s)" "links s" s]
  by (simp add: synapse_hebbian_learning_def Let_def)

lemma scale_weight_abs: "\<bar>scale_weight tot w\<bar> = \<bar>w\<bar> * 950 div tot" if "0 < tot"
proof (cases "w < 0")
  case True
  with that have "0 \<le> - w * 950 div tot" by (simp add: pos_imp_zdiv_nonneg_iff)
  with True show ?thesis by (simp add: scale_weight_def)
next
  case False
  with that have "0 \<le> w * 950 div tot" by (simp add: pos_imp_zdiv_nonneg_iff)
  with False show ?thesis by (simp add: scale_weight_def)
qed

lemma scaled_sum: "0 < tot \<Longrightarrow> (\<Sum>l\<leftarrow>ls. \<bar>scale_weight tot (weight l)\<bar>) * tot \<le> 950 * (\<Sum>l\<leftarrow>ls. \<bar>weight l\<bar>)"
proof (induction ls)
  case (Cons l ls)
  have "\<bar>weight l\<bar> * 950 div tot * tot \<le> \<bar>weight l\<bar> * 950"
    using Cons.prems by (metis div_mult_mod_eq le_add_same_cancel1 pos_mod_sign)
  with Cons show ?case by (simp add: scale_weight_abs distrib_right distrib_left)
qed simp

lemma scale_shrinks: "tot > 1000 \<Longrightarrow> \<bar>scale_weight tot w\<bar> \<le> \<bar>w\<bar>"
proof -
  assume t: "tot > 1000"
  have "\<bar>w\<bar> * 950 div tot \<le> \<bar>w\<bar> * tot div tot"
    using t by (intro zdiv_mono1 mult_left_mono) auto
  with t show ?thesis by (simp add: scale_weight_abs)
qed

lemma scale_range: "tot > 1000 \<Longrightarrow> -128 \<le> w \<Longrightarrow> w \<le> 127 \<Longrightarrow>
    -128 \<le> scale_weight tot w \<and> scale_weight tot w \<le> 127"
proof -
  assume t: "tot > 1000" and w: "-128 \<le> w" "w \<le> 127"
  have a: "\<bar>scale_weight tot w\<bar> \<le> \<bar>w\<bar>" by (rule scale_shrinks [OF t])
  show ?thesis
  proof (cases "w < 0")
    case True
    then have "scale_weight tot w \<le> 0"
      using t by (simp add: scale_weight_def pos_imp_zdiv_nonneg_iff)
    with a w True show ?thesis by linarith
  next
    case False
    with a w show ?thesis by linarith
  qed
qed

lemma hebbian_ok: "synapses_ok s \<Longrightarrow> synapses_ok (synapse_hebbian_learning s)"
proof -
  assume s: "synapses_ok s"
  have ad: "link_ok (adapted s l)" if "link_ok l" for l
    using that by (auto simp: adapted_def adapt_link_ok split: option.split)
  then have ls: "\<forall>l\<in>set (map (adapted s) (links s)). link_ok l"
    using s by (auto simp: synapses_ok_def)
  have sc: "link_ok (l\<lparr> weight := scale_weight tot (weight l) \<rparr>)" if "link_ok l" "tot > 1000" for l tot
    using that scale_range [of tot "weight l"] by (simp add: link_ok_def)
  show ?thesis
    using s ls sc ad by (auto simp: hebbian_eq Let_def synapses_ok_def)
qed

lemma propagate_ok: "synapses_ok s \<Longrightarrow> synapses_ok (synapse_propagate s)"
  using propagate_fold_ok [of "nodes s" "[0..<length (nodes s)]" "links s" "\<lambda>_. False"]
  by (simp add: synapses_ok_def synapse_propagate_def case_prod_beta)

lemma stimulate_ok: "synapses_ok s \<Longrightarrow> synapses_ok (synapse_stimulate nid sg s)"
  using stimulate_nodes_ok [of "nodes s"] by (simp add: synapses_ok_def synapse_stimulate_def)

text \<open>Nodes and links are pools of fixed capacity.\<close>

definition add_link :: "synapse_link \<Rightarrow> synapses \<Rightarrow> synapses" where
  "add_link l s = snd (synapse_connect (from_node l) (to_node l) (weight l) (plasticity l) s)"

interpretation link_pool: bounded_pool 64 add_link links synapses_ok link_ok
  by unfold_locales
    (auto simp: add_link_def synapse_connect_def SYNAPSE_MAX_LINKS_def synapses_ok_def link_ok_def)

text \<open>
  C25: Learning keeps the network calm. From any network within its ranges, a learning step keeps
  every weight an 8-bit value and leaves a total strength of the links between existing nodes of
  at most 1000, whatever they were strengthened to.
\<close>

theorem learning_normalises:
  assumes "synapses_ok s"
  shows "synapses_ok (synapse_hebbian_learning s)
     \<and> load (synapse_hebbian_learning s) (links (synapse_hebbian_learning s)) \<le> 1000"
proof -
  define ls where "ls = map (adapted s) (links s)"
  define tot where "tot = load s ls"
  have l: "load (synapse_hebbian_learning s) = load s"
    by (intro ext) (simp add: load_def hebbian_eq Let_def connected_def [abs_def])
  have "load s (links (synapse_hebbian_learning s)) \<le> 1000"
  proof (cases "tot > 1000")
    case False
    then show ?thesis by (simp add: hebbian_eq Let_def tot_def ls_def)
  next
    case True
    let ?f = "\<lambda>l. l\<lparr> weight := scale_weight tot (weight l) \<rparr>"
    have c: "connected s (?f l) = connected s l" for l by (simp add: connected_def)
    have "load s (map ?f ls) = (\<Sum>l\<leftarrow>filter (connected s) ls. \<bar>scale_weight tot (weight l)\<bar>)"
      by (simp add: load_def filter_map comp_def c)
    then have "load s (map ?f ls) * tot \<le> 950 * tot"
      using scaled_sum [of tot "filter (connected s) ls"] True by (simp add: tot_def load_def)
    then have "load s (map ?f ls) \<le> 950" using True by simp
    then show ?thesis using True by (simp add: hebbian_eq Let_def tot_def ls_def)
  qed
  then show ?thesis using hebbian_ok [OF assms] l by simp
qed

definition small_net :: synapses where
  "small_net = snd (synapse_connect 1 2 120 255 (snd (synapse_add_node 2 5 (snd (synapse_add_node 1 5
     \<lparr> nodes = [], links = [], recently_fired = (\<lambda>_. True) \<rparr>)))))"

theorem learning_normalises_witness:
  "load (synapse_hebbian_learning small_net) (links (synapse_hebbian_learning small_net)) \<le> 1000"
  by (rule learning_normalises [THEN conjunct2])
    (simp add: small_net_def synapses_ok_def synapse_connect_def synapse_add_node_def
      SYNAPSE_MAX_NODES_def SYNAPSE_MAX_LINKS_def node_ok_def link_ok_def)

end
