(* ===== verification/Vital_Life.thy ===== *)
theory Vital_Life
  imports Vital_Body Vital_Synapse
begin

text \<open>
  The interpreter of learned reflexes (\<open>metabolic_forth.c\<close>), persistence (\<open>vital_persistence.c\<close>) and
  the life loop (\<open>life_loop.c\<close>): birth and one beat of the heart, in which all parts of the organ
  meet.
\<close>

section \<open>Forth\<close>

definition FORTH_STACK_SIZE :: nat where "FORTH_STACK_SIZE = 32"
definition MAX_WORDS :: nat where "MAX_WORDS = 128"

definition forth_push :: "u64 \<Rightarrow> forth \<Rightarrow> forth" where
  "forth_push x f = (if length (forth_stack f) < FORTH_STACK_SIZE
     then f\<lparr> forth_stack := x # forth_stack f \<rparr> else f)"

definition forth_pop :: "forth \<Rightarrow> u64 \<times> forth" where
  "forth_pop f = (case forth_stack f of [] \<Rightarrow> (0, f) | x # xs \<Rightarrow> (x, f\<lparr> forth_stack := xs \<rparr>))"

definition forth_learn_word :: "char \<Rightarrow> string \<Rightarrow> nat \<Rightarrow> forth \<Rightarrow> forth" where
  "forth_learn_word name code len f =
     (if length (dictionary f) < MAX_WORDS
      then f\<lparr> dictionary := dictionary f @ [\<lparr> word_name = name, word_code = take (min len 8) code,
                                             word_length = len \<rparr>] \<rparr>
      else f)"

fun find_word :: "char \<Rightarrow> forth_word list \<Rightarrow> forth_word option" where
  "find_word c [] = None"
| "find_word c (w # ws) = (if word_name w = c then Some w else find_word c ws)"

definition v_push :: "u64 \<Rightarrow> vital \<Rightarrow> vital" where
  "v_push x v = v\<lparr> v_forth := forth_push x (v_forth v) \<rparr>"

definition v_pop :: "vital \<Rightarrow> u64 \<times> vital" where
  "v_pop v = (case forth_pop (v_forth v) of (x, f) \<Rightarrow> (x, v\<lparr> v_forth := f \<rparr>))"

definition binary :: "(u64 \<Rightarrow> u64 \<Rightarrow> u64) \<Rightarrow> vital \<Rightarrow> vital" where
  "binary op v = (let (b, v) = v_pop v; (a, v) = v_pop v in v_push (op a b) v)"

definition is_digit :: "char \<Rightarrow> bool" where
  "is_digit c \<longleftrightarrow> (of_char c :: nat) \<ge> 48 \<and> (of_char c :: nat) \<le> 57"

definition forth_primitive :: "char \<Rightarrow> vital \<Rightarrow> vital" where
  "forth_primitive c v =
     (if c = CHR ''+'' then binary (+) v
      else if c = CHR ''-'' then binary (-) v
      else if c = CHR ''*'' then binary (*) v
      else if c = CHR ''Y'' then let (w, v) = v_pop v in vital_shift_balance FORCE_YANG (unat (ucast w :: u8)) v
      else if c = CHR ''y'' then let (w, v) = v_pop v in vital_shift_balance FORCE_YIN (unat (ucast w :: u8)) v
      else if c = CHR ''P'' then v_push (vital_get_pulse_count v) v
      else if c = CHR ''T'' then v_push (of_nat (vital_get_tension v)) v
      else if c = CHR ''L'' then v_push (of_nat (vital_get_pain_level v)) v
      else if c = CHR ''.'' then snd (v_pop v)
      else if c = CHR ''D'' then vital_emit_distress_beacon v
      else v)"

text \<open>
  \<open>vital_forth_exec\<close> reads one character and runs each character of a learned word by a recursive
  call. The recursion is written with the characters still to be run. There is no result when the
  recursion does not end, and none when a word is longer than its stored code of eight bytes,
  because the code then reads beyond the array.
\<close>

partial_function (option) forth_run :: "string \<Rightarrow> vital \<Rightarrow> vital option" where
  "forth_run cs v =
     (case cs of [] \<Rightarrow> Some v
      | c # cs \<Rightarrow>
          if c = CHR 0x00 then forth_run cs v
          else if is_digit c then forth_run cs (v_push (of_nat (of_char c - 48)) v)
          else case find_word c (dictionary (v_forth v)) of
                 Some w \<Rightarrow> if word_length w > length (word_code w) then None
                           else forth_run (take (word_length w) (word_code w) @ cs) v
               | None \<Rightarrow> forth_run cs (forth_primitive c v))"

definition vital_forth_exec :: "string \<Rightarrow> vital \<Rightarrow> vital option" where
  "vital_forth_exec instruction v = forth_run (take 1 instruction) v"

definition vital_metabolic_tick :: "vital \<Rightarrow> vital option" where
  "vital_metabolic_tick v =
     (if vital_get_tension v > 150
      then case vital_forth_exec ''5'' v of None \<Rightarrow> None | Some v \<Rightarrow> vital_forth_exec ''y'' v
      else Some v)"

section \<open>Persistence\<close>

definition DNA_MAGIC :: u32 where "DNA_MAGIC = 0x414E444F"

definition vital_persistence_init :: "bool \<Rightarrow> vital \<Rightarrow> vital" where
  "vital_persistence_init ctx v = v\<lparr> v_storage := ctx \<rparr>"

text \<open>The image is handed to the storage functions; here the requests to write are recorded.\<close>

definition vital_persistence_save :: "vital \<Rightarrow> vital" where
  "vital_persistence_save v =
     (if \<not> v_storage v then v
      else let (sz, data) = synapse_export_links 1024 (v_syn v);
               (epi, v1) = vital_epigenetic_export None 512 v
           in v1\<lparr> v_written := v_written v1 @ [\<lparr> sd_magic = DNA_MAGIC, sd_version = 1,
                sd_spark = vital_get_spark_state v, sd_synapse_size = sz, sd_synapse_data = data,
                sd_epigenetic_data = epi \<rparr>] \<rparr>)"

text \<open>\<open>img\<close> is what reading the file returns, \<open>None\<close> when there is no file or the read fails.\<close>

definition vital_persistence_load :: "soma_dna option \<Rightarrow> vital \<Rightarrow> vital" where
  "vital_persistence_load img v =
     (if \<not> v_storage v then v
      else case img of None \<Rightarrow> v
      | Some dna \<Rightarrow>
          if sd_magic dna = DNA_MAGIC
          then vital_epigenetic_import (sd_epigenetic_data dna) 512
                 (vital_set_spark_state (sd_spark dna)
                    (v\<lparr> v_syn := synapse_import_links (sd_synapse_data dna) (sd_synapse_size dna) (v_syn v) \<rparr>))
          else v)"

section \<open>Birth\<close>

definition SYN_NODE_PAIN :: u8 where "SYN_NODE_PAIN = 0"
definition SYN_NODE_ENERGY :: u8 where "SYN_NODE_ENERGY = 1"
definition SYN_NODE_CONSCIOUSNESS :: u8 where "SYN_NODE_CONSCIOUSNESS = 2"
definition SYN_NODE_ENTROPY :: u8 where "SYN_NODE_ENTROPY = 3"
definition SYN_NODE_AURA :: u8 where "SYN_NODE_AURA = 4"
definition SYN_NODE_DREAM :: u8 where "SYN_NODE_DREAM = 5"
definition SYN_NODE_GUARDIAN :: u8 where "SYN_NODE_GUARDIAN = 6"
definition SYN_NODE_HOMEOSTASIS :: u8 where "SYN_NODE_HOMEOSTASIS = 7"

definition CIRCADIAN_PHASE_DURATION :: u64 where "CIRCADIAN_PHASE_DURATION = 25000"

definition birth_organs :: "(u8 \<times> u64) list" where
  "birth_organs = [(0, 300000), (1, 200000), (2, 100000), (3, 100000), (15, 50000)]"

definition birth_nodes :: "(u8 \<times> nat) list" where
  "birth_nodes = [(SYN_NODE_PAIN, 30), (SYN_NODE_ENERGY, 40), (SYN_NODE_CONSCIOUSNESS, 50),
     (SYN_NODE_ENTROPY, 20), (SYN_NODE_AURA, 60), (SYN_NODE_DREAM, 70), (SYN_NODE_GUARDIAN, 25),
     (SYN_NODE_HOMEOSTASIS, 35)]"

definition birth_links :: "(u8 \<times> u8 \<times> int \<times> nat) list" where
  "birth_links = [(SYN_NODE_PAIN, SYN_NODE_CONSCIOUSNESS, 80, 200), (SYN_NODE_PAIN, SYN_NODE_AURA, 60, 150),
     (SYN_NODE_ENERGY, SYN_NODE_DREAM, 40, 180), (SYN_NODE_CONSCIOUSNESS, SYN_NODE_AURA, 50, 100),
     (SYN_NODE_ENTROPY, SYN_NODE_DREAM, 30, 200), (SYN_NODE_GUARDIAN, SYN_NODE_PAIN, -20, 50),
     (SYN_NODE_HOMEOSTASIS, SYN_NODE_ENERGY, 40, 120), (SYN_NODE_DREAM, SYN_NODE_ENTROPY, 25, 200)]"

definition birth_metabolism :: "metabolism \<Rightarrow> metabolism" where
  "birth_metabolism m = fold (\<lambda>(organ, budget). metabolism_register_organ organ budget) birth_organs
     (metabolism_init 1000000 m)"

definition birth_synapses :: "synapses \<Rightarrow> synapses" where
  "birth_synapses s =
     fold (\<lambda>(from, to, w, p) s. snd (synapse_connect from to w p s)) birth_links
       (fold (\<lambda>(nid, thr) s. snd (synapse_add_node nid thr s)) birth_nodes (synapse_init s))"

definition vital_init :: "surroundings \<Rightarrow> soma_dna option \<Rightarrow> vital \<Rightarrow> vital" where
  "vital_init e img v =
     (let v = v\<lparr> v_spark := (v_spark v)\<lparr> current_force := FORCE_YANG, tension := 128, pulse_count := 0,
                 birth_timestamp := 0, age_cycles := 0 \<rparr> \<rparr>;
          v = consciousness_init e v;
          v = nociception_init v;
          v = v\<lparr> v_met := birth_metabolism (v_met v) \<rparr>;
          v = v\<lparr> v_board := homeostasis_init \<rparr>;
          v = vital_epigenetic_init v;
          v = v\<lparr> v_syn := birth_synapses (v_syn v) \<rparr>
      in vital_persistence_load img v)"

section \<open>The beat\<close>

definition stimulate :: "u8 \<Rightarrow> int \<Rightarrow> vital \<Rightarrow> vital" where
  "stimulate nid sg v = v\<lparr> v_syn := synapse_stimulate nid sg (v_syn v) \<rparr>"

definition set_force :: "vital_force \<Rightarrow> vital \<Rightarrow> vital" where
  "set_force f v = v\<lparr> v_spark := (v_spark v)\<lparr> current_force := f \<rparr> \<rparr>"

definition set_tension :: "nat \<Rightarrow> vital \<Rightarrow> vital" where
  "set_tension t v = v\<lparr> v_spark := (v_spark v)\<lparr> tension := t \<rparr> \<rparr>"

text \<open>Layer 0, the assembly routine: one pulse, and the measured duration added to the jitter.\<close>

definition vital_steel_tick :: "surroundings \<Rightarrow> vital \<Rightarrow> vital" where
  "vital_steel_tick e v = v\<lparr> v_spark := (v_spark v)\<lparr> pulse_count := pulse_count (v_spark v) + 1,
     jitter := jitter (v_spark v) + s_burn e \<rparr> \<rparr>"

definition enter_phase :: "surroundings \<Rightarrow> circadian_phase \<Rightarrow> vital \<Rightarrow> vital" where
  "enter_phase e ph v = (case ph of
       CIRCADIAN_DAWN \<Rightarrow> set_force FORCE_YANG
         (snd (consciousness_transition e CONSCIOUSNESS_AWARE ORGAN_TYPE_VITAL ''Dawn'' v))
     | CIRCADIAN_ZENITH \<Rightarrow>
         snd (consciousness_transition e CONSCIOUSNESS_FOCUSED ORGAN_TYPE_VITAL ''Zenith'' v)
     | CIRCADIAN_DUSK \<Rightarrow>
         snd (consciousness_transition e CONSCIOUSNESS_AWARE ORGAN_TYPE_VITAL ''Dusk'' v)
     | CIRCADIAN_NADIR \<Rightarrow>
         let v = set_force FORCE_YIN
               (snd (consciousness_transition e CONSCIOUSNESS_DREAMING ORGAN_TYPE_VITAL ''Nadir'' v))
         in v\<lparr> v_spark := (v_spark v)\<lparr> age_cycles := age_cycles (v_spark v) + 1 \<rparr> \<rparr>)"

definition layer_time :: "surroundings \<Rightarrow> vital \<Rightarrow> vital option" where
  "layer_time e v =
     (if pulse_count (v_spark v) - v_phase_start v \<ge> CIRCADIAN_PHASE_DURATION
      then let v = v\<lparr> v_phase_start := pulse_count (v_spark v), v_phase := next_phase (v_phase v) \<rparr>
           in vital_pineal_gland_sync e (enter_phase e (v_phase v) v)
      else Some v)"

definition layer_pain :: "vital \<Rightarrow> vital" where
  "layer_pain v =
     (let v = nociception_tick v; pain = nociception_get_global_pain v
      in stimulate SYN_NODE_PAIN (int (if pain > 127 then 127 else pain)) v)"

definition layer_energy :: "surroundings \<Rightarrow> vital \<Rightarrow> vital" where
  "layer_energy e v =
     (let v = metabolism_tick e v
      in if metabolism_is_starving (v_met v)
         then vital_shift_balance FORCE_YIN 20 (stimulate SYN_NODE_ENERGY 100 v) else v)"

text \<open>The panic of the Ouroboros halts the processor: the beat does not return.\<close>

definition layer_homeostasis :: "surroundings \<Rightarrow> vital \<Rightarrow> vital option" where
  "layer_homeostasis e v =
     (let v = homeostasis_regulate e v
      in if homeostasis_is_viable (v_board v) then Some v
         else let v = stimulate SYN_NODE_HOMEOSTASIS 120
                        (nociception_fire e PAIN_SOURCE_CPU PAIN_AGONY 0xDEAD0001 v)
              in if metabolism_is_starving (v_met v) \<and> tension (v_spark v) > 200 then None else Some v)"

definition layer_consciousness :: "surroundings \<Rightarrow> vital \<Rightarrow> vital" where
  "layer_consciousness e v =
     (let v = consciousness_tick e v
      in stimulate SYN_NODE_CONSCIOUSNESS (int (cons_code (consciousness_get_state v) * 10)) v)"

definition layer_guardian :: "surroundings \<Rightarrow> vital \<Rightarrow> vital" where
  "layer_guardian e v =
     (if s_guardian e \<ge> 1
      then let v = stimulate SYN_NODE_GUARDIAN (int (s_guardian e * 50)) v
           in if s_guardian e = 2
              then nociception_fire e PAIN_SOURCE_INTEGRITY PAIN_SEARING 0xBAD00002 v else v
      else v)"

definition layer_entropy :: "surroundings \<Rightarrow> vital \<Rightarrow> vital" where
  "layer_entropy e v = stimulate SYN_NODE_ENTROPY (uint (s_entropy e AND 0x3F) - 32)
     (vital_generate_biotic_noise e (s_entropy e) v)"

definition layer_dream :: "vital \<Rightarrow> vital" where
  "layer_dream v =
     (if v_phase v = CIRCADIAN_NADIR \<and> pulse_count (v_spark v) mod 1000 = 0
      then let (r, v) = dream_simulate (dream_select_scenario (255 - vital_get_personality_influence v)) v
           in stimulate SYN_NODE_DREAM (uint (dr_survival_rate r)) (dream_apply_lessons r v)
      else v)"

definition layer_synapses :: "vital \<Rightarrow> vital" where
  "layer_synapses v = v\<lparr> v_syn := synapse_hebbian_learning (synapse_propagate (v_syn v)) \<rparr>"

definition layer_aura :: "vital \<Rightarrow> vital" where
  "layer_aura v =
     (let v = v\<lparr> v_aura := vital_update_aura (tension (v_spark v)) (current_force (v_spark v)) (v_aura v) \<rparr>
      in if synapse_get_activation SYN_NODE_AURA (v_syn v) > 100 then vital_emit_distress_beacon v else v)"

definition layer_oscillation :: "vital \<Rightarrow> vital" where
  "layer_oscillation v =
     (let p = vital_get_personality_influence v; t = tension (v_spark v);
          t = (if t < p then t + 1 else if t > p then t - 1 else t);
          v = set_tension t v
      in if t > 160 then set_force FORCE_YIN v
         else if t < 96 then set_force FORCE_YANG v else v)"

definition layer_hormone :: "surroundings \<Rightarrow> vital \<Rightarrow> vital" where
  "layer_hormone e v =
     (if pulse_count (v_spark v) mod 100 = 0
      then pump \<lparr> globule_id = 0, gtype = GLOBULE_YELLOW, source_organ = 15, target_organ = 0xFF,
                  payload_addr = s_addr e Vital_Payload, payload_size = 4 \<rparr> v
      else v)"

definition layer_signature :: "surroundings \<Rightarrow> vital \<Rightarrow> vital" where
  "layer_signature e v =
     (let pulse = pulse_count (v_spark v); x = s_entropy e XOR pulse in
      if pulse mod 10000 = 0 then vital_persistence_save (vital_quantum_sign x v)
      else if \<not> vital_quantum_verify x v
      then vital_mark_experience (-10)
             (nociception_fire e PAIN_SOURCE_INTEGRITY PAIN_ACUTE 0xBAD516 v)
      else v)"

definition layer_epigenetic :: "vital \<Rightarrow> vital" where
  "layer_epigenetic v =
     (let bias = vital_get_personality_influence v;
          v = (if bias < 100 \<and> tension (v_spark v) > 50 then set_tension (tension (v_spark v) - 1) v else v)
      in if bias > 150 \<and> tension (v_spark v) < 200 then set_tension (tension (v_spark v) + 1) v else v)"

text \<open>The lesson of the cortex: a name and the code behind it; the length is truncated to a byte.\<close>

definition layer_lesson :: "surroundings \<Rightarrow> vital \<Rightarrow> vital option" where
  "layer_lesson e v =
     (if pulse_count (v_spark v) mod 50 = 0
      then case united_bus_absorb 15 1 (v_bus v) of None \<Rightarrow> None
           | Some (gs, bus) \<Rightarrow>
               let v = v\<lparr> v_bus := bus \<rparr> in
               (case gs of [] \<Rightarrow> Some v
                | g # _ \<Rightarrow>
                    if source_organ g = 0 \<and> gtype g = GLOBULE_RED \<and> payload_size g \<ge> 2
                    then let data = s_memory e (payload_addr g); len = unat (ucast (payload_size g - 1) :: u8)
                         in Some (v\<lparr> v_forth := forth_learn_word (data 0) (map (\<lambda>i. data (i + 1)) [0..<len])
                                                len (v_forth v) \<rparr>)
                    else Some v)
      else Some v)"

definition heartbeat_inner :: "surroundings \<Rightarrow> vital \<Rightarrow> vital" where
  "heartbeat_inner e v = layer_epigenetic (layer_signature e (layer_hormone e (layer_oscillation
     (layer_aura (layer_synapses (layer_dream (layer_entropy e (layer_guardian e
       (layer_consciousness e v)))))))))"

definition vital_eternal_heartbeat :: "surroundings \<Rightarrow> vital \<Rightarrow> vital option" where
  "vital_eternal_heartbeat e v =
     (case layer_time e (vital_steel_tick e v) of None \<Rightarrow> None
      | Some v \<Rightarrow> (case layer_homeostasis e (layer_energy e (layer_pain v)) of None \<Rightarrow> None
      | Some v \<Rightarrow> (case vital_metabolic_tick (heartbeat_inner e v) of None \<Rightarrow> None
      | Some v \<Rightarrow> layer_lesson e v)))"

end
