(* ===== verification/Vital_Facts.thy ===== *)
theory Vital_Facts
  imports Vital_Life Contracts
begin

text \<open>
  The invariant of the living organ. Each operation of a beat keeps every part within its range:
  the board stays at its targets, consciousness stays among the four states of an undisturbed
  life, endorphins stay at zero, pain stays at most 45000.
\<close>

section \<open>Legal transitions\<close>

lemma transition_state:
  "current_state (v_cons (snd (consciousness_transition e t organ why v))) =
     (if cons_legal (current_state (v_cons v)) t then t else current_state (v_cons v))"
  by (simp add: consciousness_transition_def Let_def pump_def)

interpretation consciousness_fsm: guarded_fsm "\<lambda>v. current_state (v_cons v)"
  "\<lambda>(e, t, organ, why) v. snd (consciousness_transition e t organ why v)" cons_legal "\<lambda>_. True"
  by unfold_locales (auto simp: transition_state split: if_splits)

section \<open>The parts of the invariant\<close>

definition awake :: "consciousness_state \<Rightarrow> bool" where
  "awake s \<longleftrightarrow> s = CONSCIOUSNESS_AWARE \<or> s = CONSCIOUSNESS_FOCUSED \<or> s = CONSCIOUSNESS_ALERT
     \<or> s = CONSCIOUSNESS_DREAMING"

definition cons_ok :: "consciousness \<Rightarrow> bool" where
  "cons_ok c \<longleftrightarrow> awake (current_state c) \<and> history_head c < 64 \<and> history_count c \<le> 64"

definition noci_ok :: "nat \<Rightarrow> nociception \<Rightarrow> bool" where
  "noci_ok b n \<longleftrightarrow> length (nociceptors n) = 6 \<and> (\<forall>r\<in>set (nociceptors n). nr_sensitivity r \<le> 251)
     \<and> endorphin_level n = 0 \<and> global_pain n \<le> b"

definition epi_ok :: "epigenetic_memory \<Rightarrow> bool" where
  "epi_ok m \<longleftrightarrow> personality_bias m \<le> 252 \<and> resilience m \<le> 250 \<and> event_head m < 256"

definition forth_ok :: "forth \<Rightarrow> bool" where
  "forth_ok f \<longleftrightarrow> length (forth_stack f) \<le> 32 \<and> length (dictionary f) \<le> 128"

definition alive :: "nat \<Rightarrow> vital \<Rightarrow> bool" where
  "alive b v \<longleftrightarrow> cons_ok (v_cons v) \<and> noci_ok b (v_noci v) \<and> epi_ok (v_epi v)
     \<and> v_board v = homeostasis_init \<and> synapses_ok (v_syn v) \<and> tension (v_spark v) \<le> 255
     \<and> forth_ok (v_forth v) \<and> bus_safe (v_bus v)"

lemma alive_mono: "alive b v \<Longrightarrow> b \<le> b' \<Longrightarrow> alive b' v"
  by (auto simp: alive_def noci_ok_def)

lemma alive_pump: "alive b v \<Longrightarrow> alive b (pump g v)"
  by (simp add: alive_def pump_def bus_safe_pump)

lemma alive_shift: "alive b v \<Longrightarrow> alive b (vital_shift_balance f w v)"
  by (auto simp: alive_def vital_shift_balance_def Let_def)

lemma alive_transition: "alive b v \<Longrightarrow> awake t \<Longrightarrow> alive b (snd (consciousness_transition e t organ why v))"
  by (auto simp: alive_def consciousness_transition_def Let_def pump_def cons_ok_def HISTORY_SIZE_def
      bus_safe_pump)

lemma epi_mark_ok: "epi_ok m \<Longrightarrow> epi_ok (epi_mark p i m)"
  by (auto simp: epi_ok_def epi_mark_def Let_def MAX_EPIGENETIC_EVENTS_def)

lemma alive_mark: "alive b v \<Longrightarrow> alive b (vital_mark_experience i v)"
  by (simp add: alive_def vital_mark_experience_def epi_mark_ok)

lemma alive_stimulate: "alive b v \<Longrightarrow> alive b (stimulate nid sg v)"
  by (simp add: alive_def stimulate_def stimulate_ok)

lemma alive_set_force: "alive b v \<Longrightarrow> alive b (set_force f v)"
  by (simp add: alive_def set_force_def)

lemma alive_set_tension: "alive b v \<Longrightarrow> t \<le> 255 \<Longrightarrow> alive b (set_tension t v)"
  by (simp add: alive_def set_tension_def)

lemma alive_frame [simp]:
  "alive b (v\<lparr> v_met := m \<rparr>) = alive b v" "alive b (v\<lparr> v_aura := a \<rparr>) = alive b v"
  "alive b (v\<lparr> v_biotic := w \<rparr>) = alive b v" "alive b (v\<lparr> v_sim_rng := x \<rparr>) = alive b v"
  "alive b (v\<lparr> v_lattice := l \<rparr>) = alive b v" "alive b (v\<lparr> v_written := d \<rparr>) = alive b v"
  "alive b (v\<lparr> v_phase := ph \<rparr>) = alive b v" "alive b (v\<lparr> v_phase_start := ps \<rparr>) = alive b v"
  by (simp_all add: alive_def)

section \<open>Pain\<close>

lemma raw_pain_bound:
  assumes "s \<le> 251" "level \<noteq> PAIN_AGONY"
  shows "raw_pain level s \<le> 58"
proof -
  have "PAIN_WEIGHT ! pain_code level * s \<le> 30 * 251"
    using assms by (intro mult_le_mono) (cases level, auto simp: PAIN_WEIGHT_def)
  then have "raw_pain level s \<le> 30 * 251 div 128" unfolding raw_pain_def by (rule div_le_mono)
  then show ?thesis by simp
qed

lemma adapt_range: "nr_sensitivity r \<le> 251 \<Longrightarrow> nr_sensitivity (adapt_sensitivity level r) \<le> 251"
  by (auto simp: adapt_sensitivity_def)

lemma source_less: "source_code src < 6"
  by (cases src) simp_all

lemma alive_set_receptor: "alive b v \<Longrightarrow> nr_sensitivity r \<le> 251 \<Longrightarrow> alive b (set_receptor i r v)"
  by (auto simp: alive_def set_receptor_def noci_ok_def dest!: set_update)

lemma alive_fire:
  assumes "alive b v" "level \<noteq> PAIN_AGONY" "b + 58 < 4294967296"
  shows "alive (b + 58) (nociception_fire e src level code v)"
proof -
  define n where "n = v_noci v"
  define r where "r = nociceptors n ! source_code src"
  have n: "noci_ok b n" using assms by (simp add: alive_def n_def)
  then have r: "nr_sensitivity r \<le> 251" using source_less [of src] by (simp add: noci_ok_def r_def)
  have p: "effective_pain level (nr_sensitivity r) (endorphin_level n) \<le> 58"
    using n raw_pain_bound [OF r assms(2)] by (simp add: effective_pain_def noci_ok_def)
  define p where "p = effective_pain level (nr_sensitivity r) (endorphin_level n)"
  define sg where "sg = \<lparr> ps_level = level, ps_source = src, ps_timestamp = pain_tick_counter n,
    ps_error_code = code, ps_dampened = (if endorphin_level n > 0 then 1 else 0) \<rparr>"
  define v1 where "v1 = v\<lparr> v_noci := n\<lparr> global_pain := u32_add (global_pain n) p \<rparr> \<rparr>"
  define r1 where "r1 = r\<lparr> nr_total_signals := nr_total_signals r + 1, nr_last_signal := sg \<rparr>"
  define v2 where "v2 = set_receptor (source_code src) r1 v1"
  define v3 where "v3 = (if pain_code level \<ge> pain_code PAIN_SEARING
    then pump \<lparr> globule_id = 0, gtype = GLOBULE_WHITE, source_organ = 15, target_organ = 0xFF,
           payload_addr = s_addr e Pain_Signal, payload_size = 24 \<rparr>
           (snd (consciousness_transition e CONSCIOUSNESS_ALERT ORGAN_TYPE_VITAL ''Acute pain detected'' v2))
    else v2)"
  have "global_pain n + p < 4294967296" using n p assms(3) by (simp add: noci_ok_def p_def)
  then have "alive (b + 58) v1"
    using assms(1) n p by (simp add: v1_def alive_def noci_ok_def p_def n_def)
  moreover have r1: "nr_sensitivity r1 \<le> 251" using r by (simp add: r1_def)
  ultimately have "alive (b + 58) v2" by (simp add: v2_def alive_set_receptor)
  then have v3: "alive (b + 58) v3"
    by (simp add: v3_def alive_pump alive_transition awake_def)
  have na: "\<not> pain_code level \<ge> pain_code PAIN_AGONY" using assms(2) by (cases level) simp_all
  have "nociception_fire e src level code v = set_receptor (source_code src) (adapt_sensitivity level r1) v3"
    using source_less [of src] na
    by (simp add: nociception_fire_def Let_def MAX_NOCICEPTORS_def v3_def v2_def v1_def r1_def r_def
        n_def p_def sg_def not_le)
  then show ?thesis using v3 r1 by (simp add: alive_set_receptor adapt_range)
qed

lemma alive_noci_tick: "alive b v \<Longrightarrow> b \<le> 45000 \<Longrightarrow> alive (b * 254 div 255) (nociception_tick v)"
proof -
  assume a: "alive b v" and b: "b \<le> 45000"
  then have le: "global_pain (v_noci v) * 254 div 255 \<le> b * 254 div 255" "global_pain (v_noci v) * 254 < 4294967296"
    by (auto simp: alive_def noci_ok_def intro!: div_le_mono)
  define n where "n = (v_noci v)\<lparr> pain_tick_counter := pain_tick_counter (v_noci v) + 1,
    global_pain := global_pain (v_noci v) * 254 div 255 \<rparr>"
  have e: "nociception_tick v = (if global_pain n > 5000 \<and> pain_tick_counter n mod 10000 = 0
      then vital_mark_experience (-1) (v\<lparr> v_noci := n \<rparr>) else v\<lparr> v_noci := n \<rparr>)"
    using a le by (auto simp: nociception_tick_def Let_def n_def alive_def noci_ok_def)
  have "alive (b * 254 div 255) (v\<lparr> v_noci := n \<rparr>)"
    using a le by (simp add: alive_def noci_ok_def n_def)
  then show ?thesis by (simp add: e alive_mark)
qed

section \<open>Energy and homeostasis\<close>

lemma alive_metabolism: "alive b v \<Longrightarrow> b + 58 < 4294967296 \<Longrightarrow> alive (b + 58) (metabolism_tick e v)"
proof -
  assume a: "alive b v" and b: "b + 58 < 4294967296"
  have "alive (b + 58) (nociception_fire e PAIN_SOURCE_CPU PAIN_SEARING 0xFADE0001 (v\<lparr> v_met := m \<rparr>))" for m
    using a b by (intro alive_fire) simp_all
  moreover have "alive (b + 58) v" using a by (rule alive_mono) simp
  ultimately show ?thesis by (simp add: metabolism_tick_def Let_def case_prod_beta)
qed

lemma regulate_settled: "regulate_board homeostasis_init = homeostasis_init"
  by (simp add: regulate_board_def homeostasis_init_def regulate_param_def param_def)

lemma init_viable: "homeostasis_is_viable homeostasis_init" "\<not> 80 \<le> pvalue (immune_load homeostasis_init)"
  "max_viable (immune_load homeostasis_init) = 80"
  by (simp_all add: homeostasis_is_viable_def homeostasis_init_def param_def)

lemma alive_regulate: "alive b v \<Longrightarrow> alive b (homeostasis_regulate e v)"
proof -
  assume a: "alive b v"
  then have "v_board v = homeostasis_init" by (simp add: alive_def)
  then have same: "v\<lparr> v_board := regulate_board (v_board v) \<rparr> = v" by (simp add: regulate_settled)
  have calm: "pvalue (immune_load (regulate_board (v_board v))) < max_viable (immune_load (regulate_board (v_board v)))"
    using \<open>v_board v = homeostasis_init\<close> init_viable by (simp add: regulate_settled)
  show ?thesis
    unfolding homeostasis_regulate_def Let_def same using calm by (simp add: alive_shift a not_le)
qed

section \<open>The layers\<close>

lemma alive_steel: "alive b v \<Longrightarrow> alive b (vital_steel_tick e v)"
  by (simp add: alive_def vital_steel_tick_def)

lemma alive_age: "alive b v \<Longrightarrow> alive b (v\<lparr> v_spark := (v_spark v)\<lparr> age_cycles := x \<rparr> \<rparr>)"
  by (simp add: alive_def)

lemma alive_enter_phase: "alive b v \<Longrightarrow> alive b (enter_phase e ph v)"
  by (cases ph) (simp_all add: enter_phase_def Let_def alive_set_force alive_transition awake_def alive_age)

lemma alive_time: "alive b v \<Longrightarrow> layer_time e v = Some v' \<Longrightarrow> alive b v'"
  by (auto simp: layer_time_def Let_def vital_pineal_gland_sync_def alive_shift alive_enter_phase
      split: if_splits option.splits prod.splits)

lemma alive_layer_pain: "alive b v \<Longrightarrow> b \<le> 45000 \<Longrightarrow> alive (b * 254 div 255) (layer_pain v)"
  by (simp add: layer_pain_def Let_def alive_stimulate alive_noci_tick)

lemma alive_layer_energy: "alive b v \<Longrightarrow> b + 58 < 4294967296 \<Longrightarrow> alive (b + 58) (layer_energy e v)"
  by (simp add: layer_energy_def Let_def alive_shift alive_stimulate alive_metabolism)

lemma layer_homeostasis_alive:
  "alive b v \<Longrightarrow> layer_homeostasis e v = Some (homeostasis_regulate e v) \<and> alive b (homeostasis_regulate e v)"
proof -
  assume a: "alive b v"
  then have "alive b (homeostasis_regulate e v)" by (rule alive_regulate)
  moreover from this have "v_board (homeostasis_regulate e v) = homeostasis_init" by (simp add: alive_def)
  ultimately show ?thesis using init_viable by (simp add: layer_homeostasis_def Let_def)
qed

lemma alive_cycles: "alive b v \<Longrightarrow> alive b (v\<lparr> v_cons := (v_cons v)\<lparr> total_cycles := x \<rparr> \<rparr>)"
  by (simp add: alive_def cons_ok_def)

lemma alive_layer_consciousness: "alive b v \<Longrightarrow> alive b (layer_consciousness e v)"
  by (auto simp: layer_consciousness_def consciousness_tick_def Let_def
      intro!: alive_stimulate alive_transition alive_cycles simp: awake_def)

lemma alive_layer_guardian:
  assumes "alive b v" "b + 58 < 4294967296"
  shows "alive (b + 58) (layer_guardian e v)"
proof -
  have "alive (b + 58) v" using assms(1) by (rule alive_mono) simp
  then show ?thesis using assms
    by (simp add: layer_guardian_def Let_def alive_fire alive_stimulate)
qed

lemma alive_layer_entropy: "alive b v \<Longrightarrow> alive b (layer_entropy e v)"
  by (auto simp: layer_entropy_def vital_generate_biotic_noise_def Let_def intro!: alive_stimulate alive_pump)

lemma alive_lessons: "alive b v \<Longrightarrow> alive b (dream_apply_lessons r v)"
proof -
  assume a: "alive b v"
  have "alive b ((vital_mark_experience i ^^ k) v)" for i k
    by (induction k) (simp_all add: a alive_mark)
  then show ?thesis by (simp add: dream_apply_lessons_def)
qed

lemma alive_layer_dream: "alive b v \<Longrightarrow> alive b (layer_dream v)"
  by (auto simp: layer_dream_def dream_simulate_def sim_rand_def Let_def intro!: alive_stimulate alive_lessons)

lemma alive_layer_synapses: "alive b v \<Longrightarrow> alive b (layer_synapses v)"
  by (simp add: alive_def layer_synapses_def hebbian_ok propagate_ok)

lemma alive_layer_aura: "alive b v \<Longrightarrow> alive b (layer_aura v)"
  by (simp add: layer_aura_def Let_def vital_emit_distress_beacon_def)

lemma personality_range: "alive b v \<Longrightarrow> vital_get_personality_influence v \<le> 252"
  by (simp add: alive_def epi_ok_def vital_get_personality_influence_def)

lemma tension_range: "alive b v \<Longrightarrow> tension (v_spark v) \<le> 255"
  by (simp add: alive_def)

lemma alive_layer_oscillation: "alive b v \<Longrightarrow> alive b (layer_oscillation v)"
proof -
  assume a: "alive b v"
  show ?thesis
    using a personality_range [OF a] tension_range [OF a]
    by (auto simp: layer_oscillation_def Let_def intro!: alive_set_force alive_set_tension)
qed

lemma alive_layer_hormone: "alive b v \<Longrightarrow> alive b (layer_hormone e v)"
  by (simp add: layer_hormone_def alive_pump)

lemma export_refused [simp]: "vital_epigenetic_export dst 512 v = (dst, v)"
  by (simp add: vital_epigenetic_export_def EPIGENETIC_SIZE_def MAX_EPIGENETIC_EVENTS_def)

lemma alive_save: "alive b v \<Longrightarrow> alive b (vital_persistence_save v)"
  by (simp add: vital_persistence_save_def case_prod_beta)

lemma alive_layer_signature:
  assumes "alive b v" "b + 58 < 4294967296"
  shows "alive (b + 58) (layer_signature e v)"
proof -
  have "alive (b + 58) v" using assms(1) by (rule alive_mono) simp
  then show ?thesis using assms
    by (simp add: layer_signature_def Let_def alive_mark alive_fire alive_save vital_quantum_sign_def)
qed

lemma alive_layer_epigenetic: "alive b v \<Longrightarrow> alive b (layer_epigenetic v)"
proof -
  assume a: "alive b v"
  show ?thesis
    using a tension_range [OF a]
    by (auto simp: layer_epigenetic_def Let_def intro!: alive_set_tension)
qed

lemma alive_inner: "alive b v \<Longrightarrow> b + 116 < 4294967296 \<Longrightarrow> alive (b + 116) (heartbeat_inner e v)"
proof -
  assume a: "alive b v" and b: "b + 116 < 4294967296"
  have "alive (b + 58) (layer_guardian e (layer_consciousness e v))"
    using a b by (intro alive_layer_guardian alive_layer_consciousness) simp_all
  then have "alive (b + 58) (layer_hormone e (layer_oscillation (layer_aura (layer_synapses (layer_dream
      (layer_entropy e (layer_guardian e (layer_consciousness e v))))))))"
    by (intro alive_layer_hormone alive_layer_oscillation alive_layer_aura alive_layer_synapses
        alive_layer_dream alive_layer_entropy)
  from alive_layer_signature [OF this, of e] show ?thesis
    using b by (simp add: heartbeat_inner_def alive_layer_epigenetic add.commute)
qed

end
