(* ===== verification/Vital_Frame.thy ===== *)
theory Vital_Frame
  imports Vital_Life
begin

text \<open>
  What a beat of the vital organ leaves alone. Every helper and every layer changes the organ by
  updates of single fields and by publishing globules of its own, so a predicate that these basic
  changes keep is kept by the layers and by the beat. The two contracts are locales: the layers
  between the clock and the reflexes need \<open>vital_frame\<close>, the whole beat up to the lesson
  \<open>vital_beat_frame\<close>, which adds the pulse and the interpreter. Here they are interpreted for the
  bus, which the organ changes only by publishing; \<open>Vital_Runs\<close> interprets the first one for the
  pulse and the reflexes.
\<close>

section \<open>The two contracts\<close>

text \<open>The globules the organ publishes: never data, and for all organs or for organ 10.\<close>

definition vital_signal :: "globule \<Rightarrow> bool" where
  "vital_signal g \<longleftrightarrow> gtype g \<noteq> GLOBULE_RED \<and> target_organ g \<in> {10, 0xFF}"

lemma vital_signals [simp]:
  "vital_signal \<lparr> globule_id = n, gtype = GLOBULE_YELLOW, source_organ = s, target_organ = 0xFF,
     payload_addr = a, payload_size = z \<rparr>"
  "vital_signal \<lparr> globule_id = n, gtype = GLOBULE_WHITE, source_organ = s, target_organ = 0xFF,
     payload_addr = a, payload_size = z \<rparr>"
  "vital_signal \<lparr> globule_id = n, gtype = GLOBULE_YELLOW, source_organ = s, target_organ = 10,
     payload_addr = a, payload_size = z \<rparr>"
  "vital_signal (g\<lparr> gtype := GLOBULE_WHITE, target_organ := 0xFF \<rparr>)"
  by (simp_all add: vital_signal_def)

text \<open>A beat is the part up to the reflexes, followed by the lesson.\<close>

definition beat_body :: "surroundings \<Rightarrow> vital \<Rightarrow> vital option" where
  "beat_body e v =
     (case layer_time e (vital_steel_tick e v) of None \<Rightarrow> None
      | Some v \<Rightarrow> (case layer_homeostasis e (layer_energy e (layer_pain v)) of None \<Rightarrow> None
      | Some v \<Rightarrow> vital_metabolic_tick (heartbeat_inner e v)))"

lemma heartbeat_body:
  "vital_eternal_heartbeat e v = (case beat_body e v of None \<Rightarrow> None | Some u \<Rightarrow> layer_lesson e u)"
  by (simp add: vital_eternal_heartbeat_def beat_body_def split: option.split)

locale vital_frame =
  fixes kept :: "vital \<Rightarrow> bool"
  assumes publish: "kept v \<Longrightarrow> vital_signal g \<Longrightarrow> kept (pump g v)"
    and spark: "kept v \<Longrightarrow> pulse_count s = pulse_count (v_spark v) \<Longrightarrow> kept (v\<lparr> v_spark := s \<rparr>)"
    and noci: "kept v \<Longrightarrow> kept (v\<lparr> v_noci := n \<rparr>)"
    and met: "kept v \<Longrightarrow> kept (v\<lparr> v_met := m \<rparr>)"
    and cons: "kept v \<Longrightarrow> kept (v\<lparr> v_cons := c \<rparr>)"
    and board: "kept v \<Longrightarrow> kept (v\<lparr> v_board := bd \<rparr>)"
    and biotic: "kept v \<Longrightarrow> kept (v\<lparr> v_biotic := bi \<rparr>)"
    and rng: "kept v \<Longrightarrow> kept (v\<lparr> v_sim_rng := x \<rparr>)"
    and syn: "kept v \<Longrightarrow> kept (v\<lparr> v_syn := y \<rparr>)"
    and aura: "kept v \<Longrightarrow> kept (v\<lparr> v_aura := a \<rparr>)"
    and lattice: "kept v \<Longrightarrow> kept (v\<lparr> v_lattice := l \<rparr>)"
    and written: "kept v \<Longrightarrow> kept (v\<lparr> v_written := wr \<rparr>)"
    and epi: "kept v \<Longrightarrow> kept (v\<lparr> v_epi := ep \<rparr>)"
    and phase: "kept v \<Longrightarrow> kept (v\<lparr> v_phase_start := ps, v_phase := ph \<rparr>)"
begin

lemma shift: "kept v \<Longrightarrow> kept (vital_shift_balance f w v)"
  and force: "kept v \<Longrightarrow> kept (set_force fo v)"
  and set_tension: "kept v \<Longrightarrow> kept (set_tension tn v)"
  and age: "kept v \<Longrightarrow> kept (v\<lparr> v_spark := (v_spark v)\<lparr> age_cycles := k \<rparr> \<rparr>)"
  and mark: "kept v \<Longrightarrow> kept (vital_mark_experience i v)"
  and stimulus: "kept v \<Longrightarrow> kept (stimulate nid sg v)"
  and receptor: "kept v \<Longrightarrow> kept (set_receptor j r v)"
  and endorphin: "kept v \<Longrightarrow> kept (nociception_inject_endorphin d v)"
  and beacon: "kept v \<Longrightarrow> kept (vital_emit_distress_beacon v)"
  by (simp_all add: vital_shift_balance_def set_force_def set_tension_def vital_mark_experience_def
      stimulate_def set_receptor_def nociception_inject_endorphin_def vital_emit_distress_beacon_def
      spark noci epi syn aura Let_def)

lemma transition: "kept v \<Longrightarrow> kept (snd (consciousness_transition e t organ why v))"
  by (auto simp: consciousness_transition_def Let_def intro!: cons publish)

lemmas basic = publish noci met cons board biotic rng syn aura lattice written epi shift force set_tension
  age mark stimulus receptor endorphin beacon transition

lemma fire: "kept v \<Longrightarrow> kept (nociception_fire e src level code v)"
  by (auto simp: nociception_fire_def Let_def intro!: basic)

lemma lessons: "kept v \<Longrightarrow> kept (dream_apply_lessons r v)"
proof -
  assume k: "kept v"
  have "kept ((vital_mark_experience i ^^ n) v)" for i n
    by (induction n) (simp_all add: k mark)
  then show ?thesis by (simp add: dream_apply_lessons_def)
qed

lemma layers:
  "kept v \<Longrightarrow> kept (layer_pain v)"
  "kept v \<Longrightarrow> kept (layer_energy e v)"
  "kept v \<Longrightarrow> kept (homeostasis_regulate e v)"
  "kept v \<Longrightarrow> kept (layer_consciousness e v)"
  "kept v \<Longrightarrow> kept (layer_guardian e v)"
  "kept v \<Longrightarrow> kept (layer_entropy e v)"
  "kept v \<Longrightarrow> kept (layer_dream v)"
  "kept v \<Longrightarrow> kept (layer_synapses v)"
  "kept v \<Longrightarrow> kept (layer_aura v)"
  "kept v \<Longrightarrow> kept (layer_oscillation v)"
  "kept v \<Longrightarrow> kept (layer_hormone e v)"
  "kept v \<Longrightarrow> kept (layer_signature e v)"
  "kept v \<Longrightarrow> kept (layer_epigenetic v)"
  subgoal by (auto simp: layer_pain_def nociception_tick_def Let_def intro!: basic)
  subgoal by (auto simp: layer_energy_def metabolism_tick_def Let_def case_prod_beta intro!: basic fire)
  subgoal by (auto simp: homeostasis_regulate_def Let_def intro!: basic)
  subgoal by (auto simp: layer_consciousness_def consciousness_tick_def Let_def intro!: basic)
  subgoal by (auto simp: layer_guardian_def Let_def intro!: basic fire)
  subgoal by (auto simp: layer_entropy_def vital_generate_biotic_noise_def Let_def intro!: basic)
  subgoal by (auto simp: layer_dream_def dream_simulate_def sim_rand_def Let_def intro!: basic lessons)
  subgoal by (auto simp: layer_synapses_def intro!: basic)
  subgoal by (auto simp: layer_aura_def Let_def intro!: basic)
  subgoal by (auto simp: layer_oscillation_def Let_def intro!: basic)
  subgoal by (auto simp: layer_hormone_def intro!: basic)
  subgoal by (auto simp: layer_signature_def vital_quantum_sign_def vital_persistence_save_def
      vital_epigenetic_export_def Let_def case_prod_beta intro!: basic fire)
  subgoal by (auto simp: layer_epigenetic_def Let_def intro!: basic)
  done

lemma inner: "kept v \<Longrightarrow> kept (heartbeat_inner e v)"
  unfolding heartbeat_inner_def by (intro layers)

lemma homeostasis: "layer_homeostasis e v = Some v' \<Longrightarrow> kept v \<Longrightarrow> kept v'"
  by (auto simp: layer_homeostasis_def Let_def split: if_splits intro!: fire basic layers)

lemma time: "layer_time e v = Some v' \<Longrightarrow> kept v \<Longrightarrow> kept v'"
proof -
  have "kept (enter_phase e ph w)" if "kept w" for ph w
    using that by (cases ph) (auto simp: enter_phase_def Let_def intro!: basic)
  then show "layer_time e v = Some v' \<Longrightarrow> kept v \<Longrightarrow> kept v'"
    using phase [of v] by (auto simp: layer_time_def Let_def vital_pineal_gland_sync_def
        split: if_splits option.splits prod.splits intro!: shift)
qed

end

locale vital_beat_frame = vital_frame kept for kept :: "vital \<Rightarrow> bool" +
  assumes forth: "kept v \<Longrightarrow> dictionary f = dictionary (v_forth v) \<Longrightarrow> kept (v\<lparr> v_forth := f \<rparr>)"
    and pulse: "kept v \<Longrightarrow> kept (v\<lparr> v_spark := s \<rparr>)"
    and storage: "kept v \<Longrightarrow> kept (v\<lparr> v_storage := ctx \<rparr>)"
begin

lemma stack: "kept v \<Longrightarrow> kept (v_push x v)" "kept v \<Longrightarrow> kept (snd (v_pop v))"
  by (simp_all add: v_push_def v_pop_def forth_push_def forth_pop_def case_prod_beta forth split: list.split)

lemma primitive: "kept v \<Longrightarrow> kept (forth_primitive c v)"
  by (auto simp: forth_primitive_def binary_def Let_def case_prod_beta intro!: stack shift beacon)

lemma run: "forth_run cs v = Some v' \<Longrightarrow> kept v \<Longrightarrow> kept v'"
proof -
  assume r: "forth_run cs v = Some v'" and k: "kept v"
  have "kept v \<longrightarrow> kept v'"
  proof (rule forth_run.raw_induct [where P = "\<lambda>cs v v'. kept v \<longrightarrow> kept v'", OF _ r], goal_cases)
    case (1 run cs v v')
    then show ?case
      by (cases cs) (auto simp: primitive stack split: if_splits option.splits)
  qed
  with k show ?thesis by simp
qed

lemma reflexes: "vital_metabolic_tick v = Some v' \<Longrightarrow> kept v \<Longrightarrow> kept v'"
  by (auto simp: vital_metabolic_tick_def vital_forth_exec_def intro: run split: if_splits option.splits)

lemma newborn: "kept v \<Longrightarrow> kept (vital_init e img v)"
proof -
  have load: "kept (vital_persistence_load img w)" if "kept w" for w
    using that by (auto simp: vital_persistence_load_def vital_epigenetic_import_def vital_epigenetic_init_def
        vital_set_spark_state_def Let_def split: option.split intro!: pulse syn epi)
  show "kept v \<Longrightarrow> kept (vital_init e img v)"
    by (auto simp: vital_init_def Let_def nociception_init_def vital_epigenetic_init_def consciousness_init_def
        intro!: load basic pulse)
qed

lemma body:
  assumes "beat_body e v = Some u" "kept v"
  shows "kept u"
proof -
  from assms(1) obtain v1 v2 where
    v1: "layer_time e (vital_steel_tick e v) = Some v1"
    and v2: "layer_homeostasis e (layer_energy e (layer_pain v1)) = Some v2"
    and u: "vital_metabolic_tick (heartbeat_inner e v2) = Some u"
    by (auto simp: beat_body_def split: option.splits)
  have "kept (vital_steel_tick e v)" using assms(2) by (simp add: vital_steel_tick_def pulse)
  then have "kept v1" by (rule time [OF v1])
  then have "kept v2" by (intro homeostasis [OF v2] layers)
  then show "kept u" by (intro reflexes [OF u] inner)
qed

end

section \<open>The pulse and the reflexes\<close>

text \<open>A beat leaves pulse and reflexes alone until its last layers.\<close>

definition same_core :: "vital \<Rightarrow> vital \<Rightarrow> bool" where
  "same_core v w \<longleftrightarrow> v_forth w = v_forth v \<and> pulse_count (v_spark w) = pulse_count (v_spark v)"

lemma core_refl [simp]: "same_core v v"
  by (simp add: same_core_def)

lemma core_trans: "same_core u v \<Longrightarrow> same_core v w \<Longrightarrow> same_core u w"
  by (simp add: same_core_def)

interpretation core: vital_frame "same_core u" for u
  by unfold_locales (simp_all add: same_core_def pump_def)

section \<open>The bus\<close>

text \<open>The states of the bus that the organ can make out of \<open>b\<close> by publishing.\<close>

inductive vital_publishes :: "united_bus \<Rightarrow> united_bus \<Rightarrow> bool" for b where
  silent: "vital_publishes b b"
| signal: "vital_publishes b b' \<Longrightarrow> vital_signal g \<Longrightarrow> vital_publishes b (snd (united_bus_pump g b'))"

interpretation vital_bus: vital_beat_frame "\<lambda>v. vital_publishes b (v_bus v) \<and> dictionary (v_forth v) = ws" for b ws
  by unfold_locales (auto simp: pump_def intro: signal)

text \<open>
  So a beat signals and leaves the dictionary alone before it ends with the lesson, which in every
  fiftieth beat pulls one globule for organ 15. Birth signals only.
\<close>

lemma body_bus:
  assumes "beat_body e v = Some u"
  shows "vital_publishes (v_bus v) (v_bus u)" "dictionary (v_forth u) = dictionary (v_forth v)"
  using vital_bus.body [OF assms, of "v_bus v" "dictionary (v_forth v)"] silent by blast+

lemma birth_bus:
  "vital_publishes (v_bus v) (v_bus (vital_init e img v))"
  "dictionary (v_forth (vital_init e img v)) = dictionary (v_forth v)"
  using vital_bus.newborn [of "v_bus v" v "dictionary (v_forth v)" e img] silent by blast+

lemma lesson_bus:
  assumes "layer_lesson e u = Some v'"
  shows "v_bus v' = v_bus u \<or> (\<exists>gs. united_bus_absorb 15 1 (v_bus u) = Some (gs, v_bus v'))"
  using assms by (auto simp: layer_lesson_def Let_def split: if_splits option.splits list.splits)

end
