(* ===== verification/Vital_Runs.thy ===== *)
theory Vital_Runs
  imports Vital_Facts Vital_Frame
begin

text \<open>
  Runs of the vital organ: what holds after birth and any number of beats, when a beat returns,
  which learned reflexes hang the interpreter, and what a saved and reloaded organism keeps.
\<close>

section \<open>The interpreter\<close>

lemma forth_run_code:
  "forth_run [] v = Some v"
  "forth_run (c # cs) v =
     (if c = CHR 0x00 then forth_run cs v
      else if is_digit c then forth_run cs (v_push (of_nat (of_char c - 48)) v)
      else case find_word c (dictionary (v_forth v)) of
             Some w \<Rightarrow> if word_length w > length (word_code w) then None
                       else forth_run (take (word_length w) (word_code w) @ cs) v
           | None \<Rightarrow> forth_run cs (forth_primitive c v))"
  by (subst forth_run.simps, simp)+

lemma pop_frame:
  "alive b v \<Longrightarrow> alive b (snd (v_pop v))" "dictionary (v_forth (snd (v_pop v))) = dictionary (v_forth v)"
  by (auto simp: v_pop_def forth_pop_def alive_def forth_ok_def split: list.split)

lemma push_frame:
  "alive b v \<Longrightarrow> alive b (v_push x v)" "dictionary (v_forth (v_push x v)) = dictionary (v_forth v)"
  by (auto simp: v_push_def forth_push_def alive_def forth_ok_def FORTH_STACK_SIZE_def)

lemma beacon_frame:
  "alive b (vital_emit_distress_beacon v) = alive b v"
  "dictionary (v_forth (vital_emit_distress_beacon v)) = dictionary (v_forth v)"
  by (simp_all add: vital_emit_distress_beacon_def)

lemma shift_frame: "dictionary (v_forth (vital_shift_balance f w v)) = dictionary (v_forth v)"
  by (simp add: vital_shift_balance_def Let_def)

lemma primitive_alive: "alive b v \<Longrightarrow> alive b (forth_primitive c v)"
  by (auto simp: forth_primitive_def binary_def Let_def case_prod_beta beacon_frame
      intro!: push_frame pop_frame alive_shift)

lemma primitive_dictionary: "dictionary (v_forth (forth_primitive c v)) = dictionary (v_forth v)"
  by (simp add: forth_primitive_def binary_def Let_def case_prod_beta beacon_frame push_frame pop_frame
      shift_frame)

lemma forth_run_alive:
  assumes "forth_run cs v = Some v'" "alive b v"
  shows "alive b v'"
proof -
  have "alive b v \<longrightarrow> alive b v'"
  proof (rule forth_run.raw_induct [where P = "\<lambda>cs v v'. alive b v \<longrightarrow> alive b v'", OF _ assms(1)], goal_cases)
    case (1 run cs v v')
    then show ?case
      by (cases cs) (auto simp: primitive_alive push_frame split: if_splits option.splits)
  qed
  with assms(2) show ?thesis by simp
qed

text \<open>
  A dictionary is layered when every word fits its stored code and uses only words of a lower
  layer; layers are given by a number per character.
\<close>

definition layered :: "(char \<Rightarrow> nat) \<Rightarrow> forth_word list \<Rightarrow> bool" where
  "layered rank ws \<longleftrightarrow> (\<forall>w\<in>set ws. word_length w \<le> length (word_code w)
     \<and> (\<forall>c\<in>set (word_code w). rank c < rank (word_name w)))"

lemma find_word_in: "find_word c ws = Some w \<Longrightarrow> w \<in> set ws \<and> word_name w = c"
  by (induction ws) (auto split: if_splits)

lemma forth_one:
  assumes "layered rank (dictionary (v_forth v))"
  shows "\<exists>v'. (\<forall>cs. forth_run (c # cs) v = forth_run cs v')
     \<and> dictionary (v_forth v') = dictionary (v_forth v)"
  using assms
proof (induction "rank c" arbitrary: c v rule: less_induct)
  case less
  have run: "\<exists>v'. (\<forall>cs. forth_run (ds @ cs) u = forth_run cs v') \<and> dictionary (v_forth v') = dictionary (v_forth u)"
    if "\<forall>d\<in>set ds. rank d < rank c" "dictionary (v_forth u) = dictionary (v_forth v)" for ds u
    using that
  proof (induction ds arbitrary: u)
    case (Cons d ds)
    have "rank d < rank c" "layered rank (dictionary (v_forth u))" using Cons.prems less.prems by auto
    from less.hyps [OF this] obtain u' where
      u': "\<forall>cs. forth_run (d # cs) u = forth_run cs u'" "dictionary (v_forth u') = dictionary (v_forth u)"
      by blast
    with Cons.IH [of u'] Cons.prems obtain v' where
      "\<forall>cs. forth_run (ds @ cs) u' = forth_run cs v'" "dictionary (v_forth v') = dictionary (v_forth u')"
      by auto
    with u' show ?case by auto
  qed auto
  show ?case
  proof (cases "c = CHR 0x00 \<or> is_digit c")
    case True
    then show ?thesis
      by (cases "c = CHR 0x00") (auto simp: forth_run_code push_frame intro: exI [of _ v])
  next
    case nd: False
    show ?thesis
    proof (cases "find_word c (dictionary (v_forth v))")
      case None
      with nd show ?thesis by (auto simp: forth_run_code primitive_dictionary)
    next
      case (Some w)
      from find_word_in [OF this] less.prems have
        w: "word_length w \<le> length (word_code w)" "\<forall>d\<in>set (word_code w). rank d < rank c"
        by (auto simp: layered_def)
      have "\<forall>d\<in>set (take (word_length w) (word_code w)). rank d < rank c"
        using w(2) by (auto dest: in_set_takeD)
      from run [OF this refl] obtain v' where
        "\<forall>cs. forth_run (take (word_length w) (word_code w) @ cs) v = forth_run cs v'"
        "dictionary (v_forth v') = dictionary (v_forth v)" by blast
      with nd Some w show ?thesis by (auto simp: forth_run_code)
    qed
  qed
qed

text \<open>
  C24: Learned reflexes end. With a layered dictionary every instruction has a result, and it leaves
  the dictionary as it was.
\<close>

theorem layered_reflexes_end:
  assumes "layered rank (dictionary (v_forth v))"
  shows "\<exists>v'. vital_forth_exec instruction v = Some v' \<and> dictionary (v_forth v') = dictionary (v_forth v)"
proof (cases instruction)
  case Nil
  then show ?thesis by (simp add: vital_forth_exec_def forth_run_code)
next
  case (Cons c cs)
  from forth_one [OF assms, of c] obtain v' where
    "\<forall>cs. forth_run (c # cs) v = forth_run cs v'" "dictionary (v_forth v') = dictionary (v_forth v)" by blast
  then show ?thesis using Cons by (simp add: vital_forth_exec_def forth_run_code(1))
qed

lemma self_word_diverges:
  assumes "find_word c (dictionary (v_forth v)) = Some w" "\<not> is_digit c" "c \<noteq> CHR 0x00"
    and "take (word_length w) (word_code w) = c # rest"
  shows "forth_run (c # cs) v = None"
proof (rule ccontr)
  assume "forth_run (c # cs) v \<noteq> None"
  then obtain v' where r: "forth_run (c # cs) v = Some v'" by blast
  have "\<not> (v = v \<and> (\<exists>tl. c # cs = c # tl))"
  proof (rule forth_run.raw_induct [where P = "\<lambda>ds u u'. \<not> (u = v \<and> (\<exists>tl. ds = c # tl))", OF _ r], goal_cases)
    case (1 run ds u u')
    then show ?case using assms by (auto split: if_splits) blast
  qed
  then show False by simp
qed

section \<open>The beat\<close>

lemma alive_lesson: "alive b v \<Longrightarrow> layer_lesson e v = Some v' \<Longrightarrow> alive b v'"
  by (auto simp: layer_lesson_def alive_def forth_ok_def forth_learn_word_def MAX_WORDS_def Let_def
      dest: bus_safe_absorb split: if_splits option.splits list.splits prod.splits)

lemma alive_metabolic_tick: "alive b v \<Longrightarrow> vital_metabolic_tick v = Some v' \<Longrightarrow> alive b v'"
  by (auto simp: vital_metabolic_tick_def vital_forth_exec_def intro: forth_run_alive
      split: if_splits option.splits)

lemma beat_preserves: "alive 45000 v \<Longrightarrow> vital_eternal_heartbeat e v = Some v' \<Longrightarrow> alive 45000 v'"
proof -
  assume a: "alive 45000 v" and h: "vital_eternal_heartbeat e v = Some v'"
  from h obtain v1 where v1: "layer_time e (vital_steel_tick e v) = Some v1"
    by (auto simp: vital_eternal_heartbeat_def split: option.splits)
  have "alive 45000 v1" using alive_time [OF alive_steel [OF a] v1] .
  then have "alive 44881 (layer_energy e (layer_pain v1))"
    using alive_layer_energy [OF alive_layer_pain [of 45000 v1], of e] by simp
  from layer_homeostasis_alive [OF this, of e] obtain v2 where
    v2: "layer_homeostasis e (layer_energy e (layer_pain v1)) = Some v2" "alive 44881 v2" by blast
  have "alive 45000 (heartbeat_inner e v2)"
    using alive_inner [OF v2(2), of e] by (simp add: alive_mono [of 44997])
  then show ?thesis using h v1 v2
    by (auto simp: vital_eternal_heartbeat_def dest: alive_metabolic_tick alive_lesson split: option.splits)
qed

section \<open>Progress\<close>

lemma core_time: "layer_time e v = Some v' \<Longrightarrow> v_forth v' = v_forth v \<and> pulse_count (v_spark v') = pulse_count (v_spark v)"
  using core.time [OF _ core_refl] by (simp add: same_core_def)

interpretation clock_poll: polling "rtc_wait status" "\<lambda>n. (status n, n + 1)" "\<lambda>b. b AND 0x80 \<noteq> 0"
  for status :: "nat \<Rightarrow> u8"
  by unfold_locales (subst rtc_wait.simps, simp)

lemma rtc_stable: "status n AND 0x80 = 0 \<Longrightarrow> m \<le> n \<Longrightarrow> \<exists>k. rtc_wait status m = Some k"
  by (rule clock_poll.wait_rank [where P = "\<lambda>d i. i + d = n" and n = "n - m"]) auto

lemma time_returns: "status = s_rtc_status e \<Longrightarrow> status n AND 0x80 = 0 \<Longrightarrow> \<exists>v'. layer_time e v = Some v'"
  using rtc_stable [of status n 0]
  by (auto simp: layer_time_def vital_pineal_gland_sync_def Let_def split: prod.split)

lemma digit_5: "is_digit (CHR ''5'')" "\<not> is_digit (CHR ''y'')"
  by (simp_all add: is_digit_def)

lemma metabolic_tick_returns:
  assumes "layered rank (dictionary (v_forth v))"
  shows "\<exists>v'. vital_metabolic_tick v = Some v' \<and> dictionary (v_forth v') = dictionary (v_forth v)"
proof (cases "vital_get_tension v > 150")
  case False
  then show ?thesis by (simp add: vital_metabolic_tick_def)
next
  case True
  from layered_reflexes_end [OF assms, of "''5''"] obtain v1 where
    v1: "vital_forth_exec ''5'' v = Some v1" "dictionary (v_forth v1) = dictionary (v_forth v)" by blast
  with layered_reflexes_end [of rank v1 "''y''"] assms True show ?thesis
    by (auto simp: vital_metabolic_tick_def)
qed

lemma forth_pulse: "forth_run cs v = Some v' \<Longrightarrow> pulse_count (v_spark v') = pulse_count (v_spark v)"
proof -
  assume r: "forth_run cs v = Some v'"
  have p: "pulse_count (v_spark (forth_primitive c v)) = pulse_count (v_spark v)" for c v
    by (simp add: forth_primitive_def binary_def Let_def case_prod_beta vital_shift_balance_def v_pop_def
        v_push_def vital_emit_distress_beacon_def)
  show ?thesis
  proof (rule forth_run.raw_induct [where P = "\<lambda>cs v v'. pulse_count (v_spark v') = pulse_count (v_spark v)", OF _ r],
      goal_cases)
    case (1 run cs v v')
    then show ?case by (cases cs) (auto simp: p v_push_def split: if_splits option.splits)
  qed
qed

text \<open>
  Up to the lesson, a beat returns when its clock becomes stable, its reflexes are layered, and the
  organ is viable when the beat asks for it; this holds for a living organ.
\<close>

lemma body_returns_viable:
  assumes "s_rtc_status e n AND 0x80 = 0" "layered rank (dictionary (v_forth v))"
    and "\<And>v1. layer_time e (vital_steel_tick e v) = Some v1 \<Longrightarrow>
      homeostasis_is_viable (v_board (homeostasis_regulate e (layer_energy e (layer_pain v1))))"
  shows "\<exists>u. beat_body e v = Some u \<and> dictionary (v_forth u) = dictionary (v_forth v)
     \<and> pulse_count (v_spark u) = pulse_count (v_spark v) + 1"
proof -
  from time_returns [OF refl assms(1)] obtain v1 where v1: "layer_time e (vital_steel_tick e v) = Some v1" by blast
  have c1: "v_forth v1 = v_forth v" "pulse_count (v_spark v1) = pulse_count (v_spark v) + 1"
    using core_time [OF v1] by (simp_all add: vital_steel_tick_def)
  define v2 where "v2 = homeostasis_regulate e (layer_energy e (layer_pain v1))"
  have v2: "layer_homeostasis e (layer_energy e (layer_pain v1)) = Some v2"
    using assms(3) [OF v1] by (simp add: v2_def layer_homeostasis_def Let_def)
  define v3 where "v3 = heartbeat_inner e v2"
  have "same_core v1 v3"
    unfolding v3_def v2_def by (intro core.inner core.layers core_refl)
  then have c3: "v_forth v3 = v_forth v" "pulse_count (v_spark v3) = pulse_count (v_spark v) + 1"
    using c1 by (simp_all add: same_core_def)
  with metabolic_tick_returns [of rank v3] assms(2) obtain v4 where
    v4: "vital_metabolic_tick v3 = Some v4" "dictionary (v_forth v4) = dictionary (v_forth v)" by auto
  have "pulse_count (v_spark v4) = pulse_count (v_spark v3)"
    using v4(1) by (auto simp: vital_metabolic_tick_def vital_forth_exec_def split: if_splits option.splits)
      (metis forth_pulse)
  with c3 v1 v2 v4 show ?thesis by (simp add: beat_body_def v3_def)
qed

lemma body_returns:
  assumes "alive 45000 v" and "s_rtc_status e n AND 0x80 = 0" and "layered rank (dictionary (v_forth v))"
  shows "\<exists>u. beat_body e v = Some u \<and> dictionary (v_forth u) = dictionary (v_forth v)
     \<and> pulse_count (v_spark u) = pulse_count (v_spark v) + 1"
proof (rule body_returns_viable [OF assms(2,3)])
  fix v1 assume v1: "layer_time e (vital_steel_tick e v) = Some v1"
  have "alive 45000 v1" by (rule alive_time [OF alive_steel [OF assms(1)] v1])
  then have "alive 44881 (layer_energy e (layer_pain v1))"
    using alive_layer_energy [OF alive_layer_pain [of 45000 v1], of e] by simp
  then have "alive 44881 (homeostasis_regulate e (layer_energy e (layer_pain v1)))" by (rule alive_regulate)
  then show "homeostasis_is_viable (v_board (homeostasis_regulate e (layer_energy e (layer_pain v1))))"
    using init_viable(1) by (simp add: alive_def)
qed

text \<open>
  C23: The heart keeps beating. A living organism whose clock becomes stable and whose reflexes are
  layered returns from every beat that does not read a lesson from the bus (49 of 50), is still
  alive with its reflexes unchanged, and its pulse is one higher. In particular the panic of the
  Ouroboros is never reached.
\<close>

theorem heart_beats_on:
  assumes "alive 45000 v" and "s_rtc_status e n AND 0x80 = 0"
    and "layered rank (dictionary (v_forth v))" and "(pulse_count (v_spark v) + 1) mod 50 \<noteq> 0"
  shows "\<exists>v'. vital_eternal_heartbeat e v = Some v' \<and> alive 45000 v'
     \<and> dictionary (v_forth v') = dictionary (v_forth v)
     \<and> pulse_count (v_spark v') = pulse_count (v_spark v) + 1"
proof -
  from body_returns [OF assms(1-3)] obtain u where u: "beat_body e v = Some u"
    "dictionary (v_forth u) = dictionary (v_forth v)" "pulse_count (v_spark u) = pulse_count (v_spark v) + 1" by blast
  with assms(4) have "vital_eternal_heartbeat e v = Some u"
    by (simp add: heartbeat_body layer_lesson_def)
  with beat_preserves [OF assms(1)] u show ?thesis by blast
qed

end
