(* ===== verification/Vital_Birth.thy ===== *)
theory Vital_Birth
  imports Vital_Runs
begin

text \<open>
  From birth on: the state of the organ before and after \<open>vital_init\<close>, the states that beats can
  reach from it, and what survives when the organ is saved and born again.
\<close>

section \<open>Birth\<close>

text \<open>What the static variables must satisfy before birth; zeroed memory does.\<close>

definition unborn_ok :: "vital \<Rightarrow> bool" where
  "unborn_ok v \<longleftrightarrow> history_head (v_cons v) < 64 \<and> history_count (v_cons v) \<le> 64
     \<and> length (nociceptors (v_noci v)) = 6 \<and> epi_ok (v_epi v) \<and> forth_ok (v_forth v) \<and> bus_safe (v_bus v)"

definition image_ok :: "soma_dna \<Rightarrow> bool" where
  "image_ok d \<longleftrightarrow> (\<forall>l\<in>set (sd_synapse_data d). link_ok l) \<and> tension (sd_spark d) \<le> 255"

lemma epi_init_ok: "epi_ok m \<Longrightarrow> epi_ok (epi_init m)"
  by (auto simp: epi_init_def epi_ok_def Let_def)

lemma receptors_born:
  "length rs = 6 \<Longrightarrow> length (map2 receptor_init PAIN_SOURCES rs) = 6
     \<and> (\<forall>r\<in>set (map2 receptor_init PAIN_SOURCES rs). nr_sensitivity r \<le> 251)"
  by (auto simp: PAIN_SOURCES_def receptor_init_def dest!: set_zip_rightD)

lemma birth_synapses_eq: "birth_synapses s = \<lparr> nodes =
     map (\<lambda>(i, t). \<lparr> node_id = i, activation = 0, threshold = t, refractory = 0, fire_count = 0 \<rparr>) birth_nodes,
     links = map (\<lambda>(f, t, w, p). \<lparr> from_node = f, to_node = t, weight = w, plasticity = p \<rparr>) birth_links,
     recently_fired = (\<lambda>_. False) \<rparr>"
  by (simp add: birth_synapses_def birth_nodes_def birth_links_def synapse_init_def synapse_add_node_def
      synapse_connect_def SYNAPSE_MAX_NODES_def SYNAPSE_MAX_LINKS_def)

lemma birth_synapses_ok: "synapses_ok (birth_synapses s)"
  by (simp add: birth_synapses_eq birth_nodes_def birth_links_def synapses_ok_def node_ok_def link_ok_def)

lemma import_ok: "synapses_ok s \<Longrightarrow> \<forall>l\<in>set buf. link_ok l \<Longrightarrow> synapses_ok (synapse_import_links buf sz s)"
  by (auto simp: synapses_ok_def synapse_import_links_def SYNAPSE_MAX_LINKS_def Let_def dest: in_set_takeD)

lemma import_refused [simp]: "vital_epigenetic_import src 512 v = v"
  by (simp add: vital_epigenetic_import_def EPIGENETIC_SIZE_def MAX_EPIGENETIC_EVENTS_def split: option.split)

lemma load_alive:
  "alive b v \<Longrightarrow> \<forall>d. img = Some d \<longrightarrow> image_ok d \<Longrightarrow> alive b (vital_persistence_load img v)"
  by (auto simp: vital_persistence_load_def alive_def image_ok_def vital_set_spark_state_def import_ok
      split: option.split)

lemma consciousness_born: "cons_legal CONSCIOUSNESS_EMBRYONIC CONSCIOUSNESS_AWARE"
  by (simp add: cons_legal_def CONSCIOUSNESS_TRANSITION_MATRIX_def)

lemma consciousness_init_frame:
  "v_noci (consciousness_init e v) = v_noci v" "v_epi (consciousness_init e v) = v_epi v"
  "v_spark (consciousness_init e v) = v_spark v" "v_forth (consciousness_init e v) = v_forth v"
  "v_storage (consciousness_init e v) = v_storage v"
  "bus_safe (v_bus v) \<Longrightarrow> bus_safe (v_bus (consciousness_init e v))"
  "history_head (v_cons v) < 64 \<Longrightarrow> history_count (v_cons v) \<le> 64 \<Longrightarrow> cons_ok (v_cons (consciousness_init e v))"
  using consciousness_born
  by (simp_all add: consciousness_init_def consciousness_transition_def Let_def pump_def cons_ok_def awake_def
      HISTORY_SIZE_def bus_safe_pump)

text \<open>The organ after all steps of \<open>vital_init\<close> but the load.\<close>

definition newborn :: "surroundings \<Rightarrow> vital \<Rightarrow> vital" where
  "newborn e v =
     (let v = consciousness_init e (v\<lparr> v_spark := (v_spark v)\<lparr> current_force := FORCE_YANG, tension := 128,
                pulse_count := 0, birth_timestamp := 0, age_cycles := 0 \<rparr> \<rparr>);
          v = nociception_init v
      in v\<lparr> v_met := birth_metabolism (v_met v), v_board := homeostasis_init, v_epi := epi_init (v_epi v),
            v_syn := birth_synapses (v_syn v) \<rparr>)"

lemma init_newborn: "vital_init e img v = vital_persistence_load img (newborn e v)"
  by (simp add: vital_init_def newborn_def Let_def vital_epigenetic_init_def)

lemma newborn_alive: "unborn_ok v \<Longrightarrow> alive 45000 (newborn e v)"
  using receptors_born [of "nociceptors (v_noci v)"]
  by (simp add: alive_def newborn_def Let_def unborn_ok_def nociception_init_def consciousness_init_frame
      noci_ok_def epi_init_ok birth_synapses_ok)

lemma newborn_core: "v_forth (newborn e v) = v_forth v" "pulse_count (v_spark (newborn e v)) = 0"
  "v_storage (newborn e v) = v_storage v" "v_epi (newborn e v) = epi_init (v_epi v)"
  by (simp_all add: newborn_def Let_def nociception_init_def consciousness_init_frame)

lemma birth_alive: "unborn_ok v \<Longrightarrow> \<forall>d. img = Some d \<longrightarrow> image_ok d \<Longrightarrow> alive 45000 (vital_init e img v)"
  unfolding init_newborn by (rule load_alive [OF newborn_alive])

section \<open>Lives\<close>

text \<open>The states of a life: birth, then beats in any surroundings that return.\<close>

inductive lives :: "vital \<Rightarrow> bool" where
  birth: "unborn_ok v \<Longrightarrow> \<forall>d. img = Some d \<longrightarrow> image_ok d \<Longrightarrow> lives (vital_init e img v)"
| beat: "lives v \<Longrightarrow> vital_eternal_heartbeat e v = Some v' \<Longrightarrow> lives v'"

lemma lives_alive: "lives v \<Longrightarrow> alive 45000 v"
  by (induction rule: lives.induct) (auto intro: birth_alive beat_preserves)

text \<open>
  C22: What no life can reach. In every state between birth and any number of beats, whatever the
  hardware, the guardian and the cortex do, the organ is aware, focused, alert or dreaming, its
  homeostasis is viable with every parameter on target, no endorphin was ever released, pain is at
  most 45000, and tension, personality and synaptic weights are within their bytes. So survival
  mode, agony and the Ouroboros are dead code.
\<close>

theorem life_invariant:
  assumes "lives v"
  shows "consciousness_get_state v \<in> {CONSCIOUSNESS_AWARE, CONSCIOUSNESS_FOCUSED, CONSCIOUSNESS_ALERT,
       CONSCIOUSNESS_DREAMING}
     \<and> homeostasis_is_viable (v_board v) \<and> v_board v = homeostasis_init
     \<and> endorphin_level (v_noci v) = 0 \<and> nociception_get_global_pain v \<le> 45000
     \<and> tension (v_spark v) \<le> 255 \<and> personality_bias (v_epi v) \<le> 252 \<and> resilience (v_epi v) \<le> 250
     \<and> synapses_ok (v_syn v)"
  using lives_alive [OF assms] init_viable(1)
  by (auto simp: alive_def cons_ok_def awake_def noci_ok_def epi_ok_def consciousness_get_state_def
      nociception_get_global_pain_def)

text \<open>Zeroed memory, and surroundings with a stable clock.\<close>

definition void_event :: transition_event where
  "void_event = \<lparr> ev_from = CONSCIOUSNESS_VOID, ev_to = CONSCIOUSNESS_VOID, ev_timestamp = 0,
     ev_trigger_organ = 0, ev_reason = '''' \<rparr>"

definition no_signal :: pain_signal where
  "no_signal = \<lparr> ps_level = PAIN_NONE, ps_source = PAIN_SOURCE_CPU, ps_timestamp = 0, ps_error_code = 0,
     ps_dampened = 0 \<rparr>"

definition empty_globule :: globule where
  "empty_globule = \<lparr> globule_id = 0, gtype = GLOBULE_RED, source_organ = 0, target_organ = 0,
     payload_addr = 0, payload_size = 0 \<rparr>"

definition unborn :: vital where
  "unborn = \<lparr> v_cons = \<lparr> history = (\<lambda>_. void_event), history_head = 0, history_count = 0,
       current_state = CONSCIOUSNESS_VOID, state_entry_cycle = 0, total_cycles = 0 \<rparr>,
     v_noci = \<lparr> nociceptors = replicate 6 \<lparr> nr_watches = PAIN_SOURCE_CPU, nr_sensitivity = 0,
         nr_total_signals = 0, nr_last_signal = no_signal \<rparr>,
       global_pain = 0, endorphin_level = 0, pain_tick_counter = 0 \<rparr>,
     v_epi = \<lparr> trauma_level = 0, success_count = 0, total_experiences = 0, personality_bias = 0,
       resilience = 0, epi_generation = 0, epi_events = (\<lambda>_. \<lparr> ee_pulse_at = 0, ee_impact = 0,
       ee_source_organ = 0 \<rparr>), event_head = 0, epi_checksum = 0 \<rparr>,
     v_met = \<lparr> organ_budgets = [], m_liver = \<lparr> total_energy_pool = 0, energy_generated = 0,
       energy_wasted = 0, basal_metabolic_rate = 0 \<rparr>, cycle_counter = 0 \<rparr>,
     v_board = homeostasis_init, v_syn = \<lparr> nodes = [], links = [], recently_fired = (\<lambda>_. False) \<rparr>,
     v_forth = \<lparr> dictionary = [], forth_stack = [] \<rparr>,
     v_aura = \<lparr> aura_r = 0, aura_g = 0, aura_b = 0, pulse_intensity = 0, sine_wave = 0 \<rparr>,
     v_biotic = \<lparr> yang_weight = 1000, yin_weight = 1000 \<rparr>, v_sim_rng = 0xDEADBEEFCAFEBABE,
     v_spark = \<lparr> current_force = FORCE_YANG, tension = 0, pulse_count = 0, jitter = 0,
       birth_timestamp = 0, age_cycles = 0 \<rparr>,
     v_phase = CIRCADIAN_DAWN, v_phase_start = 0, v_lattice = replicate 16 0, v_storage = True,
     v_written = [], v_bus = bus_boot (\<lambda>_. empty_globule) \<rparr>"

definition quiet :: surroundings where
  "quiet = \<lparr> s_addr = (\<lambda>_. 4096), s_garbage = empty_globule, s_memory = (\<lambda>_ _. CHR ''5''), s_burn = 0,
     s_rtc_status = (\<lambda>_. 0), s_rtc_hours = 0, s_rtc_reg_b = 0, s_guardian = 0, s_entropy = 0 \<rparr>"

lemma unborn_ok: "unborn_ok unborn"
  by (simp add: unborn_ok_def unborn_def epi_ok_def forth_ok_def bus_safe_boot)

theorem life_invariant_witness:
  "homeostasis_is_viable (v_board (vital_init quiet None unborn))"
proof -
  have "lives (vital_init quiet None unborn)" by (rule lives.birth [OF unborn_ok]) simp
  from life_invariant [OF this] show ?thesis by blast
qed

theorem heart_beats_on_witness:
  "\<exists>v'. vital_eternal_heartbeat quiet (vital_init quiet None unborn) = Some v' \<and> pulse_count (v_spark v') = 1"
proof -
  let ?v = "vital_init quiet None unborn"
  have i: "?v = newborn quiet unborn" by (simp add: init_newborn vital_persistence_load_def)
  have "alive 45000 ?v" using birth_alive [OF unborn_ok] by simp
  moreover have "layered (\<lambda>_. 0) (dictionary (v_forth ?v))"
    unfolding i newborn_core by (simp add: layered_def unborn_def)
  moreover have "s_rtc_status quiet 0 AND 0x80 = 0" by (simp add: quiet_def)
  moreover have "(pulse_count (v_spark ?v) + 1) mod 50 \<noteq> 0" by (simp add: i newborn_core)
  ultimately have "\<exists>v'. vital_eternal_heartbeat quiet ?v = Some v' \<and> alive 45000 v'
     \<and> dictionary (v_forth v') = dictionary (v_forth ?v)
     \<and> pulse_count (v_spark v') = pulse_count (v_spark ?v) + 1"
    by (intro heart_beats_on)
  then show ?thesis by (auto simp: i newborn_core)
qed

theorem layered_reflexes_end_witness:
  "\<exists>v'. vital_forth_exec ''T'' (unborn\<lparr> v_forth := forth_learn_word (CHR ''T'') ''LY'' 2 (v_forth unborn) \<rparr>) = Some v'"
proof -
  have "layered (\<lambda>c. if c = CHR ''T'' then 1 else 0)
      (dictionary (v_forth (unborn\<lparr> v_forth := forth_learn_word (CHR ''T'') ''LY'' 2 (v_forth unborn) \<rparr>)))"
    by (simp add: layered_def unborn_def forth_learn_word_def MAX_WORDS_def)
  from layered_reflexes_end [OF this, of "''T''"] show ?thesis by blast
qed

section \<open>Reincarnation\<close>

lemma save_writes:
  "v_storage v \<Longrightarrow> last (v_written (vital_persistence_save v)) = \<lparr> sd_magic = DNA_MAGIC, sd_version = 1,
     sd_spark = v_spark v, sd_synapse_size = min (length (links (v_syn v)) * 4) 1024,
     sd_synapse_data = take (min (length (links (v_syn v)) * 4) 1024 div 4) (links (v_syn v)),
     sd_epigenetic_data = None \<rparr>"
  by (simp add: vital_persistence_save_def synapse_export_links_def Let_def vital_get_spark_state_def min_def)

text \<open>
  C27: Reincarnation keeps spark and synapses but not the epigenetic memory. When the last image a
  living organ wrote is loaded at the next birth, the spark and all learned synaptic weights are
  those that were saved; but the export into the 512-byte field is refused, so personality,
  resilience and traumas are those of a birth without an image.
\<close>

theorem reincarnation:
  assumes "lives v" and "v_storage v" and "v_storage u"
  shows "v_spark (vital_init e (Some (last (v_written (vital_persistence_save v)))) u) = v_spark v
     \<and> links (v_syn (vital_init e (Some (last (v_written (vital_persistence_save v)))) u)) = links (v_syn v)
     \<and> v_epi (vital_init e (Some (last (v_written (vital_persistence_save v)))) u) = v_epi (vital_init e None u)
     \<and> sd_epigenetic_data (last (v_written (vital_persistence_save v))) = None"
proof -
  have "length (links (v_syn v)) \<le> 64"
    using lives_alive [OF assms(1)] by (simp add: alive_def synapses_ok_def)
  then show ?thesis
    using assms(2,3)
    by (simp add: init_newborn vital_persistence_load_def newborn_core save_writes
        vital_set_spark_state_def synapse_import_links_def SYNAPSE_MAX_LINKS_def Let_def)
qed

theorem reincarnation_witness:
  "v_spark (vital_init quiet (Some (last (v_written (vital_persistence_save (vital_init quiet None unborn))))) unborn)
     = v_spark (vital_init quiet None unborn)"
proof -
  have "v_storage (vital_init quiet None unborn)" "v_storage unborn"
    by (simp_all add: init_newborn vital_persistence_load_def newborn_core unborn_def)
  with reincarnation [OF lives.birth [of unborn None quiet]] unborn_ok show ?thesis by simp
qed

end
