(* ===== verification/Vital_Recovery.thy ===== *)
theory Vital_Recovery
  imports Vital_Birth
begin

text \<open>
  How the organ recovers and accounts: pain fades, a vital parameter returns to its target, energy is
  conserved, budgets are respected, the clock is read, and a lesson of the cortex can hang the heart.
\<close>

section \<open>Pain\<close>

lemma tick_pain: "global_pain (v_noci (nociception_tick v)) =
    (if global_pain (v_noci v) > 0 then u32_mul (global_pain (v_noci v)) 254 div 255 else 0)"
  by (auto simp: nociception_tick_def vital_mark_experience_def Let_def)

lemma tick_pain_less: "0 < global_pain (v_noci v) \<Longrightarrow> global_pain (v_noci (nociception_tick v)) < global_pain (v_noci v)"
proof -
  assume p: "0 < global_pain (v_noci v)"
  have "u32_mul (global_pain (v_noci v)) 254 \<le> global_pain (v_noci v) * 254"
    by (simp add: u32_mul_def)
  then have "u32_mul (global_pain (v_noci v)) 254 < global_pain (v_noci v) * 255" using p by linarith
  then show ?thesis using p by (simp add: tick_pain div_less_iff_less_mult)
qed

lemma tick_pain_zero: "global_pain (v_noci v) = 0 \<Longrightarrow> global_pain (v_noci ((nociception_tick ^^ n) v)) = 0"
  by (induction n) (simp_all add: tick_pain)

text \<open>
  Pain fades. Without new signals the accumulated pain falls with every tick and is gone after
  at most as many ticks as it was high, even where its product in 32 bits wraps around.
\<close>

theorem pain_fades:
  assumes "global_pain (v_noci v) \<le> n"
  shows "nociception_get_global_pain ((nociception_tick ^^ n) v) = 0"
proof -
  have "global_pain (v_noci ((nociception_tick ^^ k) v)) + k \<le> global_pain (v_noci v)
      \<or> global_pain (v_noci ((nociception_tick ^^ k) v)) = 0" for k
  proof (induction k)
    case (Suc k)
    then show ?case
      using tick_pain_less [of "(nociception_tick ^^ k) v"] tick_pain_zero [of "(nociception_tick ^^ k) v" 1]
      by (cases "global_pain (v_noci ((nociception_tick ^^ k) v)) = 0") auto
  qed simp
  from this [of n] assms show ?thesis by (auto simp: nociception_get_global_pain_def)
qed

theorem pain_fades_witness:
  "nociception_get_global_pain ((nociception_tick ^^ 7)
     (unborn\<lparr> v_noci := (v_noci unborn)\<lparr> global_pain := 7 \<rparr> \<rparr>)) = 0"
  by (rule pain_fades) simp

section \<open>Homeostasis\<close>

definition param_ok :: "vital_param \<Rightarrow> bool" where
  "param_ok p \<longleftrightarrow> min_viable p \<le> target p \<and> target p \<le> max_viable p \<and> max_viable p < 2147483648
     \<and> min_viable p \<le> pvalue p \<and> pvalue p \<le> max_viable p"

definition distance :: "vital_param \<Rightarrow> nat" where
  "distance p = nat \<bar>int (target p) - int (pvalue p)\<bar>"

lemma regulate_step:
  assumes "param_ok p"
  shows "param_ok (regulate_param p) \<and> distance (regulate_param p) = distance p - correction_rate p
     \<and> target (regulate_param p) = target p \<and> correction_rate (regulate_param p) = correction_rate p
     \<and> min_viable (regulate_param p) = min_viable p \<and> max_viable (regulate_param p) = max_viable p"
proof (cases "pvalue p = target p")
  case True
  then show ?thesis using assms by (simp add: regulate_param_def distance_def)
next
  case False
  define x where "x = pvalue p"
  define t where "t = target p"
  define c where "c = (if correction_rate p < distance p then correction_rate p else distance p)"
  have r: "x < 2147483648" "t < 2147483648" "min_viable p \<le> x" "x \<le> max_viable p" "min_viable p \<le> t"
    "t \<le> max_viable p" "max_viable p < 2147483648"
    using assms by (auto simp: param_ok_def x_def t_def)
  have d: "distance p = (if x < t then t - x else x - t)" by (auto simp: distance_def x_def t_def)
  define y where "y = (if x < t then x + c else x - c)"
  have y: "min_viable p \<le> y" "y \<le> max_viable p" "c \<le> distance p"
    using r d by (auto simp: y_def c_def)
  have sx: "s32 x = int x" "s32 t = int t" using r by (simp_all add: s32_def)
  have "int x + (if int t - int x > 0 then 1 else -1) * int c = int y"
    using d y(3) False by (auto simp: y_def x_def t_def)
  moreover have "int y mod 4294967296 = int y" using y(2) r(7) by (simp add: mod_pos_pos_trivial)
  ultimately have m: "(s32 x + (if s32 t - s32 x > 0 then 1 else -1) * int c) mod 4294967296 = int y"
    unfolding sx by simp
  have cc: "int c = int (if correction_rate p < nat \<bar>s32 t - s32 x\<bar> then correction_rate p else nat \<bar>s32 t - s32 x\<bar>)"
    unfolding sx by (simp add: c_def distance_def x_def t_def)
  have "regulate_param p = clamp_param (p\<lparr> pvalue := nat ((s32 x + (if s32 t - s32 x > 0 then 1 else -1) *
      int (if correction_rate p < nat \<bar>s32 t - s32 x\<bar> then correction_rate p else nat \<bar>s32 t - s32 x\<bar>))
      mod 4294967296) \<rparr>)"
    using False by (simp only: regulate_param_def Let_def x_def t_def if_False)
  then have "regulate_param p = clamp_param (p\<lparr> pvalue := nat (int y) \<rparr>)"
    unfolding cc [symmetric] m .
  then have e: "regulate_param p = p\<lparr> pvalue := y \<rparr>"
    using y by (simp add: clamp_param_def Let_def)
  have "nat \<bar>int t - int y\<bar> = distance p - correction_rate p"
    using d by (auto simp: y_def c_def)
  then show ?thesis using e y r by (simp add: param_ok_def distance_def t_def)
qed

text \<open>
  C28: A vital parameter returns to its target. Within its viable range, every regulation brings it
  nearer by its correction rate, never past the target and never out of the range, so after
  enough regulations (its distance divided by its rate) it is exactly on target.
\<close>

theorem regulation_converges:
  assumes "param_ok p"
  shows "param_ok ((regulate_param ^^ n) p) \<and> distance ((regulate_param ^^ n) p) = distance p - n * correction_rate p
     \<and> (distance p \<le> n * correction_rate p \<longrightarrow> pvalue ((regulate_param ^^ n) p) = target p)"
proof -
  have i: "param_ok ((regulate_param ^^ n) p) \<and> distance ((regulate_param ^^ n) p) = distance p - n * correction_rate p
     \<and> target ((regulate_param ^^ n) p) = target p \<and> correction_rate ((regulate_param ^^ n) p) = correction_rate p"
  proof (induction n)
    case (Suc n)
    then show ?case using regulate_step [of "(regulate_param ^^ n) p"] by (auto simp: algebra_simps)
  qed (use assms in simp)
  then show ?thesis by (auto simp: distance_def)
qed

theorem regulation_converges_witness:
  "pvalue ((regulate_param ^^ 10) ((cpu_temperature homeostasis_init)\<lparr> pvalue := 85 \<rparr>)) = 55"
proof -
  let ?p = "(cpu_temperature homeostasis_init)\<lparr> pvalue := 85 \<rparr>"
  have "param_ok ?p" by (simp add: param_ok_def homeostasis_init_def param_def)
  from regulation_converges [OF this, of 10] show ?thesis
    by (simp add: distance_def homeostasis_init_def param_def)
qed

section \<open>Energy\<close>

datatype energy_op = Request u8 u64 | Generate u64 | Burn | Recycle | Adapt

text \<open>
  The ledger beside the metabolism: the energy granted to organs, and the rest of the pool that a
  famine drops without counting it as wasted.
\<close>

fun energy_step :: "energy_op \<Rightarrow> metabolism \<times> u64 \<times> u64 \<Rightarrow> metabolism \<times> u64 \<times> u64" where
  "energy_step (Request organ x) (m, g, l) =
     (let (y, m') = metabolism_request_energy organ x m in (m', g + y, l))"
| "energy_step (Generate x) (m, g, l) = (metabolism_generate_energy x m, g, l)"
| "energy_step Burn (m, g, l) = (let (famine, m') = burn_basal m
     in (m', g, if famine then l + total_energy_pool (m_liver m) else l))"
| "energy_step Recycle (m, g, l) = (recycle_budgets m, g, l)"
| "energy_step Adapt (m, g, l) = (adapt_basal m, g, l)"

fun balanced :: "metabolism \<times> u64 \<times> u64 \<Rightarrow> bool" where
  "balanced (m, g, l) \<longleftrightarrow> energy_generated (m_liver m) = total_energy_pool (m_liver m) + energy_wasted (m_liver m) + g + l"

lemma request_liver:
  "m_liver (snd (metabolism_request_energy organ x m)) = (m_liver m)\<lparr> total_energy_pool :=
     total_energy_pool (m_liver m) - fst (metabolism_request_energy organ x m) \<rparr>"
  by (auto simp: metabolism_request_energy_def Let_def split: option.split)

lemma energy_balanced: "balanced s \<Longrightarrow> balanced (energy_step p s)"
proof (cases s)
  case (fields m g l)
  assume b: "balanced s"
  show ?thesis
  proof (cases p)
    case (Request organ x)
    with b fields show ?thesis
      using request_liver [of organ x m] by (simp add: case_prod_beta)
  qed (use b fields in \<open>auto simp: metabolism_generate_energy_def burn_basal_def recycle_budgets_def
      adapt_basal_def Let_def\<close>)
qed

definition budgets_ok :: "metabolism \<Rightarrow> bool" where
  "budgets_ok m \<longleftrightarrow> (\<forall>b\<in>set (organ_budgets m). calories_consumed b \<le> calories_allocated b)"

lemma find_organ_less: "find_organ organ bs = Some i \<Longrightarrow> i < length bs"
  by (induction bs arbitrary: i) (auto split: if_splits)

lemma half_le: "x div 2 \<le> (x :: u64)"
  by (simp add: word_le_nat_alt unat_div)

lemma grant_le:
  assumes "a \<le> c - b" "b \<le> (c :: u64)"
  shows "b + a \<le> c"
proof -
  have "unat a \<le> unat c - unat b" using assms by (simp add: word_le_nat_alt unat_sub)
  moreover have "unat b \<le> unat c" using assms(2) by (simp add: word_le_nat_alt)
  ultimately have s: "unat b + unat a \<le> unat c" by linarith
  then have "unat b + unat a < 2 ^ 64" using unat_less_limit(4) [of c] by simp
  then have "unat (b + a) = unat b + unat a" by (simp add: unat_word_ariths)
  with s show ?thesis by (simp add: word_le_nat_alt)
qed

lemma request_budget:
  assumes "\<forall>b\<in>set (organ_budgets m). calories_consumed b \<le> calories_allocated b"
  shows "(\<forall>b\<in>set (organ_budgets (snd (metabolism_request_energy organ x m))). calories_consumed b \<le> calories_allocated b)
     \<and> fst (metabolism_request_energy organ x m) \<le> x
     \<and> fst (metabolism_request_energy organ x m) \<le> total_energy_pool (m_liver m)"
proof (cases "find_organ organ (organ_budgets m)")
  case None
  then show ?thesis using assms by (simp add: metabolism_request_energy_def)
next
  case (Some i)
  define b where "b = organ_budgets m ! i"
  have le: "calories_consumed b \<le> calories_allocated b"
    using assms find_organ_less [OF Some] by (simp add: b_def)
  define rem where "rem = calories_allocated b - calories_consumed b"
  define g1 where "g1 = (if x \<le> rem then x else rem)"
  define g where "g = (if g1 > total_energy_pool (m_liver m) then total_energy_pool (m_liver m) else g1)"
  define b1 where "b1 = b\<lparr> calories_consumed := calories_consumed b + g \<rparr>"
  define b2 where "b2 = (if calories_consumed b1 \<ge> calories_allocated b1 then b1\<lparr> is_fasting := True \<rparr> else b1)"
  have g: "g \<le> rem" "g \<le> x" "g \<le> total_energy_pool (m_liver m)" by (auto simp: g_def g1_def)
  have "calories_consumed b + g \<le> calories_allocated b"
    using grant_le [OF g(1) [unfolded rem_def] le] .
  then have b2: "calories_consumed b2 \<le> calories_allocated b2" by (simp add: b2_def b1_def)
  have "metabolism_request_energy organ x m = (if is_fasting b then (0, m)
     else (g, m\<lparr> organ_budgets := (organ_budgets m)[i := b2],
        m_liver := (m_liver m)\<lparr> total_energy_pool := total_energy_pool (m_liver m) - g \<rparr> \<rparr>))"
    by (simp only: metabolism_request_energy_def Some option.case Let_def b_def rem_def g1_def g_def b1_def b2_def)
  then show ?thesis
    using assms g b2 by (auto dest!: set_update)
qed

lemma energy_budgets: "budgets_ok (fst s) \<Longrightarrow> budgets_ok (fst (energy_step p s))"
proof (cases s)
  case (fields m g l)
  assume "budgets_ok (fst s)"
  then have b: "budgets_ok m" by (simp add: fields)
  show ?thesis
  proof (cases p)
    case (Request organ x)
    with b fields show ?thesis using request_budget [of m organ x] by (simp add: case_prod_beta budgets_ok_def)
  next
    case Recycle
    have "calories_consumed b div 2 \<le> calories_allocated b" if "b \<in> set (organ_budgets m)" for b
      using that b half_le order_trans unfolding budgets_ok_def by blast
    with b fields Recycle show ?thesis
      by (auto simp: recycle_budgets_def recycle_budget_def Let_def budgets_ok_def)
  qed (use b fields in \<open>auto simp: metabolism_generate_energy_def burn_basal_def adapt_basal_def Let_def
      budgets_ok_def\<close>)
qed

lemma register_frame:
  "m_liver (metabolism_register_organ organ k m) = m_liver m"
  "budgets_ok m \<Longrightarrow> budgets_ok (metabolism_register_organ organ k m)"
  by (auto simp: metabolism_register_organ_def budgets_ok_def)

lemma birth_balanced: "balanced (birth_metabolism m, 0, 0)"
  by (simp add: birth_metabolism_def birth_organs_def register_frame) (simp add: metabolism_init_def)

lemma birth_budgets: "budgets_ok (birth_metabolism m)"
proof -
  have "budgets_ok (metabolism_init 1000000 m)" by (simp add: metabolism_init_def budgets_ok_def)
  then show ?thesis by (simp add: birth_metabolism_def birth_organs_def register_frame)
qed

text \<open>
  C26: Energy is conserved. After any sequence of requests, productions, basal burns, recyclings and
  adaptations of a newborn metabolism, the energy generated is exactly the pool plus what was
  wasted, granted, and dropped by famines (which the code counts nowhere), and no organ has
  consumed more than its allocation.
\<close>

theorem energy_conserved:
  "case fold energy_step ops (birth_metabolism m0, 0, 0) of (m, granted, lost) \<Rightarrow>
     energy_generated (m_liver m) = total_energy_pool (m_liver m) + energy_wasted (m_liver m) + granted + lost
     \<and> list_all (\<lambda>b. calories_consumed b \<le> calories_allocated b) (organ_budgets m)"
proof -
  obtain m granted lost where r: "fold energy_step ops (birth_metabolism m0, 0, 0) = (m, granted, lost)"
    by (metis prod.collapse)
  have "balanced (fold energy_step ops s)" if "balanced s" for s
    using that by (induction ops arbitrary: s) (simp_all add: energy_balanced)
  from this [OF birth_balanced, of m0] have b: "balanced (m, granted, lost)" by (simp only: r)
  have "budgets_ok (fst (fold energy_step ops s))" if "budgets_ok (fst s)" for s
    using that by (induction ops arbitrary: s) (simp_all add: energy_budgets)
  from this [of "(birth_metabolism m0, 0, 0)"] have "budgets_ok m"
    unfolding r by (simp add: birth_budgets)
  with b show ?thesis by (simp add: r list_all_iff budgets_ok_def)
qed

section \<open>The clock\<close>

definition to_bcd :: "nat \<Rightarrow> u8" where
  "to_bcd n = of_nat (n div 10 * 16 + n mod 10)"

text \<open>The hour a 12-hour clock shows at hour \<open>h\<close> of the day, with the afternoon bit.\<close>

definition clock_12 :: "bool \<Rightarrow> nat \<Rightarrow> u8" where
  "clock_12 bcd h = (let k = (if h mod 12 = 0 then 12 else h mod 12)
     in (if bcd then to_bcd k else of_nat k) OR (if h \<ge> 12 then 0x80 else 0))"

text \<open>
  Which clocks the pineal gland reads. On a 24-hour clock, binary or BCD, it decodes every hour
  of the day. On a 12-hour clock in BCD no afternoon hour is recognised and the organ gets the push
  of the night from noon to midnight; in binary only noon and midnight are confused with
  each other.
\<close>

theorem clock_modes:
  "map (\<lambda>h. rtc_hours (to_bcd h) 0x02) [0..<24] = map of_nat [0..<24]
     \<and> map (\<lambda>h. rtc_hours (of_nat h) 0x06) [0..<24] = map of_nat [0..<24]
     \<and> map (\<lambda>h. rtc_hours (clock_12 False h) 0x04) [1..<12] = map of_nat [1..<12]
     \<and> map (\<lambda>h. rtc_hours (clock_12 False h) 0x04) [13..<24] = map of_nat [13..<24]
     \<and> rtc_hours (clock_12 False 0) 0x04 = 12 \<and> rtc_hours (clock_12 False 12) 0x04 = 0
     \<and> map (\<lambda>h. pineal_shift (rtc_hours (clock_12 True h) 0x00)) [12..<24] = replicate 12 (FORCE_YIN, 30)"
  by (intro conjI) code_simp+

section \<open>Dreams and lessons\<close>

lemma dream_bounds:
  "40 \<le> unat (dr_survival_rate (fst (dream_simulate sc v))) \<and> unat (dr_survival_rate (fst (dream_simulate sc v))) \<le> 93"
proof -
  define base where "base = (if vital_get_personality_influence v > 128 then 100 - scenario_severity sc div 2
    else 100 - scenario_severity sc div 3)"
  have base: "50 \<le> base" "base \<le> 84" by (cases sc; simp add: base_def)+
  define k where "k = unat (xorshift (v_sim_rng v) mod 20)"
  have k: "k < 20" by (simp add: k_def unat_mod)
  define n where "n = base + k - 10"
  have n: "40 \<le> n" "n \<le> 93" using base k by (auto simp: n_def)
  have e: "(of_nat base :: u64) + xorshift (v_sim_rng v) mod 20 - 10 = of_nat n"
  proof -
    have "(of_nat n :: u64) = of_nat (base + k) - of_nat 10"
      unfolding n_def using base by (intro of_nat_diff) simp
    then show ?thesis by (simp add: k_def)
  qed
  have r: "ucast (of_nat n :: u64) = (of_nat n :: u8)"
    by (rule bit_word_eqI) (auto simp: bit_simps)
  have u: "unat (of_nat n :: u8) = n" using n by (simp add: unat_of_nat)
  then have "\<not> (of_nat n :: u8) > 100" using n by (simp add: word_less_nat_alt)
  moreover have "vital_get_personality_influence (v\<lparr>v_sim_rng := x\<rparr>) = vital_get_personality_influence v" for x
    by (simp add: vital_get_personality_influence_def)
  ultimately show ?thesis
    using u n by (simp add: dream_simulate_def sim_rand_def Let_def base_def [symmetric] e r)
qed

lemma lesson_word:
  "find_word c (dictionary f) = None \<Longrightarrow> length (dictionary f) < 128 \<Longrightarrow>
     find_word c (dictionary (forth_learn_word c [c] 1 f)) = Some \<lparr> word_name = c, word_code = [c], word_length = 1 \<rparr>"
proof -
  have app: "find_word c (ws @ [w]) = (case find_word c ws of None \<Rightarrow> if word_name w = c then Some w else None | Some x \<Rightarrow> Some x)"
    for ws w by (induction ws) auto
  assume "find_word c (dictionary f) = None" "length (dictionary f) < 128"
  then show ?thesis by (simp add: forth_learn_word_def MAX_WORDS_def app)
qed

text \<open>
  C29: A lesson of two bytes stops the heart. When the cortex teaches the word \<open>y\<close> with the code \<open>y\<close>,
  the automatic dose of Yin at a tension above 150 runs that word instead of the primitive and
  never returns.
\<close>

theorem lesson_stops_heart:
  assumes "find_word (CHR ''y'') (dictionary (v_forth v)) = None"
    and "length (dictionary (v_forth v)) < 128" and "tension (v_spark v) > 150"
  shows "vital_metabolic_tick (v\<lparr> v_forth := forth_learn_word (CHR ''y'') ''y'' 1 (v_forth v) \<rparr>) = None"
proof -
  define v1 where "v1 = v\<lparr> v_forth := forth_learn_word (CHR ''y'') ''y'' 1 (v_forth v) \<rparr>"
  have w: "find_word (CHR ''y'') (dictionary (v_forth (v_push x v1)))
      = Some \<lparr> word_name = CHR ''y'', word_code = ''y'', word_length = 1 \<rparr>" for x
    using lesson_word [OF assms(1,2)] by (simp add: push_frame v1_def)
  have "vital_forth_exec ''5'' v1 = Some (v_push 5 v1)"
    using digit_5 by (simp add: vital_forth_exec_def forth_run_code)
  moreover have "vital_forth_exec ''y'' (v_push 5 v1) = None"
    using self_word_diverges [OF w digit_5(2)] by (simp add: vital_forth_exec_def)
  ultimately have "vital_metabolic_tick v1 = None"
    using assms(3) by (simp add: vital_metabolic_tick_def vital_get_tension_def v1_def)
  then show ?thesis by (simp add: v1_def)
qed

theorem lesson_stops_heart_witness:
  "vital_metabolic_tick ((set_tension 200 unborn)\<lparr> v_forth := forth_learn_word (CHR ''y'') ''y'' 1
     (v_forth (set_tension 200 unborn)) \<rparr>) = None"
  by (rule lesson_stops_heart) (simp_all add: set_tension_def unborn_def)

end
