(* ===== verification/Self_Organs.thy ===== *)
theory Self_Organs
  imports Network_Lungs Contracts
begin

text \<open>
  The organs that decide what belongs to the organism: the thymus that recognises signatures
  (\<open>identity-baremetal/src/self_recognition.c\<close>), the genetic engine that asks it before it takes up
  a mutation (\<open>evolution-baremetal/src/mutation.c\<close>) and the swarm that asks it before it believes a
  peer (\<open>swarm-baremetal/src/collective.c\<close>). A memory region is the list of its bytes; the
  address of a signature is an argument where its pointer goes onto the bus, and \<open>junk\<close> is the
  content of the local globule whose other fields the code leaves uninitialised. Console
  messages are left out.
\<close>

section \<open>Signatures\<close>

record oo_dna_signature =
  dna_hash :: "u8 list"

definition FNV_OFFSET :: u64 where "FNV_OFFSET = 0xcbf29ce484222325"
definition FNV_PRIME :: u64 where "FNV_PRIME = 0x100000001b3"

definition fnv_step :: "u8 \<Rightarrow> u64 \<Rightarrow> u64" where
  "fnv_step byte hash = (hash XOR ucast byte) * FNV_PRIME"

definition sub_hash :: "u64 \<Rightarrow> nat \<Rightarrow> u64" where
  "sub_hash hash i = hash XOR (of_nat i * 0x9E3779B97F4A7C15)"

definition identity_hash_fnv1a :: "u8 list \<Rightarrow> u8 list" where
  "identity_hash_fnv1a data =
     (let hash = fold fnv_step data FNV_OFFSET
      in concat (map (\<lambda>i. map (\<lambda>j. ucast (drop_bit (j * 8) (sub_hash hash i) AND 0xFF)) [0..<8])
           [0, 8, 16, 24]))"

definition identity_calculate_dna :: "u8 list \<Rightarrow> oo_dna_signature" where
  "identity_calculate_dna memory_region = \<lparr> dna_hash = identity_hash_fnv1a memory_region \<rparr>"

section \<open>The thymus\<close>

definition MAX_TRUSTED_DNA :: nat where "MAX_TRUSTED_DNA = 64"

record identity =
  trusted_genome :: "nat \<Rightarrow> oo_dna_signature"
  trusted_count :: nat

definition identity_boot :: "oo_dna_signature \<Rightarrow> identity" where
  "identity_boot zero = \<lparr> trusted_genome = (\<lambda>_. zero), trusted_count = 0 \<rparr>"

definition identity_init :: "identity \<Rightarrow> identity" where
  "identity_init s = s\<lparr> trusted_count := 0 \<rparr>"

text \<open>The inner loop compares 32 bytes and stops at the first difference.\<close>

definition same_dna :: "oo_dna_signature \<Rightarrow> oo_dna_signature \<Rightarrow> bool" where
  "same_dna a b \<longleftrightarrow> list_all (\<lambda>j. dna_hash a ! j = dna_hash b ! j) [0..<32]"

definition identity_alert :: "globule \<Rightarrow> u64 \<Rightarrow> globule" where
  "identity_alert junk addr = junk\<lparr> gtype := GLOBULE_WHITE, target_organ := 1, payload_addr := addr \<rparr>"

definition identity_is_self ::
  "globule \<Rightarrow> u64 \<Rightarrow> oo_dna_signature \<Rightarrow> identity \<times> united_bus \<Rightarrow> bool \<times> identity \<times> united_bus" where
  "identity_is_self junk addr signature = (\<lambda>(s, bus).
     if list_ex (\<lambda>i. same_dna (trusted_genome s i) signature) [0..<trusted_count s]
     then (True, s, bus)
     else (False, s, bus_put (identity_alert junk addr) bus))"

definition identity_trust_dna :: "oo_dna_signature \<Rightarrow> identity \<Rightarrow> identity" where
  "identity_trust_dna new_signature s =
     (if trusted_count s < MAX_TRUSTED_DNA
      then s\<lparr> trusted_genome := (trusted_genome s)
                (trusted_count s := \<lparr> dna_hash = map ((!) (dna_hash new_signature)) [0..<32] \<rparr>),
              trusted_count := trusted_count s + 1 \<rparr>
      else s)"

section \<open>Mutations\<close>

text \<open>
  The result of \<open>evolution_apply_mutation\<close> is that of the C function; \<open>sig_addr\<close> is the stack
  address of the local signature. The local mutation record is filled and never read.
\<close>

definition evolution_apply_mutation ::
  "globule \<Rightarrow> u64 \<Rightarrow> u8 list option \<Rightarrow> identity \<times> united_bus \<Rightarrow> int \<times> identity \<times> united_bus" where
  "evolution_apply_mutation junk sig_addr lora_weights = (\<lambda>(s, bus).
     case lora_weights of
       None \<Rightarrow> (-1, s, bus)
     | Some [] \<Rightarrow> (-1, s, bus)
     | Some weights \<Rightarrow>
         let sig = identity_calculate_dna weights;
             (self, s', bus') = identity_is_self junk sig_addr sig (s, bus)
         in if self then (0, identity_trust_dna sig s', bus') else (-1, s', bus'))"

text \<open>\<open>evolution_evaluate_fitness\<close> only prints; the result tells whether it does.\<close>

definition evolution_evaluate_fitness :: "u32 \<Rightarrow> u8 \<Rightarrow> bool" where
  "evolution_evaluate_fitness pattern_id success_rate \<longleftrightarrow> success_rate > 90"

section \<open>Pheromones\<close>

definition shared_immunity :: "u64 \<Rightarrow> u64 \<Rightarrow> globule" where
  "shared_immunity data len = \<lparr> globule_id = 0, gtype = GLOBULE_WHITE, source_organ = 10,
     target_organ = 1, payload_addr = data, payload_size = ucast len \<rparr>"

definition swarm_emit_pheromone :: "u8 \<Rightarrow> u8 list \<Rightarrow> respiration \<Rightarrow> respiration" where
  "swarm_emit_pheromone type data l = network_exhale data l"

text \<open>\<open>sender\<close> is the 32-byte signature at the address \<open>sender_dna\<close>.\<close>

definition swarm_on_pheromone_received ::
  "globule \<Rightarrow> u64 \<Rightarrow> oo_dna_signature \<Rightarrow> u64 \<Rightarrow> u64 \<Rightarrow> identity \<times> united_bus \<Rightarrow> identity \<times> united_bus" where
  "swarm_on_pheromone_received junk sender_dna sender data len st =
     (let (self, s, bus) = identity_is_self junk sender_dna sender st
      in if self then (s, bus_put (shared_immunity data len) bus) else (s, bus))"

section \<open>The hash\<close>

text \<open>A round of the hash can be undone: the xor by itself, the product because the prime is odd.\<close>

definition FNV_INVERSE :: u64 where "FNV_INVERSE = 0xce965057aff6957b"

lemma fnv_prime_inverse: "FNV_PRIME * FNV_INVERSE = 1"
  by (simp add: FNV_PRIME_def FNV_INVERSE_def)

lemma fnv_step_inj: "fnv_step b h = fnv_step b' h' \<longleftrightarrow> h XOR ucast b = h' XOR ucast b'"
proof
  assume "fnv_step b h = fnv_step b' h'"
  then have "(h XOR ucast b) * (FNV_PRIME * FNV_INVERSE) = (h' XOR ucast b') * (FNV_PRIME * FNV_INVERSE)"
    by (simp add: fnv_step_def flip: mult.assoc)
  then show "h XOR ucast b = h' XOR ucast b'" by (simp add: fnv_prime_inverse)
qed (simp add: fnv_step_def)

lemma xor_cancel: "h XOR x = h XOR y \<longleftrightarrow> x = y" "h XOR x = h' XOR x \<longleftrightarrow> h = h'"
  for h h' x y :: u64
proof -
  have c: "a XOR (a XOR b) = b" "(b XOR a) XOR a = b" for a b :: u64
    by (simp flip: xor.assoc, simp add: xor.assoc)
  then show "h XOR x = h XOR y \<longleftrightarrow> x = y" "h XOR x = h' XOR x \<longleftrightarrow> h = h'"
    by metis+
qed

lemma fnv_state_inj: "fold fnv_step bs h = fold fnv_step bs h' \<longleftrightarrow> h = h'"
  by (induction bs arbitrary: h h') (simp_all add: fnv_step_inj xor_cancel)

lemma byte_of_u64: "ucast (ucast b :: u64) = b" for b :: u8
  by (rule bit_word_eqI) (simp add: bit_simps)

lemma fnv_byte_inj: "fnv_step b h = fnv_step b' h \<longleftrightarrow> b = b'"
  by (metis byte_of_u64 fnv_step_inj xor_cancel(1))

lemma fnv_one_byte: "fold fnv_step (u @ [x] @ v) h = fold fnv_step (u @ [y] @ v) h \<longleftrightarrow> x = y"
  by (simp add: fnv_state_inj fnv_byte_inj)

text \<open>The 32 bytes are four blocks of eight; the first one is the 64-bit hash itself.\<close>

lemma length_hash [simp]: "length (identity_hash_fnv1a data) = 32"
  by (simp add: identity_hash_fnv1a_def Let_def)

lemma u64_of_bytes:
  assumes "\<And>j. j < 8 \<Longrightarrow> (ucast (drop_bit (j * 8) v AND 0xFF) :: u8) = ucast (drop_bit (j * 8) w AND 0xFF)"
  shows "v = (w :: u64)"
proof (rule bit_word_eqI)
  fix n assume n: "n < LENGTH(64)"
  have "(0xFF :: u64) = mask 8" by (simp add: mask_eq_exp_minus_1)
  then have "bit (0xFF :: u64) (n mod 8)" by (simp only: bit_mask_iff) simp
  then have b: "bit (ucast (drop_bit (n div 8 * 8) x AND 0xFF) :: u8) (n mod 8) = bit x n" for x :: u64
    using n by (simp add: bit_simps)
  from n have "n div 8 < 8" by simp
  from assms [OF this] show "bit v n = bit w n" using b by metis
qed

lemma hash_nth: "j < 8 \<Longrightarrow> identity_hash_fnv1a data ! j
    = ucast (drop_bit (j * 8) (fold fnv_step data FNV_OFFSET) AND 0xFF)"
  by (simp add: identity_hash_fnv1a_def Let_def nth_append sub_hash_def)

lemma hash_iff: "identity_hash_fnv1a d = identity_hash_fnv1a d'
    \<longleftrightarrow> fold fnv_step d FNV_OFFSET = fold fnv_step d' FNV_OFFSET"
proof
  assume "identity_hash_fnv1a d = identity_hash_fnv1a d'"
  then show "fold fnv_step d FNV_OFFSET = fold fnv_step d' FNV_OFFSET"
    by (intro u64_of_bytes) (metis hash_nth)
qed (simp add: identity_hash_fnv1a_def)

end
