(* ===== verification/Organ_Numbers.thy ===== *)
theory Organ_Numbers
  imports United_Bus Organ_Registry
begin

text \<open>
  The numbers of the organs. Three headers give every organ a number of its own: the bus
  (\<open>united_bus.h\<close>, here with the identifiers that no modelled operation compares), the organ
  registry (\<open>oo_organ_state.h\<close>) and the index of the modules (\<open>oo_module_index.h\<close>), which also holds
  the vital chain of the boot and the record of a module. The lemmas compare the numberings: which
  organs have the same number, which a reader of the bus takes for another organ, and how the two
  vital chains differ.
\<close>

section \<open>The identifiers of the bus\<close>

definition ORGAN_SOMA :: u8 where "ORGAN_SOMA = 1"
definition ORGAN_IMMUNE :: u8 where "ORGAN_IMMUNE = 2"
definition ORGAN_METABOLISM :: u8 where "ORGAN_METABOLISM = 3"
definition ORGAN_COLLECTIVE :: u8 where "ORGAN_COLLECTIVE = 5"
definition BUS_ORGAN_MEMORY :: u8 where "BUS_ORGAN_MEMORY = 6"
definition ORGAN_MERCATORION :: u8 where "ORGAN_MERCATORION = 7"

lemmas bus_organ_defs = ORGAN_CORTEX_def ORGAN_SOMA_def ORGAN_IMMUNE_def ORGAN_METABOLISM_def ORGAN_SENSORY_def
  ORGAN_COLLECTIVE_def BUS_ORGAN_MEMORY_def ORGAN_MERCATORION_def ORGAN_BROADCAST_def

section \<open>The identifiers of the registry\<close>

definition OO_ORGAN_NETWORK :: int where "OO_ORGAN_NETWORK = 3"
definition OO_ORGAN_IDENTITY :: int where "OO_ORGAN_IDENTITY = 4"
definition OO_ORGAN_SENSE :: int where "OO_ORGAN_SENSE = 5"
definition OO_ORGAN_VOCAL :: int where "OO_ORGAN_VOCAL = 6"
definition OO_ORGAN_EVOLUTION :: int where "OO_ORGAN_EVOLUTION = 8"
definition OO_ORGAN_DREAM :: int where "OO_ORGAN_DREAM = 9"
definition OO_ORGAN_REGEN :: int where "OO_ORGAN_REGEN = 10"
definition OO_ORGAN_SWARM :: int where "OO_ORGAN_SWARM = 11"
definition OO_ORGAN_SHADOW :: int where "OO_ORGAN_SHADOW = 12"
definition OO_ORGAN_BOT :: int where "OO_ORGAN_BOT = 13"
definition OO_ORGAN_PROPRIOCEPTION :: int where "OO_ORGAN_PROPRIOCEPTION = 15"

lemmas registry_organ_defs = OO_ORGAN_UNITED_def OO_ORGAN_KERNEL_def OO_ORGAN_MEMORY_def OO_ORGAN_NETWORK_def
  OO_ORGAN_IDENTITY_def OO_ORGAN_SENSE_def OO_ORGAN_VOCAL_def OO_ORGAN_REFLEX_def OO_ORGAN_EVOLUTION_def
  OO_ORGAN_DREAM_def OO_ORGAN_REGEN_def OO_ORGAN_SWARM_def OO_ORGAN_SHADOW_def OO_ORGAN_BOT_def OO_ORGAN_VITAL_def
  OO_ORGAN_PROPRIOCEPTION_def OO_ORGAN_CORTEX_def OO_ORGAN_COUNT_def

definition organ_bit :: "int \<Rightarrow> u32" where
  "organ_bit i = push_bit (nat i) 1"

definition OO_VITAL_CHAIN_MASK :: u32 where
  "OO_VITAL_CHAIN_MASK = organ_bit OO_ORGAN_REFLEX OR organ_bit OO_ORGAN_VITAL OR organ_bit OO_ORGAN_KERNEL
     OR organ_bit OO_ORGAN_MEMORY OR organ_bit OO_ORGAN_UNITED"

lemma organ_bit_iff: "0 \<le> i \<Longrightarrow> i < 32 \<Longrightarrow> bit (organ_bit i) k \<longleftrightarrow> k = nat i"
  by (auto simp: organ_bit_def bit_exp_iff)

text \<open>The mask of the header and the comparisons of the code name the same organs.\<close>

lemma chain_mask:
  assumes "valid_organ i"
  shows "in_vital_chain i \<longleftrightarrow> bit OO_VITAL_CHAIN_MASK (nat i)"
  using assms unfolding OO_VITAL_CHAIN_MASK_def bit_or_iff
  by (auto simp: organ_bit_iff in_vital_chain_def registry_organ_defs valid_organ_bounds)

section \<open>The index of the modules\<close>

datatype oo_organ_id =
    ORGAN_UNITED_BUS | ORGAN_KERNEL | ORGAN_MEMORY | ORGAN_REFLEX | ORGAN_VITAL | ORGAN_NETWORK | ORGAN_BOT
  | ORGAN_SENSE | ORGAN_PROPRIOCEPTION | ORGAN_VOCAL | ORGAN_DREAM | ORGAN_EVOLUTION | ORGAN_SHADOW
  | ORGAN_IDENTITY | ORGAN_SWARM | ORGAN_LLM

primrec organ_code :: "oo_organ_id \<Rightarrow> nat" where
  "organ_code ORGAN_UNITED_BUS = 0"
| "organ_code ORGAN_KERNEL = 1"
| "organ_code ORGAN_MEMORY = 2"
| "organ_code ORGAN_REFLEX = 3"
| "organ_code ORGAN_VITAL = 4"
| "organ_code ORGAN_NETWORK = 5"
| "organ_code ORGAN_BOT = 6"
| "organ_code ORGAN_SENSE = 7"
| "organ_code ORGAN_PROPRIOCEPTION = 8"
| "organ_code ORGAN_VOCAL = 9"
| "organ_code ORGAN_DREAM = 10"
| "organ_code ORGAN_EVOLUTION = 11"
| "organ_code ORGAN_SHADOW = 12"
| "organ_code ORGAN_IDENTITY = 13"
| "organ_code ORGAN_SWARM = 14"
| "organ_code ORGAN_LLM = 15"

definition ORGAN_MAX :: nat where "ORGAN_MAX = 16"

definition oo_vital_chain :: "oo_organ_id list" where
  "oo_vital_chain = [ORGAN_UNITED_BUS, ORGAN_KERNEL, ORGAN_MEMORY, ORGAN_REFLEX, ORGAN_VITAL, ORGAN_NETWORK,
     ORGAN_BOT]"

definition OO_VITAL_CHAIN_LENGTH :: nat where
  "OO_VITAL_CHAIN_LENGTH = length oo_vital_chain"

text \<open>
  A module: its functions are pointers, \<open>None\<close> for \<open>NULL\<close>. The table \<open>oo_modules\<close> is declared and
  nowhere defined; it is a parameter.
\<close>

record 'f oo_module =
  m_name :: string
  m_id :: oo_organ_id
  m_init :: "'f option"
  m_shutdown :: "'f option"
  m_health_check :: "'f option"

definition OO_MODULE_DECLARE ::
  "string \<Rightarrow> oo_organ_id \<Rightarrow> 'f option \<Rightarrow> 'f option \<Rightarrow> 'f option \<Rightarrow> 'f oo_module" where
  "OO_MODULE_DECLARE name i init_fn shutdown_fn health_fn =
     \<lparr> m_name = name, m_id = i, m_init = init_fn, m_shutdown = shutdown_fn, m_health_check = health_fn \<rparr>"

text \<open>The text of the panic, \<open>None\<close> when the assertion passes.\<close>

definition OO_ASSERT_MODULE_EXPORTS :: "(nat \<Rightarrow> 'f oo_module) \<Rightarrow> nat \<Rightarrow> string option" where
  "OO_ASSERT_MODULE_EXPORTS oo_modules organ_id =
     (if m_init (oo_modules organ_id) = None
      then Some (''Module '' @ m_name (oo_modules organ_id) @ '' has no init function'') else None)"

lemma organ_code_inject: "organ_code i = organ_code j \<longleftrightarrow> i = j"
  by (cases i; cases j) simp_all

lemma organ_code_bound: "organ_code i < ORGAN_MAX"
  by (cases i) (simp_all add: ORGAN_MAX_def)

text \<open>A table of declared modules passes the assertion exactly at the modules with an \<open>init\<close>.\<close>

lemma declared_exports:
  assumes "oo_modules (organ_code i) = OO_MODULE_DECLARE name i init_fn shutdown_fn health_fn"
  shows "OO_ASSERT_MODULE_EXPORTS oo_modules (organ_code i) = None \<longleftrightarrow> init_fn \<noteq> None"
  using assms by (simp add: OO_ASSERT_MODULE_EXPORTS_def OO_MODULE_DECLARE_def)

section \<open>Three numberings\<close>

text \<open>The number that the registry has for a module of the index; the language model is its cortex.\<close>

primrec registry_number :: "oo_organ_id \<Rightarrow> int" where
  "registry_number ORGAN_UNITED_BUS = OO_ORGAN_UNITED"
| "registry_number ORGAN_KERNEL = OO_ORGAN_KERNEL"
| "registry_number ORGAN_MEMORY = OO_ORGAN_MEMORY"
| "registry_number ORGAN_REFLEX = OO_ORGAN_REFLEX"
| "registry_number ORGAN_VITAL = OO_ORGAN_VITAL"
| "registry_number ORGAN_NETWORK = OO_ORGAN_NETWORK"
| "registry_number ORGAN_BOT = OO_ORGAN_BOT"
| "registry_number ORGAN_SENSE = OO_ORGAN_SENSE"
| "registry_number ORGAN_PROPRIOCEPTION = OO_ORGAN_PROPRIOCEPTION"
| "registry_number ORGAN_VOCAL = OO_ORGAN_VOCAL"
| "registry_number ORGAN_DREAM = OO_ORGAN_DREAM"
| "registry_number ORGAN_EVOLUTION = OO_ORGAN_EVOLUTION"
| "registry_number ORGAN_SHADOW = OO_ORGAN_SHADOW"
| "registry_number ORGAN_IDENTITY = OO_ORGAN_IDENTITY"
| "registry_number ORGAN_SWARM = OO_ORGAN_SWARM"
| "registry_number ORGAN_LLM = OO_ORGAN_CORTEX"

text \<open>
  Only the first three organs and the shadow have the same number in the index and in the registry.
\<close>

lemma index_and_registry:
  "int (organ_code i) = registry_number i \<longleftrightarrow> i \<in> {ORGAN_UNITED_BUS, ORGAN_KERNEL, ORGAN_MEMORY, ORGAN_SHADOW}"
  by (cases i) (simp_all add: registry_organ_defs)

text \<open>Every module is an organ of the registry; the organ of regeneration has no module.\<close>

lemma organ_ids: "(UNIV :: oo_organ_id set) = set [ORGAN_UNITED_BUS, ORGAN_KERNEL, ORGAN_MEMORY, ORGAN_REFLEX,
    ORGAN_VITAL, ORGAN_NETWORK, ORGAN_BOT, ORGAN_SENSE, ORGAN_PROPRIOCEPTION, ORGAN_VOCAL, ORGAN_DREAM,
    ORGAN_EVOLUTION, ORGAN_SHADOW, ORGAN_IDENTITY, ORGAN_SWARM, ORGAN_LLM]"
proof (intro UNIV_eq_I)
  fix i show "i \<in> set [ORGAN_UNITED_BUS, ORGAN_KERNEL, ORGAN_MEMORY, ORGAN_REFLEX,
    ORGAN_VITAL, ORGAN_NETWORK, ORGAN_BOT, ORGAN_SENSE, ORGAN_PROPRIOCEPTION, ORGAN_VOCAL, ORGAN_DREAM,
    ORGAN_EVOLUTION, ORGAN_SHADOW, ORGAN_IDENTITY, ORGAN_SWARM, ORGAN_LLM]" by (cases i) simp_all
qed

lemma registry_without_module:
  "range registry_number = {k. valid_organ k} - {OO_ORGAN_REGEN}"
proof -
  have "{k. valid_organ k} = set [0..16]" by (auto simp: valid_organ_bounds)
  then show ?thesis unfolding organ_ids by (auto simp: registry_organ_defs upto_rec1)
qed

text \<open>The boot of the index counts two organs as vital that the registry lets die.\<close>

lemma vital_chains:
  "i \<in> set oo_vital_chain \<and> \<not> in_vital_chain (registry_number i) \<longleftrightarrow> i = ORGAN_NETWORK \<or> i = ORGAN_BOT"
  "in_vital_chain (registry_number i) \<Longrightarrow> i \<in> set oo_vital_chain"
  by (cases i; simp add: oo_vital_chain_def in_vital_chain_def registry_organ_defs)+

text \<open>
  The state of an organ goes onto the bus with the organ's number of the registry as its source
  (\<open>organ_state_publish\<close>). A reader that knows the identifiers of the bus takes the kernel for the
  soma, the memory for the immune organ, and the identity for the senses, whose requests the barrier
  of the bus lets through.
\<close>

lemma registry_on_bus:
  "word_of_int OO_ORGAN_KERNEL = ORGAN_SOMA" "word_of_int OO_ORGAN_MEMORY = ORGAN_IMMUNE"
  "word_of_int OO_ORGAN_NETWORK = ORGAN_METABOLISM" "word_of_int OO_ORGAN_IDENTITY = ORGAN_SENSORY"
  "word_of_int OO_ORGAN_VOCAL = BUS_ORGAN_MEMORY" "word_of_int OO_ORGAN_REFLEX = ORGAN_MERCATORION"
  by (simp_all add: registry_organ_defs bus_organ_defs)

end
