(* ===== verification/Self_Facts.thy ===== *)
theory Self_Facts
  imports Self_Organs Organ_Numbers
begin

text \<open>
  What the recognition of the self guarantees: the thymus keeps the first 64 signatures it is
  told to trust and recognises exactly these; one changed byte of a region changes its
  signature; and what evolution and the swarm do follows from the answer of the thymus alone.
\<close>

section \<open>The pool of trusted signatures\<close>

definition dna_ok :: "oo_dna_signature \<Rightarrow> bool" where
  "dna_ok d \<longleftrightarrow> length (dna_hash d) = 32"

definition trusted :: "identity \<Rightarrow> oo_dna_signature list" where
  "trusted s = map (trusted_genome s) [0..<trusted_count s]"

definition identity_ok :: "identity \<Rightarrow> bool" where
  "identity_ok s \<longleftrightarrow> trusted_count s \<le> 64 \<and> list_all dna_ok (trusted s)"

lemma identity_ok_init [oo_inv, simp]: "identity_ok (identity_init s)" "trusted (identity_init s) = []"
  by (simp_all add: identity_ok_def identity_init_def trusted_def)

lemma same_dna_iff: "dna_ok a \<Longrightarrow> dna_ok b \<Longrightarrow> same_dna a b \<longleftrightarrow> a = b"
proof -
  assume "dna_ok a" "dna_ok b"
  then have "dna_hash a = dna_hash b \<longleftrightarrow> (\<forall>j<32. dna_hash a ! j = dna_hash b ! j)"
    by (auto simp: dna_ok_def list_eq_iff_nth_eq)
  moreover have "a = b \<longleftrightarrow> dna_hash a = dna_hash b" by (cases a; cases b) simp
  ultimately show ?thesis by (auto simp: same_dna_def list_all_iff)
qed

lemma copy_dna: "dna_ok d \<Longrightarrow> \<lparr> dna_hash = map ((!) (dna_hash d)) [0..<32] \<rparr> = d"
  using map_nth [of "dna_hash d"] by (cases d) (simp add: dna_ok_def)

lemma trusted_trust:
  "dna_ok d \<Longrightarrow> trusted (identity_trust_dna d s)
     = (if length (trusted s) < MAX_TRUSTED_DNA then trusted s @ [d] else trusted s)"
  by (simp add: trusted_def identity_trust_dna_def copy_dna)

lemma identity_ok_trust [oo_inv]: "identity_ok s \<Longrightarrow> dna_ok d \<Longrightarrow> identity_ok (identity_trust_dna d s)"
  using trusted_trust [of d s]
  by (auto simp: identity_ok_def MAX_TRUSTED_DNA_def identity_trust_dna_def split: if_splits)

interpretation thymus_pool: bounded_pool MAX_TRUSTED_DNA identity_trust_dna trusted identity_ok dna_ok
proof (unfold_locales, goal_cases)
  case (1 s e)
  then show ?case by (rule identity_ok_trust)
next
  case (2 s e)
  then show ?case by (simp add: trusted_trust)
next
  case (3 s)
  then show ?case by (simp add: identity_ok_def trusted_def MAX_TRUSTED_DNA_def)
qed

lemma is_self_iff:
  assumes "identity_ok s" "dna_ok d"
  shows "identity_is_self junk addr d (s, bus) = (if d \<in> set (trusted s) then (True, s, bus)
    else (False, s, bus_put (identity_alert junk addr) bus))"
proof -
  have "same_dna (trusted_genome s i) d \<longleftrightarrow> trusted_genome s i = d" if "i < trusted_count s" for i
    using assms that by (auto simp: identity_ok_def trusted_def list_all_iff same_dna_iff)
  then have "list_ex (\<lambda>i. same_dna (trusted_genome s i) d) [0..<trusted_count s] \<longleftrightarrow> d \<in> set (trusted s)"
    by (auto simp: list_ex_iff trusted_def)
  then show ?thesis by (simp add: identity_is_self_def)
qed

lemma dna_ok_calculate [simp]: "dna_ok (identity_calculate_dna region)"
  by (simp add: dna_ok_def identity_calculate_dna_def)

lemma calculate_iff: "identity_calculate_dna (u @ [x] @ v) = identity_calculate_dna (u @ [y] @ v) \<longleftrightarrow> x = y"
  unfolding identity_calculate_dna_def
  by (simp only: oo_dna_signature.iffs hash_iff fnv_one_byte) simp

lemma alert_accepted: "fst (united_bus_pump (identity_alert junk addr) bus) = 0"
  by (rule pump_priority) (simp add: identity_alert_def is_priority_def)

section \<open>Properties\<close>

text \<open>A newborn thymus, for the witnesses.\<close>

abbreviation newborn_thymus :: identity where
  "newborn_thymus \<equiv> identity_init (identity_boot (identity_calculate_dna []))"

text \<open>
  C36: the memory of the thymus. After it has been reset and told to trust any list of
  signatures, exactly the first 64 of them are recognised; for any other one a single white globule
  is pumped, which the bus never refuses, and neither case changes the genome. The globule is
  addressed to organ 1: its comment says the immune system, but in the numbering of the bus that is
  \<open>ORGAN_SOMA\<close>, and \<open>ORGAN_IMMUNE\<close> is 2.
\<close>

theorem thymus_recognises:
  assumes "list_all dna_ok ds" "dna_ok d" "s = fold identity_trust_dna ds (identity_init s0)"
  shows "identity_is_self junk addr d (s, bus)
      = (d \<in> set (take 64 ds), s,
         if d \<in> set (take 64 ds) then bus else bus_put (identity_alert junk addr) bus)
    \<and> fst (united_bus_pump (identity_alert junk addr) bus) = 0
    \<and> gtype (identity_alert junk addr) = GLOBULE_WHITE \<and> target_organ (identity_alert junk addr) = ORGAN_SOMA"
proof -
  have ok: "\<forall>e\<in>set ds. dna_ok e" using assms(1) by (simp add: list_all_iff)
  have "identity_ok s" "trusted s = take 64 ds"
    using thymus_pool.pool_inv [OF _ ok, of "identity_init s0"]
      thymus_pool.pool_entries [OF _ ok, of "identity_init s0"]
    by (simp_all add: assms(3) MAX_TRUSTED_DNA_def)
  with assms(2) show ?thesis by (simp add: is_self_iff alert_accepted) (simp add: identity_alert_def ORGAN_SOMA_def)
qed

lemma thymus_recognises_witness:
  "fst (identity_is_self (stray GLOBULE_RED) 4096 (identity_calculate_dna [1, 2])
     (fold identity_trust_dna [identity_calculate_dna [1, 2]] newborn_thymus, bus_boot empty_ring))"
  using thymus_recognises [of "[identity_calculate_dna [1, 2]]" "identity_calculate_dna [1, 2]",
      OF _ _ refl, where junk = "stray GLOBULE_RED"]
  by simp

text \<open>
  C37: tampering with one byte is detected. An organ whose region is the trusted one is
  recognised; if any single byte of the region is changed to any other value it is not, and the
  alert is pumped.
\<close>

theorem tampering_detected:
  assumes "x \<noteq> y" "s = identity_trust_dna (identity_calculate_dna (u @ [x] @ v)) (identity_init s0)"
  shows "identity_is_self junk addr (identity_calculate_dna (u @ [x] @ v)) (s, bus) = (True, s, bus)
    \<and> identity_is_self junk addr (identity_calculate_dna (u @ [y] @ v)) (s, bus)
       = (False, s, bus_put (identity_alert junk addr) bus)"
proof -
  have "trusted s = [identity_calculate_dna (u @ [x] @ v)]" "identity_ok s"
    using assms(2) by (simp_all add: trusted_trust identity_ok_trust MAX_TRUSTED_DNA_def)
  moreover have "identity_calculate_dna (u @ [y] @ v) \<noteq> identity_calculate_dna (u @ [x] @ v)"
    using assms(1) calculate_iff by metis
  ultimately show ?thesis by (simp only: is_self_iff dna_ok_calculate) simp
qed

lemma tampering_detected_witness:
  "\<not> fst (identity_is_self (stray GLOBULE_RED) 4096 (identity_calculate_dna ([0x55] @ [0x90] @ [0xC3]))
     (identity_trust_dna (identity_calculate_dna ([0x55] @ [0x89] @ [0xC3])) newborn_thymus,
      bus_boot empty_ring))"
  using tampering_detected [where x = "0x89" and y = "0x90" and u = "[0x55]" and v = "[0xC3]",
      OF _ refl, where junk = "stray GLOBULE_RED"]
  by (simp del: append_Cons append_Nil)

text \<open>Mutations that are submitted one after another.\<close>

definition evolve :: "globule \<Rightarrow> u64 \<Rightarrow> u8 list list \<Rightarrow> identity \<times> united_bus \<Rightarrow> identity \<times> united_bus" where
  "evolve junk addr = fold (\<lambda>w st. snd (evolution_apply_mutation junk addr (Some w) st))"

lemma evolution_cases:
  assumes "identity_ok s" "w \<noteq> []"
  shows "evolution_apply_mutation junk addr (Some w) (s, bus) =
    (if identity_calculate_dna w \<in> set (trusted s)
     then (0, identity_trust_dna (identity_calculate_dna w) s, bus)
     else (-1, s, bus_put (identity_alert junk addr) bus))"
  using assms by (cases w) (simp_all add: evolution_apply_mutation_def is_self_iff)

lemma evolution_frame:
  assumes "identity_ok s"
  shows "identity_ok (fst (snd (evolution_apply_mutation junk addr (Some w) (s, bus))))
    \<and> set (trusted (fst (snd (evolution_apply_mutation junk addr (Some w) (s, bus))))) = set (trusted s)"
proof (cases "w = []")
  case True
  with assms show ?thesis by (simp add: evolution_apply_mutation_def)
next
  case False
  with assms show ?thesis
    by (auto simp: evolution_cases trusted_trust intro: identity_ok_trust)
qed

lemma evolve_frame:
  "identity_ok s \<Longrightarrow> identity_ok (fst (evolve junk addr ws (s, bus)))
     \<and> set (trusted (fst (evolve junk addr ws (s, bus)))) = set (trusted s)"
proof (induction ws arbitrary: s bus)
  case (Cons w ws)
  obtain s' bus' where e: "snd (evolution_apply_mutation junk addr (Some w) (s, bus)) = (s', bus')"
    by (metis prod.collapse)
  with evolution_frame [OF Cons.prems, of junk addr w bus] have "identity_ok s'" "set (trusted s') = set (trusted s)"
    by auto
  with Cons.IH [of s' bus'] e show ?case by (simp add: evolve_def)
qed (simp add: evolve_def)

text \<open>
  evolution never learns. Whatever sequence of mutations is submitted, the set of
  recognised signatures stays what it was: a mutation is accepted exactly if its signature was
  trusted before the first of them, and is rejected with an alert otherwise.
\<close>

theorem evolution_learns_nothing:
  assumes "identity_ok s" "w \<noteq> []"
  shows "let (s', bus') = evolve junk addr ws (s, bus)
         in set (trusted s') = set (trusted s)
          \<and> fst (evolution_apply_mutation junk addr (Some w) (s', bus'))
             = (if identity_calculate_dna w \<in> set (trusted s) then 0 else -1)"
proof -
  obtain s' bus' where e: "evolve junk addr ws (s, bus) = (s', bus')" by (metis prod.collapse)
  with evolve_frame [OF assms(1), of junk addr ws bus] have "identity_ok s'" "set (trusted s') = set (trusted s)"
    by auto
  with e evolution_cases [OF _ assms(2)] show ?thesis by simp
qed

lemma evolution_learns_nothing_witness:
  "fst (evolution_apply_mutation (stray GLOBULE_RED) 4096 (Some [7])
     (evolve (stray GLOBULE_RED) 4096 [[7], [7, 8]] (newborn_thymus, bus_boot empty_ring))) = -1"
  using evolution_learns_nothing [OF identity_ok_init(1), where w = "[7]" and ws = "[[7], [7, 8]]"
      and junk = "stray GLOBULE_RED"]
  by (simp add: split_beta)

text \<open>An accepted mutation is stored once more each time: 63 repetitions exhaust the genome.\<close>

lemma evolve_repeats:
  assumes "w \<noteq> []" "identity_ok s" "identity_calculate_dna w \<in> set (trusted s)"
    and "length (trusted s) + n \<le> 64"
  shows "evolve junk addr (replicate n w) (s, bus)
    = ((identity_trust_dna (identity_calculate_dna w) ^^ n) s, bus)
   \<and> trusted ((identity_trust_dna (identity_calculate_dna w) ^^ n) s)
      = trusted s @ replicate n (identity_calculate_dna w)"
  using assms(2-4)
proof (induction n arbitrary: s)
  case (Suc n)
  let ?d = "identity_calculate_dna w"
  have t: "trusted (identity_trust_dna ?d s) = trusted s @ [?d]" "identity_ok (identity_trust_dna ?d s)"
    using Suc.prems by (simp_all add: trusted_trust MAX_TRUSTED_DNA_def identity_ok_trust)
  from Suc.IH [OF t(2)] Suc.prems t(1) show ?case
    by (simp add: evolve_def evolution_cases [OF Suc.prems(1) assms(1)] funpow_swap1 replicate_append_same)
qed (simp add: evolve_def)

theorem mutation_exhausts_genome:
  fixes s0 :: identity
  assumes "w \<noteq> []" "dna_ok d"
  defines "s1 \<equiv> identity_trust_dna (identity_calculate_dna w) (identity_init s0)"
  shows "let (s, bus') = evolve junk addr (replicate 63 w) (s1, bus)
         in bus' = bus \<and> identity_trust_dna d s = s"
proof -
  let ?d = "identity_calculate_dna w" and ?s = "(identity_trust_dna (identity_calculate_dna w) ^^ 63) s1"
  have s1: "trusted s1 = [?d]" "identity_ok s1"
    by (simp_all add: s1_def trusted_trust MAX_TRUSTED_DNA_def identity_ok_trust)
  then have e: "evolve junk addr (replicate 63 w) (s1, bus) = (?s, bus)" "trusted ?s = replicate 64 ?d"
    using evolve_repeats [OF assms(1) s1(2), of 63 junk addr bus] by (simp_all add: numeral_eq_Suc)
  then have "length (trusted ?s) = 64" by simp
  then have "trusted_count ?s = 64" by (simp add: trusted_def)
  then have "identity_trust_dna d ?s = ?s" by (simp add: identity_trust_dna_def MAX_TRUSTED_DNA_def)
  with e(1) show ?thesis by simp
qed

text \<open>
  the swarm is heard only through the thymus. A pheromone puts exactly one white globule
  for the immune system on the bus, which is always accepted: the shared payload if the sender's
  signature is trusted, and otherwise an alert that carries the sender's signature in its place.
\<close>

theorem pheromone_gate:
  assumes "identity_ok s" "dna_ok sender" "swarm_on_pheromone_received junk sender_dna sender data len (s, bus) = (s', bus')"
  defines "g \<equiv> blood_stream bus' (heart_systole bus)"
  shows "s' = s \<and> total_pumps bus' = total_pumps bus + 1 \<and> drops bus' = drops bus
    \<and> gtype g = GLOBULE_WHITE \<and> target_organ g = 1
    \<and> payload_addr g = (if sender \<in> set (trusted s) then data else sender_dna)"
proof -
  have w: "drops (bus_put h b) = drops b \<and> total_pumps (bus_put h b) = total_pumps b + 1
      \<and> blood_stream (bus_put h b) (heart_systole b) = h\<lparr>globule_id := next_globule_id b\<rparr>"
    if "gtype h = GLOBULE_WHITE" for h b
    using that by (auto simp: united_bus_pump_def Let_def is_priority_def blocked_by_barrier_def)
  from assms(3) have "s' = s" "bus' = bus_put (if sender \<in> set (trusted s) then shared_immunity data len
      else identity_alert junk sender_dna) bus"
    by (auto simp: swarm_on_pheromone_received_def is_self_iff [OF assms(1,2)] split: if_splits)
  with w [of "shared_immunity data len" bus] w [of "identity_alert junk sender_dna" bus] show ?thesis
    by (auto simp: g_def shared_immunity_def identity_alert_def)
qed

lemma pheromone_gate_witness:
  "total_pumps (snd (swarm_on_pheromone_received (stray GLOBULE_RED) 4096 (identity_calculate_dna [1])
      8192 5 (newborn_thymus, bus_boot empty_ring))) = total_pumps (bus_boot empty_ring) + 1"
proof -
  obtain s' bus' where
    "swarm_on_pheromone_received (stray GLOBULE_RED) 4096 (identity_calculate_dna [1])
      8192 5 (newborn_thymus, bus_boot empty_ring) = (s', bus')"
    by (metis prod.collapse)
  with pheromone_gate [OF identity_ok_init(1) dna_ok_calculate this] show ?thesis by simp
qed

end
