(* ===== verification/Reflex_Sense.thy ===== *)
theory Reflex_Sense
  imports Network_Lungs
begin

text \<open>
  The peripheral nervous system: the spinal cord that binds interrupts to reflexes
  (\<open>reflex-baremetal/src/spinal_cord.c\<close>) and the receptors that turn keys, screen output, serial
  data and clock ticks into globules (\<open>sense-baremetal/src/retina_and_touch.c\<close>). Each file's
  static variables are a record; the screen memory at \<open>0xB8000\<close> is part of the receptors' state.
  Console messages are left out.
\<close>

section \<open>The spinal cord\<close>

definition OO_REFLEX_PAIN :: u8 where [oo_defs]: "OO_REFLEX_PAIN = 0x02"
definition OO_REFLEX_WATCHDOG :: u8 where [oo_defs]: "OO_REFLEX_WATCHDOG = 0x03"
definition OO_REFLEX_THERMAL :: u8 where [oo_defs]: "OO_REFLEX_THERMAL = 0x04"
definition ORGAN_REFLEX_SOURCE :: u8 where [oo_defs]: "ORGAN_REFLEX_SOURCE = 8"

text \<open>
  What a table entry points to: one of the two reflexes of the file or a function of another
  organ, known by its address; what that function does is the argument \<open>other\<close> of
  \<open>reflex_trigger\<close>. \<open>halts\<close> counts the calls of the external \<open>cpu_halt\<close>.
\<close>

datatype reflex_action = Reflex_Pain | Reflex_Thermal_Burn | Other_Action u64

record spinal_cord =
  reflex_table :: "u8 \<Rightarrow> reflex_action option"
  armed_count :: u32
  triggered_count :: u32
  last_vector :: u8
  watchdog_counter :: u32
  halts :: nat

definition cord_boot :: spinal_cord where
  "cord_boot = \<lparr> reflex_table = (\<lambda>_. None), armed_count = 0, triggered_count = 0, last_vector = 0,
     watchdog_counter = 0, halts = 0 \<rparr>"

definition reflex_bind_action :: "u8 \<Rightarrow> reflex_action option \<Rightarrow> spinal_cord \<Rightarrow> spinal_cord" where
  "reflex_bind_action vector action s = s\<lparr> reflex_table := (reflex_table s)(vector := action) \<rparr>"

definition reflex_init :: "spinal_cord \<Rightarrow> spinal_cord" where
  "reflex_init s0 =
     (let s = s0\<lparr> reflex_table := (\<lambda>_. None) \<rparr>;
          s = reflex_bind_action OO_REFLEX_PAIN (Some Reflex_Pain) s;
          s = reflex_bind_action OO_REFLEX_WATCHDOG (Some Reflex_Thermal_Burn) s;
          s = reflex_bind_action OO_REFLEX_THERMAL (Some Reflex_Thermal_Burn) s
      in s\<lparr> armed_count := 3 \<rparr>)"

definition pain_signal_globule :: globule where
  "pain_signal_globule = \<lparr> globule_id = 0, gtype = GLOBULE_YELLOW, source_organ = ORGAN_REFLEX_SOURCE,
     target_organ = ORGAN_BROADCAST, payload_addr = 0, payload_size = ucast OO_REFLEX_THERMAL \<rparr>"

definition reflex_on_thermal_burn :: "spinal_cord \<times> united_bus \<Rightarrow> spinal_cord \<times> united_bus" where
  "reflex_on_thermal_burn = (\<lambda>(s, bus). (s, bus_put pain_signal_globule bus))"

definition reflex_on_pain :: "spinal_cord \<times> united_bus \<Rightarrow> spinal_cord \<times> united_bus" where
  "reflex_on_pain = (\<lambda>(s, bus).
     let bus = snd (united_bus_broadcast_white ORGAN_REFLEX_SOURCE 0x01 bus)
     in (s\<lparr> halts := halts s + 1 \<rparr>, bus))"

definition reflex_trigger ::
  "(u64 \<Rightarrow> united_bus \<Rightarrow> united_bus) \<Rightarrow> u8 \<Rightarrow> spinal_cord \<times> united_bus \<Rightarrow> spinal_cord \<times> united_bus" where
  "reflex_trigger other vector = (\<lambda>(s, bus).
     case reflex_table s vector of
       None \<Rightarrow> (s, bus)
     | Some action \<Rightarrow>
         let s = s\<lparr> last_vector := vector, triggered_count := triggered_count s + 1 \<rparr>
         in case action of
              Reflex_Pain \<Rightarrow> reflex_on_pain (s, bus)
            | Reflex_Thermal_Burn \<Rightarrow> reflex_on_thermal_burn (s, bus)
            | Other_Action f \<Rightarrow> (s, other f bus))"

definition reflex_watchdog_kick :: "spinal_cord \<Rightarrow> spinal_cord" where
  "reflex_watchdog_kick s = s\<lparr> watchdog_counter := 0 \<rparr>"

definition reflex_thermal_check :: "u32 \<Rightarrow> spinal_cord \<times> united_bus \<Rightarrow> spinal_cord \<times> united_bus" where
  "reflex_thermal_check temp_celsius = (\<lambda>(s, bus).
     if temp_celsius > 85
     then let bus = snd (united_bus_broadcast_white ORGAN_REFLEX_SOURCE (ucast OO_REFLEX_THERMAL) bus);
              bus = snd (united_bus_broadcast_yellow ORGAN_REFLEX_SOURCE 0xA0FE0001 bus)
          in reflex_on_thermal_burn (s, bus)
     else (s, bus))"

record reflex_status =
  rs_armed_count :: u32
  rs_triggered_count :: u32
  rs_last_vector :: u8

definition reflex_get_status :: "spinal_cord \<Rightarrow> reflex_status" where
  "reflex_get_status s = \<lparr> rs_armed_count = armed_count s, rs_triggered_count = triggered_count s,
     rs_last_vector = last_vector s \<rparr>"

section \<open>The receptors\<close>

datatype oo_stimulus_type = STIMULUS_TOUCH | STIMULUS_VISION | STIMULUS_THERMAL | STIMULUS_AUDITORY
  | STIMULUS_SERIAL | STIMULUS_TIMER | STIMULUS_NET

record oo_stimulus =
  stype :: oo_stimulus_type
  intensity :: u32
  timestamp :: u64
  raw_data :: "u8 list"

text \<open>
  \<open>sense_transduce_keystroke\<close>, \<open>sense_transduce_serial\<close> and \<open>sense_get_last_stimulus\<close> each have a
  static stimulus of their own.
\<close>

record receptors =
  touch_stimulus :: oo_stimulus
  serial_stimulus :: oo_stimulus
  returned_stimulus :: oo_stimulus
  vga :: "nat \<Rightarrow> u16"

definition zero_stimulus :: oo_stimulus where
  "zero_stimulus = \<lparr> stype = STIMULUS_TOUCH, intensity = 0, timestamp = 0, raw_data = replicate 16 0 \<rparr>"

definition receptors_boot :: "(nat \<Rightarrow> u16) \<Rightarrow> receptors" where
  "receptors_boot screen = \<lparr> touch_stimulus = zero_stimulus, serial_stimulus = zero_stimulus,
     returned_stimulus = zero_stimulus, vga = screen \<rparr>"

definition sensory_globule :: "u64 \<Rightarrow> u32 \<Rightarrow> globule" where
  "sensory_globule addr len = \<lparr> globule_id = 0, gtype = GLOBULE_RED, source_organ = ORGAN_SENSORY,
     target_organ = ORGAN_CORTEX, payload_addr = addr, payload_size = len \<rparr>"

text \<open>\<open>addr\<close> is the address of the static stimulus, 32 is \<open>sizeof(oo_stimulus_t)\<close>.\<close>

definition sense_transduce_keystroke ::
  "u64 \<Rightarrow> u8 \<Rightarrow> receptors \<times> united_bus \<Rightarrow> receptors \<times> united_bus" where
  "sense_transduce_keystroke addr scancode = (\<lambda>(r, bus).
     (r\<lparr> touch_stimulus := \<lparr> stype = STIMULUS_TOUCH, intensity = 100, timestamp = 0,
            raw_data = (raw_data (touch_stimulus r))[0 := scancode] \<rparr> \<rparr>,
      bus_put (sensory_globule addr 32) bus))"

definition vga_cell :: "u8 \<Rightarrow> u16" where
  "vga_cell c = push_bit 8 0x0F OR ucast c"

definition sense_update_retina ::
  "u8 list option \<Rightarrow> u32 \<Rightarrow> receptors \<times> united_bus \<Rightarrow> receptors \<times> united_bus" where
  "sense_update_retina visual_buffer len = (\<lambda>(r, bus).
     case visual_buffer of
       None \<Rightarrow> (r, bus)
     | Some text \<Rightarrow>
         if len = 0 then (r, bus)
         else let max_chars = 80 * 25;
                  n = (if len < max_chars then len else max_chars)
              in (r\<lparr> vga := fold (\<lambda>i v. v(i := vga_cell (text ! i))) [0..<unat n] (vga r) \<rparr>,
                  bus_put (sensory_globule 0 len) bus))"

definition temperature_alarm :: globule where
  "temperature_alarm = \<lparr> globule_id = 0, gtype = GLOBULE_WHITE, source_organ = ORGAN_SENSORY,
     target_organ = 0xFF, payload_addr = 0, payload_size = 0 \<rparr>"

definition sense_feel_temperature :: "united_bus \<Rightarrow> united_bus" where
  "sense_feel_temperature bus =
     (let current_temp = 45 :: u32
      in if current_temp > 95 then bus_put temperature_alarm bus else bus)"

definition sense_transduce_serial ::
  "u8 list \<Rightarrow> u32 \<Rightarrow> receptors \<times> united_bus \<Rightarrow> receptors \<times> united_bus" where
  "sense_transduce_serial data len = (\<lambda>(r, bus).
     let copy = (if len < 16 then len else 16)
     in (r\<lparr> serial_stimulus := \<lparr> stype = STIMULUS_SERIAL, intensity = 100, timestamp = 0,
               raw_data = fold (\<lambda>i d. d[i := data ! i]) [0..<unat copy]
                            (raw_data (serial_stimulus r)) \<rparr> \<rparr>,
         bus_put (sensory_globule 0 len) bus))"

definition sense_transduce_timer :: "u64 \<Rightarrow> united_bus \<Rightarrow> united_bus" where
  "sense_transduce_timer tick bus =
     snd (united_bus_broadcast_yellow ORGAN_SENSORY (ucast (tick AND 0xFFFFFFFF)) bus)"

definition sense_get_last_stimulus :: "receptors \<Rightarrow> oo_stimulus" where
  "sense_get_last_stimulus r = returned_stimulus r"

section \<open>Alarms are never lost\<close>

lemma priority_put:
  assumes "is_priority (gtype g)"
  shows "fst (united_bus_pump g b) = 0" "drops (bus_put g b) = drops b"
    "total_pumps (bus_put g b) = total_pumps b + 1"
  using assms
  by (auto simp: united_bus_pump_def Let_def is_priority_def blocked_by_barrier_def)

text \<open>
  the thermal alarm. Up to 85 degrees the check does nothing; above, it publishes a white
  alert, a yellow mode signal and a yellow pain signal in this order, and even on a full bus
  none of them is dropped.
\<close>

theorem thermal_alarm:
  "reflex_thermal_check t (s, bus) =
     (if t \<le> 85 then (s, bus)
      else (s, bus_put pain_signal_globule
                (bus_put (broadcast_globule GLOBULE_YELLOW ORGAN_REFLEX_SOURCE 0xA0FE0001)
                  (bus_put (broadcast_globule GLOBULE_WHITE ORGAN_REFLEX_SOURCE 4) bus))))
   \<and> drops (snd (reflex_thermal_check t (s, bus))) = drops bus
   \<and> total_pumps (snd (reflex_thermal_check t (s, bus))) = total_pumps bus + (if t \<le> 85 then 0 else 3)"
  by (auto simp: reflex_thermal_check_def united_bus_broadcast_white_def united_bus_broadcast_yellow_def
      reflex_on_thermal_burn_def OO_REFLEX_THERMAL_def priority_put is_priority_def
      broadcast_globule_def pain_signal_globule_def)

text \<open>
  The dispatch of a freshly armed spinal cord: pain alerts the immune system and halts the
  processor, the watchdog and heat publish the pain signal, no other interrupt has any effect.
\<close>

theorem reflex_dispatch:
  "reflex_trigger other v (reflex_init s, bus) =
     (let s' = (reflex_init s)\<lparr> last_vector := v, triggered_count := triggered_count s + 1 \<rparr>
      in if v = 2 then (s'\<lparr> halts := halts s + 1 \<rparr>,
            bus_put (broadcast_globule GLOBULE_WHITE ORGAN_REFLEX_SOURCE 1) bus)
         else if v = 3 \<or> v = 4 then (s', bus_put pain_signal_globule bus)
         else (reflex_init s, bus))"
  by (auto simp: reflex_trigger_def reflex_init_def reflex_bind_action_def Let_def oo_defs
      reflex_on_pain_def reflex_on_thermal_burn_def united_bus_broadcast_white_def)

section \<open>Keys\<close>

lemma sensory_accepted: "\<not> congested b \<Longrightarrow> bus_accepts (sensory_globule addr len) b"
  by (simp add: bus_accepts_def sensory_globule_def blocked_by_barrier_def)

text \<open>
  from the key to the cortex. On a bus in its base regime with room, a keystroke passes the
  blood-brain barrier: it becomes the last globule of the cortex's queue, the only one that
  queue gains, and points to the stimulus that holds its scancode.
\<close>

theorem keystroke_reaches_cortex:
  assumes "steady bus" "\<not> congested bus" "length (raw_data (touch_stimulus r)) = 16"
    and "sense_transduce_keystroke addr scancode (r, bus) = (r', bus')"
  shows "steady bus'
    \<and> pending ORGAN_CORTEX bus' = pending ORGAN_CORTEX bus @ [stamp bus (sensory_globule addr 32)]
    \<and> raw_data (touch_stimulus r') ! 0 = scancode \<and> stype (touch_stimulus r') = STIMULUS_TOUCH"
proof -
  note a = sensory_accepted [OF assms(2), of addr 32]
  have "unat ORGAN_CORTEX < 16" by (simp add: ORGAN_CORTEX_def)
  with pump_accepted_steady [OF assms(1) a] assms(3,4) show ?thesis
    by (auto simp: sense_transduce_keystroke_def)
qed

lemma keystroke_reaches_cortex_witness:
  "pending ORGAN_CORTEX (snd (sense_transduce_keystroke 4096 0x1E (receptors_boot (\<lambda>_. 0), bus_boot empty_ring)))
     = [stamp (bus_boot empty_ring) (sensory_globule 4096 32)]"
proof -
  obtain r' bus' where k: "sense_transduce_keystroke 4096 0x1E
      (receptors_boot (\<lambda>_. 0), bus_boot empty_ring) = (r', bus')" by (metis prod.collapse)
  have "\<not> congested (bus_boot empty_ring)"
    by (simp add: congested_def next_systole_def bus_boot_def BASE_CAPACITY_def)
  from keystroke_reaches_cortex [OF steady_boot this _ k] k show ?thesis
    by (simp add: receptors_boot_def zero_stimulus_def pending_def pending_from_def bus_boot_def oo_defs)
qed

text \<open>
  keys overwrite each other. If the cortex does not run between two keystrokes, it receives
  two globules that point to the same stimulus, and that stimulus holds the second scancode
  only.
\<close>

theorem second_key_overwrites:
  assumes "steady bus" "\<not> congested bus" "\<not> congested (bus_put (sensory_globule addr 32) bus)"
    and "length (raw_data (touch_stimulus r)) = 16"
    and "sense_transduce_keystroke addr k2 (sense_transduce_keystroke addr k1 (r, bus)) = (r', bus')"
  shows "\<exists>g1 g2. pending ORGAN_CORTEX bus' = pending ORGAN_CORTEX bus @ [g1, g2]
    \<and> payload_addr g1 = addr \<and> payload_addr g2 = addr \<and> raw_data (touch_stimulus r') ! 0 = k2"
proof -
  obtain r1 bus1 where 1: "sense_transduce_keystroke addr k1 (r, bus) = (r1, bus1)"
    by (metis prod.collapse)
  note a = sensory_accepted [OF assms(2), of addr 32]
  note a' = sensory_accepted [OF assms(3), of addr 32]
  have "unat ORGAN_CORTEX < 16" by (simp add: ORGAN_CORTEX_def)
  with pump_accepted_steady [OF assms(1) a] pump_accepted_steady(2) [OF _ a'] 1 assms(4,5)
  show ?thesis by (auto simp: sense_transduce_keystroke_def stamp_def sensory_globule_def)
qed

lemma second_key_overwrites_witness:
  "raw_data (touch_stimulus (fst (sense_transduce_keystroke 4096 0x1F
      (sense_transduce_keystroke 4096 0x1E (receptors_boot (\<lambda>_. 0), bus_boot empty_ring))))) ! 0 = 0x1F"
proof -
  obtain r' bus' where k: "sense_transduce_keystroke 4096 0x1F (sense_transduce_keystroke 4096 0x1E
      (receptors_boot (\<lambda>_. 0), bus_boot empty_ring)) = (r', bus')" by (metis prod.collapse)
  have c: "\<not> congested (bus_boot empty_ring)"
    by (simp add: congested_def next_systole_def bus_boot_def BASE_CAPACITY_def)
  have "\<not> congested (bus_put (sensory_globule 4096 32) (bus_boot empty_ring))"
    using pump_accepted_eq [OF sensory_accepted [OF c, of 4096 32]]
    by (simp add: congested_def next_systole_def bus_boot_def BASE_CAPACITY_def dilate_def sensory_globule_def)
  from second_key_overwrites [OF steady_boot c this _ k] k show ?thesis
    by (auto simp: receptors_boot_def zero_stimulus_def)
qed

section \<open>The screen\<close>

lemma vga_fold: "fold (\<lambda>i v. v(i := f i)) [0..<n] v j = (if j < n then f j else v j)"
  by (induction n) auto

text \<open>
  The retina writes the first 2000 characters at most, each with its attribute byte, and leaves
  every other cell of the memory behind \<open>0xB8000\<close> alone.
\<close>

theorem retina_bounds:
  assumes "0 < len" "sense_update_retina (Some text) len (r, bus) = (r', bus')"
  shows "vga r' j = (if j < min (unat len) 2000 then vga_cell (text ! j) else vga r j)"
proof -
  have "unat (if len < 80 * 25 then len else 80 * 25) = min (unat len) 2000"
    by (auto simp: word_less_nat_alt)
  with assms show ?thesis
    by (auto simp: sense_update_retina_def vga_fold simp flip: word_neq_0_conv)
qed

text \<open>
  The last stimulus is never returned. Whatever keys and serial data the receptors have
  transduced, \<open>sense_get_last_stimulus\<close> returns the all-zero stimulus of boot.
\<close>

datatype sensation = Key u8 | Serial "u8 list" u32 | Screen "u8 list" u32

fun sense_event :: "u64 \<Rightarrow> sensation \<Rightarrow> receptors \<times> united_bus \<Rightarrow> receptors \<times> united_bus" where
  "sense_event addr (Key k) st = sense_transduce_keystroke addr k st"
| "sense_event addr (Serial data len) st = sense_transduce_serial data len st"
| "sense_event addr (Screen text len) st = sense_update_retina (Some text) len st"

lemma returned_event: "returned_stimulus (fst (sense_event addr e st)) = returned_stimulus (fst st)"
  by (cases e; cases st) (simp_all add: sense_transduce_keystroke_def sense_transduce_serial_def
      sense_update_retina_def Let_def)

theorem last_stimulus_blank:
  "sense_get_last_stimulus (fst (fold (sense_event addr) es (receptors_boot screen, bus))) = zero_stimulus"
proof -
  have "returned_stimulus (fst (fold (sense_event addr) es st)) = returned_stimulus (fst st)" for st
    by (induction es arbitrary: st) (simp_all add: returned_event)
  then show ?thesis by (simp add: sense_get_last_stimulus_def receptors_boot_def)
qed

end
