(* ===== verification/Guard_Organs.thy ===== *)
theory Guard_Organs
  imports Hedged_Memory Bot_DNA_Facts Reflex_Sense
begin

text \<open>
  Small organs that watch or change the machine directly: the posture check
  (\<open>proprioception-baremetal/src/proprioception_stub.c\<close>), the shadow
  (\<open>shadow-baremetal/src/anti_forensics.c\<close>), the dream daemon
  (\<open>dream-baremetal/src/dream_daemon.c\<close>), the hot patcher (\<open>regen-baremetal/src/hotpatch.c\<close>) and the
  vocal cords (\<open>vocal-baremetal/src/speaker_vocal.c\<close>). Memory is a function from addresses to bytes, the
  stack pointer is an argument, port output is a list of writes. Console messages are left out.
\<close>

section \<open>Proprioception\<close>

record proprioception =
  stack_canary_value :: u64
  stack_canary_addr :: u64
  heap_base :: u64
  heap_limit :: u64

definition proprioception_boot :: proprioception where
  "proprioception_boot = \<lparr> stack_canary_value = 0xDEADBEEFCAFEBABE, stack_canary_addr = 0,
     heap_base = 0x00200000, heap_limit = 0x04000000 \<rparr>"

definition proprioception_init ::
  "u64 \<Rightarrow> proprioception \<times> (u64 \<Rightarrow> u8) \<Rightarrow> proprioception \<times> (u64 \<Rightarrow> u8)" where
  "proprioception_init sp = (\<lambda>(p, mem).
     let p = p\<lparr> stack_canary_addr := sp - 8 \<rparr>
     in (p, if stack_canary_addr p \<noteq> 0
            then mem_write (stack_canary_addr p) (le64 (stack_canary_value p)) mem else mem))"

definition posture_alarm :: globule where
  "posture_alarm = \<lparr> globule_id = 0, gtype = GLOBULE_WHITE, source_organ = 0x09,
     target_organ = 0xFF, payload_addr = 0, payload_size = 0 \<rparr>"

definition proprioception_check_posture ::
  "u64 \<Rightarrow> proprioception \<Rightarrow> (u64 \<Rightarrow> u8) \<Rightarrow> united_bus \<Rightarrow> united_bus" where
  "proprioception_check_posture sp p mem bus =
     (let fault = (stack_canary_addr p \<noteq> 0
             \<and> get_le64 (mem_read (stack_canary_addr p) 8 mem) 0 \<noteq> stack_canary_value p);
          fault = (if sp < heap_base p \<or> sp > heap_limit p then True else fault)
      in if fault then bus_put posture_alarm bus else bus)"

section \<open>The shadow\<close>

text \<open>
  \<open>shadow_activate_camouflage\<close> and \<open>shadow_panic_purge\<close> only print; \<open>junk\<close> are the unset fields of
  the local globule. \<open>halt_forever\<close> is the loop of \<open>shadow_simulate_death\<close>.
\<close>

definition shadow_kill_signal :: "globule \<Rightarrow> globule" where
  "shadow_kill_signal junk = junk\<lparr> gtype := GLOBULE_WHITE, target_organ := 0xFF \<rparr>"

partial_function (option) halt_forever :: "nat \<Rightarrow> unit option" where
  "halt_forever n = halt_forever (n + 1)"

definition shadow_simulate_death :: "globule \<Rightarrow> united_bus \<Rightarrow> united_bus \<times> unit option" where
  "shadow_simulate_death junk bus = (bus_put (shadow_kill_signal junk) bus, halt_forever 0)"

definition shadow_necrosis :: "u64 \<Rightarrow> nat \<Rightarrow> (u64 \<Rightarrow> u8) \<Rightarrow> u64 \<Rightarrow> u8" where
  "shadow_necrosis fake_organ_ptr len =
     fold (\<lambda>i mem. mem(fake_organ_ptr + of_nat i := of_nat (i mod 255))) [0..<len]"

section \<open>The dream daemon\<close>

definition DREAM_ORGAN_ID :: u8 where "DREAM_ORGAN_ID = 7"

text \<open>\<open>learnings\<close> counts the calls of the external \<open>trigger_diop_sleep_learning\<close>.\<close>

record dreamer =
  is_sleeping :: bool
  learnings :: nat

definition dreamer_boot :: dreamer where
  "dreamer_boot = \<lparr> is_sleeping = False, learnings = 0 \<rparr>"

definition dream_globule :: "(u64 \<Rightarrow> u8) \<Rightarrow> globule \<Rightarrow> dreamer \<Rightarrow> dreamer" where
  "dream_globule mem g d =
     (if gtype g = GLOBULE_YELLOW
      then let state = mem (payload_addr g)
           in if state = 0
              then (if \<not> is_sleeping d then \<lparr> is_sleeping = True, learnings = learnings d + 1 \<rparr> else d)
              else (if is_sleeping d then d\<lparr> is_sleeping := False \<rparr> else d)
      else d)"

text \<open>One round of the endless loop of \<open>dream_baremetal_loop\<close>.\<close>

definition dream_round ::
  "(u64 \<Rightarrow> u8) \<Rightarrow> dreamer \<times> united_bus \<Rightarrow> (dreamer \<times> united_bus) option" where
  "dream_round mem = (\<lambda>(d, bus).
     case united_bus_absorb DREAM_ORGAN_ID 10 bus of
       None \<Rightarrow> None
     | Some (inbox, bus') \<Rightarrow> Some (fold (dream_globule mem) inbox d, bus'))"

section \<open>Hot patches\<close>

definition regen_hotpatch :: "u64 \<Rightarrow> u64 \<Rightarrow> (u64 \<Rightarrow> u8) \<Rightarrow> u64 \<Rightarrow> u8" where
  "regen_hotpatch target_addr replacement_addr mem =
     (let offset = ucast (replacement_addr - target_addr - 5) :: u32;
          mem = mem(target_addr := 0xE9)
      in mem_write (target_addr + 1) (le32 offset) mem)"

text \<open>What the processor does at an address that holds \<open>E9 rel32\<close>.\<close>

definition decode_jump :: "u64 \<Rightarrow> (u64 \<Rightarrow> u8) \<Rightarrow> u64 option" where
  "decode_jump a mem =
     (if mem a = 0xE9 then Some (a + 5 + scast (get_le32 (mem_read (a + 1) 4 mem) 0)) else None)"

section \<open>The vocal cords\<close>

text \<open>The port writes of \<open>vocal_emit_tone\<close>; \<open>in61\<close> is the byte read from port \<open>0x61\<close>.\<close>

definition vocal_emit_tone :: "u8 \<Rightarrow> u32 \<Rightarrow> (u16 \<times> u8) list" where
  "vocal_emit_tone in61 frequency =
     (if frequency = 0 then []
      else let divisor = 1193180 div frequency
           in [(0x43, 0xB6), (0x42, ucast (divisor AND 0xFF)), (0x42, ucast (drop_bit 8 divisor AND 0xFF))]
              @ (if in61 \<noteq> in61 OR 3 then [(0x61, in61 OR 3)] else []))"

end
