(* ===== verification/Guard_Facts.thy ===== *)
theory Guard_Facts
  imports Guard_Organs
begin

text \<open>
  What the guarding organs do to memory and to the bus: the canary detects every change of its
  bytes, the decoy and the hot patch change exactly the bytes they should, the daemon's state
  follows the last yellow globule, and a simulated death never returns.
\<close>

section \<open>Words in memory\<close>

lemma le32_get:
  assumes "length bs = 4"
  shows "le32 (get_le32 bs 0) = bs"
proof -
  from assms obtain a b c d where bs: "bs = [a, b, c, d]"
    by (auto simp: numeral_eq_Suc length_Suc_conv)
  have "ucast (get_le32 [a, b, c, d] 0) = a" "ucast (drop_bit 8 (get_le32 [a, b, c, d] 0)) = b"
    "ucast (drop_bit 16 (get_le32 [a, b, c, d] 0)) = c" "ucast (drop_bit 24 (get_le32 [a, b, c, d] 0)) = d"
    by (auto intro!: bit_word_eqI simp: get_le32_def bit_simps)
  then show ?thesis by (simp add: bs le32_def)
qed

lemma le64_get:
  assumes "length bs = 8"
  shows "le64 (get_le64 bs 0) = bs"
proof -
  have l: "get_le32 bs 0 = get_le32 (take 4 bs) 0" "get_le32 bs 4 = get_le32 (drop 4 bs) 0"
    using assms by (simp_all add: get_le32_def)
  let ?v = "get_le64 bs 0"
  have "ucast ?v = get_le32 bs 0" "ucast (drop_bit 32 ?v) = get_le32 bs 4"
    by (auto intro!: bit_word_eqI simp: get_le64_def bit_simps)
  then have "le64 ?v = le32 (get_le32 (take 4 bs) 0) @ le32 (get_le32 (drop 4 bs) 0)"
    by (simp add: le64_def l)
  with assms show ?thesis by (simp add: le32_get)
qed

lemma get_le64_eq: "length bs = 8 \<Longrightarrow> get_le64 bs 0 = v \<longleftrightarrow> bs = le64 v"
  by (metis get_le64_le64 le64_get)

lemma mem_read_write: "length data < 18446744073709551616 \<Longrightarrow>
    mem_read a (length data) (mem_write a data mem) = data"
  by (rule nth_equalityI) (simp_all add: mem_read_def mem_write_def unat_of_nat_u64)

lemma length_mem_read [simp]: "length (mem_read a n mem) = n"
  by (simp add: mem_read_def)

section \<open>Posture\<close>

text \<open>
  the canary. Initialisation stores its eight bytes below the stack pointer; a later check
  is silent exactly if all eight are still there and the stack pointer lies between 2 and 64
  megabytes, and otherwise sends one white broadcast, which the bus never refuses.
\<close>

theorem posture_check:
  assumes "sp0 \<noteq> 8" "proprioception_init sp0 (proprioception_boot, mem0) = (p, mem1)"
  shows "mem_read (sp0 - 8) 8 mem1 = le64 0xDEADBEEFCAFEBABE
    \<and> proprioception_check_posture sp p mem bus =
       (if mem_read (sp0 - 8) 8 mem = mem_read (sp0 - 8) 8 mem1 \<and> 0x200000 \<le> sp \<and> sp \<le> 0x4000000
        then bus else bus_put posture_alarm bus)
    \<and> fst (united_bus_pump posture_alarm bus) = 0"
proof -
  have p: "p = proprioception_boot\<lparr>stack_canary_addr := sp0 - 8\<rparr>"
    "mem1 = mem_write (sp0 - 8) (le64 0xDEADBEEFCAFEBABE) mem0"
    using assms by (auto simp: proprioception_init_def proprioception_boot_def Let_def)
  have r: "mem_read (sp0 - 8) 8 mem1 = le64 0xDEADBEEFCAFEBABE"
    using mem_read_write [of "le64 0xDEADBEEFCAFEBABE" "sp0 - 8" mem0] p(2) by simp
  have "proprioception_check_posture sp p mem bus =
       (if mem_read (sp0 - 8) 8 mem = le64 0xDEADBEEFCAFEBABE \<and> 0x200000 \<le> sp \<and> sp \<le> 0x4000000
        then bus else bus_put posture_alarm bus)"
    using assms(1) by (auto simp: proprioception_check_posture_def p(1) proprioception_boot_def
        get_le64_eq not_less)
  with r show ?thesis
    by (simp add: priority_put posture_alarm_def is_priority_def)
qed

lemma posture_check_witness:
  "mem_read 0x2FFFF8 8 (snd (proprioception_init 0x300000 (proprioception_boot, \<lambda>_. 0)))
     = le64 0xDEADBEEFCAFEBABE"
proof -
  obtain p mem1 where i: "proprioception_init 0x300000 (proprioception_boot, \<lambda>_. 0) = (p, mem1)"
    by (metis prod.collapse)
  from posture_check [OF _ i] i show ?thesis by simp
qed

section \<open>The decoy and the last signal\<close>

lemma necrosis_bytes:
  "len \<le> 18446744073709551616 \<Longrightarrow> shadow_necrosis p len mem a
     = (if unat (a - p) < len then of_nat (unat (a - p) mod 255) else mem a)"
proof (induction len)
  case (Suc n)
  have "a = p + of_nat n \<longleftrightarrow> unat (a - p) = n"
  proof
    assume "unat (a - p) = n"
    then have "of_nat (unat (a - p)) = (of_nat n :: u64)" by simp
    then show "a = p + of_nat n" by (simp add: algebra_simps)
  next
    assume "a = p + of_nat n"
    with Suc.prems show "unat (a - p) = n" by (simp add: unat_of_nat_u64)
  qed
  with Suc show ?case by (auto simp: shadow_necrosis_def)
qed (simp add: shadow_necrosis_def)

text \<open>
  A simulated death never returns: the loop has no result, on whatever machine; the kill signal
  has then already been accepted.
\<close>

theorem death_is_final:
  "snd (shadow_simulate_death junk bus) = None
   \<and> drops (fst (shadow_simulate_death junk bus)) = drops bus"
proof -
  have "halt_forever n \<noteq> Some u" for n u
  proof
    assume "halt_forever n = Some u"
    then show False
      by (rule halt_forever.raw_induct [where P = "\<lambda>_ _. False", rotated]) blast
  qed
  then have "halt_forever 0 = None" by (metis option.exhaust)
  then show ?thesis
    by (simp add: shadow_simulate_death_def priority_put shadow_kill_signal_def is_priority_def)
qed

section \<open>Dreams\<close>

text \<open>The sleep states that a list of globules commands, in order.\<close>

definition commanded :: "(u64 \<Rightarrow> u8) \<Rightarrow> globule list \<Rightarrow> bool list" where
  "commanded mem gs = map (\<lambda>g. mem (payload_addr g) = 0) (filter (\<lambda>g. gtype g = GLOBULE_YELLOW) gs)"

fun falls_asleep :: "bool \<Rightarrow> bool list \<Rightarrow> nat" where
  "falls_asleep now [] = 0"
| "falls_asleep now (next # ss) = (if \<not> now \<and> next then 1 else 0) + falls_asleep next ss"

lemma dream_fold:
  "is_sleeping (fold (dream_globule mem) gs d) = last (is_sleeping d # commanded mem gs)
   \<and> learnings (fold (dream_globule mem) gs d) = learnings d + falls_asleep (is_sleeping d) (commanded mem gs)"
proof (induction gs arbitrary: d)
  case (Cons g gs)
  from Cons.IH [of "dream_globule mem g d"] show ?case
    by (auto simp: commanded_def dream_globule_def Let_def)
qed (simp add: commanded_def)

text \<open>
  the dream daemon. A round terminates on a bus in its base regime; afterwards the daemon
  sleeps exactly if the last yellow globule it pulled commanded it, or it slept before and
  pulled none, and sleep learning has been triggered once for each time it fell asleep.
\<close>

theorem dream_follows_commands:
  assumes "steady bus"
  shows "\<exists>bus' gs. dream_round mem (d, bus) = Some (fold (dream_globule mem) gs d, bus') \<and> steady bus'
    \<and> length gs \<le> 10
    \<and> is_sleeping (fold (dream_globule mem) gs d) = last (is_sleeping d # commanded mem gs)
    \<and> learnings (fold (dream_globule mem) gs d)
        = learnings d + falls_asleep (is_sleeping d) (commanded mem gs)"
proof -
  let ?r = "absorb_list DREAM_ORGAN_ID 10 (pending DREAM_ORGAN_ID bus) []"
  have "unat DREAM_ORGAN_ID < 16" by (simp add: DREAM_ORGAN_ID_def)
  from absorb_steady [OF assms this, of 10] obtain bus' where
    "united_bus_absorb DREAM_ORGAN_ID 10 bus = Some (fst ?r, bus')" "steady bus'" by auto
  moreover obtain gs rest where "?r = (gs, rest)" by (metis prod.collapse)
  moreover from this absorb_list_length have "length gs \<le> 10" by fastforce
  ultimately show ?thesis
    using dream_fold by (intro exI [of _ bus'] exI [of _ gs]) (simp add: dream_round_def)
qed

lemma dream_follows_commands_witness:
  "dream_round (\<lambda>_. 0) (dreamer_boot, bus_boot empty_ring) \<noteq> None"
  using dream_follows_commands [OF steady_boot [of empty_ring], of "\<lambda>_. 0" dreamer_boot] by auto

text \<open>
  the clock puts the organism to sleep. A tick of the sensory timer is a yellow broadcast
  without a payload address, so the daemon reads its command at address 0: on an otherwise empty
  queue it falls asleep or wakes up according to the byte that lies there, whatever the tick.
\<close>

theorem tick_commands_dream:
  assumes "steady bus" "\<not> congested bus" "pending DREAM_ORGAN_ID bus = []"
  shows "\<exists>d' bus'. dream_round mem (d, sense_transduce_timer tick bus) = Some (d', bus')
    \<and> is_sleeping d' = (mem 0 = 0)"
proof -
  let ?g = "broadcast_globule GLOBULE_YELLOW ORGAN_SENSORY (ucast (tick AND 0xFFFFFFFF))"
  have t: "sense_transduce_timer tick bus = bus_put ?g bus"
    by (simp add: sense_transduce_timer_def united_bus_broadcast_yellow_def)
  have "bus_accepts ?g bus"
    using assms(2) by (simp add: bus_accepts_def broadcast_globule_def blocked_by_barrier_def)
  note a = pump_accepted_steady [OF assms(1) this]
  have u: "unat DREAM_ORGAN_ID < 16" by (simp add: DREAM_ORGAN_ID_def)
  have "pending DREAM_ORGAN_ID (bus_put ?g bus) = [stamp bus ?g]"
    using a(2) [OF u] assms(3) by simp
  with absorb_steady [OF a(1) u, of 10] obtain bus' where
    "united_bus_absorb DREAM_ORGAN_ID 10 (bus_put ?g bus) = Some ([stamp bus ?g], bus')"
    by (auto simp: addressed_to_def stamp_def broadcast_globule_def oo_defs)
  then show ?thesis
    by (simp add: dream_round_def t dream_globule_def stamp_def broadcast_globule_def Let_def)
qed

lemma tick_commands_dream_witness:
  "\<exists>d' bus'. dream_round (\<lambda>_. 0) (dreamer_boot, sense_transduce_timer 77 (bus_boot empty_ring)) = Some (d', bus')
     \<and> is_sleeping d'"
proof -
  have "pending DREAM_ORGAN_ID (bus_boot empty_ring) = []" "\<not> congested (bus_boot empty_ring)"
    by (simp_all add: pending_def pending_from_def bus_boot_def congested_def next_systole_def oo_defs)
  from tick_commands_dream [OF steady_boot this(2,1), of "\<lambda>_. 0" dreamer_boot 77] show ?thesis by auto
qed

section \<open>Hot patches\<close>

lemma rel32_in_range:
  assumes "- 2147483648 \<le> sint d" "sint d < 2147483648"
  shows "scast (ucast d :: u32) = (d :: u64)"
proof (rule bit_word_eqI)
  fix n assume n: "n < LENGTH(64)"
  have "signed_take_bit 31 (sint d) = sint d"
    using assms by (simp add: signed_take_bit_int_eq_self_iff)
  then have "bit (sint d) n = bit (signed_take_bit 31 (sint d)) n" by simp
  then have "31 \<le> n \<Longrightarrow> bit d n = bit d 31" using n
    by (simp add: bit_signed_take_bit_iff bit_sint_iff min_def)
  with n show "bit (scast (ucast d :: u32) :: u64) n = bit d n"
    by (cases "31 \<le> n") (auto simp: bit_simps min_def)
qed

text \<open>
  the hot patch. If the replacement lies within the reach of a 32-bit displacement, the five
  bytes written at the target are a jump that lands exactly on it, and no other byte of memory
  changes.
\<close>

theorem hotpatch_lands:
  assumes "- 2147483648 \<le> sint (replacement - target - 5)" "sint (replacement - target - 5) < 2147483648"
  shows "decode_jump target (regen_hotpatch target replacement mem) = Some replacement
    \<and> (5 \<le> unat (a - target) \<longrightarrow> regen_hotpatch target replacement mem a = mem a)"
proof -
  let ?o = "ucast (replacement - target - 5) :: u32" and ?m = "mem(target := 0xE9)"
  have "(-1 :: u64) = 0xFFFFFFFFFFFFFFFF" by simp
  then have "unat (-1 :: u64) = 18446744073709551615" by (simp only:) simp
  then have ne: "\<not> unat (target - (target + 1)) < 4" by simp
  have "mem_read (target + 1) 4 (mem_write (target + 1) (le32 ?o) ?m) = le32 ?o"
    using mem_read_write [of "le32 ?o" "target + 1" ?m] by simp
  then have "decode_jump target (regen_hotpatch target replacement mem)
      = Some (target + 5 + scast ?o)"
    using ne by (simp add: decode_jump_def regen_hotpatch_def mem_write_def)
  moreover have "target + 5 + scast ?o = replacement"
    using rel32_in_range [OF assms] by simp
  moreover have "regen_hotpatch target replacement mem a = mem a" if "5 \<le> unat (a - target)"
  proof -
    have "a \<noteq> target" using that by auto
    moreover have "unat (a - target - 1) = unat (a - target) - 1"
      using that by (intro unat_minus_one) auto
    ultimately have "a \<noteq> target" "\<not> unat (a - (target + 1)) < 4"
      using that by (simp_all add: diff_diff_eq)
    then show ?thesis by (simp add: regen_hotpatch_def mem_write_def)
  qed
  ultimately show ?thesis by simp
qed

lemma hotpatch_lands_witness:
  "decode_jump 0x400000 (regen_hotpatch 0x400000 0x3FF000 (\<lambda>_. 0)) = Some 0x3FF000"
  using hotpatch_lands [of "0x3FF000" "0x400000" "\<lambda>_. 0" 0] by simp

section \<open>Tones\<close>

text \<open>
  The two bytes written to the timer are the low half-word of the divisor: they are the divisor
  itself exactly for audible tones, from 19 Hz on.
\<close>

theorem tone_divisor:
  assumes "0 < f"
  shows "\<exists>lo hi rest. vocal_emit_tone in61 f = [(0x43, 0xB6), (0x42, lo), (0x42, hi)] @ rest
    \<and> unat lo + 256 * unat hi = unat (1193180 div f) mod 65536
    \<and> (unat lo + 256 * unat hi = 1193180 div unat f \<longleftrightarrow> 19 \<le> unat f)"
proof -
  let ?d = "1193180 div f :: u32"
  have u: "unat ?d = 1193180 div unat f" by (simp add: unat_div)
  have lo: "unat (ucast (?d AND 0xFF) :: u8) = unat ?d mod 256"
    by (simp add: low_byte take_bit_eq_mod unsigned_ucast_eq)
  have hi: "unat (ucast (drop_bit 8 ?d AND 0xFF) :: u8) = unat ?d div 256 mod 256"
    by (simp add: low_byte unsigned_ucast_eq take_bit_eq_mod unsigned_drop_bit_eq drop_bit_eq_div unat_div)
  have s: "n mod 256 + 256 * (n div 256 mod 256) = n mod 65536" for n :: nat
    using mod_mult2_eq [of n 256 256] by simp
  have "1193180 div unat f < 65536 \<longleftrightarrow> 19 \<le> unat f"
  proof
    assume "19 \<le> unat f"
    then have "1193180 div unat f \<le> 1193180 div 19" by (intro div_le_mono2) simp_all
    then show "1193180 div unat f < 65536" by simp
  next
    assume l: "1193180 div unat f < 65536"
    show "19 \<le> unat f"
    proof (rule ccontr)
      assume "\<not> 19 \<le> unat f"
      with assms have "1193180 div 18 \<le> 1193180 div unat f"
        by (intro div_le_mono2) (auto simp: word_less_nat_alt)
      with l show False by simp
    qed
  qed
  then show ?thesis
    using assms lo hi s by (auto simp: vocal_emit_tone_def u Let_def)
qed

end
