(* ===== verification/Hud_Canvas.thy ===== *)
theory Hud_Canvas
  imports OO_Prelude
begin

text \<open>
  The drawing primitives of the desktop (\<open>desktop_display/oo_hud_final.c\<close>): the frame buffer and its
  geometry, colours, the sine table, the bitmap font, pixels, lines, rectangles, circles and
  text. \<open>UINT32\<close> values are 32-bit words with their wrap-around, and the frame buffer is indexed
  by them; \<open>INT32\<close> coordinates are integers (their overflow is undefined in C; no coordinate of a
  real screen comes near it) and are converted where the code casts.
\<close>

section \<open>Conversions and loops\<close>

abbreviation to_u32 :: "int \<Rightarrow> u32" where
  "to_u32 x \<equiv> word_of_int x"

abbreviation to_i32 :: "u32 \<Rightarrow> int" where
  "to_i32 w \<equiv> sint w"

text \<open>Division and remainder of signed integers, towards zero.\<close>

definition cdiv :: "int \<Rightarrow> int \<Rightarrow> int" where
  "cdiv a b = (if (a < 0) = (b < 0) then \<bar>a\<bar> div \<bar>b\<bar> else - (\<bar>a\<bar> div \<bar>b\<bar>))"

definition cmod :: "int \<Rightarrow> int \<Rightarrow> int" where
  "cmod a b = a - b * cdiv a b"

text \<open>A counting loop \<open>for (i = a; i < b; i++)\<close> and a sequence of statements.\<close>

definition for_loop :: "int \<Rightarrow> int \<Rightarrow> (int \<Rightarrow> 's \<Rightarrow> 's) \<Rightarrow> 's \<Rightarrow> 's" where
  "for_loop a b body = fold body [a..b - 1]"

definition seq :: "('s \<Rightarrow> 's) list \<Rightarrow> 's \<Rightarrow> 's" where
  "seq statements = fold (\<lambda>f. f) statements"

section \<open>The frame buffer\<close>

record canvas =
  g_fb :: "u32 \<Rightarrow> u32"
  g_sw :: u32
  g_sh :: u32
  g_stride :: u32

definition wide :: "canvas \<Rightarrow> u32 \<Rightarrow> int" where
  "wide c pm = to_i32 (g_sw c * pm div 1000)"

definition high :: "canvas \<Rightarrow> u32 \<Rightarrow> int" where
  "high c pm = to_i32 (g_sh c * pm div 1000)"

definition SOMA_RGB :: "u32 \<Rightarrow> u32 \<Rightarrow> u32 \<Rightarrow> u32" where
  "SOMA_RGB r g b = push_bit 16 r OR push_bit 8 g OR b"

definition SOMA_DEEPSPACE :: u32 where "SOMA_DEEPSPACE = SOMA_RGB 2 5 12"
definition SOMA_CYAN :: u32 where "SOMA_CYAN = SOMA_RGB 0 255 255"
definition SOMA_CYAN_DIM :: u32 where "SOMA_CYAN_DIM = SOMA_RGB 0 80 100"
definition SOMA_AMBER :: u32 where "SOMA_AMBER = SOMA_RGB 255 160 0"
definition SOMA_RED :: u32 where "SOMA_RED = SOMA_RGB 220 20 20"
definition SOMA_WHITE :: u32 where "SOMA_WHITE = SOMA_RGB 240 240 255"
definition SOMA_GREEN :: u32 where "SOMA_GREEN = SOMA_RGB 0 255 80"
definition SOMA_BLUE :: u32 where "SOMA_BLUE = SOMA_RGB 0 80 255"
definition SOMA_MAGENTA :: u32 where "SOMA_MAGENTA = SOMA_RGB 200 0 200"
definition SOMA_GRID :: u32 where "SOMA_GRID = SOMA_RGB 5 20 35"
definition SOMA_PANEL_BG :: u32 where "SOMA_PANEL_BG = SOMA_RGB 3 8 18"
definition SOMA_YELLOW :: u32 where "SOMA_YELLOW = SOMA_RGB 220 220 0"

definition channel :: "nat \<Rightarrow> u32 \<Rightarrow> u32" where
  "channel n col = drop_bit n col AND 0xFF"

definition k_sin64 :: "int list" where
  "k_sin64 = [
     0, 12, 25, 37, 49, 60, 71, 81, 90, 99, 106, 113, 118, 123, 126, 127,
     127, 127, 126, 123, 118, 113, 106, 99, 90, 81, 71, 60, 49, 37, 25, 12,
     0, - 12, - 25, - 37, - 49, - 60, - 71, - 81, - 90, - 99, - 106, - 113, - 118, - 123, - 126, - 127,
     - 127, - 127, - 126, - 123, - 118, - 113, - 106, - 99, - 90, - 81, - 71, - 60, - 49, - 37, - 25, - 12]"

definition isin :: "u32 \<Rightarrow> int" where
  "isin i = k_sin64 ! unat (i AND 63)"

definition icos :: "u32 \<Rightarrow> int" where
  "icos i = k_sin64 ! unat ((i + 16) AND 63)"

section \<open>Pixels and rectangles\<close>

definition pixel_at :: "canvas \<Rightarrow> int \<Rightarrow> int \<Rightarrow> u32" where
  "pixel_at c x y = to_u32 y * g_stride c + to_u32 x"

definition set_pixel :: "int \<Rightarrow> int \<Rightarrow> u32 \<Rightarrow> canvas \<Rightarrow> canvas" where
  "set_pixel x y col c = c\<lparr> g_fb := (g_fb c)(pixel_at c x y := col) \<rparr>"

definition px :: "int \<Rightarrow> int \<Rightarrow> u32 \<Rightarrow> canvas \<Rightarrow> canvas" where
  "px x y col c = (if to_u32 x < g_sw c \<and> to_u32 y < g_sh c then set_pixel x y col c else c)"

definition mix :: "u32 \<Rightarrow> u32 \<Rightarrow> u32 \<Rightarrow> u32" where
  "mix col bg alpha =
     (let inv = 255 - alpha
      in SOMA_RGB ((channel 16 col * alpha + channel 16 bg * inv) div 255)
           ((channel 8 col * alpha + channel 8 bg * inv) div 255)
           ((channel 0 col * alpha + channel 0 bg * inv) div 255))"

definition px_blend :: "int \<Rightarrow> int \<Rightarrow> u32 \<Rightarrow> u32 \<Rightarrow> canvas \<Rightarrow> canvas" where
  "px_blend x y col alpha c =
     (if to_u32 x \<ge> g_sw c \<or> to_u32 y \<ge> g_sh c then c
      else set_pixel x y (mix col (g_fb c (pixel_at c x y)) alpha) c)"

definition hline :: "int \<Rightarrow> int \<Rightarrow> int \<Rightarrow> u32 \<Rightarrow> canvas \<Rightarrow> canvas" where
  "hline x y w col c =
     (if to_u32 y \<ge> g_sh c then c
      else for_loop (max 0 x) (min (x + w) (to_i32 (g_sw c))) (\<lambda>i. set_pixel i y col) c)"

definition vline :: "int \<Rightarrow> int \<Rightarrow> int \<Rightarrow> u32 \<Rightarrow> canvas \<Rightarrow> canvas" where
  "vline x y h col c =
     (if to_u32 x \<ge> g_sw c then c
      else for_loop (max 0 y) (min (y + h) (to_i32 (g_sh c))) (\<lambda>i. set_pixel x i col) c)"

definition fill_rect :: "int \<Rightarrow> int \<Rightarrow> int \<Rightarrow> int \<Rightarrow> u32 \<Rightarrow> canvas \<Rightarrow> canvas" where
  "fill_rect x y w h col c =
     for_loop (max 0 y) (min (y + h) (to_i32 (g_sh c)))
       (\<lambda>j. for_loop (max 0 x) (min (x + w) (to_i32 (g_sw c))) (\<lambda>i. set_pixel i j col)) c"

definition tint_rect :: "int \<Rightarrow> int \<Rightarrow> int \<Rightarrow> int \<Rightarrow> u32 \<Rightarrow> u32 \<Rightarrow> canvas \<Rightarrow> canvas" where
  "tint_rect x y w h tint_col alpha c =
     for_loop (max 0 y) (min (y + h) (to_i32 (g_sh c)))
       (\<lambda>j. for_loop (max 0 x) (min (x + w) (to_i32 (g_sw c)))
         (\<lambda>i c. set_pixel i j (mix tint_col (g_fb c (pixel_at c i j)) alpha) c)) c"

definition border_rect :: "int \<Rightarrow> int \<Rightarrow> int \<Rightarrow> int \<Rightarrow> int \<Rightarrow> u32 \<Rightarrow> canvas \<Rightarrow> canvas" where
  "border_rect x y w h thick col =
     for_loop 0 thick (\<lambda>t. seq [hline x (y + t) w col, hline x (y + h - 1 - t) w col,
       vline (x + t) y h col, vline (x + w - 1 - t) y h col])"

section \<open>Lines and curves\<close>

text \<open>The endless loop of \<open>draw_line\<close>, left at the second end point.\<close>

partial_function (option) line_loop ::
  "int \<Rightarrow> int \<Rightarrow> int \<Rightarrow> int \<Rightarrow> int \<Rightarrow> int \<Rightarrow> int \<Rightarrow> int \<Rightarrow> int \<Rightarrow> u32 \<Rightarrow> canvas \<Rightarrow> canvas option" where
  "line_loop dx dy sx sy x1 y1 x0 y0 err col c =
     (if x0 = x1 \<and> y0 = y1 then Some (px x0 y0 col c)
      else line_loop dx dy sx sy x1 y1
             (if 2 * err > - dy then x0 + sx else x0) (if 2 * err < dx then y0 + sy else y0)
             (err - (if 2 * err > - dy then dy else 0) + (if 2 * err < dx then dx else 0))
             col (px x0 y0 col c))"

text \<open>The loop always ends (\<open>line_ends\<close> in \<open>Hud_Drawing\<close>), so the case \<open>None\<close> is never taken.\<close>

definition draw_line :: "int \<Rightarrow> int \<Rightarrow> int \<Rightarrow> int \<Rightarrow> u32 \<Rightarrow> canvas \<Rightarrow> canvas" where
  "draw_line x0 y0 x1 y1 col c =
     (let dx = x1 - x0; dy = y1 - y0;
          sx = (if dx > 0 then 1 else -1); sy = (if dy > 0 then 1 else -1);
          dx = \<bar>dx\<bar>; dy = \<bar>dy\<bar>
      in case line_loop dx dy sx sy x1 y1 x0 y0 (dx - dy) col c of Some c' \<Rightarrow> c' | None \<Rightarrow> c)"

definition draw_ellipse :: "int \<Rightarrow> int \<Rightarrow> int \<Rightarrow> int \<Rightarrow> u32 \<Rightarrow> canvas \<Rightarrow> canvas" where
  "draw_ellipse cx cy rx ry col = for_loop 0 64 (\<lambda>i.
     let x = cx + cdiv (rx * icos (to_u32 i)) 127;
         y = cy + cdiv (ry * isin (to_u32 i)) 127
     in seq [px x y col, px (x + 1) y col])"

definition draw_circle :: "int \<Rightarrow> int \<Rightarrow> int \<Rightarrow> u32 \<Rightarrow> canvas \<Rightarrow> canvas" where
  "draw_circle cx cy r col = for_loop 0 64 (\<lambda>i.
     let x = cx + cdiv (r * icos (to_u32 i)) 127;
         y = cy + cdiv (r * isin (to_u32 i)) 127
     in seq [px x y col, px (x + 1) y col])"

section \<open>Strings\<close>

text \<open>A C string in an array of characters: what precedes the first zero byte.\<close>

definition cstr :: "string \<Rightarrow> string" where
  "cstr a = takeWhile (\<lambda>ch. ch \<noteq> CHR 0x00) a"

definition soma_strlen :: "string \<Rightarrow> nat" where
  "soma_strlen a = length (cstr a)"

definition dec_digit :: "nat \<Rightarrow> char" where
  "dec_digit d = char_of (48 + d)"

text \<open>The loop collects the digits from the last to the first in \<open>tmp\<close>.\<close>

fun dec_tmp :: "nat \<Rightarrow> string \<Rightarrow> string" where
  "dec_tmp v tmp = (if v = 0 then tmp else dec_tmp (v div 10) (tmp @ [dec_digit (v mod 10)]))"

declare dec_tmp.simps [simp del]

definition soma_uint_to_dec :: "u32 \<Rightarrow> string" where
  "soma_uint_to_dec v = (if v = 0 then [dec_digit 0] else rev (dec_tmp (unat v) []))"

definition soma_fmt_time :: "u32 \<Rightarrow> string" where
  "soma_fmt_time sec =
     (let h = unat sec div 3600; m = unat sec mod 3600 div 60; s = unat sec mod 60
      in [dec_digit (h div 10), dec_digit (h mod 10), CHR '':'',
          dec_digit (m div 10), dec_digit (m mod 10), CHR '':'',
          dec_digit (s div 10), dec_digit (s mod 10)])"

section \<open>Text\<close>

definition g_font :: "u8 list list" where
  "g_font = [
     [0x00, 0x00, 0x00, 0x00, 0x00, 0x00, 0x00], [0x04, 0x04, 0x04, 0x04, 0x04, 0x00, 0x04],
     [0x0A, 0x0A, 0x00, 0x00, 0x00, 0x00, 0x00], [0x0A, 0x1F, 0x0A, 0x1F, 0x0A, 0x00, 0x00],
     [0x04, 0x0F, 0x14, 0x0E, 0x05, 0x1E, 0x04], [0x18, 0x19, 0x02, 0x04, 0x09, 0x03, 0x00],
     [0x0C, 0x12, 0x14, 0x08, 0x15, 0x12, 0x0D], [0x04, 0x04, 0x00, 0x00, 0x00, 0x00, 0x00],
     [0x02, 0x04, 0x04, 0x04, 0x04, 0x04, 0x02], [0x08, 0x04, 0x04, 0x04, 0x04, 0x04, 0x08],
     [0x00, 0x11, 0x0A, 0x1F, 0x0A, 0x11, 0x00], [0x00, 0x04, 0x04, 0x1F, 0x04, 0x04, 0x00],
     [0x00, 0x00, 0x00, 0x00, 0x06, 0x04, 0x08], [0x00, 0x00, 0x00, 0x1F, 0x00, 0x00, 0x00],
     [0x00, 0x00, 0x00, 0x00, 0x00, 0x06, 0x06], [0x01, 0x01, 0x02, 0x04, 0x08, 0x10, 0x10],
     [0x0E, 0x11, 0x13, 0x15, 0x19, 0x11, 0x0E], [0x04, 0x0C, 0x04, 0x04, 0x04, 0x04, 0x0E],
     [0x0E, 0x11, 0x01, 0x02, 0x04, 0x08, 0x1F], [0x1F, 0x02, 0x04, 0x02, 0x01, 0x11, 0x0E],
     [0x02, 0x06, 0x0A, 0x12, 0x1F, 0x02, 0x02], [0x1F, 0x10, 0x1E, 0x01, 0x01, 0x11, 0x0E],
     [0x06, 0x08, 0x10, 0x1E, 0x11, 0x11, 0x0E], [0x1F, 0x01, 0x02, 0x04, 0x04, 0x04, 0x04],
     [0x0E, 0x11, 0x11, 0x0E, 0x11, 0x11, 0x0E], [0x0E, 0x11, 0x11, 0x0F, 0x01, 0x02, 0x0C],
     [0x00, 0x06, 0x06, 0x00, 0x06, 0x06, 0x00], [0x00, 0x06, 0x06, 0x00, 0x06, 0x04, 0x08],
     [0x01, 0x02, 0x04, 0x08, 0x04, 0x02, 0x01], [0x00, 0x00, 0x1F, 0x00, 0x1F, 0x00, 0x00],
     [0x10, 0x08, 0x04, 0x02, 0x04, 0x08, 0x10], [0x0E, 0x11, 0x01, 0x02, 0x04, 0x00, 0x04],
     [0x0E, 0x11, 0x17, 0x15, 0x17, 0x10, 0x0E], [0x04, 0x0A, 0x11, 0x1F, 0x11, 0x11, 0x11],
     [0x1E, 0x11, 0x11, 0x1E, 0x11, 0x11, 0x1E], [0x0E, 0x11, 0x10, 0x10, 0x10, 0x11, 0x0E],
     [0x1C, 0x12, 0x11, 0x11, 0x11, 0x12, 0x1C], [0x1F, 0x10, 0x10, 0x1E, 0x10, 0x10, 0x1F],
     [0x1F, 0x10, 0x10, 0x1E, 0x10, 0x10, 0x10], [0x0E, 0x11, 0x10, 0x17, 0x11, 0x11, 0x0F],
     [0x11, 0x11, 0x11, 0x1F, 0x11, 0x11, 0x11], [0x0E, 0x04, 0x04, 0x04, 0x04, 0x04, 0x0E],
     [0x07, 0x02, 0x02, 0x02, 0x02, 0x12, 0x0C], [0x11, 0x12, 0x14, 0x18, 0x14, 0x12, 0x11],
     [0x10, 0x10, 0x10, 0x10, 0x10, 0x10, 0x1F], [0x11, 0x1B, 0x15, 0x11, 0x11, 0x11, 0x11],
     [0x11, 0x11, 0x19, 0x15, 0x13, 0x11, 0x11], [0x0E, 0x11, 0x11, 0x11, 0x11, 0x11, 0x0E],
     [0x1E, 0x11, 0x11, 0x1E, 0x10, 0x10, 0x10], [0x0E, 0x11, 0x11, 0x11, 0x15, 0x12, 0x0D],
     [0x1E, 0x11, 0x11, 0x1E, 0x14, 0x12, 0x11], [0x0F, 0x10, 0x10, 0x0E, 0x01, 0x01, 0x1E],
     [0x1F, 0x04, 0x04, 0x04, 0x04, 0x04, 0x04], [0x11, 0x11, 0x11, 0x11, 0x11, 0x11, 0x0E],
     [0x11, 0x11, 0x11, 0x11, 0x11, 0x0A, 0x04], [0x11, 0x11, 0x11, 0x15, 0x15, 0x1B, 0x11],
     [0x11, 0x11, 0x0A, 0x04, 0x0A, 0x11, 0x11], [0x11, 0x11, 0x0A, 0x04, 0x04, 0x04, 0x04],
     [0x1F, 0x01, 0x02, 0x04, 0x08, 0x10, 0x1F], [0x0E, 0x08, 0x08, 0x08, 0x08, 0x08, 0x0E],
     [0x10, 0x08, 0x08, 0x04, 0x02, 0x02, 0x01], [0x0E, 0x02, 0x02, 0x02, 0x02, 0x02, 0x0E],
     [0x04, 0x0A, 0x11, 0x00, 0x00, 0x00, 0x00], [0x00, 0x00, 0x00, 0x00, 0x00, 0x00, 0x1F],
     [0x08, 0x04, 0x00, 0x00, 0x00, 0x00, 0x00], [0x00, 0x00, 0x0E, 0x01, 0x0F, 0x11, 0x0F],
     [0x10, 0x10, 0x1E, 0x11, 0x11, 0x11, 0x1E], [0x00, 0x00, 0x0E, 0x11, 0x10, 0x11, 0x0E],
     [0x01, 0x01, 0x0F, 0x11, 0x11, 0x11, 0x0F], [0x00, 0x00, 0x0E, 0x11, 0x1F, 0x10, 0x0E],
     [0x03, 0x04, 0x1E, 0x04, 0x04, 0x04, 0x04], [0x00, 0x00, 0x0F, 0x11, 0x0F, 0x01, 0x0E],
     [0x10, 0x10, 0x1E, 0x11, 0x11, 0x11, 0x11], [0x04, 0x00, 0x0C, 0x04, 0x04, 0x04, 0x0E],
     [0x02, 0x00, 0x06, 0x02, 0x02, 0x12, 0x0C], [0x10, 0x10, 0x12, 0x14, 0x18, 0x14, 0x12],
     [0x0C, 0x04, 0x04, 0x04, 0x04, 0x04, 0x0E], [0x00, 0x00, 0x1A, 0x15, 0x15, 0x11, 0x11],
     [0x00, 0x00, 0x1E, 0x11, 0x11, 0x11, 0x11], [0x00, 0x00, 0x0E, 0x11, 0x11, 0x11, 0x0E],
     [0x00, 0x00, 0x1E, 0x11, 0x1E, 0x10, 0x10], [0x00, 0x00, 0x0F, 0x11, 0x0F, 0x01, 0x01],
     [0x00, 0x00, 0x16, 0x19, 0x10, 0x10, 0x10], [0x00, 0x00, 0x0F, 0x10, 0x0E, 0x01, 0x1E],
     [0x04, 0x04, 0x1F, 0x04, 0x04, 0x04, 0x03], [0x00, 0x00, 0x11, 0x11, 0x11, 0x11, 0x0F],
     [0x00, 0x00, 0x11, 0x11, 0x11, 0x0A, 0x04], [0x00, 0x00, 0x11, 0x11, 0x15, 0x15, 0x0A],
     [0x00, 0x00, 0x11, 0x0A, 0x04, 0x0A, 0x11], [0x00, 0x00, 0x11, 0x11, 0x0F, 0x01, 0x0E],
     [0x00, 0x00, 0x1F, 0x02, 0x04, 0x08, 0x1F], [0x02, 0x04, 0x04, 0x08, 0x04, 0x04, 0x02],
     [0x04, 0x04, 0x04, 0x04, 0x04, 0x04, 0x04], [0x08, 0x04, 0x04, 0x02, 0x04, 0x04, 0x08],
     [0x08, 0x15, 0x02, 0x00, 0x00, 0x00, 0x00], [0x1F, 0x1F, 0x1F, 0x1F, 0x1F, 0x1F, 0x1F]]"

definition draw_char :: "int \<Rightarrow> int \<Rightarrow> char \<Rightarrow> u32 \<Rightarrow> int \<Rightarrow> canvas \<Rightarrow> canvas" where
  "draw_char x y ch color scale =
     (let code = (of_char ch :: nat);
          code = (if code < 32 \<or> code > 127 then 32 else code);
          bmp = g_font ! (code - 32)
      in for_loop 0 7 (\<lambda>row. for_loop 0 5 (\<lambda>b.
           if drop_bit (nat (4 - b)) (bmp ! nat row) AND 1 \<noteq> 0
           then for_loop 0 scale (\<lambda>sy. for_loop 0 scale (\<lambda>sx.
                  px (x + b * scale + sx) (y + row * scale + sy) color))
           else id)))"

definition upper :: "char \<Rightarrow> char" where
  "upper ch = (let k = (of_char ch :: nat) in if 97 \<le> k \<and> k \<le> 122 then char_of (k - 97 + 65) else ch)"

primrec draw_str :: "int \<Rightarrow> int \<Rightarrow> string \<Rightarrow> u32 \<Rightarrow> int \<Rightarrow> canvas \<Rightarrow> canvas" where
  "draw_str x y [] color scale c = c"
| "draw_str x y (ch # s) color scale c =
     draw_str (x + (5 + 1) * scale) y s color scale (draw_char x y (upper ch) color scale c)"

definition draw_str_center :: "int \<Rightarrow> int \<Rightarrow> string \<Rightarrow> u32 \<Rightarrow> int \<Rightarrow> canvas \<Rightarrow> canvas" where
  "draw_str_center cx y s color scale =
     (let tw = int (length s) * (5 + 1) * scale in draw_str (cx - cdiv tw 2) y s color scale)"

end
