(* ===== verification/Hud_State.thy ===== *)
theory Hud_State
  imports Hud_Canvas
begin

text \<open>
  The state that the desktop shows (\<open>oo_soma_bridge.h\<close>) and everything that changes it: the demo
  generator, the serial bridge and the keyboard (\<open>oo_hud_final.c\<close>). Character arrays are lists of
  their full length, with the terminating zero bytes in them; counts that the code keeps
  non-negative are natural numbers and its flags are truth values. A write past the end of an
  array makes its list longer and no operation makes it shorter again, so that an overrun shows
  in the length of the list for ever.
\<close>

section \<open>Data\<close>

datatype node_state = OO_ACTIVE | OO_DEGRADED | OO_ISOLATED | OO_EMERGENCY | OO_SLEEPING

definition node_state_of :: "u32 \<Rightarrow> node_state" where
  "node_state_of n = (if n = 0 then OO_ACTIVE else if n = 1 then OO_DEGRADED
     else if n = 2 then OO_ISOLATED else if n = 3 then OO_EMERGENCY else OO_SLEEPING)"

datatype dplus_mode = DPLUS_SOLAR | DPLUS_LUNAR | DPLUS_SAFE

definition dplus_mode_of :: "u32 \<Rightarrow> dplus_mode" where
  "dplus_mode_of n = (if n = 0 then DPLUS_SOLAR else if n = 1 then DPLUS_LUNAR else DPLUS_SAFE)"

record arena_info =
  ar_name :: string
  used_mb :: u32
  total_mb :: u32

record bus_event =
  ev_tsc :: u64
  ev_kind :: string
  ev_desc :: string

record soma_peer =
  peer_id :: string
  peer_state :: node_state
  latency_ms :: u32
  peer_active :: bool

record soma =
  organism_id :: string
  node_state :: node_state
  dplus_mode :: dplus_mode
  warden_pressure :: u8
  swarm_peer_count :: u32
  arenas :: "arena_info list"
  arena_count :: nat
  events :: "bus_event list"
  event_head :: nat
  event_count :: nat
  peers :: "soma_peer list"
  peer_count :: nat
  tsc_now :: u64
  tsc_hz :: u64
  uptime_sec :: u32
  tokens_per_sec :: u32
  tokens_generated :: u64
  response_buf :: string
  input_buf :: string
  input_len :: nat
  voice_active :: bool
  voice_waveform :: "u8 list"
  glitch_frames :: nat

abbreviation NUL :: char where
  "NUL \<equiv> CHR 0x00"

definition soma_boot :: soma where
  "soma_boot = \<lparr> organism_id = replicate 32 NUL, node_state = OO_ACTIVE, dplus_mode = DPLUS_SOLAR,
     warden_pressure = 0, swarm_peer_count = 0,
     arenas = replicate 5 \<lparr> ar_name = replicate 12 NUL, used_mb = 0, total_mb = 0 \<rparr>, arena_count = 0,
     events = replicate 8 \<lparr> ev_tsc = 0, ev_kind = replicate 16 NUL, ev_desc = replicate 48 NUL \<rparr>,
     event_head = 0, event_count = 0,
     peers = replicate 6 \<lparr> peer_id = replicate 16 NUL, peer_state = OO_ACTIVE, latency_ms = 0,
       peer_active = False \<rparr>, peer_count = 0,
     tsc_now = 0, tsc_hz = 0, uptime_sec = 0, tokens_per_sec = 0, tokens_generated = 0,
     response_buf = replicate 384 NUL, input_buf = replicate 128 NUL, input_len = 0,
     voice_active = False, voice_waveform = replicate 64 0, glitch_frames = 0 \<rparr>"

section \<open>The demo generator\<close>

text \<open>The assignment \<open>xs[i] = x\<close>; past the end of the array it leaves a longer list.\<close>

definition arr_put :: "nat \<Rightarrow> 'a \<Rightarrow> 'a list \<Rightarrow> 'a list" where
  "arr_put i x xs = (if i < length xs then xs[i := x] else xs @ replicate (Suc i - length xs) x)"

text \<open>The copy loops: the characters of \<open>s\<close> into an array, then the zero byte.\<close>

definition put_cstr :: "string \<Rightarrow> string \<Rightarrow> string" where
  "put_cstr dst s = arr_put (length s) NUL (fold (\<lambda>k d. arr_put k (s ! k) d) [0..<length s] dst)"

definition demo_vitals :: "u32 \<Rightarrow> soma \<Rightarrow> soma" where
  "demo_vitals tick st =
     (let tvar = to_u32 (isin (tick div 20 AND 63) + 127);
          tps = 45 + tvar div 8
      in st\<lparr> organism_id := put_cstr (organism_id st) ''OO-SOMA-001'',
            node_state := node_state_of (tick div 300 mod 5),
            warden_pressure := ucast ((to_u32 (isin (tick div 30 AND 63)) + 127) AND 0xFF),
            swarm_peer_count := tick div 120 mod 5,
            uptime_sec := tick div 60,
            tokens_per_sec := tps,
            tokens_generated := tokens_generated st + ucast (tps div 60),
            dplus_mode := dplus_mode_of (tick div 400 mod 3) \<rparr>)"

definition arena_names :: "string list" where
  "arena_names = [''WEIGHTS'', ''KV-CACHE'', ''SCRATCH'', ''ACTIVAT'', ''ZONE-C'']"

definition arena_totals :: "u32 list" where
  "arena_totals = [4096, 2048, 512, 1024, 256]"

definition demo_arena :: "u32 \<Rightarrow> nat \<Rightarrow> arena_info \<Rightarrow> arena_info" where
  "demo_arena tick i a =
     (let used_pct = 30 + (to_u32 (isin (tick div 40 + of_nat i * 10 AND 63)) + 127) * 55 div 255
      in a\<lparr> ar_name := put_cstr (ar_name a) (arena_names ! i), total_mb := arena_totals ! i,
            used_mb := arena_totals ! i * used_pct div 100 \<rparr>)"

definition demo_arenas :: "u32 \<Rightarrow> soma \<Rightarrow> soma" where
  "demo_arenas tick st = st\<lparr> arena_count := 5,
     arenas := fold (\<lambda>i as. arr_put i (demo_arena tick i (as ! i)) as) [0..<5] (arenas st) \<rparr>"

definition event_kinds :: "string list" where
  "event_kinds = [''TOKEN'', ''WARDEN'', ''DPLUS'', ''ARENA'', ''PEER'', ''EVAL'']"

definition event_descs :: "string list" where
  "event_descs = [''INFERENCE STEP DONE'', ''PRESSURE THRESHOLD HIT'', ''MODE SWITCH SOLAR->LUNAR'',
     ''REALLOC SCRATCH 512MB'', ''PEER-003 JOINED SWARM'', ''SOMA_EVAL_DPLUS CALLED'']"

text \<open>Recording an event: the kind is cut at 15 characters, the description at 47.\<close>

definition hud_event :: "string \<times> string \<times> u64 \<Rightarrow> soma \<Rightarrow> soma" where
  "hud_event = (\<lambda>(kind, desc, tsc) st.
     let eh = event_head st;
         e = events st ! eh;
         e = e\<lparr> ev_kind := put_cstr (ev_kind e) (take 15 kind), ev_desc := put_cstr (ev_desc e) (take 47 desc),
                ev_tsc := tsc \<rparr>
     in st\<lparr> events := arr_put eh e (events st), event_head := (eh + 1) mod 8,
            event_count := (if event_count st < 8 then event_count st + 1 else event_count st) \<rparr>)"

definition demo_events :: "u32 \<Rightarrow> soma \<Rightarrow> soma" where
  "demo_events tick st =
     (if tick mod 90 = 0
      then let idx = unat (tick div 90 mod 6)
           in hud_event (event_kinds ! idx, event_descs ! idx, ucast tick) st
      else st)"

definition peer_names :: "string list" where
  "peer_names = [''PEER-001'', ''PEER-002'', ''PEER-003'', ''PEER-004'', ''PEER-005'', ''PEER-006'']"

definition demo_peer :: "u32 \<Rightarrow> nat \<Rightarrow> nat \<Rightarrow> soma_peer \<Rightarrow> soma_peer" where
  "demo_peer tick count i p = p\<lparr> peer_id := put_cstr (peer_id p) (peer_names ! i),
     peer_state := node_state_of ((of_nat i + tick div 200) mod 5),
     latency_ms := 10 + of_nat i * 15 + (to_u32 (isin (tick div 25 + of_nat i * 7 AND 63)) + 127) div 10,
     peer_active := (i < count) \<rparr>"

definition demo_peers :: "u32 \<Rightarrow> soma \<Rightarrow> soma" where
  "demo_peers tick st =
     (let count = unat (swarm_peer_count st)
      in st\<lparr> peer_count := count,
            peers := fold (\<lambda>i ps. arr_put i (demo_peer tick count i (ps ! i)) ps) [0..<6] (peers st) \<rparr>)"

definition demo_voice :: "u32 \<Rightarrow> soma \<Rightarrow> soma" where
  "demo_voice tick st = st\<lparr>
     voice_waveform := fold (\<lambda>i w.
         let freq = 2 + of_nat i mod 4;
             v = isin (tick * freq div 4 + of_nat i * 3 AND 63)
         in arr_put i (word_of_int (v + 127) AND 0xFF) w) [0..<64] (voice_waveform st),
     voice_active := (tick div 150 mod 2 \<noteq> 0) \<rparr>"

definition demo_response :: string where
  "demo_response = ''SOMA BOOT OK. NEURAL ENGINE READY.'' @ [CHR 0x0A]
     @ ''WARDEN INIT: PRESSURE NOMINAL.'' @ [CHR 0x0A]
     @ ''D+ MODE: SOLAR '' @ [CHR 0xE2, CHR 0x80, CHR 0x94] @ '' INFERENCE ACTIVE.''"

definition soma_state_demo_fill :: "u32 \<Rightarrow> soma \<Rightarrow> soma" where
  "soma_state_demo_fill tick st0 =
     (let st = demo_voice tick (demo_peers tick (demo_events tick (demo_arenas tick (demo_vitals tick st0))))
      in if tick = 1
         then st\<lparr> response_buf := put_cstr (response_buf st) (take 383 demo_response) \<rparr>
         else st)"

section \<open>The serial bridge\<close>

definition soma_uart_init :: "(u16 \<times> u8) list" where
  "soma_uart_init = [(0x3F9, 0x00), (0x3FB, 0x80), (0x3F8, 0x03), (0x3F9, 0x00), (0x3FB, 0x03),
     (0x3FA, 0xC7), (0x3FC, 0x0B)]"

text \<open>A character of a zero-terminated string; past its end there is the zero byte.\<close>

definition char_at :: "string \<Rightarrow> nat \<Rightarrow> char" where
  "char_at s i = (if i < length s then s ! i else NUL)"

definition dec_char :: "char \<Rightarrow> bool" where
  "dec_char ch \<longleftrightarrow> 48 \<le> (of_char ch :: nat) \<and> (of_char ch :: nat) \<le> 57"

text \<open>\<open>while (*v >= '0' && *v <= '9')\<close>, with the wrap-around of \<open>UINT32\<close>.\<close>

definition read_u32 :: "string \<Rightarrow> u32" where
  "read_u32 s = foldl (\<lambda>v ch. v * 10 + (of_nat (of_char ch) - 48)) 0 (takeWhile dec_char s)"

definition set_state :: "char \<Rightarrow> soma \<Rightarrow> soma" where
  "set_state v st =
     (if v = CHR ''A'' then st\<lparr> node_state := OO_ACTIVE \<rparr>
      else if v = CHR ''D'' then st\<lparr> node_state := OO_DEGRADED \<rparr>
      else if v = CHR ''I'' then st\<lparr> node_state := OO_ISOLATED \<rparr>
      else if v = CHR ''E'' then st\<lparr> node_state := OO_EMERGENCY \<rparr>
      else if v = CHR ''S'' then st\<lparr> node_state := OO_SLEEPING \<rparr> else st)"

definition set_dplus :: "string \<Rightarrow> soma \<Rightarrow> soma" where
  "set_dplus v st =
     (if char_at v 0 = CHR ''S'' \<and> char_at v 1 = CHR ''O'' then st\<lparr> dplus_mode := DPLUS_SOLAR \<rparr>
      else if char_at v 0 = CHR ''L'' then st\<lparr> dplus_mode := DPLUS_LUNAR \<rparr>
      else if char_at v 0 = CHR ''S'' \<and> char_at v 1 = CHR ''A'' then st\<lparr> dplus_mode := DPLUS_SAFE \<rparr>
      else st)"

text \<open>
  \<open>soma_uart_parse\<close>: the line is the buffer up to \<open>len\<close>, where the caller has put a zero byte. Of
  the key of the pressure only the length and the first four characters are compared.
\<close>

definition soma_uart_parse :: "string \<Rightarrow> soma \<Rightarrow> soma" where
  "soma_uart_parse line st =
     (if length line < 5 \<or> take 3 line \<noteq> ''OO:'' then st
      else let kv = drop 3 line;
               eq = length (takeWhile (\<lambda>ch. ch \<noteq> NUL \<and> ch \<noteq> CHR ''='') kv);
               v = drop (eq + 1) kv
           in if char_at kv eq = NUL then st
              else if eq = 5 \<and> take 5 kv = ''STATE'' then set_state (char_at v 0) st
              else if eq = 8 \<and> take 4 kv = ''PRES''
              then let n = read_u32 v in st\<lparr> warden_pressure := ucast (if n > 255 then 255 else n) \<rparr>
              else if eq = 5 \<and> take 5 kv = ''PEERS''
              then let n = read_u32 v in st\<lparr> swarm_peer_count := (if n > 6 then 6 else n) \<rparr>
              else if eq = 5 \<and> take 5 kv = ''DPLUS'' then set_dplus v st
              else if eq = 3 \<and> take 3 kv = ''TPK'' then st\<lparr> tokens_per_sec := read_u32 v \<rparr>
              else st)"

text \<open>
  The line buffer \<open>g_uart_buf\<close> up to \<open>g_uart_pos\<close>: the list grows with every character stored,
  and its length is the position at which the next character or the zero byte of the line is
  written. The array has 128 elements; the guard keeps 127 characters.
\<close>

definition uart_byte :: "char \<Rightarrow> string \<times> soma \<Rightarrow> string \<times> soma" where
  "uart_byte ch = (\<lambda>(buf, st).
     if ch = CHR 0x0A \<or> ch = CHR 0x0D
     then (if length buf > 0 then ([], soma_uart_parse buf st) else (buf, st))
     else if length buf < 127 then (buf @ [ch], st)
     else (buf, st))"

text \<open>The bytes that the port delivers before it reports that none is left.\<close>

definition soma_uart_poll :: "string \<Rightarrow> string \<times> soma \<Rightarrow> string \<times> soma" where
  "soma_uart_poll received = fold uart_byte received"

section \<open>The keyboard\<close>

record efi_key =
  ScanCode :: u16
  UnicodeChar :: u16

definition echo_input :: "soma \<Rightarrow> soma" where
  "echo_input st0 =
     (let st = st0\<lparr> input_buf := arr_put (input_len st0) NUL (input_buf st0) \<rparr>;
          rpos = soma_strlen (response_buf st);
          st = (if rpos < 370
                then let n = min (input_len st) (382 - (rpos + 1));
                         r = arr_put rpos (CHR 0x0A) (response_buf st);
                         r = fold (\<lambda>ci r. arr_put (rpos + 1 + ci) (input_buf st ! ci) r) [0..<n] r
                     in st\<lparr> response_buf := arr_put (rpos + 1 + n) NUL r \<rparr>
                else st)
      in st\<lparr> input_len := 0 \<rparr>)"

definition soma_key :: "u16 \<Rightarrow> soma \<Rightarrow> soma" where
  "soma_key u st =
     (if u = 0 then st
      else if u = 0x0D then echo_input st
      else if u = 0x08 \<and> input_len st > 0 then st\<lparr> input_len := input_len st - 1 \<rparr>
      else if input_len st < 127
      then st\<lparr> input_buf := arr_put (input_len st) (char_of (unat u)) (input_buf st),
              input_len := input_len st + 1 \<rparr>
      else st)"

end
