(* ===== verification/Hud_Layers.thy ===== *)
theory Hud_Layers
  imports Hud_State
begin

text \<open>
  The layers of a frame of the desktop (\<open>oo_hud_final.c\<close>), from the background to the glitch, the
  boot sequence, \<open>soma_render_frame\<close> and the main loop of \<open>efi_main\<close>. A layer is a sequence of
  drawing statements over the state at its start; what a layer changes besides the frame buffer
  (stars, rain, random numbers, the countdown of the glitch) is part of its result.
\<close>

section \<open>The state of the desktop\<close>

record star =
  star_x :: int
  star_y :: int
  star_speed :: u32
  star_col :: u32

record rain_drop =
  rain_y :: int
  col_idx :: u32

record desktop =
  scr :: canvas
  g_rng :: u32
  g_tick :: u32
  g_stars :: "star list"
  g_rain :: "rain_drop list"
  g_soma :: soma
  g_plx_x :: int
  g_plx_y :: int
  uart_line :: string

definition on_canvas :: "(canvas \<Rightarrow> canvas) \<Rightarrow> desktop \<Rightarrow> desktop" where
  "on_canvas f d = d\<lparr> scr := f (scr d) \<rparr>"

definition soma_state_color :: "node_state \<Rightarrow> u32" where
  "soma_state_color s = (case s of OO_ACTIVE \<Rightarrow> SOMA_CYAN | OO_DEGRADED \<Rightarrow> SOMA_AMBER
     | OO_ISOLATED \<Rightarrow> SOMA_RED | OO_EMERGENCY \<Rightarrow> SOMA_WHITE | OO_SLEEPING \<Rightarrow> SOMA_BLUE)"

text \<open>The state of the generator is the number it has returned.\<close>

definition rng_next :: "u32 \<Rightarrow> u32" where
  "rng_next r0 =
     (let r = r0 XOR push_bit 13 r0; r = r XOR drop_bit 17 r in r XOR push_bit 5 r)"

definition init_star :: "canvas \<Rightarrow> u32 \<times> star list \<Rightarrow> u32 \<times> star list" where
  "init_star c = (\<lambda>(rng, stars).
     let r1 = rng_next rng; r2 = rng_next r1; r3 = rng_next r2; r4 = rng_next r3;
         bright = 120 + r4 mod 136
     in (r4, stars @ [\<lparr> star_x = to_i32 (r1 mod g_sw c), star_y = to_i32 (r2 mod g_sh c),
           star_speed = 1 + r3 mod 3, star_col = SOMA_RGB bright bright bright \<rparr>]))"

definition init_stars :: "canvas \<Rightarrow> u32 \<Rightarrow> u32 \<times> star list" where
  "init_stars c rng = (init_star c ^^ 80) (rng, [])"

definition init_drop :: "u32 \<times> rain_drop list \<Rightarrow> u32 \<times> rain_drop list" where
  "init_drop = (\<lambda>(rng, drops).
     let r1 = rng_next rng; r2 = rng_next r1
     in (r2, drops @ [\<lparr> rain_y = - to_i32 (r1 mod 200), col_idx = r2 mod 2 \<rparr>]))"

definition init_rain :: "u32 \<Rightarrow> u32 \<times> rain_drop list" where
  "init_rain rng = (init_drop ^^ 24) (rng, [])"

text \<open>A loop with the step \<open>k\<close>.\<close>

definition for_step :: "int \<Rightarrow> int \<Rightarrow> int \<Rightarrow> (int \<Rightarrow> 's \<Rightarrow> 's) \<Rightarrow> 's \<Rightarrow> 's" where
  "for_step a b k body = for_loop 0 ((b - a + k - 1) div k) (\<lambda>n. body (a + k * n))"

section \<open>Layer 0: background\<close>

definition clear_screen :: "canvas \<Rightarrow> canvas" where
  "clear_screen c = c\<lparr> g_fb := (\<lambda>i. if i < g_sh c * g_stride c then SOMA_DEEPSPACE else g_fb c i) \<rparr>"

definition drift :: "canvas \<Rightarrow> star \<Rightarrow> star" where
  "drift c s =
     (let x = star_x s - to_i32 (star_speed s)
      in s\<lparr> star_x := (if x < 0 then to_i32 (g_sw c) - 1 else x) \<rparr>)"

definition hexagon :: "int \<Rightarrow> int \<Rightarrow> int \<Rightarrow> canvas \<Rightarrow> canvas" where
  "hexagon hcx hcy r_hex = for_loop 0 6 (\<lambda>k.
     let a0 = to_u32 (cdiv (k * 64) 6); a1 = to_u32 (cdiv ((k + 1) * 64) 6)
     in draw_line (hcx + cdiv (r_hex * icos a0) 127) (hcy + cdiv (r_hex * isin a0) 127)
          (hcx + cdiv (r_hex * icos a1) 127) (hcy + cdiv (r_hex * isin a1) 127) SOMA_GRID)"

definition hex_grid :: "desktop \<Rightarrow> canvas \<Rightarrow> canvas" where
  "hex_grid d =
     (let sw = to_i32 (g_sw (scr d)); sh = to_i32 (g_sh (scr d))
      in for_step 0 sw 60 (\<lambda>gx. for_step 0 sh 52 (\<lambda>gy.
           hexagon (gx + (if odd (gy div 52) then 30 else 0) - cdiv (g_plx_x d) 2)
             (gy - cdiv (g_plx_y d) 2) (24 + cdiv (gy * 8) sh))))"

definition darken :: "u32 \<Rightarrow> u32" where
  "darken p =
     (let dark = (\<lambda>v. if v > 6 then v - 6 else 0)
      in SOMA_RGB (dark (channel 16 p)) (dark (channel 8 p)) (dark (channel 0 p)))"

definition scanlines :: "canvas \<Rightarrow> canvas" where
  "scanlines c = for_step 0 (uint (g_sh c)) 3 (\<lambda>y. for_loop 0 (uint (g_sw c)) (\<lambda>x c.
     set_pixel x y (darken (g_fb c (pixel_at c x y))) c)) c"

definition render_background :: "desktop \<Rightarrow> desktop" where
  "render_background d0 =
     (let d = d0\<lparr> g_stars := map (drift (scr d0)) (g_stars d0) \<rparr>
      in on_canvas (seq [clear_screen,
           seq (map (\<lambda>s. px (star_x s) (star_y s) (star_col s)) (g_stars d)),
           hex_grid d, scanlines]) d)"

section \<open>Layer 1: sphere\<close>

definition dimmed :: "u32 \<Rightarrow> u32 \<Rightarrow> u32" where
  "dimmed n col = SOMA_RGB (channel 16 col * n div 255) (channel 8 col * n div 255)
     (channel 0 col * n div 255)"

definition warden_color :: "u32 \<Rightarrow> u32" where
  "warden_color wp = (if wp > 180 then SOMA_RED else if wp > 120 then SOMA_AMBER else SOMA_GREEN)"

definition sphere_rings :: "desktop \<Rightarrow> u32 \<Rightarrow> int \<Rightarrow> int \<Rightarrow> int \<Rightarrow> canvas \<Rightarrow> canvas" where
  "sphere_rings d tick cx cy r =
     (let st = g_soma d; h = high (scr d);
          n_rings = (if swarm_peer_count st > 4 then 4 else swarm_peer_count st)
      in for_loop 0 (to_i32 n_rings) (\<lambda>n.
           let ring_rx = r + h 30 + n * h 18; ring_ry = h 9 + n * h 3;
               ring_off = to_i32 ((tick div 2 + to_u32 n * 16) AND 63);
               ring_cy = cy - n * h 8;
               ring_col = (if n < int (peer_count st) \<and> peer_active (peers st ! nat n)
                           then soma_state_color (peer_state (peers st ! nat n)) else SOMA_CYAN_DIM)
           in for_loop 0 64 (\<lambda>i.
                let ai = to_u32 (i + ring_off) AND 63
                in px_blend (cx + cdiv (ring_rx * icos ai) 127) (ring_cy + cdiv (ring_ry * isin ai) 127)
                     ring_col 140)))"

definition paint_sphere :: "desktop \<Rightarrow> u32 \<Rightarrow> canvas \<Rightarrow> canvas" where
  "paint_sphere d tick =
     (let st = g_soma d; h = high (scr d);
          cx = wide (scr d) 500 - g_plx_x d; cy = h 380 - g_plx_y d;
          pulse = cdiv (isin (tick * 4 div 64 mod 64) * h 5) 127;
          r = h 120 + pulse;
          scol = soma_state_color (node_state st);
          scol_dim = dimmed 18 scol; scol_med = dimmed 60 scol;
          tilt = cdiv (icos (tick div 3 AND 63) * r) 127;
          wp = ucast (warden_pressure st);
          arc_r = r + h 16; arc_steps = to_i32 (64 * wp div 255); arc_col = warden_color wp;
          core_r = (if voice_active st then h 12 + cdiv (isin (tick * 4 AND 63) * h 4) 127 else h 6);
          core_col = (if voice_active st then SOMA_GREEN else scol)
      in seq
        [draw_circle cx cy (r + h 40) scol_dim, draw_circle cx cy (r + h 20) scol_dim,
         draw_circle cx cy (r + h 8) scol_med, draw_circle cx cy r scol,
         draw_ellipse cx (cy - cdiv (r * 26) 100) r (cdiv (r * 87) 100) scol_med,
         draw_ellipse cx (cy + cdiv (r * 26) 100) r (cdiv (r * 87) 100) scol_med,
         draw_ellipse cx (cy - cdiv (r * 50) 100) r (cdiv (r * 50) 100) scol_dim,
         draw_ellipse cx (cy + cdiv (r * 50) 100) r (cdiv (r * 50) 100) scol_dim,
         for_loop 0 64 (\<lambda>i. let s = isin (to_u32 i); sy = cy + cdiv (r * s) 127
           in seq [px (cx + cdiv (tilt * s) 127) sy scol_med,
                   px (cx - cdiv (tilt * s) 127 + cdiv (r * icos (to_u32 i)) 127) sy scol_dim]),
         sphere_rings d tick cx cy r,
         for_loop (-16) (arc_steps - 16) (\<lambda>i.
           let ax = cx + cdiv (arc_r * icos (to_u32 i AND 63)) 127;
               ay = cy + cdiv (arc_r * isin (to_u32 i AND 63)) 127
           in seq [px ax ay arc_col, px (ax + 1) ay arc_col]),
         draw_circle cx cy core_r core_col,
         fill_rect (cx - h 3) (cy - h 3) (h 6) (h 6) core_col])"

definition render_sphere :: "u32 \<Rightarrow> desktop \<Rightarrow> desktop" where
  "render_sphere tick d = on_canvas (paint_sphere d tick) d"

section \<open>Layers 2 and 3: data rain and code\<close>

definition k_hex :: string where "k_hex = ''0123456789ABCDEF''"

definition rain_fall :: "canvas \<Rightarrow> nat \<Rightarrow> u32 \<times> rain_drop list \<Rightarrow> u32 \<times> rain_drop list" where
  "rain_fall c i = (\<lambda>(rng, drops).
     let y = rain_y (drops ! i) + to_i32 (1 + of_nat i mod 3)
     in if y > to_i32 (g_sh c) + 120
        then let r = rng_next rng in (r, drops[i := (drops ! i)\<lparr> rain_y := - to_i32 (r mod 80 + 20) \<rparr>])
        else (rng, drops[i := (drops ! i)\<lparr> rain_y := y \<rparr>]))"

definition rain_tail :: "canvas \<Rightarrow> u32 \<Rightarrow> nat \<Rightarrow> int \<Rightarrow> canvas \<Rightarrow> canvas" where
  "rain_tail c tick i y = for_loop 0 8 (\<lambda>j.
     let py = y - j * 12; fade = to_u32 (8 - j) * 14
     in if py < 0 \<or> py \<ge> to_i32 (g_sh c) then id
        else draw_char (cdiv (to_i32 (g_sw c) * int i) 24 + wide c 2) py
               (k_hex ! unat ((tick + to_u32 (j + int i)) mod 16))
               (if j = 0 then SOMA_CYAN else SOMA_RGB 0 (if fade < 80 then fade else 80) (fade div 2)) 1)"

definition render_data_rain :: "u32 \<Rightarrow> desktop \<Rightarrow> desktop" where
  "render_data_rain tick d =
     (let (rng, drops) = fold (rain_fall (scr d)) [0..<24] (g_rng d, g_rain d)
      in on_canvas (seq (map (\<lambda>i. rain_tail (scr d) tick i (rain_y (drops ! i))) [0..<24]))
           (d\<lparr> g_rng := rng, g_rain := drops \<rparr>))"

definition k_frags :: "(u32 \<times> u32 \<times> string \<times> u32) list" where
  "k_frags = [(2, 8, ''FN WARDEN_CHECK(P: U8)'', SOMA_CYAN_DIM),
     (2, 16, ''IF PRESSURE > THRESH {'', SOMA_CYAN_DIM), (2, 23, ''SOMA_EVAL_DPLUS(ACT);'', SOMA_CYAN_DIM),
     (70, 8, ''#[REPR(C)]'', SOMA_CYAN_DIM), (70, 14, ''OO_ARENA_WEIGHTS'', SOMA_CYAN_DIM),
     (70, 20, ''PUB FN NEURAL_TICK()'', SOMA_CYAN_DIM)]"

definition render_code_frags :: "u32 \<Rightarrow> desktop \<Rightarrow> desktop" where
  "render_code_frags tick d = on_canvas (seq (map (\<lambda>i.
     let (x_pm, y_pm, txt, col) = k_frags ! i;
         drift = cdiv (isin (tick div 4 + of_nat i * 10 AND 63) * 3) 127
     in draw_str (wide (scr d) x_pm + drift) (high (scr d) y_pm) txt col 1) [0..<6])) d"

section \<open>Layer 4: panels\<close>

definition draw_panel :: "int \<Rightarrow> int \<Rightarrow> int \<Rightarrow> int \<Rightarrow> string \<Rightarrow> u32 \<Rightarrow> canvas \<Rightarrow> canvas" where
  "draw_panel x y w h title border_col = seq [tint_rect x y w h SOMA_PANEL_BG 170,
     border_rect x y w h 2 border_col, fill_rect (x + 2) (y + 2) (w - 4) 12 border_col,
     draw_str (x + 4) (y + 3) title (SOMA_RGB 2 3 6) 1]"

definition brightened :: "int \<Rightarrow> u32 \<Rightarrow> u32" where
  "brightened bright col =
     (let scaled = (\<lambda>v. let s = v * to_u32 bright div 100 in if s > 255 then 255 else s)
      in SOMA_RGB (scaled (channel 16 col)) (scaled (channel 8 col)) (scaled (channel 0 col)))"

definition draw_bar_horiz_particles ::
  "int \<Rightarrow> int \<Rightarrow> int \<Rightarrow> int \<Rightarrow> u32 \<Rightarrow> u32 \<Rightarrow> u32 \<Rightarrow> u32 \<Rightarrow> canvas \<Rightarrow> canvas" where
  "draw_bar_horiz_particles x y w h used whole col tick = seq
     [fill_rect x y w h (SOMA_RGB 8 8 16), border_rect x y w h 1 SOMA_CYAN_DIM,
      if whole > 0
      then for_loop 0 (min (to_i32 (to_u32 w * used div whole)) (w - 2)) (\<lambda>i.
             let bright = cdiv (isin ((to_u32 (i * 8) - tick * 4) AND 63) * 60) 127 + 60
             in if bright > 90 \<or> cmod i 3 = 0
                then vline (x + 1 + i) (y + 1) (h - 2) (brightened bright col) else id)
      else id]"

definition draw_heatmap :: "int \<Rightarrow> int \<Rightarrow> int \<Rightarrow> int \<Rightarrow> u32 \<Rightarrow> u32 \<Rightarrow> u32 \<Rightarrow> canvas \<Rightarrow> canvas" where
  "draw_heatmap x y w h pct tick base_col =
     (let cols = cdiv w 5; rows = cdiv h 5
      in for_loop 0 rows (\<lambda>r. for_loop 0 cols (\<lambda>c.
           let block_pct = cdiv ((c + r * cols) * 100) (cols * rows)
           in if block_pct < to_i32 pct
              then let bright = cdiv (isin ((to_u32 (c * 9 + r * 13) - tick * 3) AND 63) * 40) 127 + 60
                   in fill_rect (x + c * 5) (y + r * 5) 4 4 (brightened bright base_col)
              else fill_rect (x + c * 5) (y + r * 5) 4 4 (SOMA_RGB 5 10 20))))"

definition draw_radar :: "int \<Rightarrow> int \<Rightarrow> int \<Rightarrow> u32 \<Rightarrow> canvas \<Rightarrow> canvas" where
  "draw_radar cx cy r tick =
     (let angle = cmod (to_i32 (tick * 2)) 64
      in seq [draw_circle cx cy r SOMA_CYAN_DIM, draw_circle cx cy (cdiv r 2) SOMA_CYAN_DIM,
        draw_line (cx - r) cy (cx + r) cy SOMA_CYAN_DIM, draw_line cx (cy - r) cx (cy + r) SOMA_CYAN_DIM,
        draw_line cx cy (cx + cdiv (r * icos (to_u32 angle)) 127)
          (cy + cdiv (r * isin (to_u32 angle)) 127) SOMA_GREEN,
        for_loop 1 8 (\<lambda>i. let trail_ang = to_u32 (cmod (angle - i + 64) 64)
          in draw_line cx cy (cx + cdiv (r * icos trail_ang) 127) (cy + cdiv (r * isin trail_ang) 127)
               (SOMA_RGB 0 (to_u32 (255 - i * 30)) (to_u32 (80 - i * 10)))),
        for_loop 0 4 (\<lambda>b.
          let b_ang = cmod (b * 19 + 7) 64;
              b_dist = cdiv r 4 + cmod (b * 12) (r - cdiv r 4);
              bx = cx + cdiv (b_dist * icos (to_u32 b_ang)) 127;
              yb = cy + cdiv (b_dist * isin (to_u32 b_ang)) 127;
              diff = cmod (angle - b_ang + 64) 64
          in fill_rect (bx - 1) (yb - 1) 3 3
               (if diff < 12 then SOMA_RGB (to_u32 (255 - diff * 20)) 255 (to_u32 (255 - diff * 20))
                else SOMA_CYAN_DIM))])"

definition paint_peer :: "int \<Rightarrow> int \<Rightarrow> int \<Rightarrow> int \<Rightarrow> u32 \<Rightarrow> int \<Rightarrow> int \<Rightarrow> soma_peer \<Rightarrow> canvas \<Rightarrow> canvas" where
  "paint_peer cx cy w h tick n_peers i peer =
     (let p_ang = to_u32 (cmod (to_i32 (tick div 8 + to_u32 (cdiv (i * 64) n_peers))) 64);
          wave = isin (to_u32 (cmod (to_i32 (tick div 2 + to_u32 (i * 10))) 64));
          dist = (if w < h then cdiv w 2 else cdiv h 2) - 25 + cdiv (wave * 10) 127;
          x = cx + cdiv (dist * icos p_ang) 127; y = cy + cdiv (dist * isin p_ang) 127;
          p_col = soma_state_color (peer_state peer);
          pulse = isin (to_u32 (cmod (to_i32 (tick * 3 - to_u32 dist)) 64));
          phase = (tick + to_u32 (i * 15)) mod 40;
          pkt_dist = to_i32 (to_u32 dist * phase div 10)
      in seq [draw_line cx cy x y (if pulse > 0 then p_col else SOMA_CYAN_DIM),
        fill_rect (x - 2) (y - 2) 5 5 p_col,
        if phase < 10
        then fill_rect (cx + cdiv (pkt_dist * icos p_ang) 127 - 1)
               (cy + cdiv (pkt_dist * isin p_ang) 127 - 1) 3 3 SOMA_WHITE
        else id,
        draw_str_center x (y + 8) (cstr (peer_id peer)) SOMA_WHITE 1])"

definition draw_constellation :: "soma \<Rightarrow> int \<Rightarrow> int \<Rightarrow> int \<Rightarrow> int \<Rightarrow> u32 \<Rightarrow> canvas \<Rightarrow> canvas" where
  "draw_constellation st cx cy w h tick =
     (let n_peers = min (int (peer_count st)) 6
      in seq [draw_circle cx cy 6 SOMA_CYAN, draw_str_center cx (cy + 12) ''SOMA'' SOMA_CYAN_DIM 1,
        for_loop 0 n_peers (\<lambda>i. if peer_active (peers st ! nat i)
          then paint_peer cx cy w h tick n_peers i (peers st ! nat i) else id)])"

definition state_name :: "node_state \<Rightarrow> string" where
  "state_name s = (case s of OO_ACTIVE \<Rightarrow> ''ACTIVE'' | OO_DEGRADED \<Rightarrow> ''DEGRADED''
     | OO_ISOLATED \<Rightarrow> ''ISOLATED'' | OO_EMERGENCY \<Rightarrow> ''EMERGENCY'' | OO_SLEEPING \<Rightarrow> ''SLEEPING'')"

definition dplus_name :: "dplus_mode \<Rightarrow> string" where
  "dplus_name m = (case m of DPLUS_SOLAR \<Rightarrow> ''SOLAR'' | DPLUS_LUNAR \<Rightarrow> ''LUNAR'' | DPLUS_SAFE \<Rightarrow> ''SAFE'')"

definition blueprint_panel :: "desktop \<Rightarrow> u32 \<Rightarrow> canvas \<Rightarrow> canvas" where
  "blueprint_panel d tick =
     (let st = g_soma d; w = wide (scr d); h = high (scr d);
          x = w 5 + g_plx_x d; y = h 5 + g_plx_y d; pw = w 270; ry = y + 18;
          wp = ucast (warden_pressure st)
      in seq [draw_panel x y pw (h 250) ''SYNAPTIC BLUEPRINT'' SOMA_CYAN,
        draw_str (x + 4) ry ''STATE:'' SOMA_CYAN_DIM 1,
        draw_str (x + 46) ry (state_name (node_state st)) (soma_state_color (node_state st)) 1,
        draw_str (x + 4) (ry + 12) ''WARDEN:'' SOMA_CYAN_DIM 1,
        draw_bar_horiz_particles (x + 52) (ry + 12) (pw - 58) 8 wp 255 (warden_color wp) tick,
        draw_str (x + 4) (ry + 26) ''UP:'' SOMA_CYAN_DIM 1,
        draw_str (x + 22) (ry + 26) (cstr (soma_fmt_time (uptime_sec st))) SOMA_WHITE 1,
        draw_str (x + 4) (ry + 38) ''TPS:'' SOMA_CYAN_DIM 1,
        draw_str (x + 28) (ry + 38) (soma_uint_to_dec (tokens_per_sec st)) SOMA_GREEN 1,
        draw_str (x + 4) (ry + 50) ''DPLUS:'' SOMA_CYAN_DIM 1,
        draw_str (x + 44) (ry + 50) (dplus_name (dplus_mode st)) SOMA_YELLOW 1,
        draw_str (x + 4) (ry + 62) ''TOKENS:'' SOMA_CYAN_DIM 1,
        draw_str (x + 50) (ry + 62) (soma_uint_to_dec (ucast (tokens_generated st AND 0xFFFFFFFF))) SOMA_CYAN 1])"

definition analyze_panel :: "desktop \<Rightarrow> u32 \<Rightarrow> canvas \<Rightarrow> canvas" where
  "analyze_panel d tick =
     (let st = g_soma d; w = wide (scr d); h = high (scr d);
          x = w 680 + g_plx_x d; y = h 5 + g_plx_y d; pw = w 270
      in seq (draw_panel x y pw (h 250) ''ANALYZE'' SOMA_MAGENTA #
        map (\<lambda>i.
          let a = arenas st ! i; ry = y + 18 + 24 * int i;
              pct = (if total_mb a > 0 then used_mb a * 100 div total_mb a else 0);
              mcol = (if pct > 85 then SOMA_RED else if pct > 60 then SOMA_AMBER else SOMA_MAGENTA)
          in seq [draw_str (x + 4) ry (cstr (ar_name a)) SOMA_CYAN_DIM 1,
               draw_heatmap (x + 4) (ry + 9) (pw - 40) 10 pct tick mcol,
               draw_str (x + pw - 30) ry (soma_uint_to_dec pct @ ''%'') mcol 1])
          [0..<min (arena_count st) 5]))"

definition log_panel :: "desktop \<Rightarrow> u32 \<Rightarrow> canvas \<Rightarrow> canvas" where
  "log_panel d tick =
     (let st = g_soma d; w = wide (scr d); h = high (scr d);
          x = w 2 + g_plx_x d; y = h 350 + g_plx_y d; pw = w 290;
          ec = min (event_count st) 6
      in seq (draw_panel x y pw (h 330) ''SYS_LOG [SECTOR SCAN]'' SOMA_GREEN #
        map (\<lambda>i.
          let e = events st ! nat (cmod (int (event_head st) - int ec + int i + 8) 8);
              ry = y + 18 + 24 * int i
          in seq [draw_str (x + 4) ry (cstr (ev_kind e)) SOMA_GREEN 1,
               draw_str (x + 4) (ry + 10) (cstr (ev_desc e)) SOMA_CYAN_DIM 1]) [0..<ec]
        @ [draw_radar (x + pw - 60) (y + 70) 45 tick]))"

definition nodes_panel :: "desktop \<Rightarrow> u32 \<Rightarrow> canvas \<Rightarrow> canvas" where
  "nodes_panel d tick =
     (let st = g_soma d; w = wide (scr d); h = high (scr d);
          x = w 700 + g_plx_x d; y = h 350 + g_plx_y d; pw = w 270; ph = h 330
      in seq [draw_panel x y pw ph ''NEURAL NODES'' SOMA_AMBER,
        draw_constellation st (x + cdiv pw 2) (y + cdiv ph 2) pw (ph - 40) tick,
        draw_str (x + 4) (y + ph - 14)
          (''PEERS: '' @ soma_uint_to_dec (of_nat (peer_count st)) @ ''/6'') SOMA_AMBER 1])"

definition render_panels :: "u32 \<Rightarrow> desktop \<Rightarrow> desktop" where
  "render_panels tick d = on_canvas (seq [blueprint_panel d tick, analyze_panel d tick,
     log_panel d tick, nodes_panel d tick]) d"

section \<open>Layer 5: chat\<close>

definition wave_ring :: "desktop \<Rightarrow> int \<Rightarrow> int \<Rightarrow> int \<Rightarrow> canvas \<Rightarrow> canvas" where
  "wave_ring d wave_cx wave_cy base_r =
     (let st = g_soma d;
          bc = (if voice_active st then SOMA_GREEN else SOMA_CYAN_DIM);
          radius = (\<lambda>i. base_r + to_i32 (ucast (voice_waveform st ! nat i) * 25 div 255));
          spot = (\<lambda>i r. (wave_cx + cdiv (r * icos (to_u32 i)) 127, wave_cy + cdiv (r * isin (to_u32 i)) 127))
      in for_loop 0 64 (\<lambda>i.
           let (x_out, y_out) = spot i (radius i); (x_in, y_in) = spot i base_r;
               p = (if i > 0 then i - 1 else 63); (px_out, py_out) = spot p (radius p)
           in seq [draw_line x_in y_in x_out y_out bc, draw_line px_out py_out x_out y_out bc]))"

text \<open>The backward search for the third line feed from the end.\<close>

fun third_newline :: "string \<Rightarrow> nat \<Rightarrow> nat \<Rightarrow> nat" where
  "third_newline s 0 newlines = 0"
| "third_newline s (Suc i) newlines =
     (if s ! i = CHR 0x0A
      then (if newlines + 1 \<ge> 3 then i + 1 else third_newline s i (newlines + 1))
      else third_newline s i newlines)"

fun chat_lines :: "int \<Rightarrow> int \<Rightarrow> string \<Rightarrow> string \<Rightarrow> int \<Rightarrow> canvas \<Rightarrow> canvas" where
  "chat_lines x limit [] line y c = c"
| "chat_lines x limit (ch # s) line y c =
     (if \<not> y < limit then c
      else if ch = CHR 0x0A \<or> length line \<ge> 50
      then (if length line > 0 then chat_lines x limit s [] (y + 10) (draw_str x y line SOMA_WHITE 1 c)
            else chat_lines x limit s [] y c)
      else chat_lines x limit s (if length line < 63 then line @ [ch] else line) y c)"

definition paint_chat :: "desktop \<Rightarrow> u32 \<Rightarrow> canvas \<Rightarrow> canvas" where
  "paint_chat d tick =
     (let st = g_soma d; h = high (scr d);
          cx = wide (scr d) 50 + g_plx_x d; cy = h 755 + g_plx_y d; cw = wide (scr d) 900; ch = h 195;
          wave_cx = cx + cdiv (cw * 2) 10; wave_cy = cy + cdiv ch 2; base_r = h 30;
          txt_x = cx + cdiv (cw * 45) 100; txt_y = cy + 18;
          txt_w = cw - (txt_x - cx) - 4; txt_h = ch - 30;
          resp = cstr (response_buf st);
          line_start = third_newline resp (length resp) 0;
          inp_y = txt_y + txt_h - 18;
          inp_line = ''OO> '' @ take (min (input_len st) 50) (input_buf st)
             @ (if tick div 30 AND 1 \<noteq> 0 then ''_'' else [])
      in seq [tint_rect cx cy cw ch SOMA_PANEL_BG 170, border_rect cx cy cw ch 2 SOMA_CYAN,
        draw_str_center (cx + cdiv cw 2) (cy + 4) ''[ STREAM OF CONSCIOUSNESS ]'' SOMA_CYAN 1,
        draw_str_center wave_cx (wave_cy + base_r + h 20) ''VOICE CYMATICS''
          (if voice_active st then SOMA_GREEN else SOMA_CYAN_DIM) 1,
        wave_ring d wave_cx wave_cy base_r,
        border_rect txt_x txt_y txt_w txt_h 1 SOMA_CYAN_DIM,
        chat_lines (txt_x + 4) (txt_y + txt_h - 22) (drop line_start resp @ [CHR 0x0A]) [] (txt_y + 4),
        fill_rect (txt_x + 2) (inp_y - 2) (txt_w - 4) 16 (SOMA_RGB 5 10 20),
        draw_str (txt_x + 4) inp_y (cstr inp_line) SOMA_CYAN 1])"

definition render_chat :: "u32 \<Rightarrow> desktop \<Rightarrow> desktop" where
  "render_chat tick d = on_canvas (paint_chat d tick) d"

section \<open>Layers 6 and 7: corners and glitch\<close>

definition paint_corners :: "desktop \<Rightarrow> u32 \<Rightarrow> canvas \<Rightarrow> canvas" where
  "paint_corners d tick =
     (let st = g_soma d; w = wide (scr d); h = high (scr d);
          sec = (if tsc_hz st > 0 then ucast (tsc_now st div tsc_hz st) else uptime_sec st);
          wp = ucast (warden_pressure st); wc = warden_color wp
      in seq [draw_str (w 3) (h 3) ''STREAM OF CONSCIOUSNESS'' SOMA_CYAN 1,
        draw_str (w 3) (h 3 + 10) (cstr (organism_id st)) SOMA_CYAN_DIM 1,
        draw_str (w 3) (h 3 + 20) (''D+:'' @ dplus_name (dplus_mode st)) SOMA_YELLOW 1,
        draw_str (w 850) (h 3) (cstr (soma_fmt_time sec)) SOMA_CYAN 1,
        draw_str (w 850) (h 3 + 10) (''PEERS:'' @ soma_uint_to_dec (swarm_peer_count st)) SOMA_CYAN_DIM 1,
        draw_str (w 3) (h 960) (''WARDEN:'' @ soma_uint_to_dec wp) wc 1,
        draw_bar_horiz_particles (w 3) (h 960 + 10) (w 80) 6 wp 255 wc tick,
        draw_str (w 880) (h 960) (''TPS:'' @ soma_uint_to_dec (tokens_per_sec st)) SOMA_GREEN 1,
        draw_str (w 880) (h 960 + 10) ''SOMA V1.0'' SOMA_CYAN_DIM 1])"

definition render_hud_corners :: "u32 \<Rightarrow> desktop \<Rightarrow> desktop" where
  "render_hud_corners tick d = on_canvas (paint_corners d tick) d"

definition glitch_band :: "u32 \<times> canvas \<Rightarrow> u32 \<times> canvas" where
  "glitch_band = (\<lambda>(rng, c).
     let r1 = rng_next rng; r2 = rng_next r1; r3 = rng_next r2; r4 = rng_next r3;
         band_y = r1 mod g_sh c; band_h = 2 + r2 mod 12; shift = r4 mod 20
     in (r4, for_loop (uint band_y) (min (uint (band_y + band_h)) (uint (g_sh c))) (\<lambda>y.
           for_loop 0 (uint (g_sw c)) (\<lambda>x c.
             let src_x = uint ((to_u32 x + shift) mod g_sw c)
             in set_pixel x y (g_fb c (pixel_at c x y) XOR (g_fb c (pixel_at c src_x y) AND r3)) c)) c))"

definition render_glitch :: "desktop \<Rightarrow> desktop" where
  "render_glitch d =
     (let st = g_soma d;
          g = (if warden_pressure st > 180 \<and> glitch_frames st = 0 then 8 else glitch_frames st)
      in if g = 0 then d
         else let r = rng_next (g_rng d);
                  (rng, c) = (glitch_band ^^ (3 + unat (r mod 3))) (r, scr d)
              in d\<lparr> g_soma := st\<lparr> glitch_frames := g - 1 \<rparr>, g_rng := rng, scr := c \<rparr>)"

section \<open>The boot sequence\<close>

definition boot_text :: "desktop \<Rightarrow> u32 \<Rightarrow> canvas \<Rightarrow> canvas" where
  "boot_text d tick =
     (let tx = wide (scr d) 5; ty = high (scr d) 5;
          line = (\<lambda>t n s col. if tick > t then draw_str tx (ty + 40 + 16 * n) s col 1 else id)
      in seq [draw_str tx ty ''DIOP_MIND KERNEL v2.1.0'' SOMA_CYAN 2,
        line 10 0 ''CPU: X86_64 ... OK'' SOMA_WHITE, line 20 1 ''GOP FRAMEBUFFER ... ONLINE'' SOMA_GREEN,
        line 30 2 ''MOUNTING SYNAPTIC FABRIC ...'' SOMA_CYAN_DIM, line 40 3 ''FABRIC SYNCED.'' SOMA_CYAN,
        line 50 4 ''AWAKENING OPERATING ORGANISM...'' SOMA_MAGENTA,
        if tick div 5 mod 2 = 0 then fill_rect tx (ty + 40 + 16 * 5) 8 12 SOMA_WHITE else id])"

definition boot_core :: "desktop \<Rightarrow> u32 \<Rightarrow> canvas \<Rightarrow> canvas" where
  "boot_core d tick =
     (let w = wide (scr d); h = high (scr d); cx = w 500 - g_plx_x d; cy = h 380 - g_plx_y d;
          current_r = to_i32 ((tick - 60) * to_u32 (h 120) div 60);
          bar_w = w 400; bar_h = h 10; bar_x = w 500 - cdiv bar_w 2; bar_y = h 800;
          fill_w = to_i32 ((tick - 60) * to_u32 bar_w div 60)
      in seq [draw_circle cx cy current_r SOMA_CYAN,
        if tick > 90 then draw_circle cx cy (current_r + h 20) SOMA_CYAN_DIM else id,
        border_rect bar_x bar_y bar_w bar_h 1 SOMA_CYAN_DIM,
        fill_rect (bar_x + 2) (bar_y + 2) (fill_w - 4) (bar_h - 4) SOMA_CYAN,
        draw_str_center (w 500) (bar_y + 18) ''LOADING NEURAL WEIGHTS'' SOMA_WHITE 1])"

definition boot_wireframe :: "desktop \<Rightarrow> u32 \<Rightarrow> canvas \<Rightarrow> canvas" where
  "boot_wireframe d tick =
     (let w = wide (scr d); h = high (scr d); X = g_plx_x d; Y = g_plx_y d;
          h_mult = cdiv (to_i32 (tick - 120) * 100) 60; grown = (\<lambda>n. cdiv (n * h_mult) 100)
      in seq [border_rect (w 5 + X) (h 5 + Y) (w 270) (grown (h 250)) 1 SOMA_CYAN_DIM,
        border_rect (w 680 + X) (h 5 + Y) (w 270) (grown (h 250)) 1 SOMA_MAGENTA,
        border_rect (w 2 + X) (h 350 + Y) (w 290) (grown (h 330)) 1 SOMA_GREEN,
        border_rect (w 700 + X) (h 350 + Y) (w 270) (grown (h 330)) 1 SOMA_AMBER,
        border_rect (w 50 + X) (h 755 + Y) (w 900) (grown (h 195)) 1 SOMA_CYAN,
        if tick mod 20 < 10
        then draw_str_center (w 500) (h 380 - Y + h 180) ''SYSTEM ONLINE'' SOMA_WHITE 2 else id])"

definition render_boot_sequence :: "u32 \<Rightarrow> desktop \<Rightarrow> desktop" where
  "render_boot_sequence tick d0 =
     (let d = on_canvas clear_screen d0
      in if tick < 60 then on_canvas (boot_text d tick) d
         else if tick < 120 then on_canvas (boot_core d tick) (render_background d)
         else if tick < 180
         then on_canvas (boot_wireframe d tick) (render_sphere tick (render_background d))
         else d)"

section \<open>Frames and the main loop\<close>

definition soma_render_frame :: "desktop \<Rightarrow> desktop" where
  "soma_render_frame d0 =
     (let tick = g_tick d0;
          d = d0\<lparr> g_plx_x := cdiv (isin (tick div 8 AND 63) * 25) 127,
                  g_plx_y := cdiv (icos (tick div 11 AND 63) * 15) 127 \<rparr>
      in if tick < 180 then (render_boot_sequence tick d)\<lparr> g_tick := tick + 1 \<rparr>
         else (render_glitch (render_hud_corners tick (render_chat tick (render_panels tick
                (render_code_frags tick (render_sphere tick (render_data_rain tick
                  (render_background d))))))))\<lparr> g_tick := tick + 1 \<rparr>)"

text \<open>
  \<open>efi_main\<close> after the graphics protocol has been found: \<open>base\<close> are the low 32 bits of the address
  of the frame buffer, which seed the generator.
\<close>

definition desktop_start :: "canvas \<Rightarrow> u32 \<Rightarrow> desktop" where
  "desktop_start c base =
     (let rng = 0xDEADBEEF XOR base;
          (rng, stars) = init_stars c rng;
          (rng, drops) = init_rain rng
      in \<lparr> scr = c, g_rng = rng, g_tick = 0, g_stars = stars, g_rain = drops,
           g_soma = soma_state_demo_fill 1 soma_boot, g_plx_x = 0, g_plx_y = 0, uart_line = [] \<rparr>)"

text \<open>
  One round of the main loop: the bytes received on the serial port, then the demo state, the
  frame and a key, if one was pressed. \<open>None\<close>: the exit key.
\<close>

definition desktop_round :: "string \<Rightarrow> efi_key option \<Rightarrow> desktop \<Rightarrow> desktop option" where
  "desktop_round received key d =
     (let (line, st) = soma_uart_poll received (uart_line d, g_soma d);
          d = soma_render_frame (d\<lparr> uart_line := line, g_soma := soma_state_demo_fill (g_tick d) st \<rparr>)
      in case key of
           None \<Rightarrow> Some d
         | Some k \<Rightarrow> if ScanCode k = 0x0C then None
                     else Some (d\<lparr> g_soma := soma_key (UnicodeChar k) (g_soma d) \<rparr>))"

end
