(* ===== verification/Hud_Drawing.thy ===== *)
theory Hud_Drawing
  imports Hud_Layers
begin

text \<open>
  Lines and clipping: \<open>draw_line\<close> always ends and draws a connected path of pixels between its
  end points, and no drawing statement, layer or frame writes outside the frame buffer.
\<close>

section \<open>Lines\<close>

abbreviation plot :: "u32 \<Rightarrow> int \<times> int \<Rightarrow> canvas \<Rightarrow> canvas" where
  "plot col p \<equiv> px (fst p) (snd p) col"

text \<open>A path from one pixel to another whose steps go to one of the eight neighbours.\<close>

fun pixel_path :: "int \<times> int \<Rightarrow> (int \<times> int) list \<Rightarrow> int \<times> int \<Rightarrow> bool" where
  "pixel_path p [] q \<longleftrightarrow> False"
| "pixel_path p [r] q \<longleftrightarrow> r = p \<and> r = q"
| "pixel_path p (r # s # ps) q \<longleftrightarrow> r = p \<and> \<bar>fst s - fst r\<bar> \<le> 1 \<and> \<bar>snd s - snd r\<bar> \<le> 1
     \<and> s \<noteq> r \<and> pixel_path s (s # ps) q"

lemma pixel_path_Cons:
  "pixel_path s ps q \<Longrightarrow> \<bar>fst s - fst r\<bar> \<le> 1 \<Longrightarrow> \<bar>snd s - snd r\<bar> \<le> 1 \<Longrightarrow> s \<noteq> r \<Longrightarrow> pixel_path r (r # ps) q"
  by (cases ps; cases "tl ps") (auto elim: pixel_path.elims)

text \<open>
  The error term is a function of the steps made so far, \<open>i\<close> along the first axis and \<open>j\<close> along
  the second; along the longer axis every step moves, and the bounds on the error force the
  other count at the end.
\<close>

lemma line_last:
  assumes "0 < a" "0 \<le> b" "b < 2 * a * k" "2 * a * k < 3 * (a :: int)"
  shows "k = 1"
proof -
  have "0 < k" using assms by (smt (verit) mult_nonneg_nonpos)
  moreover have "k < 2"
  proof (rule ccontr)
    assume "\<not> k < 2"
    then have "2 * a * 2 \<le> 2 * a * k" using assms(1) by (intro mult_left_mono) auto
    with assms(1,4) show False by simp
  qed
  ultimately show ?thesis by simp
qed

lemma line_flat:
  assumes "0 \<le> dy" "dy \<le> dx" "0 < dx" "\<bar>sx\<bar> = 1" "\<bar>sy\<bar> = 1" "i \<le> dx"
    and "- dy < 2 * (dx * (j + 1) - dy * (i + 1))" "2 * (dx * (j + 1) - dy * (i + 1)) < 3 * dx - 2 * dy"
  shows "\<exists>ps. pixel_path (x1 - sx * (dx - i), y1 - sy * (dy - j)) ps (x1, y1)
    \<and> length ps = nat (dx - i) + 1
    \<and> line_loop dx dy sx sy x1 y1 (x1 - sx * (dx - i)) (y1 - sy * (dy - j))
        (dx * (j + 1) - dy * (i + 1)) col c = Some (fold (plot col) ps c)"
  using assms(6-8)
proof (induction "nat (dx - i)" arbitrary: i j c)
  case 0
  then have i: "i = dx" by simp
  have "j + 1 - dy = 1"
  proof (rule line_last [OF assms(3,1)])
    show "dy < 2 * dx * (j + 1 - dy)" "2 * dx * (j + 1 - dy) < 3 * dx"
      using 0(3,4) by (simp_all add: i algebra_simps)
  qed
  with i show ?case
    by (intro exI [of _ "[(x1, y1)]"]) (simp add: line_loop.simps)
next
  case (Suc n)
  define err where "err = dx * (j + 1) - dy * (i + 1)"
  define j' where "j' = (if 2 * err < dx then j + 1 else j)"
  have i: "i < dx" "nat (dx - (i + 1)) = n" using Suc.hyps(2) by auto
  have err': "dx * (j' + 1) - dy * (i + 1 + 1) = err - dy + (if 2 * err < dx then dx else 0)"
    by (simp add: err_def j'_def algebra_simps)
  have b: "- dy < 2 * err" "2 * err < 3 * dx - 2 * dy" using Suc.prems(2,3) by (simp_all add: err_def)
  have b': "- dy < 2 * (dx * (j' + 1) - dy * (i + 1 + 1))"
    "2 * (dx * (j' + 1) - dy * (i + 1 + 1)) < 3 * dx - 2 * dy"
    unfolding err' using b assms(1,2,3) by auto
  obtain ps where ps: "pixel_path (x1 - sx * (dx - (i + 1)), y1 - sy * (dy - j')) ps (x1, y1)"
    "length ps = nat (dx - (i + 1)) + 1"
    "line_loop dx dy sx sy x1 y1 (x1 - sx * (dx - (i + 1))) (y1 - sy * (dy - j'))
       (dx * (j' + 1) - dy * (i + 1 + 1)) col (plot col (x1 - sx * (dx - i), y1 - sy * (dy - j)) c)
      = Some (fold (plot col) ps (plot col (x1 - sx * (dx - i), y1 - sy * (dy - j)) c))"
    using Suc.hyps(1) [of "i + 1" j'] i b' by fastforce
  have s: "sx \<noteq> 0" "\<bar>sx\<bar> \<le> 1" "\<bar>sy\<bar> \<le> 1" using assms(4,5) by auto
  let ?r = "(x1 - sx * (dx - i), y1 - sy * (dy - j))"
  have "pixel_path ?r (?r # ps) (x1, y1)"
    using ps(1) s by (rule_tac pixel_path_Cons) (auto simp: j'_def algebra_simps)
  moreover have "line_loop dx dy sx sy x1 y1 (x1 - sx * (dx - i)) (y1 - sy * (dy - j)) err col c
      = Some (fold (plot col) (?r # ps) c)"
  proof -
    have xy: "x1 - sx * (dx - (i + 1)) = x1 - sx * (dx - i) + sx"
      "y1 - sy * (dy - j') = (if 2 * err < dx then y1 - sy * (dy - j) + sy else y1 - sy * (dy - j))"
      by (simp_all add: j'_def algebra_simps)
    show ?thesis
      using ps(3) [unfolded err' xy] i(1) s(1) b(1) by (subst line_loop.simps) simp
  qed
  ultimately show ?case
    using ps(2) i by (intro exI [of _ "?r # ps"]) (simp add: err_def)
qed

lemma line_steep:
  assumes "0 \<le> dx" "dx < dy" "\<bar>sx\<bar> = 1" "\<bar>sy\<bar> = 1" "j \<le> dy"
    and "2 * dx - 3 * dy < 2 * (dx * (j + 1) - dy * (i + 1))" "2 * (dx * (j + 1) - dy * (i + 1)) < dx"
  shows "\<exists>ps. pixel_path (x1 - sx * (dx - i), y1 - sy * (dy - j)) ps (x1, y1)
    \<and> length ps = nat (dy - j) + 1
    \<and> line_loop dx dy sx sy x1 y1 (x1 - sx * (dx - i)) (y1 - sy * (dy - j))
        (dx * (j + 1) - dy * (i + 1)) col c = Some (fold (plot col) ps c)"
  using assms(5-7)
proof (induction "nat (dy - j)" arbitrary: i j c)
  case 0
  then have j: "j = dy" by simp
  have "i + 1 - dx = 1"
  proof (rule line_last [of dy dx])
    show "dx < 2 * dy * (i + 1 - dx)" "2 * dy * (i + 1 - dx) < 3 * dy"
      using 0(3,4) by (simp_all add: j algebra_simps)
  qed (use assms(1,2) in auto)
  with j show ?case
    by (intro exI [of _ "[(x1, y1)]"]) (simp add: line_loop.simps)
next
  case (Suc n)
  define err where "err = dx * (j + 1) - dy * (i + 1)"
  define i' where "i' = (if 2 * err > - dy then i + 1 else i)"
  have j: "j < dy" "nat (dy - (j + 1)) = n" using Suc.hyps(2) by auto
  have err': "dx * (j + 1 + 1) - dy * (i' + 1) = err - (if 2 * err > - dy then dy else 0) + dx"
    by (simp add: err_def i'_def algebra_simps)
  have b: "2 * dx - 3 * dy < 2 * err" "2 * err < dx" using Suc.prems(2,3) by (simp_all add: err_def)
  have b': "2 * dx - 3 * dy < 2 * (dx * (j + 1 + 1) - dy * (i' + 1))"
    "2 * (dx * (j + 1 + 1) - dy * (i' + 1)) < dx"
    unfolding err' using b assms(1,2) by auto
  obtain ps where ps: "pixel_path (x1 - sx * (dx - i'), y1 - sy * (dy - (j + 1))) ps (x1, y1)"
    "length ps = nat (dy - (j + 1)) + 1"
    "line_loop dx dy sx sy x1 y1 (x1 - sx * (dx - i')) (y1 - sy * (dy - (j + 1)))
       (dx * (j + 1 + 1) - dy * (i' + 1)) col (plot col (x1 - sx * (dx - i), y1 - sy * (dy - j)) c)
      = Some (fold (plot col) ps (plot col (x1 - sx * (dx - i), y1 - sy * (dy - j)) c))"
    using Suc.hyps(1) [of "j + 1" i'] j b' by fastforce
  have s: "sy \<noteq> 0" "\<bar>sx\<bar> \<le> 1" "\<bar>sy\<bar> \<le> 1" using assms(3,4) by auto
  let ?r = "(x1 - sx * (dx - i), y1 - sy * (dy - j))"
  have "pixel_path ?r (?r # ps) (x1, y1)"
    using ps(1) s by (rule_tac pixel_path_Cons) (auto simp: i'_def algebra_simps)
  moreover have "line_loop dx dy sx sy x1 y1 (x1 - sx * (dx - i)) (y1 - sy * (dy - j)) err col c
      = Some (fold (plot col) (?r # ps) c)"
  proof -
    have xy: "y1 - sy * (dy - (j + 1)) = y1 - sy * (dy - j) + sy"
      "x1 - sx * (dx - i') = (if 2 * err > - dy then x1 - sx * (dx - i) + sx else x1 - sx * (dx - i))"
      by (simp_all add: i'_def algebra_simps)
    show ?thesis
      using ps(3) [unfolded err' xy] j(1) s(1) b(2) by (subst line_loop.simps) simp
  qed
  ultimately show ?case
    using ps(2) j by (intro exI [of _ "?r # ps"]) (simp add: err_def)
qed

definition line_direction :: "int \<Rightarrow> int" where
  "line_direction d = (if d > 0 then 1 else -1)"

lemma line_path:
  "\<exists>ps. pixel_path (x0, y0) ps (x1, y1) \<and> length ps = nat (max \<bar>x1 - x0\<bar> \<bar>y1 - y0\<bar>) + 1
    \<and> line_loop \<bar>x1 - x0\<bar> \<bar>y1 - y0\<bar> (line_direction (x1 - x0)) (line_direction (y1 - y0)) x1 y1 x0 y0
        (\<bar>x1 - x0\<bar> - \<bar>y1 - y0\<bar>) col c = Some (fold (plot col) ps c)"
proof -
  define dx dy where d: "dx = \<bar>x1 - x0\<bar>" "dy = \<bar>y1 - y0\<bar>"
  define sx sy :: int where s: "sx = line_direction (x1 - x0)" "sy = line_direction (y1 - y0)"
  have st: "x1 - sx * (dx - 0) = x0" "y1 - sy * (dy - 0) = y0" by (simp_all add: d s line_direction_def)
  have "\<exists>ps. pixel_path (x0, y0) ps (x1, y1) \<and> length ps = nat (max dx dy) + 1
    \<and> line_loop dx dy sx sy x1 y1 x0 y0 (dx - dy) col c = Some (fold (plot col) ps c)"
  proof (cases "dy \<le> dx")
    case True
    show ?thesis
    proof (cases "dx = 0")
      case True
      with \<open>dy \<le> dx\<close> have "x1 = x0" "y1 = y0" "dx = 0" "dy = 0" by (auto simp: d)
      then show ?thesis by (intro exI [of _ "[(x0, y0)]"]) (simp add: line_loop.simps)
    next
      case False
      with True have "0 < dx" "0 \<le> dy" by (auto simp: d)
      with True line_flat [of dy dx sx sy 0 0 x1 y1 col c, unfolded st] show ?thesis
        by (auto simp: s line_direction_def max_def)
    qed
  next
    case False
    then have "0 \<le> dx" "dx < dy" by (auto simp: d)
    with line_steep [of dx dy sx sy 0 0 x1 y1 col c, unfolded st] show ?thesis
      by (auto simp: s line_direction_def max_def)
  qed
  then show ?thesis by (simp add: d s)
qed

lemma draw_line_path:
  "\<exists>ps. pixel_path (x0, y0) ps (x1, y1) \<and> length ps = nat (max \<bar>x1 - x0\<bar> \<bar>y1 - y0\<bar>) + 1
    \<and> draw_line x0 y0 x1 y1 col c = fold (plot col) ps c"
  using line_path [of x0 y0 x1 y1 col c] by (auto simp: draw_line_def Let_def line_direction_def)

text \<open>
  lines end. For any two points the endless loop of \<open>draw_line\<close> is left after as many steps
  as the longer of the two distances; the pixels it sets form a path from the first point to the
  second on which each is a neighbour of the one before.
\<close>

theorem line_ends:
  "\<exists>ps. pixel_path (x0, y0) ps (x1, y1) \<and> length ps = nat (max \<bar>x1 - x0\<bar> \<bar>y1 - y0\<bar>) + 1
    \<and> line_loop \<bar>x1 - x0\<bar> \<bar>y1 - y0\<bar> (line_direction (x1 - x0)) (line_direction (y1 - y0)) x1 y1 x0 y0
        (\<bar>x1 - x0\<bar> - \<bar>y1 - y0\<bar>) col c = Some (fold (plot col) ps c)
    \<and> draw_line x0 y0 x1 y1 col c = fold (plot col) ps c"
  using line_path [of x0 y0 x1 y1 col c] by (auto simp: draw_line_def Let_def line_direction_def)


section \<open>Clipping\<close>

definition screen_ok :: "canvas \<Rightarrow> bool" where
  "screen_ok c \<longleftrightarrow> g_sw c \<le> g_stride c \<and> unat (g_sh c) * unat (g_stride c) < 4294967296"

definition in_frame :: "canvas \<Rightarrow> u32 \<Rightarrow> bool" where
  "in_frame c i \<longleftrightarrow> unat i < unat (g_sh c) * unat (g_stride c)"

text \<open>Same geometry, and nothing outside the frame buffer has changed.\<close>

definition within :: "canvas \<Rightarrow> canvas \<Rightarrow> bool" where
  "within c c' \<longleftrightarrow> g_sw c' = g_sw c \<and> g_sh c' = g_sh c \<and> g_stride c' = g_stride c
     \<and> (\<forall>i. \<not> in_frame c i \<longrightarrow> g_fb c' i = g_fb c i)"

definition contained :: "(canvas \<Rightarrow> canvas) \<Rightarrow> bool" where
  "contained f \<longleftrightarrow> (\<forall>c. screen_ok c \<longrightarrow> within c (f c))"

named_theorems draw_intros "drawing statements stay inside the frame buffer"

lemma within_refl [simp]: "within c c"
  by (simp add: within_def)

lemma within_trans: "within c c' \<Longrightarrow> within c' c'' \<Longrightarrow> within c c''"
  by (simp add: within_def in_frame_def)

lemma within_ok: "within c c' \<Longrightarrow> screen_ok c \<Longrightarrow> screen_ok c'"
  by (simp add: within_def screen_ok_def)

lemma within_fold:
  assumes "\<And>x c'. x \<in> set xs \<Longrightarrow> within c c' \<Longrightarrow> within c' (f x c')"
  shows "within c (fold f xs c)"
proof -
  have "(\<And>x c'. x \<in> set xs \<Longrightarrow> within c c' \<Longrightarrow> within c' (f x c')) \<Longrightarrow> within c c0
      \<Longrightarrow> within c (fold f xs c0)" for c0
  proof (induction xs arbitrary: c0)
    case (Cons x xs)
    have "within c (f x c0)" using Cons.prems by (meson list.set_intros(1) within_trans)
    with Cons show ?case by simp
  qed simp
  with assms show ?thesis by simp
qed

lemma within_loop:
  assumes "\<And>i c'. a \<le> i \<Longrightarrow> i < b \<Longrightarrow> within c c' \<Longrightarrow> within c' (body i c')"
  shows "within c (for_loop a b body c)"
  unfolding for_loop_def using assms by (intro within_fold) auto

lemma contained_id [draw_intros, simp]: "contained id" "contained (\<lambda>c. c)"
  by (simp_all add: contained_def)

lemma contained_seq [draw_intros]: "list_all contained fs \<Longrightarrow> contained (seq fs)"
  unfolding contained_def seq_def list_all_iff
  by (blast intro: within_fold within_ok)

lemma contained_loop [draw_intros]: "(\<And>i. contained (body i)) \<Longrightarrow> contained (for_loop a b body)"
  unfolding contained_def by (blast intro: within_loop within_ok)

lemma contained_step [draw_intros]: "(\<And>i. contained (body i)) \<Longrightarrow> contained (for_step a b k body)"
  unfolding for_step_def by (rule contained_loop)

lemma containedD: "contained f \<Longrightarrow> screen_ok c \<Longrightarrow> within c (f c)"
  by (simp add: contained_def)

lemma contained_then: "contained f \<Longrightarrow> contained g \<Longrightarrow> screen_ok c \<Longrightarrow> within c (g (f c))"
  by (meson containedD within_ok within_trans)

lemma contained_if [draw_intros]: "contained f \<Longrightarrow> contained g \<Longrightarrow> contained (if P then f else g)"
  by simp

text \<open>A visible pixel has its place in the frame buffer.\<close>

lemma visible_in_frame:
  assumes "screen_ok c" "to_u32 x < g_sw c" "to_u32 y < g_sh c"
  shows "in_frame c (pixel_at c x y)"
proof -
  let ?X = "unat (to_u32 x)" and ?Y = "unat (to_u32 y)" and ?S = "unat (g_stride c)" and ?H = "unat (g_sh c)"
  have X: "?X < ?S" and Y: "?Y < ?H"
    using assms by (auto simp: screen_ok_def word_less_nat_alt word_le_nat_alt)
  from Y have "(?Y + 1) * ?S \<le> ?H * ?S" by (intro mult_le_mono1) simp
  moreover from X have "?Y * ?S + ?X < (?Y + 1) * ?S" by simp
  ultimately have l: "?Y * ?S + ?X < ?H * ?S" by linarith
  then have "unat (pixel_at c x y) = ?Y * ?S + ?X"
    using assms(1) unfolding pixel_at_def screen_ok_def
    by (subst unat_add_lem [THEN iffD1] | subst unat_mult_lem [THEN iffD1] | simp)+
  with l show ?thesis by (simp add: in_frame_def)
qed

lemma within_set_pixel:
  "screen_ok c \<Longrightarrow> to_u32 x < g_sw c \<Longrightarrow> to_u32 y < g_sh c \<Longrightarrow> within c (set_pixel x y col c)"
  using visible_in_frame [of c x y] by (auto simp: within_def set_pixel_def)

lemma index_in_range: "0 \<le> i \<Longrightarrow> i < to_i32 n \<Longrightarrow> to_u32 i < n"
proof -
  assume i: "0 \<le> i" "i < to_i32 n"
  then have "uint n = to_i32 n"
    using sint_lt [of n] by (simp add: uint_sint take_bit_int_eq_self)
  moreover have "uint n < 4294967296" using uint_lt2p [of n] by simp
  ultimately show "to_u32 i < n" using i by (simp add: word_less_def uint_word_of_int)
qed

section \<open>Primitives\<close>

lemma contained_px [draw_intros]: "contained (px x y col)"
  by (simp add: contained_def px_def within_set_pixel)

lemma contained_px_blend [draw_intros]: "contained (px_blend x y col alpha)"
  by (simp add: contained_def px_blend_def within_set_pixel not_le)

lemma within_span:
  assumes "screen_ok c" "\<And>i c'. 0 \<le> i \<Longrightarrow> to_u32 i < n \<Longrightarrow> screen_ok c' \<Longrightarrow> within c c' \<Longrightarrow> within c' (body i c')"
  shows "within c (for_loop (max 0 a) (min b (to_i32 n)) body c)"
  using assms by (intro within_loop) (auto intro: index_in_range within_ok)

lemma within_geometry: "within c c' \<Longrightarrow> g_sw c' = g_sw c \<and> g_sh c' = g_sh c"
  by (simp add: within_def)

lemma contained_hline [draw_intros]: "contained (hline x y w col)"
  unfolding contained_def hline_def
  by (auto simp: not_le within_geometry intro!: within_span within_set_pixel)

lemma contained_vline [draw_intros]: "contained (vline x y h col)"
  unfolding contained_def vline_def
  by (auto simp: not_le within_geometry intro!: within_span within_set_pixel)

lemma within_area:
  assumes "screen_ok c"
  shows "within c (for_loop (max 0 y) (min b (to_i32 (g_sh c))) (\<lambda>j. for_loop (max 0 x)
    (min a (to_i32 (g_sw c))) (\<lambda>i c. set_pixel i j (f i j c) c)) c)"
proof (rule within_span [OF assms])
  fix j c' assume j: "to_u32 j < g_sh c" "screen_ok c'" "within c c'"
  have "within c' (for_loop (max 0 x) (min a (to_i32 (g_sw c'))) (\<lambda>i c. set_pixel i j (f i j c) c) c')"
    using j by (intro within_span within_set_pixel) (auto simp: within_geometry)
  then show "within c' (for_loop (max 0 x) (min a (to_i32 (g_sw c))) (\<lambda>i c. set_pixel i j (f i j c) c) c')"
    using j(3) by (simp add: within_geometry)
qed

lemma contained_fill_rect [draw_intros]: "contained (fill_rect x y w h col)"
  unfolding contained_def fill_rect_def using within_area [where f = "\<lambda>_ _ _. col"] by blast

lemma contained_tint_rect [draw_intros]: "contained (tint_rect x y w h col alpha)"
  unfolding contained_def tint_rect_def
  using within_area [where f = "\<lambda>i j c. mix col (g_fb c (pixel_at c i j)) alpha"] by simp

lemma contained_border_rect [draw_intros]: "contained (border_rect x y w h thick col)"
  unfolding border_rect_def by (intro draw_intros) (simp add: draw_intros)

lemma contained_plots: "contained (fold (plot col) ps)"
  unfolding contained_def
  by (intro allI impI within_fold) (meson contained_px containedD within_ok)

lemma contained_line [draw_intros]: "contained (draw_line x0 y0 x1 y1 col)"
  unfolding contained_def
proof (intro allI impI)
  fix c assume "screen_ok c"
  moreover obtain ps where "draw_line x0 y0 x1 y1 col c = fold (plot col) ps c"
    using draw_line_path by blast
  ultimately show "within c (draw_line x0 y0 x1 y1 col c)"
    using contained_plots by (simp add: contained_def)
qed

lemma contained_ellipse [draw_intros]: "contained (draw_ellipse cx cy rx ry col)"
  unfolding draw_ellipse_def Let_def by (intro draw_intros) (simp add: draw_intros)

lemma contained_circle [draw_intros]: "contained (draw_circle cx cy r col)"
  unfolding draw_circle_def Let_def by (intro draw_intros) (simp add: draw_intros)

lemma contained_char [draw_intros]: "contained (draw_char x y ch col scale)"
  unfolding draw_char_def Let_def by (intro draw_intros)

lemma contained_str [draw_intros]: "contained (draw_str x y s col scale)"
proof (induction s arbitrary: x)
  case (Cons ch s)
  show ?case unfolding contained_def
    using contained_then [OF contained_char Cons] by simp
qed (simp add: contained_def)

lemma contained_str_center [draw_intros]: "contained (draw_str_center cx y s col scale)"
  unfolding draw_str_center_def Let_def by (intro draw_intros)

section \<open>Layers\<close>

lemma contained_clear [draw_intros]: "contained clear_screen"
  unfolding contained_def
proof (intro allI impI)
  fix c assume "screen_ok c"
  then have "unat (g_sh c * g_stride c) = unat (g_sh c) * unat (g_stride c)"
    by (subst unat_mult_lem [THEN iffD1]) (simp_all add: screen_ok_def)
  then show "within c (clear_screen c)"
    by (simp add: within_def clear_screen_def in_frame_def word_less_nat_alt)
qed

lemma index_in_uint: "0 \<le> i \<Longrightarrow> i < uint n \<Longrightarrow> to_u32 i < n"
  using uint_lt2p [of n] by (simp add: word_less_def uint_word_of_int)

lemma contained_scanlines [draw_intros]: "contained scanlines"
  unfolding contained_def
proof (intro allI impI)
  fix c assume ok: "screen_ok c"
  show "within c (scanlines c)"
    unfolding scanlines_def for_step_def
  proof (rule within_loop)
    fix n c1 assume n: "0 \<le> n" "n < (uint (g_sh c) - 0 + 3 - 1) div 3" and c1: "within c c1"
    then have y: "to_u32 (0 + 3 * n) < g_sh c" by (intro index_in_uint) auto
    show "within c1 (for_loop 0 (uint (g_sw c)) (\<lambda>x c. set_pixel x (0 + 3 * n)
        (darken (g_fb c (pixel_at c x (0 + 3 * n)))) c) c1)"
    proof (rule within_loop)
      fix x c2 assume x: "0 \<le> x" "x < uint (g_sw c)" and c2: "within c1 c2"
      from c1 c2 have "within c c2" by (rule within_trans)
      with ok y index_in_uint [OF x] show "within c2 (set_pixel x (0 + 3 * n)
          (darken (g_fb c2 (pixel_at c2 x (0 + 3 * n)))) c2)"
        by (intro within_set_pixel) (auto simp: within_geometry intro: within_ok)
    qed
  qed
qed

lemma contained_hex_grid [draw_intros]: "contained (hex_grid d)"
  unfolding hex_grid_def hexagon_def Let_def by (intro draw_intros)

lemma contained_sphere [draw_intros]: "contained (paint_sphere d tick)"
  unfolding paint_sphere_def sphere_rings_def Let_def by (simp add: draw_intros)

lemma contained_rain_tail [draw_intros]: "contained (rain_tail c tick i y)"
  unfolding rain_tail_def Let_def by (intro draw_intros)

lemma contained_panel [draw_intros]: "contained (draw_panel x y w h title col)"
  unfolding draw_panel_def by (simp add: draw_intros)

lemma contained_bar [draw_intros]: "contained (draw_bar_horiz_particles x y w h used whole col tick)"
  unfolding draw_bar_horiz_particles_def Let_def by (simp add: draw_intros)

lemma contained_heatmap [draw_intros]: "contained (draw_heatmap x y w h pct tick col)"
  unfolding draw_heatmap_def Let_def by (intro draw_intros)

lemma contained_radar [draw_intros]: "contained (draw_radar cx cy r tick)"
  unfolding draw_radar_def Let_def by (simp add: draw_intros)

lemma contained_constellation [draw_intros]: "contained (draw_constellation st cx cy w h tick)"
  unfolding draw_constellation_def paint_peer_def Let_def by (simp add: draw_intros)

lemma contained_blueprint [draw_intros]: "contained (blueprint_panel d tick)"
  unfolding blueprint_panel_def Let_def by (simp add: draw_intros)

lemma contained_analyze [draw_intros]: "contained (analyze_panel d tick)"
  unfolding analyze_panel_def Let_def by (rule contained_seq) (simp add: draw_intros list.pred_map list_all_iff)

lemma contained_log [draw_intros]: "contained (log_panel d tick)"
  unfolding log_panel_def Let_def by (rule contained_seq) (simp add: draw_intros list.pred_map list_all_iff)

lemma contained_nodes [draw_intros]: "contained (nodes_panel d tick)"
  unfolding nodes_panel_def Let_def by (simp add: draw_intros)

lemma contained_chat_lines [draw_intros]: "contained (chat_lines x limit s line y)"
proof -
  have "screen_ok c \<Longrightarrow> within c (chat_lines x limit s line y c)" for c
  proof (induction x limit s line y c rule: chat_lines.induct)
    case (2 x limit ch s line y c)
    have d: "within c (draw_str x y line SOMA_WHITE 1 c)"
      using contained_str 2(4) by (simp add: contained_def)
    from 2 d show ?case by (auto intro: within_trans [OF d] within_ok)
  qed simp
  then show ?thesis by (simp add: contained_def)
qed

lemma contained_chat [draw_intros]: "contained (paint_chat d tick)"
  unfolding paint_chat_def wave_ring_def Let_def split_beta by (simp add: draw_intros)

lemma contained_corners [draw_intros]: "contained (paint_corners d tick)"
  unfolding paint_corners_def Let_def by (simp add: draw_intros)

lemma contained_boot [draw_intros]: "contained (boot_text d tick)" "contained (boot_core d tick)"
  "contained (boot_wireframe d tick)"
  unfolding boot_text_def boot_core_def boot_wireframe_def Let_def by (simp_all add: draw_intros)

end
