(* ===== verification/Hud_Frames.thy ===== *)
theory Hud_Frames
  imports Hud_Drawing
begin

text \<open>
  Whole frames of the desktop: every layer, every frame and every run of the main loop leaves
  the memory outside the frame buffer alone.
\<close>

definition safe_layer :: "(desktop \<Rightarrow> desktop) \<Rightarrow> bool" where
  "safe_layer f \<longleftrightarrow> (\<forall>d. screen_ok (scr d) \<longrightarrow> within (scr d) (scr (f d)))"

lemma safe_canvas: "contained f \<Longrightarrow> screen_ok (scr d) \<Longrightarrow> within (scr d) (scr (on_canvas f d))"
  by (simp add: on_canvas_def containedD)

lemma safe_layerD: "safe_layer f \<Longrightarrow> screen_ok (scr d) \<Longrightarrow> within (scr d) (scr (f d))"
  by (simp add: safe_layer_def)

lemma safe_then:
  "safe_layer f \<Longrightarrow> within c (scr d) \<Longrightarrow> screen_ok c \<Longrightarrow> within c (scr (f d))"
  by (meson safe_layerD within_ok within_trans)

lemma safe_background [draw_intros]: "safe_layer render_background"
proof -
  have "contained (seq (map (\<lambda>s. px (star_x s) (star_y s) (star_col s)) ss))" for ss :: "star list"
    by (rule contained_seq) (simp add: list.pred_map list_all_iff draw_intros)
  then have "contained (seq [clear_screen, seq (map (\<lambda>s. px (star_x s) (star_y s) (star_col s)) ss),
      hex_grid d, scanlines])" for ss :: "star list" and d :: desktop
    by (simp add: draw_intros)
  then show ?thesis
    by (simp add: safe_layer_def render_background_def Let_def on_canvas_def containedD del: map_map)
qed

lemma safe_rain [draw_intros]: "safe_layer (render_data_rain tick)"
proof -
  have "contained (seq (map (\<lambda>i. rain_tail c tick i (y i)) is))" for c y "is"
    by (rule contained_seq) (simp add: list.pred_map list_all_iff draw_intros)
  then show ?thesis
    by (simp add: safe_layer_def render_data_rain_def on_canvas_def containedD split: prod.splits)
qed

lemma safe_painted [draw_intros]: "safe_layer (render_sphere tick)" "safe_layer (render_panels tick)"
  "safe_layer (render_chat tick)" "safe_layer (render_hud_corners tick)"
  by (simp_all add: safe_layer_def render_sphere_def render_panels_def render_chat_def
      render_hud_corners_def safe_canvas draw_intros)

lemma safe_frags [draw_intros]: "safe_layer (render_code_frags tick)"
proof -
  have "contained (seq (map (\<lambda>i. let (x_pm, y_pm, txt, col) = k_frags ! i;
         drift = cdiv (isin (tick div 4 + of_nat i * 10 AND 63) * 3) 127
     in draw_str (wide c x_pm + drift) (high c y_pm) txt col 1) [0..<6]))" for c
    by (rule contained_seq) (simp add: list.pred_map list_all_iff draw_intros split_beta Let_def)
  then show ?thesis by (simp add: safe_layer_def render_code_frags_def safe_canvas)
qed

lemma glitch_band_within: "screen_ok (snd x) \<Longrightarrow> within (snd x) (snd (glitch_band x))"
proof -
  obtain rng c where x: "x = (rng, c)" by (metis prod.collapse)
  assume "screen_ok (snd x)"
  then have ok: "screen_ok c" by (simp add: x)
  have "within c (for_loop (uint a) (min b (uint (g_sh c))) (\<lambda>y. for_loop 0 (uint (g_sw c))
      (\<lambda>x c. set_pixel x y (f x y c) c)) c)" for a b f
  proof (rule within_loop)
    fix y c1 assume y: "uint a \<le> y" "y < min b (uint (g_sh c))" and c1: "within c c1"
    have "0 \<le> y" using y uint_ge_0 [of a] by linarith
    with y have yi: "to_u32 y < g_sh c" by (intro index_in_uint) auto
    show "within c1 (for_loop 0 (uint (g_sw c)) (\<lambda>x c. set_pixel x y (f x y c) c) c1)"
    proof (rule within_loop)
      fix x c2 assume x: "0 \<le> x" "x < uint (g_sw c)" and c2: "within c1 c2"
      from c1 c2 have "within c c2" by (rule within_trans)
      with ok yi index_in_uint [OF x] show "within c2 (set_pixel x y (f x y c2) c2)"
        by (intro within_set_pixel) (auto simp: within_geometry intro: within_ok)
    qed
  qed
  then show ?thesis by (simp add: x glitch_band_def Let_def)
qed

lemma glitch_bands_within: "screen_ok (snd x) \<Longrightarrow> within (snd x) (snd ((glitch_band ^^ n) x))"
proof (induction n)
  case (Suc n)
  then have w: "within (snd x) (snd ((glitch_band ^^ n) x))" by simp
  with Suc.prems glitch_band_within [of "(glitch_band ^^ n) x"] show ?case
    by (auto intro: within_trans within_ok)
qed simp

lemma safe_glitch [draw_intros]: "safe_layer render_glitch"
  using glitch_bands_within
  by (auto simp: safe_layer_def render_glitch_def Let_def split: prod.splits)
    (metis (no_types, lifting) snd_conv)+

lemma safe_boot [draw_intros]: "safe_layer (render_boot_sequence tick)"
  unfolding safe_layer_def
proof (intro allI impI)
  fix d :: desktop assume ok: "screen_ok (scr d)"
  let ?d = "on_canvas clear_screen d"
  have w: "within (scr d) (scr ?d)" using ok by (simp add: safe_canvas draw_intros)
  note b = safe_then [OF safe_background w ok]
  note s = safe_then [OF safe_painted(1) b ok]
  have c: "within (scr d) (scr (on_canvas f d'))" if "within (scr d) (scr d')" "contained f" for f d'
    using safe_canvas [OF that(2)] that(1) ok by (blast intro: within_trans within_ok)
  show "within (scr d) (scr (render_boot_sequence tick d))"
    using c [OF w contained_boot(1)] c [OF b contained_boot(2)] c [OF s contained_boot(3)] w
    by (simp add: render_boot_sequence_def Let_def)
qed

lemma frame_within: "screen_ok (scr d) \<Longrightarrow> within (scr d) (scr (soma_render_frame d))"
proof -
  assume ok: "screen_ok (scr d)"
  define p where "p = d\<lparr> g_plx_x := cdiv (isin (g_tick d div 8 AND 63) * 25) 127,
    g_plx_y := cdiv (icos (g_tick d div 11 AND 63) * 15) 127 \<rparr>"
  have p: "within (scr d) (scr p)" by (simp add: p_def)
  note l = safe_then [OF _ _ ok]
  have "within (scr d) (scr (render_boot_sequence (g_tick d) p))" by (rule l [OF safe_boot p])
  moreover have "within (scr d) (scr (render_glitch (render_hud_corners (g_tick d) (render_chat (g_tick d)
      (render_panels (g_tick d) (render_code_frags (g_tick d) (render_sphere (g_tick d)
        (render_data_rain (g_tick d) (render_background p)))))))))"
    by (intro l [OF safe_glitch] l [OF safe_painted(4)] l [OF safe_painted(3)] l [OF safe_painted(2)]
        l [OF safe_frags] l [OF safe_painted(1)] l [OF safe_rain] l [OF safe_background] p)
  ultimately show ?thesis by (simp add: soma_render_frame_def Let_def p_def)
qed

section \<open>Runs of the main loop\<close>

fun desktop_run :: "(string \<times> efi_key option) list \<Rightarrow> desktop \<Rightarrow> desktop option" where
  "desktop_run [] d = Some d"
| "desktop_run ((received, key) # inputs) d =
     (case desktop_round received key d of None \<Rightarrow> None | Some d' \<Rightarrow> desktop_run inputs d')"

lemma frame_tick: "g_tick (soma_render_frame d) = g_tick d + 1"
  by (simp add: soma_render_frame_def Let_def)

lemma round_within:
  assumes "desktop_round received key d = Some d'" "screen_ok (scr d)"
  shows "within (scr d) (scr d') \<and> g_tick d' = g_tick d + 1"
proof -
  obtain line st where "soma_uart_poll received (uart_line d, g_soma d) = (line, st)"
    by (metis prod.collapse)
  with assms frame_within [of "d\<lparr>uart_line := line, g_soma := soma_state_demo_fill (g_tick d) st\<rparr>"]
  show ?thesis
    by (auto simp: desktop_round_def frame_tick Let_def split: option.splits if_splits)
qed

lemma run_within:
  "desktop_run inputs d = Some d' \<Longrightarrow> screen_ok (scr d) \<Longrightarrow>
     within (scr d) (scr d') \<and> g_tick d' = g_tick d + of_nat (length inputs)"
proof (induction inputs arbitrary: d)
  case (Cons i inputs)
  then obtain d1 where d1: "desktop_round (fst i) (snd i) d = Some d1" "desktop_run inputs d1 = Some d'"
    by (cases i) (auto split: option.splits)
  from round_within [OF d1(1) Cons.prems(2)] Cons.IH [OF d1(2)] Cons.prems(2) show ?case
    by (auto simp: add.assoc intro: within_trans within_ok)
qed simp

text \<open>
  C38: the desktop never writes outside its screen. If the scan lines are at least as long as the
  screen is wide and the frame buffer has fewer than 2^32 pixels, then after any number of
  rounds of the main loop, whatever arrives on the serial port and the keyboard, every pixel
  address behind the frame buffer holds what it held before, and one frame has been drawn per
  round.
\<close>

theorem desktop_stays_inside:
  assumes "g_sw (scr d) \<le> g_stride (scr d)"
    and "unat (g_sh (scr d)) * unat (g_stride (scr d)) < 4294967296"
    and "desktop_run inputs d = Some d'"
    and "unat (g_sh (scr d)) * unat (g_stride (scr d)) \<le> unat i"
  shows "g_fb (scr d') i = g_fb (scr d) i \<and> g_tick d' = g_tick d + of_nat (length inputs)"
  using run_within [OF assms(3)] assms(1,2,4) by (simp add: screen_ok_def within_def in_frame_def)

definition tiny_screen :: canvas where
  "tiny_screen = \<lparr> g_fb = (\<lambda>_. 7), g_sw = 8, g_sh = 8, g_stride = 8 \<rparr>"

lemma start_screen: "scr (desktop_start c base) = c"
  by (simp add: desktop_start_def Let_def split: prod.splits)

lemma desktop_stays_inside_witness:
  "\<exists>d'. desktop_run [(''OO:STATE=E'' @ [CHR 0x0A], None)] (desktop_start tiny_screen 0) = Some d'
     \<and> g_fb (scr d') 64 = 7"
proof -
  obtain d' where d': "desktop_run [(''OO:STATE=E'' @ [CHR 0x0A], None)] (desktop_start tiny_screen 0) = Some d'"
    by (simp add: desktop_round_def split_beta)
  have s: "scr (desktop_start tiny_screen 0) = tiny_screen" by (rule start_screen)
  have "g_fb (scr d') 64 = g_fb tiny_screen 64"
    using desktop_stays_inside [OF _ _ d', of 64] by (simp add: s) (simp add: tiny_screen_def)
  with d' show ?thesis by (simp add: tiny_screen_def)
qed

end
