(* ===== verification/Hud_Facts.thy ===== *)
theory Hud_Facts
  imports Hud_Frames Contracts
begin

text \<open>
  The state behind the desktop: its arrays are never overrun, the serial bridge reads back the
  numbers the desktop prints, the keyboard echoes lines, and the demo generator overwrites
  whatever the serial bridge has received.
\<close>

section \<open>Arrays\<close>

definition c_string :: "nat \<Rightarrow> string \<Rightarrow> bool" where
  "c_string n s \<longleftrightarrow> length s = n \<and> NUL \<in> set s"

definition soma_ok :: "soma \<Rightarrow> bool" where
  "soma_ok st \<longleftrightarrow> c_string 32 (organism_id st)
     \<and> length (arenas st) = 5 \<and> arena_count st \<le> 5 \<and> list_all (\<lambda>a. c_string 12 (ar_name a)) (arenas st)
     \<and> length (events st) = 8 \<and> event_head st < 8 \<and> event_count st \<le> 8
     \<and> list_all (\<lambda>e. c_string 16 (ev_kind e) \<and> c_string 48 (ev_desc e)) (events st)
     \<and> length (peers st) = 6 \<and> peer_count st \<le> 6 \<and> list_all (\<lambda>p. c_string 16 (peer_id p)) (peers st)
     \<and> c_string 384 (response_buf st)
     \<and> length (input_buf st) = 128 \<and> input_len st \<le> 127 \<and> length (voice_waveform st) = 64"

lemma soma_ok_boot: "soma_ok soma_boot"
  by (simp add: soma_ok_def soma_boot_def list_all_iff c_string_def)

lemma arr_put_in [simp]: "i < length xs \<Longrightarrow> arr_put i x xs = xs[i := x]"
  by (simp add: arr_put_def)

lemma arr_puts_in:
  "\<forall>i \<in> set is. g i < length xs \<Longrightarrow>
     fold (\<lambda>i xs. arr_put (g i) (f i xs) xs) is xs = fold (\<lambda>i xs. xs[g i := f i xs]) is xs"
  by (induction "is" arbitrary: xs) simp_all

lemma length_updates: "length (fold (\<lambda>i xs. xs[g i := f i xs]) is xs) = length xs"
  by (induction "is" arbitrary: xs) simp_all

text \<open>A loop that writes a block of \<open>b\<close> from position \<open>p\<close> on.\<close>

lemma echo_block:
  "p + n \<le> length r \<Longrightarrow> n \<le> length b \<Longrightarrow>
     fold (\<lambda>ci r. r[p + ci := b ! ci]) [0..<n] r = take p r @ take n b @ drop (p + n) r"
proof (induction n)
  case (Suc n)
  then have "fold (\<lambda>ci r. r[p + ci := b ! ci]) [0..<Suc n] r
      = (take p r @ take n b @ drop (p + n) r)[p + n := b ! n]" by simp
  also have "\<dots> = take p r @ take n b @ (drop (p + n) r)[0 := b ! n]"
    using Suc.prems by (simp add: list_update_append)
  also have "(drop (p + n) r)[0 := b ! n] = b ! n # drop (p + Suc n) r"
    using Suc.prems by (subst Cons_nth_drop_Suc [symmetric]) simp_all
  finally show ?case using Suc.prems by (simp add: take_Suc_conv_app_nth)
qed simp

lemma put_cstr_fits:
  assumes "length s < length dst"
  shows "put_cstr dst s = s @ NUL # drop (Suc (length s)) dst"
proof -
  have "fold (\<lambda>k d. arr_put k (s ! k) d) [0..<length s] dst = s @ drop (length s) dst"
    using arr_puts_in [of "[0..<length s]" "\<lambda>k. k" dst "\<lambda>k _. s ! k"] echo_block [of 0 "length s" dst s] assms
    by simp
  moreover have "drop (length s) dst = dst ! length s # drop (Suc (length s)) dst"
    using assms by (simp add: Cons_nth_drop_Suc)
  ultimately show ?thesis by (simp add: put_cstr_def)
qed

lemma put_cstr_string [simp]: "c_string n dst \<Longrightarrow> length s < n \<Longrightarrow> c_string n (put_cstr dst s)"
  by (simp add: c_string_def put_cstr_fits)

lemma list_all_update: "list_all P xs \<Longrightarrow> P x \<Longrightarrow> list_all P (xs[i := x])"
  using set_update_subset_insert [of xs i x] by (auto simp: list_all_iff)

text \<open>A loop over the elements of an array, each of which keeps its property.\<close>

lemma list_all_updates:
  assumes "\<And>i x. i \<in> set is \<Longrightarrow> P x \<Longrightarrow> P (f i x)" "\<forall>i \<in> set is. i < length xs" "list_all P xs"
  shows "list_all P (fold (\<lambda>i xs. arr_put i (f i (xs ! i)) xs) is xs)
    \<and> length (fold (\<lambda>i xs. arr_put i (f i (xs ! i)) xs) is xs) = length xs"
  using assms
proof (induction "is" arbitrary: xs)
  case (Cons i "is")
  then have "list_all P (xs[i := f i (xs ! i)])" by (intro list_all_update) (auto simp: list_all_length)
  with Cons.IH [of "xs[i := f i (xs ! i)]"] Cons.prems show ?case by simp
qed simp

lemma demo_vitals_ok: "soma_ok st \<Longrightarrow> soma_ok (demo_vitals tick st)"
  by (simp add: soma_ok_def demo_vitals_def Let_def)

lemma below_5: "i < 5 \<Longrightarrow> i \<in> {0, 1, 2, 3, 4 :: nat}"
  by auto

lemma below_6: "i < 6 \<Longrightarrow> i \<in> {0, 1, 2, 3, 4, 5 :: nat}"
  by auto

lemma name_lengths:
  "i < 5 \<Longrightarrow> length (arena_names ! i) < 12" "i < 6 \<Longrightarrow> length (peer_names ! i) < 16"
  by (auto dest!: below_5 below_6 simp: arena_names_def peer_names_def)

lemma demo_arenas_ok: "soma_ok st \<Longrightarrow> soma_ok (demo_arenas tick st)"
  using list_all_updates [of "[0..<5]" "\<lambda>a. c_string 12 (ar_name a)" "demo_arena tick" "arenas st"]
  by (simp add: soma_ok_def demo_arenas_def demo_arena_def Let_def name_lengths del: upt_rec_numeral)

lemma hud_event_ok: "soma_ok st \<Longrightarrow> soma_ok (hud_event e st)"
  by (auto simp: soma_ok_def hud_event_def Let_def list_all_length nth_list_update split: prod.splits)

lemma demo_events_ok: "soma_ok st \<Longrightarrow> soma_ok (demo_events tick st)"
  by (simp add: demo_events_def Let_def hud_event_ok)

lemma demo_peers_ok: "soma_ok st \<Longrightarrow> unat (swarm_peer_count st) \<le> 6 \<Longrightarrow> soma_ok (demo_peers tick st)"
  using list_all_updates [of "[0..<6]" "\<lambda>p. c_string 16 (peer_id p)"
      "demo_peer tick (unat (swarm_peer_count st))" "peers st"]
  by (simp add: soma_ok_def demo_peers_def demo_peer_def Let_def name_lengths del: upt_rec_numeral)

lemma demo_voice_ok: "soma_ok st \<Longrightarrow> soma_ok (demo_voice tick st)"
  using list_all_updates [of "[0..<64]" "\<lambda>_. True"
      "\<lambda>i _. word_of_int (isin (tick * (2 + of_nat i mod 4) div 4 + of_nat i * 3 AND 63) + 127) AND 0xFF"
      "voice_waveform st"]
  by (simp add: soma_ok_def demo_voice_def Let_def list_all_iff del: upt_rec_numeral)

lemma demo_swarm: "unat (swarm_peer_count (demo_events t (demo_arenas t (demo_vitals tick st)))) \<le> 6"
proof -
  have "unat (tick div 120 mod 5) < 5" by (simp add: unat_mod)
  then show ?thesis
    by (simp add: demo_events_def demo_arenas_def demo_vitals_def hud_event_def Let_def split: prod.splits)
qed

lemma response_ok:
  "soma_ok st \<Longrightarrow> length s < 384 \<Longrightarrow> soma_ok (st\<lparr>response_buf := put_cstr (response_buf st) s\<rparr>)"
  by (simp add: soma_ok_def)

lemma demo_fill_ok: "soma_ok st \<Longrightarrow> soma_ok (soma_state_demo_fill tick st)"
proof -
  assume "soma_ok st"
  then have ok: "soma_ok (demo_voice tick (demo_peers tick (demo_events tick (demo_arenas tick (demo_vitals tick st)))))"
    by (intro demo_voice_ok demo_peers_ok demo_swarm demo_events_ok demo_arenas_ok demo_vitals_ok)
  have "length (take 383 demo_response) < 384" by simp
  from ok response_ok [OF ok this] show ?thesis
    by (simp only: soma_state_demo_fill_def Let_def split: if_split) blast
qed

lemma parse_ok: "soma_ok st \<Longrightarrow> soma_ok (soma_uart_parse line st)"
  by (auto simp: soma_uart_parse_def Let_def set_state_def set_dplus_def soma_ok_def)

lemma byte_ok: "soma_ok (snd x) \<Longrightarrow> soma_ok (snd (uart_byte ch x))"
  by (cases x) (simp add: uart_byte_def parse_ok)

lemma poll_ok: "soma_ok (snd x) \<Longrightarrow> soma_ok (snd (soma_uart_poll received x))"
  unfolding soma_uart_poll_def by (induction received arbitrary: x) (simp_all add: byte_ok)

section \<open>The keyboard\<close>

lemma strlen_less: "NUL \<in> set a \<Longrightarrow> soma_strlen a < length a"
  unfolding soma_strlen_def cstr_def by (induction a) auto

lemma cstr_prefix: "NUL \<notin> set a \<Longrightarrow> cstr (a @ NUL # b) = a"
  by (induction a) (auto simp: cstr_def)

lemma cstr_take: "cstr a = take (soma_strlen a) a" "NUL \<notin> set (cstr a)"
  unfolding soma_strlen_def cstr_def by (simp add: takeWhile_eq_take [symmetric], auto dest: set_takeWhileD)

lemma echo_response:
  fixes st :: soma
  assumes "soma_ok st" "soma_strlen (response_buf st) < 370"
  defines "p \<equiv> soma_strlen (response_buf st)"
  defines "n \<equiv> min (input_len st) (382 - (p + 1))"
  shows "response_buf (echo_input st) = cstr (response_buf st) @ CHR 0x0A # take n (input_buf st)
      @ NUL # drop (p + 1 + n + 1) (response_buf st)"
proof -
  let ?r = "response_buf st" and ?b = "(input_buf st)[input_len st := NUL]"
  let ?puts = "fold (\<lambda>ci r. arr_put (p + 1 + ci) (?b ! ci) r) [0..<n] (?r[p := CHR 0x0A])"
  have len: "length ?r = 384" "length ?b = 128" "p < 370" "p + 1 + n \<le> 382" "n \<le> input_len st" "n \<le> 127"
    using assms by (auto simp: soma_ok_def c_string_def)
  have r1: "?r[p := CHR 0x0A] = take p ?r @ CHR 0x0A # drop (p + 1) ?r"
    using len by (simp add: upd_conv_take_nth_drop)
  have "?puts = fold (\<lambda>ci r. r[p + 1 + ci := ?b ! ci]) [0..<n] (?r[p := CHR 0x0A])"
    using arr_puts_in [of "[0..<n]" "\<lambda>ci. p + 1 + ci" "?r[p := CHR 0x0A]" "\<lambda>ci _. ?b ! ci"] len by simp
  then have puts: "?puts = (take p ?r @ [CHR 0x0A]) @ take n ?b @ drop (p + 1 + n) ?r"
    using echo_block [of "p + 1" n "?r[p := CHR 0x0A]" ?b] len r1 by (simp add: add.commute)
  moreover have "take n ?b = take n (input_buf st)" using len(5) by simp
  moreover have "((take p ?r @ [CHR 0x0A]) @ take n (input_buf st) @ drop (p + 1 + n) ?r)[p + 1 + n := NUL]
      = (take p ?r @ [CHR 0x0A]) @ take n (input_buf st) @ NUL # drop (p + 1 + n + 1) ?r"
  proof -
    have "length (take p ?r @ [CHR 0x0A]) = p + 1" "length (take n (input_buf st)) = n"
      using len by auto
    moreover have "drop (p + 1 + n) ?r = ?r ! (p + 1 + n) # drop (p + 1 + n + 1) ?r"
      using len by (subst Cons_nth_drop_Suc [symmetric]) simp_all
    ultimately show ?thesis by (simp add: list_update_append)
  qed
  moreover have "response_buf (echo_input st) = arr_put (p + 1 + n) NUL ?puts"
    using assms(1,2) len by (simp add: echo_input_def Let_def p_def n_def soma_ok_def)
  moreover have "length ?puts = 384" using len by (simp only: puts) simp
  ultimately show ?thesis
    using len by (simp add: p_def cstr_take(1))
qed

lemma echo_ok: "soma_ok st \<Longrightarrow> soma_ok (echo_input st)"
proof -
  assume ok: "soma_ok st"
  have i: "length (input_buf (echo_input st)) = 128" "input_len (echo_input st) = 0"
    using ok by (simp_all add: echo_input_def Let_def soma_ok_def)
  have r: "c_string 384 (response_buf (echo_input st))"
  proof (cases "soma_strlen (response_buf st) < 370")
    case True
    have "length (response_buf st) = 384" "input_len st \<le> length (input_buf st)"
      using ok by (auto simp: soma_ok_def c_string_def)
    with echo_response [OF ok True] True show ?thesis
      by (simp add: c_string_def cstr_take(1) min_def)
  next
    case False
    with ok show ?thesis by (simp add: echo_input_def Let_def soma_ok_def)
  qed
  from ok i r show ?thesis by (simp add: soma_ok_def echo_input_def Let_def)
qed

lemma key_ok: "soma_ok st \<Longrightarrow> soma_ok (soma_key u st)"
  by (auto simp: soma_key_def echo_ok) (auto simp: soma_ok_def)

text \<open>
  Enter echoes the line. As long as the response has room, Enter appends a line feed and the
  typed characters, cut where the response would pass 382 characters, and empties the input
  line; nothing but the two buffers changes.
\<close>

theorem enter_echoes:
  assumes "soma_ok st" "soma_strlen (response_buf st) < 370" "NUL \<notin> set (take (input_len st) (input_buf st))"
  shows "cstr (response_buf (soma_key 0x0D st)) = cstr (response_buf st) @ CHR 0x0A
        # take (381 - soma_strlen (response_buf st)) (take (input_len st) (input_buf st))
    \<and> input_len (soma_key 0x0D st) = 0 \<and> soma_strlen (response_buf (soma_key 0x0D st)) \<le> 382
    \<and> (soma_key 0x0D st)\<lparr> response_buf := response_buf st, input_buf := input_buf st,
         input_len := input_len st \<rparr> = st"
proof -
  let ?p = "soma_strlen (response_buf st)" and ?n = "min (input_len st) (382 - (soma_strlen (response_buf st) + 1))"
  have k: "soma_key 0x0D st = echo_input st" by (simp add: soma_key_def)
  have "NUL \<notin> set (take ?n (input_buf st))"
    using assms(3) set_take_subset_set_take [of ?n "input_len st" "input_buf st"] by auto
  then have "NUL \<notin> set (cstr (response_buf st) @ CHR 0x0A # take ?n (input_buf st))"
    using cstr_take(2) [of "response_buf st"] by simp
  from cstr_prefix [OF this] echo_response [OF assms(1,2)]
  have c: "cstr (response_buf (echo_input st)) = cstr (response_buf st) @ CHR 0x0A # take ?n (input_buf st)"
    by simp
  moreover have "take ?n (input_buf st) = take (381 - ?p) (take (input_len st) (input_buf st))"
    by (simp add: min.commute)
  moreover have "soma_strlen (response_buf (echo_input st)) \<le> 382"
    using assms(2) c by (simp add: soma_strlen_def)
  ultimately show ?thesis
    by (simp add: k) (simp add: echo_input_def Let_def)
qed

text \<open>A typed line, for the witness.\<close>

definition typed_a :: soma where
  "typed_a = soma_key 0x41 soma_boot"

lemma enter_echoes_witness: "cstr (response_buf (soma_key 0x0D typed_a)) = [CHR 0x0A, CHR ''A'']"
proof -
  have ok: "soma_ok typed_a" unfolding typed_a_def by (intro key_ok soma_ok_boot)
  have t: "input_len typed_a = 1" "take 1 (input_buf typed_a) = ''A''" "cstr (response_buf typed_a) = []"
    by code_simp+
  from enter_echoes [OF ok] t show ?thesis by (simp add: soma_strlen_def)
qed

text \<open>Backspace on an empty line is stored as a character of the line.\<close>

theorem backspace_is_typed:
  assumes "input_len st = 0" "length (input_buf st) = 128"
  shows "input_len (soma_key 0x08 st) = 1 \<and> input_buf (soma_key 0x08 st) ! 0 = CHR 0x08"
proof -
  have "char_of (8 :: nat) = CHR 0x08" by code_simp
  with assms show ?thesis by (simp add: soma_key_def)
qed

section \<open>The invariant of the desktop\<close>

lemma frame_soma: "\<exists>n. g_soma (soma_render_frame d) = (g_soma d)\<lparr>glitch_frames := n\<rparr>"
proof -
  have gl: "\<exists>n. g_soma (render_glitch d) = (g_soma d)\<lparr>glitch_frames := n\<rparr>" for d :: desktop
    by (rule exI [of _ "glitch_frames (g_soma (render_glitch d))"])
      (simp add: render_glitch_def Let_def split: prod.splits)
  have o: "g_soma (on_canvas f d) = g_soma d" for f and d :: desktop by (simp add: on_canvas_def)
  have b: "g_soma (render_background d) = g_soma d" for d :: desktop
    by (simp add: render_background_def Let_def o)
  have bt: "g_soma (render_boot_sequence t d) = g_soma d" for t and d :: desktop
    by (simp add: render_boot_sequence_def Let_def o b render_sphere_def)
  have dr: "g_soma (render_data_rain t d) = g_soma d" for t and d :: desktop
    by (simp add: render_data_rain_def o split: prod.splits)
  have e: "\<exists>n. st = st\<lparr>glitch_frames := n\<rparr>" for st :: soma
    by (rule exI [of _ "glitch_frames st"]) simp
  have p: "g_soma (render_sphere t d) = g_soma d" "g_soma (render_panels t d) = g_soma d"
    "g_soma (render_chat t d) = g_soma d" "g_soma (render_hud_corners t d) = g_soma d"
    "g_soma (render_code_frags t d) = g_soma d" for t and d :: desktop
    by (simp_all add: o render_sphere_def render_panels_def render_chat_def render_hud_corners_def
        render_code_frags_def)
  show ?thesis
  proof (cases "g_tick d < 180")
    case True
    with e show ?thesis by (simp add: soma_render_frame_def Let_def bt)
  next
    case False
    let ?c = "\<lambda>d. render_hud_corners (g_tick d) (render_chat (g_tick d) (render_panels (g_tick d)
      (render_code_frags (g_tick d) (render_sphere (g_tick d) (render_data_rain (g_tick d) (render_background
       (d\<lparr> g_plx_x := cdiv (isin (g_tick d div 8 AND 63) * 25) 127,
          g_plx_y := cdiv (icos (g_tick d div 11 AND 63) * 15) 127 \<rparr>)))))))"
    have "g_soma (?c d) = g_soma d" by (simp add: p dr b)
    with False gl [of "?c d"] show ?thesis by (simp add: soma_render_frame_def Let_def)
  qed
qed

end
