(* ===== verification/Hud_Serial.thy ===== *)
theory Hud_Serial
  imports Hud_Facts
begin

text \<open>
  The desktop as a whole: the invariant of its state over runs of the main loop, the serial
  bridge as the inverse of the number printer, and what becomes of what the bridge receives.
\<close>

section \<open>Drawing and the line buffer\<close>

text \<open>Nothing that is drawn depends on the line buffer of the bridge.\<close>

lemma paint_line [simp]:
  "paint_sphere (d\<lparr>uart_line := l\<rparr>) tick = paint_sphere d tick"
  "render_panels tick (d\<lparr>uart_line := l\<rparr>) = (render_panels tick d)\<lparr>uart_line := l\<rparr>"
  "paint_chat (d\<lparr>uart_line := l\<rparr>) tick = paint_chat d tick"
  "paint_corners (d\<lparr>uart_line := l\<rparr>) tick = paint_corners d tick"
  "hex_grid (d\<lparr>uart_line := l\<rparr>) = hex_grid d"
  "boot_text (d\<lparr>uart_line := l\<rparr>) tick = boot_text d tick"
  "boot_core (d\<lparr>uart_line := l\<rparr>) tick = boot_core d tick"
  "boot_wireframe (d\<lparr>uart_line := l\<rparr>) tick = boot_wireframe d tick"
  by (cases d, simp only: paint_sphere_def sphere_rings_def render_panels_def blueprint_panel_def
      analyze_panel_def log_panel_def nodes_panel_def paint_chat_def wave_ring_def paint_corners_def
      hex_grid_def boot_text_def boot_core_def boot_wireframe_def on_canvas_def desktop.select_convs
      desktop.update_convs)+

lemma layer_line [simp]:
  "on_canvas f (d\<lparr>uart_line := l\<rparr>) = (on_canvas f d)\<lparr>uart_line := l\<rparr>"
  "render_background (d\<lparr>uart_line := l\<rparr>) = (render_background d)\<lparr>uart_line := l\<rparr>"
  "render_sphere tick (d\<lparr>uart_line := l\<rparr>) = (render_sphere tick d)\<lparr>uart_line := l\<rparr>"
  "render_data_rain tick (d\<lparr>uart_line := l\<rparr>) = (render_data_rain tick d)\<lparr>uart_line := l\<rparr>"
  "render_code_frags tick (d\<lparr>uart_line := l\<rparr>) = (render_code_frags tick d)\<lparr>uart_line := l\<rparr>"
  "render_chat tick (d\<lparr>uart_line := l\<rparr>) = (render_chat tick d)\<lparr>uart_line := l\<rparr>"
  "render_hud_corners tick (d\<lparr>uart_line := l\<rparr>) = (render_hud_corners tick d)\<lparr>uart_line := l\<rparr>"
  "render_glitch (d\<lparr>uart_line := l\<rparr>) = (render_glitch d)\<lparr>uart_line := l\<rparr>"
proof -
  show c: "on_canvas f (d\<lparr>uart_line := l\<rparr>) = (on_canvas f d)\<lparr>uart_line := l\<rparr>" for f and d :: desktop
    by (simp add: on_canvas_def)
  have h: "hex_grid (d\<lparr>uart_line := l, g_stars := s\<rparr>) = hex_grid (d\<lparr>g_stars := s\<rparr>)" for s
    by (simp add: hex_grid_def)
  show "render_background (d\<lparr>uart_line := l\<rparr>) = (render_background d)\<lparr>uart_line := l\<rparr>"
    by (simp add: render_background_def Let_def on_canvas_def h)
  show "render_sphere tick (d\<lparr>uart_line := l\<rparr>) = (render_sphere tick d)\<lparr>uart_line := l\<rparr>"
    "render_chat tick (d\<lparr>uart_line := l\<rparr>) = (render_chat tick d)\<lparr>uart_line := l\<rparr>"
    "render_hud_corners tick (d\<lparr>uart_line := l\<rparr>) = (render_hud_corners tick d)\<lparr>uart_line := l\<rparr>"
    "render_code_frags tick (d\<lparr>uart_line := l\<rparr>) = (render_code_frags tick d)\<lparr>uart_line := l\<rparr>"
    by (simp_all add: render_sphere_def render_chat_def render_hud_corners_def render_code_frags_def c)
  show "render_data_rain tick (d\<lparr>uart_line := l\<rparr>) = (render_data_rain tick d)\<lparr>uart_line := l\<rparr>"
    by (simp add: render_data_rain_def on_canvas_def split: prod.splits)
  show "render_glitch (d\<lparr>uart_line := l\<rparr>) = (render_glitch d)\<lparr>uart_line := l\<rparr>"
    by (simp add: render_glitch_def Let_def split: prod.splits)
qed

lemma boot_line [simp]:
  "render_boot_sequence tick (d\<lparr>uart_line := l\<rparr>) = (render_boot_sequence tick d)\<lparr>uart_line := l\<rparr>"
  by (simp add: render_boot_sequence_def Let_def)

lemma frame_line: "soma_render_frame (d\<lparr>uart_line := l\<rparr>) = (soma_render_frame d)\<lparr>uart_line := l\<rparr>"
proof -
  have "(d\<lparr>uart_line := l\<rparr>)\<lparr>g_plx_x := x, g_plx_y := y\<rparr> = (d\<lparr>g_plx_x := x, g_plx_y := y\<rparr>)\<lparr>uart_line := l\<rparr>" for x y
    by simp
  then show ?thesis by (simp only: soma_render_frame_def Let_def layer_line boot_line) simp
qed

section \<open>Runs keep the invariant\<close>

lemma round_ok:
  assumes "desktop_round received key d = Some d'" "soma_ok (g_soma d)"
  shows "soma_ok (g_soma d')"
proof -
  let ?x = "soma_uart_poll received (uart_line d, g_soma d)"
  let ?d = "d\<lparr> uart_line := fst ?x, g_soma := soma_state_demo_fill (g_tick d) (snd ?x) \<rparr>"
  have "soma_ok (soma_state_demo_fill (g_tick d) (snd ?x))"
    by (intro demo_fill_ok poll_ok) (simp add: assms(2))
  moreover obtain n where "g_soma (soma_render_frame ?d) = (g_soma ?d)\<lparr>glitch_frames := n\<rparr>"
    using frame_soma by blast
  ultimately have f: "soma_ok (g_soma (soma_render_frame ?d))" by (simp add: soma_ok_def)
  show ?thesis
  proof (cases key)
    case None
    with assms(1) f show ?thesis by (simp add: desktop_round_def split_beta Let_def)
  next
    case (Some k)
    with assms(1) f show ?thesis
      by (auto simp: desktop_round_def split_beta Let_def key_ok split: if_splits)
  qed
qed

lemma desktop_run_ok: "desktop_run inputs d = Some d' \<Longrightarrow> soma_ok (g_soma d) \<Longrightarrow> soma_ok (g_soma d')"
proof (induction inputs arbitrary: d)
  case (Cons i inputs)
  then obtain d1 where "desktop_round (fst i) (snd i) d = Some d1" "desktop_run inputs d1 = Some d'"
    by (cases i) (auto split: option.splits)
  with Cons show ?case by (blast intro: round_ok)
qed simp

lemma start_ok: "soma_ok (g_soma (desktop_start c base))"
  by (simp add: desktop_start_def Let_def demo_fill_ok soma_ok_boot split: prod.splits)

text \<open>The line buffer holds at most 127 characters, so that its zero byte fits as well.\<close>

lemma poll_line: "length (fst x) \<le> 127 \<Longrightarrow> length (fst (soma_uart_poll received x)) \<le> 127"
proof -
  have "length (fst x) \<le> 127 \<Longrightarrow> length (fst (uart_byte ch x)) \<le> 127" for ch x
    by (cases x) (simp add: uart_byte_def)
  then show "length (fst x) \<le> 127 \<Longrightarrow> ?thesis"
    unfolding soma_uart_poll_def by (induction received arbitrary: x) simp_all
qed

lemma frame_keeps_line: "uart_line (soma_render_frame d) = uart_line d"
  using arg_cong [OF frame_line [where d = d and l = "uart_line d"], of uart_line] by simp

lemma round_line:
  assumes "desktop_round received key d = Some d'" "length (uart_line d) \<le> 127"
  shows "length (uart_line d') \<le> 127"
  using assms poll_line [of "(uart_line d, g_soma d)" received]
  by (auto simp: desktop_round_def split_beta Let_def frame_keeps_line split: option.splits if_splits)

lemma run_line: "desktop_run inputs d = Some d' \<Longrightarrow> length (uart_line d) \<le> 127 \<Longrightarrow> length (uart_line d') \<le> 127"
proof (induction inputs arbitrary: d)
  case (Cons i inputs)
  then obtain d1 where "desktop_round (fst i) (snd i) d = Some d1" "desktop_run inputs d1 = Some d'"
    by (cases i) (auto split: option.splits)
  with Cons show ?case by (blast intro: round_line)
qed simp

lemma start_line: "uart_line (desktop_start c base) = []"
  by (simp add: desktop_start_def Let_def split: prod.splits)

text \<open>
  C39: no array of the state that the desktop shows is overrun, and the line buffer of the
  serial port is not either. From the start of the desktop, through any number of rounds with
  any serial data and keys: the names of the organism, the arenas and the peers, the kind and
  the description of every event and the response have exactly the length of their arrays with a
  zero byte inside them; the input line has its 128 characters and a position of at most 127;
  the event ring, the peers, the arenas and the waveform have their number of elements, and the
  counts and the head lie inside. Whatever bytes come next, the position in the line buffer
  stays below its 128 characters, and recording any event, with texts of any length, keeps all
  this. A write past an array would have made its list longer, and a line longer than its
  buffer would show in the position.
\<close>

theorem desktop_invariant:
  assumes "desktop_run inputs (desktop_start c base) = Some d"
  shows "soma_ok (g_soma d) \<and> soma_strlen (response_buf (g_soma d)) < 384
    \<and> (\<forall>received. length (fst (soma_uart_poll received (uart_line d, g_soma d))) < 128)
    \<and> (\<forall>kind desc tsc. soma_ok (hud_event (kind, desc, tsc) (g_soma d)))"
proof -
  have ok: "soma_ok (g_soma d)" by (rule desktop_run_ok [OF assms start_ok])
  moreover have "length (uart_line d) \<le> 127" by (rule run_line [OF assms]) (simp add: start_line)
  ultimately show ?thesis
    using poll_line [of "(uart_line d, g_soma d)"] strlen_less [of "response_buf (g_soma d)"]
    by (auto simp: hud_event_ok less_Suc_eq_le [of _ 127, simplified]) (auto simp: soma_ok_def c_string_def)
qed

lemma desktop_invariant_witness:
  "\<exists>d. desktop_run [([], Some \<lparr> ScanCode = 0, UnicodeChar = 0x41 \<rparr>)] (desktop_start tiny_screen 0) = Some d
     \<and> soma_strlen (response_buf (g_soma d)) < 384"
proof -
  obtain d where "desktop_run [([], Some \<lparr> ScanCode = 0, UnicodeChar = 0x41 \<rparr>)]
      (desktop_start tiny_screen 0) = Some d"
    by (simp add: desktop_round_def split_beta Let_def)
  with desktop_invariant [OF this] show ?thesis by blast
qed

section \<open>Numbers\<close>

lemma of_char_digit: "d < 10 \<Longrightarrow> of_char (dec_digit d) = (48 + d :: nat)"
  by (simp add: dec_digit_def)

lemma dec_tmp_append: "dec_tmp n tmp = tmp @ dec_tmp n []"
proof (induction n arbitrary: tmp rule: less_induct)
  case (less n)
  show ?case
  proof (cases "n = 0")
    case False
    then have "n div 10 < n" by simp
    from less.IH [OF this, of "tmp @ [dec_digit (n mod 10)]"] less.IH [OF this, of "[dec_digit (n mod 10)]"]
    show ?thesis by (simp add: dec_tmp.simps [of n])
  qed (simp add: dec_tmp.simps)
qed

lemma dec_snoc: "0 < n \<Longrightarrow> rev (dec_tmp n []) = rev (dec_tmp (n div 10) []) @ [dec_digit (n mod 10)]"
  using dec_tmp_append [of "n div 10" "[dec_digit (n mod 10)]"] by (simp add: dec_tmp.simps [of n])

lemma dec_zero [simp]: "dec_tmp 0 [] = []"
  by (simp add: dec_tmp.simps)

lemma dec_digits: "ch \<in> set (rev (dec_tmp n [])) \<Longrightarrow> dec_char ch"
proof (induction n rule: less_induct)
  case (less n)
  have "n mod 10 < 10" by simp
  then have "dec_char (dec_digit (n mod 10))" by (simp add: dec_char_def of_char_digit)
  moreover have "ch \<in> set (rev (dec_tmp (n div 10) [])) \<Longrightarrow> dec_char ch" if "0 < n"
    using that by (intro less.IH [of "n div 10"]) simp_all
  ultimately show ?case using less.prems dec_snoc [of n] by (cases "n = 0") auto
qed

lemma dec_length: "n < 10 ^ k \<Longrightarrow> length (rev (dec_tmp n [])) \<le> k"
proof (induction k arbitrary: n)
  case (Suc k)
  then have "n div 10 < 10 ^ k" by (simp add: less_mult_imp_div_less mult.commute)
  with Suc.IH dec_snoc [of n] show ?case by (cases "n = 0") simp_all
qed simp

lemma dec_value:
  "foldl (\<lambda>v ch. v * 10 + (of_nat (of_char ch) - 48)) 0 (rev (dec_tmp n [])) = (of_nat n :: u32)"
proof (induction n rule: less_induct)
  case (less n)
  show ?case
  proof (cases "n = 0")
    case False
    then have "n div 10 < n" by simp
    note ih = less.IH [OF this]
    have "n mod 10 < 10" by simp
    then have "(of_nat (of_char (dec_digit (n mod 10))) :: u32) - 48 = of_nat (n mod 10)"
      by (simp add: of_char_digit)
    moreover have "(of_nat n :: u32) = of_nat (n div 10) * 10 + of_nat (n mod 10)"
      by (metis div_mult_mod_eq of_nat_add of_nat_mult of_nat_numeral)
    ultimately show ?thesis using False ih by (simp add: dec_snoc)
  qed simp
qed

lemma dec_string:
  "list_all dec_char (soma_uint_to_dec v)" "length (soma_uint_to_dec v) \<le> 10"
  "foldl (\<lambda>v ch. v * 10 + (of_nat (of_char ch) - 48)) 0 (soma_uint_to_dec v) = v"
proof -
  have "unat v < 10 ^ 10" using unat_less_limit(3) [of v] by simp
  then show "length (soma_uint_to_dec v) \<le> 10"
    using dec_length [of "unat v" 10] by (simp add: soma_uint_to_dec_def)
  show "list_all dec_char (soma_uint_to_dec v)"
    using dec_digits by (auto simp: soma_uint_to_dec_def list_all_iff dec_char_def of_char_digit)
  show "foldl (\<lambda>v ch. v * 10 + (of_nat (of_char ch) - 48)) 0 (soma_uint_to_dec v) = v"
    using dec_value [of "unat v"] by (simp add: soma_uint_to_dec_def of_char_digit)
qed

lemma read_printed: "read_u32 (soma_uint_to_dec v) = v"
  using dec_string [of v] by (simp add: read_u32_def list_all_iff takeWhile_eq_all_conv [THEN iffD2])

section \<open>The serial bridge\<close>

lemma uart_collect:
  "list_all (\<lambda>ch. ch \<noteq> CHR 0x0A \<and> ch \<noteq> CHR 0x0D) s \<Longrightarrow> length buf + length s \<le> 127 \<Longrightarrow>
     fold uart_byte s (buf, st) = (buf @ s, st)"
  by (induction s arbitrary: buf) (simp_all add: uart_byte_def)

lemma digit_not_control: "dec_char ch \<Longrightarrow> ch \<noteq> CHR 0x0A \<and> ch \<noteq> CHR 0x0D"
  by (auto simp: dec_char_def)

text \<open>
  what the desktop prints, the bridge reads. A line that carries the decimal representation
  of any 32-bit number in the form in which the desktop prints numbers sets the token rate to
  exactly this number, and changes nothing else.
\<close>

theorem token_rate_roundtrip:
  "soma_uart_poll (''OO:TPK='' @ soma_uint_to_dec v @ [CHR 0x0A]) ([], st)
     = ([], st\<lparr> tokens_per_sec := v \<rparr>)"
proof -
  let ?s = "''OO:TPK='' @ soma_uint_to_dec v"
  have "list_all (\<lambda>ch. ch \<noteq> CHR 0x0A \<and> ch \<noteq> CHR 0x0D) (soma_uint_to_dec v)"
    using dec_string(1) [of v] digit_not_control by (auto simp: list_all_iff)
  then have c: "fold uart_byte ?s ([], st) = (?s, st)"
    using uart_collect [of ?s "[]" st] dec_string(2) [of v] by simp
  have "soma_uart_parse ?s st = st\<lparr> tokens_per_sec := v \<rparr>" if "soma_uint_to_dec v \<noteq> []"
    using that by (simp add: soma_uart_parse_def Let_def char_at_def read_printed numeral_eq_Suc)
  moreover have "soma_uint_to_dec v \<noteq> []"
    using dec_snoc [of "unat v"] by (auto simp: soma_uint_to_dec_def unat_gt_0)
  ultimately show ?thesis
    using c by (simp add: soma_uart_poll_def uart_byte_def fold_append [of uart_byte ?s, simplified])
qed

section \<open>The demo generator has the last word\<close>

lemma vitals_parse: "demo_vitals tick (soma_uart_parse line st) = demo_vitals tick st"
  by (simp add: soma_uart_parse_def demo_vitals_def Let_def set_state_def set_dplus_def)

lemma vitals_poll: "demo_vitals tick (snd (soma_uart_poll received x)) = demo_vitals tick (snd x)"
proof -
  have "demo_vitals tick (snd (uart_byte ch x)) = demo_vitals tick (snd x)" for ch x
    by (cases x) (simp add: uart_byte_def vitals_parse)
  then show ?thesis unfolding soma_uart_poll_def by (induction received arbitrary: x) simp_all
qed

lemma fill_poll:
  "soma_state_demo_fill tick (snd (soma_uart_poll received x)) = soma_state_demo_fill tick (snd x)"
  by (simp add: soma_state_demo_fill_def vitals_poll)

text \<open>
  the serial bridge is never seen. What arrives on the serial port in a round changes
  neither the frame that is drawn nor any part of the state but the half-read line: every value
  that a message can set is overwritten by the demo generator before the frame.
\<close>

theorem serial_never_shown:
  "map_option (uart_line_update (\<lambda>_. [])) (desktop_round received key d)
     = map_option (uart_line_update (\<lambda>_. [])) (desktop_round received' key d)"
proof -
  have r: "desktop_round r key d = map_option (uart_line_update (\<lambda>_. fst (soma_uart_poll r (uart_line d, g_soma d))))
      (desktop_round [] key d)" for r
  proof -
    let ?st = "soma_state_demo_fill (g_tick d) (g_soma d)" and ?x = "soma_uart_poll r (uart_line d, g_soma d)"
    have f: "soma_state_demo_fill (g_tick d) (snd ?x) = ?st" by (simp add: fill_poll)
    have e: "soma_uart_poll [] x = x" for x by (simp add: soma_uart_poll_def)
    have "d\<lparr>uart_line := fst ?x, g_soma := ?st\<rparr> = (d\<lparr>g_soma := ?st\<rparr>)\<lparr>uart_line := fst ?x\<rparr>"
      and d: "d\<lparr>uart_line := uart_line d, g_soma := ?st\<rparr> = d\<lparr>g_soma := ?st\<rparr>" by simp_all
    then have l: "soma_render_frame (d\<lparr>uart_line := fst ?x, g_soma := ?st\<rparr>)
        = (soma_render_frame (d\<lparr>g_soma := ?st\<rparr>))\<lparr>uart_line := fst ?x\<rparr>" by (simp only: frame_line)
    show ?thesis
      by (simp add: desktop_round_def split_beta Let_def f e l d split: option.split)
  qed
  show ?thesis by (subst (1 2) r) (simp add: option.map_comp comp_def)
qed

section \<open>The event ring\<close>

definition demo_event :: "u32 \<Rightarrow> soma \<Rightarrow> soma" where
  "demo_event tick =
     (let idx = unat (tick div 90 mod 6) in hud_event (event_kinds ! idx, event_descs ! idx, ucast tick))"

lemma tick_event: "demo_events tick st = (if tick mod 90 = 0 then demo_event tick st else st)"
  by (simp add: demo_events_def demo_event_def Let_def)

lemma tsc_of_tick: "ucast (ucast (t :: u32) :: u64) = t"
  by (rule bit_word_eqI) (simp add: bit_simps)

interpretation event_log: ring_log 8 demo_event "\<lambda>st i. ucast (ev_tsc (events st ! i))" event_head
  "\<lambda>st. length (events st) = 8 \<and> event_head st < 8"
  by unfold_locales
    (auto simp: demo_event_def hud_event_def Let_def nth_list_update tsc_of_tick)

text \<open>The ring shows the ticks of the last eight events, the latest just behind the head.\<close>

theorem recent_events:
  assumes "soma_ok st" "j < 8" "j < length ticks"
  shows "ucast (ev_tsc (events (fold demo_event ticks st)
      ! ((event_head st + (length ticks - 1 - j)) mod 8))) = ticks ! (length ticks - 1 - j)"
  by (rule event_log.log_recent) (use assms in \<open>auto simp: soma_ok_def\<close>)

end
