(* ===== verification/Hud_Text.thy ===== *)
theory Hud_Text
  imports Hud_Serial
begin

text \<open>
  How the desktop builds its lines in memory: the concatenation helpers \<open>soma_str_cat\<close> and
  \<open>soma_num_cat\<close> of \<open>oo_hud_final.c\<close>, which write characters into an array on the stack and know
  nothing of its size, and the lines that \<open>render_panels\<close> and \<open>render_hud_corners\<close> build with them.
  The layers are modelled with strings; here a write outside the array is an error, and the lines
  are shown to fit, so what is drawn is the string of the layers' model. Last, the entry of the
  program, which gives up without graphics.
\<close>

section \<open>Writing into an array\<close>

text \<open>An array of characters with the position behind the text so far; \<open>None\<close>: written outside.\<close>

type_synonym text_buffer = "string \<times> nat"

definition put_char :: "char \<Rightarrow> text_buffer \<Rightarrow> text_buffer option" where
  "put_char ch = (\<lambda>(dst, pos). if pos < length dst then Some (dst[pos := ch], pos + 1) else None)"

definition terminate_text :: "text_buffer \<Rightarrow> text_buffer option" where
  "terminate_text = (\<lambda>(dst, pos). if pos < length dst then Some (dst[pos := CHR 0x00], pos) else None)"

primrec put_all :: "string \<Rightarrow> text_buffer \<Rightarrow> text_buffer option" where
  "put_all [] b = Some b"
| "put_all (ch # src) b = (case put_char ch b of None \<Rightarrow> None | Some b \<Rightarrow> put_all src b)"

definition soma_str_cat :: "string \<Rightarrow> text_buffer \<Rightarrow> text_buffer option" where
  "soma_str_cat src b = (case put_all (cstr src) b of None \<Rightarrow> None | Some b \<Rightarrow> terminate_text b)"

text \<open>The digits go through an array of 12 characters of their own, with a terminator.\<close>

definition soma_num_cat :: "u32 \<Rightarrow> text_buffer \<Rightarrow> text_buffer option" where
  "soma_num_cat v b =
     (if length (soma_uint_to_dec v) < 12 then soma_str_cat (soma_uint_to_dec v @ [CHR 0x00]) b else None)"

datatype text_part = Lit string | Num u32

primrec cat_part :: "text_part \<Rightarrow> text_buffer \<Rightarrow> text_buffer option" where
  "cat_part (Lit s) = soma_str_cat s"
| "cat_part (Num v) = soma_num_cat v"

primrec part_text :: "text_part \<Rightarrow> string" where
  "part_text (Lit s) = cstr s"
| "part_text (Num v) = soma_uint_to_dec v"

text \<open>A line: \<open>pos = 0\<close> and the calls in order.\<close>

primrec cat_parts :: "text_part list \<Rightarrow> text_buffer \<Rightarrow> text_buffer option" where
  "cat_parts [] b = Some b"
| "cat_parts (p # ps) b = (case cat_part p b of None \<Rightarrow> None | Some b \<Rightarrow> cat_parts ps b)"

subsection \<open>What is in the array\<close>

text \<open>\<open>holds t b\<close>: the array begins with the text \<open>t\<close>, and the position is behind it.\<close>

definition holds :: "string \<Rightarrow> text_buffer \<Rightarrow> bool" where
  "holds t b \<longleftrightarrow> snd b = length t \<and> length t \<le> length (fst b) \<and> take (length t) (fst b) = t"

lemma put_all_holds:
  "holds t b \<Longrightarrow> length t + length src \<le> length (fst b) \<Longrightarrow>
     \<exists>b'. put_all src b = Some b' \<and> holds (t @ src) b' \<and> length (fst b') = length (fst b)"
proof (induction src arbitrary: t b)
  case (Cons ch src)
  obtain dst pos where b: "b = (dst, pos)" by fastforce
  have h: "pos = length t" "pos < length dst" "take pos dst = t" using Cons.prems by (auto simp: holds_def b)
  let ?b = "(dst[pos := ch], pos + 1)"
  have p: "put_char ch b = Some ?b" using h by (simp add: put_char_def b)
  have "holds (t @ [ch]) ?b" using h by (simp add: holds_def take_Suc_conv_app_nth)
  from Cons.IH [OF this] Cons.prems(2) p show ?case by (simp add: b)
qed simp

lemma str_cat_holds:
  assumes "holds t b" "length t + length (cstr src) < length (fst b)"
  shows "\<exists>b'. soma_str_cat src b = Some b' \<and> holds (t @ cstr src) b' \<and> length (fst b') = length (fst b)
    \<and> fst b' ! snd b' = CHR 0x00"
proof -
  obtain b1 where b1: "put_all (cstr src) b = Some b1" "holds (t @ cstr src) b1" "length (fst b1) = length (fst b)"
    using put_all_holds [OF assms(1), of "cstr src"] assms(2) by auto
  obtain dst pos where d: "b1 = (dst, pos)" by fastforce
  have "pos < length dst" using b1 assms(2) by (auto simp: d holds_def)
  then show ?thesis using b1 by (auto simp: soma_str_cat_def terminate_text_def d holds_def)
qed

lemma dec_char_nonzero: "list_all dec_char s \<Longrightarrow> CHR 0x00 \<notin> set s"
  by (auto simp: list_all_iff dec_char_def)

lemma cstr_all: "CHR 0x00 \<notin> set s \<Longrightarrow> cstr (s @ CHR 0x00 # r) = s"
  unfolding cstr_def by (subst takeWhile_append2) auto

lemma number_cstr: "cstr (soma_uint_to_dec v @ [CHR 0x00]) = soma_uint_to_dec v"
  using dec_string(1) [of v] by (intro cstr_all dec_char_nonzero)

lemma cat_part_holds:
  assumes "holds t b" "length t + length (part_text p) < length (fst b)"
  shows "\<exists>b'. cat_part p b = Some b' \<and> holds (t @ part_text p) b' \<and> length (fst b') = length (fst b)
    \<and> fst b' ! snd b' = CHR 0x00"
proof (cases p)
  case (Num v)
  have "length (soma_uint_to_dec v) < 12" using dec_string(2) [of v] by simp
  then show ?thesis
    using str_cat_holds [OF assms(1), of "soma_uint_to_dec v @ [CHR 0x00]"] assms(2)
    by (simp add: Num soma_num_cat_def number_cstr)
qed (use str_cat_holds [OF assms(1)] assms(2) in simp)

lemma part_nonzero: "CHR 0x00 \<notin> set (part_text p)"
  using dec_string(1) dec_char_nonzero by (cases p) (auto simp: cstr_def dest: set_takeWhileD)

lemma cat_parts_holds:
  "holds t b \<Longrightarrow> ps \<noteq> [] \<Longrightarrow> length t + length (concat (map part_text ps)) < length (fst b) \<Longrightarrow>
     \<exists>b'. cat_parts ps b = Some b' \<and> holds (t @ concat (map part_text ps)) b'
       \<and> length (fst b') = length (fst b) \<and> fst b' ! snd b' = CHR 0x00"
proof (induction ps arbitrary: t b)
  case (Cons p ps)
  have "length t + length (part_text p) < length (fst b)" using Cons.prems(3) by simp
  from cat_part_holds [OF Cons.prems(1) this] obtain b1 where
    b1: "cat_part p b = Some b1" "holds (t @ part_text p) b1" "length (fst b1) = length (fst b)"
      "fst b1 ! snd b1 = CHR 0x00" by blast
  show ?case
  proof (cases "ps = []")
    case False
    from Cons.IH [OF b1(2) this] Cons.prems(3) b1 show ?thesis by simp
  qed (use b1 in simp)
qed simp

text \<open>A line that is shorter than the array is the text that \<open>draw_str\<close> reads out of it.\<close>

lemma line_read_back:
  assumes "ps \<noteq> []" "length (concat (map part_text ps)) < length buf"
  shows "\<exists>b. cat_parts ps (buf, 0) = Some b \<and> cstr (fst b) = concat (map part_text ps)"
proof -
  let ?t = "concat (map part_text ps)"
  have "holds [] (buf, 0)" by (simp add: holds_def)
  from cat_parts_holds [OF this assms(1)] assms(2) obtain b where
    b: "cat_parts ps (buf, 0) = Some b" "holds ?t b" "length (fst b) = length buf" "fst b ! snd b = CHR 0x00"
    by auto
  have n: "CHR 0x00 \<notin> set ?t" using part_nonzero by auto
  have "length ?t < length (fst b)" using b(3) assms(2) by simp
  then have "fst b = ?t @ CHR 0x00 # drop (Suc (length ?t)) (fst b)"
    using b(2,4) id_take_nth_drop [of "length ?t" "fst b"] by (auto simp: holds_def)
  then have "cstr (fst b) = ?t" by (rule ssubst) (rule cstr_all [OF n])
  with b(1) show ?thesis by blast
qed

section \<open>The lines of the desktop\<close>

definition percent_of :: "arena_info \<Rightarrow> u32" where
  "percent_of a = (if total_mb a > 0 then used_mb a * 100 div total_mb a else 0)"

definition rate_line :: "soma \<Rightarrow> text_part list" where
  "rate_line st = [Num (tokens_per_sec st)]"

definition tokens_line :: "soma \<Rightarrow> text_part list" where
  "tokens_line st = [Num (ucast (tokens_generated st AND 0xFFFFFFFF))]"

definition percent_line :: "arena_info \<Rightarrow> text_part list" where
  "percent_line a = [Num (percent_of a), Lit ''%'']"

definition peers_line :: "soma \<Rightarrow> text_part list" where
  "peers_line st = [Lit ''PEERS: '', Num (of_nat (peer_count st)), Lit ''/6'']"

definition dplus_corner :: "soma \<Rightarrow> text_part list" where
  "dplus_corner st = [Lit ''D+:'', Lit (dplus_name (dplus_mode st))]"

definition peers_corner :: "soma \<Rightarrow> text_part list" where
  "peers_corner st = [Lit ''PEERS:'', Num (swarm_peer_count st)]"

definition warden_corner :: "soma \<Rightarrow> text_part list" where
  "warden_corner st = [Lit ''WARDEN:'', Num (ucast (warden_pressure st))]"

definition rate_corner :: "soma \<Rightarrow> text_part list" where
  "rate_corner st = [Lit ''TPS:'', Num (tokens_per_sec st)]"

definition panel_lines :: "soma \<Rightarrow> text_part list list" where
  "panel_lines st = [rate_line st, tokens_line st]
     @ map (\<lambda>i. percent_line (arenas st ! i)) [0..<min (arena_count st) 5] @ [peers_line st]"

definition corner_lines :: "soma \<Rightarrow> text_part list list" where
  "corner_lines st = [dplus_corner st, peers_corner st, warden_corner st, rate_corner st]"

lemmas desktop_lines = panel_lines_def corner_lines_def rate_line_def tokens_line_def percent_line_def
  peers_line_def dplus_corner_def peers_corner_def warden_corner_def rate_corner_def

lemma part_length: "length (part_text (Num v)) \<le> 10" "length (part_text (Lit s)) \<le> length s"
  by (simp_all add: dec_string cstr_def length_takeWhile_le)

lemma name_length: "length (dplus_name m) \<le> 5"
  by (cases m) (simp_all add: dplus_name_def)

text \<open>The lengths of the literals, and ten digits for every number.\<close>

primrec part_room :: "text_part \<Rightarrow> nat" where
  "part_room (Lit s) = length s"
| "part_room (Num v) = 10"

lemma line_room: "length (concat (map part_text ps)) \<le> sum_list (map part_room ps)"
proof (induction ps)
  case (Cons p ps)
  have "length (part_text p) \<le> part_room p" using part_length by (cases p) simp_all
  with Cons show ?case by simp
qed simp

lemma line_short:
  assumes "ps \<in> set (panel_lines st @ corner_lines st)"
  shows "ps \<noteq> [] \<and> length (concat (map part_text ps)) \<le> 19"
proof -
  have "ps \<noteq> [] \<and> sum_list (map part_room ps) \<le> 19"
    using assms name_length [of "dplus_mode st"] by (auto simp: desktop_lines)
  then show ?thesis using line_room [of ps] by linarith
qed

text \<open>The lines are the strings that the layers draw.\<close>

lemma corner_texts: "map (\<lambda>ps. concat (map part_text ps)) (corner_lines st) =
    [''D+:'' @ dplus_name (dplus_mode st), ''PEERS:'' @ soma_uint_to_dec (swarm_peer_count st),
     ''WARDEN:'' @ soma_uint_to_dec (ucast (warden_pressure st)), ''TPS:'' @ soma_uint_to_dec (tokens_per_sec st)]"
  by (cases "dplus_mode st") (simp_all add: desktop_lines cstr_def dplus_name_def)

section \<open>The entry\<close>

text \<open>
  What the firmware returns for the graphics protocol: the address of the frame buffer with the screen
  there, or \<open>None\<close> when the protocol is missing. The value is the message on the console or the first
  state.
\<close>

definition desktop_entry :: "(u64 \<times> canvas) option \<Rightarrow> string + desktop" where
  "desktop_entry gop = (case gop of None \<Rightarrow> Inl ''SOMA: GOP not found''
   | Some (fb, c) \<Rightarrow>
       if fb = 0 \<or> g_sw c = 0 \<or> g_sh c = 0 then Inl ''SOMA: Bad framebuffer''
       else Inr (desktop_start c (ucast fb)))"

section \<open>Properties\<close>

text \<open>
  C40: Every line that the panels and the corners build from literals and numbers fits into the
  array of 64 characters on the stack, whatever the array held before and whatever the state of the
  desktop: no call writes outside, and the text read back for drawing is the whole line.
\<close>

theorem desktop_lines_fit:
  assumes "ps \<in> set (panel_lines st @ corner_lines st)" "length buf = 64"
  shows "\<exists>b. cat_parts ps (buf, 0) = Some b \<and> cstr (fst b) = concat (map part_text ps)"
  using line_short [OF assms(1)] by (intro line_read_back) (simp_all add: assms(2))

theorem desktop_lines_fit_witness:
  "\<exists>b. cat_parts (peers_line soma_boot) (replicate 64 CHR 0xAA, 0) = Some b
     \<and> cstr (fst b) = concat (map part_text (peers_line soma_boot))"
  by (rule desktop_lines_fit [where st = soma_boot]) (simp_all add: panel_lines_def)

end
