(* ===== verification/Peripherals.thy ===== *)
theory Peripherals
  imports Hud_Canvas
begin

text \<open>
  Code at the edge of the hardware that computes something: the two scanners of the PCI
  configuration space (\<open>network-baremetal/src/nic_pci.c\<close>, \<open>drivers/pci.c\<close>), the keyboard map
  (\<open>drivers/ps2.c\<close>) and the writer of voice records on the serial line
  (\<open>engine/voice/oo_voice_state_writer.c\<close>). The configuration space is a function \<open>cfg\<close> from the
  address written to port \<open>0xCF8\<close> to the word read from \<open>0xCFC\<close>; the wait for the serial port to
  become ready is left out.
\<close>

section \<open>PCI configuration space\<close>

definition pci_addr :: "u8 \<Rightarrow> u8 \<Rightarrow> u8 \<Rightarrow> u8 \<Rightarrow> u32" where
  "pci_addr bus slot func off = push_bit 31 1 OR push_bit 16 (ucast bus) OR push_bit 11 (ucast slot)
     OR push_bit 8 (ucast func) OR ucast (off AND 0xFC)"

definition pci_config_read32 :: "(u32 \<Rightarrow> u32) \<Rightarrow> u8 \<Rightarrow> u8 \<Rightarrow> u8 \<Rightarrow> u8 \<Rightarrow> u32" where
  "pci_config_read32 cfg bus slot func off = cfg (pci_addr bus slot func off)"

text \<open>A write is the pair of words sent to the ports \<open>0xCF8\<close> and \<open>0xCFC\<close>.\<close>

definition pci_config_write32 :: "u8 \<Rightarrow> u8 \<Rightarrow> u8 \<Rightarrow> u8 \<Rightarrow> u32 \<Rightarrow> u32 \<times> u32" where
  "pci_config_write32 bus slot func off val = (pci_addr bus slot func off, val)"

record pci_dev =
  pci_bus :: u8
  pci_slot :: u8
  pci_func :: u8
  vendor_id :: u16
  device_id :: u16
  bar0 :: u32
  bar1 :: u32

definition id_vendor :: "u32 \<Rightarrow> u16" where
  "id_vendor w = ucast (w AND 0xFFFF)"

definition id_device :: "u32 \<Rightarrow> u16" where
  "id_device w = ucast (drop_bit 16 w AND 0xFFFF)"

definition found_device :: "(u32 \<Rightarrow> u32) \<Rightarrow> u8 \<Rightarrow> u8 \<Rightarrow> u8 \<Rightarrow> pci_dev" where
  "found_device cfg bus slot func =
     (let w = pci_config_read32 cfg bus slot func 0x00
      in \<lparr> pci_bus = bus, pci_slot = slot, pci_func = func, vendor_id = id_vendor w,
           device_id = id_device w, bar0 = pci_config_read32 cfg bus slot func 0x10,
           bar1 = pci_config_read32 cfg bus slot func 0x14 \<rparr>)"

text \<open>The innermost loop, over the functions that remain; \<open>None\<close>: it ended or was left by \<open>break\<close>.\<close>

primrec find_func :: "(u32 \<Rightarrow> u32) \<Rightarrow> u16 \<Rightarrow> u16 \<Rightarrow> u8 \<Rightarrow> u8 \<Rightarrow> u8 list \<Rightarrow> pci_dev option" where
  "find_func cfg vendor device bus slot [] = None"
| "find_func cfg vendor device bus slot (func # funcs) =
     (let w = pci_config_read32 cfg bus slot func 0x00
      in if id_vendor w = 0xFFFF then find_func cfg vendor device bus slot funcs
         else if id_vendor w = vendor \<and> id_device w = device then Some (found_device cfg bus slot func)
         else if func = 0 \<and> drop_bit 16 (pci_config_read32 cfg bus slot 0 0x0C) AND 0x80 = 0 then None
         else find_func cfg vendor device bus slot funcs)"

fun first_some :: "('a \<Rightarrow> 'b option) \<Rightarrow> 'a list \<Rightarrow> 'b option" where
  "first_some f [] = None"
| "first_some f (x # xs) = (case f x of None \<Rightarrow> first_some f xs | Some y \<Rightarrow> Some y)"

definition pci_find :: "(u32 \<Rightarrow> u32) \<Rightarrow> u16 \<Rightarrow> u16 \<Rightarrow> pci_dev option" where
  "pci_find cfg vendor device =
     first_some (\<lambda>bus. first_some (\<lambda>slot.
        find_func cfg vendor device (of_nat bus) (of_nat slot) (map of_nat [0..<8])) [0..<32]) [0..<256]"

definition pci_enable_busmaster :: "(u32 \<Rightarrow> u32) \<Rightarrow> pci_dev option \<Rightarrow> (u32 \<times> u32) option" where
  "pci_enable_busmaster cfg dev =
     (case dev of
        None \<Rightarrow> None
      | Some d \<Rightarrow>
          let cmd = pci_config_read32 cfg (pci_bus d) (pci_slot d) (pci_func d) 0x04 OR 0x07
          in Some (pci_config_write32 (pci_bus d) (pci_slot d) (pci_func d) 0x04 cmd))"

text \<open>The enumerator of the drivers, which has its own access to the ports.\<close>

definition oo_pci_address :: "u8 \<Rightarrow> u8 \<Rightarrow> u8 \<Rightarrow> u8 \<Rightarrow> u32" where
  "oo_pci_address bus slot func offset = push_bit 16 (ucast bus) OR push_bit 11 (ucast slot)
     OR push_bit 8 (ucast func) OR ucast (offset AND 0xFC) OR 0x80000000"

definition oo_pci_read_config_32 :: "(u32 \<Rightarrow> u32) \<Rightarrow> u8 \<Rightarrow> u8 \<Rightarrow> u8 \<Rightarrow> u8 \<Rightarrow> u32" where
  "oo_pci_read_config_32 cfg bus slot func offset = cfg (oo_pci_address bus slot func offset)"

definition oo_pci_write_config_32 :: "u8 \<Rightarrow> u8 \<Rightarrow> u8 \<Rightarrow> u8 \<Rightarrow> u32 \<Rightarrow> u32 \<times> u32" where
  "oo_pci_write_config_32 bus slot func offset val = (oo_pci_address bus slot func offset, val)"

lemma oo_pci_address_eq: "oo_pci_address = pci_addr"
  by (auto simp: fun_eq_iff oo_pci_address_def pci_addr_def or.assoc or.commute or.left_commute)

record oo_pci_device =
  od_bus :: u8
  od_dev :: u8
  od_func :: u8
  od_vendor_id :: u16
  od_device_id :: u16
  od_class_code :: u8
  od_subclass :: u8

definition oo_pci_entry :: "(u32 \<Rightarrow> u32) \<Rightarrow> u8 \<Rightarrow> u8 \<Rightarrow> u8 \<Rightarrow> oo_pci_device" where
  "oo_pci_entry cfg bus dev func =
     (let id_reg = oo_pci_read_config_32 cfg bus dev func 0x00;
          class_reg = oo_pci_read_config_32 cfg bus dev func 0x08
      in \<lparr> od_bus = bus, od_dev = dev, od_func = func, od_vendor_id = id_vendor id_reg,
           od_device_id = id_device id_reg, od_class_code = ucast (drop_bit 24 class_reg AND 0xFF),
           od_subclass = ucast (drop_bit 16 class_reg AND 0xFF) \<rparr>)"

definition enumerate_func ::
  "(u32 \<Rightarrow> u32) \<Rightarrow> int \<Rightarrow> u8 \<Rightarrow> u8 \<Rightarrow> u8 \<Rightarrow> oo_pci_device list \<Rightarrow> oo_pci_device list" where
  "enumerate_func cfg max_devices bus dev func out =
     (if id_vendor (oo_pci_read_config_32 cfg bus dev func 0x00) \<noteq> 0xFFFF
      then if int (length out) < max_devices then out @ [oo_pci_entry cfg bus dev func] else out
      else out)"

definition oo_pci_enumerate :: "(u32 \<Rightarrow> u32) \<Rightarrow> int \<Rightarrow> oo_pci_device list" where
  "oo_pci_enumerate cfg max_devices =
     fold (\<lambda>bus. fold (\<lambda>dev out.
        if id_vendor (oo_pci_read_config_32 cfg (of_nat bus) (of_nat dev) 0 0x00) \<noteq> 0xFFFF
        then fold (\<lambda>func. enumerate_func cfg max_devices (of_nat bus) (of_nat dev) (of_nat func)) [0..<8] out
        else out) [0..<32]) [0..<256] []"

section \<open>The keyboard map\<close>

definition scancode_ascii :: string where
  "scancode_ascii =
     [CHR 0x00, CHR 0x1B] @ ''1234567890-='' @ [CHR 0x08] @
     [CHR 0x09] @ ''qwertyuiop[]'' @ [CHR 0x0A] @
     [CHR 0x00] @ ''asdfghjkl;'' @ [CHR 0x27, CHR 0x60, CHR 0x00] @
     [CHR 0x5C] @ ''zxcvbnm,./'' @ [CHR 0x00] @ ''*'' @ [CHR 0x00] @
     '' '' @ replicate 13 CHR 0x00"

definition oo_ps2_scancode_to_ascii :: "u8 \<Rightarrow> bool \<Rightarrow> char" where
  "oo_ps2_scancode_to_ascii scancode shift_pressed =
     (if scancode > 0x46 then CHR 0x00
      else let c = scancode_ascii ! unat scancode; k = (of_char c :: nat)
           in if shift_pressed \<and> 97 \<le> k \<and> k \<le> 122 then char_of (k - 32) else c)"

section \<open>Voice records\<close>

record voice_state_emit =
  emotion :: "string option"
  vortex_speed_mul_x10 :: u32
  wake_pulse :: u8
  glitch :: u8
  inference :: u8
  waveform :: "u8 list"
  response :: "string option"

text \<open>
  \<open>_itoa_dec\<close>: the text it leaves in a buffer of \<open>buflen\<close> bytes. The digits are collected from
  the last, at most eleven, and written while there is room for a terminator.
\<close>

fun itoa_tmp :: "nat \<Rightarrow> string \<Rightarrow> string" where
  "itoa_tmp n tmp = (if n = 0 \<or> length tmp \<ge> 11 then tmp else itoa_tmp (n div 10) (tmp @ [dec_digit (n mod 10)]))"

declare itoa_tmp.simps [simp del]

function itoa_dec :: "int \<Rightarrow> int \<Rightarrow> string" where
  "itoa_dec n buflen =
     (if buflen < 2 then ''0''
      else if n < 0 then CHR ''-'' # itoa_dec (- n) (buflen - 1)
      else if n = 0 then ''0''
      else take (nat (buflen - 1)) (rev (itoa_tmp (nat n) [])))"
  by auto
termination by (relation "measure (\<lambda>(n, buflen). nat buflen)") auto

declare itoa_dec.simps [simp del]

definition emit_f10 :: "u32 \<Rightarrow> string" where
  "emit_f10 v10 = itoa_dec (sint (v10 div 10)) 8 @ ''.'' @ [dec_digit (unat (v10 mod 10))]"

fun escaped :: "string \<Rightarrow> string" where
  "escaped [] = []"
| "escaped (r # s) =
     (if r = CHR 0x5C then [CHR 0x5C, CHR 0x5C]
      else if r = CHR 0x22 then [CHR 0x5C, CHR 0x22]
      else if r = CHR 0x0A then [CHR 0x5C, CHR ''n'']
      else [r]) @ escaped s"

fun waveform_text :: "u8 list \<Rightarrow> string" where
  "waveform_text [] = []"
| "waveform_text [w] = itoa_dec (uint w) 8"
| "waveform_text (w # ws) = itoa_dec (uint w) 8 @ '','' @ waveform_text ws"

text \<open>The quote and the comma are written as character codes where they delimit JSON strings.\<close>

definition quoted :: "string \<Rightarrow> string" where
  "quoted s = CHR 0x22 # s @ [CHR 0x22]"

definition voice_head :: "voice_state_emit \<Rightarrow> string" where
  "voice_head e = ''OO_VOICE:{'' @ quoted ''emotion'' @ '':''
     @ quoted (case emotion e of Some s \<Rightarrow> s | None \<Rightarrow> ''FOCUSED'')
     @ '','' @ quoted ''vortex_speed_mul'' @ '':'' @ emit_f10 (vortex_speed_mul_x10 e)
     @ '','' @ quoted ''wake_pulse'' @ '':'' @ itoa_dec (uint (wake_pulse e)) 8
     @ '','' @ quoted ''glitch'' @ '':'' @ itoa_dec (uint (glitch e)) 8
     @ '','' @ quoted ''inference'' @ '':'' @ (if inference e \<noteq> 0 then ''true'' else ''false'')
     @ '','' @ quoted ''waveform'' @ '':['' @ waveform_text (waveform e) @ '']''"

definition oo_voice_state_emit :: "voice_state_emit \<Rightarrow> string" where
  "oo_voice_state_emit e = voice_head e
     @ (case response e of
          None \<Rightarrow> []
        | Some r \<Rightarrow> if r = [] then [] else '','' @ quoted ''response'' @ '':'' @ quoted (escaped r))
     @ ''}'' @ [CHR 0x0D, CHR 0x0A]"

definition oo_voice_state_emit_simple :: "string option \<Rightarrow> bool \<Rightarrow> bool \<Rightarrow> string" where
  "oo_voice_state_emit_simple emo infer wake = oo_voice_state_emit
     \<lparr> emotion = emo, vortex_speed_mul_x10 = (if infer then 25 else 10), wake_pulse = (if wake then 1 else 0),
       glitch = 0, inference = (if infer then 1 else 0), waveform = replicate 64 128, response = None \<rparr>"

end
