(* ===== verification/Peripheral_Facts.thy ===== *)
theory Peripheral_Facts
  imports Peripherals Contracts
begin

text \<open>
  What the edge of the hardware guarantees: the PCI scanner finds the first matching function of
  the visible ones, the enumerator lists the present ones up to its limit, no scan code reads
  outside the keyboard map, and a voice record is one line from which a JSON reader gets back the
  response.
\<close>

section \<open>Finding a device\<close>

definition pci_matches :: "(u32 \<Rightarrow> u32) \<Rightarrow> u16 \<Rightarrow> u16 \<Rightarrow> u8 \<times> u8 \<times> u8 \<Rightarrow> bool" where
  "pci_matches cfg vendor device = (\<lambda>(b, s, f).
     let w = pci_config_read32 cfg b s f 0x00
     in id_vendor w \<noteq> 0xFFFF \<and> id_vendor w = vendor \<and> id_device w = device)"

text \<open>A device whose function 0 is present and not multifunction has only this function.\<close>

definition single_function :: "(u32 \<Rightarrow> u32) \<Rightarrow> u8 \<Rightarrow> u8 \<Rightarrow> bool" where
  "single_function cfg b s \<longleftrightarrow> id_vendor (pci_config_read32 cfg b s 0 0x00) \<noteq> 0xFFFF
     \<and> drop_bit 16 (pci_config_read32 cfg b s 0 0x0C) AND 0x80 = 0"

definition visible_functions :: "(u32 \<Rightarrow> u32) \<Rightarrow> (u8 \<times> u8 \<times> u8) list" where
  "visible_functions cfg = concat (map (\<lambda>b. concat (map (\<lambda>s. map (\<lambda>f. (of_nat b, of_nat s, f))
     (if single_function cfg (of_nat b) (of_nat s) then [0] else map of_nat [0..<8])) [0..<32])) [0..<256])"

lemma first_some_find:
  "first_some (\<lambda>x. map_option g (find P (h x))) xs = map_option g (find P (concat (map h xs)))"
proof -
  have a: "find P (ys @ zs) = (case find P ys of None \<Rightarrow> find P zs | Some y \<Rightarrow> Some y)" for ys zs
    by (induction ys) simp_all
  show ?thesis by (induction xs) (simp_all add: a split: option.split)
qed

lemma find_func_rest:
  "0 \<notin> set fs \<Longrightarrow> find_func cfg v d b s fs
     = map_option (\<lambda>(b, s, f). found_device cfg b s f) (find (pci_matches cfg v d) (map (\<lambda>f. (b, s, f)) fs))"
  by (induction fs) (auto simp: pci_matches_def Let_def)

lemma functions_0_7: "map of_nat [0..<8] = 0 # map of_nat [1..<8 :: nat]" "0 \<notin> set (map of_nat [1..<8] :: u8 list)"
  by (simp_all add: upt_rec)

lemma find_func_visible:
  "find_func cfg v d b s (map of_nat [0..<8])
     = map_option (\<lambda>(b, s, f). found_device cfg b s f) (find (pci_matches cfg v d) (map (\<lambda>f. (b, s, f))
        (if single_function cfg b s then [0] else map of_nat [0..<8])))"
proof -
  note r = find_func_rest [OF functions_0_7(2), of cfg v d b s]
  show ?thesis
    unfolding functions_0_7(1) find_func.simps r
    by (auto simp: pci_matches_def single_function_def Let_def)
qed

text \<open>
  the PCI scan. \<open>pci_find\<close> returns the first function, in the order of bus, slot and function
  number, that is present and has the vendor and device id, among those a device shows
  (function 0 alone for a present single-function device, all eight otherwise), and nothing if
  there is none.
\<close>

theorem pci_find_first:
  "pci_find cfg vendor device = map_option (\<lambda>(b, s, f). found_device cfg b s f)
     (find (pci_matches cfg vendor device) (visible_functions cfg))"
  unfolding pci_find_def visible_functions_def find_func_visible first_some_find by simp

text \<open>
  Both scanners read the same words, so what the enumerator lists is what \<open>pci_find\<close> searches.
\<close>

lemma same_configuration: "oo_pci_read_config_32 = pci_config_read32" "oo_pci_write_config_32 = pci_config_write32"
  by (simp_all add: fun_eq_iff oo_pci_read_config_32_def pci_config_read32_def oo_pci_address_eq
        oo_pci_write_config_32_def pci_config_write32_def)

section \<open>Enumerating devices\<close>

interpretation device_list: bounded_pool "nat m" "\<lambda>e out. if int (length out) < m then out @ [e] else out"
  "\<lambda>out. out" "\<lambda>out. length out \<le> nat m" "\<lambda>_. True" for m :: int
  by unfold_locales auto

definition present_functions :: "(u32 \<Rightarrow> u32) \<Rightarrow> (u8 \<times> u8 \<times> u8) list" where
  "present_functions cfg = concat (map (\<lambda>b. concat (map (\<lambda>s.
     if id_vendor (oo_pci_read_config_32 cfg (of_nat b) (of_nat s) 0 0x00) \<noteq> 0xFFFF
     then filter (\<lambda>(b, s, f). id_vendor (oo_pci_read_config_32 cfg b s f 0x00) \<noteq> 0xFFFF)
            (map (\<lambda>f. (of_nat b, of_nat s, of_nat f)) [0..<8])
     else []) [0..<32])) [0..<256])"

lemma fold_concat: "fold (\<lambda>x. fold f (h x)) xs = fold f (concat (map h xs))"
  by (induction xs) (simp_all add: comp_def fold_append)

lemma fold_filter: "fold (\<lambda>x. if P x then f x else id) xs = fold f (filter P xs)"
  by (induction xs) simp_all

text \<open>The enumerator lists the present functions of the present devices, cut at its limit.\<close>

theorem pci_enumerate_lists:
  "oo_pci_enumerate cfg m = take (nat m) (map (\<lambda>(b, s, f). oo_pci_entry cfg b s f) (present_functions cfg))"
proof -
  define add where "add = (\<lambda>e out. if int (length out) < m then out @ [e] else (out :: oo_pci_device list))"
  let ?e = "\<lambda>(b, s, f). oo_pci_entry cfg b s f"
  let ?p = "\<lambda>(b, s, f). id_vendor (oo_pci_read_config_32 cfg b s f 0x00) \<noteq> 0xFFFF"
  have f: "fold (\<lambda>func. enumerate_func cfg m b s (of_nat func)) fs
      = fold (\<lambda>x. add (?e x)) (filter ?p (map (\<lambda>f. (b, s, of_nat f)) fs))" for b s fs
    unfolding fold_filter [symmetric] fold_map
    by (rule arg_cong [where f = "\<lambda>g. fold g fs"]) (auto simp: enumerate_func_def add_def fun_eq_iff)
  have s: "(\<lambda>dev out. if id_vendor (oo_pci_read_config_32 cfg (of_nat b) (of_nat dev) 0 0x00) \<noteq> 0xFFFF
        then fold (\<lambda>func. enumerate_func cfg m (of_nat b) (of_nat dev) (of_nat func)) [0..<8] out else out)
     = (\<lambda>dev. fold (\<lambda>x. add (?e x)) (if id_vendor (oo_pci_read_config_32 cfg (of_nat b) (of_nat dev) 0 0x00) \<noteq> 0xFFFF
        then filter ?p (map (\<lambda>f. (of_nat b, of_nat dev, of_nat f)) [0..<8]) else []))" for b :: nat
    by (auto simp: f fun_eq_iff)
  have "oo_pci_enumerate cfg m = fold (\<lambda>x. add (?e x)) (present_functions cfg) []"
    unfolding oo_pci_enumerate_def s fold_concat present_functions_def ..
  also have "\<dots> = fold add (map ?e (present_functions cfg)) []" by (simp add: fold_map comp_def)
  also have "\<dots> = take (nat m) (map ?e (present_functions cfg))"
    using device_list.pool_entries [of "[]" m "map ?e (present_functions cfg)"] by (simp add: add_def)
  finally show ?thesis .
qed

section \<open>Scan codes\<close>

lemma scancode_in_table: "\<not> scancode > 0x46 \<Longrightarrow> unat scancode < length scancode_ascii" for scancode :: u8
  by (simp add: scancode_ascii_def word_less_nat_alt)

section \<open>Voice records\<close>

text \<open>A reader of JSON strings, from behind the opening quote: the text and what follows it.\<close>

fun read_string :: "string \<Rightarrow> (string \<times> string) option" where
  "read_string [] = None"
| "read_string (c # s) =
     (if c = CHR 0x22 then Some ([], s)
      else if c = CHR 0x5C
      then (case s of [] \<Rightarrow> None
            | d # t \<Rightarrow> map_option (\<lambda>(r, rest). ((if d = CHR ''n'' then CHR 0x0A else d) # r, rest)) (read_string t))
      else map_option (\<lambda>(r, rest). (c # r, rest)) (read_string s))"

lemma read_escaped: "read_string (escaped r @ CHR 0x22 # rest) = Some (r, rest)"
  by (induction r rule: escaped.induct) auto

lemma escaped_one_line: "CHR 0x0A \<notin> set (escaped r)"
  by (induction r rule: escaped.induct) auto

lemma digit_no_newline: "d < 10 \<Longrightarrow> dec_digit d \<noteq> CHR 0x0A"
proof
  assume d: "d < 10" "dec_digit d = CHR 0x0A"
  have "(of_char (dec_digit d) :: nat) = 48 + d" using d(1) unfolding dec_digit_def by simp
  moreover have "(of_char (dec_digit d) :: nat) = 10" unfolding d(2) by simp
  ultimately show False by simp
qed

lemma itoa_tmp_one_line: "CHR 0x0A \<notin> set tmp \<Longrightarrow> CHR 0x0A \<notin> set (itoa_tmp n tmp)"
proof (induction n tmp rule: itoa_tmp.induct)
  case (1 n tmp)
  have "dec_digit (n mod 10) \<noteq> CHR 0x0A" by (rule digit_no_newline) simp
  with 1 show ?case by (simp add: itoa_tmp.simps [of n tmp])
qed

lemma itoa_one_line: "CHR 0x0A \<notin> set (itoa_dec n b)"
proof (induction n b rule: itoa_dec.induct)
  case (1 n b)
  have "CHR 0x0A \<notin> set (take k (rev (itoa_tmp m [])))" for k m
    using itoa_tmp_one_line [of "[]" m] by (auto dest: in_set_takeD)
  with 1 show ?case by (simp add: itoa_dec.simps [of n b])
qed

lemma waveform_one_line: "CHR 0x0A \<notin> set (waveform_text ws)"
  by (induction ws rule: waveform_text.induct) (simp_all add: itoa_one_line)

lemma head_one_line:
  assumes "\<And>s. emotion e = Some s \<Longrightarrow> CHR 0x0A \<notin> set s"
  shows "CHR 0x0A \<notin> set (voice_head e)"
proof -
  have "dec_digit (unat (vortex_speed_mul_x10 e mod 10)) \<noteq> CHR 0x0A"
    by (rule digit_no_newline) (simp add: unat_mod)
  with assms show ?thesis
    by (auto simp: voice_head_def quoted_def emit_f10_def itoa_one_line waveform_one_line split: option.splits)
qed

text \<open>
  a voice record survives the serial line. Whatever the response text, line feeds, quotes and
  backslashes included, the record is a single line, and a JSON reader placed behind the
  opening quote of the response gets back exactly the text and is left with the end of the
  record.
\<close>

theorem voice_response_roundtrip:
  assumes "response e = Some r" "r \<noteq> []" "emotion e = Some s" "CHR 0x0A \<notin> set s"
  shows "read_string (drop (length (voice_head e) + 13) (oo_voice_state_emit e))
      = Some (r, ''}'' @ [CHR 0x0D, CHR 0x0A])
    \<and> takeWhile (\<lambda>c. c \<noteq> CHR 0x0A) (oo_voice_state_emit e) @ [CHR 0x0A] = oo_voice_state_emit e"
proof -
  let ?b = "voice_head e @ '','' @ quoted ''response'' @ '':'' @ quoted (escaped r) @ ''}'' @ [CHR 0x0D]"
  have e: "oo_voice_state_emit e = ?b @ [CHR 0x0A]"
    using assms(1,2) by (simp add: oo_voice_state_emit_def)
  have "CHR 0x0A \<notin> set ?b"
    using head_one_line [of e] assms(3,4) escaped_one_line [of r] by (simp add: quoted_def)
  then have "takeWhile (\<lambda>c. c \<noteq> CHR 0x0A) (?b @ [CHR 0x0A]) = ?b"
    by (subst takeWhile_append2) auto
  moreover have "read_string (drop (length (voice_head e) + 13) (?b @ [CHR 0x0A]))
      = Some (r, ''}'' @ [CHR 0x0D, CHR 0x0A])"
    using read_escaped [of r "''}'' @ [CHR 0x0D, CHR 0x0A]"] by (simp add: quoted_def)
  ultimately show ?thesis unfolding e by blast
qed

definition spoken :: voice_state_emit where
  "spoken = \<lparr> emotion = Some ''ALERT'', vortex_speed_mul_x10 = 25, wake_pulse = 1, glitch = 0,
     inference = 1, waveform = [128], response = Some [CHR ''A'', CHR 0x0A, CHR 0x22] \<rparr>"

lemma voice_response_roundtrip_witness:
  "read_string (drop (length (voice_head spoken) + 13) (oo_voice_state_emit spoken))
     = Some ([CHR ''A'', CHR 0x0A, CHR 0x22], ''}'' @ [CHR 0x0D, CHR 0x0A])"
  using voice_response_roundtrip [of spoken "[CHR ''A'', CHR 0x0A, CHR 0x22]" "''ALERT''"]
  by (simp add: spoken_def)

end
