(* ===== verification/Drivers.thy ===== *)
theory Drivers
  imports Peripherals C_Bytes
begin

text \<open>
  The drivers of \<open>drivers/\<close>: display, ACPI tables, SATA and virtio probes, serial port, keyboard
  controller, and the bring-up of the register devices (xhci, hda, nvme, e1000, virtio-net). The
  machine is a state of an arbitrary type; what an access to a port or register does is given by
  a record of functions. A wait for a status bit is a partial function whose value is \<open>None\<close> when
  the bit never comes. \<open>oo_pci_read_config\<close> and the type of its device are those of a submodule:
  the argument \<open>conf\<close> is the word it reads at an offset. Messages of \<open>_log_causal\<close> are left out.
\<close>

section \<open>Display\<close>

record display_ctx =
  framebuffer :: "nat \<Rightarrow> u32"
  d_width :: u32
  d_height :: u32
  d_pitch :: u32
  d_active :: int

definition display_init :: "(nat \<Rightarrow> u32) \<Rightarrow> u32 \<Rightarrow> u32 \<Rightarrow> u32 \<Rightarrow> display_ctx option \<Rightarrow> display_ctx option" where
  "display_init fb w h p ctx = map_option (\<lambda>c. c\<lparr> framebuffer := fb, d_width := w, d_height := h,
     d_pitch := p, d_active := 1 \<rparr>) ctx"

definition display_put_pixel :: "u32 \<Rightarrow> u32 \<Rightarrow> u32 \<Rightarrow> display_ctx \<Rightarrow> display_ctx" where
  "display_put_pixel x y color c =
     (if x \<ge> d_width c \<or> y \<ge> d_height c then c
      else c\<lparr> framebuffer := (framebuffer c)(unat (y * d_pitch c + x) := color) \<rparr>)"

definition display_clear :: "u32 \<Rightarrow> display_ctx option \<Rightarrow> display_ctx option" where
  "display_clear color ctx = map_option (\<lambda>c. if d_active c = 0 then c
     else c\<lparr> framebuffer := fold (\<lambda>i fb. fb(i := color)) [0..<unat (d_height c * d_pitch c)] (framebuffer c) \<rparr>) ctx"

section \<open>ACPI tables\<close>

definition bytes_at :: "(nat \<Rightarrow> u8) \<Rightarrow> nat \<Rightarrow> nat \<Rightarrow> u8 list" where
  "bytes_at mem a n = map (\<lambda>k. mem (a + k)) [0..<n]"

definition mem_le32 :: "(nat \<Rightarrow> u8) \<Rightarrow> nat \<Rightarrow> u32" where
  "mem_le32 mem a = get_le32 (bytes_at mem a 4) 0"

definition RSDP_SIGNATURE :: "u8 list" where
  "RSDP_SIGNATURE = map (\<lambda>c. of_nat (of_char c)) ''RSD PTR ''"

function rsdp_scan :: "(nat \<Rightarrow> u8) \<Rightarrow> nat \<Rightarrow> nat option" where
  "rsdp_scan mem ptr =
     (if ptr < 0x100000
      then if bytes_at mem ptr 8 = RSDP_SIGNATURE then Some ptr else rsdp_scan mem (ptr + 16)
      else None)"
  by auto
termination by (relation "measure (\<lambda>(mem, ptr). 0x100000 - ptr)") auto

declare rsdp_scan.simps [simp del]

definition acpi_find_rsdp :: "(nat \<Rightarrow> u8) \<Rightarrow> nat option" where
  "acpi_find_rsdp mem = rsdp_scan mem 0xE0000"

text \<open>
  The number of entries: \<open>length - sizeof(AcpiSdtHeader)\<close> is computed in \<open>size_t\<close>, the quotient is
  then converted to \<open>int\<close>. The header has 36 bytes; \<open>rsdt_addr\<close> is at offset 16 of the pointer
  structure, \<open>length\<close> at offset 4 of a table.
\<close>

definition sdt_entries :: "u32 \<Rightarrow> int" where
  "sdt_entries len = sint (ucast ((ucast len - 36 :: u64) div 4) :: u32)"

definition acpi_find_table :: "(nat \<Rightarrow> u8) \<Rightarrow> nat option \<Rightarrow> u8 list \<Rightarrow> nat option" where
  "acpi_find_table mem rsdp signature =
     (case rsdp of
        None \<Rightarrow> None
      | Some r \<Rightarrow>
          let rsdt = unat (mem_le32 mem (r + 16));
              entries = sdt_entries (mem_le32 mem (rsdt + 4))
          in find (\<lambda>table. bytes_at mem table 4 = take 4 signature)
               (map (\<lambda>i. unat (mem_le32 mem (rsdt + 36 + 4 * i))) [0..<nat entries]))"

section \<open>Disk probes\<close>

text \<open>The result and the static base address that the driver keeps.\<close>

definition oo_virtio_probe :: "(u32 \<Rightarrow> u32) \<Rightarrow> oo_pci_device option \<Rightarrow> u32 \<Rightarrow> int \<times> u32" where
  "oo_virtio_probe cfg pci_dev virtio_io_base =
     (case pci_dev of
        None \<Rightarrow> (0, virtio_io_base)
      | Some d \<Rightarrow>
          if od_vendor_id d = 0x1AF4 \<and> od_device_id d = 0x1001
          then let bar0 = oo_pci_read_config_32 cfg (od_bus d) (od_dev d) (od_func d) 0x10
               in if bar0 AND 1 \<noteq> 0 then (1, bar0 AND 0xFFFFFFFC) else (0, virtio_io_base)
          else (0, virtio_io_base))"

definition oo_virtio_blk_read :: "u32 \<Rightarrow> int" where
  "oo_virtio_blk_read virtio_io_base = (if virtio_io_base = 0 then -1 else 0)"

definition oo_virtio_blk_write :: "u32 \<Rightarrow> int" where
  "oo_virtio_blk_write virtio_io_base = (if virtio_io_base = 0 then -1 else 0)"

definition oo_ahci_probe :: "(u32 \<Rightarrow> u32) \<Rightarrow> oo_pci_device option \<Rightarrow> u32 \<Rightarrow> int \<times> u32" where
  "oo_ahci_probe cfg pci_dev abar_base =
     (case pci_dev of
        None \<Rightarrow> (0, abar_base)
      | Some d \<Rightarrow>
          if od_class_code d = 0x01 \<and> od_subclass d = 0x06
          then let bar5 = oo_pci_read_config_32 cfg (od_bus d) (od_dev d) (od_func d) 0x24
               in if bar5 AND 1 = 0 then (1, bar5 AND 0xFFFFFFF0) else (0, abar_base)
          else (0, abar_base))"

definition oo_ahci_read :: "u32 \<Rightarrow> int" where
  "oo_ahci_read abar_base = (if abar_base = 0 then -1 else 0)"

definition oo_ahci_write :: "u32 \<Rightarrow> int" where
  "oo_ahci_write abar_base = (if abar_base = 0 then -1 else 0)"

section \<open>Ports: serial line and keyboard controller\<close>

record 'h port_bus =
  port_in :: "u16 \<Rightarrow> 'h \<Rightarrow> u8 \<times> 'h"
  port_out :: "u16 \<Rightarrow> u8 \<Rightarrow> 'h \<Rightarrow> 'h"

text \<open>Reads until a value is not \<open>busy\<close>; the state after that read.\<close>

partial_function (option) wait_while :: "('h \<Rightarrow> 'w \<times> 'h) \<Rightarrow> ('w \<Rightarrow> bool) \<Rightarrow> 'h \<Rightarrow> 'h option" where
  "wait_while rd busy h = (if busy (fst (rd h)) then wait_while rd busy (snd (rd h)) else Some (snd (rd h)))"

definition oo_uart_init :: "'h port_bus \<Rightarrow> u16 \<Rightarrow> 'h \<Rightarrow> 'h" where
  "oo_uart_init p port h = fold (\<lambda>(a, v). port_out p (port + a) v)
     [(1, 0x00), (3, 0x80), (0, 0x03), (1, 0x00), (3, 0x03), (2, 0xC7), (4, 0x0B)] h"

definition oo_uart_is_transmit_empty :: "'h port_bus \<Rightarrow> u16 \<Rightarrow> 'h \<Rightarrow> u8 \<times> 'h" where
  "oo_uart_is_transmit_empty p port h = (let (v, h) = port_in p (port + 5) h in (v AND 0x20, h))"

definition oo_uart_write_char :: "'h port_bus \<Rightarrow> u16 \<Rightarrow> u8 \<Rightarrow> 'h \<Rightarrow> 'h option" where
  "oo_uart_write_char p port c h =
     map_option (port_out p port c) (wait_while (oo_uart_is_transmit_empty p port) (\<lambda>v. v = 0) h)"

primrec oo_uart_write_string :: "'h port_bus \<Rightarrow> u16 \<Rightarrow> u8 list \<Rightarrow> 'h \<Rightarrow> 'h option" where
  "oo_uart_write_string p port [] h = Some h"
| "oo_uart_write_string p port (c # str) h =
     (case oo_uart_write_char p port c h of None \<Rightarrow> None | Some h \<Rightarrow> oo_uart_write_string p port str h)"

definition oo_uart_has_data :: "'h port_bus \<Rightarrow> u16 \<Rightarrow> 'h \<Rightarrow> u8 \<times> 'h" where
  "oo_uart_has_data p port h = (let (v, h) = port_in p (port + 5) h in (v AND 1, h))"

definition oo_uart_read_char :: "'h port_bus \<Rightarrow> u16 \<Rightarrow> 'h \<Rightarrow> (u8 \<times> 'h) option" where
  "oo_uart_read_char p port h =
     map_option (port_in p port) (wait_while (oo_uart_has_data p port) (\<lambda>v. v = 0) h)"

definition PS2_DATA_PORT :: u16 where "PS2_DATA_PORT = 0x60"
definition PS2_STATUS_PORT :: u16 where "PS2_STATUS_PORT = 0x64"
definition PS2_COMMAND_PORT :: u16 where "PS2_COMMAND_PORT = 0x64"

definition oo_ps2_has_data :: "'h port_bus \<Rightarrow> 'h \<Rightarrow> u8 \<times> 'h" where
  "oo_ps2_has_data p h = (let (v, h) = port_in p PS2_STATUS_PORT h in (v AND 1, h))"

partial_function (option) ps2_flush :: "'h port_bus \<Rightarrow> 'h \<Rightarrow> 'h option" where
  "ps2_flush p h = (if fst (oo_ps2_has_data p h) \<noteq> 0
     then ps2_flush p (snd (port_in p PS2_DATA_PORT (snd (oo_ps2_has_data p h))))
     else Some (snd (oo_ps2_has_data p h)))"

definition oo_ps2_init :: "'h port_bus \<Rightarrow> 'h \<Rightarrow> 'h option" where
  "oo_ps2_init p h = map_option (port_out p PS2_COMMAND_PORT 0xAE)
     (ps2_flush p (port_out p PS2_COMMAND_PORT 0xA7 (port_out p PS2_COMMAND_PORT 0xAD h)))"

definition oo_ps2_read_scancode :: "'h port_bus \<Rightarrow> 'h \<Rightarrow> (u8 \<times> 'h) option" where
  "oo_ps2_read_scancode p h = map_option (port_in p PS2_DATA_PORT) (wait_while (oo_ps2_has_data p) (\<lambda>v. v = 0) h)"

section \<open>Memory-mapped devices\<close>

record 'h device_bus =
  read8 :: "u64 \<Rightarrow> 'h \<Rightarrow> u8 \<times> 'h"
  write8 :: "u64 \<Rightarrow> u8 \<Rightarrow> 'h \<Rightarrow> 'h"
  read32 :: "u64 \<Rightarrow> 'h \<Rightarrow> u32 \<times> 'h"
  write32 :: "u64 \<Rightarrow> u32 \<Rightarrow> 'h \<Rightarrow> 'h"

definition modify32 :: "'h device_bus \<Rightarrow> u64 \<Rightarrow> (u32 \<Rightarrow> u32) \<Rightarrow> 'h \<Rightarrow> 'h" where
  "modify32 d a f h = (let (w, h) = read32 d a h in write32 d a (f w) h)"

definition modify8 :: "'h device_bus \<Rightarrow> u64 \<Rightarrow> (u8 \<Rightarrow> u8) \<Rightarrow> 'h \<Rightarrow> 'h" where
  "modify8 d a f h = (let (w, h) = read8 d a h in write8 d a (f w) h)"

subsection \<open>USB controller\<close>

record xhci_ctx =
  cap_len :: u32
  op_off :: u32
  rt_off :: u32
  db_off :: u32
  xhci_mmio :: u32
  xhci_active :: int

definition xhci_reset :: "'h device_bus \<Rightarrow> xhci_ctx \<Rightarrow> 'h \<Rightarrow> 'h option" where
  "xhci_reset d c h =
     (let op_regs = ucast (xhci_mmio c + op_off c);
          h = modify32 d op_regs (\<lambda>w. w AND NOT 1) h
      in case wait_while (read32 d (op_regs + 4)) (\<lambda>w. w AND 1 = 0) h of
           None \<Rightarrow> None
         | Some h \<Rightarrow>
             let h = modify32 d op_regs (\<lambda>w. w OR 2) h
             in wait_while (read32 d op_regs) (\<lambda>w. w AND 2 \<noteq> 0) h)"

text \<open>
  The initialisers return the C result, the context and the machine. The context and the PCI
  device are \<open>None\<close> for a null pointer.
\<close>

definition xhci_init ::
  "'h device_bus \<Rightarrow> (u8 \<Rightarrow> u32) option \<Rightarrow> xhci_ctx option \<Rightarrow> 'h \<Rightarrow> (int \<times> xhci_ctx option \<times> 'h) option" where
  "xhci_init d pci ctx h =
     (case (ctx, pci) of
        (Some c, Some conf) \<Rightarrow>
          let c = c\<lparr> xhci_mmio := conf 0x10 AND 0xFFFFFFF0 \<rparr>;
              base = ucast (xhci_mmio c);
              (len, h) = read8 d base h;
              c = c\<lparr> cap_len := ucast len, op_off := ucast len \<rparr>;
              (db, h) = read32 d (base + 0x14) h;
              (rt, h) = read32 d (base + 0x18) h;
              c = c\<lparr> db_off := db, rt_off := rt \<rparr>
          in (case xhci_reset d c h of
                None \<Rightarrow> None
              | Some h \<Rightarrow> Some (0, Some (c\<lparr> xhci_active := 1 \<rparr>), h))
      | _ \<Rightarrow> Some (-1, ctx, h))"

subsection \<open>Sound\<close>

record hda_ctx =
  hda_mmio :: u32
  stream_count :: u32
  hda_active :: int

definition hda_init ::
  "'h device_bus \<Rightarrow> (u8 \<Rightarrow> u32) option \<Rightarrow> hda_ctx option \<Rightarrow> 'h \<Rightarrow> (int \<times> hda_ctx option \<times> 'h) option" where
  "hda_init d pci ctx h =
     (case (ctx, pci) of
        (Some c, Some conf) \<Rightarrow>
          let c = c\<lparr> hda_mmio := conf 0x10 AND 0xFFFFFFF0 \<rparr>;
              regs = ucast (hda_mmio c);
              (w, h) = read32 d regs h;
              gcap = w AND 0xFFFF;
              c = c\<lparr> stream_count := drop_bit 12 gcap AND 0x0F \<rparr>;
              c = c\<lparr> stream_count := stream_count c + (drop_bit 8 gcap AND 0x0F) \<rparr>;
              h = modify32 d (regs + 8) (\<lambda>w. w AND NOT 1) h
          in (case wait_while (read32 d (regs + 8)) (\<lambda>w. w AND 1 \<noteq> 0) h of
                None \<Rightarrow> None
              | Some h \<Rightarrow>
                  let h = modify32 d (regs + 8) (\<lambda>w. w OR 1) h
                  in (case wait_while (read32 d (regs + 8)) (\<lambda>w. w AND 1 = 0) h of
                        None \<Rightarrow> None
                      | Some h \<Rightarrow> Some (0, Some (c\<lparr> hda_active := 1 \<rparr>), h)))
      | _ \<Rightarrow> Some (-1, ctx, h))"

subsection \<open>Flash storage\<close>

record nvme_ctx =
  nvme_bar0 :: u64
  caps_lo :: u32
  caps_hi :: u32
  nvme_active :: int

definition nvme_init ::
  "'h device_bus \<Rightarrow> (u8 \<Rightarrow> u32) option \<Rightarrow> nvme_ctx option \<Rightarrow> 'h \<Rightarrow> (int \<times> nvme_ctx option \<times> 'h) option" where
  "nvme_init d pci ctx h =
     (case (ctx, pci) of
        (Some c, Some conf) \<Rightarrow>
          let c = c\<lparr> nvme_bar0 := ucast (conf 0x10) \<rparr>;
              regs = nvme_bar0 c;
              (lo, h) = read32 d regs h;
              (hi, h) = read32 d (regs + 4) h;
              c = c\<lparr> caps_lo := lo, caps_hi := hi \<rparr>;
              h = modify32 d (regs + 20) (\<lambda>w. w AND NOT 1) h
          in (case wait_while (read32 d (regs + 28)) (\<lambda>w. w AND 1 \<noteq> 0) h of
                None \<Rightarrow> None
              | Some h \<Rightarrow> Some (0, Some (c\<lparr> nvme_active := 1 \<rparr>), h))
      | _ \<Rightarrow> Some (-1, ctx, h))"

definition nvme_read_blocks :: "nvme_ctx option \<Rightarrow> int" where
  "nvme_read_blocks ctx = (case ctx of None \<Rightarrow> -1 | Some c \<Rightarrow> if nvme_active c = 0 then -1 else 0)"

definition nvme_write_blocks :: "nvme_ctx option \<Rightarrow> int" where
  "nvme_write_blocks ctx = (case ctx of None \<Rightarrow> -1 | Some c \<Rightarrow> if nvme_active c = 0 then -1 else 0)"

subsection \<open>Network cards\<close>

record nic_e1000_ctx =
  e1000_mmio :: u32
  mac :: "u8 list"
  e1000_active :: int

definition e1000_write :: "'h device_bus \<Rightarrow> nic_e1000_ctx \<Rightarrow> u32 \<Rightarrow> u32 \<Rightarrow> 'h \<Rightarrow> 'h" where
  "e1000_write d c reg val = write32 d (ucast (e1000_mmio c + reg)) val"

definition e1000_read :: "'h device_bus \<Rightarrow> nic_e1000_ctx \<Rightarrow> u32 \<Rightarrow> 'h \<Rightarrow> u32 \<times> 'h" where
  "e1000_read d c reg = read32 d (ucast (e1000_mmio c + reg))"

text \<open>The command word that the code reads and extends is not written back and is left out.\<close>

definition nic_e1000_init ::
  "'h device_bus \<Rightarrow> (u8 \<Rightarrow> u32) option \<Rightarrow> nic_e1000_ctx option \<Rightarrow> 'h \<Rightarrow> int \<times> nic_e1000_ctx option \<times> 'h" where
  "nic_e1000_init d pci ctx h =
     (case (ctx, pci) of
        (Some c, Some conf) \<Rightarrow>
          let c = c\<lparr> e1000_mmio := conf 0x10 AND 0xFFFFFFF0 \<rparr>;
              (ral, h) = e1000_read d c 0x5400 h;
              (rah, h) = e1000_read d c 0x5404 h;
              c = c\<lparr> mac := [ucast (ral AND 0xFF), ucast (drop_bit 8 ral AND 0xFF), ucast (drop_bit 16 ral AND 0xFF),
                     ucast (drop_bit 24 ral AND 0xFF), ucast (rah AND 0xFF), ucast (drop_bit 8 rah AND 0xFF)] \<rparr>;
              h = e1000_write d c 0x0000 (push_bit 26 1) h
          in (0, Some (c\<lparr> e1000_active := 1 \<rparr>), h)
      | _ \<Rightarrow> (-1, ctx, h))"

definition nic_e1000_send :: "nic_e1000_ctx option \<Rightarrow> int" where
  "nic_e1000_send ctx = (case ctx of None \<Rightarrow> -1 | Some c \<Rightarrow> if e1000_active c = 0 then -1 else 0)"

definition nic_e1000_receive :: "nic_e1000_ctx option \<Rightarrow> int" where
  "nic_e1000_receive ctx = (case ctx of None \<Rightarrow> -1 | Some c \<Rightarrow> if e1000_active c = 0 then -1 else 0)"

record virtio_net_ctx =
  vnet_mmio :: u32
  features :: u32
  vnet_active :: int

definition virtio_net_init ::
  "'h device_bus \<Rightarrow> (u8 \<Rightarrow> u32) option \<Rightarrow> virtio_net_ctx option \<Rightarrow> 'h \<Rightarrow> int \<times> virtio_net_ctx option \<times> 'h" where
  "virtio_net_init d pci ctx h =
     (case (ctx, pci) of
        (Some c, Some conf) \<Rightarrow>
          let c = c\<lparr> vnet_mmio := conf 0x10 AND 0xFFFFFFF0 \<rparr>;
              common_cfg = ucast (vnet_mmio c);
              h = write8 d common_cfg 0 h;
              h = modify8 d common_cfg (\<lambda>w. w OR 1) h;
              h = modify8 d common_cfg (\<lambda>w. w OR 2) h;
              (f, h) = read32 d (common_cfg + 4) h
          in (0, Some (c\<lparr> features := f, vnet_active := 1 \<rparr>), h)
      | _ \<Rightarrow> (-1, ctx, h))"

definition virtio_net_send :: "virtio_net_ctx option \<Rightarrow> int" where
  "virtio_net_send ctx = (case ctx of None \<Rightarrow> -1 | Some c \<Rightarrow> if vnet_active c = 0 then -1 else 0)"

definition virtio_net_receive :: "virtio_net_ctx option \<Rightarrow> int" where
  "virtio_net_receive ctx = (case ctx of None \<Rightarrow> -1 | Some c \<Rightarrow> if vnet_active c = 0 then -1 else 0)"

end
