(* ===== verification/Driver_Facts.thy ===== *)
theory Driver_Facts
  imports Drivers Contracts
begin

text \<open>
  What the drivers guarantee: pixels have addresses of their own, the ACPI search finds the first
  table, waits end exactly when the device answers, a string reaches the serial line in order, and
  a USB controller that keeps its protocol comes up.
\<close>

section \<open>Display\<close>

text \<open>On a screen whose size fits 32 bits, two pixels of the visible area never share a cell.\<close>

definition display_fits :: "display_ctx \<Rightarrow> bool" where
  "display_fits c \<longleftrightarrow> d_width c \<le> d_pitch c \<and> unat (d_height c) * unat (d_pitch c) < 4294967296"

lemma pixel_index:
  assumes "display_fits c" "x < d_width c" "y < d_height c"
  shows "unat (y * d_pitch c + x) = unat y * unat (d_pitch c) + unat x"
    "unat y * unat (d_pitch c) + unat x < unat (d_height c) * unat (d_pitch c)"
proof -
  have x: "unat x < unat (d_pitch c)" and y: "Suc (unat y) \<le> unat (d_height c)"
    using assms by (auto simp: display_fits_def word_less_nat_alt word_le_nat_alt)
  have "Suc (unat y) * unat (d_pitch c) \<le> unat (d_height c) * unat (d_pitch c)"
    using y by (rule mult_le_mono1)
  with x show b: "unat y * unat (d_pitch c) + unat x < unat (d_height c) * unat (d_pitch c)" by simp
  with assms(1) have "unat y * unat (d_pitch c) + unat x < 2 ^ LENGTH(32)" by (simp add: display_fits_def)
  then show "unat (y * d_pitch c + x) = unat y * unat (d_pitch c) + unat x"
    by (simp add: unat_word_ariths mod_simps)
qed

theorem pixel_put:
  assumes "display_fits c" "x < d_width c" "y < d_height c" "x' < d_width c" "y' < d_height c"
  shows "framebuffer (display_put_pixel x y col c) (unat (y' * d_pitch c + x'))
    = (if x' = x \<and> y' = y then col else framebuffer c (unat (y' * d_pitch c + x')))"
proof -
  have "unat y' * unat (d_pitch c) + unat x' = unat y * unat (d_pitch c) + unat x \<longleftrightarrow> x' = x \<and> y' = y"
  proof
    let ?p = "unat (d_pitch c)"
    assume e: "unat y' * ?p + unat x' = unat y * ?p + unat x"
    have l: "unat x < ?p" "unat x' < ?p"
      using assms by (auto simp: display_fits_def word_less_nat_alt word_le_nat_alt)
    have "unat y' = unat y" using arg_cong [OF e, of "\<lambda>n. n div ?p"] l by (simp add: div_mult_self3)
    with e show "x' = x \<and> y' = y" by (simp add: word_unat_eq_iff)
  qed simp
  then show ?thesis
    using assms by (simp add: display_put_pixel_def pixel_index(1)) (auto simp: not_le)
qed

lemma fold_fill: "fold (\<lambda>i fb. fb(i := v)) [0..<n] fb = (\<lambda>i. if i < n then v else fb i)"
  by (induction n) (auto simp: fun_eq_iff)

theorem cleared_pixel:
  assumes "display_fits c" "x < d_width c" "y < d_height c" "d_active c \<noteq> 0"
  shows "\<exists>c'. display_clear col (Some c) = Some c' \<and> framebuffer c' (unat (y * d_pitch c + x)) = col"
proof -
  have "unat (d_height c * d_pitch c) = unat (d_height c) * unat (d_pitch c)"
    using assms(1) by (simp add: display_fits_def unat_word_ariths)
  with assms show ?thesis by (simp add: display_clear_def fold_fill pixel_index)
qed

section \<open>ACPI tables\<close>

lemma rsdp_scan_find:
  "ptr + 16 * n = 0x100000 \<Longrightarrow>
     rsdp_scan mem ptr = find (\<lambda>a. bytes_at mem a 8 = RSDP_SIGNATURE) (map (\<lambda>i. ptr + 16 * i) [0..<n])"
proof (induction n arbitrary: ptr)
  case 0
  then show ?case by (simp add: rsdp_scan.simps)
next
  case (Suc n)
  have m: "map (\<lambda>i. ptr + 16 * i) [0..<Suc n] = ptr # map (\<lambda>i. ptr + 16 + 16 * i) [0..<n]"
    by (simp only: upt_conv_Cons map_Suc_upt [symmetric] list.map map_map zero_less_Suc comp_def) simp
  show ?case
    using Suc by (subst rsdp_scan.simps) (simp add: m del: upt_Suc)
qed

text \<open>The search visits the 8192 paragraphs of the BIOS area in order.\<close>

theorem acpi_rsdp_first:
  "acpi_find_rsdp mem = find (\<lambda>a. bytes_at mem a 8 = RSDP_SIGNATURE) (map (\<lambda>i. 0xE0000 + 16 * i) [0..<8192])"
  unfolding acpi_find_rsdp_def by (rule rsdp_scan_find) simp

text \<open>
  A root table that claims to be shorter than its header has no entries: the unsigned difference
  wraps, but its quotient converts to a number that is not positive.
\<close>

theorem sdt_entries_count: "nat (sdt_entries len) = (unat len - 36) div 4"
proof (cases "unat len < 36")
  case True
  have "list_all (\<lambda>k. nat (sdt_entries (of_nat k)) = 0) [0..<36]" by code_simp
  then have "\<forall>k<36. nat (sdt_entries (of_nat k)) = 0" by (simp add: list_all_iff)
  with True have "nat (sdt_entries (of_nat (unat len))) = 0" by blast
  with True show ?thesis by simp
next
  case False
  have l: "unat (ucast len :: u64) = unat len" by (simp add: unsigned_ucast_eq take_bit_nat_eq_self less_trans [OF unat_less_limit(3)])
  have d: "unat (ucast len - 36 :: u64) = unat len - 36"
    using False by (simp add: l unat_sub word_le_nat_alt)
  have q: "unat ((ucast len - 36 :: u64) div 4) = (unat len - 36) div 4" by (simp add: unat_div d)
  have b: "(unat len - 36) div 4 < 1073741824" using unat_less_limit(3) [of len] by linarith
  let ?e = "ucast ((ucast len - 36 :: u64) div 4) :: u32"
  have "unat ?e = (unat len - 36) div 4"
    using take_bit_nat_eq_self [of "(unat len - 36) div 4" 32] b by (simp add: unsigned_ucast_eq q)
  then have e: "uint ?e = int ((unat len - 36) div 4)" by (metis uint_nat)
  have "sint ?e = uint ?e"
    using b e by (simp add: sint_uint signed_take_bit_int_eq_self)
  with e show ?thesis by (simp add: sdt_entries_def)
qed

section \<open>Waits\<close>

interpretation poll: polling "wait_while rd busy" rd busy for rd :: "'h \<Rightarrow> 'w \<times> 'h" and busy
  by unfold_locales (rule wait_while.simps)

interpretation flush_poll: polling "ps2_flush p"
  "\<lambda>h. let (v, h) = oo_ps2_has_data p h in (v, if v \<noteq> 0 then snd (port_in p PS2_DATA_PORT h) else h)"
  "\<lambda>v. v \<noteq> 0" for p :: "'h port_bus"
  by unfold_locales (subst ps2_flush.simps, simp add: split_beta Let_def)

text \<open>The word read last is the first that is not busy, and a wait without one does not end.\<close>

lemma wait_while_ends:
  "wait_while rd busy h = Some h' \<Longrightarrow> \<exists>n. \<not> busy (fst (rd (polled rd n h))) \<and> h' = polled rd (Suc n) h"
proof (rule wait_while.raw_induct [of _ rd busy h h'], goal_cases)
  case (1 w rd busy h h')
  show ?case
  proof (cases "busy (fst (rd h))")
    case True
    with 1(3) have "w rd busy (snd (rd h)) = Some h'" by simp
    from 1(2) [OF this] show ?thesis by (metis polled.simps(2))
  next
    case False
    with 1(3) show ?thesis by (intro exI [of _ 0]) simp
  qed
qed

lemma wait_while_last:
  "wait_while rd busy h = Some h' \<Longrightarrow> \<exists>g. \<not> busy (fst (rd g)) \<and> h' = snd (rd g)"
  using wait_while_ends polled_last by metis

definition answers :: "('h \<Rightarrow> 'w \<times> 'h) \<Rightarrow> ('w \<Rightarrow> bool) \<Rightarrow> 'h \<Rightarrow> bool" where
  "answers rd busy h \<longleftrightarrow> (\<exists>n. \<not> busy (fst (rd (polled rd n h))))"

lemma wait_returns_iff: "(\<exists>h'. wait_while rd busy h = Some h') \<longleftrightarrow> answers rd busy h"
  unfolding answers_def using wait_while_ends poll.wait_polls by metis

section \<open>The serial line\<close>

text \<open>
  A transmitter: its status port becomes ready after finitely many reads, which send nothing, and
  a byte written to its data port is sent.
\<close>

definition transmitter :: "'h port_bus \<Rightarrow> u16 \<Rightarrow> ('h \<Rightarrow> u8 list) \<Rightarrow> bool" where
  "transmitter p port sent \<longleftrightarrow>
     (\<forall>h. answers (oo_uart_is_transmit_empty p port) (\<lambda>v. v = 0) h)
     \<and> (\<forall>h. sent (snd (port_in p (port + 5) h)) = sent h)
     \<and> (\<forall>c h. sent (port_out p port c h) = sent h @ [c])"

lemma poll_keeps:
  assumes "transmitter p port sent"
  shows "sent (polled (oo_uart_is_transmit_empty p port) n h) = sent h"
proof (induction n arbitrary: h)
  case (Suc n)
  have "sent (snd (oo_uart_is_transmit_empty p port h)) = sent h" for h
    using assms by (simp add: transmitter_def oo_uart_is_transmit_empty_def split_beta Let_def)
  with Suc show ?case by simp
qed simp

lemma char_arrives:
  assumes "transmitter p port sent"
  shows "\<exists>h'. oo_uart_write_char p port c h = Some h' \<and> sent h' = sent h @ [c]"
proof -
  obtain h' where h': "wait_while (oo_uart_is_transmit_empty p port) (\<lambda>v. v = 0) h = Some h'"
    using assms wait_returns_iff by (metis transmitter_def)
  from wait_while_ends [OF this] obtain n where "h' = polled (oo_uart_is_transmit_empty p port) (Suc n) h"
    by blast
  then have "sent h' = sent h" using poll_keeps [OF assms] by (simp only:)
  with h' assms show ?thesis by (simp add: oo_uart_write_char_def transmitter_def)
qed

theorem uart_string_arrives:
  assumes "transmitter p port sent"
  shows "\<exists>h'. oo_uart_write_string p port str h = Some h' \<and> sent h' = sent h @ str"
proof (induction str arbitrary: h)
  case (Cons c str)
  obtain h1 where h1: "oo_uart_write_char p port c h = Some h1" "sent h1 = sent h @ [c]"
    using char_arrives [OF assms] by blast
  from Cons [of h1] h1 show ?case by auto
qed simp

section \<open>Bringing up the USB controller\<close>

text \<open>
  The protocol of the controller at the operational registers \<open>op\<close>: a command word without the
  run bit makes the halted bit appear in the status after finitely many reads, and a command
  word with the reset bit makes this bit disappear after finitely many reads.
\<close>

definition usb_protocol :: "'h device_bus \<Rightarrow> u64 \<Rightarrow> bool" where
  "usb_protocol d op \<longleftrightarrow>
     (\<forall>h w. w AND 1 = 0 \<longrightarrow> answers (read32 d (op + 4)) (\<lambda>v. v AND 1 = 0) (write32 d op w h))
     \<and> (\<forall>h w. w AND 2 \<noteq> 0 \<longrightarrow> answers (read32 d op) (\<lambda>v. v AND 2 \<noteq> 0) (write32 d op w h))"

lemma reset_returns:
  assumes "usb_protocol d (ucast (xhci_mmio c + op_off c))"
  shows "\<exists>h'. xhci_reset d c h = Some h'"
proof -
  let ?op = "ucast (xhci_mmio c + op_off c) :: u64"
  have "(w AND NOT 1) AND 1 = 0" "(w OR 2) AND 2 \<noteq> 0" for w :: u32
    by (simp_all add: and.assoc bit.conj_disj_distrib2)
  then have "answers (read32 d (?op + 4)) (\<lambda>v. v AND 1 = 0) (modify32 d ?op (\<lambda>w. w AND NOT 1) h)"
    "answers (read32 d ?op) (\<lambda>v. v AND 2 \<noteq> 0) (modify32 d ?op (\<lambda>w. w OR 2) h)" for h
    using assms by (simp_all add: usb_protocol_def modify32_def split_beta)
  then show ?thesis
    unfolding xhci_reset_def Let_def wait_returns_iff [symmetric] by (metis option.simps(5))
qed

lemma reset_clears:
  "xhci_reset d c h = Some h' \<Longrightarrow>
     \<exists>g. fst (read32 d (ucast (xhci_mmio c + op_off c)) g) AND 2 = 0
       \<and> h' = snd (read32 d (ucast (xhci_mmio c + op_off c)) g)"
  by (auto simp: xhci_reset_def Let_def split: option.splits dest!: wait_while_last)

text \<open>
  the USB controller comes up. If the controller keeps its reset protocol at the operational
  registers that its own capability length points to, then \<open>xhci_init\<close> returns 0 with an active
  context that holds the base address and the register offsets, and the last word read from the
  command register has the reset bit clear. (The two waits have no limit: a controller that does
  not answer stops the organism here, by \<open>wait_returns_iff\<close>.)
\<close>

theorem xhci_comes_up:
  assumes "base = conf 0x10 AND 0xFFFFFFF0" "len = fst (read8 d (ucast base) h)"
    "op = ucast (base + ucast len)" "usb_protocol d op"
  shows "\<exists>c' g. xhci_init d (Some conf) (Some c) h = Some (0, Some c', snd (read32 d op g))
    \<and> fst (read32 d op g) AND 2 = 0
    \<and> xhci_active c' = 1 \<and> xhci_mmio c' = base \<and> cap_len c' = ucast len \<and> op_off c' = cap_len c'"
proof -
  obtain h1 where h1: "read8 d (ucast base) h = (len, h1)" using assms(2) by (metis prod.collapse)
  obtain db h2 where h2: "read32 d (ucast base + 0x14) h1 = (db, h2)" by fastforce
  obtain rt h3 where h3: "read32 d (ucast base + 0x18) h2 = (rt, h3)" by fastforce
  let ?c = "c\<lparr> xhci_mmio := base, cap_len := ucast len, op_off := ucast len, db_off := db, rt_off := rt \<rparr>"
  have op: "ucast (xhci_mmio ?c + op_off ?c) = op" using assms(3) by simp
  obtain h' where h': "xhci_reset d ?c h3 = Some h'"
    using reset_returns [of d ?c h3] assms(4) unfolding op by blast
  obtain g where g: "fst (read32 d op g) AND 2 = 0" "h' = snd (read32 d op g)"
    using reset_clears [OF h'] unfolding op by blast
  have "xhci_init d (Some conf) (Some c) h = Some (0, Some (?c\<lparr> xhci_active := 1 \<rparr>), h')"
    using h1 h2 h3 h' by (simp add: xhci_init_def Let_def assms(1) split_beta)
  with g show ?thesis by (intro exI [of _ "?c\<lparr> xhci_active := 1 \<rparr>"] exI [of _ g]) simp
qed

text \<open>A controller that obeys after three polls, with its operational registers at offset 32.\<close>

definition slow_controller :: "(u32 \<times> nat) device_bus" where
  "slow_controller = \<lparr> read8 = (\<lambda>a h. (0x20, h)), write8 = (\<lambda>a v h. h),
     read32 = (\<lambda>a (cmd, n). (if a = 0xFEB00024 then if n = 0 then 1 else 0
        else if n = 0 then cmd AND NOT 2 else cmd, (cmd, n - 1))),
     write32 = (\<lambda>a v h. (v, 3)) \<rparr>"

lemma slow_controller_protocol: "usb_protocol slow_controller 0xFEB00020"
proof -
  have "answers (read32 slow_controller 0xFEB00024) (\<lambda>v. v AND 1 = 0) (w, 3)"
    "answers (read32 slow_controller 0xFEB00020) (\<lambda>v. v AND 2 \<noteq> 0) (w, 3)" for w
    unfolding answers_def
    by (rule exI [of _ 3], simp add: slow_controller_def numeral_3_eq_3 and.assoc)+
  then show ?thesis by (simp add: usb_protocol_def) (simp add: slow_controller_def)
qed

definition cold_xhci :: xhci_ctx where
  "cold_xhci = \<lparr> cap_len = 0, op_off = 0, rt_off = 0, db_off = 0, xhci_mmio = 0, xhci_active = 0 \<rparr>"

lemma xhci_comes_up_witness:
  "\<exists>c' h'. xhci_init slow_controller (Some (\<lambda>_. 0xFEB00004)) (Some cold_xhci) (0, 0) = Some (0, Some c', h')
     \<and> xhci_active c' = 1 \<and> xhci_mmio c' = 0xFEB00000 \<and> op_off c' = 0x20"
  using xhci_comes_up [of "0xFEB00000" "\<lambda>_. 0xFEB00004" "0x20" slow_controller "(0, 0)" "0xFEB00020" cold_xhci]
    slow_controller_protocol by (auto simp: slow_controller_def)

end
