(* ===== verification/Vital_Alone.thy ===== *)
theory Vital_Alone
  imports Vital_Birth Self_Organs C_Strings
begin

text \<open>
  The vital organ as a program of its own: the main loop of \<open>uefi_entry.c\<close> with its report of the
  pulse, the pulse shared with the swarm (\<open>swarm_sync.c\<close>), and what a standalone build links in
  place of the other organs (\<open>oo_stubs.c\<close>, \<open>united_bus_stub.c\<close>). Proved are that the stub of the
  bus is a queue of 63 globules, and that the report appears at every ten-thousandth beat and
  shows the number of beats.
\<close>

section \<open>The stub of the bus\<close>

definition STUB_BLOOD_VOLUME :: nat where [oo_defs]: "STUB_BLOOD_VOLUME = 64"

record stub_bus =
  stub_blood :: "nat \<Rightarrow> globule"
  stub_systole :: nat
  stub_diastole :: nat

definition stub_boot :: "(nat \<Rightarrow> globule) \<Rightarrow> stub_bus" where
  "stub_boot g = \<lparr> stub_blood = g, stub_systole = 0, stub_diastole = 0 \<rparr>"

definition stub_pump :: "globule \<Rightarrow> stub_bus \<Rightarrow> int \<times> stub_bus" where
  "stub_pump globule b =
     (let next = (stub_systole b + 1) mod STUB_BLOOD_VOLUME
      in if next = stub_diastole b then (-1, b)
         else (0, b\<lparr> stub_blood := (stub_blood b)(stub_systole b := globule), stub_systole := next \<rparr>))"

function stub_absorb_loop :: "int \<Rightarrow> globule list \<Rightarrow> stub_bus \<Rightarrow> globule list \<times> stub_bus" where
  "stub_absorb_loop max_globules out b =
     (if stub_diastole b \<noteq> stub_systole b \<and> int (length out) < max_globules
      then stub_absorb_loop max_globules (out @ [stub_blood b (stub_diastole b)])
             (b\<lparr> stub_diastole := (stub_diastole b + 1) mod STUB_BLOOD_VOLUME \<rparr>)
      else (out, b))"
  by auto
termination by (relation "measure (\<lambda>(m, out, b). nat (m - int (length out)))") auto

declare stub_absorb_loop.simps [simp del]

definition stub_absorb :: "u8 \<Rightarrow> int \<Rightarrow> stub_bus \<Rightarrow> globule list \<times> stub_bus" where
  "stub_absorb organ_id max_globules b = stub_absorb_loop max_globules [] b"

definition stub_safe :: "stub_bus \<Rightarrow> bool" where
  "stub_safe b \<longleftrightarrow> stub_systole b < 64 \<and> stub_diastole b < 64"

definition stub_queue :: "stub_bus \<Rightarrow> globule list" where
  "stub_queue b = map (\<lambda>k. stub_blood b ((stub_diastole b + k) mod 64))
     [0..<ring_dist 64 (stub_diastole b) (stub_systole b)]"

definition stub_accepts :: "globule \<Rightarrow> stub_bus \<Rightarrow> bool" where
  "stub_accepts g b \<longleftrightarrow> (stub_systole b + 1) mod 64 \<noteq> stub_diastole b"

lemma stub_pump_queue:
  assumes "stub_safe b" "stub_accepts g b"
  shows "stub_safe (snd (stub_pump g b))" "stub_queue (snd (stub_pump g b)) = stub_queue b @ [g]"
proof -
  let ?h = "stub_diastole b" and ?s = "stub_systole b"
  have b: "?h < 64" "?s < 64" "Suc ?s mod 64 \<noteq> ?h" using assms by (auto simp: stub_safe_def stub_accepts_def)
  then have p: "snd (stub_pump g b) = b\<lparr> stub_blood := (stub_blood b)(?s := g), stub_systole := Suc ?s mod 64 \<rparr>"
    by (simp add: stub_pump_def STUB_BLOOD_VOLUME_def Let_def)
  show "stub_safe (snd (stub_pump g b))" using b by (simp add: p stub_safe_def)
  have k: "(?h + k) mod 64 \<noteq> ?s" if "k < ring_dist 64 ?h ?s" for k
  proof
    assume "(?h + k) mod 64 = ?s"
    moreover have "ring_dist 64 ?h ?s < 64" by (simp add: ring_dist_def)
    ultimately show False using ring_dist_mod_add [of ?h 64 k] b that by auto
  qed
  have d: "ring_dist 64 ?h (Suc ?s mod 64) = Suc (ring_dist 64 ?h ?s)" using b by (intro ring_dist_push)
  have "(?h + ring_dist 64 ?h ?s) mod 64 = ?s" using b by (intro ring_dist_add)
  then show "stub_queue (snd (stub_pump g b)) = stub_queue b @ [g]"
    by (simp add: stub_queue_def p d k)
qed

lemma stub_absorb_queue:
  assumes "stub_safe b"
  shows "\<exists>b'. stub_absorb_loop m out b = (out @ take (nat m - length out) (stub_queue b), b') \<and> stub_safe b'
    \<and> stub_queue b' = drop (nat m - length out) (stub_queue b)"
  using assms
proof (induction m out b rule: stub_absorb_loop.induct)
  case (1 m out b)
  let ?h = "stub_diastole b" and ?s = "stub_systole b"
  let ?b = "b\<lparr> stub_diastole := Suc ?h mod 64 \<rparr>"
  have b: "?h < 64" "?s < 64" using 1(2) by (auto simp: stub_safe_def)
  show ?case
  proof (cases "?h \<noteq> ?s \<and> int (length out) < m")
    case True
    have d: "ring_dist 64 ?h ?s = Suc (ring_dist 64 (Suc ?h mod 64) ?s)" using True b by (intro ring_dist_pop) auto
    have q: "stub_queue b = stub_blood b ?h # stub_queue ?b"
      using b by (simp add: stub_queue_def d upt_conv_Cons map_Suc_upt [symmetric] comp_def mod_simps del: upt_Suc)
    have "stub_safe ?b" using b by (simp add: stub_safe_def)
    moreover have "nat m - length out = Suc (nat m - Suc (length out))" using True by linarith
    ultimately show ?thesis
      using 1(1) [OF True] True by (subst stub_absorb_loop.simps) (auto simp: STUB_BLOOD_VOLUME_def q)
  next
    case False
    then have "nat m - length out = 0 \<or> stub_queue b = []"
      using b by (auto simp: stub_queue_def)
    with False 1(2) show ?thesis by (subst stub_absorb_loop.simps) auto
  qed
qed

lemma stub_queue_short: "stub_safe b \<Longrightarrow> length (stub_queue b) \<le> 63"
proof -
  assume "stub_safe b"
  have "ring_dist 64 (stub_diastole b) (stub_systole b) < 64" by (simp add: ring_dist_def)
  then show ?thesis by (simp add: stub_queue_def)
qed

text \<open>
  The stub keeps the contract of the bus for a single reader: every organ is given all globules.
\<close>

interpretation stub_mail: mailbox stub_safe stub_accepts "\<lambda>g b. snd (stub_pump g b)" "\<lambda>b g. g"
  "\<lambda>_ b. Some (stub_absorb 0 64 b)" "\<lambda>_. stub_queue" "\<lambda>_ _. True" "\<lambda>u :: unit. True"
proof (unfold_locales, goal_cases)
  case (4 b u)
  from stub_absorb_queue [OF 4(1), of 64 "[]"] stub_queue_short [OF 4(1)] show ?case
    by (auto simp: stub_absorb_def)
qed (simp_all add: stub_pump_queue)

lemma stub_delivers:
  assumes "stub_safe b" "stub_queue b = []" "length gs \<le> 63"
  shows "fst (stub_absorb organ 64 (fold (\<lambda>g b. snd (stub_pump g b)) gs b)) = gs"
proof -
  have run: "stub_mail.accepted_run b gs" if "stub_safe b" "length (stub_queue b) + length gs \<le> 63" for b
    using that
  proof (induction gs arbitrary: b)
    case (Cons g gs)
    have "ring_dist 64 (stub_diastole b) (stub_systole b) < 63" using Cons.prems by (simp add: stub_queue_def)
    then have "stub_accepts g b"
      using ring_dist_push_full [of "stub_diastole b" 64 "stub_systole b"] Cons.prems(1)
      by (simp add: stub_accepts_def stub_safe_def)
    with Cons show ?case by (simp add: stub_pump_queue)
  qed simp
  have m: "stub_mail.marked b gs = gs" for b by (induction gs arbitrary: b) simp_all
  have "stub_mail.accepted_run b gs" using assms by (intro run) simp_all
  from stub_mail.deliver [OF assms(1) this] show ?thesis
    by (auto simp: m assms(2) stub_absorb_def)
qed

section \<open>The stubs of the other organs\<close>

text \<open>The result and the static counter \<open>stub_vitality\<close>, which starts at 100.\<close>

definition stub_vitality_boot :: u64 where "stub_vitality_boot = 100"

definition stub_organism_vitality :: "u64 \<Rightarrow> u64 \<times> u64" where
  "stub_organism_vitality stub_vitality = (stub_vitality, stub_vitality + 1)"

definition stub_guardian_state :: nat where "stub_guardian_state = 0"

definition stub_monitored_cores :: u8 where "stub_monitored_cores = 1"

definition stub_temporal_jitter :: u64 where "stub_temporal_jitter = 0"

text \<open>With the stub the guardian stays healthy, and its layer of the beat does nothing.\<close>

lemma stub_guardian_layer: "s_guardian e = stub_guardian_state \<Longrightarrow> layer_guardian e v = v"
  by (simp add: layer_guardian_def stub_guardian_state_def)

section \<open>The pulse of the swarm\<close>

definition vital_astral_sync :: "u32 \<Rightarrow> respiration \<Rightarrow> respiration" where
  "vital_astral_sync local_pulse = swarm_emit_pheromone 0x55
     [ucast local_pulse, ucast (drop_bit 8 local_pulse), ucast (drop_bit 16 local_pulse), ucast (drop_bit 24 local_pulse)]"

section \<open>The main loop\<close>

fun pulse_rev :: "nat \<Rightarrow> string \<Rightarrow> string" where
  "pulse_rev tmp rv = (if tmp = 0 then rv else pulse_rev (tmp div 10) (rv @ [char_of (48 + tmp mod 10)]))"

declare pulse_rev.simps [simp del]

definition pulse_text :: "u64 \<Rightarrow> string" where
  "pulse_text pulse = (if pulse = 0 then ''0'' else rev (pulse_rev (unat pulse) []))"

definition pulse_report :: "u64 \<Rightarrow> string" where
  "pulse_report pulse = ''[Vital] Pulse: '' @ pulse_text pulse @ '' | Organisme vivant.'' @ [CHR 0x0D, CHR 0x0A]"

text \<open>One round: a beat, and the report when ten thousand beats have passed since the last one.\<close>

definition efi_round :: "surroundings \<Rightarrow> vital \<times> u64 \<times> string list \<Rightarrow> (vital \<times> u64 \<times> string list) option" where
  "efi_round e = (\<lambda>(v, last_report, serial). map_option (\<lambda>v.
     let pulse = vital_get_pulse_count v
     in if pulse - last_report \<ge> 10000 then (v, pulse, serial @ [pulse_report pulse]) else (v, last_report, serial))
     (vital_eternal_heartbeat e v))"

primrec efi_rounds :: "surroundings list \<Rightarrow> vital \<times> u64 \<times> string list \<Rightarrow> (vital \<times> u64 \<times> string list) option" where
  "efi_rounds [] st = Some st"
| "efi_rounds (e # es) st = (case efi_round e st of None \<Rightarrow> None | Some st \<Rightarrow> efi_rounds es st)"

definition efi_start :: "surroundings \<Rightarrow> soma_dna option \<Rightarrow> vital \<Rightarrow> vital \<times> u64 \<times> string list" where
  "efi_start e img v = (vital_init e img v, 0, [])"

subsection \<open>The printed pulse\<close>

lemma pulse_rev_digits: "0 < n \<Longrightarrow> rev (pulse_rev n rv) = digits 10 n @ rev rv"
proof (induction n rv rule: pulse_rev.induct)
  case (1 n rv)
  have c: "char_of (48 + n mod 10) = digit_char (n mod 10)" by (simp add: digit_char_def)
  show ?case
  proof (cases "n < 10")
    case True
    with 1(2) show ?thesis
      by (subst pulse_rev.simps, subst pulse_rev.simps, subst digits.simps) (simp add: digit_char_def)
  next
    case False
    with 1 c show ?thesis by (subst pulse_rev.simps, subst digits.simps) simp
  qed
qed

lemma zero_char: "digit_char 0 = CHR ''0''"
  by code_simp

lemma pulse_text_digits: "pulse_text p = fmt_u (unat p)"
  using pulse_rev_digits [of "unat p" "[]"]
  by (cases "p = 0") (simp_all add: pulse_text_def fmt_u_def unat_gt_0 digits.simps [of 10 0] zero_char)

lemma digits_length: "n < 10 ^ Suc k \<Longrightarrow> length (digits 10 n) \<le> Suc k"
proof (induction k arbitrary: n)
  case (Suc k)
  then show ?case by (subst digits.simps) (auto simp: less_mult_imp_div_less)
qed (simp add: digits.simps)

text \<open>The buffers of 20 and 32 characters are large enough for every pulse.\<close>

lemma pulse_fits: "length (pulse_text p) \<le> 20"
  using digits_length [of "unat p" 19] unat_less_limit(4) [of p] by (simp add: pulse_text_digits fmt_u_def)

subsection \<open>When the report appears\<close>

lemma beat_pulse:
  assumes "vital_eternal_heartbeat e v = Some v'"
  shows "pulse_count (v_spark v') = pulse_count (v_spark v) + 1"
proof -
  from assms obtain v1 v2 v3 where
    v1: "layer_time e (vital_steel_tick e v) = Some v1"
    and v2: "layer_homeostasis e (layer_energy e (layer_pain v1)) = Some v2"
    and v3: "vital_metabolic_tick (heartbeat_inner e v2) = Some v3" and l: "layer_lesson e v3 = Some v'"
    by (auto simp: vital_eternal_heartbeat_def split: option.splits)
  have "same_core v1 v2" by (intro core.homeostasis [OF v2] core.layers core_refl)
  then have "same_core v1 (heartbeat_inner e v2)" by (rule core.inner)
  moreover have "pulse_count (v_spark v3) = pulse_count (v_spark (heartbeat_inner e v2))"
    using v3 by (auto simp: vital_metabolic_tick_def vital_forth_exec_def split: if_splits option.splits)
      (metis forth_pulse)
  moreover have "pulse_count (v_spark v') = pulse_count (v_spark v3)"
    using l by (auto simp: layer_lesson_def Let_def split: if_splits option.splits list.splits)
  ultimately show ?thesis using core_time [OF v1] by (simp add: same_core_def vital_steel_tick_def)
qed

lemma born_pulse: "pulse_count (v_spark (vital_init e None v)) = 0"
  by (simp add: init_newborn newborn_core vital_persistence_load_def)

text \<open>The state of the loop after \<open>n\<close> beats of a life that began with pulse 0.\<close>

definition loop_at :: "nat \<Rightarrow> vital \<times> u64 \<times> string list \<Rightarrow> bool" where
  "loop_at n = (\<lambda>(v, last_report, serial). pulse_count (v_spark v) = of_nat n
     \<and> last_report = of_nat (10000 * (n div 10000))
     \<and> serial = map (\<lambda>k. pulse_report (of_nat (10000 * Suc k))) [0..<n div 10000])"

lemma unat_small: "n < 18446744073709551616 \<Longrightarrow> unat (of_nat n :: u64) = n"
  by (simp add: unat_of_nat)

lemma round_at:
  assumes "efi_round e st = Some st'" "loop_at n st" "Suc n < 18446744073709551616"
  shows "loop_at (Suc n) st'"
proof -
  obtain v l s v' where st: "st = (v, l, s)" and v': "vital_eternal_heartbeat e v = Some v'"
    using assms(1) by (cases st) (auto simp: efi_round_def)
  have l: "l = of_nat (10000 * (n div 10000))" and s: "s = map (\<lambda>k. pulse_report (of_nat (10000 * Suc k))) [0..<n div 10000]"
    and p: "pulse_count (v_spark v') = of_nat (Suc n)"
    using assms(2) beat_pulse [OF v'] by (simp_all add: loop_at_def st add.commute)
  have "10000 * (n div 10000) \<le> Suc n" by (rule le_SucI) simp
  then have "(of_nat (Suc n) :: u64) - l = of_nat (Suc n - 10000 * (n div 10000))"
    unfolding l by (subst of_nat_diff) (simp_all del: of_nat_Suc of_nat_mult)
  moreover have "Suc n - 10000 * (n div 10000) = Suc (n mod 10000)"
    by (simp add: Suc_diff_le minus_mult_div_eq_mod)
  ultimately have "10000 \<le> (of_nat (Suc n) :: u64) - l \<longleftrightarrow> 9999 \<le> n mod 10000"
    by (simp add: word_le_nat_alt unat_small less_trans [OF mod_less_divisor] del: of_nat_Suc)
  then have d: "10000 \<le> (of_nat (Suc n) :: u64) - l \<longleftrightarrow> n mod 10000 = 9999"
    using mod_less_divisor [of 10000 n] by auto
  show ?thesis
  proof (cases "n mod 10000 = 9999")
    case True
    then have q: "10000 * Suc (n div 10000) = Suc n" using mult_div_mod_eq [of 10000 n] by simp
    then have "Suc n div 10000 = Suc (n div 10000)" by (metis nonzero_mult_div_cancel_left zero_neq_numeral)
    note q = this q
    have "efi_round e st = Some (v', of_nat (Suc n), s @ [pulse_report (of_nat (Suc n))])"
      using d True p v' by (simp add: efi_round_def st vital_get_pulse_count_def Let_def)
    with assms(1) have "st' = (v', of_nat (Suc n), s @ [pulse_report (of_nat (Suc n))])" by simp
    then show ?thesis by (simp add: loop_at_def p q s del: of_nat_Suc of_nat_mult mult_Suc_right)
  next
    case False
    then have q: "Suc n div 10000 = n div 10000" by (simp add: div_Suc mod_Suc)
    have "efi_round e st = Some (v', l, s)"
      using d False p v' by (simp add: efi_round_def st vital_get_pulse_count_def Let_def)
    with assms(1) have "st' = (v', l, s)" by simp
    then show ?thesis by (simp add: loop_at_def p q l s)
  qed
qed

lemma rounds_at:
  "efi_rounds es st = Some st' \<Longrightarrow> loop_at n st \<Longrightarrow> n + length es < 18446744073709551616 \<Longrightarrow>
     loop_at (n + length es) st'"
proof (induction es arbitrary: st n)
  case (Cons e es)
  then obtain st1 where st1: "efi_round e st = Some st1" "efi_rounds es st1 = Some st'"
    by (auto split: option.splits)
  with Cons.prems have "loop_at (Suc n) st1" by (intro round_at [OF st1(1)]) simp_all
  from Cons.IH [OF st1(2) this] Cons.prems(3) show ?case by simp
qed simp

lemma report_reads_back: "number_value 10 (pulse_text p) = unat p"
  by (simp add: pulse_text_digits fmt_u_def number_value_digits)

text \<open>
  After \<open>n\<close> beats of a life that was not loaded from an image, the serial line has shown one
  report for each full ten thousand beats, in order, and the number in each is the number of
  beats.
\<close>

theorem reports_every_ten_thousand:
  assumes "efi_rounds es (efi_start e None v) = Some (v', last_report, serial)"
    and "length es < 18446744073709551616"
  shows "serial = map (\<lambda>k. pulse_report (of_nat (10000 * Suc k))) [0..<length es div 10000]
    \<and> vital_get_pulse_count v' = of_nat (length es)
    \<and> (\<forall>k<length es div 10000. number_value 10 (pulse_text (of_nat (10000 * Suc k))) = 10000 * Suc k)"
proof -
  have "loop_at 0 (efi_start e None v)" by (simp add: loop_at_def efi_start_def born_pulse)
  from rounds_at [OF assms(1) this] assms(2) have l: "loop_at (length es) (v', last_report, serial)" by simp
  have "10000 * Suc k < 18446744073709551616" if "k < length es div 10000" for k
  proof -
    have "10000 * Suc k \<le> 10000 * (length es div 10000)" using that by (intro mult_le_mono2) simp
    also have "\<dots> \<le> length es" by simp
    finally show ?thesis using assms(2) by simp
  qed
  then have "number_value 10 (pulse_text (of_nat (10000 * Suc k))) = 10000 * Suc k" if "k < length es div 10000" for k
    unfolding report_reads_back using that unat_small by blast
  with l show ?thesis by (simp add: loop_at_def vital_get_pulse_count_def)
qed

end
