(* ===== verification/Console_Lines.thy ===== *)
theory Console_Lines
  imports Vital_Alone Peripherals
begin

text \<open>
  Text on its way out of the machine: \<open>oo_print\<close> of \<open>vital-baremetal/src/uefi_entry.c\<close>, which writes a
  message to the serial port and to the console of the firmware, with the lines of the boot; and the
  serial port of the voice, \<open>_uart_putc\<close> and \<open>_uart_puts\<close> of \<open>oo_voice_state_writer.c\<close>, which wait for
  the port, but not for ever. Also here: how the pineal gland reads a register of the clock, and the
  remaining functions of \<open>oo_stubs.c\<close>. Shown are what part of a message arrives where, and what
  happens to a byte when the port is not ready.
\<close>

section \<open>The voice of the organism\<close>

text \<open>
  The console of the firmware takes strings of 16-bit characters. A \<open>char\<close> is signed on this machine:
  the cast to \<open>CHAR16\<close> extends the sign.
\<close>

record console_out =
  serial_bytes :: "u8 list"
  console_lines :: "u16 list list"

definition message_bytes :: "string \<Rightarrow> u8 list" where
  "message_bytes msg = map (\<lambda>ch. of_nat (of_char ch)) (takeWhile (\<lambda>ch. ch \<noteq> CHR 0x00) msg)"

definition char16 :: "u8 \<Rightarrow> u16" where
  "char16 b = scast b"

text \<open>The loop stops at the terminator or at 254 characters; \<open>has_console\<close>: \<open>ST && ST->ConOut\<close>.\<close>

definition oo_print :: "bool \<Rightarrow> string \<Rightarrow> console_out \<Rightarrow> console_out" where
  "oo_print has_console msg out =
     (let out = out\<lparr> serial_bytes := serial_bytes out @ message_bytes msg \<rparr>
      in if \<not> has_console then out
         else out\<lparr> console_lines := console_lines out @ [map char16 (take 254 (message_bytes msg))] \<rparr>)"

definition crlf :: string where "crlf = [CHR 0x0D, CHR 0x0A]"

text \<open>The dash of the banner is three bytes in the encoding of the source.\<close>

definition dash :: string where "dash = [CHR 0xE2, CHR 0x80, CHR 0x94]"

definition rule_line :: string where
  "rule_line = replicate 60 (CHR ''='') @ crlf"

text \<open>The lines before and after the birth.\<close>

definition birth_lines :: "string list" where
  "birth_lines = [rule_line, ''  VITAL-BAREMETAL v1.0 '' @ dash @ '' L'' @ [CHR 0x27] @ ''Etincelle Vitale'' @ crlf,
     ''  Operating Organism '' @ dash @ '' Le Coeur Eternel'' @ crlf, rule_line, crlf,
     ''[Boot] Phase 1 : Naissance de l'' @ [CHR 0x27] @ ''organisme...'' @ crlf]"

definition loop_lines :: "string list" where
  "loop_lines = [''[Boot] Phase 2 : Entree dans la Boucle Eternelle.'' @ crlf,
     ''[Boot] L'' @ [CHR 0x27] @ ''organisme ne s'' @ [CHR 0x27] @ ''arretera JAMAIS.'' @ crlf, crlf]"

text \<open>The boot: the lines, with what the birth itself prints in between.\<close>

definition boot_output :: "bool \<Rightarrow> string list \<Rightarrow> console_out \<Rightarrow> console_out" where
  "boot_output has_console birth = fold (oo_print has_console) (birth_lines @ birth @ loop_lines)"

subsection \<open>What arrives\<close>

text \<open>Everything arrives on the serial port, in order.\<close>

lemma serial_all:
  "serial_bytes (fold (oo_print hc) msgs out) = serial_bytes out @ concat (map message_bytes msgs)"
  by (induction msgs arbitrary: out) (simp_all add: oo_print_def Let_def)

text \<open>On the console a message is one line, cut after 254 characters.\<close>

lemma console_all:
  "console_lines (fold (oo_print True) msgs out)
     = console_lines out @ map (\<lambda>m. map char16 (take 254 (message_bytes m))) msgs"
  by (induction msgs arbitrary: out) (simp_all add: oo_print_def)

lemma char16_table:
  "list_all (\<lambda>b. char16 b = (if b < 0x80 then ucast b else 0xFF00 OR ucast b)) (map of_nat [0..<256])"
  by code_simp

lemma char16_cases: "char16 b = (if b < 0x80 then ucast b else 0xFF00 OR ucast b)"
proof -
  have "unat b \<in> set [0..<256]" using unat_less_limit(1) [of b] by simp
  then have "of_nat (unat b) \<in> set (map of_nat [0..<256] :: u8 list)" unfolding set_map by (rule imageI)
  then have "b \<in> set (map of_nat [0..<256] :: u8 list)" by simp
  with char16_table show ?thesis unfolding list_all_iff by blast
qed

text \<open>
  Where the serial port shows the dash of the banner, the console shows three characters of the
  private and half-width forms, FFE2, FF80 and FF94.
\<close>

lemma dash_on_console: "map char16 (message_bytes dash) = [0xFFE2, 0xFF80, 0xFF94]"
  by code_simp

section \<open>The serial port of the voice\<close>

text \<open>
  The line status as the port answers the reads one after another. Every byte is written in the end;
  the log records with it whether the last read had shown the port ready.
\<close>

record uart_port =
  polls :: nat
  sent :: "(u8 \<times> bool) list"

definition COM1_BASE :: u16 where "COM1_BASE = 0x3F8"
definition COM1_THR :: u16 where "COM1_THR = COM1_BASE + 0"
definition COM1_LSR :: u16 where "COM1_LSR = COM1_BASE + 5"
definition COM1_LSR_THRE :: u8 where "COM1_LSR_THRE = 0x20"

text \<open>At most \<open>n\<close> reads from the read \<open>t\<close> on: the next read, and whether the port was ready.\<close>

primrec uart_ready :: "(nat \<Rightarrow> u8) \<Rightarrow> nat \<Rightarrow> nat \<Rightarrow> nat \<times> bool" where
  "uart_ready lsr 0 t = (t, False)"
| "uart_ready lsr (Suc n) t =
     (if lsr t AND COM1_LSR_THRE \<noteq> 0 then (Suc t, True) else uart_ready lsr n (Suc t))"

definition uart_putc :: "(nat \<Rightarrow> u8) \<Rightarrow> char \<Rightarrow> uart_port \<Rightarrow> uart_port" where
  "uart_putc lsr c p =
     (let (t, ready) = uart_ready lsr 10000 (polls p)
      in \<lparr> polls = t, sent = sent p @ [(of_nat (of_char c), ready)] \<rparr>)"

definition uart_puts :: "(nat \<Rightarrow> u8) \<Rightarrow> string \<Rightarrow> uart_port \<Rightarrow> uart_port" where
  "uart_puts lsr s = fold (uart_putc lsr) (takeWhile (\<lambda>ch. ch \<noteq> CHR 0x00) s)"

lemma uart_ready_bound: "fst (uart_ready lsr n t) \<le> t + n"
proof (induction n arbitrary: t)
  case (Suc n)
  from Suc [of "Suc t"] show ?case by simp
qed simp

lemma uart_ready_if: "snd (uart_ready lsr n t) \<longleftrightarrow> (\<exists>k<n. lsr (t + k) AND COM1_LSR_THRE \<noteq> 0)"
proof (induction n arbitrary: t)
  case (Suc n)
  then show ?case
    by (auto simp: less_Suc_eq_0_disj)
qed simp

text \<open>
  Every character goes out whatever the port answers, after at most 10000 reads each: a port that is
  never ready slows the voice down and loses its bytes, but does not stop it.
\<close>

lemma uart_puts_sends:
  "map fst (sent (uart_puts lsr s p)) = map fst (sent p) @ message_bytes s
     \<and> polls (uart_puts lsr s p) \<le> polls p + 10000 * length (message_bytes s)"
proof -
  have "map fst (sent (fold (uart_putc lsr) cs p)) = map fst (sent p) @ map (\<lambda>ch. of_nat (of_char ch)) cs
    \<and> polls (fold (uart_putc lsr) cs p) \<le> polls p + 10000 * length cs" for cs
  proof (induction cs arbitrary: p)
    case (Cons c cs)
    have "polls (uart_putc lsr c p) \<le> polls p + 10000"
      using uart_ready_bound [of lsr 10000 "polls p"] by (simp add: uart_putc_def Let_def case_prod_unfold)
    moreover have "map fst (sent (uart_putc lsr c p)) = map fst (sent p) @ [of_nat (of_char c)]"
      by (simp add: uart_putc_def split: prod.split)
    ultimately show ?case using Cons.IH [of "uart_putc lsr c p"] by simp
  qed simp
  from this [of "takeWhile (\<lambda>ch. ch \<noteq> CHR 0x00) s"] show ?thesis by (simp add: uart_puts_def message_bytes_def)
qed

text \<open>A port that becomes ready within 10000 reads, again and again, gets every byte when it is ready.\<close>

lemma uart_puts_ready:
  assumes "\<And>t. \<exists>k<10000. lsr (t + k) AND COM1_LSR_THRE \<noteq> 0" "\<forall>b\<in>set (sent p). snd b"
  shows "\<forall>b\<in>set (sent (uart_puts lsr s p)). snd b"
proof -
  have "\<forall>b\<in>set (sent (fold (uart_putc lsr) cs p)). snd b" if "\<forall>b\<in>set (sent p). snd b" for cs p
    using that
  proof (induction cs arbitrary: p)
    case (Cons c cs)
    have "snd (uart_ready lsr 10000 (polls p))" using assms(1) uart_ready_if by blast
    then have "\<forall>b\<in>set (sent (uart_putc lsr c p)). snd b"
      using Cons.prems by (auto simp: uart_putc_def split: prod.splits)
    from Cons.IH [OF this] show ?case by simp
  qed simp
  from this [OF assms(2)] show ?thesis by (simp add: uart_puts_def)
qed

text \<open>A record of the voice on its port.\<close>

definition voice_out :: "(nat \<Rightarrow> u8) \<Rightarrow> voice_state_emit \<Rightarrow> uart_port \<Rightarrow> uart_port" where
  "voice_out lsr e = uart_puts lsr (oo_voice_state_emit e)"

section \<open>The registers of the clock\<close>

text \<open>The address written last, and the contents of the clock's memory.\<close>

record cmos =
  cmos_address :: u8
  cmos_data :: "u8 \<Rightarrow> u8"

definition CMOS_ADDRESS_PORT :: u16 where "CMOS_ADDRESS_PORT = 0x70"
definition CMOS_DATA_PORT :: u16 where "CMOS_DATA_PORT = 0x71"
definition RTC_SECONDS :: int where "RTC_SECONDS = 0x00"
definition RTC_MINUTES :: int where "RTC_MINUTES = 0x02"
definition RTC_HOURS :: int where "RTC_HOURS = 0x04"

definition cmos_outb :: "u16 \<Rightarrow> u8 \<Rightarrow> cmos \<Rightarrow> cmos" where
  "cmos_outb port v m = (if port = CMOS_ADDRESS_PORT then m\<lparr> cmos_address := v \<rparr> else m)"

definition cmos_inb :: "u16 \<Rightarrow> cmos \<Rightarrow> u8" where
  "cmos_inb port m = (if port = CMOS_DATA_PORT then cmos_data m (cmos_address m) else 0xFF)"

definition get_update_in_progress_flag :: "cmos \<Rightarrow> u8 \<times> cmos" where
  "get_update_in_progress_flag m =
     (let m = cmos_outb CMOS_ADDRESS_PORT 0x0A m in (cmos_inb CMOS_DATA_PORT m AND 0x80, m))"

definition get_rtc_register :: "int \<Rightarrow> cmos \<Rightarrow> u8 \<times> cmos" where
  "get_rtc_register reg m =
     (let m = cmos_outb CMOS_ADDRESS_PORT (word_of_int reg) m in (cmos_inb CMOS_DATA_PORT m, m))"

text \<open>The two reads of the pineal gland: the surroundings of a beat whose clock has these contents.\<close>

definition clock_of :: "cmos \<Rightarrow> surroundings \<Rightarrow> surroundings" where
  "clock_of m e =
     (let (busy, m) = get_update_in_progress_flag m;
          (hours, m) = get_rtc_register RTC_HOURS m;
          (reg_b, m) = get_rtc_register 0x0B m
      in e\<lparr> s_rtc_status := (\<lambda>_. busy), s_rtc_hours := hours, s_rtc_reg_b := reg_b \<rparr>)"

lemma clock_of_data:
  "s_rtc_hours (clock_of m e) = cmos_data m 4" "s_rtc_reg_b (clock_of m e) = cmos_data m 0x0B"
  "s_rtc_status (clock_of m e) = (\<lambda>_. cmos_data m 0x0A AND 0x80)"
  by (simp_all add: clock_of_def get_rtc_register_def get_update_in_progress_flag_def cmos_outb_def cmos_inb_def
    CMOS_ADDRESS_PORT_def CMOS_DATA_PORT_def RTC_HOURS_def Let_def)

text \<open>A clock that rests is read at once, whatever its contents; one that never rests stops the beat.\<close>

lemma resting_clock:
  "vital_pineal_gland_sync (clock_of m e) v \<noteq> None" if "cmos_data m 0x0A AND 0x80 = 0"
  using that by (simp add: vital_pineal_gland_sync_def clock_of_data rtc_wait.simps split: prod.split)

section \<open>The remaining stubs\<close>

definition stub_total_anomalies :: u64 where "stub_total_anomalies = 0"

text \<open>A vital organ on its own takes every signature for its own.\<close>

definition stub_is_self :: "u8 list \<Rightarrow> int" where "stub_is_self sig = 1"

end
