(* ===== verification/Bot_Views.thy ===== *)
theory Bot_Views
  imports Bot_DNA_Facts Threat_State Territory_Map C_Strings
begin

text \<open>
  How the rest of the system looks at the bot: the checking macros of its headers (\<open>bot_dna.h\<close>,
  \<open>threat_levels.h\<close>, \<open>territory_map.h\<close>) with the identifiers that no modelled operation compares, and
  the lines that the bot prints about an agent (\<open>bot_dna_print_summary\<close>) and about the level of
  threat (\<open>threat_state_print\<close>, and the lines of \<open>threat_transition\<close>). The lemmas say that the macros
  agree with the operations they stand for, and that printing never reads past a name or a table for
  an agent made by \<open>bot_dna_init\<close> and a level that the bot can reach.
\<close>

section \<open>Roles, domains and levels of \<open>bot_dna.h\<close>\<close>

definition AGENT_ROLE_NONE :: u32 where "AGENT_ROLE_NONE = 0x00"
definition AGENT_ROLE_QUARANTINE :: u32 where "AGENT_ROLE_QUARANTINE = 0x10"
definition AGENT_ROLE_HONEY_TRAP :: u32 where "AGENT_ROLE_HONEY_TRAP = 0x11"
definition AGENT_ROLE_NEUTRALIZER :: u32 where "AGENT_ROLE_NEUTRALIZER = 0x12"
definition AGENT_ROLE_CHAMELEON :: u32 where "AGENT_ROLE_CHAMELEON = 0x13"
definition AGENT_ROLE_MIMICRY :: u32 where "AGENT_ROLE_MIMICRY = 0x20"
definition AGENT_ROLE_MUTATION :: u32 where "AGENT_ROLE_MUTATION = 0x21"
definition AGENT_ROLE_REGEN :: u32 where "AGENT_ROLE_REGEN = 0x30"
definition AGENT_ROLE_OO_BRIDGE :: u32 where "AGENT_ROLE_OO_BRIDGE = 0x31"

definition THREAT_DOMAIN_ANTISOCIAL :: u32 where "THREAT_DOMAIN_ANTISOCIAL = push_bit 5 1"

text \<open>The enumeration \<open>ThreatLevel\<close> of the agents and the levels of the instinct have the same numbers.\<close>

datatype threat_level = THREAT_LEVEL_DORMANT | THREAT_LEVEL_VIGILANCE | THREAT_LEVEL_ALERT
  | THREAT_LEVEL_COMBAT | THREAT_LEVEL_SURVIVAL | THREAT_LEVEL_CONFINEMENT

primrec threat_level_code :: "threat_level \<Rightarrow> nat" where
  "threat_level_code THREAT_LEVEL_DORMANT = 0"
| "threat_level_code THREAT_LEVEL_VIGILANCE = 1"
| "threat_level_code THREAT_LEVEL_ALERT = 2"
| "threat_level_code THREAT_LEVEL_COMBAT = 3"
| "threat_level_code THREAT_LEVEL_SURVIVAL = 4"
| "threat_level_code THREAT_LEVEL_CONFINEMENT = 5"

lemma threat_levels_agree:
  "map threat_level_code [THREAT_LEVEL_DORMANT, THREAT_LEVEL_VIGILANCE, THREAT_LEVEL_ALERT, THREAT_LEVEL_COMBAT,
     THREAT_LEVEL_SURVIVAL, THREAT_LEVEL_CONFINEMENT]
   = [THREAT_DORMANT, THREAT_VIGILANCE, THREAT_ALERT, THREAT_COMBAT, THREAT_SURVIVAL, THREAT_CONFINEMENT]"
  by (simp add: oo_defs)

section \<open>The macros\<close>

definition BOT_DNA_IS_VALID :: "u8 list \<Rightarrow> bot_dna option \<Rightarrow> bool option" where
  "BOT_DNA_IS_VALID garbage dna = (case dna of None \<Rightarrow> Some False
     | Some d \<Rightarrow> if dna_magic d = BOT_DNA_MAGIC then bot_dna_verify garbage d else Some False)"

definition BOT_HAS_DOMAIN :: "bot_dna \<Rightarrow> u32 \<Rightarrow> bool" where
  "BOT_HAS_DOMAIN d domain \<longleftrightarrow> threat_domains d AND domain \<noteq> 0"

definition BOT_IS_ROLE :: "bot_dna \<Rightarrow> u32 \<Rightarrow> bool" where
  "BOT_IS_ROLE d r \<longleftrightarrow> dna_role d = r"

definition THREAT_IS_ACTIVE :: "threat_state \<Rightarrow> bool" where
  "THREAT_IS_ACTIVE s \<longleftrightarrow> current_level s \<ge> THREAT_ALERT"

definition THREAT_IS_CRITICAL :: "threat_state \<Rightarrow> bool" where
  "THREAT_IS_CRITICAL s \<longleftrightarrow> current_level s \<ge> THREAT_SURVIVAL"

definition THREAT_IS_COMBAT :: "threat_state \<Rightarrow> bool" where
  "THREAT_IS_COMBAT s \<longleftrightarrow> current_level s = THREAT_COMBAT"

definition THREAT_IS_DORMANT :: "threat_state \<Rightarrow> bool" where
  "THREAT_IS_DORMANT s \<longleftrightarrow> current_level s = THREAT_DORMANT"

definition THREAT_TRANSITION_MATRIX :: "nat list list" where
  "THREAT_TRANSITION_MATRIX =
    [[0, 1, 0, 0, 0, 0],
     [1, 0, 1, 0, 0, 0],
     [0, 1, 0, 1, 0, 0],
     [1, 0, 1, 0, 1, 1],
     [0, 0, 0, 1, 0, 1],
     [0, 0, 0, 0, 1, 0]]"

definition ANOMALY_FILE_MODIFIED :: u8 where "ANOMALY_FILE_MODIFIED = 0x03"
definition ANOMALY_UNUSUAL_PARENT :: u8 where "ANOMALY_UNUSUAL_PARENT = 0x05"
definition ANOMALY_MASS_FILE_OPS :: u8 where "ANOMALY_MASS_FILE_OPS = 0x06"
definition ANOMALY_HIGH_NET_VOLUME :: u8 where "ANOMALY_HIGH_NET_VOLUME = 0x07"
definition ANOMALY_BEACON_PATTERN :: u8 where "ANOMALY_BEACON_PATTERN = 0x08"

definition TERRITORY_IS_READY :: "territory_map \<Rightarrow> bool" where
  "TERRITORY_IS_READY m \<longleftrightarrow> baseline_ready m \<noteq> 0"

text \<open>The macros on an element take its status, which every kind of element has.\<close>

definition TERRITORY_IS_HOSTILE :: "elem_status \<Rightarrow> bool" where
  "TERRITORY_IS_HOSTILE status \<longleftrightarrow> status = ELEM_HOSTILE"

definition TERRITORY_IS_TRUSTED :: "elem_status \<Rightarrow> bool" where
  "TERRITORY_IS_TRUSTED status \<longleftrightarrow> status = ELEM_TRUSTED"

definition TERRITORY_IS_SUSPICIOUS :: "elem_status \<Rightarrow> bool" where
  "TERRITORY_IS_SUSPICIOUS status \<longleftrightarrow> status = ELEM_SUSPICIOUS"

subsection \<open>What they say\<close>

text \<open>The check of the magic number in the macro is one that the verification makes itself.\<close>

lemma valid_is_verified: "BOT_DNA_IS_VALID garbage (Some d) = bot_dna_verify garbage d"
  by (simp add: BOT_DNA_IS_VALID_def bot_dna_verify_def)

text \<open>
  The domain of an agent after \<open>bot_dna_init\<close>: the five watchers of programs, files, memory and the
  network share nothing with social engineering, which only the coordinator looks at.
\<close>

lemma only_coordinator_social:
  assumes "threat_domains d = role_domains (dna_role d)"
  shows "BOT_HAS_DOMAIN d THREAT_DOMAIN_ANTISOCIAL \<longleftrightarrow> BOT_IS_ROLE d AGENT_ROLE_SWARM_MIND"
  using assms
  by (auto simp: BOT_HAS_DOMAIN_def BOT_IS_ROLE_def role_domains_def THREAT_DOMAIN_ANTISOCIAL_def
    THREAT_DOMAIN_ANTIVIRUS_def THREAT_DOMAIN_ANTIROOTKIT_def THREAT_DOMAIN_ANTITHEFT_def THREAT_DOMAIN_ANTIBOT_def
    THREAT_DOMAIN_ANTIRANSOM_def THREAT_DOMAIN_ANTIPIRACY_def THREAT_DOMAIN_SELF_PROTECT_def
    AGENT_ROLE_SWARM_MIND_def AGENT_ROLE_MEM_WATCH_def AGENT_ROLE_NET_WATCH_def AGENT_ROLE_FS_WATCH_def
    AGENT_ROLE_PROC_WATCH_def AGENT_ROLE_KERNEL_WATCH_def AGENT_ROLE_BOOT_WATCH_def)

text \<open>The matrix of the header is the one of the code.\<close>

lemma one_matrix: "THREAT_TRANSITION_MATRIX = TRANSITION_MATRIX"
  by (simp add: THREAT_TRANSITION_MATRIX_def TRANSITION_MATRIX_def)

text \<open>
  The header also lists, level by level, the possible transitions. The lists leave out one step of the
  matrix, from combat to confinement.
\<close>

definition listed_step :: "nat \<Rightarrow> nat \<Rightarrow> bool" where
  "listed_step a b \<longleftrightarrow> (a, b) \<in> {(0, 1), (1, 0), (1, 2), (2, 1), (2, 3), (3, 2), (3, 0), (3, 4), (4, 3), (4, 5), (5, 4)}"

lemma unlisted_step: "threat_edge a b \<longleftrightarrow> listed_step a b \<or> (a = THREAT_COMBAT \<and> b = THREAT_CONFINEMENT)"
  by (auto simp: threat_edge_def listed_step_def THREAT_COMBAT_def THREAT_CONFINEMENT_def)

text \<open>A critical level is entered from combat or another critical level only.\<close>

lemma critical_from_combat:
  assumes "threat_transition l why s = (True, s')" "THREAT_IS_CRITICAL s'"
  shows "THREAT_IS_COMBAT s \<or> THREAT_IS_CRITICAL s"
  using assms
  by (auto simp: threat_transition_def valid_edge threat_edge_def THREAT_IS_CRITICAL_def THREAT_IS_COMBAT_def
    THREAT_SURVIVAL_def THREAT_COMBAT_def split: if_splits)

section \<open>Printed lines\<close>

definition zero_pad :: "nat \<Rightarrow> string \<Rightarrow> string" where
  "zero_pad n s = replicate (n - length s) (CHR ''0'') @ s"

definition space_pad :: "nat \<Rightarrow> string \<Rightarrow> string" where
  "space_pad n s = s @ replicate (n - length s) (CHR '' '')"

definition line_feed :: string where "line_feed = [CHR 0x0A]"

text \<open>The string in a buffer, \<open>None\<close> when the buffer holds no terminator and C reads on behind it.\<close>

definition buffer_string :: "u8 list \<Rightarrow> string option" where
  "buffer_string bs = (if 0 \<in> set bs then Some (map (\<lambda>c. char_of (unat c)) (takeWhile (\<lambda>c. c \<noteq> 0) bs)) else None)"

definition bot_dna_print_summary :: "bot_dna option \<Rightarrow> string option" where
  "bot_dna_print_summary dna = (case dna of None \<Rightarrow> Some (''[BotDNA] NULL'' @ line_feed)
   | Some d \<Rightarrow> map_option (\<lambda>name.
       ''[BotDNA] '' @ space_pad 16 name @ '' | role=0x'' @ zero_pad 2 (digits 16 (unat (dna_role d)))
         @ '' | gen='' @ fmt_u (unat (generation d))
         @ '' | healthy='' @ (if is_healthy d \<noteq> 0 then ''YES'' else ''CORRUPTED'') @ line_feed
       @ ''         patterns='' @ fmt_u (unat (pattern_count d)) @ '' | threats='' @ fmt_u (unat (threats_detected d))
         @ '' | neutralized='' @ fmt_u (unat (threats_neutralized d))
         @ '' | FP='' @ fmt_u (unat (false_positives d)) @ line_feed
       @ ''         domains=0x'' @ zero_pad 8 (digits 16 (unat (threat_domains d)))
         @ '' | hash='' @ concat (map (\<lambda>b. zero_pad 2 (digits 16 (unat b))) (take 4 (integrity_hash d)))
         @ ''...'' @ line_feed)
     (buffer_string (dna_name d)))"

definition LEVEL_NAMES :: "string list" where
  "LEVEL_NAMES = [''DORMANT'', ''VIGILANCE'', ''ALERT'', ''COMBAT'', ''SURVIVAL'', ''CONFINEMENT'']"

text \<open>An entry of the table, \<open>None\<close> outside it.\<close>

definition level_name :: "nat \<Rightarrow> string option" where
  "level_name l = (if l < length LEVEL_NAMES then Some (LEVEL_NAMES ! l) else None)"

definition threat_state_print :: "threat_state \<Rightarrow> string option" where
  "threat_state_print s = (case (level_name (current_level s), level_name (previous_level s)) of
     (Some now, Some was) \<Rightarrow> Some (
       ''[ThreatState] Level='' @ now @ '' (was='' @ was @ '') transitions='' @ fmt_u (unat (transition_count s)) @ line_feed
       @ ''  Reason: '' @ reason s @ line_feed
       @ ''  Entries per level: ''
       @ concat (map (\<lambda>i. LEVEL_NAMES ! i @ ''='' @ fmt_u (unat (entries_per_level s i)) @ '' '') [0..<6]) @ line_feed)
   | _ \<Rightarrow> None)"

text \<open>The line that a transition writes to \<open>stderr\<close>; the arrow is the three bytes of its encoding.\<close>

definition arrow :: string where "arrow = [CHR '' '', CHR 0xE2, CHR 0x86, CHR 0x92, CHR '' '']"

definition transition_line :: "nat \<Rightarrow> string option \<Rightarrow> threat_state \<Rightarrow> string option" where
  "transition_line new_level why s =
     (if new_level > 5 then Some '''' else if new_level = current_level s then Some ''''
      else case (level_name (current_level s), level_name new_level) of
        (Some old, Some new) \<Rightarrow> Some (
          if \<not> threat_transition_is_valid (current_level s) new_level
          then ''[ThreatState] BLOCKED: '' @ old @ arrow @ new @ '' (invalid transition)'' @ line_feed
          else ''[ThreatState] '' @ old @ arrow @ new @ '' | '' @ (case why of None \<Rightarrow> '''' | Some t \<Rightarrow> t) @ line_feed)
      | _ \<Rightarrow> None)"

subsection \<open>Printing stays inside\<close>

lemma level_name_some: "(\<exists>n. level_name l = Some n) \<longleftrightarrow> l \<le> 5"
  by (auto simp: level_name_def LEVEL_NAMES_def)

text \<open>Both levels stay in the table, so both kinds of line can always be printed.\<close>

definition levels_named :: "threat_state \<Rightarrow> bool" where
  "levels_named s \<longleftrightarrow> current_level s \<le> 5 \<and> previous_level s \<le> 5"

lemma levels_named_init: "levels_named threat_state_init"
  by (simp add: levels_named_def threat_state_init_def THREAT_DORMANT_def)

lemma levels_named_transition: "levels_named s \<Longrightarrow> levels_named (snd (threat_transition l why s))"
  by (auto simp: levels_named_def threat_transition_def)

lemma threat_state_prints: "(\<exists>t. threat_state_print s = Some t) \<longleftrightarrow> levels_named s"
  using level_name_some [of "current_level s"] level_name_some [of "previous_level s"]
  by (auto simp: threat_state_print_def levels_named_def split: option.splits)

lemma transition_prints: "levels_named s \<Longrightarrow> \<exists>t. transition_line l why s = Some t"
  using level_name_some [of "current_level s"] level_name_some [of l]
  by (auto simp: transition_line_def levels_named_def not_less)

text \<open>
  \<open>strncpy\<close> of 31 characters into a zeroed buffer of 32 leaves a terminator, so a summary of a new
  agent shows the first 31 characters of its name; a buffer without one would be read past its end.
\<close>

lemma c_bytes_back: "map (\<lambda>c. char_of (unat c)) (c_bytes s) = s"
  by (induction s) (simp_all add: c_bytes_def unat_of_nat)

lemma c_bytes_nonzero: "CHR 0x00 \<notin> set s \<Longrightarrow> 0 \<notin> set (c_bytes s)"
proof
  assume s: "CHR 0x00 \<notin> set s" and "0 \<in> set (c_bytes s)"
  then have "char_of (unat (0 :: u8)) \<in> set (map (\<lambda>c. char_of (unat c)) (c_bytes s))"
    by (metis image_eqI set_map)
  then have "char_of (0 :: nat) \<in> set s" unfolding c_bytes_back by simp
  moreover have "char_of (0 :: nat) = CHR 0x00" by (simp add: char_of_def)
  ultimately show False using s by simp
qed

lemma takeWhile_terminated:
  assumes "x \<notin> set xs"
  shows "takeWhile (\<lambda>c. c \<noteq> x) (xs @ replicate n x @ [x]) = xs"
proof -
  have "takeWhile (\<lambda>c. c \<noteq> x) (xs @ replicate n x @ [x]) = xs @ takeWhile (\<lambda>c. c \<noteq> x) (replicate n x @ [x])"
    using assms by (intro takeWhile_append2) auto
  then show ?thesis by (cases n) simp_all
qed

lemma buffer_string_strncpy:
  assumes "CHR 0x00 \<notin> set s"
  shows "buffer_string (strncpy_into (replicate 32 0) s 31) = Some (take 31 s)"
proof -
  let ?xs = "take 31 (c_bytes s)"
  have b: "strncpy_into (replicate 32 0) s 31 = ?xs @ replicate (31 - length (c_bytes s)) 0 @ [0]"
    by (simp add: strncpy_into_def)
  have "0 \<notin> set ?xs" using c_bytes_nonzero [OF assms] by (meson in_set_takeD)
  from takeWhile_terminated [OF this] show ?thesis
    by (simp add: buffer_string_def b take_map [symmetric] c_bytes_back)
qed

lemma new_agent_prints:
  assumes "length garbage = 64" "\<forall>s. name = Some s \<longrightarrow> CHR 0x00 \<notin> set s"
  shows "\<exists>d t. bot_dna_init garbage role name = Some d \<and> bot_dna_print_summary (Some d) = Some t"
proof -
  obtain d where d: "bot_dna_init garbage role name = Some d"
    "dna_name d = strncpy_into (replicate 32 0) (case name of Some s \<Rightarrow> s | None \<Rightarrow> ''unnamed'') 31"
    using init_seals [OF assms(1), of role name] by blast
  moreover have "CHR 0x00 \<notin> set (case name of Some s \<Rightarrow> s | None \<Rightarrow> ''unnamed'')"
    using assms(2) by (auto split: option.split)
  ultimately show ?thesis by (auto simp: bot_dna_print_summary_def buffer_string_strncpy)
qed

end
