(* ===== verification/C_Layout.thy ===== *)
theory C_Layout
  imports OO_Prelude "HOL-Library.Code_Target_Nat"
begin

text \<open>
  The layout of C structures in memory: size, alignment and offsets by recursion over the type, the
  way the ABI of the build places fields. A structure of the sources is the list of its fields with
  their names. The lemmas say what every layout has: fields are aligned, do not overlap, and lie
  inside the structure, whose size is a multiple of its alignment, so arrays of it stay aligned.
\<close>

section \<open>Types and layouts\<close>

text \<open>Integers of 1, 2, 4 and 8 bytes are aligned to their size; enumerations have 4 bytes.\<close>

datatype c_type = C_Int nat | C_Array c_type nat | C_Struct "c_type list"

abbreviation U8 :: c_type where "U8 \<equiv> C_Int 1"
abbreviation U16 :: c_type where "U16 \<equiv> C_Int 2"
abbreviation U32 :: c_type where "U32 \<equiv> C_Int 4"
abbreviation U64 :: c_type where "U64 \<equiv> C_Int 8"
abbreviation Enum :: c_type where "Enum \<equiv> C_Int 4"
abbreviation Bytes :: "nat \<Rightarrow> c_type" where "Bytes n \<equiv> C_Array U8 n"

definition round_up :: "nat \<Rightarrow> nat \<Rightarrow> nat" where
  "round_up a n = (if n mod a = 0 then n else n + (a - n mod a))"

text \<open>Fields given by alignment and size, placed from an offset on: their offsets, and the end.\<close>

fun place :: "nat \<Rightarrow> (nat \<times> nat) list \<Rightarrow> nat list" where
  "place at [] = []"
| "place at ((a, z) # fs) = round_up a at # place (round_up a at + z) fs"

fun place_end :: "nat \<Rightarrow> (nat \<times> nat) list \<Rightarrow> nat" where
  "place_end at [] = at"
| "place_end at ((a, z) # fs) = place_end (round_up a at + z) fs"

primrec c_layout :: "c_type \<Rightarrow> nat \<times> nat" where
  "c_layout (C_Int n) = (n, n)"
| "c_layout (C_Array t k) = (fst (c_layout t), k * snd (c_layout t))"
| "c_layout (C_Struct ts) =
     (let ls = map c_layout ts; a = foldr max (map fst ls) 1 in (a, round_up a (place_end 0 ls)))"

definition c_size :: "c_type \<Rightarrow> nat" where
  "c_size t = snd (c_layout t)"

definition c_align :: "c_type \<Rightarrow> nat" where
  "c_align t = fst (c_layout t)"

type_synonym c_fields = "(string \<times> c_type) list"

abbreviation c_record :: "c_fields \<Rightarrow> c_type" where
  "c_record fs \<equiv> C_Struct (map snd fs)"

definition c_offsets :: "c_fields \<Rightarrow> nat list" where
  "c_offsets fs = place 0 (map c_layout (map snd fs))"

text \<open>\<open>offsetof\<close>, by the name of the field.\<close>

definition c_offsetof :: "string \<Rightarrow> c_fields \<Rightarrow> nat option" where
  "c_offsetof name fs = map_of (zip (map fst fs) (c_offsets fs)) name"

text \<open>A packed structure has no alignment: the fields follow each other.\<close>

definition c_packed :: "c_fields \<Rightarrow> c_fields" where
  "c_packed fs = map (\<lambda>(n, t). (n, Bytes (c_size t))) fs"

section \<open>What every layout has\<close>

lemma round_up_props:
  assumes "0 < a"
  shows "n \<le> round_up a n" "round_up a n < n + a" "round_up a n mod a = 0" "a dvd round_up a n"
proof -
  have d: "n - n mod a + n mod a = n" by simp
  have "(n + (a - n mod a)) mod a = (n - n mod a + a) mod a" if "n mod a \<noteq> 0"
    using assms that by (metis Nat.add_diff_assoc2 add.commute diff_add_assoc less_imp_le mod_less_divisor mod_less_eq_dividend)
  then show m: "round_up a n mod a = 0"
    by (auto simp: round_up_def minus_mod_eq_mult_div)
  then show "a dvd round_up a n" by (simp add: dvd_eq_mod_eq_0)
  show "n \<le> round_up a n" "round_up a n < n + a"
    using mod_less_divisor [OF assms, of n] by (auto simp: round_up_def intro: less_imp_le trans_le_add1)
qed

lemma place_length: "length (place at ls) = length ls"
  by (induction at ls rule: place.induct) simp_all

text \<open>The fields of a placement, in order, each from its offset to its end.\<close>

lemma place_fields:
  assumes "\<forall>(a, z)\<in>set ls. 0 < a"
  shows "at \<le> place_end at ls"
    and "i < length ls \<Longrightarrow> fst (ls ! i) dvd place at ls ! i \<and> at \<le> place at ls ! i
      \<and> place at ls ! i + snd (ls ! i) \<le> place_end at ls"
    and "i < j \<Longrightarrow> j < length ls \<Longrightarrow> place at ls ! i + snd (ls ! i) \<le> place at ls ! j"
proof -
  have *: "at \<le> place_end at ls \<and> (\<forall>i<length ls. fst (ls ! i) dvd place at ls ! i \<and> at \<le> place at ls ! i
      \<and> place at ls ! i + snd (ls ! i) \<le> place_end at ls)
     \<and> (\<forall>j<length ls. \<forall>i<j. place at ls ! i + snd (ls ! i) \<le> place at ls ! j)"
    using assms
  proof (induction at ls rule: place.induct)
    case (2 at a z fs)
    have a: "0 < a" "\<forall>(a, z)\<in>set fs. 0 < a" using 2(2) by auto
    show ?case
      using 2(1) [OF a(2)] round_up_props [OF a(1), of at] by (auto simp: nth_Cons split: nat.splits)
  qed simp
  then show "at \<le> place_end at ls"
    and "i < length ls \<Longrightarrow> fst (ls ! i) dvd place at ls ! i \<and> at \<le> place at ls ! i
      \<and> place at ls ! i + snd (ls ! i) \<le> place_end at ls"
    and "i < j \<Longrightarrow> j < length ls \<Longrightarrow> place at ls ! i + snd (ls ! i) \<le> place at ls ! j"
    by blast+
qed

primrec c_type_ok :: "c_type \<Rightarrow> bool" where
  "c_type_ok (C_Int n) \<longleftrightarrow> n \<in> {1, 2, 4, 8}"
| "c_type_ok (C_Array t k) \<longleftrightarrow> c_type_ok t"
| "c_type_ok (C_Struct ts) \<longleftrightarrow> list_all c_type_ok ts"

lemma foldr_max: "foldr max ns (1::nat) \<in> insert 1 (set ns)" "n \<in> set ns \<Longrightarrow> n \<le> foldr max ns 1"
  by (induction ns) (auto simp: max_def)

text \<open>An alignment is 1, 2, 4 or 8, and divides the size.\<close>

lemma layout_ok: "c_type_ok t \<Longrightarrow> c_align t \<in> {1, 2, 4, 8} \<and> c_align t dvd c_size t"
proof (induction t)
  case (C_Struct ts)
  have "\<forall>n\<in>set (map fst (map c_layout ts)). n \<in> {1, 2, 4, 8}"
    using C_Struct by (auto simp: c_align_def list_all_iff)
  then have "foldr max (map fst (map c_layout ts)) 1 \<in> {1, 2, 4, 8}"
    using foldr_max(1) [of "map fst (map c_layout ts)"] by blast
  then show ?case
    using round_up_props(4) [of "foldr max (map fst (map c_layout ts)) 1"]
    by (auto simp: c_align_def c_size_def Let_def)
qed (auto simp: c_align_def c_size_def)

text \<open>
  The fields of a structure are aligned, disjoint, in order and inside it, and the alignment of the
  structure is a multiple of theirs.
\<close>

theorem record_layout:
  assumes "list_all c_type_ok (map snd fs)" "i < length fs"
  shows "c_align (snd (fs ! i)) dvd c_offsets fs ! i
    \<and> c_offsets fs ! i + c_size (snd (fs ! i)) \<le> c_size (c_record fs)
    \<and> (\<forall>j<length fs. i < j \<longrightarrow> c_offsets fs ! i + c_size (snd (fs ! i)) \<le> c_offsets fs ! j)
    \<and> c_align (snd (fs ! i)) dvd c_align (c_record fs)"
proof -
  let ?ls = "map c_layout (map snd fs)"
  have ok: "c_align (snd f) \<in> {1, 2, 4, 8}" if "f \<in> set fs" for f
    using assms(1) that layout_ok [of "snd f"] by (auto simp: list_all_iff)
  then have "0 < c_align (snd f)" if "f \<in> set fs" for f using that by fastforce
  then have "\<forall>p\<in>set ?ls. 0 < fst p" by (auto simp: c_align_def)
  then have pos: "\<forall>(a, z)\<in>set ?ls. 0 < a" by (simp only: case_prod_unfold)
  let ?a = "foldr max (map fst ?ls) 1"
  have "insert 1 (set (map fst ?ls)) \<subseteq> {1, 2, 4, 8}"
    unfolding set_map image_image insert_subset using ok by (auto simp only: c_align_def image_iff)
  then have a: "?a \<in> {1, 2, 4, 8}" using foldr_max(1) [of "map fst ?ls"] by blast
  have "c_align (snd (fs ! i)) \<in> set (map fst ?ls)" using assms(2) by (auto simp: c_align_def)
  then have le: "c_align (snd (fs ! i)) \<le> ?a" by (rule foldr_max(2))
  have "c_align (snd (fs ! i)) \<in> {1, 2, 4, 8}" using ok assms(2) by simp
  with a le have "c_align (snd (fs ! i)) dvd ?a" by auto
  moreover have "place_end 0 ?ls \<le> c_size (c_record fs)"
    using round_up_props(1) [of ?a "place_end 0 ?ls"] a by (auto simp: c_size_def Let_def simp del: map_map)
  ultimately show ?thesis
    using place_fields(2) [OF pos, where i = i and at = 0] place_fields(3) [OF pos, where i = i and at = 0] assms(2)
    by (auto simp: c_offsets_def c_size_def c_align_def Let_def intro: order_trans simp del: map_map)
qed

end
