(* ===== verification/Bot_Protocol.thy ===== *)
theory Bot_Protocol
  imports C_Layout
begin

text \<open>
  The messages between the bot and the language model (\<open>bot-baremetal/oo_bridge/oo_protocol.h\<close>):
  types, priorities, the header, the four payloads and the predicates the header file defines. The
  functions it declares have no definition in the repository; the check of a message,
  \<open>oo_msg_verify\<close>, is a parameter. Text fields are lists of bytes.
\<close>

section \<open>Types and priorities\<close>

definition OO_PROTO_MAGIC :: u32 where "OO_PROTO_MAGIC = 0x4F4F424F"
definition OO_PROTO_VERSION :: u32 where "OO_PROTO_VERSION = 1"

datatype oo_msg_type = OO_MSG_BOT_EVENT | OO_MSG_BOT_ALERT | OO_MSG_BOT_HEARTBEAT | OO_MSG_BOT_GENOME
  | OO_MSG_LLM_DIRECTIVE | OO_MSG_LLM_ACK | OO_MSG_SYSTEM_STATUS

primrec msg_type_code :: "oo_msg_type \<Rightarrow> u8" where
  "msg_type_code OO_MSG_BOT_EVENT = 0x01"
| "msg_type_code OO_MSG_BOT_ALERT = 0x02"
| "msg_type_code OO_MSG_BOT_HEARTBEAT = 0x03"
| "msg_type_code OO_MSG_BOT_GENOME = 0x04"
| "msg_type_code OO_MSG_LLM_DIRECTIVE = 0x10"
| "msg_type_code OO_MSG_LLM_ACK = 0x11"
| "msg_type_code OO_MSG_SYSTEM_STATUS = 0x20"

datatype oo_priority = OO_PRIO_LOW | OO_PRIO_NORMAL | OO_PRIO_HIGH | OO_PRIO_CRITICAL

primrec priority_code :: "oo_priority \<Rightarrow> u8" where
  "priority_code OO_PRIO_LOW = 0"
| "priority_code OO_PRIO_NORMAL = 1"
| "priority_code OO_PRIO_HIGH = 2"
| "priority_code OO_PRIO_CRITICAL = 3"

definition OO_SOURCE_BOT_NAME :: string where "OO_SOURCE_BOT_NAME = ''bot-baremetal''"
definition OO_TARGET_LLM_NAME :: string where "OO_TARGET_LLM_NAME = ''llm-baremetal''"
definition OO_MSG_ID_LEN :: nat where "OO_MSG_ID_LEN = 12"
definition OO_NAME_LEN :: nat where "OO_NAME_LEN = 32"
definition OO_DESC_LEN :: nat where "OO_DESC_LEN = 256"
definition OO_MAX_PAYLOAD_SIZE :: nat where "OO_MAX_PAYLOAD_SIZE = 512"

section \<open>Messages\<close>

record oo_msg_header =
  om_magic :: u32
  om_version :: u32
  om_msg_type :: u8
  om_priority :: u8
  om_msg_id :: string
  om_from :: string
  om_to :: string
  om_timestamp :: u64
  om_payload_size :: u32
  om_payload_crc :: u32

record oo_message =
  om_header :: oo_msg_header
  om_payload :: "u8 list"

text \<open>The structures as they lie in memory.\<close>

definition OOMsgHeader_fields :: c_fields where
  "OOMsgHeader_fields = [(''magic'', U32), (''version'', U32), (''msg_type'', U8), (''priority'', U8),
     (''_pad'', Bytes 2), (''msg_id'', Bytes OO_MSG_ID_LEN), (''from'', Bytes OO_NAME_LEN),
     (''to'', Bytes OO_NAME_LEN), (''timestamp'', U64), (''payload_size'', U32), (''payload_crc'', U32)]"

definition OOBotEvent_fields :: c_fields where
  "OOBotEvent_fields = [(''threat_level'', U8), (''confidence'', U8), (''agent_role'', U8),
     (''action_taken'', U8), (''description'', Bytes OO_DESC_LEN), (''pattern_id'', Bytes OO_MSG_ID_LEN),
     (''target_pid'', U32), (''target_addr'', U64)]"

definition OOBotAlert_fields :: c_fields where
  "OOBotAlert_fields = [(''threat_level'', U8), (''_pad'', Bytes 3), (''description'', Bytes OO_DESC_LEN),
     (''action_taken'', Bytes 64), (''request_ack'', U8), (''_pad2'', Bytes 7)]"

definition OOBotHeartbeat_fields :: c_fields where
  "OOBotHeartbeat_fields = [(''current_threat_level'', U8), (''fleet_health'', U8), (''genome_count'', U8),
     (''is_cloaked'', U8), (''threats_today'', U32), (''uptime_s'', U32)]"

definition OOLLMDirective_fields :: c_fields where
  "OOLLMDirective_fields = [(''action'', U8), (''priority'', U8), (''_pad'', Bytes 2), (''target'', Bytes 64),
     (''context'', Bytes 128), (''expires_at'', U64)]"

definition OOMessage_fields :: c_fields where
  "OOMessage_fields = [(''header'', c_record OOMsgHeader_fields), (''payload'', Bytes OO_MAX_PAYLOAD_SIZE)]"

lemmas protocol_fields = OOMsgHeader_fields_def OOBotEvent_fields_def OOBotAlert_fields_def
  OOBotHeartbeat_fields_def OOLLMDirective_fields_def OOMessage_fields_def OO_MSG_ID_LEN_def OO_NAME_LEN_def
  OO_DESC_LEN_def OO_MAX_PAYLOAD_SIZE_def

section \<open>The predicates\<close>

text \<open>\<open>strncmp\<close> as a test for equality: at most \<open>n\<close> characters, and none behind a terminator.\<close>

fun strncmp_eq :: "nat \<Rightarrow> string \<Rightarrow> string \<Rightarrow> bool" where
  "strncmp_eq 0 a b = True"
| "strncmp_eq (Suc n) a b =
     (let c = (case a of [] \<Rightarrow> CHR 0x00 | c # _ \<Rightarrow> c); d = (case b of [] \<Rightarrow> CHR 0x00 | d # _ \<Rightarrow> d)
      in c = d \<and> (c = CHR 0x00 \<or> strncmp_eq n (tl a) (tl b)))"

definition OO_MSG_IS_FROM_LLM :: "oo_message \<Rightarrow> bool" where
  "OO_MSG_IS_FROM_LLM msg \<longleftrightarrow> strncmp_eq OO_NAME_LEN (om_from (om_header msg)) OO_TARGET_LLM_NAME"

definition OO_MSG_IS_ALERT :: "oo_message \<Rightarrow> bool" where
  "OO_MSG_IS_ALERT msg \<longleftrightarrow> om_msg_type (om_header msg) = msg_type_code OO_MSG_BOT_ALERT"

definition OO_MSG_IS_CRITICAL :: "oo_message \<Rightarrow> bool" where
  "OO_MSG_IS_CRITICAL msg \<longleftrightarrow> om_priority (om_header msg) = priority_code OO_PRIO_CRITICAL"

definition OO_MSG_VALID :: "(oo_message \<Rightarrow> bool) \<Rightarrow> oo_message option \<Rightarrow> bool" where
  "OO_MSG_VALID oo_msg_verify msg = (case msg of None \<Rightarrow> False
     | Some m \<Rightarrow> om_magic (om_header m) = OO_PROTO_MAGIC \<and> oo_msg_verify m)"

section \<open>Facts\<close>

text \<open>A field holds a name when the name, a terminator and anything else follow each other.\<close>

lemma strncmp_field:
  "CHR 0x00 \<notin> set s \<Longrightarrow> length s < n \<Longrightarrow> length f = n \<Longrightarrow>
     strncmp_eq n f s \<longleftrightarrow> takeWhile (\<lambda>c. c \<noteq> CHR 0x00) f = s \<and> CHR 0x00 \<in> set f"
proof (induction n f s rule: strncmp_eq.induct)
  case (2 n a b)
  then obtain x f where a: "a = x # f" by (cases a) auto
  show ?case
    using 2 by (cases b) (auto simp: a)
qed auto

lemma from_llm_iff:
  assumes "length (om_from (om_header msg)) = 32"
  shows "OO_MSG_IS_FROM_LLM msg
    \<longleftrightarrow> takeWhile (\<lambda>c. c \<noteq> CHR 0x00) (om_from (om_header msg)) = ''llm-baremetal''
       \<and> CHR 0x00 \<in> set (om_from (om_header msg))"
  using strncmp_field [of "''llm-baremetal''" 32 "om_from (om_header msg)"] assms
  by (simp add: OO_MSG_IS_FROM_LLM_def OO_NAME_LEN_def OO_TARGET_LLM_NAME_def)

lemma msg_codes: "inj msg_type_code" "inj priority_code"
proof -
  have "msg_type_code x = msg_type_code y \<Longrightarrow> x = y" for x y by (cases x; cases y) simp_all
  then show "inj msg_type_code" by (rule injI)
  have "priority_code x = priority_code y \<Longrightarrow> x = y" for x y by (cases x; cases y) simp_all
  then show "inj priority_code" by (rule injI)
qed

text \<open>
  The payloads fit. Every payload structure fits into the 512 bytes of a message, behind a header of
  104 bytes with its eight-byte time stamp aligned.
\<close>

lemma header_layout:
  "c_layout (c_record OOMsgHeader_fields) = (8, 104)" "c_offsetof ''timestamp'' OOMsgHeader_fields = Some 88"
  by code_simp+

lemma payload_layouts:
  "c_layout (c_record OOBotEvent_fields) = (8, 288)" "c_layout (c_record OOBotAlert_fields) = (1, 332)"
  "c_layout (c_record OOBotHeartbeat_fields) = (4, 12)" "c_layout (c_record OOLLMDirective_fields) = (8, 208)"
  by code_simp+

lemma message_layout:
  "c_layout (c_record OOMessage_fields) = (8, 616)" "c_offsetof ''payload'' OOMessage_fields = Some 104"
  by code_simp+

theorem payloads_fit:
  "fs \<in> {OOBotEvent_fields, OOBotAlert_fields, OOBotHeartbeat_fields, OOLLMDirective_fields} \<Longrightarrow>
     c_size (c_record fs) \<le> OO_MAX_PAYLOAD_SIZE
     \<and> c_size (c_record OOMsgHeader_fields) + OO_MAX_PAYLOAD_SIZE = c_size (c_record OOMessage_fields)"
  using header_layout payload_layouts message_layout
  by (auto simp: c_size_def OO_MAX_PAYLOAD_SIZE_def simp del: c_layout.simps)

end
