(* ===== verification/Struct_Layouts.thy ===== *)
theory Struct_Layouts
  imports C_Layout Bot_DNA_Facts Vital_Life Reflex_Sense Control_Planes Drivers
begin

text \<open>
  The structures of the sources whose size or offsets the code computes with, as field lists, and
  the proof that the numbers in the models are the ones their layout gives: the agent's DNA with the
  offset of its hash, the epigenetic memory that does not fit its field in the image, the stimulus
  and the pain signal whose sizes are published, the telemetry frame, the tables of the firmware.
\<close>

section \<open>Structures\<close>

definition BehaviorPattern_fields :: c_fields where
  "BehaviorPattern_fields = [(''signature'', Bytes 32), (''threat_domain'', U32), (''confidence'', U32),
     (''learned_at'', U64), (''hit_count'', U64), (''active'', U8), (''_pad'', Bytes 7)]"

definition BotDNA_fields :: c_fields where
  "BotDNA_fields = [(''magic'', U32), (''version'', U32), (''agent_id'', Bytes 16), (''role'', Enum),
     (''generation'', U32), (''name'', Bytes 32), (''capabilities'', U64), (''threat_domains'', U32),
     (''current_threat_level'', Enum), (''learned_patterns'', C_Array (c_record BehaviorPattern_fields) BOT_MAX_PATTERNS),
     (''pattern_count'', U32), (''threats_detected'', U64), (''threats_neutralized'', U64),
     (''false_positives'', U64), (''birth_time'', U64), (''last_regen_time'', U64), (''regen_count'', U32),
     (''integrity_hash'', Bytes 32), (''is_healthy'', U8), (''prime_directives'', Bytes BOT_PRIME_DIR_LEN),
     (''_reserved'', Bytes 64)]"

definition oo_epigenetic_event_fields :: c_fields where
  "oo_epigenetic_event_fields = [(''pulse_at'', U64), (''impact'', U8), (''source_organ'', U8)]"

definition oo_epigenetic_memory_fields :: c_fields where
  "oo_epigenetic_memory_fields = [(''trauma_level'', U32), (''success_count'', U32), (''total_experiences'', U32),
     (''personality_bias'', U8), (''resilience'', U8), (''generation'', U8),
     (''events'', C_Array (c_record oo_epigenetic_event_fields) MAX_EPIGENETIC_EVENTS),
     (''event_head'', U16), (''checksum'', U32)]"

definition oo_vital_spark_fields :: c_fields where
  "oo_vital_spark_fields = [(''current_force'', Enum), (''tension'', U8), (''pulse_count'', U64),
     (''jitter'', U64), (''birth_timestamp'', U64), (''age_cycles'', U8)]"

definition oo_soma_dna_fields :: c_fields where
  "oo_soma_dna_fields = [(''magic'', U32), (''version'', U32), (''spark'', c_record oo_vital_spark_fields),
     (''synapse_size'', U32), (''synapse_data'', Bytes 1024), (''epigenetic_data'', Bytes 512),
     (''forth_data'', Bytes 1024), (''forth_size'', U32), (''checksum'', U32)]"

definition oo_synapse_link_fields :: c_fields where
  "oo_synapse_link_fields = [(''from_node'', U8), (''to_node'', U8), (''weight'', U8), (''plasticity'', U8)]"

definition oo_pain_signal_fields :: c_fields where
  "oo_pain_signal_fields = [(''level'', Enum), (''source'', Enum), (''timestamp'', U64),
     (''raw_error_code'', U32), (''endorphin_dampened'', U8)]"

definition oo_stimulus_fields :: c_fields where
  "oo_stimulus_fields = [(''type'', Enum), (''intensity'', U32), (''timestamp'', U64), (''raw_data'', Bytes 16)]"

definition oo_telemetry_fields :: c_fields where
  "oo_telemetry_fields = c_packed [(''magic'', U32), (''organ_id'', U16), (''mode'', U8), (''health'', U8),
     (''cpu_neural'', U32), (''mem_used_mb'', U32), (''breath_rate'', U32), (''tick'', U32)]"

definition AcpiRsdp_fields :: c_fields where
  "AcpiRsdp_fields = c_packed [(''signature'', Bytes 8), (''checksum'', U8), (''oem_id'', Bytes 6),
     (''revision'', U8), (''rsdt_addr'', U32)]"

definition AcpiSdtHeader_fields :: c_fields where
  "AcpiSdtHeader_fields = c_packed [(''signature'', Bytes 4), (''length'', U32), (''revision'', U8),
     (''checksum'', U8), (''oem_id'', Bytes 6), (''oem_table_id'', Bytes 8), (''oem_revision'', U32),
     (''creator_id'', U32), (''creator_revision'', U32)]"

definition AcpiMadt_fields :: c_fields where
  "AcpiMadt_fields = c_packed [(''header'', c_record AcpiSdtHeader_fields), (''lapic_addr'', U32), (''flags'', U32)]"

section \<open>Layouts\<close>

lemma dna_parts:
  "map c_layout (map snd BotDNA_fields) = [(4, 4), (4, 4), (1, 16), (4, 4), (4, 4), (1, 32), (8, 8), (4, 4),
     (4, 4), (8, 4096), (4, 4), (8, 8), (8, 8), (8, 8), (8, 8), (8, 8), (4, 4), (1, 32), (1, 1), (1, 256), (1, 64)]"
proof -
  have "c_layout (c_record BehaviorPattern_fields) = (8, 64)" by code_simp
  then show ?thesis
    by (simp add: BotDNA_fields_def BOT_MAX_PATTERNS_def BOT_PRIME_DIR_LEN_def del: c_layout.simps(3))
qed

lemma dna_layout:
  "c_layout (c_record BotDNA_fields) = (8, 4584)"
  "c_offsets BotDNA_fields = [0, 4, 8, 24, 28, 32, 64, 72, 76, 80, 4176, 4184, 4192, 4200, 4208, 4216, 4224,
     4228, 4260, 4261, 4517]"
  unfolding c_layout.simps c_offsets_def dna_parts by (simp_all add: round_up_def)

lemma hash_offset: "c_offsetof ''integrity_hash'' BotDNA_fields = Some 4228"
  by (simp add: c_offsetof_def dna_layout) (simp add: BotDNA_fields_def)

lemma epigenetic_layout: "c_layout (c_record oo_epigenetic_memory_fields) = (8, 4120)"
  by code_simp

lemma soma_layout:
  "c_layout (c_record oo_vital_spark_fields) = (8, 40)" "c_layout (c_record oo_soma_dna_fields) = (8, 2624)"
  "c_layout (c_record oo_synapse_link_fields) = (1, 4)"
  by code_simp+

lemma signal_layout:
  "c_layout (c_record oo_pain_signal_fields) = (8, 24)" "c_layout (c_record oo_stimulus_fields) = (8, 32)"
  by code_simp+

lemma telemetry_layout:
  "c_layout (c_record oo_telemetry_fields) = (1, 24)"
  "c_offsets oo_telemetry_fields = [0, 4, 6, 7, 8, 12, 16, 20]"
  by code_simp+

lemma acpi_layout:
  "c_layout (c_record AcpiSdtHeader_fields) = (1, 36)" "c_offsetof ''length'' AcpiSdtHeader_fields = Some 4"
  "c_offsetof ''rsdt_addr'' AcpiRsdp_fields = Some 16" "c_layout (c_record AcpiMadt_fields) = (1, 44)"
  by code_simp+

text \<open>
  The numbers of the models are those of the structures: the bytes of an agent are as many as the
  compiler gives the structure and the hash covers the bytes before its field; the epigenetic memory
  is larger than the field it is exported to, while 64 links fit theirs; the published sizes and
  the offsets in the firmware tables are the ABI's.
\<close>

lemma dna_numbers:
  assumes "dna_wf d"
  shows "c_size (c_record BotDNA_fields) = length (dna_bytes d)" "c_size (c_record BotDNA_fields) = DNA_SIZE"
    and "c_offsetof ''integrity_hash'' BotDNA_fields = Some (length (dna_head_bytes d))"
  using length_head [OF assms] length_dna_bytes [OF assms]
  by (simp_all add: c_size_def dna_layout hash_offset DNA_SIZE_def del: c_layout.simps)

lemma persistence_numbers:
  "c_size (c_record oo_epigenetic_memory_fields) = EPIGENETIC_SIZE" "512 < EPIGENETIC_SIZE"
  "SYNAPSE_MAX_LINKS * c_size (c_record oo_synapse_link_fields) \<le> 1024"
  by (simp_all add: c_size_def epigenetic_layout soma_layout signal_layout EPIGENETIC_SIZE_def
      MAX_EPIGENETIC_EVENTS_def SYNAPSE_MAX_LINKS_def del: c_layout.simps)

lemma message_numbers:
  "payload_size (sensory_globule addr 32) = of_nat (c_size (c_record oo_stimulus_fields))"
  "c_size (c_record oo_pain_signal_fields) = 24"
  "fst (oo_telemetry_serialize pkt out 24) = c_size (c_record oo_telemetry_fields)"
  "sdt_entries (of_nat (c_size (c_record AcpiSdtHeader_fields)) + 4 * 3) = 3"
  by (simp_all add: c_size_def signal_layout telemetry_layout acpi_layout sensory_globule_def
      oo_telemetry_serialize_def sdt_entries_def Let_def del: c_layout.simps)

end
