(* ===== verification/Test_Replay.thy ===== *)
theory Test_Replay
  imports Control_Planes Organ_Numbers "HOL-Library.Code_Target_Nat"
begin

text \<open>
  The native test of the control planes, \<open>control-planes/test/test_control_planes.c\<close>, replayed on the
  model. The test links the sources with a stub of the bus and of the network; here they run with
  the modelled bus on zeroed memory. The checks of the test are the elements of a list, in order.
\<close>

section \<open>The test program\<close>

definition report_all :: "u8 \<Rightarrow> control_state \<Rightarrow> control_state" where
  "report_all h s =
     (let (r, b) = fold (\<lambda>i. organ_state_publish i h 0) [0..OO_ORGAN_COUNT - 1] (o_registry s, o_bus s)
      in s\<lparr> o_registry := r, o_bus := b \<rparr>)"

definition report_one :: "int \<Rightarrow> u8 \<Rightarrow> control_state \<Rightarrow> control_state" where
  "report_one i h s =
     (let (r, b) = organ_state_publish i h 0 (o_registry s, o_bus s) in s\<lparr> o_registry := r, o_bus := b \<rparr>)"

text \<open>\<open>buf\<close> and \<open>frame\<close>: the uninitialised buffers of the test and of the tick.\<close>

definition control_planes_test :: "u8 list \<Rightarrow> u8 list \<Rightarrow> control_state \<Rightarrow> bool list" where
  "control_planes_test buf frame s =
     (let s = homeostasis_mode_init (s\<lparr> o_registry := organ_state_init (o_registry s) \<rparr>);
          s = report_all 100 s;
          (m1, s) = homeostasis_mode_evaluate s;
          s = report_one OO_ORGAN_SWARM 10 s;
          (m, s) = homeostasis_mode_evaluate s;
          (h, r) = organ_state_aggregate_health (o_registry s);
          (rdec, rs, r) = reflex_engine_run m h r;
          (sdec, ss) = strategic_brain_run m h;
          s = report_one OO_ORGAN_KERNEL 0 (s\<lparr> o_registry := r \<rparr>);
          (m2, s) = homeostasis_mode_evaluate s;
          (resolved, exhaled, s) = control_tick frame s;
          (pkt, s) = oo_telemetry_fill s;
          (n, buf) = oo_telemetry_serialize pkt buf 24
      in [m1 = OO_MODE_NORMAL,
          m = OO_MODE_DEGRADED \<or> m = OO_MODE_SAFE,
          active rs \<noteq> 0 \<and> rdec \<noteq> OO_DECISION_OPTIMIZE,
          sdec \<noteq> OO_DECISION_OPTIMIZE,
          m2 = OO_MODE_SAFE,
          resolved = OO_DECISION_THROTTLE,
          (case exhaled of None \<Rightarrow> False | Some f \<Rightarrow> length f = 24),
          n = 24 \<and> get_le32 buf 0 = OO_TELEMETRY_MAGIC])"

section \<open>What a registry shows\<close>

definition shown :: "organ_registry \<Rightarrow> (bool \<times> u8) list" where
  "shown r = map (\<lambda>s. (present s \<noteq> 0, health s)) (g_registry r)"

lemma publish_shown:
  assumes "g_inited r" "registry_ok r" "valid_organ i"
  shows "shown (fst (organ_state_publish i h m (r, b))) = (shown r)[nat i := (True, clamp_health h)]"
    "g_inited (fst (organ_state_publish i h m (r, b)))" "registry_ok (fst (organ_state_publish i h m (r, b)))"
proof -
  show "registry_ok (fst (organ_state_publish i h m (r, b)))" using assms(2) by (rule oo_inv)
qed (use assms in \<open>simp_all add: shown_def organ_state_publish_def Let_def map_update\<close>)

lemma all_shown:
  assumes "g_inited r" "registry_ok r" "\<forall>i\<in>set ks. valid_organ i"
  shows "g_inited (fst (fold (\<lambda>i. organ_state_publish i h m) ks (r, b)))
    \<and> registry_ok (fst (fold (\<lambda>i. organ_state_publish i h m) ks (r, b)))
    \<and> shown (fst (fold (\<lambda>i. organ_state_publish i h m) ks (r, b)))
      = fold (\<lambda>i xs. xs[nat i := (True, clamp_health h)]) ks (shown r)"
  using assms
proof (induction ks arbitrary: r b)
  case (Cons k ks)
  obtain r' b' where rb: "organ_state_publish k h m (r, b) = (r', b')" by fastforce
  have "g_inited r'" "registry_ok r'" "shown r' = (shown r)[nat k := (True, clamp_health h)]"
    using publish_shown [OF Cons.prems(1,2), of k h m b] Cons.prems(3) by (simp_all add: rb)
  with Cons.IH [of r' b'] Cons.prems(3) show ?case by (simp add: rb)
qed simp

text \<open>The aggregates of a registry in which every organ is present, from the healths it shows.\<close>

definition worst_of :: "u8 list \<Rightarrow> u8" where
  "worst_of hs = fold (\<lambda>i w. if in_vital_chain i then w else if hs ! nat i < w then hs ! nat i else w) [0..16] 100"

lemma views_of_shown:
  assumes "g_inited r" "registry_ok r" "shown r = map (Pair True) hs"
  shows "agg_health r = of_nat (sum_list (map unat hs) div length hs)"
    "worst_health r = worst_of hs"
    "chain_alive r \<longleftrightarrow> (\<forall>i\<in>set vital_chain. hs ! nat i \<noteq> 0)"
proof -
  have len: "length hs = 17" using assms(2) arg_cong [OF assms(3), of length] by (simp add: shown_def registry_ok_def)
  have at: "present (g_registry r ! nat i) \<noteq> 0 \<and> health (g_registry r ! nat i) = hs ! nat i" if "valid_organ i" for i
    using that assms(2) arg_cong [OF assms(3), of "\<lambda>xs. xs ! nat i"] len
    by (simp add: shown_def registry_ok_def valid_organ_bounds nat_less_iff)
  have f: "filter (\<lambda>s. present s \<noteq> 0) (g_registry r) = g_registry r"
    using at len assms(2) by (intro filter_True) (force simp: in_set_conv_nth registry_ok_def valid_organ_bounds dest: spec [of _ "int i" for i])
  have "map unat (map snd (shown r)) = map unat hs" by (simp add: assms(3) comp_def)
  then have "present_healths r = map unat hs"
    using assms(1) by (simp add: present_healths_def f shown_def comp_def)
  then show "agg_health r = of_nat (sum_list (map unat hs) div length hs)"
    using len by (auto simp: agg_health_def aggregate_eq [OF assms(2)])
  have "fold (worst_step r) [0..16] 100 = worst_of hs"
    unfolding worst_of_def using at by (intro fold_cong) (auto simp: worst_step_def Let_def valid_organ_bounds fun_eq_iff)
  then show "worst_health r = worst_of hs"
    using assms(1) by (simp add: worst_health_def organ_state_worst_nonvital_health_def OO_ORGAN_COUNT_def Let_def)
  show "chain_alive r \<longleftrightarrow> (\<forall>i\<in>set vital_chain. hs ! nat i \<noteq> 0)"
  proof -
    have "broken_link r i \<longleftrightarrow> hs ! nat i = 0" if "i \<in> set vital_chain" for i
      using that at [of i] by (auto simp: broken_link_def vital_chain_def valid_organ_bounds oo_defs)
    with assms(1) show ?thesis by (simp add: chain_alive_iff)
  qed
qed

text \<open>The healths that the test reports: all, then without the swarm, then without the kernel.\<close>

definition healths_at :: "nat \<Rightarrow> u8 list" where
  "healths_at k = (let hs = replicate 17 100 in if k = 0 then hs
     else if k = 1 then hs[11 := 10] else hs[11 := 10, 1 := 0])"

lemma healths_views:
  "sum_list (map unat (healths_at 0)) div length (healths_at 0) = 100"
  "sum_list (map unat (healths_at 1)) div length (healths_at 1) = 94"
  "worst_of (healths_at 0) = 100" "worst_of (healths_at 1) = 10" "worst_of (healths_at 2) = 10"
  "\<forall>i\<in>set vital_chain. healths_at 0 ! nat i \<noteq> 0" "\<forall>i\<in>set vital_chain. healths_at 1 ! nat i \<noteq> 0"
  "\<not> (\<forall>i\<in>set vital_chain. healths_at 2 ! nat i \<noteq> 0)"
  by code_simp+

text \<open>A registry at the given point of the test.\<close>

definition at_point :: "nat \<Rightarrow> organ_registry \<Rightarrow> bool" where
  "at_point k r \<longleftrightarrow> g_inited r \<and> registry_ok r \<and> shown r = map (Pair True) (healths_at k)"

lemma at_point_next:
  assumes "at_point k r" "valid_organ i" "(healths_at k)[nat i := clamp_health h] = healths_at l"
  shows "at_point l (fst (organ_state_publish i h m (r, b)))"
  using assms(1) publish_shown [of r i h m b] assms(2,3) by (simp add: at_point_def map_update [symmetric])

lemma at_point_first:
  assumes "registry_ok r"
  shows "at_point 0 (fst (fold (\<lambda>i. organ_state_publish i 100 m) [0..OO_ORGAN_COUNT - 1] (organ_state_init r, b)))"
proof -
  have i: "g_inited (organ_state_init r)" "registry_ok (organ_state_init r)"
    using registry_ok_init [OF assms] by (simp_all add: organ_state_init_def)
  have v: "\<forall>i\<in>set [0..OO_ORGAN_COUNT - 1]. valid_organ i" by (auto simp: valid_organ_bounds OO_ORGAN_COUNT_def)
  have "length (shown (organ_state_init r)) = 17" using i(2) by (simp add: shown_def registry_ok_def)
  then have "fold (\<lambda>i xs. xs[nat i := (True, clamp_health 100)]) [0..OO_ORGAN_COUNT - 1] (shown (organ_state_init r))
      = map (Pair True) (healths_at 0)"
    by (auto simp: eval_nat_numeral length_Suc_conv OO_ORGAN_COUNT_def upto_rec1 clamp_health_def healths_at_def)
  with all_shown [OF i v, of 100 m b] show ?thesis by (simp add: at_point_def)
qed

lemma at_point_views:
  "at_point 0 r \<Longrightarrow> agg_health r = 100 \<and> worst_health r = 100 \<and> chain_alive r"
  "at_point 1 r \<Longrightarrow> agg_health r = 94 \<and> worst_health r = 10 \<and> chain_alive r"
  "at_point 2 r \<Longrightarrow> worst_health r = 10 \<and> \<not> chain_alive r"
  by (simp_all add: at_point_def views_of_shown healths_views healths_views [unfolded One_nat_def])

lemma at_point_inited: "at_point k r \<Longrightarrow> g_inited r"
  by (simp add: at_point_def)

section \<open>Properties\<close>

text \<open>
  C14: The native test of the control planes passes on the model, from every state of the organism and
  with the real bus in place of the stub: with all organs healthy the mode is normal; a failing swarm
  degrades it, with the reflexes active and no plane optimising; a dead kernel forces the safe mode at
  once; the tick then throttles and exhales a frame of 24 bytes; and a frame begins with the magic
  number.
\<close>

theorem control_planes_test_passes:
  assumes "registry_ok (o_registry s)" "24 \<le> length buf" "24 \<le> length frame"
  shows "control_planes_test buf frame s = replicate 8 True"
proof -
  define s0 where "s0 = homeostasis_mode_init (s\<lparr> o_registry := organ_state_init (o_registry s) \<rparr>)"
  have s0: "g_mode s0 = OO_MODE_NORMAL" "o_registry s0 = organ_state_init (o_registry s)"
    by (simp_all add: s0_def homeostasis_mode_init_def)
  define s1 where "s1 = report_all 100 s0"
  have s1: "at_point 0 (o_registry s1)" "g_mode s1 = OO_MODE_NORMAL"
    using at_point_first [OF assms(1), of 0 "o_bus s0"] s0
    by (simp_all add: s1_def report_all_def case_prod_unfold Let_def)
  define s2 where "s2 = snd (homeostasis_mode_evaluate s1)"
  have m1: "homeostasis_mode_evaluate s1 = (OO_MODE_NORMAL, s2)"
    and s2: "at_point 0 (o_registry s2)" "g_mode s2 = OO_MODE_NORMAL"
    using at_point_views(1) [OF s1(1)] at_point_inited [OF s1(1)] s1
    by (simp_all add: s2_def evaluate_eq next_mode_def effective_health_def oo_defs)
  define s3 where "s3 = report_one OO_ORGAN_SWARM 10 s2"
  have s3: "at_point 1 (o_registry s3)" "g_mode s3 = OO_MODE_NORMAL"
    using at_point_next [OF s2(1), of OO_ORGAN_SWARM 10 1 0 "o_bus s2"] s2(2)
    by (simp_all add: s3_def report_one_def case_prod_unfold Let_def OO_ORGAN_SWARM_def valid_organ_bounds
      healths_at_def clamp_health_def)
  define s4 where "s4 = snd (homeostasis_mode_evaluate s3)"
  have m: "homeostasis_mode_evaluate s3 = (OO_MODE_SAFE, s4)"
    and s4: "at_point 1 (o_registry s4)" "g_mode s4 = OO_MODE_SAFE"
    using at_point_views(2) [OF s3(1)] at_point_inited [OF s3(1)] s3
    by (simp_all add: s4_def evaluate_eq next_mode_def effective_health_def oo_defs)
  have h: "organ_state_aggregate_health (o_registry s4) = (94, o_registry s4)"
    using at_point_views(2) [OF s4(1)] at_point_inited [OF s4(1)] by (simp add: registry_prod)
  obtain rdec rs where rdec: "reflex_engine_run OO_MODE_SAFE 94 (o_registry s4) = (rdec, rs, o_registry s4)"
    "rdec = OO_DECISION_HOLD" "active rs = 1"
    using at_point_views(2) [OF s4(1)] at_point_inited [OF s4(1)]
    by (simp add: reflex_engine_run_def registry_prod oo_defs)
  obtain sdec ss where sdec: "strategic_brain_run OO_MODE_SAFE 94 = (sdec, ss)" "sdec = OO_DECISION_HOLD"
    by (simp add: strategic_brain_run_def)
  define s5 where "s5 = report_one OO_ORGAN_KERNEL 0 s4"
  have s5: "at_point 2 (o_registry s5)"
    using at_point_next [OF s4(1), of OO_ORGAN_KERNEL 0 2 0 "o_bus s4"]
    by (simp add: s5_def report_one_def case_prod_unfold Let_def OO_ORGAN_KERNEL_def valid_organ_bounds
      healths_at_def clamp_health_def)
  define s6 where "s6 = snd (homeostasis_mode_evaluate s5)"
  have m2: "homeostasis_mode_evaluate s5 = (OO_MODE_SAFE, s6)" and s6: "at_point 2 (o_registry s6)"
    using at_point_views(3) [OF s5] at_point_inited [OF s5] s5 by (simp_all add: s6_def evaluate_eq next_mode_def)
  obtain resolved exhaled s7 where t: "control_tick frame s6 = (resolved, exhaled, s7)" by (metis prod_cases3)
  have resolved: "resolved = OO_DECISION_THROTTLE"
    using control_tick_eq(1) [of frame s6] at_point_views(3) [OF s6]
    by (simp add: t resolved_decision_def next_mode_def reflex_choice_def autonomy_choice_def strategy_choice_def
      min_def decision_order)
  have exhaled: "exhaled = Some (take 24 (snd (oo_telemetry_serialize (tick_packet s6) frame 24)))"
    using control_tick_eq(2) [of frame s6] by (simp add: t)
  obtain pkt s8 where p: "oo_telemetry_fill s7 = (pkt, s8)" "t_magic pkt = OO_TELEMETRY_MAGIC"
    by (simp add: oo_telemetry_fill_def case_prod_unfold Let_def)
  obtain n out where n: "oo_telemetry_serialize pkt buf 24 = (n, out)" by fastforce
  have "n = 24 \<and> get_le32 out 0 = OO_TELEMETRY_MAGIC"
    using serialize_decode(1) [of buf 24 pkt] arg_cong [OF serialize_decode(2) [of buf 24 pkt], of t_magic]
      assms(2) p(2) by (simp add: n telemetry_decode_def)
  moreover have "replicate 8 True = [True, True, True, True, True, True, True, True]"
    by (simp add: numeral_eq_Suc)
  ultimately show ?thesis
    using serialize_decode(3) [of frame 24 "tick_packet s6"] assms(3)
    by (simp add: control_planes_test_def Let_def s0_def [symmetric] s1_def [symmetric] m1 s3_def [symmetric] m h
      rdec sdec s5_def [symmetric] m2 t p n resolved exhaled)
qed

definition zero_globule :: globule where
  "zero_globule = \<lparr> globule_id = 0, gtype = GLOBULE_WHITE, source_organ = 0, target_organ = 0, payload_addr = 0,
     payload_size = 0 \<rparr>"

lemma control_planes_test_passes_witness:
  "control_planes_test (replicate 24 0) (replicate 24 0) (planes_boot (\<lambda>_. zero_globule)) = replicate 8 True"
  by (rule control_planes_test_passes) (simp_all add: planes_boot_def Let_def registry_ok_boot)

end
