(* ===== verification/Blood_Flow.thy ===== *)
theory Blood_Flow
  imports Control_Planes Kernel_Scheduler Self_Organs Guard_Organs Vital_Frame
begin

text \<open>
  What the organs do to the bus they share. Every operation of an organ changes the bus by
  publishing globules of a few kinds, pulling, collecting or re-initialising: \<open>blood_step\<close> is one
  such change, \<open>blood_flow\<close> any number of them. The lemmas in \<open>oo_flow\<close> state this for every
  operation that touches the bus; the traffic on the ring and the safety of the bus follow for all
  of them at once. The last section is about slots of the ring that nobody has written.
\<close>

section \<open>The traffic of the organs\<close>

text \<open>
  Globules of the C organs go to the organs 0, 1, 3 and 10 or to all, and data comes from the
  receptors only. \<open>network_inhale\<close> also offers data of organ 5 to the cortex, which the barrier
  refuses.
\<close>

definition organ_traffic :: "globule \<Rightarrow> bool" where
  "organ_traffic g \<longleftrightarrow> target_organ g \<in> {0, 1, 3, 10, 0xFF} \<and> (gtype g = GLOBULE_RED \<longrightarrow> source_organ g = 4)"

inductive blood_step :: "united_bus \<Rightarrow> united_bus \<Rightarrow> bool" where
  flow_init: "blood_step b (united_bus_init b)"
| flow_gc: "blood_step b (united_bus_gc b)"
| flow_pull: "united_bus_absorb organ m b = Some (gs, b') \<Longrightarrow> blood_step b b'"
| flow_put: "organ_traffic g \<or> blocked_by_barrier g \<Longrightarrow> blood_step b (bus_put g b)"

abbreviation blood_flow :: "united_bus \<Rightarrow> united_bus \<Rightarrow> bool" where
  "blood_flow \<equiv> blood_step\<^sup>*\<^sup>*"

lemma flow_then_put: "blood_flow b b' \<Longrightarrow> organ_traffic g \<Longrightarrow> blood_flow b (bus_put g b')"
  by (erule rtranclp.rtrancl_into_rtrancl) (rule flow_put, simp)

lemma flow_one_put: "organ_traffic g \<Longrightarrow> blood_flow b (bus_put g b)"
  by (rule flow_then_put) simp_all

lemma flow_one_pull: "united_bus_absorb organ m b = Some (gs, b') \<Longrightarrow> blood_flow b b'"
  by (rule r_into_rtranclp) (rule flow_pull)

lemma blood_step_bus: "blood_step b b' \<Longrightarrow> bus_step b b'"
  by (induction rule: blood_step.induct) (auto intro: bus_step.intros)

lemma flow_reachable: "blood_flow b b' \<Longrightarrow> bus_reachable mem b \<Longrightarrow> bus_reachable mem b'"
  by (induction rule: rtranclp_induct) (auto intro: reach_step blood_step_bus)

lemma flow_safe: "blood_flow b b' \<Longrightarrow> bus_safe b \<Longrightarrow> bus_safe b'"
  by (induction rule: rtranclp_induct) (auto intro: bus_step_safe blood_step_bus)

section \<open>The traffic on the ring\<close>

definition ring_traffic :: "united_bus \<Rightarrow> bool" where
  "ring_traffic b \<longleftrightarrow> (\<forall>i. organ_traffic (blood_stream b i))"

lemma organ_traffic_id [simp]: "organ_traffic (g\<lparr> globule_id := n \<rparr>) = organ_traffic g"
  by (simp add: organ_traffic_def)

lemma blood_step_traffic: "blood_step b b' \<Longrightarrow> ring_traffic b \<Longrightarrow> ring_traffic b'"
proof (induction rule: blood_step.induct)
  case (flow_pull organ m b gs b')
  then show ?case
    by (auto simp: united_bus_absorb_def ring_traffic_def split: if_splits option.splits)
next
  case (flow_put g b)
  then show ?case by (auto simp: ring_traffic_def united_bus_pump_def Let_def)
qed (auto simp: ring_traffic_def united_bus_init_def united_bus_gc_def)

lemma flow_traffic: "blood_flow b b' \<Longrightarrow> ring_traffic b \<Longrightarrow> ring_traffic b'"
  by (induction rule: rtranclp_induct) (auto intro: blood_step_traffic)

text \<open>What a reader gets from such a ring: an organ that nobody writes to gets broadcasts only.\<close>

lemma pulled_traffic:
  assumes "ring_traffic b" "united_bus_absorb organ m b = Some (gs, b')" "g \<in> set gs"
  shows "organ_traffic g" "target_organ g = 0xFF \<or> target_organ g = organ"
proof -
  from absorb_from_ring [OF assms(2,3)] obtain i where "g = blood_stream b i" "addressed_to organ g" by blast
  with assms(1) show "organ_traffic g" "target_organ g = 0xFF \<or> target_organ g = organ"
    by (auto simp: ring_traffic_def addressed_to_def)
qed

section \<open>The globules of the organs\<close>

lemma organ_globules [simp]:
  "t \<noteq> GLOBULE_RED \<Longrightarrow> organ_traffic (broadcast_globule t src code)"
  "organ_traffic (pressure_globule junk)" "organ_traffic map_globule"
  "organ_traffic pain_signal_globule" "organ_traffic (sensory_globule addr len)"
  "organ_traffic temperature_alarm" "organ_traffic (identity_alert junk addr)"
  "organ_traffic (shared_immunity addr64 len64)" "organ_traffic posture_alarm"
  "organ_traffic (shadow_kill_signal junk)" "vital_signal g \<Longrightarrow> organ_traffic g"
  by (auto simp: organ_traffic_def broadcast_globule_def pressure_globule_def map_globule_def
      pain_signal_globule_def sensory_globule_def temperature_alarm_def identity_alert_def
      shared_immunity_def posture_alarm_def shadow_kill_signal_def vital_signal_def oo_defs)

lemma inhaled_flows: "blood_flow b (bus_put (inhaled_globule frame len) b)"
proof (cases "len < 64")
  case True
  then show ?thesis by (intro flow_one_put) (simp add: organ_traffic_def inhaled_globule_def)
next
  case False
  then show ?thesis by (intro r_into_rtranclp flow_put) simp
qed

section \<open>The operations\<close>

lemma bus_flows [oo_flow]: "blood_flow b (united_bus_init b)" "blood_flow b (united_bus_gc b)"
  by (rule r_into_rtranclp, rule blood_step.intros)+

lemma broadcast_flows [oo_flow]:
  "blood_flow b (snd (united_bus_broadcast_yellow source code b))"
  "blood_flow b (snd (united_bus_broadcast_white source threat b))"
  by (simp_all add: united_bus_broadcast_yellow_def united_bus_broadcast_white_def flow_one_put)

lemma publish_flows [oo_flow]:
  "blood_flow bus (snd (organ_state_publish organ h mode (r, bus)))"
  by (auto simp: organ_state_publish_def Let_def united_bus_broadcast_yellow_def intro!: flow_one_put)

lemma evaluate_flows [oo_flow]:
  "blood_flow (o_bus s) (o_bus (snd (homeostasis_mode_evaluate s)))"
  by (auto simp: evaluate_eq united_bus_broadcast_yellow_def intro!: flow_one_put)

lemma telemetry_bus: "o_bus (snd (oo_telemetry_fill s)) = o_bus s"
  by (simp add: oo_telemetry_fill_def Let_def case_prod_beta)

lemma tick_bus: "o_bus (snd (snd (control_tick buf s)))
    = o_bus (snd (homeostasis_mode_evaluate (s\<lparr> g_ticks := g_ticks s + 1 \<rparr>)))"
  by (simp add: control_tick_def Let_def case_prod_beta telemetry_bus)

lemma tick_flows [oo_flow]: "blood_flow (o_bus s) (o_bus (snd (snd (control_tick buf s))))"
  using evaluate_flows [of "s\<lparr> g_ticks := g_ticks s + 1 \<rparr>"] by (simp add: tick_bus)

lemma inhale_flows [oo_flow]: "blood_flow bus (snd (network_inhale frame len (l, bus)))"
  using inhaled_flows [of bus frame len] by (simp add: network_inhale_def case_prod_beta)

lemma heartbeat_flows [oo_flow]:
  "oo_scheduler_heartbeat (s, bus) = Some (called, s', bus') \<Longrightarrow> blood_flow bus bus'"
  by (auto simp: oo_scheduler_heartbeat_def intro: flow_one_pull split: option.splits)

lemma cell_flows [oo_flow]: "blood_flow bus (snd (snd (bio_allocate_cell junk (m, bus))))"
  by (auto simp: bio_allocate_cell_def Let_def case_prod_beta intro!: flow_one_put)

lemma map_flows [oo_flow]: "blood_flow bus (snd (snd (bio_map_cell va pa flags (m, bus))))"
  by (auto simp: bio_map_cell_def intro!: flow_one_put)

lemma cord_flows [oo_flow]:
  "blood_flow bus (snd (reflex_on_thermal_burn (s, bus)))" "blood_flow bus (snd (reflex_on_pain (s, bus)))"
  by (auto simp: reflex_on_thermal_burn_def reflex_on_pain_def united_bus_broadcast_white_def Let_def
      intro!: flow_one_put)

lemma thermal_flows [oo_flow]: "blood_flow bus (snd (reflex_thermal_check t (s, bus)))"
  by (auto simp: reflex_thermal_check_def reflex_on_thermal_burn_def united_bus_broadcast_white_def
      united_bus_broadcast_yellow_def intro!: flow_then_put)

lemma reflex_flows [oo_flow]:
  "(\<And>f b. blood_flow b (other f b)) \<Longrightarrow> blood_flow bus (snd (reflex_trigger other v (s, bus)))"
  by (auto simp: reflex_trigger_def reflex_on_pain_def reflex_on_thermal_burn_def Let_def
      united_bus_broadcast_white_def intro!: flow_one_put split: option.split reflex_action.split)

lemma sense_flows [oo_flow]:
  "blood_flow bus (snd (sense_transduce_keystroke addr k (r, bus)))"
  "blood_flow bus (snd (sense_update_retina text len (r, bus)))"
  "blood_flow bus (snd (sense_transduce_serial data len (r, bus)))"
  "blood_flow bus (sense_transduce_timer tick bus)"
  "blood_flow bus (sense_feel_temperature bus)"
  by (auto simp: sense_transduce_keystroke_def sense_update_retina_def sense_transduce_serial_def
      sense_transduce_timer_def sense_feel_temperature_def united_bus_broadcast_yellow_def Let_def
      intro!: flow_one_put split: option.split)

lemma is_self_flows [oo_flow]: "blood_flow bus (snd (snd (identity_is_self junk addr d (s, bus))))"
  by (auto simp: identity_is_self_def intro!: flow_one_put)

lemma evolution_flows [oo_flow]:
  "blood_flow bus (snd (snd (evolution_apply_mutation junk addr weights (s, bus))))"
  using is_self_flows [of bus junk addr]
  by (auto simp: evolution_apply_mutation_def Let_def case_prod_beta split: option.split list.split)

lemma swarm_flows [oo_flow]:
  "blood_flow bus (snd (swarm_on_pheromone_received junk addr sender data len (s, bus)))"
  using is_self_flows [of bus junk addr sender s]
  by (auto simp: swarm_on_pheromone_received_def Let_def case_prod_beta intro!: flow_then_put)

lemma posture_flows [oo_flow]: "blood_flow bus (proprioception_check_posture sp p mem bus)"
  by (auto simp: proprioception_check_posture_def Let_def intro!: flow_one_put)

lemma death_flows [oo_flow]: "blood_flow bus (fst (shadow_simulate_death junk bus))"
  by (auto simp: shadow_simulate_death_def intro!: flow_one_put)

lemma dream_flows [oo_flow]: "dream_round mem (d, bus) = Some (d', bus') \<Longrightarrow> blood_flow bus bus'"
  by (auto simp: dream_round_def intro: flow_one_pull split: option.splits)

lemma publishes_flows: "vital_publishes b b' \<Longrightarrow> blood_flow b b'"
  by (induction rule: vital_publishes.induct) (auto intro: flow_then_put)

lemma lesson_flows: "layer_lesson e u = Some v' \<Longrightarrow> blood_flow (v_bus u) (v_bus v')"
  by (auto dest!: lesson_bus intro: flow_one_pull)

lemma beat_flows [oo_flow]: "vital_eternal_heartbeat e v = Some v' \<Longrightarrow> blood_flow (v_bus v) (v_bus v')"
  by (auto simp: heartbeat_body split: option.splits
      dest!: body_bus(1) publishes_flows lesson_flows intro: rtranclp_trans)

lemma birth_flows [oo_flow]: "blood_flow (v_bus v) (v_bus (vital_init e img v))"
  by (rule publishes_flows [OF birth_bus(1)])

end
