(* ===== verification/Vital_Calls.thy ===== *)
theory Vital_Calls
  imports Vital_Birth
begin

text \<open>
  The vital organ as other code may use it: \<open>vital_call\<close> has a constructor for every function of its
  headers and files that changes its state, besides birth and the beat, and \<open>vital_do\<close> is its
  effect. Calls may come in any number and order, before birth and between beats. What a life of
  beats alone keeps (\<open>alive\<close>) is then too much to ask: a caller may fire agony, inject endorphins or
  teach words. \<open>hardy\<close> is what every call keeps, and it is enough for the beat to return.
\<close>

section \<open>Calls\<close>

datatype vital_call =
    Shift_Balance vital_force u8 | Set_Spark vital_spark | Steel_Tick
  | Epi_Init | Experience int | Epi_Export nat | Epi_Import "epigenetic_memory option" nat
  | Learn char string u8 | Exec string | Forth_Push u64 | Forth_Pop | Metabolic_Tick
  | Storage bool | Save | Load "soma_dna option"
  | Noise u64 | Aura u8 vital_force | Beacon | Clock_Sync | Unify u64 | Quantum_Sign u64
  | Pain_Init | Fire pain_source pain_level u32 | Endorphin u8 | Pain_Tick
  | Mind_Init | Transition consciousness_state u8 string | Mind_Tick
  | Imagine scenario | Take_Lessons dream_result
  | Board_Init | Regulate
  | Energy_Init u64 | Energy_Register u8 u64 | Energy_Request u8 u64 | Energy_Generate u64 | Energy_Tick
  | Syn_Init | Syn_Node u8 u8 | Syn_Connect u8 u8 "8 word" u8 | Syn_Stimulate u8 "16 word"
  | Syn_Propagate | Syn_Learn | Syn_Import "synapse_link list" nat

primrec vital_do :: "surroundings \<Rightarrow> vital_call \<Rightarrow> vital \<Rightarrow> vital option" where
  "vital_do e (Shift_Balance f w) v = Some (vital_shift_balance f (unat w) v)"
| "vital_do e (Set_Spark s) v = Some (vital_set_spark_state s v)"
| "vital_do e Steel_Tick v = Some (vital_steel_tick e v)"
| "vital_do e Epi_Init v = Some (vital_epigenetic_init v)"
| "vital_do e (Experience impact) v = Some (vital_mark_experience impact v)"
| "vital_do e (Epi_Export max_size) v = Some (snd (vital_epigenetic_export None max_size v))"
| "vital_do e (Epi_Import src sz) v = Some (vital_epigenetic_import src sz v)"
| "vital_do e (Learn name code len) v =
     Some (v\<lparr> v_forth := forth_learn_word name code (unat len) (v_forth v) \<rparr>)"
| "vital_do e (Exec instruction) v = vital_forth_exec instruction v"
| "vital_do e (Forth_Push x) v = Some (v_push x v)"
| "vital_do e Forth_Pop v = Some (snd (v_pop v))"
| "vital_do e Metabolic_Tick v = vital_metabolic_tick v"
| "vital_do e (Storage ctx) v = Some (vital_persistence_init ctx v)"
| "vital_do e Save v = Some (vital_persistence_save v)"
| "vital_do e (Load img) v = Some (vital_persistence_load img v)"
| "vital_do e (Noise x) v = Some (vital_generate_biotic_noise e x v)"
| "vital_do e (Aura t f) v = Some (v\<lparr> v_aura := vital_update_aura (unat t) f (v_aura v) \<rparr>)"
| "vital_do e Beacon v = Some (vital_emit_distress_beacon v)"
| "vital_do e Clock_Sync v = vital_pineal_gland_sync e v"
| "vital_do e (Unify x) v = Some (vital_core_unifier_tick x v)"
| "vital_do e (Quantum_Sign x) v = Some (vital_quantum_sign x v)"
| "vital_do e Pain_Init v = Some (nociception_init v)"
| "vital_do e (Fire src level code) v = Some (nociception_fire e src level code v)"
| "vital_do e (Endorphin dose) v = Some (nociception_inject_endorphin (unat dose) v)"
| "vital_do e Pain_Tick v = Some (nociception_tick v)"
| "vital_do e Mind_Init v = Some (consciousness_init e v)"
| "vital_do e (Transition t organ why) v = Some (snd (consciousness_transition e t organ why v))"
| "vital_do e Mind_Tick v = Some (consciousness_tick e v)"
| "vital_do e (Imagine sc) v = Some (snd (dream_simulate sc v))"
| "vital_do e (Take_Lessons r) v = Some (dream_apply_lessons r v)"
| "vital_do e Board_Init v = Some (v\<lparr> v_board := homeostasis_init \<rparr>)"
| "vital_do e Regulate v = Some (homeostasis_regulate e v)"
| "vital_do e (Energy_Init pool) v = Some (v\<lparr> v_met := metabolism_init pool (v_met v) \<rparr>)"
| "vital_do e (Energy_Register organ budget) v =
     Some (v\<lparr> v_met := metabolism_register_organ organ budget (v_met v) \<rparr>)"
| "vital_do e (Energy_Request organ amount) v =
     Some (v\<lparr> v_met := snd (metabolism_request_energy organ amount (v_met v)) \<rparr>)"
| "vital_do e (Energy_Generate amount) v = Some (v\<lparr> v_met := metabolism_generate_energy amount (v_met v) \<rparr>)"
| "vital_do e Energy_Tick v = Some (metabolism_tick e v)"
| "vital_do e Syn_Init v = Some (v\<lparr> v_syn := synapse_init (v_syn v) \<rparr>)"
| "vital_do e (Syn_Node nid thr) v = Some (v\<lparr> v_syn := snd (synapse_add_node nid (unat thr) (v_syn v)) \<rparr>)"
| "vital_do e (Syn_Connect f t w p) v =
     Some (v\<lparr> v_syn := snd (synapse_connect f t (sint w) (unat p) (v_syn v)) \<rparr>)"
| "vital_do e (Syn_Stimulate nid sg) v = Some (stimulate nid (sint sg) v)"
| "vital_do e Syn_Propagate v = Some (v\<lparr> v_syn := synapse_propagate (v_syn v) \<rparr>)"
| "vital_do e Syn_Learn v = Some (v\<lparr> v_syn := synapse_hebbian_learning (v_syn v) \<rparr>)"
| "vital_do e (Syn_Import buf sz) v = Some (v\<lparr> v_syn := synapse_import_links buf sz (v_syn v) \<rparr>)"

text \<open>
  What the calls rely on: what is loaded was written by an organ within its ranges, and a learned
  word keeps the reflexes layered; a word that uses itself hangs the interpreter.
\<close>

definition vital_proper :: "vital_call \<Rightarrow> vital \<Rightarrow> bool" where
  "vital_proper c v \<longleftrightarrow> (case c of
       Set_Spark s \<Rightarrow> tension s \<le> 255
     | Epi_Import src sz \<Rightarrow> (\<forall>m. src = Some m \<longrightarrow> epi_ok m)
     | Learn name code len \<Rightarrow>
         (\<exists>rank. layered rank (dictionary (forth_learn_word name code (unat len) (v_forth v))))
     | Load img \<Rightarrow> (\<forall>d. img = Some d \<longrightarrow> image_ok d)
     | Syn_Import buf sz \<Rightarrow> (\<forall>l\<in>set buf. link_ok l)
     | _ \<Rightarrow> True)"

section \<open>The bus and the reflexes\<close>

text \<open>No call publishes anything but signals, and only a lesson changes the dictionary.\<close>

context vital_beat_frame
begin

lemma load: "kept v \<Longrightarrow> kept (vital_persistence_load img v)"
  by (auto simp: vital_persistence_load_def vital_set_spark_state_def Let_def
      split: option.split intro!: pulse syn)

lemma tick: "kept v \<Longrightarrow> kept (metabolism_tick e v)"
  by (auto simp: metabolism_tick_def Let_def case_prod_beta intro!: basic fire)

lemma call:
  assumes "vital_do e c v = Some v'" "kept v" "\<And>name code len. c \<noteq> Learn name code len"
  shows "kept v'"
proof (cases c)
  case (Exec instruction)
  with assms(1,2) show ?thesis by (auto simp: vital_forth_exec_def intro: run)
next
  case Metabolic_Tick
  with assms(1,2) show ?thesis by (auto intro: reflexes)
next
  case Clock_Sync
  with assms(1,2) show ?thesis
    by (auto simp: vital_pineal_gland_sync_def Let_def split: option.splits prod.splits intro!: shift)
qed (use assms in \<open>auto simp: vital_set_spark_state_def vital_steel_tick_def vital_epigenetic_init_def
       vital_epigenetic_export_def vital_epigenetic_import_def vital_persistence_init_def
       vital_persistence_save_def vital_generate_biotic_noise_def vital_core_unifier_tick_def
       vital_quantum_sign_def nociception_init_def nociception_tick_def consciousness_init_def
       consciousness_tick_def dream_simulate_def sim_rand_def homeostasis_regulate_def Let_def case_prod_beta
       split: option.split intro!: basic pulse storage stack load tick fire lessons\<close>)

end

lemma call_bus:
  assumes "vital_do e c v = Some v'"
  shows "vital_publishes (v_bus v) (v_bus v')"
proof (cases "\<exists>name code len. c = Learn name code len")
  case True
  with assms have "v_bus v' = v_bus v" by auto
  then show ?thesis by (simp add: vital_publishes.silent)
next
  case False
  with vital_bus.call [OF assms, of "v_bus v" "dictionary (v_forth v)"] vital_publishes.silent show ?thesis by blast
qed

lemma call_dictionary:
  assumes "vital_do e c v = Some v'" "vital_proper c v" "layered rank (dictionary (v_forth v))"
  shows "\<exists>rank. layered rank (dictionary (v_forth v'))"
proof (cases "\<exists>name code len. c = Learn name code len")
  case True
  then obtain name code len where "c = Learn name code len" by blast
  with assms(1) have "v' = v\<lparr> v_forth := forth_learn_word name code (unat len) (v_forth v) \<rparr>" by simp
  with assms(2) \<open>c = Learn name code len\<close> show ?thesis by (simp add: vital_proper_def)
next
  case False
  then have "vital_publishes (v_bus v) (v_bus v') \<and> dictionary (v_forth v') = dictionary (v_forth v)"
    by (intro vital_bus.call [OF assms(1)]) (auto intro: vital_publishes.silent)
  with assms(3) show ?thesis by auto
qed

section \<open>What every call keeps\<close>

text \<open>
  Before birth the organ is within its arrays (\<open>unborn_ok\<close>); after birth its board stays at its
  targets and its bytes, sensitivities and synapses stay in their ranges as well.
\<close>

definition hardy :: "bool \<Rightarrow> vital \<Rightarrow> bool" where
  "hardy born v \<longleftrightarrow> unborn_ok v \<and> (born \<longrightarrow> v_board v = homeostasis_init \<and> synapses_ok (v_syn v)
     \<and> tension (v_spark v) \<le> 255 \<and> endorphin_level (v_noci v) \<le> 255
     \<and> (\<forall>r\<in>set (nociceptors (v_noci v)). nr_sensitivity r \<le> 251))"

lemma alive_hardy: "alive b v \<Longrightarrow> hardy True v"
  by (simp add: alive_def hardy_def unborn_ok_def cons_ok_def noci_ok_def)

lemma hardy_frame [simp]:
  "hardy n (v\<lparr> v_met := m \<rparr>) = hardy n v" "hardy n (v\<lparr> v_aura := a \<rparr>) = hardy n v"
  "hardy n (v\<lparr> v_biotic := w \<rparr>) = hardy n v" "hardy n (v\<lparr> v_sim_rng := x \<rparr>) = hardy n v"
  "hardy n (v\<lparr> v_lattice := l \<rparr>) = hardy n v" "hardy n (v\<lparr> v_written := d \<rparr>) = hardy n v"
  "hardy n (v\<lparr> v_phase := ph \<rparr>) = hardy n v" "hardy n (v\<lparr> v_phase_start := ps \<rparr>) = hardy n v"
  "hardy n (v\<lparr> v_storage := ctx \<rparr>) = hardy n v"
  by (simp_all add: hardy_def unborn_ok_def)

lemma hardy_pump: "hardy n v \<Longrightarrow> hardy n (pump g v)"
  by (simp add: hardy_def unborn_ok_def pump_def bus_safe_pump)

lemma hardy_spark: "hardy n v \<Longrightarrow> tension s \<le> 255 \<or> tension s \<le> tension (v_spark v) \<Longrightarrow> hardy n (v\<lparr> v_spark := s \<rparr>)"
  by (auto simp: hardy_def unborn_ok_def)

lemma hardy_shift: "hardy n v \<Longrightarrow> hardy n (vital_shift_balance f w v)"
  by (auto simp: vital_shift_balance_def Let_def intro!: hardy_spark)

lemma hardy_force: "hardy n v \<Longrightarrow> hardy n (set_force f v)"
  by (simp add: set_force_def hardy_spark)

lemma hardy_set_tension: "hardy n v \<Longrightarrow> t \<le> 255 \<or> t \<le> tension (v_spark v) \<Longrightarrow> hardy n (set_tension t v)"
  by (simp add: set_tension_def hardy_spark)

lemma hardy_steel: "hardy n v \<Longrightarrow> hardy n (vital_steel_tick e v)"
  by (simp add: vital_steel_tick_def hardy_spark)

lemma hardy_cons:
  "hardy n v \<Longrightarrow> history_head c < 64 \<Longrightarrow> history_count c \<le> 64 \<Longrightarrow> hardy n (v\<lparr> v_cons := c \<rparr>)"
  by (simp add: hardy_def unborn_ok_def)

lemma hardy_history: "hardy n v \<Longrightarrow> history_head (v_cons v) < 64 \<and> history_count (v_cons v) \<le> 64"
  by (simp add: hardy_def unborn_ok_def)

lemma hardy_transition: "hardy n v \<Longrightarrow> hardy n (snd (consciousness_transition e t organ why v))"
  using hardy_history [of n v]
  by (auto simp: consciousness_transition_def Let_def HISTORY_SIZE_def intro!: hardy_pump hardy_cons)

lemma hardy_mark: "hardy n v \<Longrightarrow> hardy n (vital_mark_experience i v)"
  by (simp add: hardy_def unborn_ok_def vital_mark_experience_def epi_mark_ok)

lemma hardy_lessons: "hardy n v \<Longrightarrow> hardy n (dream_apply_lessons r v)"
proof -
  assume h: "hardy n v"
  have "hardy n ((vital_mark_experience i ^^ k) v)" for i k
    by (induction k) (simp_all add: h hardy_mark)
  then show ?thesis by (simp add: dream_apply_lessons_def)
qed

lemma hardy_epi: "hardy n v \<Longrightarrow> epi_ok m \<Longrightarrow> hardy n (v\<lparr> v_epi := m \<rparr>)"
  by (simp add: hardy_def unborn_ok_def)

lemma hardy_epi_ok: "hardy n v \<Longrightarrow> epi_ok (v_epi v)"
  by (simp add: hardy_def unborn_ok_def)

lemma hardy_epi_init: "hardy n v \<Longrightarrow> hardy n (vital_epigenetic_init v)"
  by (simp add: vital_epigenetic_init_def hardy_epi hardy_epi_ok epi_init_ok)

lemma hardy_syn: "hardy n v \<Longrightarrow> (synapses_ok (v_syn v) \<Longrightarrow> synapses_ok s) \<Longrightarrow> hardy n (v\<lparr> v_syn := s \<rparr>)"
  by (auto simp: hardy_def unborn_ok_def)

lemma hardy_stimulate: "hardy n v \<Longrightarrow> hardy n (stimulate nid sg v)"
  by (simp add: stimulate_def hardy_syn stimulate_ok)

lemma hardy_forth: "hardy n v \<Longrightarrow> forth_ok f \<Longrightarrow> hardy n (v\<lparr> v_forth := f \<rparr>)"
  by (simp add: hardy_def unborn_ok_def)

lemma hardy_forth_ok: "hardy n v \<Longrightarrow> forth_ok (v_forth v)"
  by (simp add: hardy_def unborn_ok_def)

subsection \<open>Pain\<close>

lemma hardy_noci:
  assumes "hardy n v" "length (nociceptors k) = 6"
    and "endorphin_level k \<le> 255 \<or> endorphin_level k \<le> endorphin_level (v_noci v)"
    and "\<And>r. r \<in> set (nociceptors k) \<Longrightarrow> nr_sensitivity r \<le> 251 \<or> r \<in> set (nociceptors (v_noci v))"
  shows "hardy n (v\<lparr> v_noci := k \<rparr>)"
  using assms by (auto simp: hardy_def unborn_ok_def)

lemma hardy_receptors: "hardy n v \<Longrightarrow> length (nociceptors (v_noci v)) = 6"
  by (simp add: hardy_def unborn_ok_def)

lemma hardy_set_receptor:
  "hardy n v \<Longrightarrow> (n \<Longrightarrow> nr_sensitivity r \<le> 251) \<Longrightarrow> hardy n (set_receptor i r v)"
  by (auto simp: set_receptor_def hardy_def unborn_ok_def dest!: set_update)

lemma hardy_endorphin: "hardy n v \<Longrightarrow> hardy n (nociception_inject_endorphin d v)"
  by (auto simp: nociception_inject_endorphin_def Let_def hardy_receptors intro!: hardy_noci)

lemma hardy_fire: "hardy n v \<Longrightarrow> hardy n (nociception_fire e src level code v)"
proof -
  assume h: "hardy n v"
  define r where "r = nociceptors (v_noci v) ! source_code src"
  have r: "nr_sensitivity r \<le> 251" if n
    using h that source_less [of src] by (simp add: hardy_def unborn_ok_def r_def)
  have "hardy n (v\<lparr> v_noci := (v_noci v)\<lparr> global_pain := p \<rparr> \<rparr>)" for p
    by (rule hardy_noci [OF h]) (simp_all add: hardy_receptors [OF h])
  then show ?thesis
    using r unfolding nociception_fire_def Let_def r_def [symmetric]
    by (auto simp: h intro!: hardy_set_receptor hardy_mark hardy_endorphin hardy_transition hardy_pump adapt_range)
qed

lemma hardy_noci_tick: "hardy n v \<Longrightarrow> hardy n (nociception_tick v)"
  by (auto simp: nociception_tick_def Let_def hardy_receptors intro!: hardy_mark hardy_noci)

lemma hardy_pain_init: "hardy n v \<Longrightarrow> hardy n (nociception_init v)"
proof -
  assume h: "hardy n v"
  define rs where "rs = map2 receptor_init PAIN_SOURCES (nociceptors (v_noci v))"
  have "length rs = 6" "\<forall>r\<in>set rs. nr_sensitivity r \<le> 251"
    unfolding rs_def using receptors_born [OF hardy_receptors [OF h]] by blast+
  then show ?thesis
    unfolding nociception_init_def rs_def [symmetric] by (intro hardy_noci [OF h]) simp_all
qed

subsection \<open>Energy, board, spark\<close>

lemma hardy_metabolism: "hardy n v \<Longrightarrow> hardy n (metabolism_tick e v)"
  by (simp add: metabolism_tick_def Let_def case_prod_beta hardy_fire)

lemma hardy_board: "hardy n v \<Longrightarrow> (n \<Longrightarrow> b = homeostasis_init) \<Longrightarrow> hardy n (v\<lparr> v_board := b \<rparr>)"
  by (auto simp: hardy_def unborn_ok_def)

lemma hardy_regulate: "hardy n v \<Longrightarrow> hardy n (homeostasis_regulate e v)"
proof -
  assume h: "hardy n v"
  then have "hardy n (v\<lparr> v_board := regulate_board (v_board v) \<rparr>)"
    by (intro hardy_board [OF h]) (simp add: hardy_def regulate_settled)
  then show ?thesis by (auto simp: homeostasis_regulate_def Let_def intro!: hardy_pump hardy_shift)
qed

lemma hardy_viable: "hardy True v \<Longrightarrow> homeostasis_is_viable (v_board v)"
  by (simp add: hardy_def init_viable(1))

lemma hardy_mind_tick: "hardy n v \<Longrightarrow> hardy n (consciousness_tick e v)"
  using hardy_history [of n v]
  by (auto simp: consciousness_tick_def Let_def intro!: hardy_transition hardy_cons)

lemma hardy_mind_init: "hardy n v \<Longrightarrow> hardy n (consciousness_init e v)"
  using hardy_history [of n v]
  by (auto simp: consciousness_init_def intro!: hardy_transition hardy_cons)

lemma hardy_dream: "hardy n v \<Longrightarrow> hardy n (snd (dream_simulate sc v))"
  by (simp add: dream_simulate_def sim_rand_def Let_def)

lemma hardy_noise: "hardy n v \<Longrightarrow> hardy n (vital_generate_biotic_noise e x v)"
  by (auto simp: vital_generate_biotic_noise_def Let_def intro!: hardy_pump)

lemma hardy_beacon: "hardy n v \<Longrightarrow> hardy n (vital_emit_distress_beacon v)"
  by (simp add: vital_emit_distress_beacon_def)

lemma hardy_sync: "vital_pineal_gland_sync e v = Some v' \<Longrightarrow> hardy n v \<Longrightarrow> hardy n v'"
  by (auto simp: vital_pineal_gland_sync_def split: option.splits prod.splits intro!: hardy_shift)

lemma hardy_save: "hardy n v \<Longrightarrow> hardy n (vital_persistence_save v)"
  by (simp add: vital_persistence_save_def vital_epigenetic_export_def EPIGENETIC_SIZE_def
      MAX_EPIGENETIC_EVENTS_def case_prod_beta)

lemma hardy_load: "hardy n v \<Longrightarrow> \<forall>d. img = Some d \<longrightarrow> image_ok d \<Longrightarrow> hardy n (vital_persistence_load img v)"
  by (auto simp: vital_persistence_load_def vital_set_spark_state_def image_ok_def
      split: option.split intro!: hardy_spark hardy_syn import_ok)

subsection \<open>The interpreter\<close>

lemma hardy_stack: "hardy n v \<Longrightarrow> hardy n (v_push x v)" "hardy n v \<Longrightarrow> hardy n (snd (v_pop v))"
  using hardy_forth_ok [of n v]
  by (auto simp: v_push_def v_pop_def forth_push_def forth_pop_def forth_ok_def FORTH_STACK_SIZE_def
      case_prod_beta intro!: hardy_forth split: list.split)

lemma hardy_primitive: "hardy n v \<Longrightarrow> hardy n (forth_primitive c v)"
  by (auto simp: forth_primitive_def binary_def Let_def case_prod_beta intro!: hardy_stack hardy_shift hardy_beacon)

lemma hardy_run:
  assumes "forth_run cs v = Some v'" "hardy n v"
  shows "hardy n v'"
proof -
  have "hardy n v \<longrightarrow> hardy n v'"
  proof (rule forth_run.raw_induct [where P = "\<lambda>cs v v'. hardy n v \<longrightarrow> hardy n v'", OF _ assms(1)], goal_cases)
    case (1 run cs v v')
    then show ?case
      by (cases cs) (auto simp: hardy_primitive hardy_stack split: if_splits option.splits)
  qed
  with assms(2) show ?thesis by simp
qed

lemma hardy_reflexes: "vital_metabolic_tick v = Some v' \<Longrightarrow> hardy n v \<Longrightarrow> hardy n v'"
  by (auto simp: vital_metabolic_tick_def vital_forth_exec_def intro: hardy_run
      split: if_splits option.splits)

lemma hardy_learn: "hardy n v \<Longrightarrow> hardy n (v\<lparr> v_forth := forth_learn_word name code len (v_forth v) \<rparr>)"
  using hardy_forth_ok [of n v]
  by (auto simp: forth_learn_word_def forth_ok_def MAX_WORDS_def intro!: hardy_forth)

subsection \<open>All calls\<close>

lemma init_synapses_ok: "synapses_ok (synapse_init s)"
  by (simp add: synapse_init_def synapses_ok_def)

lemma epi_checksum_ok: "epi_ok (m\<lparr> epi_checksum := k \<rparr>) = epi_ok m"
  by (simp add: epi_ok_def)

lemma add_node_ok: "synapses_ok s \<Longrightarrow> thr < 256 \<Longrightarrow> synapses_ok (snd (synapse_add_node nid thr s))"
  by (auto simp: synapse_add_node_def synapses_ok_def node_ok_def SYNAPSE_MAX_NODES_def)

lemma connect_ok:
  "synapses_ok s \<Longrightarrow> -128 \<le> w \<Longrightarrow> w \<le> 127 \<Longrightarrow> p < 256 \<Longrightarrow> synapses_ok (snd (synapse_connect f t w p s))"
  by (auto simp: synapse_connect_def synapses_ok_def link_ok_def SYNAPSE_MAX_LINKS_def)

lemma byte_less [simp]: "unat (b :: u8) < 256"
  using unsigned_less [of b] by simp

lemma call_hardy:
  assumes "vital_do e c v = Some v'" "vital_proper c v" "hardy n v"
  shows "hardy n v'"
proof (cases c)
  case (Exec instruction)
  with assms(1,3) show ?thesis by (auto simp: vital_forth_exec_def intro: hardy_run)
next
  case Metabolic_Tick
  with assms(1,3) show ?thesis by (auto intro: hardy_reflexes)
next
  case Clock_Sync
  with assms(1,3) show ?thesis by (auto intro: hardy_sync)
next
  case (Syn_Connect f t w p)
  have "-128 \<le> sint w" "sint w \<le> 127"
    using sint_ge [of w] sint_lt [of w] by simp_all
  with assms(1,3) Syn_Connect show ?thesis
    by (auto intro!: hardy_syn connect_ok simp: link_ok_def)
next
  case (Syn_Node nid thr)
  with assms(1,3) show ?thesis by (auto intro!: hardy_syn add_node_ok)
qed (use assms in \<open>auto simp: vital_proper_def vital_set_spark_state_def vital_epigenetic_export_def
       vital_epigenetic_import_def vital_persistence_init_def vital_core_unifier_tick_def
       vital_quantum_sign_def Let_def init_synapses_ok propagate_ok hebbian_ok import_ok epi_checksum_ok hardy_epi_ok
       split: option.splits if_splits
       intro!: hardy_shift hardy_spark hardy_steel hardy_epi_init hardy_mark hardy_epi hardy_learn hardy_stack
       hardy_save hardy_load hardy_noise hardy_beacon hardy_pain_init hardy_fire hardy_endorphin hardy_noci_tick
       hardy_mind_init hardy_transition hardy_mind_tick hardy_dream hardy_lessons hardy_board hardy_regulate
       hardy_metabolism hardy_syn hardy_stimulate\<close>)

section \<open>The beat between calls\<close>

lemma hardy_time: "layer_time e v = Some v' \<Longrightarrow> hardy n v \<Longrightarrow> hardy n v'"
proof -
  have "hardy n (enter_phase e ph w)" if "hardy n w" for ph w
    using that by (cases ph) (auto simp: enter_phase_def Let_def intro!: hardy_force hardy_transition hardy_spark)
  then show "layer_time e v = Some v' \<Longrightarrow> hardy n v \<Longrightarrow> hardy n v'"
    by (auto simp: layer_time_def Let_def intro: hardy_sync split: if_splits)
qed

lemma hardy_before: "hardy n v \<Longrightarrow> hardy n (layer_energy e (layer_pain v))"
  by (simp add: layer_energy_def layer_pain_def Let_def hardy_shift hardy_stimulate hardy_metabolism hardy_noci_tick)

lemma hardy_quantum: "hardy n (vital_quantum_sign x v) = hardy n v"
  by (simp add: vital_quantum_sign_def)

lemma hardy_layers:
  "hardy n v \<Longrightarrow> hardy n (layer_consciousness e v)" "hardy n v \<Longrightarrow> hardy n (layer_guardian e v)"
  "hardy n v \<Longrightarrow> hardy n (layer_entropy e v)" "hardy n v \<Longrightarrow> hardy n (layer_dream v)"
  "hardy n v \<Longrightarrow> hardy n (layer_synapses v)" "hardy n v \<Longrightarrow> hardy n (layer_aura v)"
  "hardy n v \<Longrightarrow> hardy n (layer_oscillation v)" "hardy n v \<Longrightarrow> hardy n (layer_hormone e v)"
  "hardy n v \<Longrightarrow> hardy n (layer_signature e v)" "hardy n v \<Longrightarrow> hardy n (layer_epigenetic v)"
  subgoal by (simp add: layer_consciousness_def Let_def hardy_stimulate hardy_mind_tick)
  subgoal by (simp add: layer_guardian_def Let_def hardy_stimulate hardy_fire)
  subgoal by (simp add: layer_entropy_def hardy_stimulate hardy_noise)
  subgoal using hardy_dream by (simp add: layer_dream_def Let_def case_prod_beta hardy_stimulate hardy_lessons)
  subgoal by (simp add: layer_synapses_def hardy_syn propagate_ok hebbian_ok)
  subgoal by (simp add: layer_aura_def Let_def hardy_beacon)
  subgoal premises h
  proof -
    have "personality_bias (v_epi v) \<le> 252" using hardy_epi_ok [OF h] by (simp add: epi_ok_def)
    with h show ?thesis
      by (auto simp: layer_oscillation_def Let_def vital_get_personality_influence_def
          intro!: hardy_force hardy_set_tension)
  qed
  subgoal by (simp add: layer_hormone_def hardy_pump)
  subgoal by (simp add: layer_signature_def Let_def hardy_save hardy_quantum hardy_mark hardy_fire)
  subgoal by (auto simp: layer_epigenetic_def Let_def intro!: hardy_set_tension)
  done

lemma hardy_inner: "hardy n v \<Longrightarrow> hardy n (heartbeat_inner e v)"
  unfolding heartbeat_inner_def by (intro hardy_layers)

lemma hardy_lesson: "layer_lesson e v = Some v' \<Longrightarrow> hardy n v \<Longrightarrow> hardy n v'"
  by (auto simp: layer_lesson_def hardy_def unborn_ok_def forth_ok_def forth_learn_word_def MAX_WORDS_def Let_def
      dest: bus_safe_absorb split: if_splits option.splits list.splits prod.splits)

lemma hardy_body: "beat_body e v = Some u \<Longrightarrow> hardy True v \<Longrightarrow> hardy True u"
proof -
  assume b: "beat_body e v = Some u" and h: "hardy True v"
  from b obtain v1 v2 where v1: "layer_time e (vital_steel_tick e v) = Some v1"
    and v2: "layer_homeostasis e (layer_energy e (layer_pain v1)) = Some v2"
    and u: "vital_metabolic_tick (heartbeat_inner e v2) = Some u"
    by (auto simp: beat_body_def split: option.splits)
  have "hardy True v1" by (rule hardy_time [OF v1 hardy_steel [OF h]])
  then have r: "hardy True (homeostasis_regulate e (layer_energy e (layer_pain v1)))"
    by (intro hardy_regulate hardy_before)
  with v2 have "v2 = homeostasis_regulate e (layer_energy e (layer_pain v1))"
    by (simp add: layer_homeostasis_def Let_def hardy_viable)
  with r have "hardy True (heartbeat_inner e v2)" by (simp add: hardy_inner)
  then show "hardy True u" by (rule hardy_reflexes [OF u])
qed

lemma hardy_beat: "vital_eternal_heartbeat e v = Some v' \<Longrightarrow> hardy True v \<Longrightarrow> hardy True v'"
  by (auto simp: heartbeat_body dest: hardy_body hardy_lesson split: option.splits)

lemma hardy_returns:
  assumes "hardy True v" "s_rtc_status e n AND 0x80 = 0" "layered rank (dictionary (v_forth v))"
  shows "\<exists>u. beat_body e v = Some u \<and> dictionary (v_forth u) = dictionary (v_forth v)
     \<and> pulse_count (v_spark u) = pulse_count (v_spark v) + 1"
proof (rule body_returns_viable [OF assms(2,3)])
  fix v1 assume v1: "layer_time e (vital_steel_tick e v) = Some v1"
  have "hardy True v1" by (rule hardy_time [OF v1 hardy_steel [OF assms(1)]])
  then show "homeostasis_is_viable (v_board (homeostasis_regulate e (layer_energy e (layer_pain v1))))"
    by (intro hardy_viable hardy_regulate hardy_before)
qed

lemma hardy_unborn: "unborn_ok v = hardy False v"
  by (simp add: hardy_def)

lemma hardy_birth: "hardy n v \<Longrightarrow> \<forall>d. img = Some d \<longrightarrow> image_ok d \<Longrightarrow> hardy True (vital_init e img v)"
  using alive_hardy [OF birth_alive [of v img e]] by (simp add: hardy_def [of n])

end
