(* ===== verification/Whole_Organism.thy ===== *)
theory Whole_Organism
  imports Blood_Flow Self_Facts Kernel_Runs Vital_Calls
begin

text \<open>
  The whole organism: the C organs side by side, on one bus and one memory. In the sources the
  organs are files with static variables that call \<open>united_bus_pump\<close> and \<open>united_bus_absorb\<close>; the
  record \<open>whole\<close> collects these variables, \<open>organ_call\<close> has a constructor for the functions of the
  organs that change them, and \<open>perform\<close> is its effect. The bus is the one in the state of the
  control planes, the memory the one behind the bitmap of the allocator. Calls are made one after
  the other, in any order; a call that does not return has no result.

  Three kinds of functions have no constructor. \<open>united_bus_pump\<close> itself: everything that calls it in
  the sources is a function of an organ and has one. Functions that only return a value or print,
  among them the camouflage and the purge of the shadow and most of the \<open>*_init\<close>; the three planes
  run on their own write to a status of the caller and leave behind what \<open>Chain_Alive\<close> leaves. And
  bot, desktop, drivers and voice, which use neither the bus nor the memory.
\<close>

section \<open>State\<close>

record whole =
  w_planes :: control_state
  w_kernel :: scheduler
  w_heap :: hedged_heap
  w_words :: hedged_store
  w_cord :: spinal_cord
  w_senses :: receptors
  w_self :: identity
  w_posture :: proprioception
  w_dream :: dreamer
  w_vital :: vital
  w_born :: bool

abbreviation the_bus :: "whole \<Rightarrow> united_bus" where
  "the_bus w \<equiv> o_bus (w_planes w)"

abbreviation machine_memory :: "whole \<Rightarrow> u64 \<Rightarrow> u8" where
  "machine_memory w \<equiv> phys (heap_mem (w_heap w))"

definition set_bus :: "united_bus \<Rightarrow> whole \<Rightarrow> whole" where
  "set_bus b w = w\<lparr> w_planes := (w_planes w)\<lparr> o_bus := b \<rparr> \<rparr>"

definition set_memory :: "(u64 \<Rightarrow> u8) \<Rightarrow> whole \<Rightarrow> whole" where
  "set_memory p w = w\<lparr> w_heap := (w_heap w)\<lparr> heap_mem := (heap_mem (w_heap w))\<lparr> phys := p \<rparr> \<rparr> \<rparr>"

text \<open>The vital organ works on the common bus.\<close>

definition vital_on_bus :: "whole \<Rightarrow> vital" where
  "vital_on_bus w = (w_vital w)\<lparr> v_bus := the_bus w \<rparr>"

definition set_vital :: "vital \<Rightarrow> whole \<Rightarrow> whole" where
  "set_vital v w = set_bus (v_bus v) (w\<lparr> w_vital := v \<rparr>)"

lemma set_bus_simps [simp]:
  "the_bus (set_bus b w) = b" "w_kernel (set_bus b w) = w_kernel w" "w_heap (set_bus b w) = w_heap w"
  "w_words (set_bus b w) = w_words w"
  "w_cord (set_bus b w) = w_cord w" "w_senses (set_bus b w) = w_senses w" "w_self (set_bus b w) = w_self w"
  "w_posture (set_bus b w) = w_posture w" "w_dream (set_bus b w) = w_dream w"
  "w_vital (set_bus b w) = w_vital w" "w_born (set_bus b w) = w_born w"
  "o_registry (w_planes (set_bus b w)) = o_registry (w_planes w)"
  by (simp_all add: set_bus_def)

lemma set_memory_simps [simp]:
  "w_planes (set_memory p w) = w_planes w" "w_self (set_memory p w) = w_self w"
  "w_words (set_memory p w) = w_words w" "w_kernel (set_memory p w) = w_kernel w" "w_vital (set_memory p w) = w_vital w"
  "w_heap (set_memory p w) = (w_heap w)\<lparr> heap_mem := (heap_mem (w_heap w))\<lparr> phys := p \<rparr> \<rparr>"
  by (simp_all add: set_memory_def)

lemma vital_on_bus_simps [simp]:
  "v_bus (vital_on_bus w) = the_bus w" "v_forth (vital_on_bus w) = v_forth (w_vital w)"
  "v_spark (vital_on_bus w) = v_spark (w_vital w)"
  by (simp_all add: vital_on_bus_def)

section \<open>Calls\<close>

text \<open>The registry with the control planes, and the memory with its heap of replicated blocks.\<close>

datatype plane_call =
    Registry_Init | Report int u8 u8 | Mean_Health | Worst_Health | Chain_Alive
  | Mode_Init | Evaluate_Mode | Tick "u8 list" | Telemetry

primrec planes_do :: "plane_call \<Rightarrow> control_state \<Rightarrow> control_state" where
  "planes_do Registry_Init s = s\<lparr> o_registry := organ_state_init (o_registry s) \<rparr>"
| "planes_do (Report organ h mode) s =
     (let r = organ_state_publish organ h mode (o_registry s, o_bus s) in s\<lparr> o_registry := fst r, o_bus := snd r \<rparr>)"
| "planes_do Mean_Health s = s\<lparr> o_registry := snd (organ_state_aggregate_health (o_registry s)) \<rparr>"
| "planes_do Worst_Health s = s\<lparr> o_registry := snd (organ_state_worst_nonvital_health (o_registry s)) \<rparr>"
| "planes_do Chain_Alive s = s\<lparr> o_registry := snd (organ_state_vital_chain_alive (o_registry s)) \<rparr>"
| "planes_do Mode_Init s = homeostasis_mode_init s"
| "planes_do Evaluate_Mode s = snd (homeostasis_mode_evaluate s)"
| "planes_do (Tick buf) s = snd (snd (control_tick buf s))"
| "planes_do Telemetry s = snd (oo_telemetry_fill s)"

datatype memory_call =
    Memory_Init u64 u64 | New_Cell globule | New_Tissue u64 | Map_Cell u64 u64 u32
  | Free_Cell u64 | Purge u64 u64 | Apoptosis u64 u64 | Consolidate u64 u64
  | Malloc u64 u32 | Release u64 | Fill u64 "u8 list" | Read_Block u64 u64

abbreviation on_memory :: "(bio_mem \<Rightarrow> bio_mem) \<Rightarrow> hedged_heap \<Rightarrow> hedged_heap" where
  "on_memory f h \<equiv> h\<lparr> heap_mem := f (heap_mem h) \<rparr>"

primrec memory_do :: "memory_call \<Rightarrow> hedged_heap \<Rightarrow> united_bus \<Rightarrow> hedged_heap \<times> united_bus" where
  "memory_do (Memory_Init base total_bytes) h b = (on_memory (bio_mem_init base total_bytes) h, b)"
| "memory_do (New_Cell junk) h b =
     (let r = snd (bio_allocate_cell junk (heap_mem h, b)) in (h\<lparr> heap_mem := fst r \<rparr>, snd r))"
| "memory_do (New_Tissue len) h b = (on_memory (\<lambda>m. snd (bio_allocate_neural_tissue len m)) h, b)"
| "memory_do (Map_Cell va pa flags) h b =
     (let r = snd (bio_map_cell va pa flags (heap_mem h, b)) in (h\<lparr> heap_mem := fst r \<rparr>, snd r))"
| "memory_do (Free_Cell a) h b = (on_memory (bio_free_cell a) h, b)"
| "memory_do (Purge a len) h b = (on_memory (bio_purge_infected_tissue a len) h, b)"
| "memory_do (Apoptosis a len) h b = (on_memory (bio_apoptosis a len) h, b)"
| "memory_do (Consolidate a len) h b = (on_memory (bio_consolidate_memory a len) h, b)"
| "memory_do (Malloc len replicas) h b = (snd (hedged_malloc len replicas h), b)"
| "memory_do (Release ptr) h b = (hedged_free ptr h, b)"
| "memory_do (Fill ptr data) h b = (snd (hedged_replicate_data ptr data h), b)"
| "memory_do (Read_Block ptr len) h b = (snd (hedged_read ptr len h), b)"

text \<open>All organs.\<close>

datatype organ_call =
    Bus_Init | Bus_Collect | Pull u8 int | Shout_Yellow u8 u32 | Shout_White u8 u32
  | Planes plane_call
  | Network_Up | Inhale u64 u64
  | Kernel_Init | Register organ_type u64 | Regime homeostasis_state | Kernel_Beat
  | Memory memory_call | Words_Configure u32 u64 | Words_Replicate u32 u64
  | Cord_Init | Bind u8 "reflex_action option" | Interrupt "u64 \<Rightarrow> united_bus \<Rightarrow> united_bus" u8
  | Burned | Hurt | Kick | Heat u32
  | Keystroke u64 u8 | Retina "u8 list option" u32 | Serial_In "u8 list" u32 | Clock_In u64 | Feel
  | Self_Init | Ask_Self globule u64 oo_dna_signature | Trust oo_dna_signature
  | Mutate globule u64 "u8 list option" | Pheromone globule u64 oo_dna_signature u64 u64
  | Stand_Up u64 | Check_Posture u64 | Die globule | Rot u64 nat | Dream | Hotpatch u64 u64
  | Birth surroundings "soma_dna option" | Beat surroundings | Vital surroundings vital_call

primrec perform :: "organ_call \<Rightarrow> whole \<Rightarrow> whole option" where
  "perform Bus_Init w = Some (set_bus (united_bus_init (the_bus w)) w)"
| "perform Bus_Collect w = Some (set_bus (united_bus_gc (the_bus w)) w)"
| "perform (Pull organ m) w =
     map_option (\<lambda>r. set_bus (snd r) w) (united_bus_absorb organ m (the_bus w))"
| "perform (Shout_Yellow source code) w = Some (set_bus (snd (united_bus_broadcast_yellow source code (the_bus w))) w)"
| "perform (Shout_White source threat) w = Some (set_bus (snd (united_bus_broadcast_white source threat (the_bus w))) w)"
| "perform (Planes c) w = Some (w\<lparr> w_planes := planes_do c (w_planes w) \<rparr>)"
| "perform Network_Up w =
     Some (w\<lparr> w_planes := (w_planes w)\<lparr> o_lungs := network_init (o_lungs (w_planes w)) \<rparr> \<rparr>)"
| "perform (Inhale frame len) w =
     (let r = network_inhale frame len (o_lungs (w_planes w), the_bus w)
      in Some (w\<lparr> w_planes := (w_planes w)\<lparr> o_lungs := fst r, o_bus := snd r \<rparr> \<rparr>))"
| "perform Kernel_Init w = Some (w\<lparr> w_kernel := oo_scheduler_init (w_kernel w) \<rparr>)"
| "perform (Register t entry) w = Some (w\<lparr> w_kernel := oo_scheduler_register_organ t entry (w_kernel w) \<rparr>)"
| "perform (Regime st) w =
     map_option (\<lambda>s. w\<lparr> w_kernel := s \<rparr>) (oo_scheduler_set_state st (w_kernel w))"
| "perform Kernel_Beat w =
     map_option (\<lambda>(called, s, b). set_bus b (w\<lparr> w_kernel := s \<rparr>))
       (oo_scheduler_heartbeat (w_kernel w, the_bus w))"
| "perform (Memory c) w =
     (let r = memory_do c (w_heap w) (the_bus w) in Some (set_bus (snd r) (w\<lparr> w_heap := fst r \<rparr>)))"
| "perform (Words_Configure replicas stride) w =
     Some (w\<lparr> w_words := snd (bio_hedged_configure replicas stride (w_words w)) \<rparr>)"
| "perform (Words_Replicate logical x) w =
     Some (w\<lparr> w_words := snd (bio_hedged_replicate_word logical x (w_words w)) \<rparr>)"
| "perform Cord_Init w = Some (w\<lparr> w_cord := reflex_init (w_cord w) \<rparr>)"
| "perform (Bind v a) w = Some (w\<lparr> w_cord := reflex_bind_action v a (w_cord w) \<rparr>)"
| "perform (Interrupt other v) w =
     (let r = reflex_trigger other v (w_cord w, the_bus w) in Some (set_bus (snd r) (w\<lparr> w_cord := fst r \<rparr>)))"
| "perform Burned w =
     (let r = reflex_on_thermal_burn (w_cord w, the_bus w) in Some (set_bus (snd r) (w\<lparr> w_cord := fst r \<rparr>)))"
| "perform Hurt w =
     (let r = reflex_on_pain (w_cord w, the_bus w) in Some (set_bus (snd r) (w\<lparr> w_cord := fst r \<rparr>)))"
| "perform Kick w = Some (w\<lparr> w_cord := reflex_watchdog_kick (w_cord w) \<rparr>)"
| "perform (Heat temp) w =
     (let r = reflex_thermal_check temp (w_cord w, the_bus w) in Some (set_bus (snd r) (w\<lparr> w_cord := fst r \<rparr>)))"
| "perform (Keystroke addr k) w =
     (let r = sense_transduce_keystroke addr k (w_senses w, the_bus w)
      in Some (set_bus (snd r) (w\<lparr> w_senses := fst r \<rparr>)))"
| "perform (Retina text len) w =
     (let r = sense_update_retina text len (w_senses w, the_bus w)
      in Some (set_bus (snd r) (w\<lparr> w_senses := fst r \<rparr>)))"
| "perform (Serial_In data len) w =
     (let r = sense_transduce_serial data len (w_senses w, the_bus w)
      in Some (set_bus (snd r) (w\<lparr> w_senses := fst r \<rparr>)))"
| "perform (Clock_In tick) w = Some (set_bus (sense_transduce_timer tick (the_bus w)) w)"
| "perform Feel w = Some (set_bus (sense_feel_temperature (the_bus w)) w)"
| "perform Self_Init w = Some (w\<lparr> w_self := identity_init (w_self w) \<rparr>)"
| "perform (Ask_Self junk addr d) w =
     (let r = snd (identity_is_self junk addr d (w_self w, the_bus w))
      in Some (set_bus (snd r) (w\<lparr> w_self := fst r \<rparr>)))"
| "perform (Trust d) w = Some (w\<lparr> w_self := identity_trust_dna d (w_self w) \<rparr>)"
| "perform (Mutate junk addr weights) w =
     (let r = snd (evolution_apply_mutation junk addr weights (w_self w, the_bus w))
      in Some (set_bus (snd r) (w\<lparr> w_self := fst r \<rparr>)))"
| "perform (Pheromone junk addr sender data len) w =
     (let r = swarm_on_pheromone_received junk addr sender data len (w_self w, the_bus w)
      in Some (set_bus (snd r) (w\<lparr> w_self := fst r \<rparr>)))"
| "perform (Stand_Up sp) w =
     (let r = proprioception_init sp (w_posture w, machine_memory w)
      in Some (set_memory (snd r) (w\<lparr> w_posture := fst r \<rparr>)))"
| "perform (Check_Posture sp) w =
     Some (set_bus (proprioception_check_posture sp (w_posture w) (machine_memory w) (the_bus w)) w)"
| "perform (Die junk) w =
     (let r = shadow_simulate_death junk (the_bus w) in map_option (\<lambda>_. set_bus (fst r) w) (snd r))"
| "perform (Rot ptr n) w = Some (set_memory (shadow_necrosis ptr n (machine_memory w)) w)"
| "perform Dream w =
     map_option (\<lambda>r. set_bus (snd r) (w\<lparr> w_dream := fst r \<rparr>))
       (dream_round (machine_memory w) (w_dream w, the_bus w))"
| "perform (Hotpatch a r) w = Some (set_memory (regen_hotpatch a r (machine_memory w)) w)"
| "perform (Birth e img) w = Some (set_vital (vital_init e img (vital_on_bus w)) (w\<lparr> w_born := True \<rparr>))"
| "perform (Beat e) w = map_option (\<lambda>v. set_vital v w) (vital_eternal_heartbeat e (vital_on_bus w))"
| "perform (Vital e c) w = map_option (\<lambda>v. set_vital v w) (vital_do e c (vital_on_bus w))"

text \<open>
  What the calls rely on, the discipline of their callers. Functions bound to an interrupt by other
  organs use the bus as the organs do. The cells that are freed or purged belong to no live block of
  the hedged heap, and the memory is initialised while the heap has none, with a region that does
  not reach the end of the address space. A persistent image is one that a living organ wrote, the
  heart beats after its birth, and the calls of the vital organ are \<open>vital_proper\<close>.
\<close>

definition held_cells :: "hedged_heap \<Rightarrow> nat set" where
  "held_cells h = (\<Union>i<allocation_count h. alloc_cells (heap_mem h) (allocations h i))"

definition cells_from :: "u64 \<Rightarrow> nat \<Rightarrow> bio_mem \<Rightarrow> nat set" where
  "cells_from a n m = (if a < mem_base m then {} else {cell_index m a..<u32_add (cell_index m a) n})"

definition spares_blocks :: "u64 \<Rightarrow> nat \<Rightarrow> hedged_heap \<Rightarrow> bool" where
  "spares_blocks a n h \<longleftrightarrow> cells_from a n (heap_mem h) \<inter> held_cells h = {}"

definition memory_proper :: "memory_call \<Rightarrow> hedged_heap \<Rightarrow> bool" where
  "memory_proper c h \<longleftrightarrow> (case c of
       Memory_Init base total_bytes \<Rightarrow> allocation_count h = 0
         \<and> base \<noteq> 0 \<and> unat base + 419430400 < 18446744073709551616
     | Free_Cell a \<Rightarrow> spares_blocks a 1 h
     | Consolidate a len \<Rightarrow> spares_blocks a 1 h
     | Purge a len \<Rightarrow> spares_blocks a (cells_for len) h
     | Apoptosis a len \<Rightarrow> spares_blocks a (cells_for len) h
     | _ \<Rightarrow> True)"

definition proper :: "organ_call \<Rightarrow> whole \<Rightarrow> bool" where
  "proper c w \<longleftrightarrow> (case c of
       Interrupt other v \<Rightarrow> (\<forall>f b. blood_flow b (other f b))
     | Memory c \<Rightarrow> memory_proper c (w_heap w)
     | Birth e img \<Rightarrow> (\<forall>d. img = Some d \<longrightarrow> image_ok d)
     | Beat e \<Rightarrow> w_born w
     | Vital e c \<Rightarrow> vital_proper c (w_vital w)
     | _ \<Rightarrow> True)"

lemma proper_simps [simp]:
  "proper (Interrupt other v) w \<longleftrightarrow> (\<forall>f b. blood_flow b (other f b))"
  "proper (Memory mc) w \<longleftrightarrow> memory_proper mc (w_heap w)"
  "proper (Birth e img) w \<longleftrightarrow> (\<forall>d. img = Some d \<longrightarrow> image_ok d)"
  "proper (Beat e) w \<longleftrightarrow> w_born w"
  "proper (Vital e vc) w \<longleftrightarrow> vital_proper vc (w_vital w)"
  by (simp_all add: proper_def)

section \<open>Power on\<close>

text \<open>
  The static initialisers, with the memory organ initialised; \<open>mem\<close>, \<open>screen\<close>, \<open>blank\<close> and \<open>v\<close> are
  the zeroed ring, the screen, the zeroed genome and the zeroed vital organ.
\<close>

definition whole_boot ::
  "(nat \<Rightarrow> globule) \<Rightarrow> (nat \<Rightarrow> u16) \<Rightarrow> oo_dna_signature \<Rightarrow> vital \<Rightarrow> whole" where
  "whole_boot mem screen blank v = \<lparr> w_planes = planes_boot mem, w_kernel = scheduler_boot,
     w_heap = empty_heap, w_words = hedged_boot, w_cord = cord_boot, w_senses = receptors_boot screen,
     w_self = identity_boot blank, w_posture = proprioception_boot, w_dream = dreamer_boot,
     w_vital = v, w_born = False \<rparr>"

text \<open>A run of calls, and the states that runs of proper calls reach from power on.\<close>

primrec run_calls :: "organ_call list \<Rightarrow> whole \<Rightarrow> whole option" where
  "run_calls [] w = Some w"
| "run_calls (c # cs) w = (case perform c w of None \<Rightarrow> None | Some w' \<Rightarrow> run_calls cs w')"

lemma run_calls_append:
  "run_calls (cs @ ds) w = (case run_calls cs w of None \<Rightarrow> None | Some w' \<Rightarrow> run_calls ds w')"
  by (induction cs arbitrary: w) (auto split: option.split)

text \<open>
  The zeroed ring holds no globule of any type of the enumeration, and organ 0 as the target. The
  zeroed vital organ has no learned words.
\<close>

definition zeroed_ring :: "(nat \<Rightarrow> globule) \<Rightarrow> bool" where
  "zeroed_ring mem \<longleftrightarrow> (\<forall>i. gtype (mem i) \<noteq> GLOBULE_RED \<and> target_organ (mem i) = 0)"

definition zeroed_vital :: "vital \<Rightarrow> bool" where
  "zeroed_vital v \<longleftrightarrow> unborn_ok v \<and> dictionary (v_forth v) = []"

inductive whole_reachable :: "(nat \<Rightarrow> globule) \<Rightarrow> whole \<Rightarrow> bool" for mem where
  power_on: "zeroed_ring mem \<Longrightarrow> zeroed_vital v \<Longrightarrow> whole_reachable mem (whole_boot mem screen blank v)"
| call: "whole_reachable mem w \<Longrightarrow> proper c w \<Longrightarrow> perform c w = Some w' \<Longrightarrow> whole_reachable mem w'"

section \<open>The bus under all calls\<close>

lemma planes_flow: "blood_flow (o_bus s) (o_bus (planes_do c s))"
  by (cases c) (auto simp: Let_def homeostasis_mode_init_def telemetry_bus intro: oo_flow)

lemma memory_flow: "blood_flow b (snd (memory_do c h b))"
  by (cases c) (auto simp: Let_def intro: oo_flow)

lemma perform_flows:
  assumes "perform c w = Some w'" "proper c w"
  shows "blood_flow (the_bus w) (the_bus w')"
proof (cases c)
  case (Planes pc)
  with assms(1) show ?thesis using planes_flow [of "w_planes w" pc] by auto
next
  case (Memory mc)
  with assms(1) show ?thesis using memory_flow [of "the_bus w" mc "w_heap w"] by (auto simp: Let_def)
next
  case (Interrupt other v)
  with assms show ?thesis
    using reflex_flows [of other "the_bus w" v "w_cord w"] by (auto simp: Let_def)
next
  case (Beat e)
  with assms show ?thesis
    using beat_flows [of e "vital_on_bus w"] by (auto simp: set_vital_def)
next
  case (Birth e img)
  with assms show ?thesis
    using birth_flows [of "vital_on_bus w" e img] by (auto simp: set_vital_def)
next
  case (Vital e vc)
  with assms show ?thesis
    using publishes_flows [OF call_bus, of e vc "vital_on_bus w"] by (auto simp: set_vital_def)
qed (use assms in \<open>auto simp: Let_def intro: oo_flow flow_one_pull\<close>)

end
