(* ===== verification/Organism_Life.thy ===== *)
theory Organism_Life
  imports Whole_Organism
begin

text \<open>
  Lives of the whole organism. The invariants of the components hold side by side in every state
  that calls in any order reach; the bus carries only the traffic of the organs, so the lesson of
  the heart is never given and the immune organ is never addressed; and an example of calls after
  which the kernel does not return.
\<close>

section \<open>The components under all calls\<close>

lemma evaluate_registry: "o_registry (snd (homeostasis_mode_evaluate s)) = ready (o_registry s)"
  by (simp only: evaluate_eq snd_conv) simp

lemma registry_reads:
  "snd (organ_state_aggregate_health r) = ready r" "snd (organ_state_worst_nonvital_health r) = ready r"
  "snd (organ_state_vital_chain_alive r) = ready r"
  by (simp_all add: organ_state_aggregate_health_def organ_state_worst_nonvital_health_def
      organ_state_vital_chain_alive_def Let_def case_prod_beta)

lemma telemetry_registry: "o_registry (snd (oo_telemetry_fill s)) = ready (o_registry s)"
  by (simp add: oo_telemetry_fill_def Let_def case_prod_beta registry_reads)

lemma registry_planes:
  assumes "registry_ok (o_registry s)"
  shows "registry_ok (o_registry (planes_do c s))"
proof (cases c)
  case (Report organ h mode)
  with registry_ok_publish [OF assms, of organ h mode "o_bus s"] show ?thesis by (simp add: Let_def)
next
  case (Tick buf)
  with registry_ok_ready [OF assms] control_tick_eq(5) [of buf s] show ?thesis by simp
qed (use assms registry_ok_ready [OF assms] in
    \<open>simp_all add: homeostasis_mode_init_def registry_ok_init evaluate_registry registry_reads telemetry_registry\<close>)

lemma registry_perform:
  "perform c w = Some w' \<Longrightarrow> registry_ok (o_registry (w_planes w)) \<Longrightarrow> registry_ok (o_registry (w_planes w'))"
  by (cases c) (auto simp: Let_def set_vital_def registry_planes)

text \<open>A change of the memory that keeps the region and the cells of the live blocks.\<close>

lemma heap_ok_memory:
  assumes "heap_ok h" "mem_base m = mem_base (heap_mem h)" "held_cells h \<subseteq> used_cells m"
  shows "heap_ok (h\<lparr> heap_mem := m \<rparr>)"
proof -
  note v = alloc_views [OF assms(2)]
  have "alloc_ok m (allocations h i)" if "i < allocation_count h" for i
  proof -
    have o: "alloc_ok (heap_mem h) (allocations h i)" using assms(1) that by (simp add: heap_ok_def)
    have "alloc_cells (heap_mem h) (allocations h i) \<subseteq> held_cells h" using that by (auto simp: held_cells_def)
    with assms(3) show ?thesis by (intro alloc_ok_mono [OF o assms(2)]) (rule subset_trans)
  qed
  with assms(1) show ?thesis by (simp add: heap_ok_def v)
qed

lemma held_used: "heap_ok h \<Longrightarrow> held_cells h \<subseteq> used_cells (heap_mem h)"
  by (auto simp: held_cells_def heap_ok_def alloc_ok_def)

lemma heap_ok_phys [simp]: "heap_ok (h\<lparr> heap_mem := (heap_mem h)\<lparr> phys := p \<rparr> \<rparr>) = heap_ok h"
proof -
  have "heap_ok k \<Longrightarrow> heap_ok (k\<lparr> heap_mem := (heap_mem k)\<lparr> phys := q \<rparr> \<rparr>)" for k q
    using held_used [of k] by (intro heap_ok_memory) (simp_all add: used_cells_def)
  from this [of h p] this [of "h\<lparr> heap_mem := (heap_mem h)\<lparr> phys := p \<rparr> \<rparr>" "phys (heap_mem h)"]
  show ?thesis by auto
qed

lemma heap_ok_cell:
  assumes "heap_ok h"
  shows "heap_ok (h\<lparr> heap_mem := fst (snd (bio_allocate_cell junk (heap_mem h, bus))) \<rparr>)"
proof -
  obtain p m bus' where e: "bio_allocate_cell junk (heap_mem h, bus) = (p, m, bus')" by (metis prod_cases3)
  from assms have "region_ok (heap_mem h)" by (simp add: heap_ok_def)
  note c = allocate_cell_eq [OF this e]
  from c(1,3) have "heap_ok (h\<lparr> heap_mem := m \<rparr>)"
    using held_used [OF assms] by (intro heap_ok_memory [OF assms]) (auto split: if_splits)
  then show ?thesis by (simp add: e)
qed

lemma heap_ok_tissue:
  assumes "heap_ok h"
  shows "heap_ok (h\<lparr> heap_mem := snd (bio_allocate_neural_tissue len (heap_mem h)) \<rparr>)"
proof -
  obtain p m where e: "bio_allocate_neural_tissue len (heap_mem h) = (p, m)" by (metis prod.exhaust)
  from assms have "region_ok (heap_mem h)" by (simp add: heap_ok_def)
  note c = neural_tissue_eq [OF this e]
  from c(1,2) have "heap_ok (h\<lparr> heap_mem := m \<rparr>)"
    using held_used [OF assms] by (intro heap_ok_memory [OF assms]) (auto split: if_splits)
  then show ?thesis by (simp add: e)
qed

lemma heap_ok_read: "heap_ok h \<Longrightarrow> heap_ok (snd (hedged_read ptr len h))"
  by (auto simp: hedged_read_def Let_def case_prod_beta heap_ok_def split: option.split)

lemma heap_ok_fill: "heap_ok h \<Longrightarrow> heap_ok (snd (hedged_replicate_data ptr data h))"
  by (auto simp: hedged_replicate_data_def Let_def split: option.split)

lemma heap_ok_same [simp]: "h\<lparr> heap_mem := heap_mem h \<rparr> = (h :: hedged_heap)"
  by simp

lemma map_cell_memory: "fst (snd (bio_map_cell va pa flags (m, bus))) = m"
  by (simp add: bio_map_cell_def)

text \<open>Freeing and purging outside the live blocks.\<close>

lemma free_used: "used_cells (bio_free_cell a m) = used_cells m - cells_from a 1 m"
proof (cases "a < mem_base m")
  case False
  have r: "cells_from a 1 m \<subseteq> {cell_index m a}"
    using False by (auto simp: cells_from_def u32_add_def)
  show ?thesis
  proof (cases "cell_index m a < 102400")
    case True
    then have "cells_from a 1 m = {cell_index m a}" using False by (auto simp: cells_from_def u32_add_def)
    with False True show ?thesis by (auto simp: bio_free_cell_def used_cells_def BITMAP_MAX_CELLS_def Let_def)
  next
    case big: False
    with r have "used_cells m - cells_from a 1 m = used_cells m" by (auto simp: used_cells_def)
    with False big show ?thesis by (simp add: bio_free_cell_def BITMAP_MAX_CELLS_def Let_def)
  qed
next
  case True
  then have "\<not> mem_base m \<le> a" by (simp add: not_le)
  with True show ?thesis by (simp add: bio_free_cell_def cells_from_def)
qed

lemma free_base: "mem_base (bio_free_cell a m) = mem_base m"
  by (simp add: bio_free_cell_def Let_def)

lemma purge_used_cells:
  "used_cells (bio_purge_infected_tissue a len m) = used_cells m - cells_from a (cells_for len) m"
  "mem_base (bio_purge_infected_tissue a len m) = mem_base m"
  by (simp_all add: bio_purge_infected_tissue_def cells_from_def purge_used Let_def)

lemma heap_ok_spared:
  assumes "heap_ok h" "spares_blocks a n h" "used_cells m = used_cells (heap_mem h) - cells_from a n (heap_mem h)"
    and "mem_base m = mem_base (heap_mem h)"
  shows "heap_ok (h\<lparr> heap_mem := m \<rparr>)"
  using assms(2,3) held_used [OF assms(1)]
  by (intro heap_ok_memory [OF assms(1,4)]) (auto simp: spares_blocks_def)

lemma heap_ok_initialised:
  "heap_ok h \<Longrightarrow> allocation_count h = 0 \<Longrightarrow> base \<noteq> 0 \<Longrightarrow> unat base + 419430400 < 18446744073709551616 \<Longrightarrow>
     heap_ok (on_memory (bio_mem_init base total_bytes) h)"
  by (simp add: heap_ok_def region_ok_def bio_mem_init_def)

lemma heap_memory:
  assumes "heap_ok h" "memory_proper c h"
  shows "heap_ok (fst (memory_do c h b))"
proof (cases c)
  case (Free_Cell a)
  with assms show ?thesis
    by (simp add: memory_proper_def heap_ok_spared [OF assms(1) _ free_used free_base])
next
  case (Consolidate a len)
  with assms show ?thesis
    by (simp add: memory_proper_def bio_consolidate_memory_def heap_ok_spared [OF assms(1) _ free_used free_base])
next
  case (Purge a len)
  with assms show ?thesis
    by (simp add: memory_proper_def heap_ok_spared [OF assms(1) _ purge_used_cells])
next
  case (Apoptosis a len)
  with assms show ?thesis
    by (simp add: memory_proper_def bio_apoptosis_def heap_ok_spared [OF assms(1) _ purge_used_cells])
next
  case (Memory_Init base total_bytes)
  with assms show ?thesis by (simp add: memory_proper_def heap_ok_initialised)
qed (use assms in \<open>simp_all add: Let_def map_cell_memory heap_ok_cell heap_ok_tissue heap_ok_read heap_ok_fill
       hedged_heap_invariant\<close>)

lemma heap_perform:
  "perform c w = Some w' \<Longrightarrow> proper c w \<Longrightarrow> heap_ok (w_heap w) \<Longrightarrow> heap_ok (w_heap w')"
  by (cases c) (auto simp: Let_def set_vital_def heap_memory)

text \<open>The replicated words have at most eight replicas.\<close>

definition words_ok :: "hedged_store \<Rightarrow> bool" where
  "words_ok h \<longleftrightarrow> g_replica_count h \<le> HEDGED_MAX_REPLICAS"

lemma words_perform: "perform c w = Some w' \<Longrightarrow> words_ok (w_words w) \<Longrightarrow> words_ok (w_words w')"
  by (cases c) (auto simp: Let_def set_vital_def words_ok_def bio_hedged_configure_def
      bio_hedged_replicate_word_def not_less)

text \<open>The thymus copies 32 bytes, so what it stores is a signature.\<close>

lemma identity_ok_trust_any: "identity_ok s \<Longrightarrow> identity_ok (identity_trust_dna d s)"
  by (auto simp: identity_ok_def trusted_def identity_trust_dna_def MAX_TRUSTED_DNA_def dna_ok_def
      list_all_iff)

lemma identity_ok_evolution:
  "identity_ok s \<Longrightarrow> identity_ok (fst (snd (evolution_apply_mutation junk addr weights (s, bus))))"
  by (auto simp: evolution_apply_mutation_def identity_is_self_def Let_def identity_ok_trust_any
      split: option.split list.split)

lemma identity_perform: "perform c w = Some w' \<Longrightarrow> identity_ok (w_self w) \<Longrightarrow> identity_ok (w_self w')"
  by (cases c) (auto simp: Let_def set_vital_def identity_ok_trust_any identity_ok_evolution
      identity_is_self_def swarm_on_pheromone_received_def)

section \<open>The heart on the common bus\<close>

definition layered_words :: "vital \<Rightarrow> bool" where
  "layered_words v \<longleftrightarrow> (\<exists>rank. layered rank (dictionary (v_forth v)))"

definition heart_ok :: "whole \<Rightarrow> bool" where
  "heart_ok w \<longleftrightarrow> hardy (w_born w) (w_vital w) \<and> layered_words (w_vital w)"

lemma hardy_on_bus: "bus_safe (the_bus w) \<Longrightarrow> hardy n (w_vital w) \<Longrightarrow> hardy n (vital_on_bus w)"
  by (simp add: hardy_def unborn_ok_def vital_on_bus_def)

lemma proper_on_bus: "vital_proper c (vital_on_bus w) = vital_proper c (w_vital w)"
  by (simp add: vital_proper_def split: vital_call.split)

text \<open>A lesson is data of organ 0, and no organ publishes that.\<close>

lemma lesson_untaught:
  assumes "layer_lesson e u = Some v" "ring_traffic (v_bus u)"
  shows "v_forth v = v_forth u"
proof -
  have "\<not> (source_organ g = 0 \<and> gtype g = GLOBULE_RED)"
    if "united_bus_absorb 15 1 (v_bus u) = Some (g # gs, b)" for g gs b
    using pulled_traffic(1) [OF assms(2) that, of g] by (auto simp: organ_traffic_def)
  with assms(1) show ?thesis
    by (auto simp: layer_lesson_def Let_def split: if_splits option.splits list.splits prod.splits)
qed

lemma beat_untaught:
  assumes "vital_eternal_heartbeat e v = Some v'" "ring_traffic (v_bus v)"
  shows "dictionary (v_forth v') = dictionary (v_forth v)"
proof -
  from assms(1) obtain u where u: "beat_body e v = Some u" "layer_lesson e u = Some v'"
    by (auto simp: heartbeat_body split: option.splits)
  from lesson_untaught [OF u(2) flow_traffic [OF publishes_flows [OF body_bus(1) [OF u(1)]] assms(2)]]
    body_bus(2) [OF u(1)] show ?thesis by simp
qed

lemma heart_perform:
  assumes "perform c w = Some w'" "proper c w" "heart_ok w" "ring_traffic (the_bus w)" "bus_safe (the_bus w)"
  shows "heart_ok w'"
proof -
  have h: "hardy (w_born w) (vital_on_bus w)" using assms(3,5) by (simp add: heart_ok_def hardy_on_bus)
  show ?thesis
  proof (cases c)
    case (Birth e img)
    then have "w_born w'" "w_vital w' = vital_init e img (vital_on_bus w)"
      using assms(1) by (auto simp: set_vital_def)
    with hardy_birth [OF h] birth_bus(2) [of e img "vital_on_bus w"] assms(2,3) Birth
    show ?thesis by (simp add: heart_ok_def layered_words_def)
  next
    case (Beat e)
    then obtain v where v: "vital_eternal_heartbeat e (vital_on_bus w) = Some v" "w_vital w' = v" "w_born w'" "w_born w"
      using assms(1,2) by (auto simp: set_vital_def)
    from hardy_beat [OF v(1)] h beat_untaught [OF v(1)] v(2-4) assms(3,4) show ?thesis
      by (simp add: heart_ok_def layered_words_def)
  next
    case (Vital e vc)
    then obtain v where v: "vital_do e vc (vital_on_bus w) = Some v" "w_vital w' = v" "w_born w' = w_born w"
      using assms(1) by (auto simp: set_vital_def)
    have p: "vital_proper vc (vital_on_bus w)" using assms(2) Vital by (simp add: proper_on_bus)
    obtain rank where "layered rank (dictionary (v_forth (vital_on_bus w)))"
      using assms(3) by (auto simp: heart_ok_def layered_words_def)
    from call_hardy [OF v(1) p h] call_dictionary [OF v(1) p this] v(2,3) show ?thesis
      by (simp add: heart_ok_def layered_words_def)
  qed (use assms in \<open>auto simp: heart_ok_def Let_def set_memory_def\<close>)
qed

section \<open>All invariants at once\<close>

definition whole_ok :: "(nat \<Rightarrow> globule) \<Rightarrow> whole \<Rightarrow> bool" where
  "whole_ok mem w \<longleftrightarrow> bus_reachable mem (the_bus w) \<and> ring_traffic (the_bus w)
     \<and> registry_ok (o_registry (w_planes w)) \<and> heap_ok (w_heap w) \<and> words_ok (w_words w)
     \<and> identity_ok (w_self w) \<and> heart_ok w"

lemma whole_ok_boot: "zeroed_ring mem \<Longrightarrow> zeroed_vital v \<Longrightarrow> whole_ok mem (whole_boot mem screen blank v)"
  using registry_ok_boot
  by (simp add: whole_ok_def whole_boot_def planes_boot_def Let_def reach_boot [unfolded bus_boot_def] heap_ok_empty heart_ok_def
      hardy_def layered_words_def layered_def words_ok_def hedged_boot_def zeroed_vital_def zeroed_ring_def ring_traffic_def organ_traffic_def bus_boot_def identity_ok_def
      identity_boot_def trusted_def)

lemma whole_ok_perform:
  assumes "whole_ok mem w" "proper c w" "perform c w = Some w'"
  shows "whole_ok mem w'"
proof -
  from assms(1) have ok: "bus_reachable mem (the_bus w)" "ring_traffic (the_bus w)"
    "registry_ok (o_registry (w_planes w))" "heap_ok (w_heap w)" "words_ok (w_words w)"
    "identity_ok (w_self w)" "heart_ok w"
    by (simp_all add: whole_ok_def)
  note f = perform_flows [OF assms(3,2)]
  show ?thesis
    unfolding whole_ok_def
    using flow_reachable [OF f ok(1)] flow_traffic [OF f ok(2)] registry_perform [OF assms(3) ok(3)]
      heap_perform [OF assms(3,2) ok(4)] words_perform [OF assms(3) ok(5)] identity_perform [OF assms(3) ok(6)]
      heart_perform [OF assms(3,2) ok(7,2) reachable_safe [OF ok(1)]] by blast
qed

lemma reachable_ok: "whole_reachable mem w \<Longrightarrow> whole_ok mem w"
  by (induction rule: whole_reachable.induct) (auto intro: whole_ok_boot whole_ok_perform)

end
