(* ===== verification/Organism_Facts.thy ===== *)
theory Organism_Facts
  imports Organism_Life
begin

text \<open>
  What the composition of the organs guarantees, and what it does not: all invariants at once, who
  reads the alerts, when the heart returns from a beat, and a keyboard that stops the kernel.
\<close>

section \<open>A keyboard that stops the kernel\<close>

lemma put_open:
  assumes "next_systole b \<noteq> heart_diastole b" "\<not> blocked_by_barrier g"
  shows "bus_put g b = b\<lparr> total_pumps := total_pumps b + 1,
     current_capacity := dilate (gtype g) (current_capacity b), next_globule_id := next_globule_id b + 1,
     blood_stream := (blood_stream b)(heart_systole b := g\<lparr> globule_id := next_globule_id b \<rparr>),
     heart_systole := next_systole b \<rparr>"
  using assms by (simp add: united_bus_pump_def Let_def next_systole_def)

text \<open>
  The bus after one key, one alert and \<open>k\<close> more keys: the capacity has come down by \<open>k\<close> from the
  volume, and everything on the ring is for organ 0 or organ 1.
\<close>

definition typed :: "nat \<Rightarrow> united_bus \<Rightarrow> bool" where
  "typed k b \<longleftrightarrow> current_capacity b = 2048 - k \<and> heart_systole b = k + 2 \<and> heart_diastole b = 0
     \<and> organ_read_heads b 3 \<le> k + 2 \<and> organ_read_heads b 7 = 0
     \<and> (\<forall>i<k + 2. target_organ (blood_stream b i) \<in> {0, 1})"

lemma typed_start:
  "typed 0 (bus_put (identity_alert junk sig) (bus_put (sensory_globule addr 32) (bus_boot mem)))"
proof -
  have b1: "bus_put (sensory_globule addr 32) (bus_boot mem) = (bus_boot mem)\<lparr> total_pumps := 1,
     next_globule_id := 2, blood_stream := mem (0 := (sensory_globule addr 32)\<lparr> globule_id := 1 \<rparr>),
     heart_systole := 1 \<rparr>" (is "_ = ?b")
    by (subst put_open) (simp_all add: bus_boot_def next_systole_def blocked_by_barrier_def
        sensory_globule_def dilate_def BASE_CAPACITY_def)
  show ?thesis
    unfolding b1
    by (subst put_open) (simp_all add: bus_boot_def next_systole_def blocked_by_barrier_def typed_def
        sensory_globule_def identity_alert_def dilate_def BASE_CAPACITY_def BLOOD_VOLUME_def ORGAN_CORTEX_def
        less_2_cases_iff)
qed

lemma typed_key:
  assumes "typed k b" "k \<le> 1022"
  shows "typed (Suc k) (bus_put (sensory_globule addr 32) b)"
proof -
  have b: "current_capacity b = 2048 - k" "heart_systole b = k + 2" "heart_diastole b = 0"
    using assms(1) by (simp_all add: typed_def)
  have n: "next_systole b = k + 3" using b assms(2) by (simp add: next_systole_def)
  have p: "bus_put (sensory_globule addr 32) b = b\<lparr> total_pumps := total_pumps b + 1,
     current_capacity := 2048 - Suc k, next_globule_id := next_globule_id b + 1,
     blood_stream := (blood_stream b)(k + 2 := (sensory_globule addr 32)\<lparr> globule_id := next_globule_id b \<rparr>),
     heart_systole := k + 3 \<rparr>"
    using b assms(2)
    by (subst put_open) (simp_all add: n blocked_by_barrier_def sensory_globule_def dilate_def)
  show ?thesis
    using assms unfolding p
    by (auto simp: typed_def sensory_globule_def ORGAN_CORTEX_def less_Suc_eq)
qed

lemma typed_pull:
  assumes "typed k b" "k \<le> 1022"
  shows "\<exists>b'. united_bus_absorb 3 4 b = Some ([], b') \<and> typed k b'"
proof -
  have b: "current_capacity b = 2048 - k" "heart_systole b = k + 2" "organ_read_heads b 3 \<le> k + 2"
    "\<forall>i<k + 2. target_organ (blood_stream b i) \<in> {0, 1}"
    using assms(1) by (simp_all add: typed_def)
  have "absorb_loop b 3 4 (organ_read_heads b 3) [] = absorb_loop b 3 4 (k + 2) []"
    using b assms(2) by (intro absorb_loop_skip) (auto simp: addressed_to_def)
  also have "\<dots> = Some (k + 2, [])" using b by (subst absorb_loop.simps) simp
  finally have "united_bus_absorb 3 4 b
      = Some ([], b\<lparr> organ_read_heads := (organ_read_heads b)(3 := k + 2) \<rparr>)"
    by (simp add: united_bus_absorb_def MAX_ORGANS_def)
  moreover have "typed k (b\<lparr> organ_read_heads := (organ_read_heads b)(3 := k + 2) \<rparr>)"
    using assms(1) by (simp add: typed_def)
  ultimately show ?thesis by blast
qed

lemma typed_stuck:
  assumes "typed 1023 b" "organ = 3 \<and> organ_read_heads b 3 < 1025 \<or> organ = 7" "0 < m"
  shows "united_bus_absorb organ m b = None"
proof -
  have b: "current_capacity b = 1025" "heart_systole b = 1025" "organ_read_heads b 7 = 0"
    "\<forall>i<1025. target_organ (blood_stream b i) \<in> {0, 1}"
    using assms(1) by (simp_all add: typed_def)
  have "absorb_loop b organ m (organ_read_heads b (unat organ)) [] = None"
    using b assms(2,3) by (intro absorb_loop_stuck) (auto simp: addressed_to_def)
  then show ?thesis using assms(2) by (auto simp: united_bus_absorb_def MAX_ORGANS_def)
qed

text \<open>One key and one heartbeat of the kernel, which keeps up with the bus.\<close>

definition at_rest :: "nat \<Rightarrow> whole \<Rightarrow> bool" where
  "at_rest k w \<longleftrightarrow> typed k (the_bus w) \<and> task_chain (w_kernel w) []"

lemma key_and_beat:
  assumes "at_rest k w" "k \<le> 1021"
  shows "\<exists>w'. run_calls [Keystroke addr c, Kernel_Beat] w = Some w' \<and> at_rest (Suc k) w'"
proof -
  define w1 where "w1 = the (perform (Keystroke addr c) w)"
  have w1: "perform (Keystroke addr c) w = Some w1" by (simp add: w1_def Let_def)
  have k1: "w_kernel w1 = w_kernel w" "typed (Suc k) (the_bus w1)"
    using assms typed_key [of k "the_bus w" addr]
    by (simp_all add: w1_def Let_def sense_transduce_keystroke_def at_rest_def)
  from typed_pull [OF k1(2)] assms(2) obtain b' where
    b': "united_bus_absorb 3 4 (the_bus w1) = Some ([], b')" "typed (Suc k) b'" by auto
  have "task_chain (w_kernel w1) []" using assms(1) k1 by (simp add: at_rest_def)
  from heartbeat_chain [OF this b'(1)] obtain s' where
    s': "task_chain s' []" "oo_scheduler_heartbeat (w_kernel w1, the_bus w1) = Some ([], s', b')" by auto
  then show ?thesis using w1 b'(2) by (auto simp: at_rest_def)
qed

primrec typist :: "u64 \<Rightarrow> u8 \<Rightarrow> nat \<Rightarrow> organ_call list" where
  "typist addr c 0 = []"
| "typist addr c (Suc n) = typist addr c n @ [Keystroke addr c, Kernel_Beat]"

lemma typist_runs:
  "at_rest 0 w \<Longrightarrow> n \<le> 1022 \<Longrightarrow> \<exists>w'. run_calls (typist addr c n) w = Some w' \<and> at_rest n w'"
proof (induction n)
  case (Suc n)
  then obtain w1 where w1: "run_calls (typist addr c n) w = Some w1" "at_rest n w1" by auto
  with key_and_beat [OF w1(2), of addr c] Suc.prems show ?case by (simp add: run_calls_append)
qed simp

lemma alarmed_at_rest:
  "\<exists>w. run_calls [Keystroke addr c, Ask_Self junk sig d] (whole_boot mem screen blank v) = Some w \<and> at_rest 0 w"
  using typed_start [of junk sig addr mem] task_chain_boot
  by (simp add: at_rest_def whole_boot_def planes_boot_def identity_boot_def Let_def
      sense_transduce_keystroke_def identity_is_self_def set_bus_def)

lemma last_key:
  assumes "at_rest 1022 w"
  shows "\<exists>w'. run_calls [Keystroke addr c] w = Some w' \<and> typed 1023 (the_bus w')
     \<and> organ_read_heads (the_bus w') 3 < 1025"
proof -
  have t: "typed 1022 (the_bus w)" using assms by (simp add: at_rest_def)
  have "organ_read_heads (bus_put (sensory_globule addr 32) (the_bus w)) 3 = organ_read_heads (the_bus w) 3"
    using t by (subst put_open) (simp_all add: typed_def next_systole_def sensory_globule_def blocked_by_barrier_def)
  with t typed_key [OF t, of addr] show ?thesis
    by (simp add: Let_def sense_transduce_keystroke_def typed_def)
qed

section \<open>Properties\<close>

text \<open>
  C1: the organs keep each other's invariants. In every state that a sequence of the calls of
  \<open>organ_call\<close> reaches from power on, in any order and each made within the discipline \<open>proper\<close>: the
  bus is within its array, the registry holds healths up to 100, the live blocks of the heap own
  disjoint used cells, words have at most eight replicas, the thymus holds at most 64 signatures, the
  reflexes are layered and within their dictionary and stack, a born heart is viable with tension,
  endorphins and synapses in their ranges, and every globule an organ can pull carries the traffic of
  the organs: data comes from the receptors only. The discipline asks that nobody frees the cells of
  a live block or initialises the memory under one, that images were written by a living organ, that
  a learned word does not use itself, that the heart beats after its birth, and that foreign
  interrupt handlers use the bus as the organs do.
\<close>

theorem organism_invariant:
  assumes "whole_reachable mem w"
  shows "current_capacity (the_bus w) \<le> 2048 \<and> heart_systole (the_bus w) < 2048
    \<and> registry_ok (o_registry (w_planes w)) \<and> heap_ok (w_heap w) \<and> g_replica_count (w_words w) \<le> 8
    \<and> trusted_count (w_self w) \<le> 64
    \<and> (\<exists>rank. layered rank (dictionary (v_forth (w_vital w)))) \<and> length (dictionary (v_forth (w_vital w))) \<le> 128
    \<and> length (forth_stack (v_forth (w_vital w))) \<le> 32
    \<and> (w_born w \<longrightarrow> homeostasis_is_viable (v_board (w_vital w)) \<and> tension (v_spark (w_vital w)) \<le> 255
         \<and> endorphin_level (v_noci (w_vital w)) \<le> 255 \<and> synapses_ok (v_syn (w_vital w)))
    \<and> (\<forall>organ m gs b. united_bus_absorb organ m (the_bus w) = Some (gs, b) \<longrightarrow> (\<forall>g\<in>set gs.
         target_organ g \<in> {0, 1, 3, 10, 0xFF} \<and> (gtype g = GLOBULE_RED \<longrightarrow> source_organ g = ORGAN_SENSORY)))"
proof -
  from reachable_ok [OF assms] have ok: "bus_reachable mem (the_bus w)" "ring_traffic (the_bus w)"
    "registry_ok (o_registry (w_planes w))" "heap_ok (w_heap w)" "words_ok (w_words w)" "identity_ok (w_self w)"
    "heart_ok w"
    by (simp_all add: whole_ok_def)
  have safe: "bus_safe (the_bus w)" by (rule reachable_safe [OF ok(1)])
  have vital: "forth_ok (v_forth (w_vital w))" "layered_words (w_vital w)"
    "w_born w \<longrightarrow> homeostasis_is_viable (v_board (w_vital w)) \<and> tension (v_spark (w_vital w)) \<le> 255
       \<and> endorphin_level (v_noci (w_vital w)) \<le> 255 \<and> synapses_ok (v_syn (w_vital w))"
    using ok(7) hardy_viable [of "w_vital w"] by (auto simp: heart_ok_def hardy_def unborn_ok_def)
  have pulled: "organ_traffic g" if "united_bus_absorb organ m (the_bus w) = Some (gs, b)" "g \<in> set gs" for organ m gs b g
    by (rule pulled_traffic(1) [OF ok(2) that])
  have traffic: "\<forall>organ m gs b. united_bus_absorb organ m (the_bus w) = Some (gs, b) \<longrightarrow> (\<forall>g\<in>set gs.
       target_organ g \<in> {0, 1, 3, 10, 0xFF} \<and> (gtype g = GLOBULE_RED \<longrightarrow> source_organ g = ORGAN_SENSORY))"
    using pulled by (auto simp: organ_traffic_def ORGAN_SENSORY_def)
  show ?thesis
    using safe ok(3-6) vital traffic
    by (simp add: bus_safe_def identity_ok_def words_ok_def HEDGED_MAX_REPLICAS_def forth_ok_def layered_words_def)
qed

text \<open>Zeroed memory.\<close>

definition quiet_boot :: whole where
  "quiet_boot = whole_boot (\<lambda>_. (stray GLOBULE_PURPLE)\<lparr> target_organ := 0 \<rparr>) (\<lambda>_. 0)
     \<lparr> dna_hash = replicate 32 0 \<rparr> unborn"

lemma quiet_reachable: "whole_reachable (\<lambda>_. (stray GLOBULE_PURPLE)\<lparr> target_organ := 0 \<rparr>) quiet_boot"
  unfolding quiet_boot_def
proof (rule power_on)
  show "zeroed_ring (\<lambda>_. (stray GLOBULE_PURPLE)\<lparr> target_organ := 0 \<rparr>)"
    by (simp add: zeroed_ring_def stray_def)
  show "zeroed_vital unborn"
    using unborn_ok by (simp add: zeroed_vital_def unborn_def)
qed

definition newborn_whole :: whole where
  "newborn_whole = the (perform (Birth quiet None) quiet_boot)"

lemma newborn_reachable: "whole_reachable (\<lambda>_. (stray GLOBULE_PURPLE)\<lparr> target_organ := 0 \<rparr>) newborn_whole"
  by (rule whole_reachable.call [OF quiet_reachable, of "Birth quiet None"]) (simp_all add: newborn_whole_def)

lemma newborn_whole_simps: "w_born newborn_whole" "w_vital newborn_whole = newborn quiet (vital_on_bus quiet_boot)"
  by (simp_all add: newborn_whole_def set_vital_def init_newborn vital_persistence_load_def)

lemma organism_invariant_witness: "homeostasis_is_viable (v_board (w_vital newborn_whole))"
  using organism_invariant [OF newborn_reachable] newborn_whole_simps(1) by blast

text \<open>
  C4: the immune organ is deaf to the thymus. Whatever happened before, organ 2, the immune organ in
  the numbering of the bus, pulls broadcasts only; the alert about a foreign signature is addressed
  to organ 1 and is never among them.
\<close>

theorem immune_organ_not_alerted:
  assumes "whole_reachable mem w" "united_bus_absorb 2 m (the_bus w) = Some (gs, b)" "g \<in> set gs"
  shows "target_organ g = ORGAN_BROADCAST \<and> g \<noteq> (identity_alert junk addr)\<lparr> globule_id := n \<rparr>"
proof -
  from reachable_ok [OF assms(1)] have "ring_traffic (the_bus w)" by (simp add: whole_ok_def)
  from pulled_traffic [OF this assms(2,3)] have "target_organ g = 0xFF"
    by (auto simp: organ_traffic_def)
  then show ?thesis by (auto simp: ORGAN_BROADCAST_def identity_alert_def)
qed

lemma immune_organ_not_alerted_witness:
  "\<exists>w g b. perform (Clock_In 7) quiet_boot = Some w \<and> united_bus_absorb 2 1024 (the_bus w) = Some ([g], b)
     \<and> target_organ g = ORGAN_BROADCAST"
proof -
  let ?b = "the_bus quiet_boot" and ?g = "broadcast_globule GLOBULE_YELLOW ORGAN_SENSORY 7"
  obtain w where w: "perform (Clock_In 7) quiet_boot = Some w" "the_bus w = bus_put ?g ?b"
    by (simp add: sense_transduce_timer_def united_bus_broadcast_yellow_def)
  have r: "whole_reachable (\<lambda>_. (stray GLOBULE_PURPLE)\<lparr> target_organ := 0 \<rparr>) w"
    by (rule whole_reachable.call [OF quiet_reachable _ w(1)]) (simp add: proper_def)
  have b: "?b = bus_boot (\<lambda>_. (stray GLOBULE_PURPLE)\<lparr> target_organ := 0 \<rparr>)"
    by (simp add: quiet_boot_def whole_boot_def planes_boot_def Let_def)
  have "bus_accepts ?g ?b"
    unfolding b by (rule yellow_broadcast_accepted) (simp add: congested_def next_systole_def bus_boot_def BASE_CAPACITY_def)
  moreover have "steady ?b" unfolding b by (rule steady_boot)
  ultimately have a: "steady (bus_put ?g ?b)" "pending 2 (bus_put ?g ?b) = pending 2 ?b @ [stamp ?b ?g]"
    using pump_accepted_steady(1) [of ?b ?g] pump_accepted_steady(2) [of ?b ?g, where organ = 2] by auto
  have "pending 2 (the_bus w) = [stamp ?b ?g]"
    using a(2) by (simp add: w(2) b pending_def pending_from_def bus_boot_def oo_defs)
  with bus_mail.get_all [OF a(1), of 2] obtain b' where
    "united_bus_absorb 2 1024 (the_bus w) = Some ([stamp ?b ?g], b')"
    by (auto simp: w(2) bus_reader_def oo_defs addressed_to_def stamp_def broadcast_globule_def)
  with immune_organ_not_alerted [OF r this, of "stamp ?b ?g"] w(1) show ?thesis by auto
qed

text \<open>
  C2: the heart of the organism. In every reachable state of a born organism, whatever was called
  before, a beat whose clock becomes stable comes as far as its lesson: all its layers return, the
  pulse is one higher and the reflexes are as before. It fails to return exactly when it is a fiftieth
  beat and the organ's read from the bus that these layers leave does not return, which takes a bus
  on which the systole equals the capacity; and when it returns, also from a fiftieth beat, the
  pulse is one higher and no word was learned.
\<close>

theorem organism_heart:
  assumes "whole_reachable mem w" "w_born w" "s_rtc_status e n AND 0x80 = 0"
  shows "\<exists>u. beat_body e (vital_on_bus w) = Some u
    \<and> pulse_count (v_spark u) = pulse_count (v_spark (w_vital w)) + 1
    \<and> dictionary (v_forth u) = dictionary (v_forth (w_vital w))
    \<and> (perform (Beat e) w = None \<longleftrightarrow>
         (pulse_count (v_spark (w_vital w)) + 1) mod 50 = 0 \<and> united_bus_absorb 15 1 (v_bus u) = None)
    \<and> (united_bus_absorb 15 1 (v_bus u) = None \<longrightarrow> heart_systole (v_bus u) = current_capacity (v_bus u))
    \<and> (\<forall>w'. perform (Beat e) w = Some w' \<longrightarrow>
         pulse_count (v_spark (w_vital w')) = pulse_count (v_spark (w_vital w)) + 1
         \<and> dictionary (v_forth (w_vital w')) = dictionary (v_forth (w_vital w)))"
proof -
  from reachable_ok [OF assms(1)] have ok: "bus_reachable mem (the_bus w)" "ring_traffic (the_bus w)" "heart_ok w"
    by (simp_all add: whole_ok_def)
  have s: "bus_safe (the_bus w)" by (rule reachable_safe [OF ok(1)])
  have h: "hardy True (vital_on_bus w)" using ok(3) assms(2) s by (simp add: heart_ok_def hardy_on_bus)
  obtain rank where "layered rank (dictionary (v_forth (vital_on_bus w)))"
    using ok(3) by (auto simp: heart_ok_def layered_words_def)
  from hardy_returns [OF h assms(3) this] obtain u where u: "beat_body e (vital_on_bus w) = Some u"
    "dictionary (v_forth u) = dictionary (v_forth (w_vital w))"
    "pulse_count (v_spark u) = pulse_count (v_spark (w_vital w)) + 1" by auto
  note f = publishes_flows [OF body_bus(1) [OF u(1)], unfolded vital_on_bus_simps]
  have stuck: "united_bus_absorb 15 1 (v_bus u) = None \<longrightarrow> heart_systole (v_bus u) = current_capacity (v_bus u)"
  proof
    assume none: "united_bus_absorb 15 1 (v_bus u) = None"
    have safe: "bus_safe (v_bus u)" by (rule flow_safe [OF f s])
    from none have "\<not> heart_systole (v_bus u) < current_capacity (v_bus u)"
      using safe absorb_loop_terminates [of "v_bus u" "organ_read_heads (v_bus u) 15" 15 1 "[]"]
      by (auto simp: united_bus_absorb_def bus_safe_def MAX_ORGANS_def)
    with safe show "heart_systole (v_bus u) = current_capacity (v_bus u)" by (simp add: bus_safe_def)
  qed
  have beat: "perform (Beat e) w = map_option (\<lambda>v. set_vital v w) (layer_lesson e u)"
    by (simp add: heartbeat_body u(1))
  have lesson: "layer_lesson e u = None \<longleftrightarrow> (pulse_count (v_spark (w_vital w)) + 1) mod 50 = 0
      \<and> united_bus_absorb 15 1 (v_bus u) = None"
    by (simp add: layer_lesson_def u(3) Let_def split: option.split list.split prod.split)
  have taught: "pulse_count (v_spark v) = pulse_count (v_spark (w_vital w)) + 1
      \<and> dictionary (v_forth v) = dictionary (v_forth (w_vital w))" if l: "layer_lesson e u = Some v" for v
  proof -
    have "v_forth v = v_forth u" by (rule lesson_untaught [OF l flow_traffic [OF f ok(2)]])
    moreover have "v_spark v = v_spark u"
      using l by (auto simp: layer_lesson_def Let_def split: if_splits option.splits list.splits)
    ultimately show ?thesis using u by simp
  qed
  have set: "w_vital (set_vital v w) = v" for v by (simp add: set_vital_def)
  have runs: "\<forall>w'. perform (Beat e) w = Some w' \<longrightarrow>
      pulse_count (v_spark (w_vital w')) = pulse_count (v_spark (w_vital w)) + 1
      \<and> dictionary (v_forth (w_vital w')) = dictionary (v_forth (w_vital w))"
    using taught by (auto simp only: beat map_option_eq_Some set)
  have stops: "perform (Beat e) w = None \<longleftrightarrow>
      (pulse_count (v_spark (w_vital w)) + 1) mod 50 = 0 \<and> united_bus_absorb 15 1 (v_bus u) = None"
    by (simp only: beat option.map_disc_iff lesson)
  show ?thesis by (intro exI [of _ u] conjI u stops stuck runs)
qed

lemma organism_heart_witness:
  "\<exists>w'. perform (Beat quiet) newborn_whole = Some w' \<and> pulse_count (v_spark (w_vital w')) = 1"
proof -
  have "s_rtc_status quiet 0 AND 0x80 = 0" by (simp add: quiet_def)
  note heart = organism_heart [OF newborn_reachable newborn_whole_simps(1) this]
  have "perform (Beat quiet) newborn_whole = None \<longrightarrow> (pulse_count (v_spark (w_vital newborn_whole)) + 1) mod 50 = 0"
    using heart by (elim exE conjE) (rule impI, drule (1) iffD1, erule conjunct1)
  moreover have runs: "\<forall>w'. perform (Beat quiet) newborn_whole = Some w' \<longrightarrow>
       pulse_count (v_spark (w_vital w')) = pulse_count (v_spark (w_vital newborn_whole)) + 1
       \<and> dictionary (v_forth (w_vital w')) = dictionary (v_forth (w_vital newborn_whole))"
    using heart by (elim exE conjE)
  moreover have p: "pulse_count (v_spark (w_vital newborn_whole)) = 0" by (simp add: newborn_whole_simps newborn_core)
  ultimately have "perform (Beat quiet) newborn_whole \<noteq> None" by (simp del: perform.simps)
  then obtain w' where "perform (Beat quiet) newborn_whole = Some w'" by blast
  with runs p show ?thesis by (simp del: perform.simps)
qed

text \<open>
  C3: a keyboard stops the kernel. From power on, after one key, one foreign signature and 1022 more
  keys, with a heartbeat of the kernel after each of them that returns and finds nothing to read,
  one more key brings the organism into a state in which neither the kernel's heartbeat nor the
  dream daemon returns.
\<close>

theorem typing_stops_kernel:
  "\<exists>w. run_calls ([Keystroke addr c, Ask_Self junk sig d] @ typist addr c 1022 @ [Keystroke addr c])
         (whole_boot mem screen blank v) = Some w
     \<and> perform Kernel_Beat w = None \<and> perform Dream w = None"
proof -
  from alarmed_at_rest [of addr c junk sig d mem screen blank v] obtain w0 where
    w0: "run_calls [Keystroke addr c, Ask_Self junk sig d] (whole_boot mem screen blank v) = Some w0" "at_rest 0 w0"
    by blast
  from typist_runs [OF w0(2), of 1022 addr c] obtain w1 where
    w1: "run_calls (typist addr c 1022) w0 = Some w1" "at_rest 1022 w1" by auto
  from last_key [OF w1(2), of addr c] obtain w where
    w: "run_calls [Keystroke addr c] w1 = Some w" "typed 1023 (the_bus w)" "organ_read_heads (the_bus w) 3 < 1025"
    by blast
  have "united_bus_absorb 3 4 (the_bus w) = None" "united_bus_absorb DREAM_ORGAN_ID 10 (the_bus w) = None"
    using typed_stuck [OF w(2), of 3 4] typed_stuck [OF w(2), of 7 10] w(3)
    by (simp_all add: DREAM_ORGAN_ID_def)
  then have "perform Kernel_Beat w = None" "perform Dream w = None"
    by (simp_all add: oo_scheduler_heartbeat_def dream_round_def)
  with w0 w1 w show ?thesis by (subst run_calls_append, simp del: typist.simps)
    (subst run_calls_append, simp del: typist.simps)
qed

end
