(* ===== verification/Bus_Interrupts.thy ===== *)
theory Bus_Interrupts
  imports Bus_Faults
begin

text \<open>
  Interrupts during \<open>united_bus_pump\<close>. The spinal cord pumps signals from interrupt handlers
  (\<open>reflex_trigger\<close>), and nothing in \<open>united_bus.c\<close> keeps an interrupt from arriving in the middle of
  another pump. Here the function is split into its statements, each a step of a small machine with
  a program counter and the local variables. Run without interruption the machine is
  \<open>united_bus_pump\<close>. With a handler between two steps all indices stay inside the array, but a globule
  can get lost: the theorem says at which steps.
\<close>

section \<open>The statements of the pump\<close>

text \<open>
  \<open>At_Heads i\<close>: the loop over the read heads at organ \<open>i\<close>; \<open>At_Return r\<close>: the function has returned \<open>r\<close>.
\<close>

datatype pump_pc = At_Count | At_Next | At_Check | At_Evict | At_Heads nat | At_Drop int | At_Barrier
  | At_Dilate | At_Stamp | At_Write | At_Commit | At_Return int

text \<open>Program counter, the parameter \<open>globule\<close> (a copy of the caller's), \<open>next_systole\<close>, and the bus.\<close>

type_synonym pump_state = "pump_pc \<times> globule \<times> nat \<times> united_bus"

fun pump_micro :: "pump_state \<Rightarrow> pump_state" where
  "pump_micro (At_Count, g, n, b) = (At_Next, g, n, b\<lparr> total_pumps := total_pumps b + 1 \<rparr>)"
| "pump_micro (At_Next, g, n, b) = (At_Check, g, next_systole b, b)"
| "pump_micro (At_Check, g, n, b) =
     (if n = heart_diastole b then (if is_priority (gtype g) then At_Evict else At_Drop (-1)) else At_Barrier,
      g, n, b)"
| "pump_micro (At_Evict, g, n, b) =
     (At_Heads 0, g, n, b\<lparr> heart_diastole := u32_add (heart_diastole b) 1 mod current_capacity b \<rparr>)"
| "pump_micro (At_Heads i, g, n, b) =
     (if i < MAX_ORGANS
      then (At_Heads (Suc i), g, n,
            if organ_read_heads b i = heart_systole b
            then b\<lparr> organ_read_heads := (organ_read_heads b)(i := heart_diastole b) \<rparr> else b)
      else (At_Barrier, g, n, b))"
| "pump_micro (At_Drop r, g, n, b) = (At_Return r, g, n, b\<lparr> drops := drops b + 1 \<rparr>)"
| "pump_micro (At_Barrier, g, n, b) = (if blocked_by_barrier g then At_Drop (-2) else At_Dilate, g, n, b)"
| "pump_micro (At_Dilate, g, n, b) =
     (At_Stamp, g, n, b\<lparr> current_capacity := dilate (gtype g) (current_capacity b) \<rparr>)"
| "pump_micro (At_Stamp, g, n, b) =
     (At_Write, g\<lparr> globule_id := next_globule_id b \<rparr>, n, b\<lparr> next_globule_id := next_globule_id b + 1 \<rparr>)"
| "pump_micro (At_Write, g, n, b) =
     (At_Commit, g, n, b\<lparr> blood_stream := (blood_stream b)(heart_systole b := g) \<rparr>)"
| "pump_micro (At_Commit, g, n, b) = (At_Return 0, g, n, b\<lparr> heart_systole := n \<rparr>)"
| "pump_micro (At_Return r, g, n, b) = (At_Return r, g, n, b)"

definition micro_to :: "pump_state \<Rightarrow> pump_state \<Rightarrow> bool" where
  "micro_to s t \<longleftrightarrow> (\<exists>k. (pump_micro ^^ k) s = t)"

lemma micro_to_refl: "micro_to s s"
  unfolding micro_to_def by (rule exI [of _ 0]) simp

lemma micro_to_step: "micro_to (pump_micro s) t \<Longrightarrow> micro_to s t"
proof -
  assume "micro_to (pump_micro s) t"
  then obtain k where "(pump_micro ^^ k) (pump_micro s) = t" by (auto simp: micro_to_def)
  then have "(pump_micro ^^ Suc k) s = t" by (simp add: funpow_swap1)
  then show ?thesis unfolding micro_to_def by blast
qed

subsection \<open>Without interrupts\<close>

lemma micro_heads:
  assumes "i \<le> MAX_ORGANS"
    and "micro_to (At_Barrier, g, n, b\<lparr> organ_read_heads := (\<lambda>j. if i \<le> j \<and> j < MAX_ORGANS \<and> organ_read_heads b j = heart_systole b
           then heart_diastole b else organ_read_heads b j) \<rparr>) t"
  shows "micro_to (At_Heads i, g, n, b) t"
  using assms
proof (induction i arbitrary: b rule: inc_induct)
  case base
  have "(\<lambda>j. if MAX_ORGANS \<le> j \<and> j < MAX_ORGANS \<and> organ_read_heads b j = heart_systole b
      then heart_diastole b else organ_read_heads b j) = organ_read_heads b" by (auto simp: fun_eq_iff)
  with base show ?case by (intro micro_to_step [of "(At_Heads MAX_ORGANS, g, n, b)"]) simp
next
  case (step i)
  let ?b = "if organ_read_heads b i = heart_systole b
    then b\<lparr> organ_read_heads := (organ_read_heads b)(i := heart_diastole b) \<rparr> else b"
  have e: "(\<lambda>j. if Suc i \<le> j \<and> j < MAX_ORGANS \<and> organ_read_heads ?b j = heart_systole ?b then heart_diastole ?b
      else organ_read_heads ?b j)
    = (\<lambda>j. if i \<le> j \<and> j < MAX_ORGANS \<and> organ_read_heads b j = heart_systole b then heart_diastole b
      else organ_read_heads b j)"
    using step.hyps by (auto simp: fun_eq_iff le_less Suc_le_eq)
  have "?b\<lparr> organ_read_heads := x \<rparr> = b\<lparr> organ_read_heads := x \<rparr>" for x by simp
  with step.prems have "micro_to (At_Heads (Suc i), g, n, ?b) t" by (intro step.IH) (simp only: e)
  then show ?case using step.hyps by (intro micro_to_step [of "(At_Heads i, g, n, b)"]) simp
qed

lemma micro_tail:
  assumes "\<not> blocked_by_barrier g"
  shows "micro_to (At_Barrier, g, n, b) (At_Return 0, g\<lparr> globule_id := next_globule_id b \<rparr>, n,
     b\<lparr> current_capacity := dilate (gtype g) (current_capacity b), next_globule_id := next_globule_id b + 1,
        blood_stream := (blood_stream b)(heart_systole b := g\<lparr> globule_id := next_globule_id b \<rparr>), heart_systole := n \<rparr>)"
  unfolding micro_to_def using assms by (intro exI [of _ 6]) (simp add: eval_nat_numeral)

lemma micro_drop: "micro_to (At_Drop r, g, n, b) (At_Return r, g, n, b\<lparr> drops := drops b + 1 \<rparr>)"
  by (rule micro_to_step) (simp add: micro_to_refl)

text \<open>What the function does from the barrier on, with the bus \<open>c\<close> and the next systole \<open>n\<close>.\<close>

definition pump_end :: "globule \<Rightarrow> nat \<Rightarrow> united_bus \<Rightarrow> int \<times> united_bus" where
  "pump_end g n c =
     (if blocked_by_barrier g then (-2, c\<lparr> drops := drops c + 1 \<rparr>)
      else (0, c\<lparr> current_capacity := dilate (gtype g) (current_capacity c),
                  next_globule_id := next_globule_id c + 1,
                  blood_stream := (blood_stream c)(heart_systole c := g\<lparr> globule_id := next_globule_id c \<rparr>),
                  heart_systole := n \<rparr>))"

lemma pump_by_end:
  fixes b :: united_bus
  defines "c \<equiv> b\<lparr> total_pumps := total_pumps b + 1 \<rparr>"
  shows "united_bus_pump g b =
    (if next_systole b = heart_diastole b \<and> \<not> is_priority (gtype g) then (-1, c\<lparr> drops := drops c + 1 \<rparr>)
     else pump_end g (next_systole b) (if next_systole b = heart_diastole b then evict_oldest c else c))"
proof -
  have "next_systole c = next_systole b" "heart_diastole c = heart_diastole b"
    by (simp_all add: c_def next_systole_def)
  then show ?thesis
    unfolding united_bus_pump_def Let_def pump_end_def c_def [symmetric] by simp
qed

lemma micro_end:
  "\<exists>g'. micro_to (At_Barrier, g, n, c) (At_Return (fst (pump_end g n c)), g', n, snd (pump_end g n c))"
proof (cases "blocked_by_barrier g")
  case True
  have "micro_to (At_Barrier, g, n, c) (At_Return (-2), g, n, c\<lparr> drops := drops c + 1 \<rparr>)"
    by (rule micro_to_step) (simp add: True micro_drop)
  with True show ?thesis by (auto simp: pump_end_def)
next
  case False
  from micro_tail [OF this, of n c] False show ?thesis by (auto simp: pump_end_def)
qed

text \<open>Run to the end the machine is the function.\<close>

theorem micro_pump:
  "\<exists>g' n'. micro_to (At_Count, g, n, b) (At_Return (fst (united_bus_pump g b)), g', n', bus_put g b)"
proof -
  let ?b = "b\<lparr> total_pumps := total_pumps b + 1 \<rparr>" and ?n = "next_systole b"
  have n: "next_systole ?b = ?n" by (simp add: next_systole_def)
  have start: "micro_to (At_Count, g, n, b) t" if "micro_to (At_Check, g, ?n, ?b) t" for t
    by (rule micro_to_step, simp, rule micro_to_step, simp only: pump_micro.simps n) (rule that)
  show ?thesis
  proof (cases "?n = heart_diastole b \<and> \<not> is_priority (gtype g)")
    case True
    then have "micro_to (At_Check, g, ?n, ?b) (At_Return (-1), g, ?n, ?b\<lparr> drops := drops b + 1 \<rparr>)"
      using micro_drop [of "-1" g ?n ?b] by (intro micro_to_step [of "(At_Check, g, ?n, ?b)"]) simp
    from start [OF this] show ?thesis using True by (auto simp: pump_by_end)
  next
    case False
    let ?c = "if ?n = heart_diastole b then evict_oldest ?b else ?b"
    have check: "micro_to (At_Check, g, ?n, ?b) t" if t: "micro_to (At_Barrier, g, ?n, ?c) t" for t
    proof (cases "?n = heart_diastole b")
      case full: True
      with False have p: "is_priority (gtype g)" by simp
      show ?thesis
      proof (rule micro_to_step, simp add: full p, rule micro_to_step, simp, rule micro_heads)
        show "0 \<le> MAX_ORGANS" by simp
      qed (use t full in \<open>simp add: evict_oldest_def Let_def cong: if_cong\<close>)
    qed (use t in \<open>intro micro_to_step [of "(At_Check, g, ?n, ?b)"], simp\<close>)
    obtain g' where "micro_to (At_Barrier, g, ?n, ?c) (At_Return (fst (united_bus_pump g b)), g', ?n, bus_put g b)"
      using micro_end [of g ?n ?c] unfolding pump_by_end if_not_P [OF False] by blast
    from start [OF check [OF this]] show ?thesis by blast
  qed
qed

section \<open>Any interrupts\<close>

text \<open>A pump in progress: its own steps, and complete pumps of interrupt handlers between them.\<close>

inductive interleaved :: "globule \<Rightarrow> united_bus \<Rightarrow> pump_state \<Rightarrow> bool" for g b where
  call: "interleaved g b (At_Count, g, n, b)"
| micro: "interleaved g b s \<Longrightarrow> interleaved g b (pump_micro s)"
| interrupt: "interleaved g b (pc, g', n, c) \<Longrightarrow> interleaved g b (pc, g', n, bus_put h c)"

text \<open>What stays true: the capacity is in its range and every index is inside the array.\<close>

definition indices_ok :: "united_bus \<Rightarrow> bool" where
  "indices_ok b \<longleftrightarrow> 1024 \<le> current_capacity b \<and> current_capacity b \<le> 2048 \<and> heart_systole b < 2048
     \<and> heart_diastole b < 2048 \<and> (\<forall>i<16. organ_read_heads b i < 2048)"

lemma indices_mod: "indices_ok b \<Longrightarrow> x mod current_capacity b < 2048"
  by (rule less_le_trans [OF mod_less_divisor]) (auto simp: indices_ok_def)

lemma indices_safe: "bus_safe b \<Longrightarrow> indices_ok b"
  by (simp add: bus_safe_def indices_ok_def)

text \<open>Before \<open>At_Next\<close> the local variable is not yet set.\<close>

definition frame_ok :: "pump_state \<Rightarrow> bool" where
  "frame_ok = (\<lambda>(pc, g, n, b). indices_ok b \<and> (pc \<notin> {At_Count, At_Next} \<longrightarrow> n < 2048))"

lemma frame_ok_micro: "frame_ok s \<Longrightarrow> frame_ok (pump_micro s)"
  using indices_mod
  by (cases s rule: pump_micro.cases)
    (auto simp: frame_ok_def next_systole_def, auto simp: indices_ok_def dilate_def oo_defs)

lemma indices_ok_put: "indices_ok b \<Longrightarrow> indices_ok (bus_put h b)"
proof -
  assume ok: "indices_ok b"
  have run: "frame_ok s \<Longrightarrow> frame_ok ((pump_micro ^^ k) s)" for k s
    by (induction k) (simp_all add: frame_ok_micro)
  obtain g' n' k where k: "(pump_micro ^^ k) (At_Count, h, 0, b) = (At_Return (fst (united_bus_pump h b)), g', n', bus_put h b)"
    using micro_pump [of h 0 b] by (auto simp: micro_to_def)
  have "frame_ok (At_Count, h, 0, b)" using ok by (simp add: frame_ok_def)
  from run [OF this, of k] show ?thesis by (simp add: k frame_ok_def)
qed

lemma interleaved_ok: "interleaved g b s \<Longrightarrow> indices_ok b \<Longrightarrow> frame_ok s"
proof (induction rule: interleaved.induct)
  case (call n)
  then show ?case by (simp add: frame_ok_def)
next
  case (micro s)
  then show ?case by (intro frame_ok_micro)
next
  case (interrupt pc g' n c h)
  then show ?case using indices_ok_put by (auto simp: frame_ok_def)
qed

section \<open>One interrupt\<close>

text \<open>The handler pumps \<open>h\<close> after \<open>k\<close> steps of the pump of \<open>g\<close>; forty steps are enough to the end.\<close>

definition interrupt_state :: "globule \<Rightarrow> pump_state \<Rightarrow> pump_state" where
  "interrupt_state h = (\<lambda>(pc, g, n, b). (pc, g, n, bus_put h b))"

definition interrupted_pump :: "nat \<Rightarrow> globule \<Rightarrow> globule \<Rightarrow> united_bus \<Rightarrow> pump_state" where
  "interrupted_pump k h g b = (pump_micro ^^ 40) (interrupt_state h ((pump_micro ^^ k) (At_Count, g, 0, b)))"

abbreviation bus_after :: "pump_state \<Rightarrow> united_bus" where
  "bus_after s \<equiv> snd (snd (snd s))"

text \<open>A slot at the systole is not in any queue.\<close>

lemma pending_upd_systole:
  assumes "steady b" "unat organ < 16"
  shows "pending organ (b\<lparr> blood_stream := (blood_stream b)(heart_systole b := x) \<rparr>) = pending organ b"
  using assms ring_read_upd_outside [of "organ_read_heads b (unat organ)" b
      "ring_dist 1024 (organ_read_heads b (unat organ)) (heart_systole b)" "heart_systole b" x]
  by (simp add: pending_def pending_from_def ring_read_def steady_def del: map_eq_conv)

lemma pending_counters [simp]:
  "pending organ (b\<lparr> total_pumps := x \<rparr>) = pending organ b" "pending organ (b\<lparr> next_globule_id := y \<rparr>) = pending organ b"
  by (simp_all add: pending_def pending_from_def ring_read_def)

lemma steady_fields [simp]:
  "steady (b\<lparr> total_pumps := x \<rparr>) = steady b" "steady (b\<lparr> next_globule_id := y \<rparr>) = steady b"
  "steady (b\<lparr> blood_stream := f \<rparr>) = steady b"
  by (simp_all add: steady_def)

lemma accepts_fields [simp]:
  "bus_accepts h (b\<lparr> total_pumps := x \<rparr>) = bus_accepts h b" "bus_accepts h (b\<lparr> next_globule_id := y \<rparr>) = bus_accepts h b"
  "bus_accepts h (b\<lparr> blood_stream := f \<rparr>) = bus_accepts h b"
  by (simp_all add: bus_accepts_def congested_def next_systole_def)

lemma return_stays: "(pump_micro ^^ k) (At_Return r, g, n, b) = (At_Return r, g, n, b)"
  by (induction k) simp_all

lemma finish:
  assumes "(pump_micro ^^ j) s = (At_Return r, g, n, b)" "j \<le> m"
  shows "(pump_micro ^^ m) s = (At_Return r, g, n, b)"
proof -
  from assms(2) obtain i where "m = i + j" by (metis le_add_diff_inverse2)
  then show ?thesis by (simp add: funpow_add assms(1) return_stays)
qed

subsection \<open>An accepted pump, step by step\<close>

text \<open>The states between the statements when the globule is accepted on a bus in its base regime.\<close>

definition pump_at :: "nat \<Rightarrow> globule \<Rightarrow> united_bus \<Rightarrow> pump_state" where
  "pump_at k g b =
     (let b1 = b\<lparr> total_pumps := total_pumps b + 1 \<rparr>; n = next_systole b;
          b2 = b1\<lparr> next_globule_id := next_globule_id b + 1 \<rparr>
      in if k = 0 then (At_Count, g, 0, b) else if k = 1 then (At_Next, g, 0, b1)
      else if k = 2 then (At_Check, g, n, b1) else if k = 3 then (At_Barrier, g, n, b1)
      else if k = 4 then (At_Dilate, g, n, b1) else if k = 5 then (At_Stamp, g, n, b1)
      else if k = 6 then (At_Write, stamp b g, n, b2)
      else if k = 7 then (At_Commit, stamp b g, n, b2\<lparr> blood_stream := (blood_stream b)(heart_systole b := stamp b g) \<rparr>)
      else (At_Return 0, stamp b g, n, bus_put g b))"

lemma pump_at_step:
  assumes "steady b" "bus_accepts g b"
  shows "pump_micro (pump_at k g b) = pump_at (Suc k) g b"
proof -
  have g: "\<not> congested b" "\<not> blocked_by_barrier g" "gtype g \<noteq> GLOBULE_WHITE" "current_capacity b = 1024"
    using assms by (simp_all add: bus_accepts_def steady_def)
  have n: "next_systole (b\<lparr> total_pumps := x \<rparr>) = next_systole b" for x by (simp add: next_systole_def)
  have d: "b\<lparr> total_pumps := x, current_capacity := 1024 \<rparr> = b\<lparr> total_pumps := x \<rparr>" for x using g(4) by simp
  consider "k = 0" | "k = 1" | "k = 2" | "k = 3" | "k = 4" | "k = 5" | "k = 6" | "k = 7" | "8 \<le> k" by linarith
  then show ?thesis
  proof cases
    case 8
    have "dilate (gtype g) 1024 = 1024" using g(3) by (simp add: dilate_def)
    with 8 g(4) show ?thesis by (simp add: pump_at_def Let_def pump_accepted_eq [OF assms(2)])
  qed (use g in \<open>simp_all add: pump_at_def Let_def n congested_def dilate_def stamp_def d\<close>)
qed

lemma pump_at_run:
  assumes "steady b" "bus_accepts g b"
  shows "(pump_micro ^^ k) (At_Count, g, 0, b) = pump_at k g b"
proof (induction k)
  case (Suc k)
  then show ?case by (simp add: pump_at_step [OF assms])
qed (simp add: pump_at_def Let_def)

subsection \<open>After the interrupt\<close>

text \<open>
  The interrupted pump goes on with the value of \<open>next_systole\<close> it had computed, which is now the
  systole itself: whatever it writes lies at the systole, outside of all queues.
\<close>

lemma late_commit:
  assumes "steady c" "unat organ < 16" "n = heart_systole c" "n \<noteq> heart_diastole c"
    and "\<not> blocked_by_barrier g" "gtype g \<noteq> GLOBULE_WHITE"
    and "pc \<in> {At_Check, At_Barrier, At_Dilate, At_Stamp, At_Write, At_Commit}"
  shows "\<exists>g' c'. (pump_micro ^^ 40) (pc, g, n, c) = (At_Return 0, g', n, c') \<and> pending organ c' = pending organ c
    \<and> total_pumps c' = total_pumps c"
proof -
  have cap: "dilate (gtype g) (current_capacity c) = current_capacity c"
    using assms(1,6) by (simp add: dilate_def steady_def)
  have keep: "c\<lparr> heart_systole := n \<rparr> = c" "c\<lparr> current_capacity := current_capacity c \<rparr> = c"
    by (simp_all add: assms(3))
  have moved: "c\<lparr> blood_stream := f, heart_systole := n \<rparr> = c\<lparr> blood_stream := f \<rparr>"
    "c\<lparr> blood_stream := f, next_globule_id := i, heart_systole := n \<rparr> = c\<lparr> blood_stream := f, next_globule_id := i \<rparr>"
    "c\<lparr> next_globule_id := i, blood_stream := f, heart_systole := n \<rparr> = c\<lparr> blood_stream := f, next_globule_id := i \<rparr>"
    for f i by (simp_all add: assms(3))
  note keep_queue = pending_upd_systole [OF assms(1,2)]
  define d where "d = c\<lparr> blood_stream := (blood_stream c)(heart_systole c := g) \<rparr>"
  define e where "e = c\<lparr> blood_stream := (blood_stream c)(heart_systole c := g\<lparr> globule_id := next_globule_id c \<rparr>),
    next_globule_id := next_globule_id c + 1 \<rparr>"
  have commit: "(pump_micro ^^ 1) (At_Commit, g, n, c) = (At_Return 0, g, n, c)"
    by (simp add: keep)
  have wrote: "(pump_micro ^^ 2) (At_Write, g, n, c) = (At_Return 0, g, n, d)"
    by (simp add: eval_nat_numeral d_def moved)
  have stamp: "(pump_micro ^^ 3) (At_Stamp, g, n, c) = (At_Return 0, g\<lparr> globule_id := next_globule_id c \<rparr>, n, e)"
    by (simp add: eval_nat_numeral e_def moved)
  have dilate: "(pump_micro ^^ 4) (At_Dilate, g, n, c) = (At_Return 0, g\<lparr> globule_id := next_globule_id c \<rparr>, n, e)"
    using stamp by (simp add: eval_nat_numeral cap keep)
  have barrier: "(pump_micro ^^ 5) (At_Barrier, g, n, c) = (At_Return 0, g\<lparr> globule_id := next_globule_id c \<rparr>, n, e)"
    using dilate assms(5) by (simp add: eval_nat_numeral)
  have check: "(pump_micro ^^ 6) (At_Check, g, n, c) = (At_Return 0, g\<lparr> globule_id := next_globule_id c \<rparr>, n, e)"
    using barrier assms(4) by (simp add: eval_nat_numeral)
  have "pending organ d = pending organ c" "pending organ e = pending organ c"
    by (simp_all add: d_def e_def keep_queue)
  moreover have "total_pumps d = total_pumps c" "total_pumps e = total_pumps c" by (simp_all add: d_def e_def)
  ultimately show ?thesis
    using assms(7) finish [OF commit, of 40] finish [OF wrote, of 40] finish [OF stamp, of 40]
      finish [OF dilate, of 40] finish [OF barrier, of 40] finish [OF check, of 40]
    by auto
qed

text \<open>At the moment of an interrupt inside the window no queue has changed yet.\<close>

lemma window_state:
  assumes "steady b" "bus_accepts g b" "2 \<le> k" "k \<le> 7" "unat organ < 16"
  shows "\<exists>pc g' c. pump_at k g b = (pc, g', next_systole b, c)
    \<and> pc \<in> {At_Check, At_Barrier, At_Dilate, At_Stamp, At_Write, At_Commit}
    \<and> \<not> blocked_by_barrier g' \<and> gtype g' \<noteq> GLOBULE_WHITE \<and> steady c \<and> pending organ c = pending organ b
    \<and> (\<forall>h. bus_accepts h c = bus_accepts h b) \<and> next_systole c = next_systole b
    \<and> heart_diastole c = heart_diastole b \<and> total_pumps c = total_pumps b + 1"
proof -
  have g: "\<not> blocked_by_barrier g" "gtype g \<noteq> GLOBULE_WHITE" "\<not> blocked_by_barrier (stamp b g)"
    using assms(2) by (simp_all add: bus_accepts_def blocked_by_barrier_def stamp_def)
  have n: "next_systole (b\<lparr> total_pumps := x \<rparr>) = next_systole b"
    "next_systole (b\<lparr> total_pumps := x, next_globule_id := y \<rparr>) = next_systole b"
    "next_systole (b\<lparr> total_pumps := x, next_globule_id := y, blood_stream := f \<rparr>) = next_systole b" for x y f
    by (simp_all add: next_systole_def)
  have "pending organ (b\<lparr> total_pumps := x, next_globule_id := y, blood_stream := f \<rparr>)
      = pending organ (b\<lparr> blood_stream := f \<rparr>)" for x y f
    by (simp add: pending_def pending_from_def ring_read_def)
  note keep_queue = this pending_upd_systole [OF assms(1,5)]
  from assms(3,4) consider "k = 2" | "k = 3" | "k = 4" | "k = 5" | "k = 6" | "k = 7" by linarith
  then show ?thesis
    by cases (use g assms(1) in \<open>simp_all add: pump_at_def Let_def n stamp_def keep_queue\<close>)
qed

lemma interrupted_window:
  assumes "steady b" "bus_accepts g b" "bus_accepts h b" "unat organ < 16" "2 \<le> k" "k \<le> 7"
  shows "\<exists>x g' n c. interrupted_pump k h g b = (At_Return 0, g', n, c)
    \<and> pending organ c = pending organ b @ [h\<lparr> globule_id := x \<rparr>] \<and> total_pumps c = total_pumps b + 2"
proof -
  obtain pc g' c where w: "pump_at k g b = (pc, g', next_systole b, c)"
    "pc \<in> {At_Check, At_Barrier, At_Dilate, At_Stamp, At_Write, At_Commit}"
    "\<not> blocked_by_barrier g'" "gtype g' \<noteq> GLOBULE_WHITE" "steady c" "pending organ c = pending organ b"
    "bus_accepts h c" "next_systole c = next_systole b" "heart_diastole c = heart_diastole b"
    "total_pumps c = total_pumps b + 1"
    using window_state [OF assms(1,2,5,6,4)] assms(3) by blast
  have p: "steady (bus_put h c)" "pending organ (bus_put h c) = pending organ b @ [stamp c h]"
    using pump_accepted_steady [OF w(5,7)] assms(4) w(6) by simp_all
  have e: "next_systole b = heart_systole (bus_put h c)" "heart_diastole (bus_put h c) = heart_diastole b"
    "total_pumps (bus_put h c) = total_pumps b + 2"
    by (simp_all add: pump_accepted_eq [OF w(7)] w(8-10))
  moreover have "next_systole b \<noteq> heart_diastole b" using assms(2) by (simp add: bus_accepts_def congested_def)
  ultimately obtain g2 d where "(pump_micro ^^ 40) (pc, g', next_systole b, bus_put h c) = (At_Return 0, g2, next_systole b, d)"
    "pending organ d = pending organ (bus_put h c)" "total_pumps d = total_pumps (bus_put h c)"
    using late_commit [OF p(1) assms(4) _ _ w(3,4,2), of "next_systole b"] by auto
  with p e show ?thesis
    by (auto simp: interrupted_pump_def interrupt_state_def pump_at_run [OF assms(1,2)] w(1) stamp_def)
qed

lemma put_pumps: "total_pumps (bus_put g b) = total_pumps b + 1"
  by (simp add: united_bus_pump_def Let_def evict_oldest_def)

lemma interrupted_before:
  assumes "steady b" "bus_accepts g b" "bus_accepts h b" "\<not> congested (bus_put h b)" "unat organ < 16" "k \<le> 1"
  shows "\<exists>g' n c. interrupted_pump k h g b = (At_Return 0, g', n, c)
    \<and> pending organ c = pending organ b @ [stamp b h, stamp (bus_put h b) g] \<and> total_pumps c = total_pumps b + 2"
proof -
  let ?c = "bus_put h b"
  have c: "steady ?c" "pending organ ?c = pending organ b @ [stamp b h]"
    using pump_accepted_steady [OF assms(1,3)] assms(5) by simp_all
  have a: "bus_accepts g ?c" using assms(2,4) by (simp add: bus_accepts_def)
  have end_state: "(pump_micro ^^ 40) (At_Count, g, 0, ?c) = (At_Return 0, stamp ?c g, next_systole ?c, bus_put g ?c)"
    using pump_at_run [OF c(1) a, of 40] by (simp add: pump_at_def Let_def)
  have q: "pending organ (bus_put g ?c) = pending organ b @ [stamp b h, stamp ?c g]"
    "total_pumps (bus_put g ?c) = total_pumps b + 2"
    using pump_accepted_steady(2) [OF c(1) a assms(5)] c(2) by (simp_all add: put_pumps)
  show ?thesis
  proof (cases "k = 0")
    case True
    then show ?thesis using end_state q by (simp add: interrupted_pump_def interrupt_state_def)
  next
    case False
    with assms(6) have k: "k = 1" by simp
    have "bus_put h (b\<lparr> total_pumps := total_pumps b + 1 \<rparr>) = ?c\<lparr> total_pumps := total_pumps ?c + 1 \<rparr>"
      using assms(3) by (simp add: pump_accepted_eq stamp_def next_systole_def)
    then have "interrupted_pump k h g b = (pump_micro ^^ 40) (pump_micro (At_Count, g, 0, ?c))"
      by (simp add: interrupted_pump_def interrupt_state_def k)
    also have "\<dots> = (pump_micro ^^ Suc 40) (At_Count, g, 0, ?c)" by (simp only: funpow_Suc_right comp_apply)
    also have "\<dots> = (At_Return 0, stamp ?c g, next_systole ?c, bus_put g ?c)"
      by (rule finish [OF end_state]) simp
    finally show ?thesis using q by simp
  qed
qed

lemma interrupted_after:
  assumes "steady b" "bus_accepts g b" "bus_accepts h b" "\<not> congested (bus_put g b)" "unat organ < 16" "8 \<le> k"
  shows "\<exists>g' n c. interrupted_pump k h g b = (At_Return 0, g', n, c)
    \<and> pending organ c = pending organ b @ [stamp b g, stamp (bus_put g b) h] \<and> total_pumps c = total_pumps b + 2"
proof -
  have c: "steady (bus_put g b)" "pending organ (bus_put g b) = pending organ b @ [stamp b g]"
    using pump_accepted_steady [OF assms(1,2)] assms(5) by simp_all
  have a: "bus_accepts h (bus_put g b)" using assms(3,4) by (simp add: bus_accepts_def)
  show ?thesis
    using assms(6) c(2) pump_accepted_steady(2) [OF c(1) a assms(5)]
    by (auto simp: interrupted_pump_def interrupt_state_def pump_at_run [OF assms(1,2)] pump_at_def Let_def
      return_stays put_pumps)
qed

lemma congested_same: "bus_accepts g b \<Longrightarrow> bus_accepts h b \<Longrightarrow> steady b \<Longrightarrow>
    congested (bus_put h b) = congested (bus_put g b)"
  by (simp add: pump_accepted_eq congested_def next_systole_def dilate_def bus_accepts_def steady_def)

section \<open>Interrupts during an absorb\<close>

text \<open>
  \<open>united_bus_absorb\<close> with interrupt handlers at the tests of its loop: the globules of the first list
  are pumped before the first test, and so on; behind the last list the loop runs undisturbed.
\<close>

definition set_head :: "u8 \<Rightarrow> nat \<Rightarrow> united_bus \<Rightarrow> united_bus" where
  "set_head organ h b = b\<lparr> organ_read_heads := (organ_read_heads b)(unat organ := h) \<rparr>"

fun absorb_interrupted ::
  "globule list list \<Rightarrow> u8 \<Rightarrow> int \<Rightarrow> nat \<Rightarrow> globule list \<Rightarrow> united_bus \<Rightarrow> (globule list \<times> united_bus) option" where
  "absorb_interrupted [] organ m h out b =
     map_option (\<lambda>(h, out). (out, set_head organ h b)) (absorb_loop b organ m h out)"
| "absorb_interrupted (gs # sched) organ m h out b =
     (let b = fold bus_put gs b
      in if h \<noteq> heart_systole b \<and> int (length out) < m
         then absorb_interrupted sched organ m (u32_add h 1 mod current_capacity b)
                (if addressed_to organ (blood_stream b h) then out @ [blood_stream b h] else out) b
         else Some (out, set_head organ h b))"

lemma absorb_not_interrupted:
  "unat organ < 16 \<Longrightarrow> absorb_interrupted [] organ m (organ_read_heads b (unat organ)) [] b = united_bus_absorb organ m b"
  by (auto simp: united_bus_absorb_def MAX_ORGANS_def set_head_def split: option.split)

subsection \<open>The bus as a reader in its loop sees it\<close>

lemma pending_set_head:
  "pending organ (set_head organ h b) = pending_from b h"
  "p \<noteq> organ \<Longrightarrow> pending p (set_head organ h b) = pending p b"
  by (simp_all add: set_head_def pending_def pending_from_def ring_read_def word_unat_eq_iff)

lemma set_head_back: "set_head organ (organ_read_heads b (unat organ)) b = b"
  by (simp add: set_head_def)

lemma steady_set_head:
  "steady (set_head organ h b) \<Longrightarrow> h' < 1024 \<Longrightarrow> ring_dist 1024 h' (heart_systole b) \<le> ring_dist 1024 h (heart_systole b)
    \<Longrightarrow> unat organ < 16 \<Longrightarrow> steady (set_head organ h' b)"
  by (fastforce simp: steady_def set_head_def)

lemma put_set_head:
  assumes "bus_accepts g b"
  shows "bus_accepts g (set_head organ h b)" "bus_put g (set_head organ h b) = set_head organ h (bus_put g b)"
proof -
  show a: "bus_accepts g (set_head organ h b)"
    using assms by (simp add: bus_accepts_def congested_def next_systole_def set_head_def)
  show "bus_put g (set_head organ h b) = set_head organ h (bus_put g b)"
    by (simp add: pump_accepted_eq [OF a] pump_accepted_eq [OF assms])
      (simp add: set_head_def next_systole_def stamp_def)
qed

lemma run_set_head:
  "bus_mail.accepted_run b gs \<Longrightarrow> bus_mail.accepted_run (set_head organ h b) gs
     \<and> fold bus_put gs (set_head organ h b) = set_head organ h (fold bus_put gs b)"
  by (induction gs arbitrary: b) (simp_all add: put_set_head)

lemma accepted_run_append:
  "bus_mail.accepted_run b (xs @ ys) \<longleftrightarrow> bus_mail.accepted_run b xs \<and> bus_mail.accepted_run (fold bus_put xs b) ys"
  by (induction xs arbitrary: b) simp_all

lemma marked_append:
  "bus_mail.marked b (xs @ ys) = bus_mail.marked b xs @ bus_mail.marked (fold bus_put xs b) ys"
  by (induction xs arbitrary: b) simp_all

lemma run_reader:
  assumes "steady (set_head organ h b)" "bus_mail.accepted_run b gs" "unat organ < 16"
  shows "steady (set_head organ h (fold bus_put gs b))"
    "pending_from (fold bus_put gs b) h = pending_from b h @ bus_mail.marked b gs"
    "p \<noteq> organ \<Longrightarrow> unat p < 16 \<Longrightarrow> pending p (fold bus_put gs b) = pending p b @ bus_mail.marked b gs"
proof -
  have r: "bus_mail.accepted_run (set_head organ h b) gs"
    and f: "fold bus_put gs (set_head organ h b) = set_head organ h (fold bus_put gs b)"
    using run_set_head [OF assms(2)] by auto
  have m: "bus_mail.marked (set_head organ h b) gs = bus_mail.marked b gs"
    using marked_number_from [OF r] marked_number_from [OF assms(2)] by (simp add: set_head_def)
  show "steady (set_head organ h (fold bus_put gs b))"
    using bus_mail.run_inv [OF assms(1) r] by (simp add: f)
  show "pending_from (fold bus_put gs b) h = pending_from b h @ bus_mail.marked b gs"
    using bus_mail.run_queue [OF assms(1) r, of organ] assms(3)
    by (simp add: f m pending_set_head bus_reader_def MAX_ORGANS_def)
  show "pending p (fold bus_put gs b) = pending p b @ bus_mail.marked b gs" if "p \<noteq> organ" "unat p < 16"
    using bus_mail.run_queue [OF assms(1) r, of p] that
    by (simp add: f m pending_set_head bus_reader_def MAX_ORGANS_def)
qed

subsection \<open>Nothing is lost\<close>

lemma absorb_interrupted_reads:
  assumes "steady (set_head organ h b)" "bus_mail.accepted_run b (concat sched)" "unat organ < 16"
  shows "\<exists>k got b'. k \<le> length sched \<and> absorb_interrupted sched organ m h out b = Some (out @ got, b') \<and> steady b'
    \<and> got @ filter (addressed_to organ) (pending organ b')
        = filter (addressed_to organ) (pending_from b h @ bus_mail.marked b (concat (take k sched)))
    \<and> (\<forall>p. p \<noteq> organ \<longrightarrow> unat p < 16 \<longrightarrow> pending p b' = pending p b @ bus_mail.marked b (concat (take k sched)))"
  using assms(1,2)
proof (induction sched arbitrary: h out b)
  case Nil
  have c: "current_capacity b = 1024" and s: "heart_systole b < 1024" and h: "h < 1024"
    using Nil.prems(1) assms(3) by (auto simp: steady_def set_head_def)
  obtain h' where h': "h' < 1024" "absorb_loop b organ m h out = Some (h', fst (absorb_list organ m (pending_from b h) out))"
    "pending_from b h' = snd (absorb_list organ m (pending_from b h) out)"
    using absorb_loop_list [of b h organ m out] c s h by auto
  obtain k where k: "snd (absorb_list organ m (pending_from b h) out) = drop k (pending_from b h)"
    "fst (absorb_list organ m (pending_from b h) out) = out @ filter (addressed_to organ) (take k (pending_from b h))"
    using absorb_list_split [of organ m "pending_from b h" out] by (metis prod.collapse)
  have "length (pending_from b h') \<le> length (pending_from b h)" by (simp add: h'(3) k(1))
  then have st: "steady (set_head organ h' b)"
    by (intro steady_set_head [OF Nil.prems(1) h'(1) _ assms(3)]) (simp add: pending_from_def c)
  have "filter (addressed_to organ) (take k (pending_from b h)) @ filter (addressed_to organ) (drop k (pending_from b h))
      = filter (addressed_to organ) (pending_from b h)" by (simp flip: filter_append)
  with st h' k show ?case by (simp add: pending_set_head)
next
  case (Cons gs sched)
  let ?b = "fold bus_put gs b"
  have r: "bus_mail.accepted_run b gs" "bus_mail.accepted_run ?b (concat sched)"
    using Cons.prems(2) by (simp_all add: accepted_run_append)
  note v = run_reader [OF Cons.prems(1) r(1) assms(3)]
  have c: "current_capacity ?b = 1024" and s: "heart_systole ?b < 1024" and h: "h < 1024"
    using v(1) assms(3) by (auto simp: steady_def set_head_def)
  show ?case
  proof (cases "h \<noteq> heart_systole ?b \<and> int (length out) < m")
    case True
    let ?h = "Suc h mod 1024" and ?g = "blood_stream ?b h"
    have q: "pending_from ?b h = ?g # pending_from ?b ?h"
      using pending_from_Cons [of h ?b] c s h True by simp
    have "ring_dist 1024 ?h (heart_systole ?b) \<le> ring_dist 1024 h (heart_systole ?b)"
      using ring_dist_pop [OF h s] True by simp
    then have "steady (set_head organ ?h ?b)" by (intro steady_set_head [OF v(1) _ _ assms(3)]) simp_all
    from Cons.IH [OF this r(2), of "if addressed_to organ ?g then out @ [?g] else out"] obtain k got b' where
      k: "k \<le> length sched" "absorb_interrupted sched organ m ?h (if addressed_to organ ?g then out @ [?g] else out) ?b
        = Some ((if addressed_to organ ?g then out @ [?g] else out) @ got, b')" "steady b'"
      "got @ filter (addressed_to organ) (pending organ b')
        = filter (addressed_to organ) (pending_from ?b ?h @ bus_mail.marked ?b (concat (take k sched)))"
      "\<forall>p. p \<noteq> organ \<longrightarrow> unat p < 16 \<longrightarrow> pending p b' = pending p ?b @ bus_mail.marked ?b (concat (take k sched))"
      by blast
    have "u32_add h 1 mod current_capacity ?b = ?h" using h c by simp
    then have run: "absorb_interrupted (gs # sched) organ m h out b
        = Some (out @ (if addressed_to organ ?g then ?g # got else got), b')"
      using True k(2) by (simp add: Let_def split: if_splits)
    have "(if addressed_to organ ?g then ?g # got else got) @ filter (addressed_to organ) (pending organ b')
      = filter (addressed_to organ) (pending_from b h @ bus_mail.marked b (concat (take (Suc k) (gs # sched))))"
      using k(4) q by (simp add: marked_append flip: v(2) append_assoc filter_append)
    moreover have "\<forall>p. p \<noteq> organ \<longrightarrow> unat p < 16 \<longrightarrow>
        pending p b' = pending p b @ bus_mail.marked b (concat (take (Suc k) (gs # sched)))"
      using k(5) v(3) by (simp add: marked_append)
    ultimately show ?thesis using run k(1,3) by (intro exI [of _ "Suc k"]) auto
  next
    case False
    then have "absorb_interrupted (gs # sched) organ m h out b = Some (out @ [], set_head organ h ?b)"
      by (auto simp: Let_def)
    moreover have "pending p (set_head organ h ?b) = pending p b @ bus_mail.marked b gs" if "p \<noteq> organ" "unat p < 16" for p
      using v(3) [OF that] that by (simp add: pending_set_head)
    ultimately show ?thesis
      using v(1,2) by (intro exI [of _ "Suc 0"] exI [of _ "[]"] exI [of _ "set_head organ h ?b"])
        (simp add: pending_set_head)
  qed
qed

section \<open>Properties\<close>

text \<open>
  C7: A signal pumped by an interrupt handler in the middle of another pump destroys the globule of
  that pump. On a bus in its base regime with room for both: an interrupt before the next systole is
  computed, or after it is committed, leaves both globules at the end of every queue, in the order of
  their commits; an interrupt at any of the six steps between leaves only the signal, although the
  interrupted pump returns 0 and both are counted.
\<close>

theorem interrupted_pump_loses:
  assumes "steady b" "bus_accepts g b" "bus_accepts h b" "\<not> congested (bus_put g b)" "unat organ < 16"
  shows "fst (interrupted_pump k h g b) = At_Return 0
    \<and> total_pumps (bus_after (interrupted_pump k h g b)) = total_pumps b + 2
    \<and> (\<exists>x y. pending organ (bus_after (interrupted_pump k h g b)) = pending organ b @
        (if k \<le> 1 then [h\<lparr> globule_id := x \<rparr>, g\<lparr> globule_id := y \<rparr>]
         else if k \<le> 7 then [h\<lparr> globule_id := x \<rparr>] else [g\<lparr> globule_id := y \<rparr>, h\<lparr> globule_id := x \<rparr>]))"
proof -
  note c = congested_same [OF assms(2,3,1)]
  consider "k \<le> 1" | "2 \<le> k" "k \<le> 7" | "8 \<le> k" by linarith
  then show ?thesis
  proof cases
    case 1
    from assms(4) c have "\<not> congested (bus_put h b)" by simp
    from interrupted_before [OF assms(1-3) this assms(5) 1] 1 show ?thesis by (auto simp: stamp_def)
  next
    case 2
    with interrupted_window [OF assms(1-3,5) 2] show ?thesis by auto
  next
    case 3
    with interrupted_after [OF assms 3] show ?thesis by (auto simp: stamp_def)
  qed
qed

text \<open>A key, interrupted by the thermal reflex between the write and the commit: the key is lost.\<close>

definition a_key :: globule where
  "a_key = \<lparr> globule_id = 0, gtype = GLOBULE_RED, source_organ = ORGAN_SENSORY, target_organ = ORGAN_CORTEX,
     payload_addr = 0x1000, payload_size = 32 \<rparr>"

definition a_burn :: globule where
  "a_burn = broadcast_globule GLOBULE_YELLOW 7 0xFD"

lemma interrupted_pump_loses_witness:
  "\<exists>x. pending 0 (bus_after (interrupted_pump 7 a_burn a_key (bus_boot (\<lambda>_. a_key)))) = [a_burn\<lparr> globule_id := x \<rparr>]"
proof -
  let ?b = "bus_boot (\<lambda>_. a_key)"
  have g: "bus_accepts a_key ?b" and h: "bus_accepts a_burn ?b"
    by (simp_all add: bus_accepts_def congested_def next_systole_def blocked_by_barrier_def bus_boot_def a_key_def
      a_burn_def broadcast_globule_def BASE_CAPACITY_def ORGAN_CORTEX_def ORGAN_BROADCAST_def)
  have "\<not> congested (bus_put a_key ?b)"
    unfolding pump_accepted_eq [OF g]
    by (simp add: congested_def next_systole_def bus_boot_def BASE_CAPACITY_def dilate_def a_key_def)
  moreover have "pending 0 ?b = []" by (simp add: pending_def pending_from_def bus_boot_def BASE_CAPACITY_def)
  ultimately show ?thesis
    using interrupted_pump_loses [OF steady_boot g h, of 0 7] by simp
qed

text \<open>The pumped globules as the bus numbers them.\<close>

lemma marked_prefix:
  assumes "all_accepted b (concat sched)"
  shows "bus_mail.marked b (concat (take k sched)) = number_from (next_globule_id b) (concat (take k sched))"
proof -
  have "concat sched = concat (take k sched) @ concat (drop k sched)" by (metis append_take_drop_id concat_append)
  with assms have "bus_mail.accepted_run b (concat (take k sched))"
    by (simp add: all_accepted_run accepted_run_append)
  then show ?thesis by (rule marked_number_from)
qed

text \<open>
  C8: Interrupts during an absorb lose nothing in the base regime. The bus is in its base regime
  (capacity 1024, no reader further behind than the diastole), and the interrupt handlers pump, at
  the tests of the loop, any globules of which none is white, none is refused by the blood-brain
  barrier and none meets a full ring. Then the absorb ends and the regime holds again. Of the globules
  that were queued and those that were pumped while it ran, the ones addressed to the organ are, in the
  order of their pumps, the ones it returned followed by the ones that still wait; and every other
  organ keeps its queue, with the pumped globules behind it. Outside the regime priority signals do
  overwrite what waits.
\<close>

theorem interrupted_absorb_loses_nothing:
  assumes "steady b" "all_accepted b (concat sched)" "unat organ < 16"
  shows "\<exists>k got b'. k \<le> length sched
    \<and> absorb_interrupted sched organ m (organ_read_heads b (unat organ)) [] b = Some (got, b') \<and> steady b'
    \<and> got @ filter (addressed_to organ) (pending organ b')
        = filter (addressed_to organ) (pending organ b @ number_from (next_globule_id b) (concat (take k sched)))
    \<and> (\<forall>p. p \<noteq> organ \<longrightarrow> unat p < 16 \<longrightarrow>
        pending p b' = pending p b @ number_from (next_globule_id b) (concat (take k sched)))"
  using absorb_interrupted_reads [of organ "organ_read_heads b (unat organ)" b sched m "[]"] assms
  unfolding marked_prefix [OF assms(2)] by (simp add: set_head_back pending_def all_accepted_run)

text \<open>A key arrives before the first test of an absorb of the cortex, and a burn before the second.\<close>

lemma interrupted_absorb_loses_nothing_witness:
  "\<exists>k got b'. k \<le> 2
    \<and> absorb_interrupted [[a_key], [a_burn]] 0 4 0 [] (bus_boot (\<lambda>_. a_key)) = Some (got, b') \<and> steady b'
    \<and> got @ filter (addressed_to 0) (pending 0 b')
        = filter (addressed_to 0) (number_from (next_globule_id (bus_boot (\<lambda>_. a_key))) (concat (take k [[a_key], [a_burn]])))"
proof -
  let ?b = "bus_boot (\<lambda>_. a_key)"
  have g: "bus_accepts a_key ?b" and h: "bus_accepts a_burn ?b"
    by (simp_all add: bus_accepts_def congested_def next_systole_def blocked_by_barrier_def bus_boot_def a_key_def
      a_burn_def broadcast_globule_def BASE_CAPACITY_def ORGAN_CORTEX_def ORGAN_BROADCAST_def)
  have "bus_accepts a_burn (bus_put a_key ?b)"
    unfolding pump_accepted_eq [OF g]
    by (simp add: bus_accepts_def congested_def next_systole_def blocked_by_barrier_def bus_boot_def a_key_def
      a_burn_def broadcast_globule_def BASE_CAPACITY_def dilate_def ORGAN_BROADCAST_def ORGAN_CORTEX_def)
  then have r: "all_accepted ?b (concat [[a_key], [a_burn]])" using g by simp
  have p: "pending 0 ?b = []" "organ_read_heads ?b (unat (0 :: u8)) = 0"
    by (simp_all add: pending_def pending_from_def bus_boot_def BASE_CAPACITY_def)
  have l: "length [[a_key], [a_burn]] = 2" "unat (0 :: u8) < 16" by simp_all
  from interrupted_absorb_loses_nothing [OF steady_boot r l(2), of 4] show ?thesis
    unfolding p l append_Nil by blast
qed

end
