(* ===== verification/Hedged_Test.thy ===== *)
theory Hedged_Test
  imports Hedged_Memory
begin

text \<open>
  The unit tests of the replicated blocks, \<open>memory-baremetal/tests/test_hedged_malloc.c\<close>, replayed on
  the model. A test returns what it prints, PASS or FAIL, and the heap it leaves. The program never
  calls \<open>bio_mem_init\<close>, so it runs on the zeroed statics of \<open>bio_alloc.c\<close>; the replay compares this
  start with an initialised memory. Addresses are those of the machine: a hosted process, whose low
  addresses are not mapped, would stop at the first write of the second test.
\<close>

section \<open>The test program\<close>

definition test_basic_allocation :: "hedged_heap \<Rightarrow> bool \<times> hedged_heap" where
  "test_basic_allocation h =
     (let (ptr, h) = hedged_malloc 256 4 h
      in if ptr = 0 then (False, h) else (True, hedged_free ptr h))"

definition test_pattern :: "u8 list" where
  "test_pattern = map (\<lambda>i. of_nat (i * 7 mod 256)) [0..<64]"

definition test_replication_and_read :: "hedged_heap \<Rightarrow> bool \<times> hedged_heap" where
  "test_replication_and_read h =
     (let (ptr, h) = hedged_malloc 64 4 h
      in if ptr = 0 then (False, h)
         else let (ret, h) = hedged_replicate_data ptr test_pattern h
           in if ret \<noteq> 0 then (False, hedged_free ptr h)
              else let (read_buffer, h) = hedged_read ptr 64 h
                in case read_buffer of
                     None \<Rightarrow> (False, hedged_free ptr h)
                   | Some bs \<Rightarrow> if bs \<noteq> test_pattern then (False, hedged_free ptr h)
                                else (True, hedged_free ptr h))"

text \<open>A passed statistics test prints the average latency and the number of reads.\<close>

definition test_read_statistics :: "hedged_heap \<Rightarrow> (u64 \<times> u32) option \<times> hedged_heap" where
  "test_read_statistics h =
     (let (ptr, h) = hedged_malloc 128 4 h
      in if ptr = 0 then (None, h)
         else let h = snd (hedged_replicate_data ptr (replicate 128 0xAA) h);
                  h = ((\<lambda>h. snd (hedged_read ptr 128 h)) ^^ 10) h
           in case hedged_get_stats ptr h of
                None \<Rightarrow> (None, hedged_free ptr h)
              | Some stats \<Rightarrow> (Some stats, hedged_free ptr h))"

definition test_multiple_allocations :: "hedged_heap \<Rightarrow> bool \<times> hedged_heap" where
  "test_multiple_allocations h =
     (let (ptr1, h) = hedged_malloc 64 2 h;
          (ptr2, h) = hedged_malloc 256 3 h;
          (ptr3, h) = hedged_malloc 512 4 h
      in if ptr1 = 0 \<or> ptr2 = 0 \<or> ptr3 = 0 then (False, h)
         else (True, hedged_free ptr3 (hedged_free ptr2 (hedged_free ptr1 h))))"

definition hedged_tests :: "hedged_heap \<Rightarrow> (bool \<times> bool \<times> (u64 \<times> u32) option \<times> bool) \<times> hedged_heap" where
  "hedged_tests h =
     (let (basic, h) = test_basic_allocation h;
          (replication, h) = test_replication_and_read h;
          (stats, h) = test_read_statistics h;
          (multiple, h) = test_multiple_allocations h
      in ((basic, replication, stats, multiple), h))"

text \<open>The statics at the start of the process; \<open>p\<close> is what the memory holds.\<close>

definition test_start :: "(u64 \<Rightarrow> u8) \<Rightarrow> hedged_heap" where
  "test_start p = \<lparr> allocations = (\<lambda>_. \<lparr> base_address = 0, allocation_size = 0, replica_count = 0,
       read_latency_total_ns = 0, read_count = 0 \<rparr>), allocation_count = 0,
     heap_mem = \<lparr> mem_base = 0, mem_total = 0, cell_bitmap = (\<lambda>_. 0), phys = p \<rparr> \<rparr>"

section \<open>Blocks of one cell\<close>

text \<open>Every block of the tests needs one cell, and the cells in use are the first ones.\<close>

lemma tissue_scan_skip:
  "\<forall>i\<in>set is. test_cell_bit b i \<Longrightarrow> tissue_scan b n (is @ js) 0 s = tissue_scan b n js 0 s"
  by (induction "is") simp_all

lemma tissue_scan_first:
  assumes "n < N" "\<And>i. i < N \<Longrightarrow> test_cell_bit b i \<longleftrightarrow> i < n"
  shows "tissue_scan b 1 [0..<N] 0 0 = Some n"
proof -
  have "[0..<N] = [0..<n] @ n # [Suc n..<N]"
    using assms(1) upt_add_eq_append [of 0 n "N - n"] by (simp add: upt_conv_Cons)
  then show ?thesis using assms by (simp add: tissue_scan_skip)
qed

lemma tissue_first_free:
  assumes "used_cells m = {..<n}" "n < 102400" "cells_for len = 1"
  shows "bio_allocate_neural_tissue len m = (cell_addr m n, m\<lparr> cell_bitmap := set_cell_bit n (cell_bitmap m) \<rparr>)"
proof -
  have "i < BITMAP_MAX_CELLS \<Longrightarrow> test_cell_bit (cell_bitmap m) i \<longleftrightarrow> i < n" for i
    using assms(1) by (auto simp: used_cells_def set_eq_iff BITMAP_MAX_CELLS_def)
  moreover have "n < BITMAP_MAX_CELLS" using assms(2) by (simp add: BITMAP_MAX_CELLS_def)
  ultimately have "tissue_scan (cell_bitmap m) 1 [0..<BITMAP_MAX_CELLS] 0 0 = Some n"
    by (intro tissue_scan_first) auto
  moreover have "[n..<u32_add n 1] = [n]" using assms(2) by simp
  ultimately show ?thesis by (simp add: bio_allocate_neural_tissue_def assms(3))
qed

text \<open>A heap whose blocks have one cell each, from base \<open>base\<close> on; \<open>used\<close> are the cells in use.\<close>

definition cells_heap :: "u64 \<Rightarrow> nat set \<Rightarrow> (nat \<times> u64 \<times> u32) list \<Rightarrow> hedged_heap \<Rightarrow> bool" where
  "cells_heap base used blocks h \<longleftrightarrow> mem_base (heap_mem h) = base \<and> unat base + 419430400 < 18446744073709551616
     \<and> used_cells (heap_mem h) = used \<and> allocation_count h = length blocks
     \<and> (\<forall>i<length blocks. case blocks ! i of (k, len, r) \<Rightarrow> k < 102400 \<and> cells_for (len * ucast r) = 1
          \<and> base_address (allocations h i) = base + of_nat k * 4096 \<and> allocation_size (allocations h i) = len
          \<and> replica_count (allocations h i) = r)"

lemma cell_addr_small: "i < 102400 \<Longrightarrow> cell_addr m i = mem_base m + of_nat i * 4096"
  by (simp add: cell_addr_def)

lemma malloc_one:
  assumes "cells_heap base {..<n} blocks h" "n < 102400" "length blocks < 256"
    and "cells_for (len * ucast r) = 1" "0 < r" "r \<le> 4" "base + of_nat n * 4096 \<noteq> 0"
  shows "\<exists>h'. hedged_malloc len r h = (base + of_nat n * 4096, h')
    \<and> cells_heap base {..<Suc n} (blocks @ [(n, len, r)]) h' \<and> read_count (allocations h' (length blocks)) = 0
    \<and> read_latency_total_ns (allocations h' (length blocks)) = 0"
proof -
  have h: "mem_base (heap_mem h) = base" "used_cells (heap_mem h) = {..<n}" "allocation_count h = length blocks"
    using assms(1) by (simp_all add: cells_heap_def)
  note t = tissue_first_free [OF h(2) assms(2,4), unfolded cell_addr_small [OF assms(2)] h(1)]
  have u: "used_cells (heap_mem h\<lparr> cell_bitmap := set_cell_bit n (cell_bitmap (heap_mem h)) \<rparr>) = {..<Suc n}"
    using h(2) assms(2) by (auto simp: used_cells_def set_eq_iff less_Suc_eq)
  have "\<not> r = 0" "\<not> r > HEDGED_MALLOC_REPLICA_COUNT" using assms(5,6) by (auto simp: oo_defs)
  then have "hedged_malloc len r h = (base + of_nat n * 4096, h\<lparr> heap_mem := heap_mem h\<lparr> cell_bitmap := set_cell_bit n (cell_bitmap (heap_mem h)) \<rparr>,
      allocations := (allocations h)(length blocks := \<lparr> base_address = base + of_nat n * 4096, allocation_size = len,
         replica_count = r, read_latency_total_ns = 0, read_count = 0 \<rparr>), allocation_count := length blocks + 1 \<rparr>)"
    using assms(3,7) h(3) by (simp add: hedged_malloc_def t HEDGED_MALLOC_MAX_ALLOCATIONS_def)
  then show ?thesis
    using assms u h by (auto simp: cells_heap_def nth_append less_Suc_eq)
qed

lemma malloc_null:
  assumes "cells_heap 0 {} [] h" "cells_for (len * ucast r) = 1" "0 < r" "r \<le> 4"
  shows "\<exists>h'. hedged_malloc len r h = (0, h') \<and> cells_heap 0 {..<1} [] h'"
proof -
  have h: "mem_base (heap_mem h) = 0" "used_cells (heap_mem h) = {..<0}" "allocation_count h = 0"
    using assms(1) by (simp_all add: cells_heap_def)
  have u: "used_cells (heap_mem h\<lparr> cell_bitmap := set_cell_bit 0 (cell_bitmap (heap_mem h)) \<rparr>) = {..<1}"
    using h(2) by (auto simp: used_cells_def set_eq_iff)
  have "\<not> r = 0" "\<not> r > HEDGED_MALLOC_REPLICA_COUNT" using assms(3,4) by (auto simp: oo_defs)
  then show ?thesis
    using tissue_first_free [OF h(2) _ assms(2)] u h
    by (auto simp: hedged_malloc_def HEDGED_MALLOC_MAX_ALLOCATIONS_def cell_addr_small cells_heap_def)
qed

text \<open>The block at an address, as every operation finds it.\<close>

lemma cell_index_small:
  assumes "k < 102400"
  shows "cell_index m (mem_base m + of_nat k * 4096) = k"
proof -
  have "region_ok (m\<lparr> mem_base := 1 \<rparr>)" by (simp add: region_ok_def)
  from cell_index_addr [OF this assms] show ?thesis
    unfolding cell_index_def cell_addr_small [OF assms] by (simp only: bio_mem.simps add_diff_cancel_left')
qed

lemma cell_offset_inj:
  assumes "base + of_nat k * 4096 = base + (of_nat j * 4096 :: u64)" "k < 102400" "j < 102400"
  shows "k = j"
proof -
  obtain m :: bio_mem where m: "mem_base m = base" by (metis bio_mem.select_convs(1))
  from assms(1) have "cell_index m (mem_base m + of_nat k * 4096) = cell_index m (mem_base m + of_nat j * 4096)"
    by (simp only: m)
  then show ?thesis by (simp only: cell_index_small [OF assms(2)] cell_index_small [OF assms(3)])
qed

lemma block_at:
  assumes "cells_heap base used blocks h" "distinct (map fst blocks)" "i < length blocks" "blocks ! i = (k, len, r)"
  shows "lookup_allocation (base + of_nat k * 4096) h = Some i" "k < 102400" "cells_for (len * ucast r) = 1"
    "base_address (allocations h i) = base + of_nat k * 4096" "allocation_size (allocations h i) = len"
    "replica_count (allocations h i) = r"
proof -
  have b: "case blocks ! j of (k, len, r) \<Rightarrow> k < 102400 \<and> cells_for (len * ucast r) = 1
      \<and> base_address (allocations h j) = base + of_nat k * 4096 \<and> allocation_size (allocations h j) = len
      \<and> replica_count (allocations h j) = r" if "j < length blocks" for j
    using assms(1) that by (simp add: cells_heap_def)
  from b [OF assms(3)] assms(4) show bi: "k < 102400" "cells_for (len * ucast r) = 1"
    "base_address (allocations h i) = base + of_nat k * 4096" "allocation_size (allocations h i) = len"
    "replica_count (allocations h i) = r" by simp_all
  have c: "allocation_count h = length blocks" using assms(1) by (simp add: cells_heap_def)
  have one: "j = i" if "j < length blocks" "base_address (allocations h j) = base + of_nat k * 4096" for j
  proof -
    obtain k' len' r' where j: "blocks ! j = (k', len', r')" by (metis prod_cases3)
    with b [OF that(1)] that(2) bi(1) have "k' = k" by (auto intro: cell_offset_inj)
    with j assms(2-4) that(1) show ?thesis
      using nth_eq_iff_index_eq [of "map fst blocks" j i] by simp
  qed
  show "lookup_allocation (base + of_nat k * 4096) h = Some i"
  proof (cases "lookup_allocation (base + of_nat k * 4096) h")
    case None
    with bi(3) assms(3) show ?thesis by (auto simp: lookup_allocation_def c find_allocation_None)
  next
    case (Some j)
    from lookup_Some [OF this] c have "j < length blocks" "base_address (allocations h j) = base + of_nat k * 4096" by simp_all
    with one Some show ?thesis by simp
  qed
qed

lemma base_le: "unat base + 419430400 < 18446744073709551616 \<Longrightarrow> k < 102400 \<Longrightarrow> base \<le> base + (of_nat k * 4096 :: u64)"
  using cell_addr_ge [of "\<lparr> mem_base = base, mem_total = 0, cell_bitmap = \<lambda>_. 0, phys = \<lambda>_. 0 \<rparr>" k]
  by (cases "base = 0") (simp_all add: cell_addr_small region_ok_def)

lemma free_one:
  assumes "cells_heap base used blocks h" "distinct (map fst blocks)" "i < length blocks" "blocks ! i = (k, len, r)"
    and "base + of_nat k * 4096 \<noteq> 0"
  shows "cells_heap base (used - {k}) (butlast (blocks[i := last blocks])) (hedged_free (base + of_nat k * 4096) h)"
proof -
  let ?p = "base + of_nat k * 4096" and ?m = "heap_mem h"
  note b = block_at [OF assms(1-4)]
  have h: "mem_base ?m = base" "unat base + 419430400 < 18446744073709551616" "used_cells ?m = used"
    "allocation_count h = length blocks" using assms(1) by (simp_all add: cells_heap_def)
  have "[k..<u32_add k 1] = [k]" using b(2) by simp
  then have a: "bio_apoptosis ?p (len * ucast r) ?m = purge_step k ?m"
    using base_le [OF h(2) b(2)] cell_index_small [OF b(2), of ?m]
    by (simp add: bio_apoptosis_def bio_purge_infected_tissue_def h(1) b(3))
  have u: "used_cells (purge_step k ?m) = used - {k}" "mem_base (purge_step k ?m) = base"
    using h(1,3) b(2) by (auto simp: purge_step_def BITMAP_MAX_CELLS_def used_cells_def)
  have f: "hedged_free ?p h = h\<lparr> heap_mem := purge_step k ?m,
      allocations := (if i < length blocks - 1 then (allocations h)(i := allocations h (length blocks - 1)) else allocations h),
      allocation_count := length blocks - 1 \<rparr>"
    using assms(5) by (simp add: hedged_free_def b(1,5,6) a h(4) Let_def)
  have ne: "blocks \<noteq> []" using assms(3) by auto
  have "butlast (blocks[i := last blocks]) ! j = (if j = i then last blocks else blocks ! j)" if "j < length blocks - 1" for j
    using that by (simp add: nth_butlast nth_list_update)
  then show ?thesis
    using assms(1) u h(2) ne by (auto simp: cells_heap_def f last_conv_nth)
qed

section \<open>Replication and reads on one block\<close>

definition block_holds :: "nat \<Rightarrow> u8 list \<Rightarrow> u64 \<Rightarrow> u32 \<Rightarrow> hedged_heap \<Rightarrow> bool" where
  "block_holds i data lat count h \<longleftrightarrow> mem_read (base_address (allocations h i)) (length data) (phys (heap_mem h)) = data
     \<and> read_latency_total_ns (allocations h i) = lat \<and> read_count (allocations h i) = count"

lemma replicate_one:
  assumes "cells_heap base used blocks h" "distinct (map fst blocks)" "i < length blocks" "blocks ! i = (k, len, r)"
    and "base + of_nat k * 4096 \<noteq> 0" "length data \<le> unat len" "unat r * unat len < 18446744073709551616" "0 < r"
  shows "\<exists>h'. hedged_replicate_data (base + of_nat k * 4096) data h = (0, h') \<and> cells_heap base used blocks h'
    \<and> block_holds i data (read_latency_total_ns (allocations h i)) (read_count (allocations h i)) h'"
proof -
  let ?p = "base + of_nat k * 4096"
  note b = block_at [OF assms(1-4)]
  let ?phys = "fold (\<lambda>j. mem_write (?p + of_nat j * len) data) [0..<unat r] (phys (heap_mem h))"
  have d: "hedged_replicate_data ?p data h = (0, h\<lparr> heap_mem := (heap_mem h)\<lparr> phys := ?phys \<rparr> \<rparr>)"
    using assms(5,6) by (simp add: hedged_replicate_data_def b replica_at_def Let_def)
  have "0 < unat r" using assms(8) by (simp add: word_less_nat_alt)
  from replicas_read_back [OF assms(6) this assms(7)]
  have "mem_read ?p (length data) ?phys = data" by (intro nth_equalityI) (simp_all add: mem_read_def)
  then show ?thesis
    using assms(1) by (simp add: d cells_heap_def block_holds_def b(4) used_cells_def)
qed

lemma read_one:
  assumes "cells_heap base used blocks h" "distinct (map fst blocks)" "i < length blocks" "blocks ! i = (k, len, r)"
    and "base + of_nat k * 4096 \<noteq> 0" "n \<le> len" "0 < r" "length data = unat n" "block_holds i data lat count h"
  shows "\<exists>h'. hedged_read (base + of_nat k * 4096) n h = (Some data, h') \<and> cells_heap base used blocks h'
    \<and> block_holds i data (lat + 80) (count + 1) h'"
proof -
  note b = block_at [OF assms(1-4)]
  have r: "0 < unat r" using assms(7) by (simp add: word_less_nat_alt)
  have m: "mem_read (base + of_nat k * 4096) (unat n) (phys (heap_mem h)) = data"
    using assms(8,9) by (simp add: block_holds_def b(4))
  have n: "\<not> len < n" using assms(6) by simp
  let ?h = "h\<lparr> allocations := (allocations h)(i := (allocations h i)\<lparr> read_latency_total_ns := lat + 80,
    read_count := count + 1 \<rparr>) \<rparr>"
  have e: "hedged_read (base + of_nat k * 4096) n h = (Some data, ?h)"
    using assms(5,9) by (simp add: hedged_read_def b best_is_first [OF r] n m replica_at_def block_holds_def Let_def)
  have "block_holds i data (lat + 80) (count + 1) ?h"
    using assms(9) by (simp add: block_holds_def)
  moreover have "cells_heap base used blocks ?h" using assms(1) by (auto simp: cells_heap_def split: prod.splits)
  ultimately show ?thesis using e by blast
qed

lemma read_many:
  assumes "distinct (map fst blocks)" "i < length blocks" "blocks ! i = (k, len, r)" "base + of_nat k * 4096 \<noteq> 0"
    and "n \<le> len" "0 < r" "length data = unat n"
  shows "cells_heap base used blocks h \<Longrightarrow> block_holds i data lat count h \<Longrightarrow>
    \<exists>h'. ((\<lambda>h. snd (hedged_read (base + of_nat k * 4096) n h)) ^^ j) h = h' \<and> cells_heap base used blocks h'
      \<and> block_holds i data (lat + of_nat j * 80) (count + of_nat j) h'"
proof (induction j)
  case (Suc j)
  then obtain h1 where h1: "((\<lambda>h. snd (hedged_read (base + of_nat k * 4096) n h)) ^^ j) h = h1"
    "cells_heap base used blocks h1" "block_holds i data (lat + of_nat j * 80) (count + of_nat j) h1" by blast
  from read_one [OF h1(2) assms(1-7) h1(3)] h1(1) show ?case by (auto simp: algebra_simps)
qed simp

section \<open>The four tests\<close>

lemma one_cell:
  "cells_for (256 * ucast (4 :: u32)) = 1" "cells_for (64 * ucast (4 :: u32)) = 1"
  "cells_for (128 * ucast (4 :: u32)) = 1" "cells_for (64 * ucast (2 :: u32)) = 1"
  "cells_for (256 * ucast (3 :: u32)) = 1" "cells_for (512 * ucast (4 :: u32)) = 1"
  by (simp_all add: cells_for_def CELL_SIZE_def)

lemma first_cells_minus: "{..<Suc n} - {n} = {..<n}"
  by auto

lemma malloc_first:
  assumes "cells_heap base {..<n} [] h" "n < 100" "cells_for (len * ucast r) = 1" "0 < r" "r \<le> 4"
    and "base + of_nat n * 4096 \<noteq> 0"
  obtains h' where "hedged_malloc len r h = (base + of_nat n * 4096, h')" "cells_heap base {..<Suc n} [(n, len, r)] h'"
    "read_count (allocations h' 0) = 0" "read_latency_total_ns (allocations h' 0) = 0"
  using malloc_one [OF assms(1) _ _ assms(3-6)] assms(2) by auto

lemma free_only:
  "cells_heap base {..<Suc n} [(n, len, r)] h \<Longrightarrow> base + of_nat n * 4096 \<noteq> 0 \<Longrightarrow>
    cells_heap base {..<n} [] (hedged_free (base + of_nat n * 4096) h)"
  using free_one [of base "{..<Suc n}" "[(n, len, r)]" h 0 n len r] by (simp add: first_cells_minus)

lemma basic_passes:
  assumes "cells_heap base {..<n} [] h" "n < 100" "base + of_nat n * 4096 \<noteq> 0"
  shows "\<exists>h'. test_basic_allocation h = (True, h') \<and> cells_heap base {..<n} [] h'"
proof -
  obtain h1 where h1: "hedged_malloc 256 4 h = (base + of_nat n * 4096, h1)" "cells_heap base {..<Suc n} [(n, 256, 4)] h1"
    using malloc_first [OF assms(1,2) one_cell(1) _ _ assms(3)] by auto
  then show ?thesis using free_only [OF h1(2) assms(3)] assms(3) by (simp add: test_basic_allocation_def)
qed

lemma test_pattern_length: "length test_pattern = 64"
  by (simp add: test_pattern_def)

lemma replication_passes:
  assumes "cells_heap base {..<n} [] h" "n < 100" "base + of_nat n * 4096 \<noteq> 0"
  shows "\<exists>h'. test_replication_and_read h = (True, h') \<and> cells_heap base {..<n} [] h'"
proof -
  let ?p = "base + of_nat n * 4096"
  obtain h1 where h1: "hedged_malloc 64 4 h = (?p, h1)" "cells_heap base {..<Suc n} [(n, 64, 4)] h1"
    using malloc_first [OF assms(1,2) one_cell(2) _ _ assms(3)] by auto
  obtain h2 t c where h2: "hedged_replicate_data ?p test_pattern h1 = (0, h2)"
    "cells_heap base {..<Suc n} [(n, 64, 4)] h2" "block_holds 0 test_pattern t c h2"
    using replicate_one [OF h1(2), of 0 n 64 4 test_pattern] assms(3) by (auto simp: test_pattern_length)
  obtain h3 where h3: "hedged_read ?p 64 h2 = (Some test_pattern, h3)" "cells_heap base {..<Suc n} [(n, 64, 4)] h3"
    using read_one [OF h2(2) _ _ _ assms(3) _ _ _ h2(3), of 64 4 64] by (auto simp: test_pattern_length)
  show ?thesis using free_only [OF h3(2) assms(3)] assms(3)
    by (simp add: test_replication_and_read_def h1(1) h2(1) h3(1))
qed

lemma statistics_passes:
  assumes "cells_heap base {..<n} [] h" "n < 100" "base + of_nat n * 4096 \<noteq> 0"
  shows "\<exists>h'. test_read_statistics h = (Some (80, 10), h') \<and> cells_heap base {..<n} [] h'"
proof -
  let ?p = "base + of_nat n * 4096" and ?b = "[(n, 128, 4)]"
  obtain h1 where h1: "hedged_malloc 128 4 h = (?p, h1)" "cells_heap base {..<Suc n} ?b h1"
    "read_count (allocations h1 0) = 0" "read_latency_total_ns (allocations h1 0) = 0"
    using malloc_first [OF assms(1,2) one_cell(3) _ _ assms(3)] by auto
  obtain h2 where h2: "hedged_replicate_data ?p (replicate 128 0xAA) h1 = (0, h2)" "cells_heap base {..<Suc n} ?b h2"
    "block_holds 0 (replicate 128 0xAA) 0 0 h2"
    using replicate_one [OF h1(2), of 0 n 128 4 "replicate 128 0xAA"] assms(3) h1(3,4) by auto
  define h3 where "h3 = ((\<lambda>h. snd (hedged_read ?p 128 h)) ^^ 10) h2"
  have h3: "cells_heap base {..<Suc n} ?b h3" "block_holds 0 (replicate 128 0xAA) 800 10 h3"
    using read_many [of ?b 0 n 128 4 base 128 "replicate 128 0xAA", OF _ _ _ assms(3) _ _ _ h2(2,3), of 10]
    by (simp_all add: h3_def)
  have "lookup_allocation ?p h3 = Some 0" using block_at(1) [OF h3(1), of 0 n 128 4] by simp
  then have "hedged_get_stats ?p h3 = Some (80, 10)"
    using h3(2) assms(3) by (simp add: hedged_get_stats_def block_holds_def)
  then show ?thesis using free_only [OF h3(1) assms(3)] assms(3)
    by (simp add: test_read_statistics_def h1(1) h2(1) h3_def [symmetric] Let_def)
qed

lemma address_nonzero:
  assumes "unat base + 419430400 < 18446744073709551616" "k < 102400" "base \<noteq> 0 \<or> 0 < k"
  shows "base + (of_nat k * 4096 :: u64) \<noteq> 0"
proof
  assume z: "base + (of_nat k * 4096 :: u64) = 0"
  with base_le [OF assms(1,2)] have "base = 0" by simp
  with z cell_offset_inj [of base k 0] assms(2,3) show False by simp
qed

lemma multiple_passes:
  assumes "cells_heap base {..<n} [] h" "n < 100" "base \<noteq> 0 \<or> 0 < n"
  shows "\<exists>h'. test_multiple_allocations h = (True, h') \<and> cells_heap base {..<n} [] h'"
proof -
  let ?p = "\<lambda>i. base + of_nat (n + i) * 4096"
  have "unat base + 419430400 < 18446744073709551616" using assms(1) by (simp add: cells_heap_def)
  then have nz: "i < 3 \<Longrightarrow> ?p i \<noteq> 0" for i using address_nonzero [of base "n + i"] assms(2,3) by simp
  obtain h1 where h1: "hedged_malloc 64 2 h = (?p 0, h1)" "cells_heap base {..<n + 1} [(n + 0, 64, 2)] h1"
    using malloc_one [OF assms(1) _ _ one_cell(4)] nz [of 0] assms(2) by auto
  obtain h2 where h2: "hedged_malloc 256 3 h1 = (?p 1, h2)"
    "cells_heap base {..<n + 2} [(n + 0, 64, 2), (n + 1, 256, 3)] h2"
    using malloc_one [OF h1(2) _ _ one_cell(5)] nz [of 1] assms(2) by auto
  have e: "Suc (n + 2) = n + 3" by simp
  obtain h3 where h3: "hedged_malloc 512 4 h2 = (?p 2, h3)"
    "cells_heap base {..<n + 3} [(n + 0, 64, 2), (n + 1, 256, 3), (n + 2, 512, 4)] h3"
    using malloc_one [OF h2(2) _ _ one_cell(6), unfolded e] nz [of 2] assms(2) by auto
  have f1: "cells_heap base ({..<n + 3} - {n + 0}) [(n + 2, 512, 4), (n + 1, 256, 3)] (hedged_free (?p 0) h3)"
    using free_one [OF h3(2), of 0 "n + 0" 64 2] nz [of 0] by simp
  have f2: "cells_heap base ({..<n + 3} - {n + 0} - {n + 1}) [(n + 2, 512, 4)] (hedged_free (?p 1) (hedged_free (?p 0) h3))"
    using free_one [OF f1, of 1 "n + 1" 256 3] nz [of 1] by simp
  have f3: "cells_heap base ({..<n + 3} - {n + 0} - {n + 1} - {n + 2}) []
      (hedged_free (?p 2) (hedged_free (?p 1) (hedged_free (?p 0) h3)))"
    using free_one [OF f2, of 0 "n + 2" 512 4] nz [of 2] by simp
  have "{..<n + 3} - {n + 0} - {n + 1} - {n + 2} = {..<n}" by auto
  with f3 have f3: "cells_heap base {..<n} [] (hedged_free (?p 2) (hedged_free (?p 1) (hedged_free (?p 0) h3)))" by simp
  have "\<not> (?p 0 = 0 \<or> ?p 1 = 0 \<or> ?p 2 = 0)" using nz [of 0] nz [of 1] nz [of 2] by simp
  with f3 show ?thesis
    unfolding test_multiple_allocations_def h1(1) h2(1) h3(1) Let_def prod.case by simp
qed

lemma later_tests_pass:
  assumes "cells_heap base {..<n} [] h" "n < 100" "base \<noteq> 0 \<or> 0 < n"
    and "test_basic_allocation h0 = (basic, h)"
  shows "\<exists>h'. hedged_tests h0 = ((basic, True, Some (80, 10), True), h') \<and> cells_heap base {..<n} [] h'"
proof -
  have "unat base + 419430400 < 18446744073709551616" using assms(1) by (simp add: cells_heap_def)
  then have nz: "base + of_nat n * 4096 \<noteq> 0" using address_nonzero [of base n] assms(2,3) by simp
  obtain h1 where h1: "test_replication_and_read h = (True, h1)" "cells_heap base {..<n} [] h1"
    using replication_passes [OF assms(1,2) nz] by blast
  obtain h2 where h2: "test_read_statistics h1 = (Some (80, 10), h2)" "cells_heap base {..<n} [] h2"
    using statistics_passes [OF h1(2) assms(2) nz] by blast
  from multiple_passes [OF h2(2) assms(2,3)] show ?thesis
    by (auto simp: hedged_tests_def assms(4) h1(1) h2(1))
qed

section \<open>Properties\<close>

text \<open>
  C21: The unit tests of the replicated blocks need an initialised memory and do not initialise it. On
  the zeroed statics of the process the first allocation succeeds at address 0, which is \<open>NULL\<close>: the
  first test prints FAIL, and its cell stays in use with no allocation to free it by. After
  \<open>bio_mem_init\<close> with a base other than 0 all four tests pass, ten reads cost 80 ns each on average,
  and every cell is free again.
\<close>

theorem hedged_tests_uninitialised:
  fixes p :: "u64 \<Rightarrow> u8"
  assumes "base \<noteq> 0" "unat base + 419430400 < 18446744073709551616"
  shows "(\<exists>h. hedged_tests (test_start p) = ((False, True, Some (80, 10), True), h)
      \<and> used_cells (heap_mem h) = {0} \<and> allocation_count h = 0)
    \<and> (\<exists>h. hedged_tests ((test_start p)\<lparr> heap_mem := bio_mem_init base size_in_bytes (heap_mem (test_start p)) \<rparr>)
        = ((True, True, Some (80, 10), True), h) \<and> used_cells (heap_mem h) = {} \<and> allocation_count h = 0)"
proof
  have "cells_heap 0 {} [] (test_start p)"
    by (auto simp: cells_heap_def test_start_def used_cells_def test_cell_bit_def)
  from malloc_null [OF this one_cell(1)] obtain h where h: "test_basic_allocation (test_start p) = (False, h)"
    "cells_heap 0 {..<1} [] h" by (auto simp: test_basic_allocation_def)
  from later_tests_pass [OF h(2) _ _ h(1)] show "\<exists>h. hedged_tests (test_start p) = ((False, True, Some (80, 10), True), h)
      \<and> used_cells (heap_mem h) = {0} \<and> allocation_count h = 0"
    by (auto simp: cells_heap_def)
next
  let ?h = "(test_start p)\<lparr> heap_mem := bio_mem_init base size_in_bytes (heap_mem (test_start p)) \<rparr>"
  have m: "mem_base (bio_mem_init base size_in_bytes m) = base" for m by (simp add: bio_mem_init_def)
  have c: "cells_heap base {..<0} [] ?h"
    using assms(2) by (simp add: cells_heap_def m) (simp add: test_start_def)
  obtain h where h: "test_basic_allocation ?h = (True, h)" "cells_heap base {..<0} [] h"
    using basic_passes [OF c] assms(1) by auto
  from later_tests_pass [OF h(2) _ _ h(1)] assms(1)
  show "\<exists>h. hedged_tests ?h = ((True, True, Some (80, 10), True), h) \<and> used_cells (heap_mem h) = {} \<and> allocation_count h = 0"
    by (auto simp: cells_heap_def)
qed

lemma hedged_tests_uninitialised_witness:
  "(\<exists>h. hedged_tests (test_start (\<lambda>_. 0)) = ((False, True, Some (80, 10), True), h) \<and> used_cells (heap_mem h) = {0})
   \<and> (\<exists>h. hedged_tests ((test_start (\<lambda>_. 0))\<lparr> heap_mem := bio_mem_init 0x100000 0x19000000 (heap_mem (test_start (\<lambda>_. 0))) \<rparr>)
        = ((True, True, Some (80, 10), True), h) \<and> used_cells (heap_mem h) = {})"
  using hedged_tests_uninitialised [of "0x100000" "\<lambda>_. 0" "0x19000000"] by auto

end
