(* ===== verification/Spec2Isabelle.thy ===== *)
theory Spec2Isabelle
  imports Control_Planes Kernel_Runs Hedged_Memory Instinct_Runs Bot_DNA_Facts Territory_Facts Vital_Recovery
    Self_Facts Guard_Facts Hud_Text Peripheral_Facts Driver_Facts Console_Lines Bot_Views Bot_Protocol Struct_Layouts
    Organ_Numbers Test_Replay Organism_Facts Bus_Interrupts
    Hedged_Test
begin

text \<open>
  The Operating Organism: a bare-metal system whose subsystems are called organs. The organs do
  not call each other; they publish globules on a shared ring buffer, the united bus, and pull
  what is addressed to them. This development models the C code of the organs, each from its
  source file, and proves what makes it correct, or shows in which states it is not.

  Parts and interactions. \<open>united-baremetal\<close> is the bus. \<open>control-planes\<close> holds the organ registry
  (health of each organ), the homeostasis mode derived from it and a control tick that combines
  three decision engines and sends telemetry; it publishes mode and organ signals on the bus.
  \<open>kernel-baremetal\<close> schedules organ tasks, and reads the bus in each heartbeat.
  \<open>memory-baremetal\<close> allocates cells of 4 kB with a bitmap, reports pressure on the bus, and builds
  a replicated heap on it. \<open>network-baremetal\<close> turns frames into globules. \<open>bot-baremetal\<close> is the
  immune system: threat levels with a transition matrix, an instinct layer of rules, agents with
  a hashed record (DNA), and a map of the territory they watch. \<open>vital-baremetal\<close> is the vital organ:
  a heartbeat that runs its layers (pain, energy, consciousness, dreams, synapses, aura, hormones, persistence
  and a small Forth) over one state. The smaller organs (identity, evolution, swarm, reflex,
  sense, proprioception, shadow, dream, regen, vocal) recognise the self, carry stimuli and guard the machine.
  \<open>desktop_display\<close> draws the desktop. \<open>drivers\<close> and \<open>engine/voice\<close> touch the hardware.

  Theories, in the order of their imports.

  \<^item> \<open>OO_Prelude\<close>: word types, \<open>uint32_t\<close> arithmetic on indices, ring arithmetic, the collections
    \<open>oo_defs\<close>, \<open>oo_inv\<close> and \<open>oo_flow\<close>. \<open>C_Bytes\<close>, \<open>C_Strings\<close>: little-endian words in buffers, printf numbers.
  \<^item> \<open>Contracts\<close>: the interfaces as locales. \<open>guarded_fsm\<close> (a level that moves along legal edges;
    interpreted on the homeostasis mode, the threat state and the consciousness), \<open>ring_log\<close> (a
    circular log keeps the latest entries; instinct history, territory anomalies, desktop events),
    \<open>polling\<close> (a wait for a status word; clock, serial port, keyboard, controllers)
    and \<open>bounded_pool\<close> (a pool filled to its capacity; agent patterns, synapse links, trusted
    signatures). \<open>Bus_Delivery\<close> adds \<open>mailbox\<close> (what is put is delivered once and in order).
  \<^item> \<open>United_Bus\<close> (\<open>united_bus.c\<close>: record \<open>united_bus\<close>, one definition per function, \<open>bus_step\<close> and
    \<open>bus_reachable\<close>), \<open>Bus_Delivery\<close> (refinement of the ring by a list of pending globules per
    organ), \<open>Bus_Faults\<close> (delivery, memory safety, barrier; divergence of \<open>united_bus_absorb\<close>),
    \<open>Bus_Interrupts\<close> (the pump as a machine with one step per statement, and interrupts between the steps; an absorb with interrupts at the tests of its loop).
  \<^item> \<open>Network_Lungs\<close> (\<open>respiration.c\<close>), \<open>Organ_Registry\<close> (\<open>oo_organ_state.c\<close>), \<open>Homeostasis_Mode\<close>
    (\<open>oo_homeostasis_mode.c\<close>), \<open>Control_Planes\<close> (\<open>reflex_engine.c\<close>, \<open>strategic_brain.c\<close>,
    \<open>organ_autonomy.c\<close>, \<open>control_tick.c\<close>, \<open>oo_telemetry.c\<close>).
  \<^item> \<open>Kernel_Scheduler\<close>, \<open>Kernel_Runs\<close> (\<open>oo_scheduler.c\<close>: the pool of tasks linked by slot numbers;
    walks over the list are \<open>partial_function\<close>s, total on well-formed lists).
  \<^item> \<open>Bio_Memory\<close> (\<open>bio_alloc.c\<close>: bitmap, memory as a function from addresses to bytes),
    \<open>Hedged_Memory\<close> (\<open>hedged_read.c\<close>, \<open>hedged_malloc.c\<close>).
  \<^item> \<open>Threat_State\<close> (\<open>threat_levels.h\<close>, \<open>threat_state.c\<close>), \<open>Instinct_Layer\<close>, \<open>Instinct_Runs\<close>
    (\<open>instinct_layer.c\<close>).
  \<^item> \<open>Sha256\<close> (the streaming hash of \<open>bot_dna.c\<close> against a one-shot specification), \<open>Bot_DNA\<close>,
    \<open>Bot_DNA_Facts\<close> (\<open>bot_dna.c\<close>), \<open>Territory_Map\<close>, \<open>Territory_Facts\<close> (\<open>territory_map.c\<close>).
  \<^item> \<open>Vital_State\<close> (the records of all vital files), \<open>Vital_Mind\<close> (consciousness, pain, epigenetics),
    \<open>Vital_Body\<close> (energy, homeostasis regulator, dreams, aura, hormones, clock), \<open>Vital_Synapse\<close>
    (\<open>synapse_network.c\<close>), \<open>Vital_Life\<close> (Forth, persistence, birth, \<open>life_loop.c\<close>); \<open>Vital_Facts\<close> (the
    invariant \<open>alive\<close>), \<open>Vital_Frame\<close> (locale \<open>vital_frame\<close>: what every operation of the vital organ
    keeps; interpreted on its core and on the bus), \<open>Vital_Calls\<close> (the functions of the organ that other
    code may call between beats, and what they all keep, \<open>hardy\<close>), \<open>Vital_Runs\<close> (the beat returns), \<open>Vital_Birth\<close> (all lives from birth),
    \<open>Vital_Recovery\<close> (convergence, conservation, the lesson that stops the heart).
  \<^item> \<open>Self_Organs\<close>, \<open>Self_Facts\<close> (\<open>self_recognition.c\<close>, \<open>mutation.c\<close>, \<open>collective.c\<close>), \<open>Reflex_Sense\<close>
    (\<open>spinal_cord.c\<close>, \<open>retina_and_touch.c\<close>), \<open>Guard_Organs\<close>, \<open>Guard_Facts\<close> (\<open>proprioception_stub.c\<close>,
    \<open>anti_forensics.c\<close>, \<open>dream_daemon.c\<close>, \<open>hotpatch.c\<close>, \<open>speaker_vocal.c\<close>).
  \<^item> \<open>Hud_Canvas\<close>, \<open>Hud_State\<close>, \<open>Hud_Layers\<close> (\<open>oo_hud_final.c\<close>, \<open>oo_soma_bridge.h\<close>: primitives; state,
    demo, serial bridge, keyboard; layers, frame, main loop), \<open>Hud_Drawing\<close> (lines, clipping),
    \<open>Hud_Frames\<close>, \<open>Hud_Facts\<close>, \<open>Hud_Serial\<close>.
  \<^item> \<open>Peripherals\<close>, \<open>Peripheral_Facts\<close> (\<open>nic_pci.c\<close>, \<open>drivers/pci.c\<close>, the keyboard map, \<open>oo_voice_state_writer.c\<close>),
    \<open>Drivers\<close>, \<open>Driver_Facts\<close> (the other files of \<open>drivers\<close>; a machine is a state of any type and a
    record of functions says what an access does), \<open>Vital_Alone\<close> (\<open>uefi_entry.c\<close>, \<open>united_bus_stub.c\<close>,
    \<open>oo_stubs.c\<close>, \<open>swarm_sync.c\<close>).
  \<^item> \<open>Console_Lines\<close> (\<open>oo_print\<close>, the serial port of the voice, the registers of the clock), \<open>Bot_Views\<close>
    (macros and printed lines of the bot), \<open>Hud_Text\<close> (lines of the desktop in arrays of fixed size).
  \<^item> \<open>C_Layout\<close> (size, alignment and offsets of C structures), \<open>Struct_Layouts\<close> (the structures whose
    bytes matter, with the sizes and offsets used by hashing, persistence and telemetry), \<open>Bot_Protocol\<close> (\<open>oo_protocol.h\<close>), \<open>Organ_Numbers\<close> (the identifiers of three headers,
    \<open>oo_module_index.h\<close>), \<open>Test_Replay\<close> (\<open>test_control_planes.c\<close>), \<open>Hedged_Test\<close>
    (\<open>test_hedged_malloc.c\<close>, which fails for want of an initialised memory).
  \<^item> The composition. \<open>Blood_Flow\<close>: the bus as any sequence of the organs' operations changes it, and the
    kinds of globules that can be on it. \<open>Whole_Organism\<close>: the record \<open>whole\<close> of the states of all
    organs that use the bus or the memory, \<open>perform\<close> with an equation for each of their functions that
    changes a state, the discipline \<open>proper\<close> of their callers, the states reachable from power on. The
    raw \<open>united_bus_pump\<close> is no call: the functions of the sources that call it are. \<open>Organism_Life\<close>, \<open>Organism_Facts\<close>: all invariants together, and what the organs do to each other.

  Correspondence. The static variables of a file are a record whose fields keep the C names; a
  function of the file is a definition of the same name that takes and returns the record (and
  the bus, the memory or the screen when it touches them). Output pointers are results,
  null-pointer and error returns are values. Counters and bit patterns are words of their width;
  array indices and quantities that guards keep in range are natural numbers, with \<open>uint32_t\<close>
  arithmetic written out where it can wrap. Hardware reads, addresses the linker chooses,
  uninitialised fields and functions of other languages (the Rust guardian) are parameters.

  Loops that may not end. \<open>absorb_loop\<close>, the walks of the scheduler, \<open>forth_run\<close>, the wait for the
  clock, the waits of the drivers, \<open>line_loop\<close> and \<open>halt_forever\<close> are partial functions whose value \<open>None\<close> means that the loop
  never ends; each has a theorem that says when it returns. A heartbeat is \<open>None\<close> as well when the
  code panics. No definition runs on fuel. Character arrays of the desktop are written by \<open>arr_put\<close>, under
  which a write past the end makes the list longer: the length shows an overrun.

  What the groups of lemmas show. Invariants: bus indices, registry, task list, heap,
  territory, all of vital life, thymus, desktop buffers, and all organs at once. Refinement: bus to queues, tissue
  allocation to first fit, instinct log to the recent events, the absorb under interrupts to the queue. Round trips: telemetry, hedged data,
  agents stored and loaded, reincarnation, hot patch, printed numbers on the serial line, escaped
  text of the voice bridge. Termination and liveness: heartbeats of kernel and vital organ, lines,
  dream rounds, recovery after pain. Where the code fails its purpose, a theorem exhibits the
  state: the diverging absorb, the cyclic task list, the lesson that stops the heart, the evolution
  that never learns, the serial bridge that is never seen, the immune organ that is never alerted, the
  globule that an interrupt destroys,
  the keyboard that stops the kernel.

  Not modelled: the console output that no lemma needs; the calls of the firmware behind
  \<open>ConOut\<close>, the graphics protocol and the keyboard; prototypes without code, as in \<open>nic.h\<close>; the benchmark
  of the instinct layer, which only measures; and the parts in Rust, assembly and Python (guardian, immune agents, adaptive
  layer, colony server, previews), which are separate programs or parameters of the model. The
  composed organism leaves out the bot, the desktop and the drivers, which do not use the bus, and runs
  one call at a time: interrupts inside a call are modelled for the pump and, at the tests of its loop, for the absorb, in \<open>Bus_Interrupts\<close>.
\<close>

end
